(* ===== verification/Idea_Prelude.thy ===== *)
theory Idea_Prelude
  imports Complex_Main
begin

text \<open>
  What every component of the development shares: the exceptions the Python code raises, the
  two shapes of an operation that can raise (one that only reads, one that also changes an
  object), and the rules by which an invariant of the object is carried through the second
  shape. A Python exception does not undo the assignments made before it, so an operation on
  an object returns its outcome and the object, whichever the outcome is.
\<close>

named_theorems act_simps \<open>evaluation of the state-and-exception combinators\<close>
named_theorems preserves_intros \<open>an invariant is carried through an operation\<close>

section \<open>Exceptions and results\<close>

text \<open>\<open>Blocks\<close> is no exception: it is the outcome of a call that waits for ever.\<close>

datatype exc =
    SocaException string
  | ClientError string
  | QueueEmpty
  | JobProvisioningQueueEmpty
  | TypeError
  | ValueError
  | OverflowError
  | ZeroDivisionError
  | AttributeError
  | KeyError
  | IndexError
  | ValidationError
  | Blocks

type_synonym 'a res = "exc + 'a"

definition bindE :: "'a res \<Rightarrow> ('a \<Rightarrow> 'b res) \<Rightarrow> 'b res" where
  "bindE m f = (case m of Inl e \<Rightarrow> Inl e | Inr x \<Rightarrow> f x)"

lemma bindE_simps [simp]:
  "bindE (Inl e) f = Inl e"
  "bindE (Inr x) f = f x"
  by (simp_all add: bindE_def)

lemma bindE_Inr_iff: "bindE m f = Inr y \<longleftrightarrow> (\<exists>x. m = Inr x \<and> f x = Inr y)"
  by (cases m) auto

lemma bindE_assoc: "bindE (bindE m f) g = bindE m (\<lambda>x. bindE (f x) g)"
  by (cases m) auto

text \<open>A Python for loop that builds a list, stopping at the first exception.\<close>

fun traverseE :: "('a \<Rightarrow> 'b res) \<Rightarrow> 'a list \<Rightarrow> 'b list res" where
  "traverseE f [] = Inr []"
| "traverseE f (x # xs) = bindE (f x) (\<lambda>y. bindE (traverseE f xs) (\<lambda>ys. Inr (y # ys)))"

lemma traverseE_Inr_length: "traverseE f xs = Inr ys \<Longrightarrow> length ys = length xs"
  by (induction xs arbitrary: ys) (auto simp: bindE_Inr_iff)

lemma traverseE_total: "(\<And>x. x \<in> set xs \<Longrightarrow> f x = Inr (g x)) \<Longrightarrow> traverseE f xs = Inr (map g xs)"
  by (induction xs) auto

text \<open>A Python for loop over an accumulator.\<close>

fun foldE :: "('a \<Rightarrow> 'b \<Rightarrow> 'b res) \<Rightarrow> 'a list \<Rightarrow> 'b \<Rightarrow> 'b res" where
  "foldE f [] a = Inr a"
| "foldE f (x # xs) a = bindE (f x a) (foldE f xs)"

lemma foldE_invariant:
  assumes "foldE f xs a = Inr b" and "I a"
    and "\<And>x a a'. x \<in> set xs \<Longrightarrow> I a \<Longrightarrow> f x a = Inr a' \<Longrightarrow> I a'"
  shows "I b"
  using assms by (induction xs arbitrary: a) (auto simp: bindE_Inr_iff)

lemma foldE_total: "(\<And>x a. x \<in> set xs \<Longrightarrow> f x a = Inr (g x a)) \<Longrightarrow> foldE f xs a = Inr (fold g xs a)"
  by (induction xs arbitrary: a) auto

definition required :: "exc \<Rightarrow> 'a option \<Rightarrow> 'a res" where
  "required e v = (case v of None \<Rightarrow> Inl e | Some x \<Rightarrow> Inr x)"

lemma required_simps [simp]: "required e None = Inl e" "required e (Some x) = Inr x"
  by (simp_all add: required_def)

lemma required_Inr_iff [simp]: "required e v = Inr x \<longleftrightarrow> v = Some x"
  by (cases v) auto

section \<open>Operations on an object\<close>

type_synonym ('s, 'a) act = "'s \<Rightarrow> 'a res \<times> 's"

definition ret :: "'a \<Rightarrow> ('s, 'a) act" where
  "ret x = (\<lambda>s. (Inr x, s))"

definition throw :: "exc \<Rightarrow> ('s, 'a) act" where
  "throw e = (\<lambda>s. (Inl e, s))"

definition gets :: "('s \<Rightarrow> 'a) \<Rightarrow> ('s, 'a) act" where
  "gets f = (\<lambda>s. (Inr (f s), s))"

definition reads :: "('s \<Rightarrow> 'a res) \<Rightarrow> ('s, 'a) act" where
  "reads f = (\<lambda>s. (f s, s))"

definition modify :: "('s \<Rightarrow> 's) \<Rightarrow> ('s, unit) act" where
  "modify f = (\<lambda>s. (Inr (), f s))"

definition bindS :: "('s, 'a) act \<Rightarrow> ('a \<Rightarrow> ('s, 'b) act) \<Rightarrow> ('s, 'b) act" where
  "bindS m f = (\<lambda>s. case m s of (Inl e, s') \<Rightarrow> (Inl e, s') | (Inr x, s') \<Rightarrow> f x s')"

definition thenS :: "('s, 'a) act \<Rightarrow> ('s, 'b) act \<Rightarrow> ('s, 'b) act" where
  "thenS m k = bindS m (\<lambda>_. k)"

text \<open>\<open>try: m except: h e\<close>; the handler re-raises what it does not handle.\<close>

definition catchS :: "('s, 'a) act \<Rightarrow> (exc \<Rightarrow> ('s, 'a) act) \<Rightarrow> ('s, 'a) act" where
  "catchS m h = (\<lambda>s. case m s of (Inl e, s') \<Rightarrow> h e s' | (Inr x, s') \<Rightarrow> (Inr x, s'))"

text \<open>\<open>try: m finally: k\<close>: an exception of \<open>k\<close> replaces the outcome of \<open>m\<close>.\<close>

definition finallyS :: "('s, 'a) act \<Rightarrow> ('s, unit) act \<Rightarrow> ('s, 'a) act" where
  "finallyS m k = (\<lambda>s. case m s of (r, s') \<Rightarrow>
     (case k s' of (Inl e, s'') \<Rightarrow> (Inl e, s'') | (Inr _, s'') \<Rightarrow> (r, s'')))"

fun forS :: "('a \<Rightarrow> ('s, unit) act) \<Rightarrow> 'a list \<Rightarrow> ('s, unit) act" where
  "forS f [] = ret ()"
| "forS f (x # xs) = thenS (f x) (forS f xs)"

text \<open>A loop that collects the elements for which the (effectful) test answers True.\<close>

fun filterS :: "('a \<Rightarrow> ('s, bool) act) \<Rightarrow> 'a list \<Rightarrow> ('s, 'a list) act" where
  "filterS f [] = ret []"
| "filterS f (x # xs) = bindS (f x) (\<lambda>b. bindS (filterS f xs) (\<lambda>ys. ret (if b then x # ys else ys)))"

lemma act_apply [simp, act_simps]:
  "ret x s = (Inr x, s)"
  "throw e s = (Inl e, s)"
  "gets f s = (Inr (f s), s)"
  "reads g s = (g s, s)"
  "modify h s = (Inr (), h s)"
  by (simp_all add: ret_def throw_def gets_def reads_def modify_def)

lemma bindS_apply [act_simps]:
  "bindS m f s = (case m s of (Inl e, s') \<Rightarrow> (Inl e, s') | (Inr x, s') \<Rightarrow> f x s')"
  by (simp add: bindS_def)

lemma bindS_prim [simp]:
  "bindS (ret x) f s = f x s"
  "bindS (throw e) f s = (Inl e, s)"
  "bindS (gets g) f s = f (g s) s"
  "bindS (modify h) k s = k () (h s)"
  by (simp_all add: bindS_def)

lemma bindS_reads: "bindS (reads g) f s = (case g s of Inl e \<Rightarrow> (Inl e, s) | Inr x \<Rightarrow> f x s)"
  by (simp add: bindS_def)

lemma bindS_reads_simps [simp]:
  "g s = Inl e \<Longrightarrow> bindS (reads g) f s = (Inl e, s)"
  "g s = Inr x \<Longrightarrow> bindS (reads g) f s = f x s"
  by (simp_all add: bindS_reads)

lemma bindS_eqI:
  "m s = (Inr x, s') \<Longrightarrow> bindS m f s = f x s'"
  "m s = (Inl e, s') \<Longrightarrow> bindS m f s = (Inl e, s')"
  by (simp_all add: bindS_def)

lemma thenS_eqI:
  "m s = (Inr x, s') \<Longrightarrow> thenS m k s = k s'"
  "m s = (Inl e, s') \<Longrightarrow> thenS m k s = (Inl e, s')"
  by (simp_all add: thenS_def bindS_def)

lemma thenS_apply [act_simps]:
  "thenS m k s = (case m s of (Inl e, s') \<Rightarrow> (Inl e, s') | (Inr x, s') \<Rightarrow> k s')"
  by (simp add: thenS_def bindS_def)

section \<open>Invariants of operations\<close>

text \<open>
  \<open>preserves P m\<close>: started in an object that satisfies \<open>P\<close>, the operation leaves one that does,
  whether it returns or raises. The rules follow the combinators, so the proof that an
  operation preserves \<open>P\<close> is a walk along its definition.
\<close>

definition preserves :: "('s \<Rightarrow> bool) \<Rightarrow> ('s, 'a) act \<Rightarrow> bool" where
  "preserves P m \<longleftrightarrow> (\<forall>s. P s \<longrightarrow> P (snd (m s)))"

lemma preservesD: "preserves P m \<Longrightarrow> P s \<Longrightarrow> m s = (r, s') \<Longrightarrow> P s'"
  by (force simp: preserves_def)

lemma preserves_prim [preserves_intros]:
  "preserves P (ret x)" "preserves P (throw e)" "preserves P (gets f)" "preserves P (reads g)"
  by (simp_all add: preserves_def)

lemma preserves_modify [preserves_intros]: "(\<And>s. P s \<Longrightarrow> P (f s)) \<Longrightarrow> preserves P (modify f)"
  by (simp add: preserves_def)

lemma preserves_bindS [preserves_intros]:
  "preserves P m \<Longrightarrow> (\<And>x. preserves P (f x)) \<Longrightarrow> preserves P (bindS m f)"
  by (force simp: preserves_def bindS_def split: prod.splits sum.splits)

lemma preserves_thenS [preserves_intros]:
  "preserves P m \<Longrightarrow> preserves P k \<Longrightarrow> preserves P (thenS m k)"
  by (simp add: thenS_def preserves_bindS)

lemma preserves_catchS [preserves_intros]:
  "preserves P m \<Longrightarrow> (\<And>e. preserves P (h e)) \<Longrightarrow> preserves P (catchS m h)"
  by (force simp: preserves_def catchS_def split: prod.splits sum.splits)

lemma preserves_finallyS [preserves_intros]:
  "preserves P m \<Longrightarrow> preserves P k \<Longrightarrow> preserves P (finallyS m k)"
  by (force simp: preserves_def finallyS_def split: prod.splits sum.splits)

lemma preserves_if [preserves_intros]:
  "(b \<Longrightarrow> preserves P m) \<Longrightarrow> (\<not> b \<Longrightarrow> preserves P k) \<Longrightarrow> preserves P (if b then m else k)"
  by simp

lemma preserves_option [preserves_intros]:
  "preserves P m \<Longrightarrow> (\<And>x. preserves P (f x)) \<Longrightarrow>
   preserves P (case v of None \<Rightarrow> m | Some x \<Rightarrow> f x)"
  by (simp split: option.split)

lemma preserves_forS [preserves_intros]: "(\<And>x. preserves P (f x)) \<Longrightarrow> preserves P (forS f xs)"
  by (induction xs) (auto intro!: preserves_intros)

lemma preserves_filterS [preserves_intros]: "(\<And>x. preserves P (f x)) \<Longrightarrow> preserves P (filterS f xs)"
  by (induction xs) (auto intro!: preserves_intros)

lemma preserves_gets: "(\<And>s. P s \<Longrightarrow> preserves P (f (g s))) \<Longrightarrow> preserves P (bindS (gets g) f)"
  by (auto simp: preserves_def)

lemma preserves_reads: "(\<And>x s. P s \<Longrightarrow> r s = Inr x \<Longrightarrow> preserves P (f x)) \<Longrightarrow> preserves P (bindS (reads r) f)"
  by (auto simp: preserves_def bindS_reads split: sum.split)

lemma preserves_forS_mem: "(\<And>x. x \<in> set xs \<Longrightarrow> preserves P (f x)) \<Longrightarrow> preserves P (forS f xs)"
  by (induction xs) (auto intro!: preserves_intros)

lemma preserves_case_prod: "(\<And>a b. x = (a, b) \<Longrightarrow> preserves P (f a b)) \<Longrightarrow> preserves P (case x of (a, b) \<Rightarrow> f a b)"
  by (cases x) simp

section \<open>Lists and options\<close>

lemma not_None_Some [simp]: "v \<noteq> None \<Longrightarrow> Some (the v) = v"
  by auto

definition opt_or :: "'a option \<Rightarrow> 'a \<Rightarrow> 'a" where
  "opt_or v d = (case v of None \<Rightarrow> d | Some x \<Rightarrow> x)"

lemma opt_or_simps [simp]: "opt_or None d = d" "opt_or (Some x) d = x"
  by (simp_all add: opt_or_def)

text \<open>\<open>a if a is not None else b\<close> on optional values.\<close>

definition opt_else :: "'a option \<Rightarrow> 'a option \<Rightarrow> 'a option" where
  "opt_else a b = (case a of None \<Rightarrow> b | Some x \<Rightarrow> Some x)"

lemma opt_else_simps [simp]: "opt_else None b = b" "opt_else (Some x) b = Some x"
  by (simp_all add: opt_else_def)

end
