(* ===== verification/Py_Float.thy ===== *)
theory Py_Float
  imports Idea_Prelude "HOL-Library.Log_Nat"
begin

text \<open>
  Python's \<open>float\<close>: IEEE 754 binary64 with round-half-even, as a rational number or one of the
  three special values. Every arithmetic operation rounds its exact result once, as the
  hardware does; the quotient of two \<open>int\<close>s is the correctly rounded quotient, and \<open>round(x, n)\<close>
  rounds the exact value of \<open>x\<close> to decimals and then to binary64. Zero has one value here: no
  modelled code divides by a float zero of a given sign (Python raises for both) or prints one.
\<close>

section \<open>Rounding\<close>

datatype pyfloat = Fin rat | PInf | NInf | NaN

definition round_half_even :: "rat \<Rightarrow> int" where
  "round_half_even x =
     (let f = \<lfloor>x\<rfloor>; d = x - of_int f in
      if d < 1/2 then f else if d > 1/2 then f + 1 else if even f then f else f + 1)"

definition pow2 :: "int \<Rightarrow> rat" where
  "pow2 k = (if 0 \<le> k then 2 ^ nat k else 1 / 2 ^ nat (- k))"

text \<open>The exponent of a positive rational: \<open>pow2 (ilog2 x) \<le> x < pow2 (ilog2 x + 1)\<close>.\<close>

definition ilog2 :: "rat \<Rightarrow> int" where
  "ilog2 x =
     (case quotient_of x of (p, q) \<Rightarrow>
        let n = bitlen p - bitlen q in if pow2 n \<le> x then n else n - 1)"

definition rnd :: "rat \<Rightarrow> pyfloat" where
  "rnd x =
     (if x = 0 then Fin 0
      else let u = pow2 (max (ilog2 \<bar>x\<bar>) (- 1022) - 52);
               r = of_int (round_half_even (x / u)) * u
           in if \<bar>r\<bar> < pow2 1024 then Fin r else if 0 < x then PInf else NInf)"

lemma round_half_even_of_int [simp]: "round_half_even (of_int i) = i"
  by (simp add: round_half_even_def Let_def)

lemma round_half_even_dist: "\<bar>of_int (round_half_even x) - x\<bar> \<le> 1/2"
proof -
  have "of_int \<lfloor>x\<rfloor> \<le> x" "x < of_int \<lfloor>x\<rfloor> + 1" by linarith+
  then show ?thesis
    by (auto simp: round_half_even_def Let_def abs_if) linarith+
qed

lemma round_half_even_nonneg: "0 \<le> x \<Longrightarrow> 0 \<le> round_half_even x"
  by (auto simp: round_half_even_def Let_def)

lemma round_half_even_less_int:
  assumes "x < of_int m - 1/2" shows "round_half_even x < m"
proof -
  have "of_int (round_half_even x) \<le> x + 1/2"
    using round_half_even_dist [of x] by linarith
  then have "of_int (round_half_even x) < (of_int m :: rat)" using assms by linarith
  then show ?thesis by simp
qed

lemma pow2_pos [simp]: "0 < pow2 k"
  by (simp add: pow2_def)

lemma pow2_neq0 [simp]: "pow2 k \<noteq> 0"
  using pow2_pos [of k] by linarith

lemma pow2_of_nat [simp]: "pow2 (int n) = 2 ^ n"
  by (simp add: pow2_def)

lemma pow2_powi: "pow2 k = 2 powi k"
  by (simp add: pow2_def power_int_def power_one_over inverse_eq_divide)

lemma pow2_add: "pow2 (a + b) = pow2 a * pow2 b"
  by (simp add: pow2_powi power_int_add)

lemma pow2_strict_mono: "a < b \<Longrightarrow> pow2 a < pow2 b"
  by (simp add: pow2_powi power_int_strict_increasing)

lemma pow2_less_iff [simp]: "pow2 a < pow2 b \<longleftrightarrow> a < b"
  using pow2_strict_mono [of a b] pow2_strict_mono [of b a] by (cases a b rule: linorder_cases) auto

lemma pow2_le_iff [simp]: "pow2 a \<le> pow2 b \<longleftrightarrow> a \<le> b"
  by (simp add: linorder_not_less [symmetric])

lemma abs_pow2 [simp]: "\<bar>pow2 k\<bar> = pow2 k"
  by (simp add: abs_of_pos)

lemma bitlen_bounds_rat:
  assumes "0 < p" shows "pow2 (bitlen p - 1) \<le> of_int p" "(of_int p :: rat) < pow2 (bitlen p)"
proof -
  from assms have b: "2 ^ nat (bitlen p - 1) \<le> p \<and> p < 2 ^ nat (bitlen p)" by (rule bitlen_bounds)
  from assms have pos: "0 < bitlen p" by (simp add: bitlen_alt_def)
  have "of_int (2 ^ nat (bitlen p - 1)) \<le> (of_int p :: rat)" using b by (simp only: of_int_le_iff)
  then show "pow2 (bitlen p - 1) \<le> of_int p" using pos by (simp add: pow2_def)
  have "(of_int p :: rat) < of_int (2 ^ nat (bitlen p))" using b by (simp only: of_int_less_iff)
  then show "(of_int p :: rat) < pow2 (bitlen p)" using pos by (simp add: pow2_def)
qed

lemma ilog2_bounds:
  assumes "0 < x" shows "pow2 (ilog2 x) \<le> x" "x < pow2 (ilog2 x + 1)"
proof -
  obtain p q where pq: "quotient_of x = (p, q)" by (cases "quotient_of x")
  then have q: "0 < q" and x: "x = of_int p / of_int q"
    by (simp_all add: quotient_of_denom_pos quotient_of_div)
  from assms x q have p: "0 < p" by (simp add: zero_less_divide_iff)
  define n where "n = bitlen p - bitlen q"
  have "x < pow2 (bitlen p) / pow2 (bitlen q - 1)"
    unfolding x using bitlen_bounds_rat [OF p] bitlen_bounds_rat [OF q] q p
    by (intro frac_less) auto
  also have "\<dots> = pow2 (n + 1)"
    using pow2_add [of "n + 1" "bitlen q - 1"] by (simp add: n_def field_simps)
  finally have hi: "x < pow2 (n + 1)" .
  have "pow2 (bitlen p - 1) / pow2 (bitlen q) \<le> x"
    unfolding x using bitlen_bounds_rat [OF p] bitlen_bounds_rat [OF q] q p
    by (intro frac_le) auto
  moreover have "pow2 (bitlen p - 1) / pow2 (bitlen q) = pow2 (n - 1)"
    using pow2_add [of "n - 1" "bitlen q"] by (simp add: n_def field_simps)
  ultimately have lo: "pow2 (n - 1) \<le> x" by simp
  have "ilog2 x = (if pow2 n \<le> x then n else n - 1)" by (simp add: ilog2_def pq n_def Let_def)
  with lo hi show "pow2 (ilog2 x) \<le> x" "x < pow2 (ilog2 x + 1)"
    by (auto split: if_splits)
qed

text \<open>A number with at most 53 significant bits inside the exponent range is its own rounding.\<close>

lemma rnd_exact:
  assumes "x = of_int m * pow2 k" and "\<bar>m\<bar> \<le> 2 ^ 53" and "- 1074 \<le> k" and "\<bar>x\<bar> < pow2 1024"
  shows "rnd x = Fin x"
proof (cases "x = 0")
  case True
  then show ?thesis by (simp add: rnd_def)
next
  case False
  define e where "e = max (ilog2 \<bar>x\<bar>) (- 1022)"
  define u where "u = pow2 (e - 52)"
  from False have "pow2 (ilog2 \<bar>x\<bar>) \<le> \<bar>x\<bar>" by (intro ilog2_bounds) simp
  also have "\<bar>x\<bar> = of_int \<bar>m\<bar> * pow2 k" by (simp add: assms(1) abs_mult)
  also have "\<dots> \<le> pow2 53 * pow2 k"
  proof (rule mult_right_mono)
    have "(of_int \<bar>m\<bar> :: rat) \<le> of_int (2 ^ 53)" using assms(2) by (simp only: of_int_le_iff)
    then show "(of_int \<bar>m\<bar> :: rat) \<le> pow2 53" by (simp add: pow2_def)
  qed (simp add: less_imp_le)
  also have "\<dots> = pow2 (53 + k)" by (simp add: pow2_add)
  finally have e_le: "e \<le> 53 + k" using assms(3) by (simp add: e_def)
  have "\<exists>j. x / u = of_int j"
  proof (cases "e - 52 \<le> k")
    case True
    have "pow2 k = u * pow2 (k - (e - 52))"
      using pow2_add [of "e - 52" "k - (e - 52)"] by (simp add: u_def)
    moreover have "pow2 (k - (e - 52)) = of_int (2 ^ nat (k - (e - 52)))"
      using True by (simp add: pow2_def)
    ultimately have "x / u = of_int (m * 2 ^ nat (k - (e - 52)))"
      using assms(1) by (simp add: u_def)
    then show ?thesis by blast
  next
    case False
    with e_le have e: "e = 53 + k" by simp
    with assms(3) have "ilog2 \<bar>x\<bar> = 53 + k" by (auto simp: e_def max_def split: if_splits)
    with \<open>x \<noteq> 0\<close> have "pow2 (53 + k) \<le> \<bar>x\<bar>" using ilog2_bounds(1) [of "\<bar>x\<bar>"] by simp
    then have "pow2 53 \<le> of_int \<bar>m\<bar>"
      by (simp add: assms(1) abs_mult pow2_add)
    then have "(of_int (2 ^ 53) :: rat) \<le> of_int \<bar>m\<bar>" by (simp add: pow2_def)
    then have "2 ^ 53 \<le> \<bar>m\<bar>" by (simp only: of_int_le_iff)
    with assms(2) have "m = 2 ^ 53 \<or> m = - (2 ^ 53)" by (auto simp: abs_if split: if_splits)
    moreover have half: "pow2 k / u = 1 / 2"
    proof -
      have "u = pow2 1 * pow2 k" by (simp add: u_def e flip: pow2_add)
      then show ?thesis by (simp add: pow2_def)
    qed
    moreover have "x / u = of_int m * (1 / 2)"
      unfolding assms(1) half [symmetric] by simp
    ultimately have "x / u = of_int (2 ^ 52) \<or> x / u = of_int (- (2 ^ 52))" by auto
    then show ?thesis by blast
  qed
  then obtain j where j: "x / u = of_int j" ..
  then have "of_int (round_half_even (x / u)) * u = x"
    by (metis nonzero_divide_eq_eq pow2_neq0 round_half_even_of_int u_def)
  with False assms(4) show ?thesis
    by (simp add: rnd_def Let_def flip: e_def u_def)
qed

lemma rnd_of_int: "\<bar>i\<bar> \<le> 2 ^ 53 \<Longrightarrow> rnd (of_int i) = Fin (of_int i)"
proof -
  assume i: "\<bar>i\<bar> \<le> 2 ^ 53"
  then have "(of_int \<bar>i\<bar> :: rat) \<le> of_int (2 ^ 53)" by (simp only: of_int_le_iff)
  also have "(of_int (2 ^ 53) :: rat) = pow2 53" by (simp add: pow2_def)
  also have "\<dots> < pow2 1024" by simp
  finally show ?thesis using i by (intro rnd_exact [where m = i and k = 0]) (simp_all add: pow2_def)
qed

text \<open>Evaluation takes integers of up to 53 bits as they are.\<close>

lemma rnd_code [code]:
  "rnd x =
     (case quotient_of x of (p, q) \<Rightarrow>
        if q = 1 \<and> \<bar>p\<bar> \<le> 9007199254740992 then Fin x
        else if x = 0 then Fin 0
        else let u = pow2 (max (ilog2 \<bar>x\<bar>) (- 1022) - 52);
                 r = of_int (round_half_even (x / u)) * u
             in if \<bar>r\<bar> < pow2 1024 then Fin r else if 0 < x then PInf else NInf)"
proof -
  obtain p q where pq: "quotient_of x = (p, q)" by fastforce
  have int: "rnd x = Fin x" if "q = 1 \<and> \<bar>p\<bar> \<le> 9007199254740992"
    using rnd_of_int [of p] quotient_of_div [OF pq] that by simp
  show ?thesis
  proof (cases "q = 1 \<and> \<bar>p\<bar> \<le> 9007199254740992")
    case True
    show ?thesis unfolding int [OF True] pq prod.case by (rule if_P [OF True, symmetric])
  next
    case False
    then show ?thesis by (simp only: pq prod.case if_False rnd_def [of x])
  qed
qed


lemma round_half_even_eqI: "\<bar>x - of_int m\<bar> < 1/2 \<Longrightarrow> round_half_even x = m"
proof -
  assume a: "\<bar>x - of_int m\<bar> < 1/2"
  have "\<bar>(of_int (round_half_even x) :: rat) - of_int m\<bar> < 1"
    using a round_half_even_dist [of x] by linarith
  then have "\<bar>(of_int (round_half_even x - m) :: rat)\<bar> < of_int 1" by simp
  then have "\<bar>round_half_even x - m\<bar> < 1" by (metis of_int_abs of_int_less_iff)
  then show ?thesis by simp
qed

lemma ilog2_eqI: "pow2 e \<le> x \<Longrightarrow> x < pow2 (e + 1) \<Longrightarrow> ilog2 x = e"
proof -
  assume a: "pow2 e \<le> x" "x < pow2 (e + 1)"
  then have x: "0 < x" using pow2_pos [of e] by linarith
  from ilog2_bounds [OF x] a have "pow2 (ilog2 x) < pow2 (e + 1)" "pow2 e < pow2 (ilog2 x + 1)" by linarith+
  then show ?thesis by simp
qed

text \<open>The rounding of a number of known exponent, given the integral significand it rounds to.\<close>

lemma rnd_eqI:
  assumes "pow2 e \<le> x" "x < pow2 (e + 1)" "- 1022 \<le> e" "e < 1022"
    and "\<bar>x / pow2 (e - 52) - of_int m\<bar> < 1/2" "0 \<le> m" "m \<le> 2 ^ 53"
  shows "rnd x = Fin (of_int m * pow2 (e - 52))"
proof -
  have x: "0 < x" using assms(1) pow2_pos [of e] by linarith
  have "(of_int m :: rat) \<le> of_int (2 ^ 53)" using assms(7) by (simp only: of_int_le_iff)
  also have "\<dots> = pow2 53" by (simp add: pow2_def)
  finally have "of_int m * pow2 (e - 52) \<le> pow2 53 * pow2 (e - 52)"
    by (intro mult_right_mono) (simp_all add: less_imp_le)
  also have "\<dots> = pow2 (e + 1)" by (simp add: add.commute flip: pow2_add)
  also have "\<dots> < pow2 1024" using assms(4) by simp
  finally have "of_int m * pow2 (e - 52) < pow2 1024" .
  moreover have "0 \<le> of_int m * pow2 (e - 52)" using assms(6) by (simp add: less_imp_le)
  ultimately show ?thesis
    using x assms(3) by (simp add: rnd_def Let_def ilog2_eqI [OF assms(1,2)] round_half_even_eqI [OF assms(5)])
qed

lemma rnd_0 [simp]: "rnd 0 = Fin 0"
  by (simp add: rnd_def)

lemma rnd_nonneg: "0 \<le> x \<Longrightarrow> rnd x = Fin y \<Longrightarrow> 0 \<le> y"
  by (auto simp: rnd_def Let_def split: if_splits)
     (meson less_imp_le mult_nonneg_nonneg of_int_nonneg pow2_pos round_half_even_nonneg
        divide_nonneg_nonneg)

section \<open>Arithmetic\<close>

fun fadd :: "pyfloat \<Rightarrow> pyfloat \<Rightarrow> pyfloat" where
  "fadd NaN b = NaN"
| "fadd a NaN = NaN"
| "fadd (Fin x) (Fin y) = rnd (x + y)"
| "fadd PInf NInf = NaN"
| "fadd NInf PInf = NaN"
| "fadd PInf b = PInf"
| "fadd a PInf = PInf"
| "fadd NInf b = NInf"
| "fadd a NInf = NInf"

fun fneg :: "pyfloat \<Rightarrow> pyfloat" where
  "fneg (Fin x) = Fin (- x)"
| "fneg PInf = NInf"
| "fneg NInf = PInf"
| "fneg NaN = NaN"

definition fsub :: "pyfloat \<Rightarrow> pyfloat \<Rightarrow> pyfloat" where
  "fsub a b = fadd a (fneg b)"

fun fmul :: "pyfloat \<Rightarrow> pyfloat \<Rightarrow> pyfloat" where
  "fmul NaN b = NaN"
| "fmul a NaN = NaN"
| "fmul (Fin x) (Fin y) = rnd (x * y)"
| "fmul (Fin x) b = (if x = 0 then NaN else if 0 < x then b else fneg b)"
| "fmul a (Fin y) = (if y = 0 then NaN else if 0 < y then a else fneg a)"
| "fmul a b = (if a = b then PInf else NInf)"

text \<open>Float division; Python raises where IEEE would return an infinity for a zero divisor.\<close>

fun fdiv :: "pyfloat \<Rightarrow> pyfloat \<Rightarrow> pyfloat res" where
  "fdiv a (Fin y) =
     (if y = 0 then Inl ZeroDivisionError
      else case a of Fin x \<Rightarrow> Inr (rnd (x / y)) | NaN \<Rightarrow> Inr NaN
           | _ \<Rightarrow> Inr (if 0 < y then a else fneg a))"
| "fdiv a NaN = Inr NaN"
| "fdiv (Fin x) b = Inr (Fin 0)"
| "fdiv a b = Inr NaN"

text \<open>\<open>int / int\<close>: the correctly rounded quotient.\<close>

definition int_truediv :: "int \<Rightarrow> int \<Rightarrow> pyfloat res" where
  "int_truediv a b =
     (if b = 0 then Inl ZeroDivisionError
      else case rnd (of_int a / of_int b) of Fin q \<Rightarrow> Inr (Fin q) | _ \<Rightarrow> Inl OverflowError)"

text \<open>\<open>float(i)\<close>, also the conversion of an \<open>int\<close> operand of a mixed operation.\<close>

definition float_of_int :: "int \<Rightarrow> pyfloat res" where
  "float_of_int i = (case rnd (of_int i) of Fin q \<Rightarrow> Inr (Fin q) | _ \<Rightarrow> Inl OverflowError)"

definition rat_trunc :: "rat \<Rightarrow> int" where
  "rat_trunc x = (if 0 \<le> x then \<lfloor>x\<rfloor> else - \<lfloor>- x\<rfloor>)"

fun int_of_float :: "pyfloat \<Rightarrow> int res" where
  "int_of_float (Fin x) = Inr (rat_trunc x)"
| "int_of_float NaN = Inl ValueError"
| "int_of_float _ = Inl OverflowError"

fun fless :: "pyfloat \<Rightarrow> pyfloat \<Rightarrow> bool" where
  "fless NaN b = False"
| "fless a NaN = False"
| "fless (Fin x) (Fin y) = (x < y)"
| "fless NInf b = (b \<noteq> NInf)"
| "fless a PInf = (a \<noteq> PInf)"
| "fless _ _ = False"

fun feq :: "pyfloat \<Rightarrow> pyfloat \<Rightarrow> bool" where
  "feq NaN b = False"
| "feq a b = (a = b)"

definition fleq :: "pyfloat \<Rightarrow> pyfloat \<Rightarrow> bool" where
  "fleq a b = (fless a b \<or> feq a b)"

text \<open>\<open>x.is_integer()\<close> and \<open>round(x, n)\<close>.\<close>

fun is_integer :: "pyfloat \<Rightarrow> bool" where
  "is_integer (Fin x) = (of_int \<lfloor>x\<rfloor> = x)"
| "is_integer _ = False"

fun fround :: "pyfloat \<Rightarrow> nat \<Rightarrow> pyfloat" where
  "fround (Fin x) n = rnd (of_int (round_half_even (x * 10 ^ n)) / 10 ^ n)"
| "fround a n = a"

lemma rat_trunc_of_int [simp]: "rat_trunc (of_int i) = i"
  by (simp add: rat_trunc_def)

lemma rat_trunc_nonneg: "0 \<le> x \<Longrightarrow> rat_trunc x = \<lfloor>x\<rfloor>"
  by (simp add: rat_trunc_def)

lemma rat_trunc_mono: "x \<le> y \<Longrightarrow> rat_trunc x \<le> rat_trunc y"
proof -
  assume xy: "x \<le> y"
  show ?thesis
  proof (cases "0 \<le> x \<or> \<not> 0 \<le> y")
    case True
    with xy show ?thesis by (auto simp: rat_trunc_def floor_mono)
  next
    case False
    then have "x < 0" "0 \<le> y" by simp_all
    then have "0 \<le> \<lfloor>- x\<rfloor>" "0 \<le> \<lfloor>y\<rfloor>" by simp_all
    then have "- \<lfloor>- x\<rfloor> \<le> \<lfloor>y\<rfloor>" by linarith
    with \<open>x < 0\<close> \<open>0 \<le> y\<close> show ?thesis unfolding rat_trunc_def by (simp only: if_True if_False not_le split: if_split) simp
  qed
qed

lemma float_of_int_exact: "\<bar>i\<bar> \<le> 2 ^ 53 \<Longrightarrow> float_of_int i = Inr (Fin (of_int i))"
  by (simp add: float_of_int_def rnd_of_int)

lemma fless_trans: "fless a b \<Longrightarrow> fless b c \<Longrightarrow> fless a c"
  by (cases a; cases b; cases c) auto

lemma fless_irrefl [simp]: "\<not> fless a a"
  by (cases a) auto

section \<open>Numbers that are int or float\<close>

datatype pynum = NI int | NF pyfloat

definition num_val :: "pynum \<Rightarrow> pyfloat" where
  "num_val n = (case n of NI i \<Rightarrow> Fin (of_int i) | NF x \<Rightarrow> x)"

text \<open>Python compares an int with a float exactly.\<close>

definition num_lt :: "pynum \<Rightarrow> pynum \<Rightarrow> bool" where
  "num_lt a b = fless (num_val a) (num_val b)"

definition num_to_float :: "pynum \<Rightarrow> pyfloat res" where
  "num_to_float n = (case n of NI i \<Rightarrow> float_of_int i | NF x \<Rightarrow> Inr x)"

fun num_add :: "pynum \<Rightarrow> pynum \<Rightarrow> pynum res" where
  "num_add (NI a) (NI b) = Inr (NI (a + b))"
| "num_add a b = bindE (num_to_float a) (\<lambda>x. bindE (num_to_float b) (\<lambda>y. Inr (NF (fadd x y))))"

fun num_mul :: "pynum \<Rightarrow> pynum \<Rightarrow> pynum res" where
  "num_mul (NI a) (NI b) = Inr (NI (a * b))"
| "num_mul a b = bindE (num_to_float a) (\<lambda>x. bindE (num_to_float b) (\<lambda>y. Inr (NF (fmul x y))))"

text \<open>A pydantic field of type \<open>int\<close> accepts a float only when it is integral.\<close>

fun validate_int :: "pynum \<Rightarrow> int res" where
  "validate_int (NI i) = Inr i"
| "validate_int (NF (Fin x)) = (if of_int \<lfloor>x\<rfloor> = x then Inr \<lfloor>x\<rfloor> else Inl ValidationError)"
| "validate_int (NF _) = Inl ValidationError"

lemma num_lt_NI [simp]: "num_lt (NI a) (NI b) \<longleftrightarrow> a < b"
  by (simp add: num_lt_def num_val_def)

lemma fless_neg_trans: "b \<noteq> NaN \<Longrightarrow> \<not> fless a b \<Longrightarrow> \<not> fless b c \<Longrightarrow> \<not> fless a c"
  by (cases a; cases b; cases c) auto

lemma fless_asym: "fless a b \<Longrightarrow> \<not> fless b a"
  by (cases a; cases b) auto

end
