(* ===== verification/Py_Text.thy ===== *)
theory Py_Text
  imports Py_Float "HOL-Library.Sublist"
begin

text \<open>
  The methods of Python's \<open>str\<close> the code uses, on strings of ASCII characters: \<open>strip\<close>, \<open>lower\<close>,
  \<open>startswith\<close>, \<open>endswith\<close>, \<open>split\<close>, \<open>in\<close>, and the parsing of \<open>int(s)\<close> and \<open>float(s)\<close> (surrounding
  blanks, a sign, underscores between digits, exponents, \<open>inf\<close> and \<open>nan\<close>).
\<close>

section \<open>Characters\<close>

abbreviation code :: "char \<Rightarrow> nat" where
  "code c \<equiv> of_char c"

definition is_space :: "char \<Rightarrow> bool" where
  "is_space c = (9 \<le> code c \<and> code c \<le> 13 \<or> 28 \<le> code c \<and> code c \<le> 32)"

definition is_digit :: "char \<Rightarrow> bool" where
  "is_digit c = (48 \<le> code c \<and> code c \<le> 57)"

definition is_lower_alnum :: "char \<Rightarrow> bool" where
  "is_lower_alnum c = (97 \<le> code c \<and> code c \<le> 122 \<or> is_digit c)"

definition lower_char :: "char \<Rightarrow> char" where
  "lower_char c = (if 65 \<le> code c \<and> code c \<le> 90 then char_of (code c + 32) else c)"

definition digit_val :: "char \<Rightarrow> nat" where
  "digit_val c = code c - 48"

section \<open>Strings\<close>

definition strip_by :: "(char \<Rightarrow> bool) \<Rightarrow> string \<Rightarrow> string" where
  "strip_by p s = rev (dropWhile p (rev (dropWhile p s)))"

abbreviation strip :: "string \<Rightarrow> string" where
  "strip \<equiv> strip_by is_space"

text \<open>\<open>s.strip('tib')\<close> removes any of the given characters at both ends.\<close>

definition strip_chars :: "string \<Rightarrow> string \<Rightarrow> string" where
  "strip_chars cs s = strip_by (\<lambda>c. c \<in> set cs) s"

definition lower :: "string \<Rightarrow> string" where
  "lower s = map lower_char s"

definition startswith :: "string \<Rightarrow> string \<Rightarrow> bool" where
  "startswith p s = (take (length p) s = p)"

definition endswith :: "string \<Rightarrow> string \<Rightarrow> bool" where
  "endswith p s = (length p \<le> length s \<and> drop (length s - length p) s = p)"

definition remove_char :: "char \<Rightarrow> string \<Rightarrow> string" where
  "remove_char c s = filter (\<lambda>d. d \<noteq> c) s"

fun contains :: "string \<Rightarrow> string \<Rightarrow> bool" where
  "contains p [] = (p = [])"
| "contains p (c # s) = (startswith p (c # s) \<or> contains p s)"

fun split_char :: "char \<Rightarrow> string \<Rightarrow> string list" where
  "split_char c [] = [[]]"
| "split_char c (d # s) =
     (if d = c then [] # split_char c s
      else case split_char c s of [] \<Rightarrow> [[d]] | w # ws \<Rightarrow> (d # w) # ws)"

text \<open>The first occurrence of a separator: the text before it and the text after it.\<close>

fun split_once :: "string \<Rightarrow> string \<Rightarrow> (string \<times> string) option" where
  "split_once p [] = None"
| "split_once p (c # s) =
     (if startswith p (c # s) then Some ([], drop (length p) (c # s))
      else map_option (\<lambda>(a, b). (c # a, b)) (split_once p s))"

lemma split_once_length: "split_once p s = Some (a, b) \<Longrightarrow> p \<noteq> [] \<Longrightarrow> length b < length s"
  by (induction s arbitrary: a b) (auto split: if_splits simp: Suc_le_eq length_greater_0_conv)

function split_str :: "string \<Rightarrow> string \<Rightarrow> string list" where
  "split_str p s =
     (if p = [] then [s]
      else case split_once p s of None \<Rightarrow> [s] | Some (a, b) \<Rightarrow> a # split_str p b)"
  by pat_completeness auto
termination
  by (relation "measure (\<lambda>(p, s). length s)") (auto dest: split_once_length)

declare split_str.simps [simp del]

lemma split_char_neq_Nil [simp]: "split_char c s \<noteq> []"
  by (induction s) (auto split: list.splits)

lemma split_char_no_sep: "c \<notin> set s \<Longrightarrow> split_char c s = [s]"
  by (induction s) auto

lemma split_char_append: "c \<notin> set s \<Longrightarrow> split_char c (s @ c # t) = s # split_char c t"
  by (induction s) auto

lemma split_char_parts: "w \<in> set (split_char c s) \<Longrightarrow> c \<notin> set w"
  by (induction s arbitrary: w) (auto split: list.splits if_splits)

definition join :: "string \<Rightarrow> string list \<Rightarrow> string" where
  "join sep ws = concat (case ws of [] \<Rightarrow> [] | w # ws' \<Rightarrow> w # map ((@) sep) ws')"

lemma join_simps [simp]: "join sep [] = []" "join sep [w] = w"
  "join sep (w # v # ws) = w @ sep @ join sep (v # ws)"
  by (simp_all add: join_def)

lemma split_char_join:
  "ws \<noteq> [] \<Longrightarrow> (\<And>w. w \<in> set ws \<Longrightarrow> c \<notin> set w) \<Longrightarrow> split_char c (join [c] ws) = ws"
  by (induction ws rule: induct_list012) (auto simp: split_char_no_sep split_char_append)

lemma dropWhile_eq_self: "(s \<noteq> [] \<Longrightarrow> \<not> p (hd s)) \<Longrightarrow> dropWhile p s = s"
  by (cases s) auto

lemma strip_by_id:
  "(s \<noteq> [] \<Longrightarrow> \<not> p (hd s)) \<Longrightarrow> (s \<noteq> [] \<Longrightarrow> \<not> p (last s)) \<Longrightarrow> strip_by p s = s"
  using dropWhile_eq_self [of s p] dropWhile_eq_self [of "rev s" p] by (simp add: strip_by_def hd_rev)

section \<open>Numbers from strings\<close>

definition digits_val :: "string \<Rightarrow> nat" where
  "digits_val s = foldl (\<lambda>n c. 10 * n + digit_val c) 0 s"

text \<open>Underscores may stand between two digits only; the parser then ignores them.\<close>

fun underscores_ok :: "bool \<Rightarrow> string \<Rightarrow> bool" where
  "underscores_ok prev [] = True"
| "underscores_ok prev (c # s) =
     (if c = CHR ''_'' then prev \<and> (case s of [] \<Rightarrow> False | d # _ \<Rightarrow> is_digit d) \<and> underscores_ok False s
      else underscores_ok (is_digit c) s)"

fun split_sign :: "string \<Rightarrow> bool \<times> string" where
  "split_sign [] = (False, [])"
| "split_sign (c # s) =
     (if c = CHR ''-'' then (True, s) else if c = CHR ''+'' then (False, s) else (False, c # s))"

definition int_of_str :: "string \<Rightarrow> int res" where
  "int_of_str s =
     (let t = strip s; (neg, u) = split_sign t; ds = remove_char (CHR ''_'') u in
      if ds \<noteq> [] \<and> underscores_ok False u \<and> list_all is_digit ds
      then Inr (if neg then - int (digits_val ds) else int (digits_val ds))
      else Inl ValueError)"

definition pow10 :: "int \<Rightarrow> rat" where
  "pow10 k = (if 0 \<le> k then 10 ^ nat k else 1 / 10 ^ nat (- k))"

text \<open>Digits, an optional fraction, an optional exponent, and nothing after them.\<close>

definition decimal_of_str :: "string \<Rightarrow> rat option" where
  "decimal_of_str s =
     (let ip = takeWhile is_digit s; r = dropWhile is_digit s;
          (fp, r') = (case r of c # t \<Rightarrow>
                        if c = CHR ''.'' then (takeWhile is_digit t, dropWhile is_digit t) else ([], r)
                      | [] \<Rightarrow> ([], []))
      in if ip = [] \<and> fp = [] then None
         else case r' of
           [] \<Rightarrow> Some (of_nat (digits_val (ip @ fp)) * pow10 (- int (length fp)))
         | c # t \<Rightarrow>
             if lower_char c \<noteq> CHR ''e'' then None
             else let (neg, ds) = split_sign t in
               if ds = [] \<or> \<not> list_all is_digit ds then None
               else let k = (if neg then - int (digits_val ds) else int (digits_val ds))
                    in Some (of_nat (digits_val (ip @ fp)) * pow10 (k - int (length fp))))"

definition float_of_str :: "string \<Rightarrow> pyfloat res" where
  "float_of_str s =
     (let t = strip s; (neg, u) = split_sign t; v = lower u in
      if v = ''inf'' \<or> v = ''infinity'' then Inr (if neg then NInf else PInf)
      else if v = ''nan'' then Inr NaN
      else if \<not> underscores_ok False u then Inl ValueError
      else case decimal_of_str (remove_char (CHR ''_'') u) of
             None \<Rightarrow> Inl ValueError
           | Some x \<Rightarrow> Inr (if neg then fneg (rnd x) else rnd x))"

lemma int_of_str_error: "int_of_str s = Inl e \<Longrightarrow> e = ValueError"
  by (auto simp: int_of_str_def Let_def split: if_splits prod.splits)

lemma float_of_str_error: "float_of_str s = Inl e \<Longrightarrow> e = ValueError"
  by (auto simp: float_of_str_def Let_def split: if_splits prod.splits option.splits)

text \<open>The decimal digits of a number, and the round trip through \<open>int(str(n))\<close>.\<close>

fun str_of_nat :: "nat \<Rightarrow> string" where
  "str_of_nat n = (if n < 10 then [char_of (48 + n)]
                   else str_of_nat (n div 10) @ [char_of (48 + n mod 10)])"

declare str_of_nat.simps [simp del]

definition str_of_int :: "int \<Rightarrow> string" where
  "str_of_int i = (if i < 0 then CHR ''-'' # str_of_nat (nat (- i)) else str_of_nat (nat i))"

lemma code_char_of_digit: "d < 10 \<Longrightarrow> code (char_of (48 + d)) = 48 + d"
  by (simp add: of_char_of)

lemma digits_val_snoc: "digits_val (s @ [c]) = 10 * digits_val s + digit_val c"
  by (simp add: digits_val_def)

lemma str_of_nat_digits: "list_all is_digit (str_of_nat n) \<and> str_of_nat n \<noteq> []"
proof (induction n rule: str_of_nat.induct)
  case (1 n)
  have d: "is_digit (char_of (48 + d))" if "d < 10" for d :: nat
    using that by (simp add: is_digit_def of_char_of)
  show ?case
    using 1 by (subst (1 2) str_of_nat.simps) (auto simp: d)
qed

lemma digits_val_str_of_nat: "digits_val (str_of_nat n) = n"
proof (induction n rule: str_of_nat.induct)
  case (1 n)
  have d: "digit_val (char_of (48 + d)) = d" if "d < 10" for d :: nat
    using that by (simp add: digit_val_def of_char_of)
  show ?case
    using 1 d [of n] d [of "n mod 10"]
    by (subst str_of_nat.simps) (auto simp: digits_val_snoc digits_val_def [of "[c]" for c])
qed

lemma digit_props: "is_digit c \<Longrightarrow> \<not> is_space c \<and> c \<noteq> CHR ''_'' \<and> c \<noteq> CHR ''-'' \<and> c \<noteq> CHR ''+''"
  by (auto simp: is_digit_def is_space_def)

lemma underscores_ok_digits: "list_all is_digit s \<Longrightarrow> underscores_ok b s"
  by (induction s arbitrary: b) (auto dest: digit_props)

lemma remove_char_digits: "list_all is_digit s \<Longrightarrow> remove_char (CHR ''_'') s = s"
  unfolding remove_char_def by (induction s) (auto dest: digit_props)

lemma int_of_str_digits:
  assumes "list_all is_digit s" "s \<noteq> []" shows "int_of_str s = Inr (int (digits_val s))"
proof -
  have "is_digit (hd s)" "is_digit (last s)" using assms by (auto simp: list_all_iff)
  then have st: "strip s = s" using assms digit_props by (intro strip_by_id) auto
  have "split_sign s = (False, s)"
    using assms \<open>is_digit (hd s)\<close> by (cases s) (auto dest: digit_props)
  then show ?thesis
    using assms by (simp add: int_of_str_def st underscores_ok_digits remove_char_digits)
qed

lemma int_of_str_of_nat: "int_of_str (str_of_nat n) = Inr (int n)"
  using str_of_nat_digits [of n] by (simp add: int_of_str_digits digits_val_str_of_nat)

end
