(* ===== verification/Model_Utils.thy ===== *)
theory Model_Utils
  imports Py_Text
begin

text \<open>
  The dynamically typed values that job parameters arrive as (JSON values), and the coercions of
  \<open>ideadatamodel/model_utils.py\<close> that read them. \<open>ideasdk/utils/utils.py\<close> forwards to these.
  Python's None is \<open>PNone\<close> as a value and None as a result; a \<open>bool\<close> is an \<open>int\<close> where the code
  tests \<open>isinstance(value, int)\<close>. What \<open>str(value)\<close> prints for a float, a list or a dict is the
  parameter \<open>fmt\<close>.
\<close>

section \<open>Values\<close>

datatype pyval =
    PNone
  | PBool bool
  | PInt int
  | PFloat pyfloat
  | PStr string
  | PList "pyval list"
  | PDict "(string \<times> pyval) list"

type_synonym pydict = "(string \<times> pyval) list"

definition TRUE_VALUES :: "string list" where
  "TRUE_VALUES = [''true'', ''yes'', ''y'', ''1'']"

definition FALSE_VALUES :: "string list" where
  "FALSE_VALUES = [''false'', ''no'', ''n'', ''0'']"

definition int_of_bool :: "bool \<Rightarrow> int" where
  "int_of_bool b = (if b then 1 else 0)"

section \<open>Emptiness and truth\<close>

definition is_empty_str :: "string \<Rightarrow> bool" where
  "is_empty_str s = (strip s = [])"

fun is_empty :: "pyval \<Rightarrow> bool" where
  "is_empty PNone = True"
| "is_empty (PStr s) = is_empty_str s"
| "is_empty (PList xs) = (xs = [])"
| "is_empty (PDict kvs) = (kvs = [])"
| "is_empty _ = False"

definition is_empty_opt_str :: "string option \<Rightarrow> bool" where
  "is_empty_opt_str v = (case v of None \<Rightarrow> True | Some s \<Rightarrow> is_empty_str s)"

definition is_empty_opt_list :: "'a list option \<Rightarrow> bool" where
  "is_empty_opt_list v = (case v of None \<Rightarrow> True | Some xs \<Rightarrow> xs = [])"

text \<open>A non-empty value that is no bool, int or str has no \<open>strip\<close> method.\<close>

fun is_true :: "pyval \<Rightarrow> bool \<Rightarrow> bool res" where
  "is_true PNone d = Inr d"
| "is_true (PBool b) d = Inr b"
| "is_true (PInt i) d = Inr (i \<noteq> 0)"
| "is_true (PStr s) d = (if is_empty_str s then Inr d else Inr (lower (strip s) \<in> set TRUE_VALUES))"
| "is_true v d = (if is_empty v then Inr d else Inl AttributeError)"

fun is_false :: "pyval \<Rightarrow> bool \<Rightarrow> bool res" where
  "is_false PNone d = Inr d"
| "is_false (PBool b) d = Inr (\<not> b)"
| "is_false (PInt i) d = Inr (i = 0)"
| "is_false (PStr s) d = (if is_empty_str s then Inr d else Inr (lower (strip s) \<in> set FALSE_VALUES))"
| "is_false v d = (if is_empty v then Inr d else Inl AttributeError)"

text \<open>The same tests on an attribute of type \<open>Optional[bool]\<close>.\<close>

definition is_true_opt :: "bool option \<Rightarrow> bool" where
  "is_true_opt v = (v = Some True)"

definition is_false_opt :: "bool option \<Rightarrow> bool" where
  "is_false_opt v = (v = Some False)"

section \<open>Coercions\<close>

fun is_int :: "pyval \<Rightarrow> bool res" where
  "is_int (PBool _) = Inr True"
| "is_int (PInt _) = Inr True"
| "is_int (PStr s) = (case int_of_str s of Inl _ \<Rightarrow> Inr False | Inr _ \<Rightarrow> Inr True)"
| "is_int (PFloat x) = (case int_of_float x of
      Inl ValueError \<Rightarrow> Inr False | Inl e \<Rightarrow> Inl e | Inr _ \<Rightarrow> Inr True)"
| "is_int _ = Inr False"

fun is_float :: "pyval \<Rightarrow> bool res" where
  "is_float PNone = Inr False"
| "is_float (PFloat _) = Inr True"
| "is_float (PStr s) = (case float_of_str s of Inl _ \<Rightarrow> Inr False | Inr _ \<Rightarrow> Inr True)"
| "is_float (PInt i) = bindE (float_of_int i) (\<lambda>_. Inr True)"
| "is_float (PBool _) = Inr True"
| "is_float _ = Inr False"

fun get_as_string :: "(pyval \<Rightarrow> string) \<Rightarrow> pyval \<Rightarrow> string option \<Rightarrow> string option" where
  "get_as_string fmt PNone d = d"
| "get_as_string fmt (PStr s) d = (let t = strip s in if t = [] then d else Some t)"
| "get_as_string fmt (PBool b) d = Some (if b then ''True'' else ''False'')"
| "get_as_string fmt (PInt i) d = Some (str_of_int i)"
| "get_as_string fmt v d = Some (fmt v)"

fun get_as_int :: "pyval \<Rightarrow> int option \<Rightarrow> int option res" where
  "get_as_int PNone d = Inr d"
| "get_as_int (PBool b) d = Inr (Some (int_of_bool b))"
| "get_as_int (PInt i) d = Inr (Some i)"
| "get_as_int (PFloat x) d = bindE (int_of_float x) (\<lambda>i. Inr (Some i))"
| "get_as_int (PStr s) d =
     (case int_of_str s of
        Inr i \<Rightarrow> Inr (Some i)
      | Inl _ \<Rightarrow>
          (case float_of_str s of
             Inr x \<Rightarrow> bindE (int_of_float x) (\<lambda>i. Inr (Some i))
           | Inl _ \<Rightarrow> Inr d))"
| "get_as_int _ d = Inr d"

fun get_as_float :: "pyval \<Rightarrow> pyfloat option \<Rightarrow> pyfloat option res" where
  "get_as_float PNone d = Inr d"
| "get_as_float (PFloat x) d = Inr (Some x)"
| "get_as_float (PInt i) d = bindE (float_of_int i) (\<lambda>x. Inr (Some x))"
| "get_as_float (PBool b) d = Inr (Some (Fin (of_int (int_of_bool b))))"
| "get_as_float (PStr s) d =
     (case float_of_str s of
        Inr x \<Rightarrow> Inr (Some x)
      | Inl _ \<Rightarrow>
          (case int_of_str s of
             Inr _ \<Rightarrow> bindE (float_of_str s) (\<lambda>x. Inr (Some x))
           | Inl _ \<Rightarrow> Inr d))"
| "get_as_float _ d = Inr d"

text \<open>The first test of the code, \<open>is_empty(value) is None\<close>, never holds.\<close>

fun get_as_bool :: "pyval \<Rightarrow> bool option \<Rightarrow> bool option" where
  "get_as_bool (PBool b) d = Some b"
| "get_as_bool (PInt i) d = Some (i \<noteq> 0)"
| "get_as_bool (PStr s) d =
     (if is_true (PStr s) False = Inr True then Some True
      else if is_false (PStr s) False = Inr True then Some False else d)"
| "get_as_bool _ d = d"

fun get_as_dict :: "pyval \<Rightarrow> pydict option \<Rightarrow> pydict option" where
  "get_as_dict (PDict kvs) d = (if kvs = [] then d else Some kvs)"
| "get_as_dict _ d = d"

fun get_as_list :: "pyval \<Rightarrow> pyval list option \<Rightarrow> pyval list option" where
  "get_as_list (PList xs) d = (if xs = [] then d else Some xs)"
| "get_as_list _ d = d"

fun get_first :: "pyval \<Rightarrow> pyval option \<Rightarrow> pyval option" where
  "get_first (PList (x # xs)) d = Some x"
| "get_first _ d = d"

section \<open>Lists of coerced values\<close>

text \<open>\<open>for entry in entries: ...; if entry_ is None: continue; result.append(entry_)\<close>\<close>

fun collect :: "(pyval \<Rightarrow> 'a option res) \<Rightarrow> pyval list \<Rightarrow> 'a list res" where
  "collect f [] = Inr []"
| "collect f (v # vs) =
     bindE (f v) (\<lambda>r. bindE (collect f vs) (\<lambda>rs.
       Inr (case r of None \<Rightarrow> rs | Some x \<Rightarrow> x # rs)))"

definition get_as_bool_list :: "pyval \<Rightarrow> bool list res option" where
  "get_as_bool_list v = (case get_as_list v None of
     None \<Rightarrow> None | Some vs \<Rightarrow> Some (collect (\<lambda>e. Inr (get_as_bool e None)) vs))"

definition get_as_string_list :: "(pyval \<Rightarrow> string) \<Rightarrow> pyval \<Rightarrow> string list res option" where
  "get_as_string_list fmt v = (case get_as_list v None of
     None \<Rightarrow> None | Some vs \<Rightarrow> Some (collect (\<lambda>e. Inr (get_as_string fmt e None)) vs))"

definition get_as_int_list :: "pyval \<Rightarrow> int list res option" where
  "get_as_int_list v = (case get_as_list v None of
     None \<Rightarrow> None | Some vs \<Rightarrow> Some (collect (\<lambda>e. get_as_int e None) vs))"

text \<open>The code converts the entries with \<open>get_as_int\<close>.\<close>

definition get_as_float_list :: "pyval \<Rightarrow> int list res option" where
  "get_as_float_list v = (case get_as_list v None of
     None \<Rightarrow> None | Some vs \<Rightarrow> Some (collect (\<lambda>e. get_as_int e None) vs))"

definition get_as_dict_list :: "pyval \<Rightarrow> pydict list res option" where
  "get_as_dict_list v = (case get_as_list v None of
     None \<Rightarrow> None | Some vs \<Rightarrow> Some (collect (\<lambda>e. Inr (get_as_dict e None)) vs))"

section \<open>Reading a key of a dict\<close>

definition value_exists :: "string \<Rightarrow> pydict \<Rightarrow> bool" where
  "value_exists key obj =
     (case map_of obj key of
        None \<Rightarrow> False
      | Some PNone \<Rightarrow> False
      | Some v \<Rightarrow> (case v of PList _ \<Rightarrow> \<not> is_empty v | PDict _ \<Rightarrow> \<not> is_empty v
                         | PStr _ \<Rightarrow> \<not> is_empty v | _ \<Rightarrow> True))"

definition get_any_value :: "string \<Rightarrow> pydict \<Rightarrow> pyval option" where
  "get_any_value key obj = (if value_exists key obj then map_of obj key else None)"

definition get_value_as_int :: "string \<Rightarrow> pydict \<Rightarrow> int option \<Rightarrow> int option res" where
  "get_value_as_int key obj d =
     (case get_any_value key obj of None \<Rightarrow> Inr d | Some v \<Rightarrow> get_as_int v d)"

definition get_value_as_float :: "string \<Rightarrow> pydict \<Rightarrow> pyfloat option \<Rightarrow> pyfloat option res" where
  "get_value_as_float key obj d =
     (case get_any_value key obj of None \<Rightarrow> Inr d | Some v \<Rightarrow> get_as_float v d)"

definition get_value_as_bool :: "string \<Rightarrow> pydict \<Rightarrow> bool option \<Rightarrow> bool option" where
  "get_value_as_bool key obj d =
     (case get_any_value key obj of None \<Rightarrow> d | Some v \<Rightarrow> get_as_bool v d)"

definition get_value_as_string ::
  "(pyval \<Rightarrow> string) \<Rightarrow> string \<Rightarrow> pydict \<Rightarrow> string option \<Rightarrow> string option" where
  "get_value_as_string fmt key obj d =
     (case get_any_value key obj of None \<Rightarrow> d | Some v \<Rightarrow> get_as_string fmt v d)"

definition get_value_as_dict :: "string \<Rightarrow> pydict \<Rightarrow> pydict option \<Rightarrow> pydict option" where
  "get_value_as_dict key obj d =
     (case get_any_value key obj of None \<Rightarrow> d | Some v \<Rightarrow> get_as_dict v d)"

definition get_value_as_list :: "string \<Rightarrow> pydict \<Rightarrow> pyval list option \<Rightarrow> pyval list option" where
  "get_value_as_list key obj d =
     (case get_any_value key obj of None \<Rightarrow> d | Some v \<Rightarrow> get_as_list v d)"

section \<open>Comparisons, requirements, wall time\<close>

definition are_equal :: "string option \<Rightarrow> string option \<Rightarrow> bool" where
  "are_equal a b = (case (a, b) of (None, None) \<Rightarrow> True | (Some x, Some y) \<Rightarrow> x = y | _ \<Rightarrow> False)"

definition are_empty :: "pyval list \<Rightarrow> bool" where
  "are_empty args = (if args = [] then True else list_all is_empty args)"

definition is_any_empty :: "pyval list \<Rightarrow> bool" where
  "is_any_empty args = (if args = [] then True else list_ex is_empty args)"

definition check_required :: "pyval \<Rightarrow> unit res" where
  "check_required v = (if is_empty v then Inl (SocaException ''INVALID_PARAMS'') else Inr ())"

text \<open>Unpacking \<open>walltime.split(':')\<close> into three names raises ValueError for any other count.\<close>

definition walltime_to_seconds :: "string \<Rightarrow> int res" where
  "walltime_to_seconds walltime =
     (case split_char (CHR '':'') walltime of
        [hour, minute, seconds] \<Rightarrow>
          bindE (int_of_str hour) (\<lambda>h. bindE (int_of_str minute) (\<lambda>m. bindE (int_of_str seconds) (\<lambda>s.
            Inr (h * 3600 + m * 60 + s))))
      | _ \<Rightarrow> Inl ValueError)"

section \<open>Properties\<close>

lemma is_true_opt_simps [simp]:
  "is_true_opt None = False" "is_true_opt (Some b) = b"
  "is_false_opt None = False" "is_false_opt (Some b) = (\<not> b)"
  by (simp_all add: is_true_opt_def is_false_opt_def)

lemma true_false_disjoint: "set TRUE_VALUES \<inter> set FALSE_VALUES = {}"
  by (simp add: TRUE_VALUES_def FALSE_VALUES_def)

lemma is_true_is_false_exclusive: "is_true v False = Inr True \<Longrightarrow> is_false v False = Inr False"
  using true_false_disjoint by (cases v) (auto split: if_splits)

lemma get_as_bool_PStr_true: "lower (strip s) \<in> set TRUE_VALUES \<Longrightarrow> get_as_bool (PStr s) d = Some True"
  by (auto simp: is_empty_str_def lower_def TRUE_VALUES_def)

lemma get_any_value_Some: "get_any_value key obj = Some v \<Longrightarrow> map_of obj key = Some v \<and> v \<noteq> PNone"
  by (auto simp: get_any_value_def value_exists_def split: if_splits option.splits pyval.splits)

lemma get_any_value_not_key: "map_of obj key = None \<Longrightarrow> get_any_value key obj = None"
  by (simp add: get_any_value_def)

lemma get_value_missing:
  assumes "get_any_value key obj = None"
  shows "get_value_as_int key obj d = Inr d" "get_value_as_float key obj f = Inr f"
    "get_value_as_bool key obj b = b" "get_value_as_string fmt key obj t = t"
  using assms
  by (simp_all add: get_value_as_int_def get_value_as_float_def get_value_as_bool_def get_value_as_string_def)

lemma get_value_as_int_PInt [simp]: "map_of obj key = Some (PInt i) \<Longrightarrow> get_value_as_int key obj d = Inr (Some i)"
  by (simp add: get_value_as_int_def get_any_value_def value_exists_def)

lemma get_value_as_bool_PBool [simp]: "map_of obj key = Some (PBool b) \<Longrightarrow> get_value_as_bool key obj d = Some b"
  by (simp add: get_value_as_bool_def get_any_value_def value_exists_def)

lemma get_as_int_str_of_nat: "get_as_int (PStr (str_of_nat n)) d = Inr (Some (int n))"
  by (simp add: int_of_str_of_nat)

lemma collect_total:
  "(\<And>v. v \<in> set vs \<Longrightarrow> f v = Inr (g v)) \<Longrightarrow> collect f vs = Inr (List.map_filter g vs)"
  by (induction vs) (auto simp: List.map_filter_simps split: option.splits)

lemma digit_ne_colon: "is_digit c \<Longrightarrow> c \<noteq> CHR '':''"
  by (auto simp: is_digit_def)

lemma colon_notin_digits: "CHR '':'' \<notin> set (str_of_nat n)"
  using str_of_nat_digits [of n] by (auto simp: list_all_iff dest: digit_ne_colon)

text \<open>A wall time written as \<open>hours:minutes:seconds\<close> parses to the time it writes.\<close>

lemma walltime_parses:
  "walltime_to_seconds (join '':'' [str_of_nat h, str_of_nat m, str_of_nat s]) =
     Inr (int h * 3600 + int m * 60 + int s)"
proof -
  have "split_char (CHR '':'') (join '':'' [str_of_nat h, str_of_nat m, str_of_nat s])
      = [str_of_nat h, str_of_nat m, str_of_nat s]"
    by (rule split_char_join) (auto simp: colon_notin_digits)
  then show ?thesis by (simp add: walltime_to_seconds_def int_of_str_of_nat del: join_simps)
qed

end
