(* ===== verification/Soca_Memory.thy ===== *)
theory Soca_Memory
  imports Model_Utils
begin

text \<open>
  Amounts of memory: \<open>SocaMemoryUnit\<close> and \<open>SocaMemory\<close> of \<open>ideadatamodel/common/common_model.py\<close>.
  The value is a binary64 float, so conversions round; \<open>bytes()\<close> truncates to an \<open>int\<close> and raises
  for a value that is no number. The multipliers are below 2^53, so converting them to float is
  exact and they are written as rationals.
\<close>

section \<open>Units\<close>

datatype mem_unit = BYTES | KiB | MiB | GiB | TiB | KB | MB | GB | TB

text \<open>\<open>SocaMemoryUnit.__gt__\<close>: the largest unit is looked for first.\<close>

definition unit_gt :: "mem_unit \<Rightarrow> mem_unit \<Rightarrow> bool" where
  "unit_gt a b =
     (if a = TiB \<and> b \<noteq> TiB then True else if b = TiB then False
      else if a = TB \<and> b \<noteq> TB then True else if b = TB then False
      else if a = GiB \<and> b \<noteq> GiB then True else if b = GiB then False
      else if a = GB \<and> b \<noteq> GB then True else if b = GB then False
      else if a = MiB \<and> b \<noteq> MiB then True else if b = MiB then False
      else if a = MB \<and> b \<noteq> MB then True else if b = MB then False
      else if a = KiB \<and> b \<noteq> KiB then True else if b = KiB then False
      else if a = KB \<and> b \<noteq> KB then True else if b = KB then False
      else False)"

definition unit_ge :: "mem_unit \<Rightarrow> mem_unit \<Rightarrow> bool" where
  "unit_ge a b = (if a = b then True else unit_gt a b)"

definition unit_lt :: "mem_unit \<Rightarrow> mem_unit \<Rightarrow> bool" where
  "unit_lt a b = (\<not> unit_gt a b)"

definition unit_le :: "mem_unit \<Rightarrow> mem_unit \<Rightarrow> bool" where
  "unit_le a b = (if a = b then True else unit_lt a b)"

fun unit_bytes :: "mem_unit \<Rightarrow> int" where
  "unit_bytes BYTES = 1"
| "unit_bytes KiB = 1024"
| "unit_bytes MiB = 1024 ^ 2"
| "unit_bytes GiB = 1024 ^ 3"
| "unit_bytes TiB = 1024 ^ 4"
| "unit_bytes KB = 1000"
| "unit_bytes MB = 1000 ^ 2"
| "unit_bytes GB = 1000 ^ 3"
| "unit_bytes TB = 1000 ^ 4"

lemma unit_bytes_bounds: "1 \<le> unit_bytes u" "unit_bytes u \<le> 2 ^ 40"
  by (cases u; simp)+

lemma unit_gt_iff: "unit_gt a b \<longleftrightarrow> unit_bytes b < unit_bytes a"
  by (cases a; cases b) (simp_all add: unit_gt_def)

lemma unit_lt_refl: "unit_lt u u"
  by (simp add: unit_lt_def unit_gt_iff)

section \<open>Amounts\<close>

record soca_memory =
  mem_value :: pyfloat
  mem_unit :: mem_unit

definition SocaMemory :: "pyfloat \<Rightarrow> mem_unit \<Rightarrow> soca_memory" where
  "SocaMemory v u = \<lparr>mem_value = v, mem_unit = u\<rparr>"

definition bytes :: "soca_memory \<Rightarrow> int res" where
  "bytes m =
     (if mem_unit m = BYTES then int_of_float (mem_value m)
      else int_of_float (fmul (mem_value m) (Fin (of_int (unit_bytes (mem_unit m))))))"

text \<open>\<open>_value\<close>: an integral value as it is, any other rounded to one decimal.\<close>

definition norm_value :: "pyfloat \<Rightarrow> pyfloat" where
  "norm_value v = (if is_integer v then v else fround v 1)"

text \<open>\<open>kib()\<close>, \<open>mib()\<close>, ..., \<open>tb()\<close>: the value in the unit \<open>u\<close>.\<close>

definition in_unit :: "mem_unit \<Rightarrow> soca_memory \<Rightarrow> pyfloat res" where
  "in_unit u m =
     (if mem_unit m = u then Inr (norm_value (mem_value m))
      else bindE (bytes m) (\<lambda>b. bindE (int_truediv b (unit_bytes u)) (\<lambda>q. Inr (norm_value q))))"

definition as_unit :: "soca_memory \<Rightarrow> mem_unit \<Rightarrow> soca_memory res" where
  "as_unit m u =
     (if u = BYTES
      then bindE (bytes m) (\<lambda>b. bindE (float_of_int b) (\<lambda>v. Inr (SocaMemory v BYTES)))
      else bindE (in_unit u m) (\<lambda>v. Inr (SocaMemory v u)))"

definition int_val :: "soca_memory \<Rightarrow> int res" where
  "int_val m = int_of_float (mem_value m)"

definition larger_unit :: "mem_unit \<Rightarrow> mem_unit \<Rightarrow> mem_unit" where
  "larger_unit a b = (if unit_lt a b then b else a)"

definition mem_add :: "soca_memory \<Rightarrow> soca_memory \<Rightarrow> soca_memory res" where
  "mem_add a b =
     bindE (bytes a) (\<lambda>x. bindE (bytes b) (\<lambda>y. bindE (float_of_int (x + y)) (\<lambda>v.
       as_unit (SocaMemory v BYTES) (larger_unit (mem_unit a) (mem_unit b)))))"

definition mem_sub :: "soca_memory \<Rightarrow> soca_memory \<Rightarrow> soca_memory res" where
  "mem_sub a b =
     bindE (bytes a) (\<lambda>x. bindE (bytes b) (\<lambda>y. bindE (float_of_int (x - y)) (\<lambda>v.
       as_unit (SocaMemory v BYTES) (larger_unit (mem_unit a) (mem_unit b)))))"

text \<open>Comparisons with another amount go by bytes, comparisons with a number by the bare value.\<close>

definition mem_cmp :: "(int \<Rightarrow> int \<Rightarrow> bool) \<Rightarrow> soca_memory \<Rightarrow> soca_memory \<Rightarrow> bool res" where
  "mem_cmp r a b = bindE (bytes a) (\<lambda>x. bindE (bytes b) (\<lambda>y. Inr (r x y)))"

definition mem_lt :: "soca_memory \<Rightarrow> soca_memory \<Rightarrow> bool res" where
  "mem_lt = mem_cmp (<)"

definition mem_gt :: "soca_memory \<Rightarrow> soca_memory \<Rightarrow> bool res" where
  "mem_gt = mem_cmp (>)"

definition mem_gt_num :: "soca_memory \<Rightarrow> int \<Rightarrow> bool" where
  "mem_gt_num m i = fless (Fin (of_int i)) (mem_value m)"

definition mem_ge_num :: "soca_memory \<Rightarrow> int \<Rightarrow> bool" where
  "mem_ge_num m i = fleq (Fin (of_int i)) (mem_value m)"

text \<open>\<open>min(values)\<close>: the first of the smallest ones; raises ValueError for no values.\<close>

fun mem_min_from :: "soca_memory \<Rightarrow> soca_memory list \<Rightarrow> soca_memory res" where
  "mem_min_from m [] = Inr m"
| "mem_min_from m (x # xs) = bindE (mem_lt x m) (\<lambda>b. mem_min_from (if b then x else m) xs)"

fun mem_min :: "soca_memory list \<Rightarrow> soca_memory res" where
  "mem_min [] = Inl ValueError"
| "mem_min (x # xs) = mem_min_from x xs"

fun mem_max_from :: "soca_memory \<Rightarrow> soca_memory list \<Rightarrow> soca_memory res" where
  "mem_max_from m [] = Inr m"
| "mem_max_from m (x # xs) = bindE (mem_gt x m) (\<lambda>b. mem_max_from (if b then x else m) xs)"

fun mem_max :: "soca_memory list \<Rightarrow> soca_memory res" where
  "mem_max [] = Inl ValueError"
| "mem_max (x # xs) = mem_max_from x xs"

section \<open>Parsing\<close>

text \<open>The suffix is removed with \<open>strip\<close>, that is by its characters and at both ends.\<close>

definition memory_suffixes :: "(string \<times> mem_unit) list" where
  "memory_suffixes =
     [(''tib'', TiB), (''gib'', GiB), (''mib'', MiB), (''kib'', KiB),
      (''tb'', TB), (''gb'', GB), (''mb'', MB), (''kb'', KB), (''b'', BYTES)]"

definition find_suffix :: "string \<Rightarrow> (string \<times> mem_unit) option" where
  "find_suffix s = find (\<lambda>(suf, u). endswith suf s) memory_suffixes"

definition resolve_memory ::
  "string option \<Rightarrow> mem_unit option \<Rightarrow> soca_memory option \<Rightarrow> soca_memory option res" where
  "resolve_memory v dunit dflt =
     (if is_empty_opt_str v then Inr dflt
      else
        let value = strip (lower (the v));
            parse = (\<lambda>u memory.
              let t = strip memory in
              case float_of_str t of
                Inl _ \<Rightarrow> Inl (SocaException ''MEMORY_FORMAT_PARSING_FAILED'')
              | Inr x \<Rightarrow> Inr (Some (SocaMemory x u)))
        in case find_suffix value of
             Some (suf, u) \<Rightarrow> parse u (strip_chars suf value)
           | None \<Rightarrow>
               (case dunit of
                  None \<Rightarrow> Inl (SocaException ''MEMORY_FORMAT_PARSING_FAILED'')
                | Some u \<Rightarrow> parse u value))"

section \<open>Exactness\<close>

lemma bytes_of_int:
  assumes "\<bar>n\<bar> * unit_bytes u \<le> 2 ^ 53"
  shows "bytes (SocaMemory (Fin (of_int n)) u) = Inr (n * unit_bytes u)"
proof -
  have "\<bar>n * unit_bytes u\<bar> \<le> 2 ^ 53"
    using assms unit_bytes_bounds(1) [of u] by (simp add: abs_mult)
  then have "rnd (of_int (n * unit_bytes u)) = Fin (of_int (n * unit_bytes u))"
    by (rule rnd_of_int)
  then have "rnd (of_int n * of_int (unit_bytes u)) = Fin (of_int (n * unit_bytes u))"
    by simp
  then show ?thesis
    by (cases u) (simp_all add: bytes_def SocaMemory_def flip: of_int_mult)
qed

lemma norm_value_of_int [simp]: "norm_value (Fin (of_int i)) = Fin (of_int i)"
  by (simp add: norm_value_def)

lemma abs_le_unit: "\<bar>n\<bar> * unit_bytes u \<le> 2 ^ 53 \<Longrightarrow> \<bar>n\<bar> \<le> 2 ^ 53"
  using unit_bytes_bounds(1) [of u] mult_left_mono [of 1 "unit_bytes u" "\<bar>n\<bar>"] by simp

lemma as_unit_of_bytes:
  assumes "\<bar>n\<bar> * unit_bytes u \<le> 2 ^ 53"
  shows "as_unit (SocaMemory (Fin (of_int (n * unit_bytes u))) BYTES) u = Inr (SocaMemory (Fin (of_int n)) u)"
proof -
  have b: "bytes (SocaMemory (Fin (of_int (n * unit_bytes u))) BYTES) = Inr (n * unit_bytes u)"
    by (simp add: bytes_def SocaMemory_def flip: of_int_mult)
  have n: "\<bar>n\<bar> \<le> 2 ^ 53" using assms by (rule abs_le_unit)
  have u0: "unit_bytes u \<noteq> 0" using unit_bytes_bounds(1) [of u] by simp
  then have "of_int (n * unit_bytes u) / of_int (unit_bytes u) = (of_int n :: rat)" by simp
  then have q: "int_truediv (n * unit_bytes u) (unit_bytes u) = Inr (Fin (of_int n))"
    using u0 n by (simp add: int_truediv_def rnd_of_int)
  show ?thesis
  proof (cases "u = BYTES")
    case True
    then show ?thesis using b n by (simp add: as_unit_def float_of_int_exact)
  next
    case False
    then have "mem_unit (SocaMemory v BYTES) \<noteq> u" for v by (simp add: SocaMemory_def)
    then show ?thesis using b q False by (simp add: as_unit_def in_unit_def)
  qed
qed

lemma larger_unit_same [simp]: "larger_unit u u = u"
  by (simp add: larger_unit_def)

lemma mem_add_exact:
  assumes "\<bar>n\<bar> * unit_bytes u \<le> 2 ^ 53" "\<bar>m\<bar> * unit_bytes u \<le> 2 ^ 53" "\<bar>n + m\<bar> * unit_bytes u \<le> 2 ^ 53"
  shows "mem_add (SocaMemory (Fin (of_int n)) u) (SocaMemory (Fin (of_int m)) u)
       = Inr (SocaMemory (Fin (of_int (n + m))) u)"
proof -
  have "\<bar>(n + m) * unit_bytes u\<bar> \<le> 2 ^ 53"
    using assms(3) unit_bytes_bounds(1) [of u] by (simp add: abs_mult)
  then have f: "float_of_int ((n + m) * unit_bytes u) = Inr (Fin (of_int ((n + m) * unit_bytes u)))"
    by (rule float_of_int_exact)
  have s: "n * unit_bytes u + m * unit_bytes u = (n + m) * unit_bytes u" by (simp add: algebra_simps)
  have un: "mem_unit (SocaMemory v u) = u" for v by (simp add: SocaMemory_def)
  show ?thesis
    using as_unit_of_bytes [OF assms(3)]
    by (simp only: mem_add_def bytes_of_int [OF assms(1)] bytes_of_int [OF assms(2)] bindE_simps s f un
        larger_unit_same)
qed

lemma mem_min_from_least:
  assumes "mem_min_from m xs = Inr r"
  shows "r \<in> insert m (set xs) \<and> (\<forall>x \<in> insert m (set xs). \<forall>a b. bytes r = Inr a \<longrightarrow> bytes x = Inr b \<longrightarrow> a \<le> b)"
  using assms
proof (induction xs arbitrary: m)
  case Nil
  then show ?case by auto
next
  case (Cons x xs)
  then obtain b where b: "mem_lt x m = Inr b" "mem_min_from (if b then x else m) xs = Inr r"
    by (auto simp: bindE_Inr_iff)
  then obtain p q where pq: "bytes x = Inr p" "bytes m = Inr q" "b = (p < q)"
    by (auto simp: mem_lt_def mem_cmp_def bindE_Inr_iff)
  from Cons.IH [OF b(2)] pq show ?case by (auto split: if_splits)
qed

end
