(* ===== verification/Scheduler_Types.thy ===== *)
theory Scheduler_Types
  imports Soca_Memory
begin

text \<open>
  The data model of the scheduler, \<open>ideadatamodel/scheduler/scheduler_model.py\<close>, but for the job
  itself, the compute node and the bill of materials, which have theories of their own: the
  enumerations with their \<open>resolve\<close> functions, job parameters and provisioning options, the
  queue profile with its management parameters, and the small result objects. Pydantic fields
  are optional everywhere, so the records hold options. A \<open>datetime\<close> is its microseconds.
\<close>

section \<open>Enumerations\<close>

datatype SocaSpotAllocationStrategy = CAPACITY_OPTIMIZED | LOWEST_PRICE | DIVERSIFIED

fun strategy_str :: "SocaSpotAllocationStrategy \<Rightarrow> string" where
  "strategy_str CAPACITY_OPTIMIZED = ''capacity-optimized''"
| "strategy_str LOWEST_PRICE = ''lowest-price''"
| "strategy_str DIVERSIFIED = ''diversified''"

fun asg_value :: "SocaSpotAllocationStrategy \<Rightarrow> string" where
  "asg_value CAPACITY_OPTIMIZED = ''capacity-optimized''"
| "asg_value LOWEST_PRICE = ''lowest-price''"
| "asg_value DIVERSIFIED = ''capacity-optimized''"

fun spot_value :: "SocaSpotAllocationStrategy \<Rightarrow> string" where
  "spot_value CAPACITY_OPTIMIZED = ''capacityOptimized''"
| "spot_value LOWEST_PRICE = ''lowestPrice''"
| "spot_value DIVERSIFIED = ''diversified''"

definition resolve_strategy ::
  "string option \<Rightarrow> SocaSpotAllocationStrategy option \<Rightarrow> SocaSpotAllocationStrategy option" where
  "resolve_strategy v d =
     (if is_empty_opt_str v then d
      else let token = lower (strip (the v)) in
        if token = [] then None
        else if token \<in> set [''lowest-price'', ''lowestprice''] then Some LOWEST_PRICE
        else if token \<in> set [''diversified''] then Some DIVERSIFIED
        else if token \<in> set [''capacityoptimized'', ''capacity-optimized'', ''optimized''] then Some CAPACITY_OPTIMIZED
        else None)"

datatype SocaCapacityType = ONDEMAND | SPOT | MIXED

fun capacity_type_str :: "SocaCapacityType \<Rightarrow> string" where
  "capacity_type_str ONDEMAND = ''on-demand''"
| "capacity_type_str SPOT = ''spot''"
| "capacity_type_str MIXED = ''mixed''"

definition resolve_capacity_type :: "string option \<Rightarrow> SocaCapacityType option \<Rightarrow> SocaCapacityType option" where
  "resolve_capacity_type v d =
     (case v of None \<Rightarrow> d
      | Some s \<Rightarrow>
          let token = strip (lower s) in
          if token \<in> set [''ondemand'', ''on-demand'', ''on_demand''] then Some ONDEMAND
          else if token = ''spot'' then Some SPOT
          else if token = ''mixed'' then Some MIXED
          else d)"

datatype SocaScalingMode = SINGLE_JOB | BATCH

fun scaling_mode_str :: "SocaScalingMode \<Rightarrow> string" where
  "scaling_mode_str SINGLE_JOB = ''single-job''"
| "scaling_mode_str BATCH = ''batch''"

definition resolve_scaling_mode :: "string option \<Rightarrow> SocaScalingMode option \<Rightarrow> SocaScalingMode option" where
  "resolve_scaling_mode v d =
     (case v of None \<Rightarrow> d
      | Some s \<Rightarrow>
          let token = strip (lower s) in
          if token \<in> set [''single-job'', ''single_job''] then Some SINGLE_JOB
          else if token \<in> set [''batch'', ''multiple_jobs''] then Some BATCH
          else d)"

datatype SocaQueueMode = FIFO | FAIRSHARE | LICENSE_OPTIMIZED

fun queue_mode_str :: "SocaQueueMode \<Rightarrow> string" where
  "queue_mode_str FIFO = ''fifo''"
| "queue_mode_str FAIRSHARE = ''fairshare''"
| "queue_mode_str LICENSE_OPTIMIZED = ''license-optimized''"

definition resolve_queue_mode :: "string option \<Rightarrow> SocaQueueMode option \<Rightarrow> SocaQueueMode option" where
  "resolve_queue_mode v d =
     (if is_empty_opt_str v then d
      else let token = lower (strip (the v)) in
        if token = ''fairshare'' then Some FAIRSHARE
        else if token = ''fifo'' then Some FIFO
        else if token = ''license-optimized'' then Some LICENSE_OPTIMIZED
        else d)"

datatype DryRunOption =
    DRY_DEFAULT | JSON_JOB | JSON_BOM | JSON_BUDGET | JSON_QUOTA | JSON_QUEUE
  | NOTIFICATION_EMAIL | DEBUG

fun dry_run_str :: "DryRunOption \<Rightarrow> string" where
  "dry_run_str DRY_DEFAULT = ''true''"
| "dry_run_str JSON_JOB = ''json:job''"
| "dry_run_str JSON_BOM = ''json:bom''"
| "dry_run_str JSON_BUDGET = ''json:budget''"
| "dry_run_str JSON_QUOTA = ''json:quota''"
| "dry_run_str JSON_QUEUE = ''json:queue''"
| "dry_run_str NOTIFICATION_EMAIL = ''notification:email''"
| "dry_run_str DEBUG = ''debug''"

text \<open>Any other value than None, a bool or a str has no \<open>lower\<close>.\<close>

fun resolve_dry_run :: "pyval \<Rightarrow> DryRunOption option res" where
  "resolve_dry_run PNone = Inr None"
| "resolve_dry_run (PBool b) = Inr (if b then Some DRY_DEFAULT else None)"
| "resolve_dry_run (PStr s) =
     (let token = strip (lower s) in Inr
       (if token = ''false'' then None
        else if token \<in> set [''json'', ''json:job''] then Some JSON_JOB
        else if token = ''json:bom'' then Some JSON_BOM
        else if token = ''json:budget'' then Some JSON_BUDGET
        else if token = ''json:quota'' then Some JSON_QUOTA
        else if token = ''json:queue'' then Some JSON_QUEUE
        else if token = ''notifications:email'' then Some NOTIFICATION_EMAIL
        else Some DRY_DEFAULT))"
| "resolve_dry_run _ = Inl AttributeError"

datatype SocaJobState =
    JS_TRANSITION | JS_QUEUED | JS_HELD | JS_WAITING | JS_RUNNING | JS_EXIT
  | JS_SUBJOB_EXPIRED | JS_SUBJOB_BEGUN | JS_MOVED | JS_FINISHED | JS_SUSPENDED

datatype ProvisioningStatus =
    NOT_PROVISIONED | IN_PROGRESS | COMPLETED | TIMEOUT | FAILED | DELETE_IN_PROGRESS

section \<open>FSx for Lustre\<close>

record fsx_config =
  fsx_enabled :: "bool option"
  existing_fsx :: "string option"
  s3_backend :: "string option"
  import_path :: "string option"
  export_path :: "string option"
  deployment_type :: "string option"
  per_unit_throughput :: "int option"
  fsx_size :: "soca_memory option"

definition empty_fsx_config :: fsx_config where
  "empty_fsx_config = \<lparr>fsx_enabled = None, existing_fsx = None, s3_backend = None, import_path = None,
     export_path = None, deployment_type = None, per_unit_throughput = None, fsx_size = None\<rparr>"

definition pyval_of_int_opt :: "int option \<Rightarrow> pyval" where
  "pyval_of_int_opt v = (case v of None \<Rightarrow> PNone | Some i \<Rightarrow> PInt i)"

definition as_job_submit_params :: "fsx_config \<Rightarrow> pydict res" where
  "as_job_submit_params c =
     (if fsx_enabled c = Some False then Inr [(''fsx_lustre'', PStr ''False'')]
      else case existing_fsx c of
        Some fs \<Rightarrow> Inr [(''fsx_lustre'', PStr fs)]
      | None \<Rightarrow>
          let backend =
                (case s3_backend c of None \<Rightarrow> []
                 | Some b \<Rightarrow>
                    [(''fsx_lustre'', PStr
                       (case export_path c of None \<Rightarrow> b
                        | Some e \<Rightarrow> b @ ''+'' @ e @
                            (case import_path c of None \<Rightarrow> [] | Some i \<Rightarrow> ''+'' @ i)))]);
              deployment =
                (case deployment_type c of None \<Rightarrow> []
                 | Some t \<Rightarrow>
                    (''fsx_lustre_deployment_type'', PStr t) #
                    (if t = ''persistent_1''
                     then [(''fsx_lustre_per_unit_throughput'', pyval_of_int_opt (per_unit_throughput c))]
                     else []));
              enabled = (if s3_backend c = None then [(''fsx_lustre'', PStr ''True'')] else [])
          in case fsx_size c of
               None \<Rightarrow> Inr (backend @ deployment @ enabled)
             | Some m \<Rightarrow> bindE (int_of_float (mem_value m)) (\<lambda>i.
                 Inr (backend @ deployment @ [(''fsx_lustre_size'', PInt i)] @ enabled)))"

definition allowed_deployment_types :: "string list" where
  "allowed_deployment_types = [''scratch_1'', ''scratch_2'', ''persistent_1'', ''persistent_2'']"

definition allowed_per_unit_throughputs :: "int list" where
  "allowed_per_unit_throughputs = [50, 100, 200]"

text \<open>\<open>range(2400, 100800, 2400)\<close> has 41 elements; 1200 is put in front.\<close>

definition allowed_sizes_gb :: "int list" where
  "allowed_sizes_gb = 1200 # map (\<lambda>k. 2400 + 2400 * int k) [0..<41]"

definition is_allowed_size :: "int \<Rightarrow> bool" where
  "is_allowed_size v = (v \<in> set allowed_sizes_gb)"

section \<open>Job parameters and provisioning options\<close>

record license_ask =
  license_name :: "string option"
  license_count :: "int option"

record job_params =
  p_nodes :: "int option"
  p_cpus :: "int option"
  p_memory :: "soca_memory option"
  p_gpus :: "int option"
  p_mpiprocs :: "int option"
  p_walltime :: "string option"
  p_base_os :: "string option"
  p_instance_ami :: "string option"
  p_instance_types :: "string list option"
  p_force_reserved_instances :: "bool option"
  p_spot :: "bool option"
  p_spot_price :: "pyfloat option"
  p_spot_allocation_count :: "int option"
  p_spot_allocation_strategy :: "SocaSpotAllocationStrategy option"
  p_subnet_ids :: "string list option"
  p_security_groups :: "string list option"
  p_instance_profile :: "string option"
  p_keep_ebs_volumes :: "bool option"
  p_root_storage_size :: "soca_memory option"
  p_enable_scratch :: "bool option"
  p_scratch_provider :: "string option"
  p_scratch_storage_size :: "soca_memory option"
  p_scratch_storage_iops :: "int option"
  p_fsx_lustre :: "fsx_config option"
  p_enable_instance_store :: "bool option"
  p_enable_efa_support :: "bool option"
  p_enable_ht_support :: "bool option"
  p_enable_placement_group :: "bool option"
  p_enable_system_metrics :: "bool option"
  p_enable_anonymous_metrics :: "bool option"
  p_licenses :: "license_ask list option"
  p_compute_stack :: "string option"
  p_stack_id :: "string option"
  p_job_group :: "string option"
  p_job_started_email_template :: "string option"
  p_job_completed_email_template :: "string option"
  p_custom_params :: "(string \<times> string option) list option"

definition empty_job_params :: job_params where
  "empty_job_params = \<lparr>
     p_nodes = None, p_cpus = None, p_memory = None, p_gpus = None, p_mpiprocs = None, p_walltime = None,
     p_base_os = None, p_instance_ami = None, p_instance_types = None, p_force_reserved_instances = None,
     p_spot = None, p_spot_price = None, p_spot_allocation_count = None, p_spot_allocation_strategy = None,
     p_subnet_ids = None, p_security_groups = None, p_instance_profile = None, p_keep_ebs_volumes = None,
     p_root_storage_size = None, p_enable_scratch = None, p_scratch_provider = None,
     p_scratch_storage_size = None, p_scratch_storage_iops = None, p_fsx_lustre = None,
     p_enable_instance_store = None, p_enable_efa_support = None, p_enable_ht_support = None,
     p_enable_placement_group = None, p_enable_system_metrics = None, p_enable_anonymous_metrics = None,
     p_licenses = None, p_compute_stack = None, p_stack_id = None, p_job_group = None,
     p_job_started_email_template = None, p_job_completed_email_template = None, p_custom_params = None\<rparr>"

record instance_type_options =
  o_name :: "string option"
  o_weighted_capacity :: "int option"
  o_cpu_options_supported :: "bool option"
  o_default_core_count :: "int option"
  o_default_vcpu_count :: "int option"
  o_default_threads_per_core :: "int option"
  o_threads_per_core :: "int option"
  o_memory :: "soca_memory option"
  o_ebs_optimized :: "bool option"

record provisioning_options =
  po_keep_forever :: "bool option"
  po_terminate_when_idle :: "int option"
  po_ebs_optimized :: "bool option"
  po_spot_fleet_iam_role_arn :: "string option"
  po_compute_fleet_instance_profile_arn :: "string option"
  po_apps_fs_dns :: "string option"
  po_apps_fs_provider :: "string option"
  po_data_fs_dns :: "string option"
  po_data_fs_provider :: "string option"
  po_es_endpoint :: "string option"
  po_stack_uuid :: "string option"
  po_s3_bucket :: "string option"
  po_s3_bucket_install_folder :: "string option"
  po_scheduler_private_dns :: "string option"
  po_scheduler_tcp_port :: "int option"
  po_ssh_key_pair :: "string option"
  po_auth_provider :: "string option"
  po_tags :: "pyval option"
  po_anonymous_metrics_lambda_arn :: "string option"
  po_instance_types :: "instance_type_options list option"

definition empty_provisioning_options :: provisioning_options where
  "empty_provisioning_options = \<lparr>
     po_keep_forever = None, po_terminate_when_idle = None, po_ebs_optimized = None,
     po_spot_fleet_iam_role_arn = None, po_compute_fleet_instance_profile_arn = None,
     po_apps_fs_dns = None, po_apps_fs_provider = None, po_data_fs_dns = None, po_data_fs_provider = None,
     po_es_endpoint = None, po_stack_uuid = None, po_s3_bucket = None, po_s3_bucket_install_folder = None,
     po_scheduler_private_dns = None, po_scheduler_tcp_port = None, po_ssh_key_pair = None,
     po_auth_provider = None, po_tags = None, po_anonymous_metrics_lambda_arn = None,
     po_instance_types = None\<rparr>"

end
