(* ===== verification/Queue_Types.thy ===== *)
theory Queue_Types
  imports Scheduler_Types
begin

text \<open>
  What describes a queue and the work in it (\<open>scheduler_model.py\<close>): \<open>SocaQueueManagementParams\<close>
  with its membership tests, \<open>HpcQueueProfile\<close>, \<open>LimitCheckResult\<close>, \<open>QueuedJob\<close>, \<open>JobMetrics\<close>,
  \<open>ProvisioningCapacityInfo\<close> and \<open>JobUpdate\<close>.
\<close>

section \<open>Queue management parameters\<close>

record queue_params =
  max_running_jobs :: "int option"
  max_provisioned_instances :: "int option"
  max_provisioned_capacity :: "int option"
  wait_on_any_job_with_license :: "bool option"
  allowed_instance_types :: "string list option"
  excluded_instance_types :: "string list option"
  restricted_parameters :: "string list option"
  allowed_security_groups :: "string list option"
  allowed_instance_profiles :: "string list option"

definition is_allowed_security_group :: "queue_params \<Rightarrow> string \<Rightarrow> bool" where
  "is_allowed_security_group q sg =
     (if is_empty_opt_list (allowed_security_groups q) then True
      else sg \<in> set (the (allowed_security_groups q)))"

definition is_restricted_parameter :: "queue_params \<Rightarrow> string \<Rightarrow> bool" where
  "is_restricted_parameter q name =
     (if is_empty_opt_list (restricted_parameters q) then False
      else name \<in> set (the (restricted_parameters q)))"

definition is_allowed_instance_profile :: "queue_params \<Rightarrow> string \<Rightarrow> bool" where
  "is_allowed_instance_profile q ip =
     (if is_empty_opt_list (allowed_instance_profiles q) then True
      else ip \<in> set (the (allowed_instance_profiles q)))"

text \<open>Entries without a dot name whole instance families.\<close>

definition get_instance_families :: "string list option \<Rightarrow> string list option" where
  "get_instance_families types =
     (case types of None \<Rightarrow> None
      | Some ts \<Rightarrow>
          if ts = [] then None
          else let fs = filter (\<lambda>t. CHR ''.'' \<notin> set t) ts in if fs = [] then None else Some fs)"

definition is_allowed_or_excluded_instance_type :: "string \<Rightarrow> string list \<Rightarrow> bool" where
  "is_allowed_or_excluded_instance_type t types =
     (let check_type = t \<in> set types;
          check_family =
            (case get_instance_families (Some types) of
               None \<Rightarrow> False
             | Some fs \<Rightarrow> hd (split_char (CHR ''.'') t) \<in> set fs)
      in check_type \<or> check_family)"

definition is_allowed_instance_type :: "queue_params \<Rightarrow> string \<Rightarrow> bool" where
  "is_allowed_instance_type q t =
     (if is_empty_opt_list (allowed_instance_types q) then True
      else is_allowed_or_excluded_instance_type t (the (allowed_instance_types q)))"

definition is_excluded_instance_type :: "queue_params \<Rightarrow> string \<Rightarrow> bool" where
  "is_excluded_instance_type q t =
     (if is_empty_opt_list (excluded_instance_types q) then False
      else is_allowed_or_excluded_instance_type t (the (excluded_instance_types q)))"

text \<open>The family of \<open>c5.large\<close> is \<open>c5\<close>: a type matches a list through itself or its family.\<close>

lemma type_matches_list:
  "is_allowed_or_excluded_instance_type t types \<longleftrightarrow>
     t \<in> set types \<or>
     (let family = hd (split_char (CHR ''.'') t) in family \<in> set types)"
proof -
  have "CHR ''.'' \<notin> set (hd (split_char (CHR ''.'') t))"
    by (rule split_char_parts [of _ _ t]) (simp add: hd_in_set)
  then show ?thesis
    by (auto simp: is_allowed_or_excluded_instance_type_def get_instance_families_def Let_def
        filter_empty_conv split: option.splits)
qed

section \<open>Results and entries\<close>

record limit_check_result =
  lc_success :: "bool option"
  lc_limit_type :: string
  lc_queue_threshold :: "int option"
  lc_queue_current :: "int option"
  lc_group_threshold :: "int option"
  lc_group_current :: "int option"

definition new_limit_check :: "string \<Rightarrow> limit_check_result" where
  "new_limit_check t = \<lparr>lc_success = None, lc_limit_type = t, lc_queue_threshold = None,
     lc_queue_current = None, lc_group_threshold = None, lc_group_current = None\<rparr>"

definition lc_bool :: "limit_check_result \<Rightarrow> bool" where
  "lc_bool r = (lc_success r = Some True)"

definition lc_ok :: "limit_check_result \<Rightarrow> limit_check_result" where
  "lc_ok r = r\<lparr>lc_success := Some True\<rparr>"

definition lc_fail :: "limit_check_result \<Rightarrow> limit_check_result" where
  "lc_fail r = r\<lparr>lc_success := Some False\<rparr>"

text \<open>Comparing with a current value that was never set raises TypeError.\<close>

definition is_group_limit :: "limit_check_result \<Rightarrow> bool res" where
  "is_group_limit r =
     (case lc_group_threshold r of None \<Rightarrow> Inr False
      | Some t \<Rightarrow> bindE (required TypeError (lc_group_current r)) (\<lambda>c. Inr (c > t)))"

definition is_queue_limit :: "limit_check_result \<Rightarrow> bool res" where
  "is_queue_limit r =
     (case lc_queue_threshold r of None \<Rightarrow> Inr False
      | Some t \<Rightarrow> bindE (required TypeError (lc_queue_current r)) (\<lambda>c. Inr (c > t)))"

text \<open>A job in the provisioning queue; entries are equal when their job ids are.\<close>

record queued_job =
  qj_priority :: pynum
  qj_job_id :: string
  qj_job_group :: string
  qj_deleted :: "bool option"
  qj_processed :: "bool option"
  qj_capacity_added :: "bool option"

definition qj_lt :: "queued_job \<Rightarrow> queued_job \<Rightarrow> bool" where
  "qj_lt a b = num_lt (qj_priority a) (qj_priority b)"

record job_metrics =
  active_jobs :: int
  desired_capacity_metric :: int

definition jm_zero :: job_metrics where
  "jm_zero = \<lparr>active_jobs = 0, desired_capacity_metric = 0\<rparr>"

definition jm_negate :: "job_metrics \<Rightarrow> job_metrics" where
  "jm_negate m = m\<lparr>active_jobs := - active_jobs m, desired_capacity_metric := - desired_capacity_metric m\<rparr>"

definition jm_get_delta :: "job_metrics \<Rightarrow> job_metrics \<Rightarrow> job_metrics" where
  "jm_get_delta self other =
     \<lparr>active_jobs = active_jobs other - active_jobs self,
      desired_capacity_metric = desired_capacity_metric other - desired_capacity_metric self\<rparr>"

definition jm_apply_delta :: "job_metrics \<Rightarrow> job_metrics \<Rightarrow> job_metrics" where
  "jm_apply_delta self delta =
     self\<lparr>active_jobs := active_jobs self + active_jobs delta,
          desired_capacity_metric := desired_capacity_metric self + desired_capacity_metric delta\<rparr>"

lemma jm_delta_roundtrip: "jm_apply_delta self (jm_get_delta self other) = other"
  by (simp add: jm_apply_delta_def jm_get_delta_def)

lemma jm_negate_cancels: "jm_apply_delta m (jm_negate m) = jm_zero"
  by (simp add: jm_apply_delta_def jm_negate_def jm_zero_def)

record capacity_info =
  desired_capacity :: "int option"
  group_capacity :: "int option"
  target_capacity :: "int option"
  existing_capacity :: "int option"
  provisioned_capacity :: "int option"
  idle_capacity :: "int option"
  busy_capacity :: "int option"
  pending_capacity :: "int option"
  total_instances :: "int option"
  idle_instances :: "int option"
  busy_instances :: "int option"
  pending_instances :: "int option"
  ci_max_provisioned_instances :: "int option"
  ci_max_provisioned_capacity :: "int option"
  ci_comment :: "string option"
  ci_error_code :: "string option"

definition empty_capacity_info :: capacity_info where
  "empty_capacity_info = \<lparr>desired_capacity = None, group_capacity = None, target_capacity = None,
     existing_capacity = None, provisioned_capacity = None, idle_capacity = None, busy_capacity = None,
     pending_capacity = None, total_instances = None, idle_instances = None, busy_instances = None,
     pending_instances = None, ci_max_provisioned_instances = None, ci_max_provisioned_capacity = None,
     ci_comment = None, ci_error_code = None\<rparr>"

definition init_zero :: "capacity_info \<Rightarrow> capacity_info" where
  "init_zero c = c\<lparr>desired_capacity := Some 0, group_capacity := Some 0, target_capacity := Some 0,
     existing_capacity := Some 0, provisioned_capacity := Some 0, idle_capacity := Some 0,
     busy_capacity := Some 0, pending_capacity := Some 0, total_instances := Some 0,
     idle_instances := Some 0, busy_instances := Some 0, pending_instances := Some 0,
     ci_max_provisioned_instances := Some 0, ci_max_provisioned_capacity := Some 0\<rparr>"

definition capacity_increased :: "capacity_info \<Rightarrow> int res" where
  "capacity_increased c =
     bindE (required TypeError (target_capacity c)) (\<lambda>t.
     bindE (required TypeError (provisioned_capacity c)) (\<lambda>p. Inr (t - p)))"

definition is_capacity_increased :: "capacity_info \<Rightarrow> bool res" where
  "is_capacity_increased c = bindE (capacity_increased c) (\<lambda>i. Inr (i > 0))"

text \<open>\<open>timedelta.seconds\<close>: the seconds of the last, incomplete day; days are another field.\<close>

definition timedelta_seconds :: "int \<Rightarrow> int" where
  "timedelta_seconds micros = (micros div 1000000) mod 86400"

lemma timedelta_seconds_bounds: "0 \<le> timedelta_seconds d" "timedelta_seconds d < 86400"
  by (simp_all add: timedelta_seconds_def)

lemma timedelta_seconds_day:
  "0 \<le> d \<Longrightarrow> d < 86400 * 1000000 \<Longrightarrow> timedelta_seconds d = d div 1000000"
  by (simp add: timedelta_seconds_def mod_pos_pos_trivial div_less_iff_less_mult zdiv_mono1 pos_imp_zdiv_nonneg_iff)

record job_update =
  ju_queue :: "string option"
  ju_owner :: "string option"
  ju_job_id :: "string option"
  ju_timestamp :: int

definition is_applicable :: "job_update \<Rightarrow> int \<Rightarrow> int \<Rightarrow> bool" where
  "is_applicable u now delay_secs = (timedelta_seconds (now - ju_timestamp u) \<ge> delay_secs)"

text \<open>An update becomes applicable after the delay, and loses that a day later.\<close>

lemma is_applicable_wraps:
  assumes "0 < delay"
  shows "\<not> is_applicable u (ju_timestamp u + 86400 * 1000000) delay"
  using assms by (simp add: is_applicable_def timedelta_seconds_def)

section \<open>The queue profile\<close>

record queue_profile =
  qp_queue_profile_id :: "string option"
  qp_name :: string
  qp_project_names :: "string list option"
  qp_queues :: "string list option"
  qp_enabled :: "bool option"
  qp_queue_mode :: "SocaQueueMode option"
  qp_scaling_mode :: "SocaScalingMode option"
  qp_terminate_when_idle :: "int option"
  qp_keep_forever :: "bool option"
  qp_stack_uuid :: "string option"
  qp_queue_management_params :: "queue_params option"
  qp_default_job_params :: "job_params option"
  qp_status :: "string option"
  qp_limit_info :: "limit_check_result option"
  qp_queue_size :: "int option"

definition is_enabled :: "queue_profile \<Rightarrow> bool" where
  "is_enabled q = opt_or (qp_enabled q) False"

end
