(* ===== verification/Job_Cost.thy ===== *)
theory Job_Cost
  imports Py_Float
begin

text \<open>
  The estimated bill of materials of a job: \<open>SocaJobEstimatedBOMCostLineItem\<close> and
  \<open>SocaJobEstimatedBOMCost\<close> of \<open>ideadatamodel/scheduler/scheduler_model.py\<close>. A \<open>SocaAmount\<close> is its
  float amount (the currency is the configured one, the constructor refuses any other). The
  totals are attributes of the object that every operation recomputes last, so an operation
  that raises on the way leaves them out of step; the operations therefore run on the object.
\<close>

section \<open>Line items\<close>

record line_item =
  li_title :: string
  li_service :: string
  li_product :: string
  li_quantity :: pyfloat
  li_unit :: "string option"
  li_unit_price :: pyfloat
  li_total_price :: pyfloat

text \<open>The keyword arguments of \<open>_build_line_item\<close>; numbers and amounts are both floats here.\<close>

record line_item_args =
  arg_title :: "string option"
  arg_service :: "string option"
  arg_product :: "string option"
  arg_quantity :: "pyfloat option"
  arg_unit :: "string option"
  arg_unit_price :: "pyfloat option"
  arg_total_price :: "pyfloat option"

definition invalid_params :: exc where
  "invalid_params = SocaException ''INVALID_PARAMS''"

definition build_line_item :: "line_item_args \<Rightarrow> line_item res" where
  "build_line_item a =
     bindE (required invalid_params (arg_title a)) (\<lambda>title.
     bindE (required invalid_params (arg_service a)) (\<lambda>service.
     bindE (required invalid_params (arg_product a)) (\<lambda>product.
     bindE (required invalid_params (arg_quantity a)) (\<lambda>quantity.
     bindE (required invalid_params (arg_unit_price a)) (\<lambda>unit_price.
       Inr \<lparr>li_title = title, li_service = service, li_product = product, li_quantity = quantity,
            li_unit = arg_unit a, li_unit_price = unit_price,
            li_total_price = (case arg_total_price a of None \<Rightarrow> fmul unit_price quantity | Some p \<Rightarrow> p)\<rparr>)))))"

definition li_replace :: "line_item \<Rightarrow> line_item \<Rightarrow> line_item" where
  "li_replace self other = self
     \<lparr>li_title := li_title other, li_service := li_service other, li_product := li_product other,
      li_quantity := li_quantity other, li_unit := li_unit other,
      li_unit_price := li_unit_price other, li_total_price := li_total_price other\<rparr>"

definition li_update :: "line_item \<Rightarrow> line_item \<Rightarrow> line_item" where
  "li_update self other = self
     \<lparr>li_quantity := li_quantity other, li_total_price := fmul (li_quantity other) (li_unit_price self)\<rparr>"

definition li_key :: "line_item \<Rightarrow> string \<times> string" where
  "li_key i = (li_service i, li_product i)"

section \<open>The bill\<close>

record bom_cost =
  line_items :: "line_item list option"
  line_items_total :: "pyfloat option"
  savings :: "line_item list option"
  savings_total :: "pyfloat option"
  total :: "pyfloat option"

definition empty_bom :: bom_cost where
  "empty_bom = \<lparr>line_items = None, line_items_total = None, savings = None, savings_total = None, total = None\<rparr>"

definition sum_items :: "line_item list \<Rightarrow> pyfloat" where
  "sum_items items = fold (\<lambda>i a. fadd a (li_total_price i)) items (Fin 0)"

text \<open>Iterating over \<open>line_items\<close> raises TypeError when it is None, with its total already reset.\<close>

definition compute_total :: "(bom_cost, unit) act" where
  "compute_total =
     thenS (modify (\<lambda>c. c\<lparr>line_items_total := Some (Fin 0)\<rparr>))
     (bindS (reads (\<lambda>c. required TypeError (line_items c))) (\<lambda>items.
      thenS (modify (\<lambda>c. c\<lparr>line_items_total := Some (sum_items items)\<rparr>))
     (thenS (modify (\<lambda>c. case savings c of None \<Rightarrow> c
                       | Some ss \<Rightarrow> c\<lparr>savings_total := Some (sum_items ss)\<rparr>))
     (modify (\<lambda>c. c\<lparr>total := Some
        (case savings c of
           None \<Rightarrow> sum_items items
         | Some ss \<Rightarrow> fsub (sum_items items) (opt_or (savings_total c) (Fin 0)))\<rparr>)))))"

fun find_line_item :: "line_item list \<Rightarrow> string \<Rightarrow> string \<Rightarrow> nat option" where
  "find_line_item [] service product = None"
| "find_line_item (i # is) service product =
     (if service \<noteq> li_service i then map_option Suc (find_line_item is service product)
      else if product \<noteq> li_product i then map_option Suc (find_line_item is service product)
      else Some 0)"

definition get_line_item :: "line_item list option \<Rightarrow> string \<Rightarrow> string \<Rightarrow> line_item option" where
  "get_line_item items service product =
     (case items of None \<Rightarrow> None
      | Some is \<Rightarrow> map_option (\<lambda>n. is ! n) (find_line_item is service product))"

text \<open>The shared middle of \<open>add_line_item\<close> and \<open>add_savings\<close>: change the entry in place or append.\<close>

definition put_item :: "bool \<Rightarrow> line_item \<Rightarrow> line_item list \<Rightarrow> line_item list" where
  "put_item upd item items =
     (case find_line_item items (li_service item) (li_product item) of
        Some n \<Rightarrow> items[n := (if upd then li_update (items ! n) item else li_replace (items ! n) item)]
      | None \<Rightarrow> items @ [item])"

definition add_line_item :: "bool \<Rightarrow> line_item_args \<Rightarrow> (bom_cost, unit) act" where
  "add_line_item upd args =
     bindS (reads (\<lambda>_. build_line_item args)) (\<lambda>item.
     thenS (modify (\<lambda>c. c\<lparr>line_items := Some (opt_or (line_items c) [])\<rparr>))
     (thenS (modify (\<lambda>c. c\<lparr>line_items := map_option (put_item upd item) (line_items c)\<rparr>))
      compute_total))"

definition add_savings :: "bool \<Rightarrow> line_item_args \<Rightarrow> (bom_cost, unit) act" where
  "add_savings upd args =
     bindS (reads (\<lambda>_. build_line_item args)) (\<lambda>item.
     thenS (modify (\<lambda>c. c\<lparr>savings := Some (opt_or (savings c) [])\<rparr>))
     (thenS (modify (\<lambda>c. c\<lparr>savings := map_option (put_item upd item) (savings c)\<rparr>))
      compute_total))"

definition remove_nth :: "nat \<Rightarrow> 'a list \<Rightarrow> 'a list" where
  "remove_nth n xs = take n xs @ drop (Suc n) xs"

definition remove_line_item :: "string \<Rightarrow> string \<Rightarrow> (bom_cost, bool) act" where
  "remove_line_item service product =
     bindS (gets line_items) (\<lambda>items.
       case items of
         None \<Rightarrow> ret False
       | Some is \<Rightarrow>
          (case find_line_item is service product of
             None \<Rightarrow> ret False
           | Some n \<Rightarrow> thenS (modify (\<lambda>c. c\<lparr>line_items := Some (remove_nth n is)\<rparr>))
                        (thenS compute_total (ret True))))"

definition remove_savings :: "string \<Rightarrow> string \<Rightarrow> (bom_cost, bool) act" where
  "remove_savings service product =
     bindS (gets savings) (\<lambda>items.
       case items of
         None \<Rightarrow> ret False
       | Some is \<Rightarrow>
          (case find_line_item is service product of
             None \<Rightarrow> ret False
           | Some n \<Rightarrow> thenS (modify (\<lambda>c. c\<lparr>savings := Some (remove_nth n is)\<rparr>))
                        (thenS compute_total (ret True))))"

definition savings_percent :: "bom_cost \<Rightarrow> pyfloat res" where
  "savings_percent c =
     (case line_items_total c of None \<Rightarrow> Inr (Fin 0)
      | Some t \<Rightarrow>
         (case savings_total c of None \<Rightarrow> Inr (Fin 0)
          | Some s \<Rightarrow> bindE (fdiv s t) (\<lambda>q. Inr (fround (fmul q (Fin 100)) 2))))"

section \<open>The items are keyed by service and product\<close>

lemma find_line_item_Some:
  "find_line_item items s p = Some n \<Longrightarrow> n < length items \<and> li_key (items ! n) = (s, p)"
  by (induction items arbitrary: n) (auto simp: li_key_def split: if_splits)

lemma find_line_item_None: "find_line_item items s p = None \<longleftrightarrow> (s, p) \<notin> li_key ` set items"
  by (induction items) (auto simp: li_key_def)

lemma li_key_update [simp]: "li_key (li_update a b) = li_key a"
  by (simp add: li_key_def li_update_def)

lemma li_replace_eq [simp]: "li_replace a b = b"
  by (simp add: li_replace_def)

lemma keys_put_item:
  "map li_key (put_item upd item items) =
     (if li_key item \<in> li_key ` set items then map li_key items else map li_key items @ [li_key item])"
proof (cases "find_line_item items (li_service item) (li_product item)")
  case None
  moreover from None have "li_key item \<notin> li_key ` set items" by (simp add: find_line_item_None) (simp add: li_key_def)
  ultimately show ?thesis by (simp add: put_item_def)
next
  case (Some n)
  then have n: "n < length items" "li_key (items ! n) = li_key item"
    by (auto dest: find_line_item_Some simp: li_key_def)
  then have "li_key item \<in> li_key ` set items" by (metis image_eqI nth_mem)
  moreover have "map li_key (put_item upd item items) = map li_key items"
    using n by (auto simp: put_item_def Some map_update intro!: nth_equalityI) (metis nth_list_update length_map nth_map)+
  ultimately show ?thesis by simp
qed

lemma distinct_put_item: "distinct (map li_key items) \<Longrightarrow> distinct (map li_key (put_item upd item items))"
  by (auto simp: keys_put_item)

lemma distinct_remove_nth': "distinct ys \<Longrightarrow> distinct (remove_nth n ys)"
  using set_take_disj_set_drop_if_distinct [of ys n "Suc n"] by (simp add: remove_nth_def)

lemma distinct_remove_nth: "distinct (map f xs) \<Longrightarrow> distinct (map f (remove_nth n xs))"
  using distinct_remove_nth' [of "map f xs" n] by (simp add: remove_nth_def take_map drop_map)

text \<open>
  \<open>bom_ok\<close>: keys are unique, savings are recorded only beside line items, and the three totals
  are the ones of the current items.
\<close>

definition bom_ok :: "bom_cost \<Rightarrow> bool" where
  "bom_ok c \<longleftrightarrow>
     (case line_items c of
        None \<Rightarrow> savings c = None \<and> savings_total c = None \<and> total c = None
      | Some is \<Rightarrow>
          distinct (map li_key is) \<and> line_items_total c = Some (sum_items is) \<and>
          (case savings c of
             None \<Rightarrow> savings_total c = None \<and> total c = Some (sum_items is)
           | Some ss \<Rightarrow> distinct (map li_key ss) \<and> savings_total c = Some (sum_items ss) \<and>
               total c = Some (fsub (sum_items is) (sum_items ss))))"

lemma bom_ok_empty: "bom_ok empty_bom"
  by (simp add: bom_ok_def empty_bom_def)

lemma compute_total_ok:
  assumes "line_items c = Some is" "distinct (map li_key is)"
    "savings c = None \<Longrightarrow> savings_total c = None" "\<And>ss. savings c = Some ss \<Longrightarrow> distinct (map li_key ss)"
  shows "\<exists>c'. compute_total c = (Inr (), c') \<and> bom_ok c' \<and> line_items c' = Some is \<and> savings c' = savings c"
  using assms by (auto simp: compute_total_def act_simps bom_ok_def split: option.splits)


lemma add_line_item_ok:
  assumes "bom_ok c" "build_line_item args = Inr item"
  shows "\<exists>c'. add_line_item upd args c = (Inr (), c') \<and> bom_ok c' \<and> savings c' = savings c \<and>
           line_items c' = Some (put_item upd item (opt_or (line_items c) []))"
proof -
  let ?is = "put_item upd item (opt_or (line_items c) [])"
  let ?c = "c\<lparr>line_items := Some ?is\<rparr>"
  have "add_line_item upd args c = compute_total ?c"
    using assms(2) by (simp add: add_line_item_def act_simps)
  moreover have "distinct (map li_key ?is)"
    using assms(1) by (intro distinct_put_item) (auto simp: bom_ok_def split: option.splits)
  moreover have "savings c = None \<Longrightarrow> savings_total c = None" "\<And>ss. savings c = Some ss \<Longrightarrow> distinct (map li_key ss)"
    using assms(1) by (auto simp: bom_ok_def split: option.splits)
  ultimately show ?thesis using compute_total_ok [of ?c ?is] by auto
qed

lemma add_savings_ok:
  assumes "bom_ok c" "build_line_item args = Inr item" "line_items c = Some is"
  shows "\<exists>c'. add_savings upd args c = (Inr (), c') \<and> bom_ok c' \<and> line_items c' = Some is \<and>
           savings c' = Some (put_item upd item (opt_or (savings c) []))"
proof -
  let ?ss = "put_item upd item (opt_or (savings c) [])"
  let ?c = "c\<lparr>savings := Some ?ss\<rparr>"
  have "add_savings upd args c = compute_total ?c"
    using assms(2) by (simp add: add_savings_def act_simps)
  moreover have "distinct (map li_key ?ss)" "distinct (map li_key is)"
    using assms(1,3) by (auto intro!: distinct_put_item simp: bom_ok_def split: option.splits)
  ultimately show ?thesis using compute_total_ok [of ?c "is"] assms(3) by auto
qed

lemma remove_line_item_ok:
  assumes "bom_ok c" shows "\<exists>c'. remove_line_item s p c = (Inr (get_line_item (line_items c) s p \<noteq> None), c') \<and> bom_ok c' \<and> savings c' = savings c"
proof (cases "line_items c")
  case (Some "is")
  show ?thesis
  proof (cases "find_line_item is s p")
    case (Some n)
    let ?c = "c\<lparr>line_items := Some (remove_nth n is)\<rparr>"
    have "distinct (map li_key (remove_nth n is))"
      "savings c = None \<Longrightarrow> savings_total c = None" "\<And>ss. savings c = Some ss \<Longrightarrow> distinct (map li_key ss)"
      using assms \<open>line_items c = Some is\<close>
      by (auto intro!: distinct_remove_nth simp: bom_ok_def split: option.splits)
    then obtain c' where "compute_total ?c = (Inr (), c')" "bom_ok c'" "savings c' = savings c"
      using compute_total_ok [of ?c "remove_nth n is"] by auto
    then show ?thesis using Some \<open>line_items c = Some is\<close>
      by (simp add: remove_line_item_def act_simps get_line_item_def)
  qed (use assms \<open>line_items c = Some is\<close> in \<open>auto simp: remove_line_item_def act_simps get_line_item_def\<close>)
qed (use assms in \<open>auto simp: remove_line_item_def act_simps get_line_item_def\<close>)

lemma remove_savings_ok:
  assumes "bom_ok c" shows "\<exists>c'. remove_savings s p c = (Inr (get_line_item (savings c) s p \<noteq> None), c') \<and> bom_ok c' \<and> line_items c' = line_items c"
proof (cases "savings c")
  case (Some ss)
  with assms obtain "is" where li: "line_items c = Some is" by (auto simp: bom_ok_def split: option.splits)
  show ?thesis
  proof (cases "find_line_item ss s p")
    case (Some n)
    let ?c = "c\<lparr>savings := Some (remove_nth n ss)\<rparr>"
    have "distinct (map li_key (remove_nth n ss))" "distinct (map li_key is)"
      using assms li \<open>savings c = Some ss\<close>
      by (auto intro!: distinct_remove_nth simp: bom_ok_def split: option.splits)
    then obtain c' where "compute_total ?c = (Inr (), c')" "bom_ok c'" "line_items c' = line_items c"
      using compute_total_ok [of ?c "is"] li by auto
    then show ?thesis using Some \<open>savings c = Some ss\<close>
      by (simp add: remove_savings_def act_simps get_line_item_def)
  qed (use assms \<open>savings c = Some ss\<close> in \<open>auto simp: remove_savings_def act_simps get_line_item_def\<close>)
qed (use assms in \<open>auto simp: remove_savings_def act_simps get_line_item_def\<close>)

text \<open>After an addition the item is found under its key, with the price of the last addition.\<close>

lemma find_put_item:
  assumes "distinct (map li_key items)"
  shows "\<exists>n. find_line_item (put_item upd item items) (li_service item) (li_product item) = Some n \<and>
           li_quantity (put_item upd item items ! n) = li_quantity item"
proof -
  have "li_key item \<in> li_key ` set (put_item upd item items)"
    using keys_put_item [of upd item items] by (metis Un_iff list.set_intros(1) list.set_map set_append)
  then obtain n where n: "find_line_item (put_item upd item items) (li_service item) (li_product item) = Some n"
    using find_line_item_None [of "put_item upd item items"] by (auto simp: li_key_def)
  from find_line_item_Some [OF n] have k: "n < length (put_item upd item items)"
    "li_key (put_item upd item items ! n) = li_key item" by (simp_all add: li_key_def)
  have d: "distinct (map li_key (put_item upd item items))" using assms by (rule distinct_put_item)
  obtain m where m: "m < length (put_item upd item items)" "li_key (put_item upd item items ! m) = li_key item"
    "li_quantity (put_item upd item items ! m) = li_quantity item"
  proof (cases "find_line_item items (li_service item) (li_product item)")
    case None
    then show ?thesis using that [of "length items"] by (simp add: put_item_def)
  next
    case (Some j)
    from find_line_item_Some [OF Some] show ?thesis
      using that [of j] by (simp add: put_item_def Some li_key_def li_update_def)
  qed
  with k d have "m = n" by (metis length_map nth_eq_iff_index_eq nth_map)
  with n m show ?thesis by auto
qed

end
