(* ===== verification/Job_Model.thy ===== *)
theory Job_Model
  imports Queue_Types Job_Cost
begin

text \<open>
  The job: \<open>SocaJob\<close> with \<open>SocaJobExecution\<close> and \<open>SocaJobExecutionHost\<close> of
  \<open>ideadatamodel/scheduler/scheduler_model.py\<close>. Accessors that can raise return a result; an
  attribute read through None raises AttributeError. The digest \<open>shake_256(...).hexdigest(4)\<close> of
  Python's hashlib is the argument \<open>digest\<close>.
\<close>

section \<open>Execution hosts\<close>

record resources_used =
  ru_cpu_time_secs :: "int option"
  ru_memory :: "soca_memory option"
  ru_virtual_memory :: "soca_memory option"
  ru_cpus :: "int option"
  ru_gpus :: "int option"
  ru_cpu_percent :: "int option"

record execution_run =
  run_id :: string
  run_start :: "int option"
  run_end :: "int option"
  run_exit_code :: "int option"
  run_status :: "string option"
  run_resources_used :: "resources_used option"

record job_execution =
  run_count :: "int option"
  runs :: "execution_run list option"

record execution_host =
  eh_host :: string
  eh_instance_id :: "string option"
  eh_instance_type :: "string option"
  eh_capacity_type :: "SocaCapacityType option"
  eh_tenancy :: "string option"
  eh_reservation :: "string option"
  eh_execution :: "job_execution option"

fun find_index :: "('a \<Rightarrow> bool) \<Rightarrow> 'a list \<Rightarrow> nat option" where
  "find_index p [] = None"
| "find_index p (x # xs) = (if p x then Some 0 else map_option Suc (find_index p xs))"

lemma find_index_Some: "find_index p xs = Some n \<Longrightarrow> n < length xs \<and> p (xs ! n)"
  by (induction xs arbitrary: n) (auto split: if_splits)

lemma find_index_None: "find_index p xs = None \<longleftrightarrow> (\<forall>x \<in> set xs. \<not> p x)"
  by (induction xs) auto

text \<open>The returned run is a reference into \<open>runs\<close>, here its position.\<close>

definition get_or_create_run :: "string \<Rightarrow> (job_execution, nat option) act" where
  "get_or_create_run rid =
     thenS (modify (\<lambda>e. e\<lparr>runs := Some (opt_or (runs e) [])\<rparr>))
     (bindS (gets (\<lambda>e. opt_or (runs e) [])) (\<lambda>rs.
        case find_index (\<lambda>r. run_id r = rid) rs of
          Some n \<Rightarrow> ret (Some n)
        | None \<Rightarrow>
            thenS (modify (\<lambda>e. e\<lparr>run_count := Some (case run_count e of None \<Rightarrow> 1 | Some c \<Rightarrow> c + 1)\<rparr>))
            (bindS (gets (\<lambda>e. opt_or (run_count e) 0)) (\<lambda>c.
               if c > 10 then ret None
               else thenS (modify (\<lambda>e. e\<lparr>runs := Some (rs @
                       [\<lparr>run_id = rid, run_start = None, run_end = None, run_exit_code = None,
                         run_status = None, run_resources_used = None\<rparr>])\<rparr>))
                     (ret (Some (List.length rs)))))))"

section \<open>The job\<close>

record job_notifications =
  nt_started :: "bool option"
  nt_completed :: "bool option"
  nt_subjobs :: "bool option"
  nt_job_started_email_template :: "string option"
  nt_job_completed_email_template :: "string option"

record soca_job =
  cluster_name :: "string option"
  cluster_version :: "string option"
  job_id :: "string option"
  job_uid :: "string option"
  job_group :: "string option"
  project :: "string option"
  job_name :: pyval
  queue :: "string option"
  queue_type :: "string option"
  scaling_mode :: "SocaScalingMode option"
  owner :: "string option"
  owner_email :: "string option"
  state :: "SocaJobState option"
  exit_status :: "int option"
  provisioned :: "bool option"
  error_message :: "string option"
  queue_time :: "int option"
  provisioning_time :: "int option"
  start_time :: "int option"
  end_time :: "int option"
  total_time_secs :: "int option"
  comment :: "string option"
  debug :: "bool option"
  capacity_added :: "bool option"
  params :: "job_params option"
  job_options :: "provisioning_options option"
  estimated_bom_cost :: "bom_cost option"
  execution_hosts :: "execution_host list option"
  notifications :: "job_notifications option"

definition empty_job :: soca_job where
  "empty_job = \<lparr>cluster_name = None, cluster_version = None, job_id = None, job_uid = None,
     job_group = None, project = None, job_name = PNone, queue = None, queue_type = None,
     scaling_mode = None, owner = None, owner_email = None, state = None, exit_status = None,
     provisioned = None, error_message = None, queue_time = None, provisioning_time = None,
     start_time = None, end_time = None, total_time_secs = None, comment = None, debug = None,
     capacity_added = None, params = None, job_options = None, estimated_bom_cost = None,
     execution_hosts = None, notifications = None\<rparr>"

definition invalid_job :: exc where
  "invalid_job = SocaException ''SOCA_SCHEDULER_INVALID_JOB''"

definition get_params :: "soca_job \<Rightarrow> job_params res" where
  "get_params j = required invalid_job (params j)"

definition get_provisioning_options :: "soca_job \<Rightarrow> provisioning_options res" where
  "get_provisioning_options j = required invalid_job (job_options j)"

definition get_total_time_seconds :: "soca_job \<Rightarrow> int option res" where
  "get_total_time_seconds j =
     (case total_time_secs j of Some t \<Rightarrow> Inr (Some t)
      | None \<Rightarrow>
         (case (start_time j, end_time j) of
            (Some s, Some e) \<Rightarrow> Inr (Some (timedelta_seconds (e - s)))
          | _ \<Rightarrow>
             (case params j of None \<Rightarrow> Inr None
              | Some p \<Rightarrow>
                 (case p_walltime p of None \<Rightarrow> Inr None
                  | Some w \<Rightarrow> bindE (walltime_to_seconds w) (\<lambda>t. Inr (Some t))))))"

definition get_or_create_execution_host :: "string \<Rightarrow> (soca_job, nat) act" where
  "get_or_create_execution_host host =
     thenS (modify (\<lambda>j. j\<lparr>execution_hosts := Some (opt_or (execution_hosts j) [])\<rparr>))
     (bindS (gets (\<lambda>j. opt_or (execution_hosts j) [])) (\<lambda>hs.
        case find_index (\<lambda>h. eh_host h = host) hs of
          Some n \<Rightarrow> ret n
        | None \<Rightarrow>
            thenS (modify (\<lambda>j. j\<lparr>execution_hosts := Some (hs @
                     [\<lparr>eh_host = host, eh_instance_id = None, eh_instance_type = None,
                       eh_capacity_type = None, eh_tenancy = None, eh_reservation = None,
                       eh_execution = None\<rparr>])\<rparr>))
                  (ret (List.length hs))))"

definition runs_with_status :: "execution_host \<Rightarrow> nat" where
  "runs_with_status h =
     (case eh_execution h of None \<Rightarrow> 0
      | Some e \<Rightarrow> (case runs e of None \<Rightarrow> 0
                    | Some rs \<Rightarrow> List.length (filter (\<lambda>r. run_status r \<noteq> None) rs)))"

definition is_execution_complete :: "soca_job \<Rightarrow> bool" where
  "is_execution_complete j =
     (case execution_hosts j of None \<Rightarrow> False
      | Some hs \<Rightarrow> sum_list (map runs_with_status hs) \<ge> List.length hs)"

definition desired_nodes :: "soca_job \<Rightarrow> int res" where
  "desired_nodes j = bindE (get_params j) (\<lambda>p. Inr (opt_or (p_nodes p) 1))"

definition job_desired_capacity :: "soca_job \<Rightarrow> int res" where
  "job_desired_capacity j =
     bindE (get_params j) (\<lambda>p. bindE (desired_nodes j) (\<lambda>n. Inr (n * opt_or (p_cpus p) 1)))"

definition try_extract_job_id_as_int :: "soca_job \<Rightarrow> int option" where
  "try_extract_job_id_as_int j =
     (case job_id j of None \<Rightarrow> None
      | Some s \<Rightarrow>
         (case int_of_str s of Inr i \<Rightarrow> Some i
          | Inl _ \<Rightarrow>
             (case int_of_str (takeWhile is_digit s) of Inr i \<Rightarrow> Some i | Inl _ \<Rightarrow> None)))"

definition is_provisioned :: "soca_job \<Rightarrow> bool" where
  "is_provisioned j =
     (case provisioned j of Some b \<Rightarrow> b
      | None \<Rightarrow>
         (case params j of None \<Rightarrow> False
          | Some p \<Rightarrow> (case p_stack_id p of None \<Rightarrow> False | Some s \<Rightarrow> s \<noteq> ''tbd'')))"

section \<open>Capacity\<close>

definition capacity_type :: "soca_job \<Rightarrow> SocaCapacityType res" where
  "capacity_type j =
     bindE (get_params j) (\<lambda>p. Inr
       (if opt_or (p_spot p) False
        then if opt_or (p_spot_allocation_count p) 0 = 0 then SPOT else MIXED
        else ONDEMAND))"

definition is_spot_capacity :: "soca_job \<Rightarrow> bool res" where
  "is_spot_capacity j = bindE (capacity_type j) (\<lambda>t. Inr (t = SPOT))"

definition is_ondemand_capacity :: "soca_job \<Rightarrow> bool res" where
  "is_ondemand_capacity j = bindE (capacity_type j) (\<lambda>t. Inr (t = ONDEMAND))"

definition is_mixed_capacity :: "soca_job \<Rightarrow> bool res" where
  "is_mixed_capacity j = bindE (capacity_type j) (\<lambda>t. Inr (t = MIXED))"

definition ondemand_nodes :: "soca_job \<Rightarrow> int res" where
  "ondemand_nodes j =
     (case params j of None \<Rightarrow> Inr 0
      | Some p \<Rightarrow> bindE (is_spot_capacity j) (\<lambda>s. Inr
          (if s then 0 else opt_or (p_nodes p) 0 - opt_or (p_spot_allocation_count p) 0)))"

text \<open>For mixed capacity the count is set and not 0, or the capacity would be spot only.\<close>

definition spot_nodes :: "soca_job \<Rightarrow> int res" where
  "spot_nodes j =
     (case params j of None \<Rightarrow> Inr 0
      | Some p \<Rightarrow>
         (case p_nodes p of None \<Rightarrow> Inr 0
          | Some n \<Rightarrow> bindE (capacity_type j) (\<lambda>t. Inr
             (case t of MIXED \<Rightarrow> opt_or (p_spot_allocation_count p) 0 | SPOT \<Rightarrow> n | ONDEMAND \<Rightarrow> 0))))"

definition default_instance_type :: "soca_job \<Rightarrow> string res" where
  "default_instance_type j = bindE (get_params j) (\<lambda>p.
     (case p_instance_types p of Some (t # _) \<Rightarrow> Inr t | _ \<Rightarrow> Inl invalid_job))"

definition default_instance_type_option :: "soca_job \<Rightarrow> instance_type_options res" where
  "default_instance_type_option j = bindE (get_provisioning_options j) (\<lambda>po.
     (case po_instance_types po of Some (t # _) \<Rightarrow> Inr t | _ \<Rightarrow> Inl invalid_job))"

definition get_instance_type_option :: "soca_job \<Rightarrow> string \<Rightarrow> instance_type_options res" where
  "get_instance_type_option j t = bindE (get_provisioning_options j) (\<lambda>po.
     (if is_empty_opt_list (po_instance_types po) then Inl invalid_job
      else required invalid_job (find (\<lambda>opt. o_name opt = Some t) (the (po_instance_types po)))))"

definition weighted_capacity :: "soca_job \<Rightarrow> string option \<Rightarrow> int option res" where
  "weighted_capacity j t =
     bindE (case t of None \<Rightarrow> default_instance_type_option j | Some n \<Rightarrow> get_instance_type_option j n)
       (\<lambda>opt. Inr (o_weighted_capacity opt))"

definition default_vcpus :: "soca_job \<Rightarrow> int option res" where
  "default_vcpus j = bindE (default_instance_type_option j) (\<lambda>opt. Inr (o_default_vcpu_count opt))"

text \<open>Multiplying by a capacity that is None raises TypeError.\<close>

definition ondemand_capacity :: "soca_job \<Rightarrow> int res" where
  "ondemand_capacity j = bindE (ondemand_nodes j) (\<lambda>n. bindE (weighted_capacity j None) (\<lambda>w.
     bindE (required TypeError w) (\<lambda>w. Inr (n * w))))"

definition spot_capacity :: "soca_job \<Rightarrow> int res" where
  "spot_capacity j = bindE (spot_nodes j) (\<lambda>n. bindE (weighted_capacity j None) (\<lambda>w.
     bindE (required TypeError w) (\<lambda>w. Inr (n * w))))"

definition memory_values :: "soca_job \<Rightarrow> soca_memory list option" where
  "memory_values j =
     (case job_options j of None \<Rightarrow> None
      | Some po \<Rightarrow>
         (case po_instance_types po of None \<Rightarrow> None
          | Some ts \<Rightarrow> let r = List.map_filter o_memory ts in if r = [] then None else Some r))"

definition min_memory :: "soca_job \<Rightarrow> soca_memory option res" where
  "min_memory j = (case memory_values j of None \<Rightarrow> Inr None
     | Some ms \<Rightarrow> bindE (mem_min ms) (\<lambda>m. Inr (Some m)))"

definition max_memory :: "soca_job \<Rightarrow> soca_memory option res" where
  "max_memory j = (case memory_values j of None \<Rightarrow> Inr None
     | Some ms \<Rightarrow> bindE (mem_max ms) (\<lambda>m. Inr (Some m)))"

definition has_licenses :: "soca_job \<Rightarrow> bool" where
  "has_licenses j =
     (case params j of None \<Rightarrow> False
      | Some p \<Rightarrow> (case p_licenses p of None \<Rightarrow> False | Some ls \<Rightarrow> ls \<noteq> []))"

definition total_licenses :: "soca_job \<Rightarrow> int res" where
  "total_licenses j =
     (if \<not> has_licenses j then Inr 0
      else foldE (\<lambda>l a. bindE (required TypeError (license_count l)) (\<lambda>c. Inr (a + c)))
             (opt_or (p_licenses (the (params j))) []) 0)"

definition is_ephemeral_capacity :: "soca_job \<Rightarrow> bool" where
  "is_ephemeral_capacity j =
     (case job_options j of None \<Rightarrow> False
      | Some po \<Rightarrow>
          if is_true_opt (po_keep_forever po) then False
          else if opt_or (po_terminate_when_idle po) 0 > 0 then False
          else True)"

definition is_shared_capacity :: "soca_job \<Rightarrow> bool" where
  "is_shared_capacity j = (\<not> is_ephemeral_capacity j)"

definition is_persistent_capacity :: "soca_job \<Rightarrow> bool" where
  "is_persistent_capacity j =
     (case job_options j of None \<Rightarrow> False | Some po \<Rightarrow> is_true_opt (po_keep_forever po))"

definition is_multiple_instance_types :: "soca_job \<Rightarrow> bool res" where
  "is_multiple_instance_types j = bindE (get_params j) (\<lambda>p.
     (if is_empty_opt_list (p_instance_types p) then Inl invalid_job
      else Inr (List.length (the (p_instance_types p)) > 1)))"

definition is_hyper_threading_enabled :: "soca_job \<Rightarrow> bool res" where
  "is_hyper_threading_enabled j =
     bindE (get_params j) (\<lambda>p. required invalid_job (p_enable_ht_support p))"

definition is_hyper_threading_disabled :: "soca_job \<Rightarrow> bool res" where
  "is_hyper_threading_disabled j = bindE (is_hyper_threading_enabled j) (\<lambda>b. Inr (\<not> b))"

definition get_spot_price :: "soca_job \<Rightarrow> pyfloat option" where
  "get_spot_price j =
     (case params j of None \<Rightarrow> None
      | Some p \<Rightarrow> if \<not> opt_or (p_spot p) False then None else p_spot_price p)"

section \<open>Names: job group, compute stack, FSx paths\<close>

text \<open>An f-string prints an attribute that is None as \<open>None\<close>.\<close>

definition pystr :: "string option \<Rightarrow> string" where
  "pystr v = opt_or v ''None''"

text \<open>The digested text is \<open>':'.join(tokens)\<close>, so a token that is no string would raise; all are strings here.\<close>

definition job_group_tokens :: "soca_job \<Rightarrow> string list res" where
  "job_group_tokens j =
     bindE (get_params j) (\<lambda>p.
     bindE (required invalid_job (cluster_name j)) (\<lambda>cluster.
     bindE (required invalid_job (queue_type j)) (\<lambda>qtype.
     bindE (required invalid_job (queue j)) (\<lambda>q.
     bindE (if is_empty_opt_list (p_instance_types p) then Inl invalid_job
            else Inr (the (p_instance_types p))) (\<lambda>types.
     bindE (if is_empty_opt_str (p_instance_ami p) then Inl invalid_job
            else Inr (the (p_instance_ami p))) (\<lambda>ami.
     bindE (required invalid_job (p_enable_ht_support p)) (\<lambda>ht.
     bindE (capacity_type j) (\<lambda>ct.
       Inr ([cluster, qtype, q] @ types @
            [ami, (if ht then ''true'' else ''false''), capacity_type_str ct])))))))))"

definition get_job_group :: "(string \<Rightarrow> string) \<Rightarrow> soca_job \<Rightarrow> string res" where
  "get_job_group digest j =
     (case job_group j of Some g \<Rightarrow> Inr g
      | None \<Rightarrow>
         bindE (get_params j) (\<lambda>p.
           if is_provisioned j then required invalid_job (p_job_group p)
           else case p_job_group p of
                  Some g \<Rightarrow> Inr g
                | None \<Rightarrow> bindE (job_group_tokens j) (\<lambda>ts. Inr (''g'' @ digest (join '':'' ts)))))"

definition sanitize :: "string \<Rightarrow> string" where
  "sanitize token = remove_char (CHR ''_'') (remove_char (CHR ''-'') (lower (strip token)))"

definition get_compute_stack :: "(string \<Rightarrow> string) \<Rightarrow> soca_job \<Rightarrow> string res" where
  "get_compute_stack digest j =
     bindE (get_params j) (\<lambda>p.
       if \<not> is_empty_opt_str (p_compute_stack p) \<and> p_compute_stack p \<noteq> Some ''tbd''
       then Inr (the (p_compute_stack p))
       else bindE (capacity_type j) (\<lambda>ct.
         if is_persistent_capacity j
         then bindE (required AttributeError (po_stack_uuid (the (job_options j)))) (\<lambda>uuid.
                Inr (pystr (cluster_name j) @ ''-keepforever-'' @ sanitize uuid))
         else bindE (if is_shared_capacity j then bindE (get_job_group digest j) (\<lambda>g. Inr (Some g))
                     else Inr (job_id j)) (\<lambda>identifier.
                Inr (pystr (cluster_name j) @ ''-'' @ pystr (queue_type j) @ ''-'' @
                     sanitize (capacity_type_str ct) @ ''-'' @ pystr identifier))))"

text \<open>Any exception falls back to the job id alone.\<close>

definition log_tag :: "(string \<Rightarrow> string) \<Rightarrow> soca_job \<Rightarrow> string" where
  "log_tag digest j =
     (case (if is_shared_capacity j
            then bindE (get_job_group digest j) (\<lambda>g. Inr ('', JobGroup: '' @ g)) else Inr []) of
        Inr g \<Rightarrow> ''(JobId: '' @ pystr (job_id j) @ '', Owner: '' @ pystr (owner j) @
          (if \<not> is_empty_opt_str (project j) then '', Project: '' @ pystr (project j) else []) @ g @ '')''
      | Inl _ \<Rightarrow> ''(JobId: '' @ pystr (job_id j) @ '')'')"

definition fsx_with_backend :: "soca_job \<Rightarrow> fsx_config option res" where
  "fsx_with_backend j =
     bindE (required AttributeError (params j)) (\<lambda>p. Inr
       (case p_fsx_lustre p of None \<Rightarrow> None
        | Some c \<Rightarrow>
            if is_false_opt (fsx_enabled c) then None
            else if is_empty_opt_str (s3_backend c) then None else Some c))"

definition get_fsx_lustre_export_path :: "soca_job \<Rightarrow> string option res" where
  "get_fsx_lustre_export_path j =
     bindE (fsx_with_backend j) (\<lambda>cfg. Inr
       (case cfg of None \<Rightarrow> None
        | Some c \<Rightarrow>
            if \<not> is_empty_opt_str (export_path c) then export_path c
            else Some (pystr (s3_backend c) @ ''/'' @ pystr (cluster_name j) @ ''-fsxoutput/job-'' @
              pystr (if is_ephemeral_capacity j then job_id j else job_group j))))"

definition get_fsx_lustre_import_path :: "soca_job \<Rightarrow> string option res" where
  "get_fsx_lustre_import_path j =
     bindE (fsx_with_backend j) (\<lambda>cfg. Inr
       (case cfg of None \<Rightarrow> None
        | Some c \<Rightarrow> if \<not> is_empty_opt_str (import_path c) then import_path c else s3_backend c))"

section \<open>Properties\<close>

text \<open>On-demand and spot nodes are a partition of the nodes the job asks for.\<close>

lemma nodes_split:
  assumes "params j = Some p" "p_nodes p = Some n"
    and "p_spot p \<noteq> Some True \<Longrightarrow> opt_or (p_spot_allocation_count p) 0 = 0"
  shows "\<exists>d s. ondemand_nodes j = Inr d \<and> spot_nodes j = Inr s \<and> d + s = n"
  using assms
  by (cases "p_spot p")
    (auto simp: ondemand_nodes_def spot_nodes_def is_spot_capacity_def capacity_type_def get_params_def)

lemma capacity_type_total: "params j = Some p \<Longrightarrow> \<exists>t. capacity_type j = Inr t"
  by (simp add: capacity_type_def get_params_def)

lemma capacity_classes_partition:
  assumes "params j = Some p"
  shows "\<exists>s d m. is_spot_capacity j = Inr s \<and> is_ondemand_capacity j = Inr d \<and> is_mixed_capacity j = Inr m \<and>
     (s \<or> d \<or> m) \<and> \<not> (s \<and> d) \<and> \<not> (s \<and> m) \<and> \<not> (d \<and> m)"
  using assms
  by (auto simp: is_spot_capacity_def is_ondemand_capacity_def is_mixed_capacity_def capacity_type_def get_params_def)

lemma get_or_create_run_bounded:
  assumes "get_or_create_run rid e = (Inr r, e')"
    and "List.length (opt_or (runs e) []) \<le> 10"
    and "int (List.length (opt_or (runs e) [])) \<le> opt_or (run_count e) 0"
  shows "List.length (opt_or (runs e') []) \<le> 10 \<and>
    int (List.length (opt_or (runs e') [])) \<le> opt_or (run_count e') 0"
  using assms
  by (auto simp: get_or_create_run_def act_simps split: option.splits if_splits)

lemma get_or_create_run_lookup:
  assumes "get_or_create_run rid e = (Inr (Some n), e')"
  shows "\<exists>rs. runs e' = Some rs \<and> n < List.length rs \<and> run_id (rs ! n) = rid"
  using assms
  by (auto simp: get_or_create_run_def act_simps split: option.splits if_splits dest!: find_index_Some)

lemma get_or_create_execution_host_lookup:
  assumes "get_or_create_execution_host host j = (Inr n, j')"
  shows "\<exists>hs. execution_hosts j' = Some hs \<and> n < List.length hs \<and> eh_host (hs ! n) = host"
  using assms
  by (auto simp: get_or_create_execution_host_def act_simps split: option.splits dest!: find_index_Some)

lemma get_or_create_execution_host_distinct:
  assumes "get_or_create_execution_host host j = (Inr n, j')" "distinct (map eh_host (opt_or (execution_hosts j) []))"
  shows "distinct (map eh_host (opt_or (execution_hosts j') []))"
  using assms
  by (auto simp: get_or_create_execution_host_def act_simps find_index_None split: option.splits)

text \<open>
  Jobs that agree on the tokens share the group; with a digest that separates the joined tokens,
  different groups are different requests.
\<close>

lemma get_job_group_same_tokens:
  assumes "job_group_tokens a = job_group_tokens b"
    and "job_group a = None" "job_group b = None"
    and "params a = Some pa" "params b = Some pb" "p_job_group pa = None" "p_job_group pb = None"
    and "\<not> is_provisioned a" "\<not> is_provisioned b"
  shows "get_job_group d a = get_job_group d b"
  using assms by (simp add: get_job_group_def get_params_def)

lemma ephemeral_compute_stack:
  assumes "is_ephemeral_capacity j" "params j = Some p" "is_empty_opt_str (p_compute_stack p)"
    and "capacity_type j = Inr t"
  shows "get_compute_stack d j = Inr (pystr (cluster_name j) @ ''-'' @ pystr (queue_type j) @ ''-'' @
           sanitize (capacity_type_str t) @ ''-'' @ pystr (job_id j))"
  using assms
  by (auto simp: get_compute_stack_def get_params_def is_persistent_capacity_def is_shared_capacity_def
      is_ephemeral_capacity_def split: option.splits if_splits)

end
