(* ===== verification/Node_Model.thy ===== *)
theory Node_Model
  imports Job_Model
begin

text \<open>
  The compute node: \<open>SocaComputeNodeState\<close> and \<open>SocaComputeNode\<close> of
  \<open>ideadatamodel/scheduler/scheduler_model.py\<close>, with the attributes its methods read,
  \<open>from_ec2_instance\<close> sets or the housekeeping reads; times are in microseconds, of \<open>resources_available\<close> the number of
  cpus is kept. What that method asks an \<open>EC2Instance\<close> is the record \<open>ec2_instance\<close>.
\<close>

datatype SocaComputeNodeState =
    NS_BUSY | NS_DOWN | NS_FREE | NS_OFFLINE | NS_JOB_BUSY | NS_JOB_EXCLUSIVE | NS_PROVISIONING
  | NS_RESV_EXCLUSIVE | NS_STALE | NS_STALE_UNKNOWN | NS_UNRESOLVABLE | NS_WAIT_PROVISIONING | NS_INITIALIZING

record compute_node =
  n_host :: "string option"
  n_cluster_name :: "string option"
  n_states :: "SocaComputeNodeState list option"
  n_queue_type :: "string option"
  n_queue :: "string option"
  n_last_used_time :: "int option"
  n_last_state_changed_time :: "int option"
  n_availability_zone :: "string option"
  n_subnet_id :: "string option"
  n_instance_id :: "string option"
  n_instance_type :: "string option"
  n_instance_ami :: "string option"
  n_instance_profile :: "string option"
  n_job_id :: "string option"
  n_job_group :: "string option"
  n_scaling_mode :: "SocaScalingMode option"
  n_keep_forever :: "bool option"
  n_terminate_when_idle :: "int option"
  n_compute_stack :: "string option"
  n_stack_id :: "string option"
  n_lifecycle :: "string option"
  n_tenancy :: "string option"
  n_spot_fleet_request :: "string option"
  n_auto_scaling_group :: "string option"
  n_spot :: "bool option"
  n_spot_price :: "pyfloat option"
  n_enable_ht_support :: "bool option"
  n_resources_available :: "int option option"
  n_launch_time :: "int option"
  n_jobs :: "string list option"

definition seconds_since_launch :: "int \<Rightarrow> compute_node \<Rightarrow> int res" where
  "seconds_since_launch now n =
     bindE (required TypeError (n_launch_time n)) (\<lambda>t. Inr (timedelta_seconds (now - t)))"

definition has_state :: "compute_node \<Rightarrow> SocaComputeNodeState list \<Rightarrow> bool" where
  "has_state n sts = (case n_states n of None \<Rightarrow> False | Some ss \<Rightarrow> list_ex (\<lambda>st. st \<in> set ss) sts)"

definition node_is_shared_capacity :: "compute_node \<Rightarrow> bool" where
  "node_is_shared_capacity n =
     (if is_true_opt (n_keep_forever n) then True
      else if opt_or (n_terminate_when_idle n) 0 > 0 then True else False)"

definition is_current_cluster :: "string option \<Rightarrow> compute_node \<Rightarrow> bool" where
  "is_current_cluster name n =
     (if is_empty_opt_str (n_cluster_name n) then False
      else if is_empty_opt_str name then False
      else name = n_cluster_name n)"

definition is_valid_idea_compute_node :: "compute_node \<Rightarrow> bool" where
  "is_valid_idea_compute_node n =
     (if is_empty_opt_str (n_cluster_name n) then False
      else if is_empty_opt_str (n_queue_type n) then False
      else if is_empty_opt_str (n_instance_id n) then False
      else True)"

definition node_is_provisioned :: "compute_node \<Rightarrow> bool" where
  "node_is_provisioned n =
     (case n_compute_stack n of None \<Rightarrow> False | Some s \<Rightarrow> s \<noteq> ''tbd'')"

definition is_ready :: "compute_node \<Rightarrow> bool" where
  "is_ready n = has_state n [NS_FREE, NS_BUSY, NS_JOB_BUSY]"

definition node_get_spot_price :: "compute_node \<Rightarrow> pyfloat option" where
  "node_get_spot_price n = (if \<not> opt_or (n_spot n) False then None else n_spot_price n)"

definition node_str :: "compute_node \<Rightarrow> string" where
  "node_str n =
     (if node_is_shared_capacity n then ''JobGroup: '' @ pystr (n_job_group n) @ '', ''
      else ''JobId: '' @ pystr (n_job_id n) @ '', '') @
     ''Host: '' @ pystr (n_host n) @ '', '' @ ''InstanceId: '' @ pystr (n_instance_id n) @
     (if node_is_provisioned n then '', ComputeStack: '' @ pystr (n_compute_stack n) else [])"

record ec2_instance =
  i_private_dns_name :: "string option"
  i_instance_id :: "string option"
  i_instance_type :: "string option"
  i_state :: "string option"
  i_image_id :: "string option"
  i_iam_instance_profile_id :: "string option"
  i_instance_lifecycle :: "string option"
  i_placement_tenancy :: "string option"
  i_placement_availability_zone :: "string option"
  i_subnet_id :: "string option"
  i_launch_time :: "int option"
  i_aws_ec2spot_fleet_request_id :: "string option"
  i_aws_autoscaling_group_name :: "string option"
  i_aws_cloudformation_stack_id :: "string option"
  i_soca_cluster_name :: "string option"
  i_soca_job_queue :: "string option"
  i_soca_queue_type :: "string option"
  i_soca_job_id :: "string option"
  i_soca_job_group :: "string option"
  i_soca_scaling_mode :: "string option"
  i_soca_capacity_type :: "SocaCapacityType option"
  i_soca_compute_stack :: "string option"
  i_soca_keep_forever :: bool
  i_soca_terminate_when_idle :: int
  i_is_valid_idea_compute_node :: bool

definition is_soca_ephemeral_capacity :: "ec2_instance \<Rightarrow> bool" where
  "is_soca_ephemeral_capacity i = (if i_soca_keep_forever i then False else \<not> i_soca_terminate_when_idle i > 0)"

definition from_ec2_instance :: "ec2_instance \<Rightarrow> compute_node option" where
  "from_ec2_instance i =
     (if \<not> i_is_valid_idea_compute_node i then None
      else Some \<lparr>n_host = i_private_dns_name i, n_cluster_name = i_soca_cluster_name i, n_states = None,
        n_queue_type = i_soca_queue_type i, n_queue = i_soca_job_queue i,
        n_last_used_time = None, n_last_state_changed_time = None,
        n_availability_zone = i_placement_availability_zone i, n_subnet_id = i_subnet_id i,
        n_instance_id = i_instance_id i, n_instance_type = i_instance_type i, n_instance_ami = i_image_id i,
        n_instance_profile = i_iam_instance_profile_id i, n_job_id = i_soca_job_id i,
        n_job_group = i_soca_job_group i,
        n_scaling_mode = resolve_scaling_mode (i_soca_scaling_mode i) (Some SINGLE_JOB),
        n_keep_forever = Some (i_soca_keep_forever i),
        n_terminate_when_idle = Some (i_soca_terminate_when_idle i),
        n_compute_stack = i_soca_compute_stack i, n_stack_id = i_aws_cloudformation_stack_id i,
        n_lifecycle = i_instance_lifecycle i, n_tenancy = i_placement_tenancy i,
        n_spot_fleet_request =
          (if i_soca_capacity_type i = Some SPOT then i_aws_ec2spot_fleet_request_id i else None),
        n_auto_scaling_group =
          (if i_soca_capacity_type i = Some SPOT then None else i_aws_autoscaling_group_name i),
        n_spot = None, n_spot_price = None, n_enable_ht_support = None, n_resources_available = None,
        n_launch_time = i_launch_time i, n_jobs = None\<rparr>)"

text \<open>A node knows at most one of the two groups that can terminate it, and always has a scaling mode.\<close>

lemma from_ec2_instance_group:
  assumes "from_ec2_instance i = Some n"
  shows "n_spot_fleet_request n = None \<or> n_auto_scaling_group n = None" "n_scaling_mode n \<noteq> None"
  using assms
  by (auto simp: from_ec2_instance_def resolve_scaling_mode_def Let_def split: if_splits option.splits)

lemma has_state_iff: "has_state n sts \<longleftrightarrow> (\<exists>ss. n_states n = Some ss \<and> set sts \<inter> set ss \<noteq> {})"
  by (auto simp: has_state_def list_ex_iff split: option.split)

end
