(* ===== verification/Batch_Capacity.thy ===== *)
theory Batch_Capacity
  imports Node_Model
begin

text \<open>
  \<open>BatchCapacityHelper\<close> of \<open>ideascheduler/.../batch_capacity_helper.py\<close>: the capacity that a batch of
  jobs of one job group needs. The attributes of the helper are the record \<open>batch_helper\<close>; the
  compute instances of the group, the scheduler's node for a host and the desired capacity of
  the group come from the caches, the record \<open>batch_env\<close>.
\<close>

record batch_helper =
  bh_jobs :: "soca_job list"
  bh_provisioned_capacity :: int
  bh_existing_capacity :: int
  bh_idle_capacity :: int
  bh_busy_capacity :: int
  bh_pending_capacity :: int
  bh_total_instances :: int
  bh_idle_instances :: int
  bh_busy_instances :: int
  bh_pending_instances :: int
  bh_group_capacity :: int
  bh_available_capacity :: int
  bh_provisioned_jobs :: "soca_job list"
  bh_unprovisioned_jobs :: "soca_job list"

record batch_env =
  be_list_compute_instances :: "string \<Rightarrow> ec2_instance list"
  be_get_node :: "string option \<Rightarrow> compute_node option"
  be_desired_capacity :: "string option \<Rightarrow> int"
  be_digest :: "string \<Rightarrow> string"

record batch_result =
  br_provisioned_jobs :: "soca_job list"
  br_unprovisioned_jobs :: "soca_job list"
  br_capacity_info :: capacity_info

definition new_batch_helper :: "soca_job list \<Rightarrow> int \<Rightarrow> batch_helper" where
  "new_batch_helper jobs cap = \<lparr>bh_jobs = jobs, bh_provisioned_capacity = cap,
     bh_existing_capacity = 0, bh_idle_capacity = 0, bh_busy_capacity = 0, bh_pending_capacity = 0,
     bh_total_instances = 0, bh_idle_instances = 0, bh_busy_instances = 0, bh_pending_instances = 0,
     bh_group_capacity = 0, bh_available_capacity = 0, bh_provisioned_jobs = [], bh_unprovisioned_jobs = []\<rparr>"

definition first_job :: "soca_job list \<Rightarrow> soca_job res" where
  "first_job jobs = (case jobs of [] \<Rightarrow> Inl IndexError | j # _ \<Rightarrow> Inr j)"

text \<open>One turn of the loop over the instances.\<close>

definition count_instance :: "batch_env \<Rightarrow> soca_job \<Rightarrow> ec2_instance \<Rightarrow> (batch_helper, unit) act" where
  "count_instance env job inst =
     thenS (modify (\<lambda>b. b\<lparr>bh_total_instances := bh_total_instances b + 1\<rparr>))
     (bindS (reads (\<lambda>_. weighted_capacity job (i_instance_type inst))) (\<lambda>w.
      bindS (reads (\<lambda>_. required TypeError w)) (\<lambda>instance_capacity.
      case be_get_node env (i_private_dns_name inst) of
        None \<Rightarrow> modify (\<lambda>b. b\<lparr>bh_pending_capacity := bh_pending_capacity b + instance_capacity,
                            bh_pending_instances := bh_pending_instances b + 1\<rparr>)
      | Some node \<Rightarrow>
          thenS (modify (\<lambda>b. b\<lparr>bh_existing_capacity := bh_existing_capacity b + instance_capacity\<rparr>))
          (if has_state node [NS_FREE]
           then bindS (reads (\<lambda>_. required TypeError (n_jobs node))) (\<lambda>node_jobs.
                  modify (\<lambda>b. b\<lparr>bh_idle_capacity := bh_idle_capacity b + (instance_capacity - int (length node_jobs)),
                                bh_idle_instances := bh_idle_instances b + 1\<rparr>))
           else if has_state node [NS_BUSY, NS_JOB_BUSY]
           then modify (\<lambda>b. b\<lparr>bh_busy_capacity := bh_busy_capacity b + instance_capacity,
                              bh_busy_instances := bh_busy_instances b + 1\<rparr>)
           else if \<not> has_state node [NS_OFFLINE]
           then modify (\<lambda>b. b\<lparr>bh_pending_capacity := bh_pending_capacity b + instance_capacity,
                              bh_pending_instances := bh_pending_instances b + 1\<rparr>)
           else ret ()))))"

definition find_available_capacity :: "batch_env \<Rightarrow> (batch_helper, unit) act" where
  "find_available_capacity env =
     bindS (reads (\<lambda>b. first_job (bh_jobs b))) (\<lambda>job.
     bindS (reads (\<lambda>_. get_job_group (be_digest env) job)) (\<lambda>grp.
     thenS (forS (count_instance env job) (be_list_compute_instances env grp))
       (modify (\<lambda>b. b\<lparr>bh_available_capacity := bh_idle_capacity b\<rparr>))))"

definition find_group_capacity :: "batch_env \<Rightarrow> (batch_helper, unit) act" where
  "find_group_capacity env =
     bindS (reads (\<lambda>b. first_job (bh_jobs b))) (\<lambda>job.
       modify (\<lambda>b. b\<lparr>bh_group_capacity := be_desired_capacity env (job_group job)\<rparr>))"

text \<open>The loop over the jobs; its accumulator is \<open>target_capacity\<close>.\<close>

fun fit_jobs :: "soca_job list \<Rightarrow> int \<Rightarrow> (batch_helper, int) act" where
  "fit_jobs [] target = ret target"
| "fit_jobs (j # js) target =
     bindS (reads (\<lambda>_. job_desired_capacity j)) (\<lambda>desired.
     bindS (gets (\<lambda>b. bh_available_capacity b > 0 \<and> bh_available_capacity b \<ge> desired)) (\<lambda>fits.
     bindS (if fits
            then thenS (modify (\<lambda>b. b\<lparr>bh_available_capacity := bh_available_capacity b - desired\<rparr>)) (ret target)
            else gets (\<lambda>b. max (max 0 (bh_provisioned_capacity b)) (bh_group_capacity b - bh_available_capacity b)))
       (\<lambda>target'.
     thenS (modify (\<lambda>b. b\<lparr>bh_provisioned_jobs := bh_provisioned_jobs b @ [j]\<rparr>))
       (fit_jobs js target'))))"

definition compute_batch_capacity :: "(batch_helper, batch_result) act" where
  "compute_batch_capacity =
     bindS (gets bh_jobs) (\<lambda>jobs.
     bindS (reads (\<lambda>b. first_job jobs)) (\<lambda>_.
     bindS (fit_jobs jobs 0) (\<lambda>target.
     thenS (modify (\<lambda>b. if length (bh_provisioned_jobs b) < length jobs
        then b\<lparr>bh_unprovisioned_jobs := drop (length jobs - 1) jobs\<rparr> else b))
     (gets (\<lambda>b.
        let (target', comment) =
              (if target > 0 then (target, ''Updating target_capacity'')
               else if bh_provisioned_capacity b < bh_group_capacity b
               then (bh_group_capacity b, ''Set target_capacity to match desired_group_capacity'')
               else (target, ''Re-using available_capacity''))
        in \<lparr>br_provisioned_jobs = bh_provisioned_jobs b, br_unprovisioned_jobs = bh_unprovisioned_jobs b,
            br_capacity_info = empty_capacity_info\<lparr>target_capacity := Some target',
              total_instances := Some (bh_total_instances b), idle_instances := Some (bh_idle_instances b),
              busy_instances := Some (bh_busy_instances b), pending_instances := Some (bh_pending_instances b),
              ci_comment := Some comment\<rparr>\<rparr>)))))"

definition batch_invoke :: "batch_env \<Rightarrow> (batch_helper, batch_result) act" where
  "batch_invoke env = thenS (find_available_capacity env) (thenS (find_group_capacity env) compute_batch_capacity)"

section \<open>Accounting of the instances\<close>

text \<open>
  Every instance is counted; the ones that are neither idle nor busy nor pending are offline, and
  idle capacity is the weight of the idle instances less the jobs on them.
\<close>

definition counts_ok :: "batch_helper \<Rightarrow> bool" where
  "counts_ok b \<longleftrightarrow>
     bh_idle_instances b + bh_busy_instances b + bh_pending_instances b \<le> bh_total_instances b \<and>
     0 \<le> bh_idle_instances b \<and> 0 \<le> bh_busy_instances b \<and> 0 \<le> bh_pending_instances b"

lemma counts_ok_new: "counts_ok (new_batch_helper jobs p)"
  by (simp add: counts_ok_def new_batch_helper_def)

lemma counts_ok_frame [simp]:
  "counts_ok (b\<lparr>bh_existing_capacity := v\<rparr>) = counts_ok b" "counts_ok (b\<lparr>bh_available_capacity := v\<rparr>) = counts_ok b"
  "counts_ok (b\<lparr>bh_group_capacity := v\<rparr>) = counts_ok b"
  by (simp_all add: counts_ok_def)

lemma count_instance_ok: "counts_ok b \<Longrightarrow> counts_ok (snd (count_instance env job i b))"
  by (auto simp: count_instance_def act_simps bindS_reads counts_ok_def split: sum.splits option.splits prod.splits)

lemma count_instance_total:
  "bh_total_instances (snd (count_instance env job i b)) = bh_total_instances b + 1"
  "bh_jobs (snd (count_instance env job i b)) = bh_jobs b"
  "bh_provisioned_capacity (snd (count_instance env job i b)) = bh_provisioned_capacity b"
  by (auto simp: count_instance_def act_simps bindS_reads split: sum.splits option.splits prod.splits)

lemma forS_count_total:
  "forS (count_instance env job) is b = (Inr (), b') \<Longrightarrow>
     bh_total_instances b' = bh_total_instances b + int (length is)"
proof (induction "is" arbitrary: b)
  case (Cons i "is")
  then obtain b1 where "count_instance env job i b = (Inr (), b1)" "forS (count_instance env job) is b1 = (Inr (), b')"
    by (auto simp: act_simps split: prod.splits sum.splits)
  with Cons.IH [of b1] count_instance_total(1) [of env job i b] show ?case by simp
qed simp

section \<open>The target\<close>

lemma fit_jobs_spec:
  assumes "fit_jobs js target b = (Inr t, b')"
  shows "bh_provisioned_jobs b' = bh_provisioned_jobs b @ js" "bh_unprovisioned_jobs b' = bh_unprovisioned_jobs b"
    "bh_provisioned_capacity b' = bh_provisioned_capacity b" "bh_group_capacity b' = bh_group_capacity b"
    "0 < t \<Longrightarrow> target < bh_provisioned_capacity b \<Longrightarrow> target \<le> 0 \<Longrightarrow> bh_provisioned_capacity b \<le> t"
    "t = target \<or> (bh_provisioned_capacity b \<le> t \<and> 0 \<le> t)"
proof -
  have "bh_provisioned_jobs b' = bh_provisioned_jobs b @ js \<and> bh_unprovisioned_jobs b' = bh_unprovisioned_jobs b \<and>
    bh_provisioned_capacity b' = bh_provisioned_capacity b \<and> bh_group_capacity b' = bh_group_capacity b \<and>
    (t = target \<or> (bh_provisioned_capacity b \<le> t \<and> 0 \<le> t))"
    using assms
  proof (induction js arbitrary: target b)
    case (Cons j js)
    from Cons.prems obtain desired where d: "job_desired_capacity j = Inr desired"
      by (auto simp: bindS_reads split: sum.splits)
    show ?case
    proof (cases "bh_available_capacity b > 0 \<and> bh_available_capacity b \<ge> desired")
      case True
      with Cons.prems d have "fit_jobs js target (b\<lparr>bh_available_capacity := bh_available_capacity b - desired,
          bh_provisioned_jobs := bh_provisioned_jobs b @ [j]\<rparr>) = (Inr t, b')"
        by (simp add: act_simps)
      from Cons.IH [OF this] show ?thesis by simp
    next
      case False
      let ?t = "max (max 0 (bh_provisioned_capacity b)) (bh_group_capacity b - bh_available_capacity b)"
      from False Cons.prems d have "fit_jobs js ?t (b\<lparr>bh_provisioned_jobs := bh_provisioned_jobs b @ [j]\<rparr>) = (Inr t, b')"
        by (auto simp: act_simps)
      from Cons.IH [OF this] show ?thesis by auto
    qed
  qed simp
  then show "bh_provisioned_jobs b' = bh_provisioned_jobs b @ js" "bh_unprovisioned_jobs b' = bh_unprovisioned_jobs b"
    "bh_provisioned_capacity b' = bh_provisioned_capacity b" "bh_group_capacity b' = bh_group_capacity b"
    "0 < t \<Longrightarrow> target < bh_provisioned_capacity b \<Longrightarrow> target \<le> 0 \<Longrightarrow> bh_provisioned_capacity b \<le> t"
    "t = target \<or> (bh_provisioned_capacity b \<le> t \<and> 0 \<le> t)"
    by auto
qed

lemma compute_batch_capacity_spec:
  assumes "compute_batch_capacity b = (Inr r, b')" "bh_provisioned_jobs b = []" "bh_unprovisioned_jobs b = []"
  shows "br_provisioned_jobs r = bh_jobs b" "br_unprovisioned_jobs r = []"
    "\<exists>t. target_capacity (br_capacity_info r) = Some t \<and> (0 < t \<longrightarrow> bh_provisioned_capacity b \<le> t) \<and>
      (bh_provisioned_capacity b < bh_group_capacity b \<longrightarrow> 0 < bh_group_capacity b \<longrightarrow> 0 < t)"
proof -
  from assms(1) obtain t b1 where f: "fit_jobs (bh_jobs b) 0 b = (Inr t, b1)"
    by (auto simp: compute_batch_capacity_def bindS_reads bindS_def [of "fit_jobs _ _"] split: prod.splits sum.splits)
  note sp = fit_jobs_spec [OF f]
  have r: "r = (let (target', comment) =
              (if t > 0 then (t, ''Updating target_capacity'')
               else if bh_provisioned_capacity b < bh_group_capacity b
               then (bh_group_capacity b, ''Set target_capacity to match desired_group_capacity'')
               else (t, ''Re-using available_capacity''))
        in \<lparr>br_provisioned_jobs = bh_jobs b, br_unprovisioned_jobs = [],
            br_capacity_info = empty_capacity_info\<lparr>target_capacity := Some target',
              total_instances := Some (bh_total_instances b1), idle_instances := Some (bh_idle_instances b1),
              busy_instances := Some (bh_busy_instances b1), pending_instances := Some (bh_pending_instances b1),
              ci_comment := Some comment\<rparr>\<rparr>)"
    using assms f sp by (auto simp: compute_batch_capacity_def bindS_reads bindS_def [of "fit_jobs _ _"] thenS_apply
        split: sum.splits)
  then show "br_provisioned_jobs r = bh_jobs b" "br_unprovisioned_jobs r = []"
    by (simp_all add: Let_def split: prod.splits if_splits)
  show "\<exists>t. target_capacity (br_capacity_info r) = Some t \<and> (0 < t \<longrightarrow> bh_provisioned_capacity b \<le> t) \<and>
      (bh_provisioned_capacity b < bh_group_capacity b \<longrightarrow> 0 < bh_group_capacity b \<longrightarrow> 0 < t)"
    using sp(6) by (auto simp: r)
qed

end
