(* ===== verification/Service_Quota.thy ===== *)
theory Service_Quota
  imports Node_Model
begin

text \<open>
  The check of EC2 vCPU quotas: \<open>EC2ServiceQuotaHelper\<close> of
  \<open>ideascheduler/app/aws/ec2_service_quota_helper.py\<close>, \<open>CheckServiceQuotaResult\<close> of
  \<open>ideadatamodel/aws/model.py\<close>, and the instance class functions of \<open>ideasdk/aws/aws_util.py\<close>. A
  quota is the dict that the service returns. The record \<open>quota_env\<close> holds what the code asks
  others: the pages of the quota service, the cached instances, the instance type database.
\<close>

section \<open>Instance classes\<close>

text \<open>The chain of \<open>startswith\<close> tests of \<open>get_instance_type_class\<close>, in its order.\<close>

definition class_table :: "(string list \<times> string \<times> bool) list" where
  "class_table =
    [([''p5'', ''p4de'', ''p4d'', ''p3dn'', ''p3'', ''p2'', ''p''], ''P'', False),
     ([''dl1'', ''dl''], ''DL'', False),
     ([''inf2'', ''inf1'', ''inf''], ''Inf'', False),
     ([''trn1n'', ''trn1'', ''trn''], ''Trn'', False),
     ([''g4dn'', ''g4ad'', ''g5'', ''g5g'', ''g6'', ''g6e'', ''g6f'', ''g3s'', ''g3'', ''g2'', ''g''], ''G'', False),
     ([''f1'', ''f''], ''F'', False),
     ([''vt1'', ''vt''], ''VT'', False),
     ([''i4g'', ''i4i'', ''i3'', ''i3en'', ''i''], ''I'', True),
     ([''lm4gn''], ''lm4gn'', True),
     ([''ls4gen''], ''ls4gen'', True),
     ([''d2'', ''d3'', ''d3en'', ''d''], ''D'', True),
     ([''hpc7g'', ''hpc6id'', ''hpc6a'', ''hpc''], ''HPC'', False),
     ([''h1'', ''h''], ''H'', False),
     ([''r7g'', ''r7gd'', ''r7iz'', ''r6a'', ''r6g'', ''r6in'', ''r6idn'', ''r6i'', ''r5a'', ''r5b'', ''r5d'',
       ''r5dn'', ''r5ad'', ''r5n'', ''r6'', ''r5'', ''r4'', ''r''], ''R'', True),
     ([''x2gd'', ''x2idn'', ''x2iedn'', ''x2iezn'', ''x1e'', ''x1'', ''x''], ''X'', False),
     ([''u-''], ''HighMem'', False),
     ([''z1d'', ''z''], ''Z'', True),
     ([''c7g'', ''c6a'', ''c6g'', ''c6gn'', ''c6in'', ''c6i'', ''c5'', ''c5a'', ''c5n'', ''c4'', ''c''], ''C'', True),
     ([''mac1'', ''mac2'', ''mac''], ''mac'', False),
     ([''t4g'', ''t3'', ''t3a'', ''t2'', ''t''], ''T'', True),
     ([''m7i'', ''m7i-flex'', ''m7a'', ''m7g'', ''m7gd'', ''m6g'', ''m6gd'', ''m6in'', ''m6idn'', ''m6i'', ''m6id'',
       ''m6a'', ''m5'', ''m5a'', ''m5d'', ''m5ad'', ''m5dn'', ''m5n'', ''m5zn'', ''m4'', ''m''], ''M'', True),
     ([''a1'', ''a''], ''A'', True)]"

definition get_instance_type_class :: "string \<Rightarrow> (string \<times> bool) option" where
  "get_instance_type_class instance_type =
     (let family = lower (hd (split_char (CHR ''.'') instance_type)) in
      map_option snd (find (\<lambda>(prefixes, _). list_ex (\<lambda>p. startswith p family) prefixes) class_table))"

definition get_instance_types_for_class :: "string list \<Rightarrow> string \<Rightarrow> string list" where
  "get_instance_types_for_class all_instance_types instance_class =
     (let token = (if instance_class = ''HighMem'' then ''u-'' else lower instance_class) in
      filter (startswith token) all_instance_types)"

section \<open>The result object\<close>

record service_quota =
  quota_name :: "string option"
  quota_available :: "int option"
  quota_consumed :: "int option"
  quota_desired :: "int option"

definition is_available :: "service_quota list option \<Rightarrow> bool" where
  "is_available quotas =
     (case quotas of None \<Rightarrow> False
      | Some qs \<Rightarrow> list_all (\<lambda>q. \<not> (opt_or (quota_consumed q) 0 + opt_or (quota_desired q) 0 > opt_or (quota_available q) 0)) qs)"

definition find_insufficient_quotas :: "service_quota list option \<Rightarrow> service_quota list" where
  "find_insufficient_quotas quotas =
     (case quotas of None \<Rightarrow> []
      | Some qs \<Rightarrow> filter (\<lambda>q. opt_or (quota_desired q) 0 > opt_or (quota_available q) 0) qs)"

section \<open>Reading quotas\<close>

definition EC2_SERVICE_QUOTA_ONDEMAND :: int where "EC2_SERVICE_QUOTA_ONDEMAND = 1"
definition EC2_SERVICE_QUOTA_SPOT :: int where "EC2_SERVICE_QUOTA_SPOT = 2"
definition EC2_SERVICE_QUOTA_DEDICATED :: int where "EC2_SERVICE_QUOTA_DEDICATED = 3"

definition get_quota_type_name :: "int \<Rightarrow> string" where
  "get_quota_type_name t =
     (if t = EC2_SERVICE_QUOTA_ONDEMAND then ''on-demand''
      else if t = EC2_SERVICE_QUOTA_SPOT then ''spot''
      else if t = EC2_SERVICE_QUOTA_DEDICATED then ''dedicated''
      else ''unknown'')"

record quota_env =
  qe_cached_quotas :: "pydict list option"
  qe_page :: "string option \<Rightarrow> pydict list option \<times> string option"
  qe_fuel :: nat
  qe_all_instance_types :: "string list"
  qe_instances :: "ec2_instance list"
  qe_vcpus :: "string \<Rightarrow> int res"
  qe_fmt :: "pyval \<Rightarrow> string"

text \<open>The paging loop; an empty next token asks for the first page again. It may not end: fuel.\<close>

fun fetch_pages :: "nat \<Rightarrow> (string option \<Rightarrow> pydict list option \<times> string option) \<Rightarrow> string option \<Rightarrow> pydict list option" where
  "fetch_pages 0 page token = None"
| "fetch_pages (Suc n) page token =
     (let (quotas, next_token) = page (if token = Some [] then None else token) in
      case next_token of
        None \<Rightarrow> Some (opt_or quotas [])
      | Some t \<Rightarrow> map_option (\<lambda>rest. opt_or quotas [] @ rest) (fetch_pages n page (Some t)))"

definition get_ec2_service_quotas :: "quota_env \<Rightarrow> pydict list res" where
  "get_ec2_service_quotas env =
     (case qe_cached_quotas env of
        Some qs \<Rightarrow> Inr qs
      | None \<Rightarrow> required Blocks (fetch_pages (qe_fuel env) (qe_page env) None))"

text \<open>\<open>s.index(c)\<close>; the slice between the first opening and the first closing parenthesis.\<close>

definition index_of :: "char \<Rightarrow> string \<Rightarrow> nat res" where
  "index_of c s = (if c \<in> set s then Inr (length (takeWhile (\<lambda>d. d \<noteq> c) s)) else Inl ValueError)"

definition slice :: "nat \<Rightarrow> nat \<Rightarrow> string \<Rightarrow> string" where
  "slice i j s = take (j - i) (drop i s)"

definition get_instance_classes_from_quota ::
  "quota_env \<Rightarrow> pydict \<Rightarrow> (string list \<times> int) option res" where
  "get_instance_classes_from_quota env quota =
     (let name = get_value_as_string (qe_fmt env) ''QuotaName'' quota None;
          usage_metric = opt_or (get_value_as_dict ''UsageMetric'' quota None) [];
          dimensions = opt_or (get_value_as_dict ''MetricDimensions'' usage_metric None) [];
          metric_cls = get_value_as_string (qe_fmt env) ''Class'' dimensions None
      in case metric_cls of
           Some cls \<Rightarrow>
             let t = (if contains ''Spot'' cls then EC2_SERVICE_QUOTA_SPOT else EC2_SERVICE_QUOTA_ONDEMAND) in
             if startswith ''Standard/'' cls
             then bindE (required AttributeError name) (\<lambda>nm.
                  bindE (index_of (CHR ''('') nm) (\<lambda>i.
                  bindE (index_of (CHR '')'') nm) (\<lambda>j.
                    Inr (Some (split_char (CHR '','') (remove_char (CHR '' '') (slice (i + 1) j nm)), t)))))
             else (case split_char (CHR ''/'') cls of
                     [c, _] \<Rightarrow> if c = ''G'' then Inr (Some ([''G'', ''VT''], t)) else Inr (Some ([c], t))
                   | _ \<Rightarrow> Inr None)
         | None \<Rightarrow>
             bindE (required TypeError name) (\<lambda>nm.
               if contains ''Dedicated'' nm
               then let words = split_char (CHR '' '') nm in
                 if length words \<le> 2 then Inr None
                 else case get_instance_type_class (words ! 2) of
                        None \<Rightarrow> Inr None
                      | Some (c, _) \<Rightarrow> Inr (Some ([c], EC2_SERVICE_QUOTA_DEDICATED))
               else Inr None))"

definition get_quota_code :: "pydict \<Rightarrow> pyval res" where
  "get_quota_code quota = required KeyError (map_of quota ''QuotaCode'')"

text \<open>The loop over the quotas, with the codes it has met.\<close>

fun select_quotas ::
  "quota_env \<Rightarrow> int \<Rightarrow> string list \<Rightarrow> pyval list \<Rightarrow> pydict list \<Rightarrow> pydict list res" where
  "select_quotas env type classes existing [] = Inr []"
| "select_quotas env type classes existing (quota # rest) =
     bindE (get_instance_classes_from_quota env quota) (\<lambda>r.
       case r of
         None \<Rightarrow> select_quotas env type classes existing rest
       | Some (quota_classes, quota_type) \<Rightarrow>
           if type \<noteq> quota_type then select_quotas env type classes existing rest
           else if list_ex (\<lambda>c. c \<in> set quota_classes) classes
           then bindE (get_quota_code quota) (\<lambda>code.
                  if code \<in> set existing then select_quotas env type classes existing rest
                  else bindE (select_quotas env type classes (code # existing) rest) (\<lambda>qs. Inr (quota # qs)))
           else select_quotas env type classes existing rest)"

definition get_applicable_quotas :: "quota_env \<Rightarrow> string list \<Rightarrow> int \<Rightarrow> pydict list res" where
  "get_applicable_quotas env types quota_type =
     bindE (get_ec2_service_quotas env) (\<lambda>quotas.
       select_quotas env quota_type (map fst (List.map_filter get_instance_type_class types)) [] quotas)"

section \<open>Checking\<close>

definition counts_towards :: "int \<Rightarrow> ec2_instance \<Rightarrow> bool" where
  "counts_towards quota_type i =
     (if quota_type = EC2_SERVICE_QUOTA_SPOT then i_instance_lifecycle i = Some ''spot''
      else if quota_type = EC2_SERVICE_QUOTA_ONDEMAND then i_instance_lifecycle i \<noteq> Some ''spot''
      else if quota_type = EC2_SERVICE_QUOTA_DEDICATED then i_placement_tenancy i = Some ''dedicated''
      else True)"

definition get_active_vcpu_count :: "quota_env \<Rightarrow> int \<Rightarrow> string list \<Rightarrow> int res" where
  "get_active_vcpu_count env quota_type types =
     foldE (\<lambda>i vcpu_count.
        if i_state i \<notin> set (map Some [''running'', ''pending'', ''stopping'', ''shutting-down'']) then Inr vcpu_count
        else case i_instance_type i of
               None \<Rightarrow> Inr vcpu_count
             | Some t \<Rightarrow>
                 if t \<notin> set types then Inr vcpu_count
                 else if \<not> counts_towards quota_type i then Inr vcpu_count
                 else bindE (qe_vcpus env t) (\<lambda>v. Inr (vcpu_count + v)))
       (qe_instances env) 0"

fun py_int :: "pyval \<Rightarrow> int res" where
  "py_int (PInt i) = Inr i"
| "py_int (PBool b) = Inr (int_of_bool b)"
| "py_int (PFloat x) = int_of_float x"
| "py_int (PStr s) = int_of_str s"
| "py_int _ = Inl TypeError"

definition check_quota :: "quota_env \<Rightarrow> int \<Rightarrow> int \<Rightarrow> pydict \<Rightarrow> service_quota res" where
  "check_quota env quota_type desired quota =
     bindE (get_instance_classes_from_quota env quota) (\<lambda>r.
     bindE (required TypeError r) (\<lambda>(classes, _).
     bindE (get_active_vcpu_count env quota_type
             (concat (map (get_instance_types_for_class (qe_all_instance_types env)) classes))) (\<lambda>vcpu_count.
     bindE (required KeyError (map_of quota ''QuotaName'')) (\<lambda>nm.
     bindE (required KeyError (map_of quota ''Value'')) (\<lambda>v.
     bindE (py_int v) (\<lambda>available.
       Inr \<lparr>quota_name = get_as_string (qe_fmt env) nm None, quota_available = Some available,
            quota_consumed = Some vcpu_count, quota_desired = Some desired\<rparr>))))))"

definition check_service_quota :: "quota_env \<Rightarrow> string list \<Rightarrow> int \<Rightarrow> int \<Rightarrow> service_quota list res" where
  "check_service_quota env types quota_type desired =
     bindE (get_applicable_quotas env types quota_type) (\<lambda>quotas.
       if quotas = [] then Inl (SocaException ''SERVICE_QUOTA_NOT_FOUND'')
       else traverseE (check_quota env quota_type desired) quotas)"

section \<open>Properties\<close>

lemma select_quotas_Cons:
  assumes "select_quotas env type classes existing (quota # rest) = Inr qs"
  obtains (skip) "select_quotas env type classes existing rest = Inr qs"
    | (take) cs code qs' where "get_instance_classes_from_quota env quota = Inr (Some (cs, type))"
        "set classes \<inter> set cs \<noteq> {}" "code \<notin> set existing" "get_quota_code quota = Inr code"
        "select_quotas env type classes (code # existing) rest = Inr qs'" "qs = quota # qs'"
proof -
  from assms obtain r where r: "get_instance_classes_from_quota env quota = Inr r"
    by (auto simp: bindE_Inr_iff)
  show ?thesis
  proof (cases r)
    case None
    with assms r show ?thesis using skip by simp
  next
    case (Some p)
    then obtain cs t where p: "r = Some (cs, t)" by (cases p) auto
    show ?thesis
    proof (cases "type = t \<and> list_ex (\<lambda>c. c \<in> set cs) classes")
      case False
      with assms r p show ?thesis using skip by (auto split: if_splits)
    next
      case True
      with assms r p obtain code where c: "get_quota_code quota = Inr code"
        by (auto simp: bindE_Inr_iff)
      have ne: "set classes \<inter> set cs \<noteq> {}" using True by (auto simp: list_ex_iff)
      show ?thesis
      proof (cases "code \<in> set existing")
        case True
        with \<open>type = t \<and> _\<close> assms r p c show ?thesis using skip by simp
      next
        case False
        with \<open>type = t \<and> _\<close> assms r p c obtain qs' where
          "select_quotas env type classes (code # existing) rest = Inr qs'" "qs = quota # qs'"
          by (auto simp: bindE_Inr_iff)
        then show ?thesis using take r p \<open>type = t \<and> _\<close> ne False c by blast
      qed
    qed
  qed
qed

lemma select_quotas_sound:
  "select_quotas env type classes existing quotas = Inr qs \<Longrightarrow> q \<in> set qs \<Longrightarrow>
     q \<in> set quotas \<and>
     (\<exists>cs code. get_instance_classes_from_quota env q = Inr (Some (cs, type)) \<and> set classes \<inter> set cs \<noteq> {} \<and>
        get_quota_code q = Inr code \<and> code \<notin> set existing)"
proof (induction quotas arbitrary: existing qs)
  case (Cons quota rest)
  from Cons.prems(1) show ?case
  proof (cases rule: select_quotas_Cons)
    case skip
    with Cons.IH [OF skip Cons.prems(2)] show ?thesis by auto
  next
    case (take cs code qs')
    show ?thesis
    proof (cases "q = quota")
      case True
      with take show ?thesis by auto
    next
      case False
      with take(6) Cons.prems(2) have "q \<in> set qs'" by simp
      with Cons.IH [OF take(5)] show ?thesis by force
    qed
  qed
qed simp

lemma select_quotas_distinct:
  "select_quotas env type classes existing quotas = Inr qs \<Longrightarrow> distinct (map get_quota_code qs)"
proof (induction quotas arbitrary: existing qs)
  case (Cons quota rest)
  from Cons.prems show ?case
  proof (cases rule: select_quotas_Cons)
    case skip
    with Cons.IH show ?thesis by blast
  next
    case (take cs code qs')
    have "get_quota_code quota \<notin> get_quota_code ` set qs'"
      using select_quotas_sound [OF take(5)] take(4) by force
    with Cons.IH [OF take(5)] take(6) show ?thesis by simp
  qed
qed simp

lemma traverseE_elem: "traverseE f xs = Inr ys \<Longrightarrow> x \<in> set xs \<Longrightarrow> \<exists>y \<in> set ys. f x = Inr y"
  by (induction xs arbitrary: ys) (auto simp: bindE_Inr_iff)


lemma fetch_pages_enough:
  assumes "\<And>t. snd (page t) = None \<or> snd (page t) = Some (next t)" "snd (page (((\<lambda>t. Some (next t)) ^^ n) None)) = None"
    and "\<And>t. next t \<noteq> []"
  shows "fetch_pages (Suc n) page None \<noteq> None"
proof -
  have "fetch_pages (Suc n) page t \<noteq> None"
    if "snd (page (((\<lambda>t. Some (next t)) ^^ n) t)) = None" "t \<noteq> Some []" for t
    using that
  proof (induction n arbitrary: t)
    case 0
    then show ?case by (auto split: prod.splits)
  next
    case (Suc n)
    show ?case
    proof (cases "snd (page t)")
      case None
      with Suc.prems(2) show ?thesis by (auto split: prod.splits)
    next
      case (Some u)
      with assms(1) [of t] have u: "u = next t" by simp
      have "((\<lambda>t. Some (next t)) ^^ Suc n) t = ((\<lambda>t. Some (next t)) ^^ n) (Some u)"
        by (simp only: funpow_Suc_right o_apply u)
      then have "fetch_pages (Suc n) page (Some u) \<noteq> None"
        using Suc.IH [of "Some u"] Suc.prems(1) assms(3) u by (simp del: fetch_pages.simps funpow.simps)
      with Suc.prems(2) Some show ?thesis
        by (subst fetch_pages.simps) (auto split: prod.splits simp del: fetch_pages.simps)
    qed
  qed
  with assms(2) show ?thesis by simp
qed

definition sample_quota :: pydict where
  "sample_quota = [(''QuotaName'', PStr ''Running On-Demand Standard (A, C, D, H, I, M, R, T, Z) instances''),
     (''UsageMetric'', PDict [(''MetricDimensions'', PDict [(''Class'', PStr ''Standard/OnDemand'')])]),
     (''QuotaCode'', PStr ''L-1216C47A''), (''Value'', PFloat (Fin 32))]"

definition sample_instance :: "string \<Rightarrow> ec2_instance" where
  "sample_instance t = \<lparr>i_private_dns_name = Some ''host'', i_instance_id = Some ''i-1'', i_instance_type = Some t,
     i_state = Some ''running'', i_image_id = None, i_iam_instance_profile_id = None, i_instance_lifecycle = None,
     i_placement_tenancy = None, i_placement_availability_zone = None, i_subnet_id = None, i_launch_time = Some 0,
     i_aws_ec2spot_fleet_request_id = None, i_aws_autoscaling_group_name = None,
     i_aws_cloudformation_stack_id = None, i_soca_cluster_name = Some ''idea'', i_soca_job_queue = None,
     i_soca_queue_type = None, i_soca_job_id = None, i_soca_job_group = None, i_soca_scaling_mode = None,
     i_soca_capacity_type = None, i_soca_compute_stack = None, i_soca_keep_forever = False,
     i_soca_terminate_when_idle = 0, i_is_valid_idea_compute_node = True\<rparr>"

definition sample_quota_env :: quota_env where
  "sample_quota_env = \<lparr>qe_cached_quotas = Some [sample_quota], qe_page = (\<lambda>_. (None, None)), qe_fuel = 1,
     qe_all_instance_types = [''c5.large'', ''inf1.xlarge'', ''p3.2xlarge''],
     qe_instances = [sample_instance ''c5.large'', sample_instance ''inf1.xlarge''],
     qe_vcpus = (\<lambda>t. Inr (if t = ''c5.large'' then 2 else 4)), qe_fmt = (\<lambda>_. [])\<rparr>"

text \<open>When the quota check of a request is passed, then for every distinct EC2 quota that covers a class of
  the requested instance types, the vCPUs in use by the instances that count towards it plus the
  requested ones are within the value of the quota, and there is at least one such quota.\<close>

lemma quota_check_sound:
  assumes "check_service_quota env types quota_type desired = Inr result" "is_available (Some result)"
  shows "\<exists>quotas. get_applicable_quotas env types quota_type = Inr quotas \<and> quotas \<noteq> [] \<and>
    distinct (map get_quota_code quotas) \<and>
    (\<forall>quota \<in> set quotas. \<exists>classes used v limit.
       get_instance_classes_from_quota env quota = Inr (Some (classes, quota_type)) \<and>
       get_active_vcpu_count env quota_type
         (concat (map (get_instance_types_for_class (qe_all_instance_types env)) classes)) = Inr used \<and>
       map_of quota ''Value'' = Some v \<and> py_int v = Inr limit \<and> used + desired \<le> limit)"
proof -
  from assms(1) obtain quotas where q: "get_applicable_quotas env types quota_type = Inr quotas" "quotas \<noteq> []"
    "traverseE (check_quota env quota_type desired) quotas = Inr result"
    by (auto simp: check_service_quota_def bindE_Inr_iff split: if_splits)
  then obtain qs0 where sel: "select_quotas env quota_type (map fst (List.map_filter get_instance_type_class types)) [] qs0 = Inr quotas"
    by (auto simp: get_applicable_quotas_def bindE_Inr_iff)
  have "\<exists>classes used v limit. get_instance_classes_from_quota env quota = Inr (Some (classes, quota_type)) \<and>
       get_active_vcpu_count env quota_type
         (concat (map (get_instance_types_for_class (qe_all_instance_types env)) classes)) = Inr used \<and>
       map_of quota ''Value'' = Some v \<and> py_int v = Inr limit \<and> used + desired \<le> limit" if mem: "quota \<in> set quotas" for quota
  proof -
    from select_quotas_sound [OF sel mem] obtain classes where
      c: "get_instance_classes_from_quota env quota = Inr (Some (classes, quota_type))" by blast
    from traverseE_elem [OF q(3) mem] obtain r where r: "r \<in> set result" "check_quota env quota_type desired quota = Inr r"
      by blast
    from r(1) assms(2) have "opt_or (quota_consumed r) 0 + opt_or (quota_desired r) 0 \<le> opt_or (quota_available r) 0"
      by (auto simp: is_available_def list_all_iff not_less)
    with r(2) c show ?thesis by (auto simp: check_quota_def bindE_Inr_iff)
  qed
  with q select_quotas_distinct [OF sel] show ?thesis by blast
qed

lemma quota_check_sound_witness:
  "\<exists>quotas. get_applicable_quotas sample_quota_env [''c5.large''] EC2_SERVICE_QUOTA_ONDEMAND = Inr quotas \<and> quotas \<noteq> []"
proof -
  have "case check_service_quota sample_quota_env [''c5.large''] EC2_SERVICE_QUOTA_ONDEMAND 26 of
      Inr rs \<Rightarrow> is_available (Some rs) | Inl _ \<Rightarrow> False"
    by code_simp
  then obtain rs where "check_service_quota sample_quota_env [''c5.large''] EC2_SERVICE_QUOTA_ONDEMAND 26 = Inr rs"
    "is_available (Some rs)" by (auto split: sum.splits)
  from quota_check_sound [OF this] show ?thesis by blast
qed

section \<open>Behaviour that differs from the documentation of the code\<close>

text \<open>
  The types of a class are found by prefix alone, so an inf1 instance, whose class is Inf, counts
  towards the quota of class I; the same holds for trn/T, mac/M, dl/D and hpc/H.
\<close>

lemma prefix_classes_overlap:
  "get_instance_type_class ''inf1.xlarge'' = Some (''Inf'', False)"
  "''inf1.xlarge'' \<in> set (get_instance_types_for_class [''inf1.xlarge''] ''I'')"
  by code_simp+

text \<open>A result that is not available although no quota is reported as insufficient.\<close>

lemma insufficient_ignores_consumed:
  "let q = \<lparr>quota_name = None, quota_available = Some 32, quota_consumed = Some 30, quota_desired = Some 4\<rparr>
   in \<not> is_available (Some [q]) \<and> find_insufficient_quotas (Some [q]) = []"
  by code_simp

end
