(* ===== verification/Provisioning_Checks.thy ===== *)
theory Provisioning_Checks
  imports Batch_Capacity Service_Quota
begin

text \<open>
  The checks before capacity is provisioned: \<open>JobProvisioningUtil\<close> of
  \<open>ideascheduler/.../job_provisioning_util.py\<close> and \<open>AwsBudgetsHelper\<close> of
  \<open>ideascheduler/app/aws/aws_bugets_helper.py\<close>. Answers of AWS, the caches and the projects service
  are the record \<open>prov_env\<close>; a \<open>ClientError\<close> carries the error code of the response. Reading the
  stack twice gives the same answer, so the caching properties are plain reads.
\<close>

record cf_stack =
  st_stack_id :: string
  st_creation_time :: "int option"
  st_stack_status :: string
  st_keep_forever :: bool
  st_terminate_when_idle :: int
  st_job_group :: "string option"
  st_job_queue :: "string option"

record spot_fleet =
  sf_target_capacity :: int
  sf_activity_status :: string
  sf_state :: string

record aws_budget =
  ab_budget_limit :: pyfloat
  ab_actual_spend :: pyfloat
  ab_forecasted_spend :: pyfloat
  ab_is_missing :: bool

record project_info =
  pr_name :: "string option"
  pr_enable_budgets :: "bool option"
  pr_budget_name :: "string option option"

record prov_env =
  pe_now :: int
  pe_stack_timeout_secs :: int
  pe_stack :: "cf_stack option res"
  pe_spot_fleet :: "spot_fleet option"
  pe_asg_desired_capacity :: "int option"
  pe_run_instances :: "string \<Rightarrow> exc option"
  pe_service_quotas_enabled :: bool
  pe_quota :: quota_env
  pe_batch :: batch_env
  pe_reserved_instances :: "string list \<Rightarrow> string \<Rightarrow> int option"
  pe_running_instances :: "string \<Rightarrow> int"
  pe_available_licenses :: "string option \<Rightarrow> int"
  pe_active_licenses :: "string option \<Rightarrow> int"
  pe_get_project :: "string \<Rightarrow> project_info option res"
  pe_get_budget :: "string \<Rightarrow> aws_budget option res"
  pe_user_projects :: "string option \<Rightarrow> string option list"
  pe_queue_params :: "queue_params option"

section \<open>Budgets\<close>

definition is_budgets_enabled :: "project_info \<Rightarrow> bool" where
  "is_budgets_enabled p =
     (if opt_or (pr_enable_budgets p) False
      then (case pr_budget_name p of None \<Rightarrow> False | Some b \<Rightarrow> \<not> is_empty_opt_str b) else False)"

text \<open>The project that the constructor of the helper looks up.\<close>

definition helper_project :: "prov_env \<Rightarrow> soca_job \<Rightarrow> project_info option res" where
  "helper_project env job =
     (if is_empty_opt_str (project job) then Inr None else pe_get_project env (the (project job)))"

definition budget_name :: "project_info option \<Rightarrow> string option" where
  "budget_name p =
     (case p of None \<Rightarrow> None
      | Some pr \<Rightarrow> if \<not> is_budgets_enabled pr then None else (case pr_budget_name pr of Some b \<Rightarrow> b | None \<Rightarrow> None))"

definition missing_budget :: aws_budget where
  "missing_budget = \<lparr>ab_budget_limit = Fin 100, ab_actual_spend = Fin 200, ab_forecasted_spend = Fin 200,
     ab_is_missing = True\<rparr>"

definition get_budget :: "prov_env \<Rightarrow> bool \<Rightarrow> project_info option \<Rightarrow> aws_budget option res" where
  "get_budget env raise_exc p =
     (if is_empty_opt_str (budget_name p) then Inr None
      else case pe_get_budget env (the (budget_name p)) of
        Inr b \<Rightarrow> Inr b
      | Inl (SocaException ec) \<Rightarrow>
          if ec = ''BUDGET_NOT_FOUND'' \<and> \<not> raise_exc then Inr (Some missing_budget)
          else if raise_exc then Inl (SocaException ec) else Inr None
      | Inl e \<Rightarrow> Inl e)"

definition check_budget_availability :: "prov_env \<Rightarrow> project_info option \<Rightarrow> unit res" where
  "check_budget_availability env p =
     bindE (get_budget env True p) (\<lambda>b.
       case b of None \<Rightarrow> Inr ()
       | Some b \<Rightarrow>
           if fless (ab_budget_limit b) (ab_actual_spend b)
           then Inl (SocaException ''BUDGET_LIMIT_EXCEEDED'') else Inr ())"

record budget_usage =
  bu_budget_name :: string
  bu_job_usage_percent :: pyfloat
  bu_job_usage_percent_with_savings :: pyfloat

definition usage_percent :: "pyfloat \<Rightarrow> pyfloat \<Rightarrow> pyfloat res" where
  "usage_percent cost limit = bindE (fdiv cost limit) (\<lambda>q. Inr (fround (fmul q (Fin 100)) 2))"

definition compute_budget_usage ::
  "prov_env \<Rightarrow> soca_job \<Rightarrow> project_info option \<Rightarrow> bom_cost option \<Rightarrow> budget_usage option res" where
  "compute_budget_usage env job p bom =
     (if is_empty_opt_str (budget_name p) then Inr None
      else case opt_else bom (estimated_bom_cost job) of
        None \<Rightarrow> Inr None
      | Some cost \<Rightarrow>
          bindE (get_budget env True p) (\<lambda>b.
          bindE (required AttributeError (line_items_total cost)) (\<lambda>items.
          bindE (required AttributeError b) (\<lambda>budget.
          bindE (usage_percent items (ab_budget_limit budget)) (\<lambda>u.
          bindE (required AttributeError (total cost)) (\<lambda>t.
          bindE (usage_percent t (ab_budget_limit budget)) (\<lambda>us.
            Inr (Some \<lparr>bu_budget_name = the (budget_name p), bu_job_usage_percent = u,
                       bu_job_usage_percent_with_savings = us\<rparr>))))))))"

text \<open>The loop of \<open>check_budgets\<close> returns in its first turn.\<close>

definition check_budgets :: "prov_env \<Rightarrow> soca_job list \<Rightarrow> unit res" where
  "check_budgets env jobs =
     (case jobs of [] \<Rightarrow> Inr ()
      | job # _ \<Rightarrow> bindE (helper_project env job) (check_budget_availability env))"

section \<open>The stack\<close>

definition max_provisioned_capacity_of :: "prov_env \<Rightarrow> int res" where
  "max_provisioned_capacity_of env =
     bindE (required AttributeError (pe_queue_params env)) (\<lambda>q. Inr (opt_or (max_provisioned_capacity q) 0))"

definition max_provisioned_instances_of :: "prov_env \<Rightarrow> int res" where
  "max_provisioned_instances_of env =
     bindE (required AttributeError (pe_queue_params env)) (\<lambda>q. Inr (opt_or (max_provisioned_instances q) 0))"

definition get_stack :: "prov_env \<Rightarrow> cf_stack res" where
  "get_stack env = bindE (pe_stack env) (required AttributeError)"

definition get_spot_fleet :: "prov_env \<Rightarrow> spot_fleet res" where
  "get_spot_fleet env = required AttributeError (pe_spot_fleet env)"

definition can_update_spot_fleet_capacity :: "prov_env \<Rightarrow> bool res" where
  "can_update_spot_fleet_capacity env =
     bindE (get_spot_fleet env) (\<lambda>f. Inr
       (if sf_activity_status f \<notin> set [''fulfilled'', ''pending_fulfillment''] then False
        else if sf_state f \<noteq> ''active'' then False else True))"

definition provisioned_capacity_of :: "prov_env \<Rightarrow> soca_job \<Rightarrow> int res" where
  "provisioned_capacity_of env job =
     bindE (is_spot_capacity job) (\<lambda>spot.
     bindE (pe_stack env) (\<lambda>st.
       if st = None then Inr 0
       else if spot then bindE (get_spot_fleet env) (\<lambda>f. Inr (sf_target_capacity f))
       else required AttributeError (pe_asg_desired_capacity env)))"

definition is_provisioning_timeout :: "prov_env \<Rightarrow> bool res" where
  "is_provisioning_timeout env =
     bindE (get_stack env) (\<lambda>st.
       case st_creation_time st of None \<Rightarrow> Inr False
       | Some t \<Rightarrow> Inr (timedelta_seconds (pe_now env - t) > pe_stack_timeout_secs env))"

definition is_stack_a_shared_resource :: "cf_stack \<Rightarrow> bool" where
  "is_stack_a_shared_resource st =
     (if st_keep_forever st then True else if st_terminate_when_idle st > 0 then True else False)"

text \<open>A stack status that is not listed falls through every branch: None.\<close>

definition check_status :: "prov_env \<Rightarrow> ProvisioningStatus option res" where
  "check_status env =
     (case bindE (pe_stack env) (\<lambda>stack.
        case stack of None \<Rightarrow> Inr (Some NOT_PROVISIONED)
        | Some st \<Rightarrow>
            if st_stack_status st = ''CREATE_COMPLETE''
            then if is_stack_a_shared_resource st then Inr (Some COMPLETED)
                 else bindE (is_provisioning_timeout env) (\<lambda>t. Inr (Some (if t then TIMEOUT else COMPLETED)))
            else if st_stack_status st = ''CREATE_IN_PROGRESS'' then Inr (Some IN_PROGRESS)
            else if st_stack_status st = ''DELETE_IN_PROGRESS'' then Inr (Some DELETE_IN_PROGRESS)
            else if st_stack_status st \<in> set [''CREATE_FAILED'', ''ROLLBACK_COMPLETE'', ''ROLLBACK_FAILED'']
            then Inr (Some FAILED)
            else Inr None) of
        Inl (ClientError ec) \<Rightarrow>
          if ec = ''ValidationError'' then Inr (Some NOT_PROVISIONED) else Inl (ClientError ec)
      | r \<Rightarrow> r)"

section \<open>Instance, quota, reservation and licence checks\<close>

text \<open>A dry run of an instance type succeeds by failing with the code \<open>DryRunOperation\<close>.\<close>

definition ec2_dry_run :: "prov_env \<Rightarrow> soca_job \<Rightarrow> unit res" where
  "ec2_dry_run env job =
     bindE (required AttributeError (params job)) (\<lambda>p.
     bindE (required TypeError (p_instance_types p)) (\<lambda>types.
       foldE (\<lambda>t u. bindE (required TypeError (p_subnet_ids p)) (\<lambda>subnets.
                if subnets = [] then Inl IndexError
                else case pe_run_instances env t of
                  None \<Rightarrow> Inr ()
                | Some (ClientError ec) \<Rightarrow>
                    if ec = ''DryRunOperation'' then Inr () else Inl (SocaException ''EC2_DRY_RUN_FAILED'')
                | Some e \<Rightarrow> Inl e)) types ()))"

definition sum_nodes :: "(soca_job \<Rightarrow> int res) \<Rightarrow> soca_job list \<Rightarrow> int res" where
  "sum_nodes nodes jobs =
     foldE (\<lambda>j a. bindE (nodes j) (\<lambda>n. bindE (default_vcpus j) (\<lambda>v. bindE (required TypeError v) (\<lambda>v.
       Inr (a + n * v))))) jobs 0"

definition check_service_quota_of :: "prov_env \<Rightarrow> soca_job list \<Rightarrow> service_quota list res" where
  "check_service_quota_of env jobs =
     (if \<not> pe_service_quotas_enabled env then Inr []
      else bindE (first_job jobs) (\<lambda>job.
       bindE (capacity_type job) (\<lambda>ct.
       bindE (get_params job) (\<lambda>p.
         let types = opt_or (p_instance_types p) [];
             quota = (\<lambda>t nodes. bindE (sum_nodes nodes jobs) (check_service_quota (pe_quota env) types t))
         in
         bindE (case ct of
             SPOT \<Rightarrow> quota EC2_SERVICE_QUOTA_SPOT spot_nodes
           | MIXED \<Rightarrow> bindE (quota EC2_SERVICE_QUOTA_ONDEMAND ondemand_nodes) (\<lambda>a.
                      bindE (quota EC2_SERVICE_QUOTA_SPOT spot_nodes) (\<lambda>b. Inr (a @ b)))
           | ONDEMAND \<Rightarrow> quota EC2_SERVICE_QUOTA_ONDEMAND ondemand_nodes) (\<lambda>result.
         if \<not> Service_Quota.is_available (Some result)
         then Inl (SocaException ''SERVICE_QUOTA_NOT_AVAILABLE'') else Inr result)))))"

text \<open>\<open>force_reserved_instances\<close> of any job of the batch.\<close>

definition force_ri :: "soca_job list \<Rightarrow> bool res" where
  "force_ri jobs =
     foldE (\<lambda>j found. if found then Inr True
        else bindE (required AttributeError (params j)) (\<lambda>p. Inr (p_force_reserved_instances p = Some True)))
       jobs False"

definition desired_reserved :: "int \<Rightarrow> int \<Rightarrow> int \<Rightarrow> int res" where
  "desired_reserved nodes base_weight weight =
     bindE (int_truediv base_weight weight) (\<lambda>q.
     bindE (float_of_int nodes) (\<lambda>n.
     bindE (int_of_float (fmul n q)) (\<lambda>c. Inr (max 1 c))))"

definition reserved_shortage :: "prov_env \<Rightarrow> string list \<Rightarrow> int \<Rightarrow> int \<Rightarrow> instance_type_options \<Rightarrow> bool res" where
  "reserved_shortage env types nodes base_weight opt =
     bindE (required KeyError (o_name opt)) (\<lambda>t.
     bindE (required KeyError (pe_reserved_instances env types t)) (\<lambda>purchased.
     bindE (required TypeError (o_weighted_capacity opt)) (\<lambda>w.
     bindE (desired_reserved nodes base_weight w) (\<lambda>desired.
       Inr (pe_running_instances env t + desired > purchased)))))"

definition check_reserved_instance_usage :: "prov_env \<Rightarrow> soca_job list \<Rightarrow> unit res" where
  "check_reserved_instance_usage env jobs =
     bindE (force_ri jobs) (\<lambda>force.
       if \<not> force then Inr ()
       else bindE (foldE (\<lambda>j a. bindE (ondemand_nodes j) (\<lambda>n. Inr (a + n))) jobs 0) (\<lambda>nodes.
         if nodes = 0 then Inr ()
         else bindE (first_job jobs) (\<lambda>job.
           bindE (get_params job) (\<lambda>p.
           bindE (required TypeError (p_instance_types p)) (\<lambda>types.
             if list_ex (\<lambda>t. pe_reserved_instances env types t = None) types
             then Inl (SocaException ''EC2_RESERVED_INSTANCES_NOT_PURCHASED'')
             else bindE (default_instance_type_option job) (\<lambda>d.
               bindE (required TypeError (o_weighted_capacity d)) (\<lambda>base_weight.
               bindE (get_provisioning_options job) (\<lambda>po.
               bindE (traverseE (reserved_shortage env types nodes base_weight)
                        (opt_or (po_instance_types po) [])) (\<lambda>short.
                 if list_ex id short then Inl (SocaException ''EC2_RESERVED_INSTANCES_NOT_AVAILABLE'')
                 else Inr ())))))))))"

definition check_license_ask :: "prov_env \<Rightarrow> license_ask \<Rightarrow> unit res" where
  "check_license_ask env l =
     bindE (required TypeError (license_count l)) (\<lambda>count.
       if pe_available_licenses env (license_name l) < pe_active_licenses env (license_name l) + count
       then Inl (SocaException ''NOT_ENOUGH_LICENSES'') else Inr ())"

definition check_licenses :: "prov_env \<Rightarrow> soca_job list \<Rightarrow> unit res" where
  "check_licenses env jobs =
     foldE (\<lambda>j u. bindE (required AttributeError (params j)) (\<lambda>p.
       if is_empty_opt_list (p_licenses p) then Inr ()
       else foldE (\<lambda>l u. check_license_ask env l) (the (p_licenses p)) ())) jobs ()"

definition check_acls :: "prov_env \<Rightarrow> soca_job \<Rightarrow> bool res" where
  "check_acls env job =
     (if project job \<in> set (pe_user_projects env (owner job)) then Inr True
      else Inl (SocaException ''UNAUTHORIZED_ACCESS''))"

section \<open>Properties\<close>

lemma foldE_unit: "foldE (\<lambda>x u. f x) xs () = Inr () \<Longrightarrow> x \<in> set xs \<Longrightarrow> f x = Inr ()"
  by (induction xs) (auto simp: bindE_Inr_iff)

definition sample_prov_env :: "cf_stack option \<Rightarrow> prov_env" where
  "sample_prov_env st = \<lparr>pe_now = 10000000000, pe_stack_timeout_secs = 1800, pe_stack = Inr st, pe_spot_fleet = None,
     pe_asg_desired_capacity = Some 1, pe_run_instances = (\<lambda>_. Some (ClientError ''DryRunOperation'')),
     pe_service_quotas_enabled = False, pe_quota = sample_quota_env,
     pe_batch = \<lparr>be_list_compute_instances = (\<lambda>_. []), be_get_node = (\<lambda>_. None), be_desired_capacity = (\<lambda>_. 2), be_digest = (\<lambda>s. s)\<rparr>,
     pe_reserved_instances = (\<lambda>_ _. Some 10), pe_running_instances = (\<lambda>_. 3),
     pe_available_licenses = (\<lambda>_. 10), pe_active_licenses = (\<lambda>_. 2), pe_get_project = (\<lambda>_. Inr None),
     pe_get_budget = (\<lambda>_. Inr None), pe_user_projects = (\<lambda>_. []), pe_queue_params = None\<rparr>"

definition sample_ri_job :: "int \<Rightarrow> soca_job" where
  "sample_ri_job n = empty_job\<lparr>job_id := Some ''1'', cluster_name := Some ''idea'', queue_type := Some ''compute'',
     params := Some (empty_job_params\<lparr>p_nodes := Some n, p_instance_types := Some [''c5.large''],
       p_subnet_ids := Some [''subnet-1''], p_force_reserved_instances := Some True,
       p_licenses := Some [\<lparr>license_name = Some ''lic'', license_count = Some 6\<rparr>]\<rparr>),
     job_options := Some (empty_provisioning_options\<lparr>po_keep_forever := Some False, po_instance_types :=
       Some [\<lparr>o_name = Some ''c5.large'', o_weighted_capacity = Some 2, o_cpu_options_supported = None,
              o_default_core_count = None, o_default_vcpu_count = Some 2, o_default_threads_per_core = None,
              o_threads_per_core = None, o_memory = None, o_ebs_optimized = None\<rparr>]\<rparr>)\<rparr>"

text \<open>When the licence check passes, each licence that any job of the batch asks for is available in the asked
  number on top of the licences in active use.\<close>

lemma license_check_sound:
  assumes "check_licenses env jobs = Inr ()" "job \<in> set jobs" "params job = Some p" "p_licenses p = Some asks" "ask \<in> set asks"
  shows "\<exists>n. license_count ask = Some n \<and>
    pe_active_licenses env (license_name ask) + n \<le> pe_available_licenses env (license_name ask)"
proof -
  have "asks \<noteq> []" using assms(5) by auto
  with foldE_unit [OF assms(1) [unfolded check_licenses_def] assms(2)] assms(3,4)
  have "foldE (\<lambda>l u. check_license_ask env l) asks () = Inr ()" by (simp add: is_empty_opt_list_def)
  from foldE_unit [OF this assms(5)] show ?thesis
    by (auto simp: check_license_ask_def bindE_Inr_iff split: if_splits)
qed

lemma license_check_sound_witness:
  "\<exists>n. license_count \<lparr>license_name = Some ''lic'', license_count = Some 6\<rparr> = Some n \<and> 2 + n \<le> 10"
proof -
  have c: "check_licenses (sample_prov_env None) [sample_ri_job 1] = Inr ()"
    by (simp add: check_licenses_def sample_ri_job_def sample_prov_env_def check_license_ask_def)
  show ?thesis using license_check_sound [OF c, of "sample_ri_job 1"]
    by (simp add: sample_ri_job_def sample_prov_env_def)
qed

text \<open>When reserved instances are enforced and the job needs on-demand nodes, the check passes only if every
  instance type was purchased and, for every instance type option, the running instances plus the
  desired count fit into the purchased ones.\<close>

lemma reserved_check_sound:
  assumes "check_reserved_instance_usage env jobs = Inr ()" "force_ri jobs = Inr True"
    "foldE (\<lambda>j a. bindE (ondemand_nodes j) (\<lambda>n. Inr (a + n))) jobs 0 = Inr nodes" "nodes \<noteq> 0" "jobs = job # rest"
  shows "\<exists>p types po d base. params job = Some p \<and> p_instance_types p = Some types \<and>
    (\<forall>t \<in> set types. pe_reserved_instances env types t \<noteq> None) \<and>
    job_options job = Some po \<and> default_instance_type_option job = Inr d \<and> o_weighted_capacity d = Some base \<and>
    (\<forall>opt \<in> set (opt_or (po_instance_types po) []). \<exists>t purchased w c.
       o_name opt = Some t \<and> pe_reserved_instances env types t = Some purchased \<and> o_weighted_capacity opt = Some w \<and>
       desired_reserved nodes base w = Inr c \<and> pe_running_instances env t + c \<le> purchased)"
proof -
  from assms obtain p types d base po short where
    1: "params job = Some p" "p_instance_types p = Some types" "\<not> list_ex (\<lambda>t. pe_reserved_instances env types t = None) types"
      "default_instance_type_option job = Inr d" "o_weighted_capacity d = Some base" "job_options job = Some po" and
    2: "traverseE (reserved_shortage env types nodes base) (opt_or (po_instance_types po) []) = Inr short"
      "\<not> list_ex id short"
    by (auto simp: check_reserved_instance_usage_def bindE_Inr_iff first_job_def get_params_def get_provisioning_options_def
        split: if_splits)
  have "\<exists>t purchased w c. o_name opt = Some t \<and> pe_reserved_instances env types t = Some purchased \<and>
      o_weighted_capacity opt = Some w \<and> desired_reserved nodes base w = Inr c \<and> pe_running_instances env t + c \<le> purchased"
    if opt: "opt \<in> set (opt_or (po_instance_types po) [])" for opt
  proof -
    from traverseE_elem [OF 2(1) opt] obtain b where "b \<in> set short" "reserved_shortage env types nodes base opt = Inr b"
      by blast
    with 2(2) show ?thesis by (auto simp: reserved_shortage_def bindE_Inr_iff list_ex_iff)
  qed
  with 1 show ?thesis by (auto simp: list_ex_iff)
qed

lemma rnd_one: "rnd 1 = Fin 1"
  using rnd_of_int [of 1] by simp

lemma desired_reserved_same_weight:
  assumes "w \<noteq> 0" "1 \<le> n" "n \<le> 2 ^ 53" shows "desired_reserved n w w = Inr n"
  using assms by (simp add: desired_reserved_def int_truediv_def rnd_one float_of_int_exact rnd_of_int)

lemma sample_desired_reserved: "desired_reserved 4 2 2 = Inr 4"
  by (rule desired_reserved_same_weight) simp_all

lemma sample_ri_passes: "check_reserved_instance_usage (sample_prov_env None) [sample_ri_job 4] = Inr ()"
  by (simp add: check_reserved_instance_usage_def force_ri_def sample_ri_job_def sample_prov_env_def first_job_def
      get_params_def ondemand_nodes_def is_spot_capacity_def capacity_type_def empty_job_params_def
      default_instance_type_option_def get_provisioning_options_def reserved_shortage_def sample_desired_reserved)

lemma reserved_check_sound_witness: "pe_running_instances (sample_prov_env None) ''c5.large'' + 4 \<le> 10"
proof -
  have f: "force_ri [sample_ri_job 4] = Inr True"
    by (simp add: force_ri_def sample_ri_job_def)
  have n: "foldE (\<lambda>j a. bindE (ondemand_nodes j) (\<lambda>n. Inr (a + n))) [sample_ri_job 4] 0 = Inr 4"
    by (simp add: ondemand_nodes_def sample_ri_job_def is_spot_capacity_def capacity_type_def get_params_def empty_job_params_def)
  from reserved_check_sound [OF sample_ri_passes f n _ refl] show ?thesis
    by (auto simp: sample_ri_job_def sample_prov_env_def default_instance_type_option_def get_provisioning_options_def
        sample_desired_reserved)
qed

text \<open>The status of a stack decides the provisioning status: no stack is not provisioned, a created stack is
  completed unless it is ephemeral and older than the timeout, and stacks of shared capacity never
  time out.\<close>

lemma check_status_created:
  assumes "pe_stack env = Inr (Some st)" "st_stack_status st = ''CREATE_COMPLETE''"
  shows "check_status env = Inr (Some
    (if \<not> (st_keep_forever st \<or> st_terminate_when_idle st > 0) \<and>
        (\<exists>t. st_creation_time st = Some t \<and> timedelta_seconds (pe_now env - t) > pe_stack_timeout_secs env)
     then TIMEOUT else COMPLETED))"
  using assms
  by (auto simp: check_status_def is_stack_a_shared_resource_def is_provisioning_timeout_def get_stack_def
      split: option.splits)

lemma check_status_created_witness:
  "check_status (sample_prov_env (Some \<lparr>st_stack_id = ''s'', st_creation_time = Some 0, st_stack_status = ''CREATE_COMPLETE'',
     st_keep_forever = False, st_terminate_when_idle = 0, st_job_group = None, st_job_queue = None\<rparr>)) = Inr (Some TIMEOUT)"
proof -
  define st where "st = \<lparr>st_stack_id = ''s'', st_creation_time = Some (0 :: int), st_stack_status = ''CREATE_COMPLETE'',
     st_keep_forever = False, st_terminate_when_idle = (0 :: int), st_job_group = None :: string option,
     st_job_queue = None :: string option\<rparr>"
  have "pe_stack (sample_prov_env (Some st)) = Inr (Some st)" "st_stack_status st = ''CREATE_COMPLETE''"
    by (simp_all add: sample_prov_env_def st_def)
  from check_status_created [OF this] show ?thesis
    by (simp add: st_def sample_prov_env_def timedelta_seconds_def)
qed

section \<open>Behaviour that differs from the documentation of the code\<close>

text \<open>Only the first job of a batch is checked against its budget.\<close>

lemma check_budgets_first_only: "check_budgets env (job # jobs) = check_budgets env [job]"
  by (simp add: check_budgets_def)

text \<open>Two jobs that ask for 6 licences each pass the check when 10 are available and 2 in use.\<close>

lemma licenses_not_cumulative:
  "check_licenses (sample_prov_env None) [sample_ri_job 1, sample_ri_job 1] = Inr ()"
  by (simp add: check_licenses_def sample_ri_job_def sample_prov_env_def check_license_ask_def)

text \<open>The float quotient is truncated: 98 nodes of weight 1 need 2 instances of weight 49, and 1 is asked for.\<close>

lemma reserved_count_truncates: "desired_reserved 98 1 49 = Inr 1"
proof -
  have "rnd (1 / 49) = Fin (of_int 5882252574524729 * pow2 (- 6 - 52))"
    by (rule rnd_eqI) (simp_all add: pow2_def)
  then have 1: "int_truediv 1 49 = Inr (Fin (5882252574524729 / 288230376151711744))"
    by (simp add: int_truediv_def pow2_def)
  have "rnd (98 * (5882252574524729 / 288230376151711744)) = Fin (of_int 9007199254740991 * pow2 (0 - 52))"
    by (rule rnd_eqI) (simp_all add: pow2_def)
  then show ?thesis by (simp add: desired_reserved_def 1 float_of_int_exact pow2_def rat_trunc_def)
qed

text \<open>The age of a stack wraps around every day, so an old stack that never got ready looks young again.\<close>

lemma provisioning_timeout_wraps:
  assumes "pe_stack env = Inr (Some st)" "st_creation_time st = Some t" "pe_now env = t + 86400 * 1000000"
    and "0 \<le> pe_stack_timeout_secs env"
  shows "is_provisioning_timeout env = Inr False"
  using assms by (simp add: is_provisioning_timeout_def get_stack_def timedelta_seconds_def)

end
