(* ===== verification/Job_Provisioner.thy ===== *)
theory Job_Provisioner
  imports Provisioning_Checks
begin

text \<open>
  \<open>ProvisionJobs\<close> and the retry loop of \<open>JobProvisioner\<close> in
  \<open>ideascheduler/.../job_provisioner.py\<close>, with \<open>JobProvisioningUtil.update_capacity\<close>. What a run does
  to the outside world is the list of events, in order: stacks built, fleets resized, jobs handed
  to the scheduler; \<open>Unprovisioned\<close> is the \<open>ref\<close> of a retry exception. The CloudFormation stack builder and the scheduler are arguments (\<open>fx_env\<close>).
  The jobs handed on are values here; the code changes the same objects, and reads none of the
  changed attributes afterwards but for logging.
\<close>

datatype prov_event =
    StackBuilt string "int option"
  | SpotFleetModified int
  | AsgUpdated int
  | JobProvisioned soca_job
  | Unprovisioned "soca_job list"

record fx_env =
  fx_build_stack :: "soca_job \<Rightarrow> int option \<Rightarrow> string res"
  fx_provision_job :: "soca_job \<Rightarrow> string \<Rightarrow> int res"
  fx_modify_fleet :: "int \<Rightarrow> exc option"
  fx_update_asg :: "int \<Rightarrow> exc option"
  fx_digest :: "string \<Rightarrow> string"

type_synonym events = "prov_event list"

definition emit :: "prov_event \<Rightarrow> (events, unit) act" where
  "emit e = modify (\<lambda>es. es @ [e])"

definition lift :: "'a res \<Rightarrow> (events, 'a) act" where
  "lift r = reads (\<lambda>_. r)"

definition retry_job_provisioning :: exc where
  "retry_job_provisioning = SocaException ''RETRY_JOB_PROVISIONING''"

definition retry_unprovisioned :: "soca_job list \<Rightarrow> (events, unit) act" where
  "retry_unprovisioned js =
     (if js \<noteq> [] then thenS (emit (Unprovisioned js)) (throw retry_job_provisioning) else ret ())"

text \<open>\<open>params.stack_id\<close> is set before \<open>get_compute_stack\<close> is asked.\<close>

definition provision_job_in_scheduler :: "fx_env \<Rightarrow> soca_job \<Rightarrow> string \<Rightarrow> (events, unit) act" where
  "provision_job_in_scheduler fx job stack_id =
     bindS (lift (fx_provision_job fx job stack_id)) (\<lambda>time.
     bindS (lift (required AttributeError (params job))) (\<lambda>p.
       let job' = job\<lparr>provisioned := Some True, params := Some (p\<lparr>p_stack_id := Some stack_id\<rparr>)\<rparr> in
     bindS (lift (get_compute_stack (fx_digest fx) job')) (\<lambda>cs.
       emit (JobProvisioned (job'\<lparr>params := Some (p\<lparr>p_stack_id := Some stack_id, p_compute_stack := Some cs\<rparr>),
               provisioning_time := Some time\<rparr>)))))"

record capacity_result =
  cr_provisioned_jobs :: "soca_job list"
  cr_unprovisioned_jobs :: "soca_job list"
  cr_capacity_info :: capacity_info

definition run_batch :: "prov_env \<Rightarrow> soca_job list \<Rightarrow> batch_result res" where
  "run_batch env jobs =
     bindE (first_job jobs) (\<lambda>job. bindE (provisioned_capacity_of env job) (\<lambda>c.
       fst (batch_invoke (pe_batch env) (new_batch_helper jobs c))))"

definition util_update_capacity :: "prov_env \<Rightarrow> fx_env \<Rightarrow> soca_job list \<Rightarrow> (events, capacity_result) act" where
  "util_update_capacity env fx jobs =
     bindS (lift (run_batch env jobs)) (\<lambda>r.
     bindS (lift (required TypeError (target_capacity (br_capacity_info r)))) (\<lambda>target.
       let result = \<lparr>cr_provisioned_jobs = br_provisioned_jobs r, cr_unprovisioned_jobs = br_unprovisioned_jobs r,
                     cr_capacity_info = br_capacity_info r\<rparr> in
       if target \<le> 0 then ret result
       else bindS (lift (bindE (first_job jobs) is_spot_capacity)) (\<lambda>spot.
         if spot
         then bindS (lift (can_update_spot_fleet_capacity env)) (\<lambda>can.
                if \<not> can then throw (SocaException ''SPOT_FLEET_CAPACITY_UPDATE_IN_PROGRESS'')
                else case fx_modify_fleet fx target of
                       Some e \<Rightarrow> throw e
                     | None \<Rightarrow> thenS (emit (SpotFleetModified target)) (ret result))
         else case fx_update_asg fx target of
                Some e \<Rightarrow> throw e
              | None \<Rightarrow> thenS (emit (AsgUpdated target)) (ret result))))"

definition update_capacity :: "prov_env \<Rightarrow> fx_env \<Rightarrow> soca_job list \<Rightarrow> (events, unit) act" where
  "update_capacity env fx jobs =
     thenS (lift (check_budgets env jobs))
     (thenS (lift (check_service_quota_of env jobs))
     (thenS (lift (check_reserved_instance_usage env jobs))
     (thenS (lift (check_licenses env jobs))
     (bindS (util_update_capacity env fx jobs) (\<lambda>result.
      bindS (lift (get_stack env)) (\<lambda>st.
      thenS (forS (\<lambda>j. provision_job_in_scheduler fx j (st_stack_id st)) (cr_provisioned_jobs result))
      (retry_unprovisioned (cr_unprovisioned_jobs result))))))))"

definition create_new_stack :: "prov_env \<Rightarrow> fx_env \<Rightarrow> soca_job list \<Rightarrow> (events, unit) act" where
  "create_new_stack env fx jobs =
     thenS (lift (check_budgets env jobs))
     (bindS (lift (first_job jobs)) (\<lambda>job.
      thenS (lift (ec2_dry_run env job))
     (thenS (lift (check_service_quota_of env jobs))
     (thenS (lift (check_reserved_instance_usage env jobs))
     (thenS (lift (check_licenses env jobs))
     (if scaling_mode job = Some BATCH
      then bindS (lift (run_batch env jobs)) (\<lambda>r.
           bindS (lift (fx_build_stack fx job (target_capacity (br_capacity_info r)))) (\<lambda>stack_id.
           thenS (emit (StackBuilt stack_id (target_capacity (br_capacity_info r))))
           (thenS (forS (\<lambda>j. provision_job_in_scheduler fx j stack_id) (br_provisioned_jobs r))
           (retry_unprovisioned (br_unprovisioned_jobs r)))))
      else bindS (lift (fx_build_stack fx job None)) (\<lambda>stack_id.
           thenS (emit (StackBuilt stack_id None))
             (provision_job_in_scheduler fx job stack_id))))))))"

definition provision_job_on_shared_capacity :: "prov_env \<Rightarrow> fx_env \<Rightarrow> soca_job list \<Rightarrow> (events, unit) act" where
  "provision_job_on_shared_capacity env fx jobs =
     bindS (lift (first_job jobs)) (\<lambda>job.
     bindS (lift (get_job_group (fx_digest fx) job)) (\<lambda>grp.
     bindS (lift (get_stack env)) (\<lambda>st.
       if Some grp \<noteq> st_job_group st then throw (SocaException ''SHARED_CAPACITY_MISMATCH'')
       else if queue job \<noteq> st_job_queue st then throw (SocaException ''SHARED_CAPACITY_INVALID_QUEUE'')
       else
         bindS (lift (job_desired_capacity job)) (\<lambda>desired.
         bindS (lift (is_spot_capacity job)) (\<lambda>spot.
         bindS (lift (if spot then bindE (get_spot_fleet env) (\<lambda>f. Inr (sf_target_capacity f))
                      else required AttributeError (pe_asg_desired_capacity env))) (\<lambda>capacity.
           if desired > capacity then throw (SocaException ''SHARED_CAPACITY_UNAVAILABLE'')
           else forS (\<lambda>j. provision_job_in_scheduler fx j (st_stack_id st)) jobs))))))"

definition handle_completed :: "prov_env \<Rightarrow> fx_env \<Rightarrow> soca_job list \<Rightarrow> (events, unit) act" where
  "handle_completed env fx jobs =
     bindS (lift (first_job jobs)) (\<lambda>job.
       if is_ephemeral_capacity job then ret ()
       else if scaling_mode job = Some BATCH then update_capacity env fx jobs
       else provision_job_on_shared_capacity env fx jobs)"

text \<open>The error code of a failure that is no \<open>SocaException\<close> is \<open>GENERAL_ERROR\<close>.\<close>

record provision_result =
  pr_status :: bool
  pr_error_code :: "string option"
  pr_unprovisioned :: "soca_job list option"
  pr_exception :: "exc option"

definition result_ok :: provision_result where
  "result_ok = \<lparr>pr_status = True, pr_error_code = None, pr_unprovisioned = None, pr_exception = None\<rparr>"

definition result_failed :: "string option \<Rightarrow> exc option \<Rightarrow> provision_result" where
  "result_failed c e = \<lparr>pr_status = False, pr_error_code = c, pr_unprovisioned = None, pr_exception = e\<rparr>"

definition exc_ref :: "events \<Rightarrow> soca_job list option" where
  "exc_ref es = (case rev es of Unprovisioned js # _ \<Rightarrow> Some js | _ \<Rightarrow> None)"

definition result_of_exc :: "exc \<Rightarrow> events \<Rightarrow> provision_result" where
  "result_of_exc e es =
     (case e of
        SocaException c \<Rightarrow>
          if e = retry_job_provisioning
          then (result_failed (Some c) (Some e))\<lparr>pr_unprovisioned := exc_ref es\<rparr>
          else result_failed (Some c) (Some e)
      | _ \<Rightarrow> result_failed (Some ''GENERAL_ERROR'') (Some e))"

definition invoke_body :: "prov_env \<Rightarrow> fx_env \<Rightarrow> soca_job list \<Rightarrow> (events, provision_result) act" where
  "invoke_body env fx jobs =
     bindS (lift (check_status env)) (\<lambda>status.
       if status = Some NOT_PROVISIONED then thenS (create_new_stack env fx jobs) (ret result_ok)
       else if status = Some COMPLETED then thenS (handle_completed env fx jobs) (ret result_ok)
       else if status \<in> {Some IN_PROGRESS, Some DELETE_IN_PROGRESS} then ret (result_failed None None)
       else if status \<in> {Some FAILED, Some TIMEOUT}
       then ret (result_failed (Some ''CLOUDFORMATION_STACK_BUILDER_FAILED'') None)
       else ret result_ok)"

definition invoke :: "prov_env \<Rightarrow> fx_env \<Rightarrow> soca_job list \<Rightarrow> (events, provision_result) act" where
  "invoke env fx jobs = catchS (invoke_body env fx jobs) (\<lambda>e. gets (result_of_exc e))"

definition get_error_code :: "provision_result \<Rightarrow> string" where
  "get_error_code r =
     (if \<not> is_empty_opt_str (pr_error_code r) then the (pr_error_code r)
      else case pr_exception r of Some (SocaException c) \<Rightarrow> c | _ \<Rightarrow> ''GENERAL_ERROR'')"

section \<open>Retries\<close>

record retry_env =
  rt_exit :: bool
  rt_is_active :: bool
  rt_env :: prov_env
  rt_fx :: fx_env

text \<open>
  The loop of \<open>_provision_with_retry_backoff\<close>; \<open>retry_count\<close> starts at 1 and every turn may see
  another environment. None is the result when the service is stopped.
\<close>

function provision_with_retry ::
  "(int \<Rightarrow> retry_env) \<Rightarrow> SocaQueueMode \<Rightarrow> int \<Rightarrow> soca_job list \<Rightarrow> int \<Rightarrow> (events, provision_result option) act" where
  "provision_with_retry rt mode max_retries jobs retry_count es =
     (if rt_exit (rt retry_count) then (Inr None, es)
      else if jobs = [] then (Inl IndexError, es)
      else if \<not> rt_is_active (rt retry_count) then (Inr (Some result_ok), es)
      else case invoke (rt_env (rt retry_count)) (rt_fx (rt retry_count)) jobs es of
        (Inl e, es') \<Rightarrow> (Inl e, es')
      | (Inr r, es') \<Rightarrow>
          let retry_count' = retry_count + 1 in
          if mode = LICENSE_OPTIMIZED \<and> pr_error_code r = Some ''NOT_ENOUGH_LICENSES''
          then (Inr (Some result_ok), es')
          else if pr_error_code r = Some ''CLOUDFORMATION_STACK_BUILDER_FAILED''
          then (Inr (Some result_ok), es')
          else if retry_count' > max_retries \<or> pr_status r then (Inr (Some r), es')
          else provision_with_retry rt mode max_retries jobs retry_count' es')"
  by pat_completeness auto
termination
  by (relation "measure (\<lambda>(rt, mode, max_retries, jobs, retry_count, es). nat (max_retries - retry_count))") auto

declare provision_with_retry.simps [simp del]

section \<open>Lemmas\<close>

lemma lift_apply [simp]: "lift r s = (r, s)"
  by (simp add: lift_def)

lemma bindS_lift: "bindS (lift r) f s = (case r of Inl e \<Rightarrow> (Inl e, s) | Inr x \<Rightarrow> f x s)"
  by (simp add: lift_def bindS_reads)

lemma thenS_lift: "thenS (lift r) k s = (case r of Inl e \<Rightarrow> (Inl e, s) | Inr x \<Rightarrow> k s)"
  by (simp add: thenS_def bindS_lift)

lemma emit_apply [simp]: "emit e s = (Inr (), s @ [e])"
  by (simp add: emit_def)

lemma invoke_never_raises: "\<exists>r. fst (invoke env fx jobs es) = Inr r"
  by (auto simp: invoke_def catchS_def split: prod.split sum.split)

lemma invoke_apply:
  "invoke env fx jobs es = (case invoke_body env fx jobs es of
     (Inl e, es') \<Rightarrow> (Inr (result_of_exc e es'), es') | (Inr r, es') \<Rightarrow> (Inr r, es'))"
  by (auto simp: invoke_def catchS_def split: prod.split sum.split)

definition jobs_of :: "events \<Rightarrow> soca_job list" where
  "jobs_of es = List.map_filter (\<lambda>e. case e of JobProvisioned j \<Rightarrow> Some j | _ \<Rightarrow> None) es"

lemma jobs_of_simps [simp]:
  "jobs_of [] = []" "jobs_of (es @ fs) = jobs_of es @ jobs_of fs"
  "jobs_of [JobProvisioned j] = [j]" "jobs_of [StackBuilt a b] = []"
  "jobs_of [SpotFleetModified t] = []" "jobs_of [AsgUpdated t] = []" "jobs_of [Unprovisioned js] = []"
  by (simp_all add: jobs_of_def map_filter_def)

text \<open>What the scheduler was told about a job that was provisioned on a stack.\<close>

definition provisioned_on :: "string \<Rightarrow> soca_job \<Rightarrow> soca_job \<Rightarrow> bool" where
  "provisioned_on stack_id job job' \<longleftrightarrow>
     job_id job' = job_id job \<and> provisioned job' = Some True \<and> provisioning_time job' \<noteq> None \<and>
     (\<exists>p. params job' = Some p \<and> p_stack_id p = Some stack_id \<and> p_compute_stack p \<noteq> None)"

lemma provision_job_in_scheduler_Inr:
  assumes "provision_job_in_scheduler fx job sid es = (Inr (), es')"
  shows "\<exists>j. es' = es @ [JobProvisioned j] \<and> provisioned_on sid job j"
  using assms
  by (auto simp: provision_job_in_scheduler_def bindS_lift Let_def provisioned_on_def split: sum.splits)

lemma provision_all:
  "forS (\<lambda>j. provision_job_in_scheduler fx j sid) js es = (Inr (), es') \<Longrightarrow>
     \<exists>js'. es' = es @ map JobProvisioned js' \<and> list_all2 (provisioned_on sid) js js'"
proof (induction js arbitrary: es)
  case (Cons j js)
  then obtain es1 where a: "provision_job_in_scheduler fx j sid es = (Inr (), es1)"
    and b: "forS (\<lambda>j. provision_job_in_scheduler fx j sid) js es1 = (Inr (), es')"
    by (auto simp: act_simps split: prod.splits sum.splits)
  from provision_job_in_scheduler_Inr [OF a] Cons.IH [OF b] show ?case
    by (metis append.assoc append_Cons append_Nil list.simps(9) list_all2_Cons)
qed simp

lemma run_batch_spec:
  assumes "run_batch env jobs = Inr r"
  shows "br_provisioned_jobs r = jobs" "br_unprovisioned_jobs r = []"
proof -
  from assms obtain job c where f: "fst (batch_invoke (pe_batch env) (new_batch_helper jobs c)) = Inr r"
    by (auto simp: run_batch_def bindE_Inr_iff)
  let ?b = "new_batch_helper jobs c"
  have keep: "bh_jobs b' = bh_jobs b \<and> bh_provisioned_jobs b' = bh_provisioned_jobs b \<and>
      bh_unprovisioned_jobs b' = bh_unprovisioned_jobs b"
    if "count_instance e j i b = (x, b')" for e j i b x b'
    using that by (auto simp: count_instance_def act_simps bindS_reads split: sum.splits option.splits prod.splits if_splits)
  have keeps: "bh_jobs b' = bh_jobs b \<and> bh_provisioned_jobs b' = bh_provisioned_jobs b \<and>
      bh_unprovisioned_jobs b' = bh_unprovisioned_jobs b"
    if "forS (count_instance e j) is b = (x, b')" for e j "is" b x b'
    using that
  proof (induction "is" arbitrary: b)
    case (Cons i "is")
    from Cons.prems keep show ?case
      by (auto simp: act_simps split: prod.splits sum.splits) (metis Cons.IH)+
  qed simp
  from f obtain b1 b2 where
    1: "find_available_capacity (pe_batch env) ?b = (Inr (), b1)" and
    2: "find_group_capacity (pe_batch env) b1 = (Inr (), b2)" and
    3: "fst (compute_batch_capacity b2) = Inr r"
    by (auto simp: batch_invoke_def act_simps split: prod.splits sum.splits)
  have "bh_jobs b1 = jobs \<and> bh_provisioned_jobs b1 = [] \<and> bh_unprovisioned_jobs b1 = []"
    using 1 keeps by (auto simp: find_available_capacity_def bindS_reads thenS_apply new_batch_helper_def
        split: sum.splits prod.splits)
  then have "bh_jobs b2 = jobs \<and> bh_provisioned_jobs b2 = [] \<and> bh_unprovisioned_jobs b2 = []"
    using 2 by (auto simp: find_group_capacity_def bindS_reads split: sum.splits)
  with 3 compute_batch_capacity_spec [of b2 r] show "br_provisioned_jobs r = jobs" "br_unprovisioned_jobs r = []"
    by (cases "compute_batch_capacity b2"; simp)+
qed

text \<open>Every check before the provisioning of capacity.\<close>

definition checks_pass :: "prov_env \<Rightarrow> soca_job list \<Rightarrow> bool" where
  "checks_pass env jobs \<longleftrightarrow>
     check_budgets env jobs = Inr () \<and> (\<exists>qs. check_service_quota_of env jobs = Inr qs) \<and>
     check_reserved_instance_usage env jobs = Inr () \<and> check_licenses env jobs = Inr ()"

definition stack_jobs :: "soca_job list \<Rightarrow> soca_job list" where
  "stack_jobs jobs = (if scaling_mode (hd jobs) = Some BATCH then jobs else [hd jobs])"

lemma create_new_stack_Inr:
  assumes "create_new_stack env fx jobs es = (Inr (), es')"
  shows "checks_pass env jobs \<and> ec2_dry_run env (hd jobs) = Inr () \<and>
    (\<exists>sid t js. es' = es @ StackBuilt sid t # map JobProvisioned js \<and>
       list_all2 (provisioned_on sid) (stack_jobs jobs) js)"
proof -
  from assms obtain job rest where jobs: "jobs = job # rest"
    by (cases jobs) (auto simp: create_new_stack_def thenS_lift bindS_lift first_job_def split: sum.splits)
  from assms have checks: "checks_pass env jobs" "ec2_dry_run env (hd jobs) = Inr ()"
    by (auto simp: create_new_stack_def thenS_lift bindS_lift first_job_def jobs checks_pass_def split: sum.splits)
  show ?thesis
  proof (cases "scaling_mode job = Some BATCH")
    case True
    with assms obtain r sid es1 where r: "run_batch env jobs = Inr r"
      and f: "forS (\<lambda>j. provision_job_in_scheduler fx j sid) (br_provisioned_jobs r)
           (es @ [StackBuilt sid (target_capacity (br_capacity_info r))]) = (Inr (), es1)"
      and e: "retry_unprovisioned (br_unprovisioned_jobs r) es1 = (Inr (), es')"
      by (auto simp: create_new_stack_def thenS_lift bindS_lift first_job_def jobs thenS_apply
          split: sum.splits prod.splits)
    from e run_batch_spec [OF r] have "es1 = es'" by (simp add: retry_unprovisioned_def)
    with provision_all [OF f] run_batch_spec [OF r] True checks jobs show ?thesis
      by (auto simp: stack_jobs_def)
  next
    case False
    with assms obtain sid where "provision_job_in_scheduler fx job sid (es @ [StackBuilt sid None]) = (Inr (), es')"
      by (auto simp: create_new_stack_def thenS_lift bindS_lift first_job_def jobs thenS_apply
          split: sum.splits prod.splits)
    from provision_job_in_scheduler_Inr [OF this] False checks jobs show ?thesis
      by (auto simp: stack_jobs_def) (metis list.simps(8,9) list_all2_Cons list_all2_Nil)
  qed
qed

lemma create_new_stack_blocked:
  assumes "\<not> checks_pass env jobs"
  shows "\<exists>e. create_new_stack env fx jobs es = (Inl e, es)"
proof -
  have "check_budgets env jobs = Inr () \<Longrightarrow> check_reserved_instance_usage env jobs = Inr () \<Longrightarrow>
    check_licenses env jobs = Inr () \<Longrightarrow> \<exists>e. check_service_quota_of env jobs = Inl e"
    using assms by (cases "check_service_quota_of env jobs") (auto simp: checks_pass_def)
  then show ?thesis
    by (auto simp: create_new_stack_def thenS_lift bindS_lift split: sum.split)
qed

section \<open>Properties\<close>


definition sample_fx :: fx_env where
  "sample_fx = \<lparr>fx_build_stack = (\<lambda>_ _. Inr ''stack-1''), fx_provision_job = (\<lambda>_ _. Inr 7),
     fx_modify_fleet = (\<lambda>_. None), fx_update_asg = (\<lambda>_. None), fx_digest = (\<lambda>s. s)\<rparr>"

lemma sample_checks:
  "check_budgets (sample_prov_env None) [sample_ri_job 4] = Inr ()"
  "check_service_quota_of (sample_prov_env None) [sample_ri_job 4] = Inr []"
  "check_licenses (sample_prov_env None) [sample_ri_job 4] = Inr ()"
  "ec2_dry_run (sample_prov_env None) (sample_ri_job 4) = Inr ()"
  "check_status (sample_prov_env None) = Inr (Some NOT_PROVISIONED)"
  by (simp_all add: check_budgets_def helper_project_def check_budget_availability_def get_budget_def budget_name_def
      check_service_quota_of_def check_licenses_def check_license_ask_def ec2_dry_run_def check_status_def
      sample_prov_env_def sample_ri_job_def empty_job_def is_empty_opt_str_def)




text \<open>The retry loop hands no exception to the poller: for a batch with a job in it, it returns a result, or None
  when the service was stopped.\<close>

lemma retry_returns:
  assumes "jobs \<noteq> []"
  shows "\<exists>r. fst (provision_with_retry rt mode max_retries jobs retry_count es) = Inr r"
  using assms
proof (induction rt mode max_retries jobs retry_count es rule: provision_with_retry.induct)
  case (1 rt mode max_retries jobs retry_count es)
  obtain r es' where i: "invoke (rt_env (rt retry_count)) (rt_fx (rt retry_count)) jobs es = (Inr r, es')"
    using invoke_never_raises [of "rt_env (rt retry_count)" "rt_fx (rt retry_count)" jobs es] by (cases "invoke (rt_env (rt retry_count)) (rt_fx (rt retry_count)) jobs es") auto
  show ?case
    using 1 i by (subst provision_with_retry.simps) (auto simp: Let_def)
qed

lemma retry_returns_witness:
  "\<exists>r. fst (provision_with_retry (\<lambda>_. \<lparr>rt_exit = False, rt_is_active = True, rt_env = sample_prov_env None, rt_fx = sample_fx\<rparr>)
     FIFO 5 [sample_ri_job 9] 1 []) = Inr r"
  by (rule retry_returns) simp

section \<open>Behaviour that differs from the documentation of the code\<close>

text \<open>A stack whose status is not listed, such as one that is rolling back, is reported as success.\<close>

lemma unlisted_status_reports_success:
  assumes "pe_stack env = Inr (Some st)" "st_stack_status st = ''ROLLBACK_IN_PROGRESS''"
  shows "invoke env fx jobs es = (Inr result_ok, es)"
  using assms by (simp add: invoke_apply invoke_body_def bindS_lift check_status_def)

end
