(* ===== verification/Heapq.thy ===== *)
theory Heapq
  imports Idea_Prelude "HOL-Library.Multiset"
begin

text \<open>
  The binary heap in an array of Python's \<open>heapq\<close>, on which \<open>queue.PriorityQueue\<close> stores its
  items: \<open>heappush\<close> and \<open>heappop\<close> with their two sift loops, over any \<open>__lt__\<close>. The locale states
  what a comparison has to promise (a strict weak order on the items in use); under it, push
  and pop keep the heap property, neither loses nor invents items, and pop returns a least one.
\<close>

section \<open>Operations\<close>

definition parent :: "nat \<Rightarrow> nat" where
  "parent i = (i - 1) div 2"

lemma parent_less [simp]: "0 < i \<Longrightarrow> parent i < i"
  by (auto simp: parent_def)

lemma parent_neq [simp]: "0 < i \<Longrightarrow> parent i \<noteq> i"
  by (metis parent_less less_irrefl)

lemma parent_neq' [simp]: "0 < i \<Longrightarrow> i \<noteq> parent i"
  by (metis parent_less less_irrefl)

lemma parent_iff: "0 < i \<Longrightarrow> parent i = p \<longleftrightarrow> i = 2 * p + 1 \<or> i = 2 * p + 2"
  by (auto simp: parent_def)

text \<open>\<open>_siftdown(heap, 0, pos)\<close>: the new item moves up from \<open>pos\<close>; \<open>x\<close> is \<open>newitem\<close>.\<close>

function siftdown :: "('a \<Rightarrow> 'a \<Rightarrow> bool) \<Rightarrow> 'a \<Rightarrow> nat \<Rightarrow> 'a list \<Rightarrow> 'a list" where
  "siftdown lt x pos h =
     (if 0 < pos
      then let parentitem = h ! parent pos in
           if lt x parentitem then siftdown lt x (parent pos) (h[pos := parentitem]) else h[pos := x]
      else h[pos := x])"
  by pat_completeness auto
termination by (relation "measure (\<lambda>(_, _, pos, _). pos)") auto

declare siftdown.simps [simp del]

text \<open>\<open>_siftup(heap, pos)\<close>: the hole moves down to a leaf along the smaller children.\<close>

definition smaller_child :: "('a \<Rightarrow> 'a \<Rightarrow> bool) \<Rightarrow> nat \<Rightarrow> 'a list \<Rightarrow> nat" where
  "smaller_child lt pos h =
     (let childpos = 2 * pos + 1; rightpos = childpos + 1 in
      if rightpos < length h \<and> \<not> lt (h ! childpos) (h ! rightpos) then rightpos else childpos)"

lemma smaller_child_bounds: "pos < smaller_child lt pos h" "2 * pos + 1 < length h \<Longrightarrow> smaller_child lt pos h < length h"
  by (auto simp: smaller_child_def Let_def)

function siftup :: "('a \<Rightarrow> 'a \<Rightarrow> bool) \<Rightarrow> 'a \<Rightarrow> nat \<Rightarrow> 'a list \<Rightarrow> 'a list" where
  "siftup lt x pos h =
     (if 2 * pos + 1 < length h
      then siftup lt x (smaller_child lt pos h) (h[pos := h ! smaller_child lt pos h])
      else siftdown lt x pos h)"
  by pat_completeness auto
termination
  by (relation "measure (\<lambda>(_, _, pos, h). length h - pos)") (auto simp: smaller_child_bounds diff_less_mono2)

declare siftup.simps [simp del]

definition heappush :: "('a \<Rightarrow> 'a \<Rightarrow> bool) \<Rightarrow> 'a list \<Rightarrow> 'a \<Rightarrow> 'a list" where
  "heappush lt h x = siftdown lt x (length h) (h @ [x])"

definition heappop :: "('a \<Rightarrow> 'a \<Rightarrow> bool) \<Rightarrow> 'a list \<Rightarrow> ('a \<times> 'a list) option" where
  "heappop lt h =
     (if h = [] then None
      else let lastelt = last h; rest = butlast h in
           if rest = [] then Some (lastelt, [])
           else Some (rest ! 0, siftup lt lastelt 0 rest))"

section \<open>No item is lost\<close>

lemma length_siftdown [simp]: "length (siftdown lt x pos h) = length h"
  by (induction lt x pos h rule: siftdown.induct) (subst siftdown.simps, simp add: Let_def)

lemma mset_move:
  assumes "pos < length h" "c < length h" "c \<noteq> pos"
  shows "mset (h[pos := h ! c, c := x]) = mset (h[pos := x])"
proof -
  have "h[pos := h ! c, c := x] = (h[pos := x])[pos := h[pos := x] ! c, c := h[pos := x] ! pos]"
    using assms by simp
  also have "mset \<dots> = mset (h[pos := x])" using assms by (intro mset_swap) simp_all
  finally show ?thesis .
qed

lemma mset_siftdown: "pos < length h \<Longrightarrow> mset (siftdown lt x pos h) = mset (h[pos := x])"
proof (induction lt x pos h rule: siftdown.induct)
  case (1 lt x pos h)
  have "0 < pos \<Longrightarrow> parent pos < length h \<and> parent pos \<noteq> pos"
    using 1(2) parent_less [of pos] by linarith
  with 1 show ?case by (subst siftdown.simps) (auto simp: Let_def mset_move)
qed

lemma mset_siftup: "pos < length h \<Longrightarrow> mset (siftup lt x pos h) = mset (h[pos := x])"
proof (induction lt x pos h rule: siftup.induct)
  case (1 lt x pos h)
  have "2 * pos + 1 < length h \<Longrightarrow> smaller_child lt pos h < length h \<and> smaller_child lt pos h \<noteq> pos"
    using smaller_child_bounds by (metis less_irrefl)
  with 1 show ?case by (subst siftup.simps) (auto simp: mset_move mset_siftdown)
qed

lemma mset_heappush: "mset (heappush lt h x) = add_mset x (mset h)"
  by (simp add: heappush_def mset_siftdown)

lemma mset_heappop: "heappop lt h = Some (x, h') \<Longrightarrow> mset h = add_mset x (mset h')"
proof (induction h rule: rev_induct)
  case (snoc y ys)
  then show ?case
    by (cases ys) (auto simp: heappop_def Let_def mset_siftup)
qed (simp add: heappop_def)

lemma heappop_None: "heappop lt h = None \<longleftrightarrow> h = []"
  by (simp add: heappop_def Let_def)

section \<open>The heap property\<close>

definition heap_ok :: "('a \<Rightarrow> 'a \<Rightarrow> bool) \<Rightarrow> 'a list \<Rightarrow> bool" where
  "heap_ok lt h \<longleftrightarrow> (\<forall>i. 0 < i \<longrightarrow> i < length h \<longrightarrow> \<not> lt (h ! i) (h ! parent i))"

locale comparison =
  fixes lt :: "'a \<Rightarrow> 'a \<Rightarrow> bool" and ok :: "'a \<Rightarrow> bool"
  assumes lt_asym: "ok a \<Longrightarrow> ok b \<Longrightarrow> lt a b \<Longrightarrow> \<not> lt b a"
    and not_lt_trans: "ok a \<Longrightarrow> ok b \<Longrightarrow> ok c \<Longrightarrow> \<not> lt b a \<Longrightarrow> \<not> lt c b \<Longrightarrow> \<not> lt c a"
begin

text \<open>The heap property but at \<open>pos\<close>, whose children are not below its parent.\<close>

definition heap_but :: "nat \<Rightarrow> 'a list \<Rightarrow> bool" where
  "heap_but pos g \<longleftrightarrow> pos < length g \<and>
     (\<forall>i. 0 < i \<longrightarrow> i < length g \<longrightarrow> i \<noteq> pos \<longrightarrow> \<not> lt (g ! i) (g ! parent i)) \<and>
     (\<forall>i. 0 < i \<longrightarrow> i < length g \<longrightarrow> parent i = pos \<longrightarrow> 0 < pos \<longrightarrow> \<not> lt (g ! i) (g ! parent pos))"

lemma heap_but_swap:
  assumes g: "heap_but pos g" "0 < pos" "lt (g ! pos) (g ! parent pos)" and ok: "list_all ok g"
  shows "heap_but (parent pos) (g[pos := g ! parent pos, parent pos := g ! pos])"
proof -
  let ?p = "parent pos"
  let ?g = "g[pos := g ! ?p, ?p := g ! pos]"
  from g have pos: "pos < length g" and p: "?p < pos" by (auto simp: heap_but_def)
  have okn: "ok (g ! i)" if "i < length g" for i using ok that by (simp add: list_all_length)
  have h1: "\<not> lt (g ! i) (g ! parent i)" if "0 < i" "i < length g" "i \<noteq> pos" for i
    using g(1) that by (simp add: heap_but_def)
  have h2: "\<not> lt (g ! i) (g ! ?p)" if "0 < i" "i < length g" "parent i = pos" for i
    using g(1,2) that by (simp add: heap_but_def)
  have xp: "\<not> lt (g ! ?p) (g ! pos)" using lt_asym [OF _ _ g(3)] okn pos p by simp
  have nth: "?g ! i = (if i = ?p then g ! pos else if i = pos then g ! ?p else g ! i)" if "i < length g" for i
    using that pos p by (auto simp: nth_list_update)
  have A: "\<not> lt (?g ! i) (?g ! parent i)" if i: "0 < i" "i < length g" "i \<noteq> ?p" for i
  proof -
    from i have pi: "parent i < i" by simp
    with i have pi': "parent i < length g" by simp
    note pi = pi pi'
    consider "i = pos" | "i \<noteq> pos" "parent i = pos" | "i \<noteq> pos" "parent i = ?p" | "i \<noteq> pos" "parent i \<noteq> pos" "parent i \<noteq> ?p"
      by blast
    then show ?thesis
    proof cases
      case 1 then show ?thesis using xp i p pi nth by auto
    next
      case 2 then show ?thesis using h2 [of i] i p pi nth by auto
    next
      case 3
      have "\<not> lt (g ! i) (g ! ?p)" using h1 [of i] i 3 by simp
      then have "\<not> lt (g ! i) (g ! pos)"
        using not_lt_trans [of "g ! pos" "g ! ?p" "g ! i"] xp okn i pos p by simp
      then show ?thesis using i 3 p pi nth by auto
    next
      case 4 then show ?thesis using h1 [of i] i pi nth by auto
    qed
  qed
  have B: "\<not> lt (?g ! i) (?g ! parent ?p)" if i: "0 < i" "i < length g" "parent i = ?p" "0 < ?p" for i
  proof -
    have pp: "parent ?p < ?p" using i by simp
    then have pp': "parent ?p < length g" using p pos by simp
    note pp = pp pp'
    have top: "\<not> lt (g ! ?p) (g ! parent ?p)" using h1 [of ?p] i p pos by simp
    have gi: "parent pos < i" using parent_less [OF i(1)] i(3) by simp
    show ?thesis
    proof (cases "i = pos")
      case True
      then show ?thesis using top i pp p nth by auto
    next
      case False
      have "\<not> lt (g ! i) (g ! ?p)" using h1 [of i] i False by simp
      then have "\<not> lt (g ! i) (g ! parent ?p)"
        using not_lt_trans [of "g ! parent ?p" "g ! ?p" "g ! i"] top okn i pos p pp by simp
      then show ?thesis using False i gi pp p nth by auto
    qed
  qed
  from A B p pos show ?thesis by (simp add: heap_but_def)
qed

lemma heap_but_ok:
  assumes "heap_but pos g" "pos = 0 \<or> \<not> lt (g ! pos) (g ! parent pos)" shows "heap_ok lt g"
  using assms by (auto simp: heap_but_def heap_ok_def)

lemma heap_siftdown:
  "heap_but pos (h[pos := x]) \<Longrightarrow> list_all ok (h[pos := x]) \<Longrightarrow> heap_ok lt (siftdown lt x pos h)"
proof (induction pos arbitrary: h rule: less_induct)
  case (less pos)
  let ?g = "h[pos := x]"
  let ?h = "h[pos := h ! parent pos]"
  have pos: "pos < length h" using less(2) by (simp add: heap_but_def)
  show ?case
  proof (cases "0 < pos \<and> lt x (h ! parent pos)")
    case True
    then have p: "parent pos < pos" by simp
    have g: "?g ! pos = x" "?g ! parent pos = h ! parent pos" using pos p by simp_all
    have e: "?h[parent pos := x] = ?g[pos := ?g ! parent pos, parent pos := ?g ! pos]"
      using g pos by simp
    have "heap_but (parent pos) (?h[parent pos := x])"
      unfolding e using less(2,3) True g by (intro heap_but_swap) simp_all
    moreover have "list_all ok (?h[parent pos := x])"
      using less(3) mset_move [of pos h "parent pos" x] pos p
      by (metis less_trans less_irrefl list_all_iff set_mset_mset)
    ultimately have "heap_ok lt (siftdown lt x (parent pos) ?h)" using less(1) p by blast
    with True show ?thesis by (subst siftdown.simps) simp
  next
    case False
    then have "pos = 0 \<or> \<not> lt (?g ! pos) (?g ! parent pos)"
      using pos parent_less [of pos] by (cases "pos = 0") (auto simp: nth_list_update)
    with less(2) have "heap_ok lt ?g" by (rule heap_but_ok)
    with False show ?thesis by (subst siftdown.simps) (auto simp: Let_def)
  qed
qed

lemma heap_heappush:
  assumes "heap_ok lt h" "list_all ok h" "ok x" shows "heap_ok lt (heappush lt h x)"
proof -
  have "heap_but (length h) (h @ [x])"
    using assms(1) by (auto simp: heap_but_def heap_ok_def nth_append parent_iff less_Suc_eq)
      (metis parent_less less_trans)+
  then show ?thesis using assms(2,3) unfolding heappush_def by (intro heap_siftdown) simp_all
qed

text \<open>The hole of \<open>siftup\<close>: the heap property elsewhere, and across the hole.\<close>

definition heap_hole :: "nat \<Rightarrow> 'a list \<Rightarrow> bool" where
  "heap_hole pos h \<longleftrightarrow> pos < length h \<and>
     (\<forall>i. 0 < i \<longrightarrow> i < length h \<longrightarrow> i \<noteq> pos \<longrightarrow> parent i \<noteq> pos \<longrightarrow> \<not> lt (h ! i) (h ! parent i)) \<and>
     (\<forall>i. 0 < i \<longrightarrow> i < length h \<longrightarrow> parent i = pos \<longrightarrow> 0 < pos \<longrightarrow> \<not> lt (h ! i) (h ! parent pos))"

lemma smaller_child_least:
  assumes "2 * pos + 1 < length h" "list_all ok (h[pos := x])"
    and "0 < i" "i < length h" "parent i = pos"
  shows "\<not> lt (h ! i) (h ! smaller_child lt pos h)"
proof -
  have okn: "ok (h ! j)" if "j < length h" "j \<noteq> pos" for j
    using assms(2) that by (auto simp: list_all_length nth_list_update)
  from assms have "i = 2 * pos + 1 \<or> i = 2 * pos + 2" by (simp add: parent_iff)
  then show ?thesis
    using assms(1,4) okn [of "2 * pos + 1"] okn [of "2 * pos + 2"] lt_asym [of "h ! i" "h ! i"]
      lt_asym [of "h ! (2 * pos + 1)" "h ! (2 * pos + 2)"]
    by (auto simp: smaller_child_def Let_def)
qed

lemma heap_hole_step:
  assumes h: "heap_hole pos h" "2 * pos + 1 < length h" and ok: "list_all ok (h[pos := x])"
  defines "c \<equiv> smaller_child lt pos h"
  shows "heap_hole c (h[pos := h ! c])"
proof -
  have c: "pos < c" "c < length h" using h(2) smaller_child_bounds by (auto simp: c_def)
  have pc: "parent c = pos"
    using c by (subst parent_iff) (auto simp: c_def smaller_child_def Let_def)
  let ?g = "h[pos := h ! c]"
  have h1: "\<not> lt (h ! i) (h ! parent i)" if "0 < i" "i < length h" "i \<noteq> pos" "parent i \<noteq> pos" for i
    using h(1) that by (simp add: heap_hole_def)
  have h2: "\<not> lt (h ! i) (h ! parent pos)" if "0 < i" "i < length h" "parent i = pos" "0 < pos" for i
    using h(1) that by (simp add: heap_hole_def)
  have "\<not> lt (?g ! i) (?g ! parent i)" if i: "0 < i" "i < length h" "i \<noteq> c" "parent i \<noteq> c" for i
  proof -
    have p: "parent i < i" using i by simp
    consider "i = pos" | "i \<noteq> pos" "parent i = pos" | "i \<noteq> pos" "parent i \<noteq> pos" by blast
    then show ?thesis
    proof cases
      case 1 then show ?thesis using h2 [of c] c pc i p by simp
    next
      case 2 then show ?thesis using smaller_child_least [OF h(2) ok i(1,2)] c i by (simp add: c_def)
    next
      case 3 then show ?thesis using h1 [of i] i by simp
    qed
  qed
  moreover have "\<not> lt (?g ! i) (?g ! parent c)" if i: "0 < i" "i < length h" "parent i = c" for i
  proof -
    have "i \<noteq> pos" using i c parent_less [of i] by auto
    then show ?thesis using h1 [of i] i c pc by simp
  qed
  ultimately show ?thesis using c by (simp add: heap_hole_def)
qed

lemma heap_siftup: "heap_hole pos h \<Longrightarrow> list_all ok (h[pos := x]) \<Longrightarrow> heap_ok lt (siftup lt x pos h)"
proof (induction "length h - pos" arbitrary: pos h rule: less_induct)
  case less
  have pos: "pos < length h" using less(2) by (simp add: heap_hole_def)
  show ?case
  proof (cases "2 * pos + 1 < length h")
    case True
    let ?c = "smaller_child lt pos h"
    have c: "pos < ?c" "?c < length h" using True by (auto simp: smaller_child_bounds)
    have "heap_hole ?c (h[pos := h ! ?c])" using less(2) True less(3) by (rule heap_hole_step)
    moreover have "list_all ok (h[pos := h ! ?c, ?c := x])"
      using less(3) mset_move [OF pos c(2), of x] c(1)
      by (metis less_irrefl list_all_iff set_mset_mset)
    ultimately have "heap_ok lt (siftup lt x ?c (h[pos := h ! ?c]))"
      using less(1) c by (simp add: diff_less_mono2)
    with True show ?thesis by (subst siftup.simps) simp
  next
    case False
    have leaf: "parent i \<noteq> pos" if "0 < i" "i < length h" for i
      using that False by (auto simp: parent_iff)
    then have "heap_but pos (h[pos := x])"
      using less(2) leaf [symmetric] by (auto simp: heap_but_def heap_hole_def)
    then have "heap_ok lt (siftdown lt x pos h)" using less(3) by (rule heap_siftdown)
    with False show ?thesis by (subst siftup.simps) simp
  qed
qed

lemma heap_root_least: "heap_ok lt h \<Longrightarrow> list_all ok h \<Longrightarrow> i < length h \<Longrightarrow> \<not> lt (h ! i) (h ! 0)"
proof (induction i rule: less_induct)
  case (less i)
  then have okn: "ok (h ! j)" if "j < length h" for j using that by (simp add: list_all_length)
  have 0: "h \<noteq> []" using less.prems(3) by auto
  show ?case
  proof (cases "i = 0")
    case True
    with okn 0 show ?thesis using lt_asym by auto
  next
    case False
    then have p: "parent i < i" by simp
    then have "\<not> lt (h ! parent i) (h ! 0)" using less by simp
    moreover have "\<not> lt (h ! i) (h ! parent i)" using less.prems False by (simp add: heap_ok_def)
    ultimately show ?thesis
      using not_lt_trans [of "h ! 0" "h ! parent i" "h ! i"] okn 0 less.prems(3) p by simp
  qed
qed

text \<open>What the priority queue promises its user.\<close>

lemma heap_heappop:
  assumes "heap_ok lt h" "list_all ok h" "heappop lt h = Some (x, h')"
  shows "heap_ok lt h'" "\<And>y. y \<in> set h \<Longrightarrow> \<not> lt y x"
proof -
  from assms(3) have ne: "h \<noteq> []" by (auto simp: heappop_def)
  have x: "x = h ! 0"
  proof (cases "butlast h = []")
    case True
    with ne have "h = [last h]" by (metis append_butlast_last_id append_Nil)
    moreover have "x = last h" using assms(3) ne True by (simp add: heappop_def Let_def)
    ultimately show ?thesis by (metis nth_Cons_0)
  next
    case False
    moreover have "x = butlast h ! 0" using assms(3) ne False by (simp add: heappop_def Let_def)
    ultimately show ?thesis by (metis nth_butlast length_greater_0_conv)
  qed
  then show "\<not> lt y x" if "y \<in> set h" for y
    using that heap_root_least [OF assms(1,2)] by (auto simp: in_set_conv_nth)
  show "heap_ok lt h'"
  proof (cases "butlast h = []")
    case True
    then show ?thesis using assms(3) ne by (auto simp: heappop_def Let_def heap_ok_def)
  next
    case False
    let ?r = "butlast h"
    have r: "?r ! i = h ! i" if "i < length ?r" for i using that by (simp add: nth_butlast)
    have "\<not> lt (?r ! i) (?r ! parent i)" if "0 < i" "i < length ?r" for i
    proof -
      have "parent i < length ?r" using that parent_less [of i] by linarith
      then show ?thesis using that r assms(1) by (simp add: heap_ok_def)
    qed
    moreover have "0 < length ?r" using False by (simp only: length_greater_0_conv) simp
    ultimately have "heap_hole 0 ?r" by (simp add: heap_hole_def del: length_butlast)
    moreover have "list_all ok (?r[0 := last h])"
      using assms(2) ne in_set_butlastD [of _ h] set_update_subset_insert [of ?r 0 "last h"]
      by (auto simp: list_all_iff)
    ultimately show ?thesis using heap_siftup assms(3) ne False by (auto simp: heappop_def Let_def)
  qed
qed

end

end
