(* ===== verification/RoundRobin_Queue.thy ===== *)
theory RoundRobin_Queue
  imports Heapq Queue_Types
begin

text \<open>
  \<open>RoundRobinPriorityQueue\<close> of \<open>ideascheduler/.../job_provisioning_queue.py\<close>: one priority queue
  per job group, served in turn. An entry object is shared by the dict \<open>_queue_map\<close> and the list
  \<open>_queues\<close>; here the dict holds the entries by group and the list refers to them. All methods
  run under the lock, so each is one step. The locale \<open>work_queue\<close> is what the provisioning queue
  relies on: put adds one item, get takes one out or finds its queue empty, nothing is lost.
\<close>

section \<open>State and operations\<close>

record rr_queue =
  rr_map :: "string \<Rightarrow> queued_job list option"
  rr_queues :: "string list"
  rr_index :: nat
  rr_maxsize :: nat

definition rr_init :: "nat \<Rightarrow> rr_queue" where
  "rr_init maxsize = \<lparr>rr_map = Map.empty, rr_queues = [], rr_index = 0, rr_maxsize = maxsize\<rparr>"

definition rr_heap :: "rr_queue \<Rightarrow> string \<Rightarrow> queued_job list" where
  "rr_heap q g = opt_or (rr_map q g) []"

text \<open>An exhausted entry is removed and \<open>queue.Empty\<close> raised again.\<close>

definition rr_get :: "(rr_queue, queued_job) act" where
  "rr_get q =
     (if rr_queues q = [] then (Inl QueueEmpty, q)
      else if rr_index q \<ge> length (rr_queues q) then (Inl IndexError, q)
      else let grp = rr_queues q ! rr_index q in
        case heappop qj_lt (rr_heap q grp) of
          Some (queued_job, heap) \<Rightarrow>
            (Inr queued_job, q\<lparr>rr_map := (rr_map q)(grp \<mapsto> heap),
                               rr_index := (rr_index q + 1) mod length (rr_queues q)\<rparr>)
        | None \<Rightarrow>
            (Inl QueueEmpty, q\<lparr>rr_map := (rr_map q)(grp := None),
                               rr_queues := take (rr_index q) (rr_queues q) @ drop (Suc (rr_index q)) (rr_queues q),
                               rr_index := rr_index q - 1\<rparr>))"

text \<open>\<open>PriorityQueue.put\<close> without a timeout waits for ever on a full queue.\<close>

definition pq_put :: "string \<Rightarrow> queued_job \<Rightarrow> (rr_queue, unit) act" where
  "pq_put grp item q =
     (if 0 < rr_maxsize q \<and> rr_maxsize q \<le> length (rr_heap q grp) then (Inl Blocks, q)
      else (Inr (), q\<lparr>rr_map := (rr_map q)(grp \<mapsto> heappush qj_lt (rr_heap q grp) item)\<rparr>))"

definition rr_put :: "queued_job \<Rightarrow> (rr_queue, unit) act" where
  "rr_put item =
     thenS (modify (\<lambda>q. if rr_map q (qj_job_group item) \<noteq> None then q
        else q\<lparr>rr_map := (rr_map q)(qj_job_group item \<mapsto> []),
               rr_queues := rr_queues q @ [qj_job_group item]\<rparr>))
     (pq_put (qj_job_group item) item)"

text \<open>\<open>key in self._queues\<close> looks for the name among the entry objects and never finds it.\<close>

definition rr_qsize :: "string option \<Rightarrow> rr_queue \<Rightarrow> nat" where
  "rr_qsize key q =
     (if \<not> is_empty_opt_str key then 0
      else sum_list (map (\<lambda>g. length (rr_heap q g)) (rr_queues q)))"

text \<open>
  The same queue object is also reached from the tracker of the provisioning queue, which
  assigns to \<open>priority\<close> and \<open>deleted\<close> of an item while it lies in its heap.
\<close>

definition rr_assign :: "string \<Rightarrow> (queued_job \<Rightarrow> queued_job) \<Rightarrow> rr_queue \<Rightarrow> rr_queue" where
  "rr_assign jid f q = q\<lparr>rr_map := (\<lambda>g. map_option (map (\<lambda>j. if qj_job_id j = jid then f j else j)) (rr_map q g))\<rparr>"

section \<open>Contents and invariant\<close>

definition rr_items :: "rr_queue \<Rightarrow> queued_job multiset" where
  "rr_items q = (\<Sum>g \<leftarrow> rr_queues q. mset (rr_heap q g))"

definition num_priority :: "queued_job \<Rightarrow> bool" where
  "num_priority j \<longleftrightarrow> num_val (qj_priority j) \<noteq> NaN"

interpretation qj: comparison qj_lt num_priority
  by unfold_locales (auto simp: qj_lt_def num_lt_def num_priority_def dest: fless_asym fless_neg_trans)

text \<open>\<open>rr_wf\<close>: list and dict name the same entries, the index is one of them, items lie in their group.\<close>

definition rr_wf :: "rr_queue \<Rightarrow> bool" where
  "rr_wf q \<longleftrightarrow>
     distinct (rr_queues q) \<and> set (rr_queues q) = dom (rr_map q) \<and>
     (rr_index q < length (rr_queues q) \<or> rr_index q = 0) \<and>
     (\<forall>g. \<forall>j \<in> set (rr_heap q g). qj_job_group j = g)"

definition rr_sorted :: "rr_queue \<Rightarrow> bool" where
  "rr_sorted q \<longleftrightarrow> (\<forall>g. heap_ok qj_lt (rr_heap q g) \<and> list_all num_priority (rr_heap q g))"

lemma rr_heap_upd [simp]:
  "rr_heap (q\<lparr>rr_map := (rr_map q)(g \<mapsto> h)\<rparr>) k = (if k = g then h else rr_heap q k)"
  "rr_heap (q\<lparr>rr_index := i\<rparr>) k = rr_heap q k"
  "rr_heap (q\<lparr>rr_queues := qs\<rparr>) k = rr_heap q k"
  "rr_heap (q\<lparr>rr_map := (rr_map q)(g := None)\<rparr>) k = (if k = g then [] else rr_heap q k)"
  by (simp_all add: rr_heap_def)

lemma rr_heap_upd2 [simp]:
  "rr_heap (q\<lparr>rr_map := (rr_map q)(g \<mapsto> h), rr_index := i\<rparr>) k = (if k = g then h else rr_heap q k)"
  "rr_heap (q\<lparr>rr_map := (rr_map q)(g \<mapsto> h), rr_queues := qs\<rparr>) k = (if k = g then h else rr_heap q k)"
  "rr_heap (q\<lparr>rr_map := (rr_map q)(g := None), rr_queues := qs, rr_index := i\<rparr>) k = (if k = g then [] else rr_heap q k)"
  by (simp_all add: rr_heap_def)

lemma sum_list_map_upd:
  fixes f :: "'b \<Rightarrow> 'c :: cancel_comm_monoid_add"
  assumes "distinct xs" "x \<in> set xs"
  shows "(\<Sum>y \<leftarrow> xs. if y = x then v else f y) + f x = (\<Sum>y \<leftarrow> xs. f y) + v"
  using assms
proof (induction xs)
  case (Cons a xs)
  have "(\<Sum>y \<leftarrow> xs. if y = a then v else f y) = (\<Sum>y \<leftarrow> xs. f y)" if "a \<notin> set xs"
    using that by (intro arg_cong [where f = sum_list] map_cong) auto
  with Cons show ?case by (auto simp: ac_simps)
qed simp

lemma mset_queue_upd:
  assumes "distinct qs" "g \<in> set qs"
  shows "(\<Sum>k \<leftarrow> qs. mset (if k = g then h else H k)) + mset (H g) = (\<Sum>k \<leftarrow> qs. mset (H k)) + mset h"
  using sum_list_map_upd [OF assms, of "mset h" "\<lambda>k. mset (H k)"] by (simp add: if_distrib cong: if_cong)

section \<open>The interface and its clients\<close>

fun repeatS :: "nat \<Rightarrow> ('s, 'a) act \<Rightarrow> ('s, 'a list) act" where
  "repeatS 0 m = ret []"
| "repeatS (Suc n) m = bindS m (\<lambda>x. bindS (repeatS n m) (\<lambda>xs. ret (x # xs)))"

locale work_queue =
  fixes get :: "('q, 'a) act" and put :: "'a \<Rightarrow> ('q, unit) act"
    and items :: "'q \<Rightarrow> 'a multiset" and inv :: "'q \<Rightarrow> bool"
  assumes get_Inr: "inv q \<Longrightarrow> get q = (Inr x, q') \<Longrightarrow> items q = add_mset x (items q') \<and> inv q'"
    and get_Inl: "inv q \<Longrightarrow> get q = (Inl e, q') \<Longrightarrow> e = QueueEmpty \<and> items q' = items q \<and> inv q'"
    and put_Inr: "inv q \<Longrightarrow> put x q = (Inr (), q') \<Longrightarrow> items q' = add_mset x (items q) \<and> inv q'"
    and put_Inl: "inv q \<Longrightarrow> put x q = (Inl e, q') \<Longrightarrow> e = Blocks \<and> items q' = items q \<and> inv q'"
begin

lemma preserves_get: "preserves inv get"
proof -
  have "inv (snd (get q))" if "inv q" for q
  proof (cases "get q")
    case (Pair r q')
    with that show ?thesis using get_Inl [of q _ q'] get_Inr [of q _ q'] by (cases r) auto
  qed
  then show ?thesis by (simp add: preserves_def)
qed

lemma preserves_put: "preserves inv (put x)"
proof -
  have "inv (snd (put x q))" if "inv q" for q
  proof (cases "put x q")
    case (Pair r q')
    with that show ?thesis using put_Inl [of q x _ q'] put_Inr [of q x q'] by (cases r) auto
  qed
  then show ?thesis by (simp add: preserves_def)
qed

lemma get_decreases: "inv q \<Longrightarrow> get q = (Inr x, q') \<Longrightarrow> size (items q') < size (items q)"
  using get_Inr by fastforce

lemma get_n_content:
  "inv q \<Longrightarrow> repeatS n get q = (Inr xs, q') \<Longrightarrow> items q = mset xs + items q' \<and> length xs = n \<and> inv q'"
proof (induction n arbitrary: q xs)
  case 0
  then show ?case by simp
next
  case (Suc n)
  from Suc.prems(2) obtain x q1 ys where *: "get q = (Inr x, q1)" "repeatS n get q1 = (Inr ys, q')" "xs = x # ys"
    by (auto simp: bindS_def split: prod.splits sum.splits)
  from get_Inr [OF Suc.prems(1) *(1)] Suc.IH [OF _ *(2)] *(3) show ?case by simp
qed

lemma no_more_than_put: "inv q \<Longrightarrow> repeatS n get q = (Inr xs, q') \<Longrightarrow> n \<le> size (items q)"
  using get_n_content by fastforce

lemma put_get_n:
  assumes "inv q" "put x q = (Inr (), q1)" "repeatS n get q1 = (Inr xs, q2)" "items q2 = {#}"
  shows "mset xs = add_mset x (items q)"
  using put_Inr [OF assms(1,2)] get_n_content [OF _ assms(3)] assms(4) by simp

end

section \<open>The queue provides the interface\<close>

lemma rr_items_upd:
  assumes "rr_wf q" "g \<in> set (rr_queues q)" "\<And>k. rr_heap q' k = (if k = g then h else rr_heap q k)"
    and "rr_queues q' = rr_queues q"
  shows "rr_items q' + mset (rr_heap q g) = rr_items q + mset h"
  using assms mset_queue_upd [of "rr_queues q" g h "rr_heap q"] by (simp add: rr_items_def rr_wf_def)

lemma rr_get_cases:
  assumes "rr_wf q"
  obtains (empty) "rr_queues q = []" "rr_get q = (Inl QueueEmpty, q)"
    | (exhausted) g q' where "g = rr_queues q ! rr_index q" "rr_index q < length (rr_queues q)"
        "rr_heap q g = []" "rr_get q = (Inl QueueEmpty, q')"
        "q' = q\<lparr>rr_map := (rr_map q)(g := None),
                rr_queues := take (rr_index q) (rr_queues q) @ drop (Suc (rr_index q)) (rr_queues q),
                rr_index := rr_index q - 1\<rparr>"
    | (served) g x h q' where "g = rr_queues q ! rr_index q" "rr_index q < length (rr_queues q)"
        "heappop qj_lt (rr_heap q g) = Some (x, h)" "rr_get q = (Inr x, q')"
        "q' = q\<lparr>rr_map := (rr_map q)(g \<mapsto> h), rr_index := (rr_index q + 1) mod length (rr_queues q)\<rparr>"
proof (cases "rr_queues q = []")
  case True
  then show ?thesis using empty by (simp add: rr_get_def)
next
  case False
  with assms have i: "rr_index q < length (rr_queues q)" by (auto simp: rr_wf_def)
  show ?thesis
  proof (cases "heappop qj_lt (rr_heap q (rr_queues q ! rr_index q))")
    case None
    then have "rr_heap q (rr_queues q ! rr_index q) = []" by (simp add: heappop_None)
    from exhausted [OF refl i this _ refl] None i False show ?thesis by (simp add: rr_get_def Let_def)
  next
    case (Some p)
    then show ?thesis using i False served by (cases p) (simp add: rr_get_def Let_def)
  qed
qed

lemma distinct_take_drop:
  assumes "distinct xs" "i < length xs"
  shows "set (take i xs @ drop (Suc i) xs) = set xs - {xs ! i}" "distinct (take i xs @ drop (Suc i) xs)"
    "xs = take i xs @ xs ! i # drop (Suc i) xs"
proof -
  show e: "xs = take i xs @ xs ! i # drop (Suc i) xs" using assms(2) by (rule id_take_nth_drop)
  with assms(1) have d: "distinct (take i xs @ xs ! i # drop (Suc i) xs)" by simp
  then show "distinct (take i xs @ drop (Suc i) xs)" by simp
  from e have "set xs = set (take i xs @ xs ! i # drop (Suc i) xs)" by simp
  with d show "set (take i xs @ drop (Suc i) xs) = set xs - {xs ! i}" by auto
qed

lemma rr_get_Inr:
  assumes "rr_wf q" "rr_get q = (Inr x, q')"
  shows "rr_items q = add_mset x (rr_items q')" "rr_wf q'"
proof -
  from assms obtain g h where g: "g = rr_queues q ! rr_index q" "rr_index q < length (rr_queues q)"
    and h: "heappop qj_lt (rr_heap q g) = Some (x, h)"
    and q': "q' = q\<lparr>rr_map := (rr_map q)(g \<mapsto> h), rr_index := (rr_index q + 1) mod length (rr_queues q)\<rparr>"
    by (cases rule: rr_get_cases) auto
  have m: "mset (rr_heap q g) = add_mset x (mset h)" using h by (rule mset_heappop)
  have "rr_items q' + mset (rr_heap q g) = rr_items q + mset h"
    using assms(1) g by (intro rr_items_upd) (auto simp: q')
  with m show "rr_items q = add_mset x (rr_items q')" by simp
  have "set h \<subseteq> set (rr_heap q g)" using m by (metis set_mset_add_mset_insert set_mset_mset subset_insertI)
  moreover have "(rr_index q + 1) mod length (rr_queues q) < length (rr_queues q)"
    using g(2) by (intro mod_less_divisor) linarith
  ultimately show "rr_wf q'" using assms(1) g by (auto simp: rr_wf_def q')
qed

lemma rr_get_Inl:
  assumes "rr_wf q" "rr_get q = (Inl e, q')"
  shows "e = QueueEmpty" "rr_items q' = rr_items q" "rr_wf q'"
proof -
  have "e = QueueEmpty \<and> rr_items q' = rr_items q \<and> rr_wf q'"
    using assms(1)
  proof (cases rule: rr_get_cases)
    case empty
    with assms show ?thesis by simp
  next
    case (exhausted g q1)
    let ?qs = "take (rr_index q) (rr_queues q) @ drop (Suc (rr_index q)) (rr_queues q)"
    have d: "distinct (rr_queues q)" using assms(1) by (simp add: rr_wf_def)
    note td = distinct_take_drop [OF d exhausted(2), folded exhausted(1)]
    have "(\<Sum>k \<leftarrow> ?qs. mset (if k = g then [] else rr_heap q k)) = (\<Sum>k \<leftarrow> ?qs. mset (rr_heap q k))"
      using exhausted(3) by (intro arg_cong [where f = sum_list] map_cong) auto
    also have "\<dots> = (\<Sum>k \<leftarrow> rr_queues q. mset (rr_heap q k))"
      by (subst (3) td(3)) (simp add: exhausted(3))
    finally have "rr_items q1 = rr_items q" by (simp add: rr_items_def exhausted(5))
    moreover have "rr_wf q1"
      using assms(1) td(1,2) exhausted(2) by (auto simp: rr_wf_def exhausted(5))
    ultimately show ?thesis using assms(2) exhausted(4) by simp
  next
    case served
    with assms show ?thesis by simp
  qed
  then show "e = QueueEmpty" "rr_items q' = rr_items q" "rr_wf q'" by simp_all
qed

definition rr_enter :: "string \<Rightarrow> rr_queue \<Rightarrow> rr_queue" where
  "rr_enter g q =
     (if rr_map q g \<noteq> None then q
      else q\<lparr>rr_map := (rr_map q)(g \<mapsto> []), rr_queues := rr_queues q @ [g]\<rparr>)"

lemma rr_put_enter: "rr_put item q = pq_put (qj_job_group item) item (rr_enter (qj_job_group item) q)"
  by (simp add: rr_put_def rr_enter_def act_simps)

lemma rr_enter_heap [simp]: "rr_heap (rr_enter g q) k = rr_heap q k"
  by (simp add: rr_enter_def rr_heap_def)

lemma rr_enter_wf:
  assumes "rr_wf q"
  shows "rr_wf (rr_enter g q)" "rr_items (rr_enter g q) = rr_items q" "g \<in> set (rr_queues (rr_enter g q))"
proof -
  have "rr_map q g = None \<Longrightarrow> rr_heap q g = []" by (simp add: rr_heap_def)
  then show "rr_items (rr_enter g q) = rr_items q"
    by (simp add: rr_items_def) (simp add: rr_enter_def)
  show "g \<in> set (rr_queues (rr_enter g q))" using assms by (auto simp: rr_enter_def rr_wf_def)
  show "rr_wf (rr_enter g q)"
    using assms unfolding rr_wf_def rr_enter_heap by (auto simp: rr_enter_def)
qed

lemma rr_put_Inr:
  assumes "rr_wf q" "rr_put x q = (Inr (), q')"
  shows "rr_items q' = add_mset x (rr_items q)" "rr_wf q'"
proof -
  let ?g = "qj_job_group x" let ?e = "rr_enter ?g q" let ?h = "heappush qj_lt (rr_heap ?e ?g) x"
  have e: "rr_wf ?e" "rr_items ?e = rr_items q" "?g \<in> set (rr_queues ?e)" by (rule rr_enter_wf [OF assms(1)])+
  have q': "q' = ?e\<lparr>rr_map := (rr_map ?e)(?g \<mapsto> ?h)\<rparr>"
    using assms(2) by (simp add: rr_put_enter pq_put_def split: if_splits)
  have "rr_items q' + mset (rr_heap ?e ?g) = rr_items ?e + mset ?h"
    using e by (intro rr_items_upd) (auto simp: q')
  then show "rr_items q' = add_mset x (rr_items q)" by (simp add: mset_heappush e)
  have "set ?h = insert x (set (rr_heap ?e ?g))"
    by (metis mset_heappush set_mset_add_mset_insert set_mset_mset)
  then show "rr_wf q'" using e by (auto simp: rr_wf_def q')
qed

lemma rr_put_Inl:
  assumes "rr_wf q" "rr_put x q = (Inl e, q')"
  shows "e = Blocks" "rr_items q' = rr_items q" "rr_wf q'"
  using assms rr_enter_wf [OF assms(1), of "qj_job_group x"]
  by (auto simp: rr_put_enter pq_put_def split: if_splits)

interpretation rr: work_queue rr_get rr_put rr_items rr_wf
  by unfold_locales (auto dest: rr_get_Inr rr_get_Inl rr_put_Inr rr_put_Inl)

lemma rr_wf_init: "rr_wf (rr_init n)" "rr_sorted (rr_init n)" "rr_items (rr_init n) = {#}"
  by (simp_all add: rr_wf_def rr_sorted_def rr_init_def rr_heap_def rr_items_def heap_ok_def)

section \<open>Order within a group, turns between groups\<close>

lemma in_sum_list_mset: "y \<in># (\<Sum>g \<leftarrow> gs. f g) \<longleftrightarrow> (\<exists>g \<in> set gs. y \<in># f g)"
  by (induction gs) auto

lemma rr_sorted_upd:
  assumes "rr_sorted q" "heap_ok qj_lt h" "list_all num_priority h"
    and "\<And>k. rr_heap q' k = (if k = g then h else rr_heap q k)"
  shows "rr_sorted q'"
  using assms by (simp add: rr_sorted_def)

lemma rr_sorted_get:
  assumes "rr_wf q" "rr_sorted q" shows "rr_sorted (snd (rr_get q))"
  using assms(1)
proof (cases rule: rr_get_cases)
  case empty
  with assms show ?thesis by simp
next
  case (exhausted g q')
  have "rr_sorted q'"
    by (rule rr_sorted_upd [OF assms(2), of "[]" q' g]) (simp_all add: heap_ok_def exhausted(5))
  with exhausted(4) show ?thesis by simp
next
  case (served g x h q')
  have q: "heap_ok qj_lt (rr_heap q g)" "list_all num_priority (rr_heap q g)"
    using assms(2) by (simp_all add: rr_sorted_def)
  have "set h \<subseteq> set (rr_heap q g)"
    using mset_heappop [OF served(3)] by (metis set_mset_add_mset_insert set_mset_mset subset_insertI)
  with q(2) have "list_all num_priority h" by (auto simp: list_all_iff)
  moreover have "rr_heap q' k = (if k = g then h else rr_heap q k)" for k
    unfolding served(5) by (rule rr_heap_upd2)
  ultimately have "rr_sorted q'"
    using rr_sorted_upd [OF assms(2) qj.heap_heappop(1) [OF q served(3)]] by blast
  with served(4) show ?thesis by simp
qed

lemma rr_sorted_put:
  assumes "rr_sorted q" "num_priority x" shows "rr_sorted (snd (rr_put x q))"
proof -
  have "list_all num_priority (heappush qj_lt h x)" if "list_all num_priority h" for h
    using that assms(2) mset_heappush [of qj_lt h x]
    by (metis insert_iff list_all_iff set_mset_add_mset_insert set_mset_mset)
  then show ?thesis using assms
    by (auto simp: rr_put_enter pq_put_def rr_sorted_def intro!: qj.heap_heappush)
qed

lemma rr_get_least:
  assumes "rr_wf q" "rr_sorted q" "rr_get q = (Inr x, q')"
  shows "\<And>y. y \<in># rr_items q \<Longrightarrow> qj_job_group y = qj_job_group x \<Longrightarrow> \<not> qj_lt y x"
proof -
  fix y assume y: "y \<in># rr_items q" "qj_job_group y = qj_job_group x"
  from assms(1) show "\<not> qj_lt y x"
  proof (cases rule: rr_get_cases)
    case (served g x' h q1)
    with assms(3) have x: "x' = x" by simp
    have "x \<in> set (rr_heap q g)" using mset_heappop [OF served(3)] x by (metis set_mset_mset union_single_eq_member)
    then have "qj_job_group x = g" using assms(1) by (simp add: rr_wf_def)
    moreover from y(1) obtain k where "y \<in> set (rr_heap q k)"
      by (auto simp: rr_items_def in_sum_list_mset)
    ultimately have "y \<in> set (rr_heap q g)" using assms(1) y(2) by (metis rr_wf_def)
    then show ?thesis using assms(2) served(3) x
      by (intro qj.heap_heappop(2) [of "rr_heap q g" x h]) (auto simp: rr_sorted_def)
  qed (use assms(3) in simp_all)
qed

text \<open>While every group in turn has work, consecutive calls serve the groups in list order, wrapping around.\<close>

lemma rr_serves_in_turn:
  assumes "rr_wf q" "n = length (rr_queues q)" "k \<le> n"
    and "\<And>i. i < k \<Longrightarrow> rr_heap q (rr_queues q ! ((rr_index q + i) mod n)) \<noteq> []"
  shows "\<exists>js q'. repeatS k rr_get q = (Inr js, q') \<and>
    map qj_job_group js = map (\<lambda>i. rr_queues q ! ((rr_index q + i) mod n)) [0..<k]"
  using assms
proof (induction k arbitrary: q)
  case 0
  then show ?case by simp
next
  case (Suc k)
  have n: "0 < n" using Suc.prems(3) by simp
  with Suc.prems(1,2) have idx: "rr_index q < n" by (auto simp: rr_wf_def)
  let ?g = "rr_queues q ! rr_index q"
  have ne: "rr_heap q ?g \<noteq> []" using Suc.prems(4) [of 0] idx by simp
  from Suc.prems(1) obtain x h q1 where x: "heappop qj_lt (rr_heap q ?g) = Some (x, h)" "rr_get q = (Inr x, q1)"
    and q1: "q1 = q\<lparr>rr_map := (rr_map q)(?g \<mapsto> h), rr_index := (rr_index q + 1) mod length (rr_queues q)\<rparr>"
    using ne n Suc.prems(2) by (cases rule: rr_get_cases) auto
  have wf: "rr_wf q1" using Suc.prems(1) x(2) by (rule rr_get_Inr)
  have same: "rr_queues q1 = rr_queues q" and idx1: "rr_index q1 = (rr_index q + 1) mod n"
    using Suc.prems(2) by (simp_all add: q1)
  have next_i: "(rr_index q1 + i) mod n = (rr_index q + Suc i) mod n" for i
    by (simp add: idx1 mod_add_left_eq)
  have heap1: "rr_heap q1 (rr_queues q1 ! ((rr_index q1 + i) mod n)) \<noteq> []" if "i < k" for i
  proof -
    have "(rr_index q + Suc i) mod n \<noteq> rr_index q"
    proof
      assume "(rr_index q + Suc i) mod n = rr_index q"
      then have "(rr_index q + Suc i) mod n = (rr_index q + 0) mod n" using idx by simp
      then have "Suc i mod n = 0 mod n" by (simp only: nat_mod_eq_iff) (metis add_left_cancel add.assoc add.right_neutral)
      then show False using that Suc.prems(3) by simp
    qed
    then have "rr_queues q ! ((rr_index q + Suc i) mod n) \<noteq> ?g"
      using Suc.prems(1,2) idx n by (simp add: rr_wf_def nth_eq_iff_index_eq)
    moreover have "rr_heap q1 k = (if k = ?g then h else rr_heap q k)" for k
      unfolding q1 by (rule rr_heap_upd2)
    ultimately show ?thesis using Suc.prems(4) [of "Suc i"] that by (simp only: next_i same if_False) simp
  qed
  obtain js q' where js: "repeatS k rr_get q1 = (Inr js, q')"
    "map qj_job_group js = map (\<lambda>i. rr_queues q1 ! ((rr_index q1 + i) mod n)) [0..<k]"
    using Suc.IH [OF wf _ _ heap1] Suc.prems(2,3) same by auto
  have "x \<in> set (rr_heap q ?g)" using mset_heappop [OF x(1)] by (metis set_mset_mset union_single_eq_member)
  then have gx: "qj_job_group x = ?g" using Suc.prems(1) by (simp add: rr_wf_def)
  have "repeatS (Suc k) rr_get q = (Inr (x # js), q')" using x(2) js(1) by (simp add: bindS_def)
  moreover have "map qj_job_group (x # js) = map (\<lambda>i. rr_queues q ! ((rr_index q + i) mod n)) [0..<Suc k]"
    using gx js(2) idx by (simp add: next_i same upt_conv_Cons map_Suc_upt [symmetric] del: upt_Suc)
  ultimately show ?case by blast
qed

section \<open>Properties\<close>

definition sample_item :: "string \<Rightarrow> string \<Rightarrow> int \<Rightarrow> queued_job" where
  "sample_item jid g p = \<lparr>qj_priority = NI p, qj_job_id = jid, qj_job_group = g, qj_deleted = None,
     qj_processed = None, qj_capacity_added = None\<rparr>"

definition sample_rr :: rr_queue where
  "sample_rr = \<lparr>rr_map = [''a'' \<mapsto> [sample_item ''1'' ''a'' 10, sample_item ''3'' ''a'' 30], ''b'' \<mapsto> [sample_item ''2'' ''b'' 20]],
     rr_queues = [''a'', ''b''], rr_index = 1, rr_maxsize = 10000\<rparr>"

lemma sample_rr_ok: "rr_wf sample_rr" "rr_sorted sample_rr"
  by (auto simp: rr_wf_def rr_sorted_def sample_rr_def rr_heap_def sample_item_def heap_ok_def parent_def
      qj_lt_def num_priority_def num_val_def less_Suc_eq opt_or_def dom_def split: if_splits option.splits)

lemma sample_rr_get: "\<exists>q'. rr_get sample_rr = (Inr (sample_item ''2'' ''b'' 20), q')"
  by (simp add: rr_get_def sample_rr_def rr_heap_def heappop_def Let_def)

text \<open>While every group whose turn comes has a job, consecutive calls of \<open>get\<close> serve the job groups
  in the order of the list, starting at the index and wrapping around, one job each: round robin.\<close>

lemma round_robin_turns:
  assumes "rr_wf q" "k \<le> length (rr_queues q)"
    and "\<And>i. i < k \<Longrightarrow> rr_heap q (rr_queues q ! ((rr_index q + i) mod length (rr_queues q))) \<noteq> []"
  shows "\<exists>js q'. repeatS k rr_get q = (Inr js, q') \<and>
    map qj_job_group js = map (\<lambda>i. rr_queues q ! ((rr_index q + i) mod length (rr_queues q))) [0..<k]"
  using assms(1) refl assms(2,3) by (rule rr_serves_in_turn)

lemma round_robin_turns_witness:
  "\<exists>js q'. repeatS 2 rr_get sample_rr = (Inr js, q') \<and> map qj_job_group js = [''b'', ''a'']"
proof -
  have "rr_heap sample_rr (rr_queues sample_rr ! ((rr_index sample_rr + i) mod length (rr_queues sample_rr))) \<noteq> []"
    if "i < 2" for i
    using that by (auto simp: sample_rr_def rr_heap_def less_Suc_eq numeral_2_eq_2)
  moreover have "2 \<le> length (rr_queues sample_rr)" by (simp add: sample_rr_def)
  moreover have "[0..<2] = [0, 1 :: nat]" by (simp add: upt_rec)
  ultimately show ?thesis using round_robin_turns [OF sample_rr_ok(1), of 2] by (simp add: sample_rr_def)
qed

text \<open>Within its job group, the job that \<open>get\<close> returns has a least priority number: no job of the
  same group is smaller, as long as priorities were only set by \<open>put\<close>.\<close>

lemma round_robin_priority:
  assumes "rr_wf q" "rr_sorted q" "rr_get q = (Inr x, q')" "y \<in># rr_items q" "qj_job_group y = qj_job_group x"
  shows "\<not> qj_lt y x"
  using assms by (rule rr_get_least)

lemma round_robin_priority_witness: "\<not> qj_lt (sample_item ''2'' ''b'' 20) (sample_item ''2'' ''b'' 20)"
proof -
  obtain q' where g: "rr_get sample_rr = (Inr (sample_item ''2'' ''b'' 20), q')" using sample_rr_get by blast
  have "sample_item ''2'' ''b'' 20 \<in># rr_items sample_rr"
    by (simp add: rr_items_def sample_rr_def rr_heap_def)
  from round_robin_priority [OF sample_rr_ok g this refl] show ?thesis .
qed

text \<open>No job is lost or invented: what \<open>n\<close> successful calls of \<open>get\<close> return, together with what is
  left in the queue, is what was in it.\<close>

lemma round_robin_conserves:
  assumes "rr_wf q" "repeatS n rr_get q = (Inr xs, q')"
  shows "rr_items q = mset xs + rr_items q' \<and> length xs = n"
  using rr.get_n_content [OF assms] by simp

lemma round_robin_conserves_witness:
  "\<exists>q'. rr_items sample_rr = {#sample_item ''2'' ''b'' 20#} + rr_items q'"
proof -
  obtain q' where "rr_get sample_rr = (Inr (sample_item ''2'' ''b'' 20), q')" using sample_rr_get by blast
  then have "repeatS 1 rr_get sample_rr = (Inr [sample_item ''2'' ''b'' 20], q')" by (simp add: bindS_def)
  from round_robin_conserves [OF sample_rr_ok(1) this] show ?thesis by auto
qed

section \<open>Behaviour that differs from the documentation of the code\<close>

text \<open>After an exhausted group is removed, the group before it is served again, not the one after it.\<close>

lemma exhausted_group_steps_back:
  "let q = \<lparr>rr_map = [''a'' \<mapsto> [sample_item ''1'' ''a'' 10], ''b'' \<mapsto> [], ''c'' \<mapsto> [sample_item ''3'' ''c'' 30]],
            rr_queues = [''a'', ''b'', ''c''], rr_index = 1, rr_maxsize = 10000\<rparr>;
       (r, q') = rr_get q
   in r = Inl QueueEmpty \<and> fst (rr_get q') = Inr (sample_item ''1'' ''a'' 10)"
  by (simp add: rr_get_def rr_heap_def heappop_def Let_def)

text \<open>The size of one group is always reported as 0.\<close>

lemma qsize_of_group: "\<not> is_empty_opt_str key \<Longrightarrow> rr_qsize key q = 0"
  by (simp add: rr_qsize_def)

end
