(* ===== verification/Provisioning_Queue.thy ===== *)
theory Provisioning_Queue
  imports RoundRobin_Queue Job_Model
begin

text \<open>
  \<open>JobProvisioningQueue\<close> of \<open>ideascheduler/.../job_provisioning_queue.py\<close>. The state is the
  attributes of the object: the round robin queue, the tracker \<open>_queued_jobs\<close>, whose values are
  the very objects that lie in the queue, the limit flag and limit info, and the errors it told
  the job cache. What it asks the rest of the program (clock, configuration, caches) is the
  record \<open>queue_env\<close>; a call of \<open>get\<close> may see another environment on every turn of its loop. The
  loop is modelled from the point where the application context is ready. The power operator on
  floats is the argument \<open>env_pow\<close>.
\<close>

section \<open>State and environment\<close>

record queue_env =
  env_now_ms :: int
  env_now :: int
  env_list_jobs :: "SocaJobState \<Rightarrow> soca_job list"
  env_get_job :: "string \<Rightarrow> soca_job option res"
  env_active_jobs :: int
  env_instance_count :: int
  env_start_score :: "int option"
  env_running_job_penalty :: "int option"
  env_score_type :: "string option"
  env_c1 :: "pyfloat option"
  env_c2 :: "pyfloat option"
  env_pow :: "pyfloat \<Rightarrow> pyfloat \<Rightarrow> pyfloat res"
  env_digest :: "string \<Rightarrow> string"

record provisioning_queue =
  pq_queue :: rr_queue
  pq_queued_jobs :: "string \<Rightarrow> queued_job option"
  pq_clear_timestamp :: "int option"
  pq_limit_flag :: "int option"
  pq_limit_info :: "limit_check_result option"
  pq_errors :: "(string option \<times> string) list"
  pq_stopped :: bool

definition pq_init :: provisioning_queue where
  "pq_init = \<lparr>pq_queue = rr_init 10000, pq_queued_jobs = Map.empty, pq_clear_timestamp = None,
     pq_limit_flag = None, pq_limit_info = None, pq_errors = [], pq_stopped = False\<rparr>"

text \<open>An operation of the round robin queue, as an operation of the object that holds it.\<close>

definition on_queue :: "(rr_queue, 'a) act \<Rightarrow> (provisioning_queue, 'a) act" where
  "on_queue m s = (case m (pq_queue s) of (r, q) \<Rightarrow> (r, s\<lparr>pq_queue := q\<rparr>))"

section \<open>Priorities\<close>

text \<open>The loop variable of \<open>get_queue_order\<close> has the name of the parameter and is compared with itself.\<close>

fun queue_order_loop :: "string list \<Rightarrow> int \<Rightarrow> int res" where
  "queue_order_loop [] queue_order = Inl (SocaException ''GENERAL_ERROR'')"
| "queue_order_loop (queue_name # rest) queue_order =
     (if queue_name \<noteq> queue_name then queue_order_loop rest (queue_order + 1) else Inr (queue_order + 1))"

definition get_queue_order :: "queue_profile \<Rightarrow> string option \<Rightarrow> int res" where
  "get_queue_order qp queue_name = queue_order_loop (opt_or (qp_queues qp) []) 0"

definition effective_queue_mode :: "queue_profile \<Rightarrow> SocaQueueMode" where
  "effective_queue_mode qp = opt_or (qp_queue_mode qp) FIFO"

text \<open>\<open>a + b\<close> where either may be None.\<close>

definition opt_num_add :: "pynum option \<Rightarrow> pynum option \<Rightarrow> pynum res" where
  "opt_num_add a b = bindE (required TypeError a) (\<lambda>x. bindE (required TypeError b) (num_add x))"

definition timestamp_float :: "int option \<Rightarrow> pyfloat res" where
  "timestamp_float t = bindE (required AttributeError t) (\<lambda>m. int_truediv m 1000000)"

definition wait_bonus :: "queue_env \<Rightarrow> soca_job \<Rightarrow> int \<Rightarrow> pynum res" where
  "wait_bonus env job resource_count =
     bindE (timestamp_float (queue_time job)) (\<lambda>ts.
     bindE (float_of_int (env_now_ms env)) (\<lambda>now_f.
       let elapsed_time = fsub now_f (fmul ts (Fin 1000)) in
     bindE (required TypeError (env_c1 env)) (\<lambda>c1.
     bindE (fdiv (fmul c1 elapsed_time) (Fin 86400000)) (\<lambda>days.
     bindE (required TypeError (env_c2 env)) (\<lambda>c2.
     bindE (env_pow env days c2) (\<lambda>p. num_mul (NI resource_count) (NF p)))))))"

definition queued_bonus :: "queue_env \<Rightarrow> soca_job \<Rightarrow> soca_job \<Rightarrow> pynum \<Rightarrow> pynum res" where
  "queued_bonus env job queued_job bonus_score =
     (if owner queued_job \<noteq> owner job then Inr bonus_score
      else bindE (required AttributeError (params queued_job)) (\<lambda>qp.
        if p_compute_stack qp \<noteq> None
        then opt_num_add (Some bonus_score) (map_option NI (env_running_job_penalty env))
        else
          bindE (required AttributeError (params job)) (\<lambda>p.
          bindE (required TypeError (p_nodes p)) (\<lambda>n.
          bindE (total_licenses job) (\<lambda>l.
            if env_score_type env \<in> {Some ''dynamic'', Some ''linear''}
            then bindE (wait_bonus env job (n + l)) (num_add bonus_score)
            else num_add bonus_score (NI 1))))))"

definition running_penalty :: "queue_env \<Rightarrow> soca_job \<Rightarrow> soca_job \<Rightarrow> pynum option \<Rightarrow> pynum option res" where
  "running_penalty env job running_job score =
     (if owner running_job \<noteq> owner job then Inr score
      else bindE (opt_num_add score (map_option NI (env_running_job_penalty env))) (\<lambda>s. Inr (Some s)))"

definition compute_fairshare_score :: "queue_env \<Rightarrow> soca_job \<Rightarrow> pynum res" where
  "compute_fairshare_score env job =
     bindE (foldE (running_penalty env job) (env_list_jobs env JS_RUNNING)
              (map_option NI (env_start_score env))) (\<lambda>score.
     bindE (foldE (queued_bonus env job) (env_list_jobs env JS_QUEUED) (NI 0)) (\<lambda>bonus_score.
       opt_num_add score (Some bonus_score)))"

definition get_job_priority :: "queue_env \<Rightarrow> queue_profile \<Rightarrow> soca_job \<Rightarrow> pynum res" where
  "get_job_priority env qp job =
     bindE (if effective_queue_mode qp = FAIRSHARE
            then bindE (compute_fairshare_score env job) (\<lambda>score.
                 bindE (get_queue_order qp (queue job)) (\<lambda>k. num_mul score (NI k)))
            else bindE (timestamp_float (queue_time job)) (\<lambda>ts. bindE (int_of_float ts) (\<lambda>timestamp.
                 bindE (get_queue_order qp (queue job)) (\<lambda>k. Inr (NI (timestamp * k)))))) (\<lambda>priority.
       case try_extract_job_id_as_int job of
         None \<Rightarrow> Inr priority
       | Some i \<Rightarrow> num_add priority (NI i))"

section \<open>Queueing and tracking\<close>

definition is_queue_applicable :: "queue_profile \<Rightarrow> string option \<Rightarrow> bool" where
  "is_queue_applicable qp queue_name =
     (case queue_name of None \<Rightarrow> False | Some n \<Rightarrow> n \<in> set (opt_or (qp_queues qp) []))"

text \<open>An assignment to a tracked object is seen through the tracker and in the heap.\<close>

definition assign_tracked :: "string \<Rightarrow> (queued_job \<Rightarrow> queued_job) \<Rightarrow> (provisioning_queue, unit) act" where
  "assign_tracked jid f = modify (\<lambda>s. s
     \<lparr>pq_queued_jobs := (pq_queued_jobs s)(jid := map_option f (pq_queued_jobs s jid)),
      pq_queue := rr_assign jid f (pq_queue s)\<rparr>)"

definition new_queued_job ::
  "queue_env \<Rightarrow> queue_profile \<Rightarrow> soca_job \<Rightarrow> queued_job res" where
  "new_queued_job env qp job =
     bindE (if is_ephemeral_capacity job then Inr (qp_name qp) else get_job_group (env_digest env) job) (\<lambda>grp.
     bindE (get_job_priority env qp job) (\<lambda>p.
     bindE (validate_int p) (\<lambda>i.
     bindE (required ValidationError (job_id job)) (\<lambda>jid.
       Inr \<lparr>qj_priority = NI i, qj_job_id = jid, qj_job_group = grp, qj_deleted = None,
            qj_processed = None, qj_capacity_added = capacity_added job\<rparr>))))"

definition is_tracked :: "soca_job \<Rightarrow> provisioning_queue \<Rightarrow> bool" where
  "is_tracked job s = (case job_id job of None \<Rightarrow> False | Some jid \<Rightarrow> pq_queued_jobs s jid \<noteq> None)"

definition put :: "queue_env \<Rightarrow> queue_profile \<Rightarrow> soca_job \<Rightarrow> (provisioning_queue, unit) act" where
  "put env qp job =
     (if \<not> is_queue_applicable qp (queue job) then ret ()
      else if state job \<noteq> Some JS_QUEUED then ret ()
      else if is_provisioned job then ret ()
      else bindS (gets (is_tracked job)) (\<lambda>tracked.
        if tracked
        then bindS (reads (\<lambda>_. get_job_priority env qp job)) (\<lambda>p.
               assign_tracked (the (job_id job)) (\<lambda>j. j\<lparr>qj_priority := p, qj_deleted := None\<rparr>))
        else bindS (reads (\<lambda>_. new_queued_job env qp job)) (\<lambda>queued_job.
               thenS (on_queue (rr_put queued_job))
                 (modify (\<lambda>s. s\<lparr>pq_queued_jobs := (pq_queued_jobs s)(qj_job_id queued_job \<mapsto> queued_job)\<rparr>)))))"

definition delete :: "string \<Rightarrow> (provisioning_queue, unit) act" where
  "delete jid = bindS (gets (\<lambda>s. pq_queued_jobs s jid)) (\<lambda>j.
     case j of None \<Rightarrow> ret () | Some _ \<Rightarrow> assign_tracked jid (\<lambda>j. j\<lparr>qj_deleted := Some True\<rparr>))"

definition is_interval_expired :: "int option \<Rightarrow> int \<Rightarrow> int \<Rightarrow> bool" where
  "is_interval_expired last_run_ms now_ms interval_secs =
     (case last_run_ms of None \<Rightarrow> True | Some l \<Rightarrow> now_ms - l > interval_secs * 1000)"

definition check_and_clear_processed_jobs :: "queue_env \<Rightarrow> (provisioning_queue, unit) act" where
  "check_and_clear_processed_jobs env =
     bindS (gets pq_clear_timestamp) (\<lambda>l.
       if \<not> is_interval_expired l (env_now_ms env) 10 then ret ()
       else modify (\<lambda>s. s\<lparr>pq_clear_timestamp := Some (env_now_ms env),
              pq_queued_jobs := (\<lambda>jid. case pq_queued_jobs s jid of
                 Some j \<Rightarrow> if qj_processed j = Some True then None else Some j | None \<Rightarrow> None)\<rparr>))"

definition remove_queued_job :: "queued_job \<Rightarrow> (provisioning_queue, unit) act" where
  "remove_queued_job job = bindS (gets (\<lambda>s. pq_queued_jobs s (qj_job_id job))) (\<lambda>j.
     case j of None \<Rightarrow> throw KeyError
     | Some _ \<Rightarrow> modify (\<lambda>s. s\<lparr>pq_queued_jobs := (pq_queued_jobs s)(qj_job_id job := None)\<rparr>))"

section \<open>Limits\<close>

definition is_max_provisioned_instances_limit ::
  "queue_env \<Rightarrow> queue_profile \<Rightarrow> soca_job \<Rightarrow> limit_check_result option res" where
  "is_max_provisioned_instances_limit env qp job =
     bindE (required AttributeError (qp_queue_management_params qp)) (\<lambda>qmp.
       let count = env_instance_count env; limit = opt_or (max_provisioned_instances qmp) 0 in
       if limit = 0 then Inr None
       else bindE (desired_nodes job) (\<lambda>n.
         let result = (new_limit_check ''max_provisioned_instances'')
               \<lparr>lc_queue_threshold := max_provisioned_instances qmp, lc_queue_current := Some (count + n)\<rparr>
         in Inr (Some (if count + n > limit then lc_fail result else lc_ok result))))"

text \<open>The threshold reported is that of the other limit.\<close>

definition is_max_running_jobs_limit :: "queue_env \<Rightarrow> queue_profile \<Rightarrow> limit_check_result option res" where
  "is_max_running_jobs_limit env qp =
     bindE (required AttributeError (qp_queue_management_params qp)) (\<lambda>qmp.
       let limit = opt_or (max_running_jobs qmp) 0 in
       if limit = 0 then Inr None
       else
         let queue_total = env_active_jobs env;
             result = (new_limit_check ''max_running_jobs'')
               \<lparr>lc_queue_threshold := max_provisioned_instances qmp, lc_queue_current := Some queue_total\<rparr>
         in Inr (Some (if queue_total + 1 > limit then lc_fail result else lc_ok result)))"

definition is_queue_blocked_by_limits :: "provisioning_queue \<Rightarrow> bool" where
  "is_queue_blocked_by_limits s = (pq_limit_flag s \<noteq> None)"

definition get_queue_size :: "string option \<Rightarrow> provisioning_queue \<Rightarrow> nat" where
  "get_queue_size key s = rr_qsize key (pq_queue s)"

definition not_ok :: "queue_env \<Rightarrow> queue_profile \<Rightarrow> soca_job \<Rightarrow> limit_check_result \<Rightarrow> (provisioning_queue, bool) act" where
  "not_ok env qp job limit =
     thenS (put env qp job)
     (bindS (reads (\<lambda>_. is_queue_limit limit)) (\<lambda>queue_limit.
        if queue_limit
        then thenS (modify (\<lambda>s. s\<lparr>pq_limit_info := Some limit\<rparr>))
            (thenS (modify (\<lambda>s. case pq_limit_flag s of
                      Some l \<Rightarrow> if timedelta_seconds (env_now env - l) > 60
                                then s\<lparr>pq_limit_flag := Some (env_now env)\<rparr> else s
                    | None \<Rightarrow> s\<lparr>pq_limit_flag := Some (env_now env)\<rparr>))
            (thenS (modify (\<lambda>s. s\<lparr>pq_errors := pq_errors s @ [(job_id job, lc_limit_type limit)]\<rparr>))
               (throw QueueEmpty)))
        else thenS (modify (\<lambda>s. s\<lparr>pq_limit_flag := None\<rparr>)) (ret False)))"

definition failed_limit :: "limit_check_result option \<Rightarrow> limit_check_result option" where
  "failed_limit r = (case r of Some l \<Rightarrow> if lc_bool l then None else Some l | None \<Rightarrow> None)"

definition check_limits :: "queue_env \<Rightarrow> queue_profile \<Rightarrow> soca_job \<Rightarrow> (provisioning_queue, bool) act" where
  "check_limits env qp job =
     bindS (reads (\<lambda>_. is_max_provisioned_instances_limit env qp job)) (\<lambda>r1.
     case failed_limit r1 of
       Some l \<Rightarrow> not_ok env qp job l
     | None \<Rightarrow>
         bindS (reads (\<lambda>_. is_max_running_jobs_limit env qp)) (\<lambda>r2.
         case failed_limit r2 of
           Some l \<Rightarrow> not_ok env qp job l
         | None \<Rightarrow>
             thenS (modify (\<lambda>s. s\<lparr>pq_limit_flag := None, pq_limit_info := None\<rparr>)) (ret True)))"

section \<open>Taking a job\<close>

text \<open>The body of the inner \<open>try\<close>; None is the \<open>continue\<close> of the loop.\<close>

definition consider_job :: "queue_env \<Rightarrow> queue_profile \<Rightarrow> queued_job \<Rightarrow> (provisioning_queue, soca_job option) act" where
  "consider_job env qp queued_job =
     bindS (reads (\<lambda>_. env_get_job env (qj_job_id queued_job))) (\<lambda>job.
       case job of
         None \<Rightarrow> ret None
       | Some job \<Rightarrow>
           if state job \<noteq> Some JS_QUEUED then ret None
           else bindS (check_limits env qp job) (\<lambda>ok. if ok then ret (Some job) else ret None))"

definition get_step :: "queue_env \<Rightarrow> queue_profile \<Rightarrow> (provisioning_queue, soca_job option) act" where
  "get_step env qp =
     catchS
       (bindS (on_queue rr_get) (\<lambda>queued_job.
          finallyS (consider_job env qp queued_job) (remove_queued_job queued_job)))
       (\<lambda>e. if e = QueueEmpty then throw JobProvisioningQueueEmpty
            else if e = SocaException ''SCHEDULER_JOB_FINISHED'' then ret None
            else throw e)"

text \<open>The outer loop; \<open>Blocks\<close> when it has not ended after the given number of turns.\<close>

fun get :: "nat \<Rightarrow> (nat \<Rightarrow> queue_env) \<Rightarrow> queue_profile \<Rightarrow> (provisioning_queue, soca_job option) act" where
  "get 0 env qp = throw Blocks"
| "get (Suc n) env qp =
     bindS (gets pq_stopped) (\<lambda>stopped.
       if stopped then ret None
       else bindS (get_step (env n) qp) (\<lambda>r.
         case r of Some job \<Rightarrow> ret (Some job) | None \<Rightarrow> get n env qp))"

definition destroy :: "(provisioning_queue, unit) act" where
  "destroy = modify (\<lambda>s. s\<lparr>pq_stopped := True\<rparr>)"

section \<open>The tracker and the queue agree\<close>

text \<open>
  \<open>pq_ok P\<close>: the jobs in the queue, with the jobs \<open>P\<close> just taken out of it and still tracked, are
  the tracked jobs, each once, and what lies in the queue is the tracked object.
\<close>

definition pq_ok :: "string multiset \<Rightarrow> provisioning_queue \<Rightarrow> bool" where
  "pq_ok P s \<longleftrightarrow> rr_wf (pq_queue s) \<and> finite (dom (pq_queued_jobs s)) \<and>
     image_mset qj_job_id (rr_items (pq_queue s)) + P = mset_set (dom (pq_queued_jobs s)) \<and>
     (\<forall>x \<in># rr_items (pq_queue s). pq_queued_jobs s (qj_job_id x) = Some x) \<and>
     (\<forall>x \<in> ran (pq_queued_jobs s). qj_processed x = None)"

lemma pq_ok_init: "pq_ok {#} pq_init"
  by (simp add: pq_ok_def pq_init_def rr_wf_init)

lemma pq_ok_frame [simp]:
  "pq_ok P (s\<lparr>pq_limit_info := a\<rparr>) = pq_ok P s" "pq_ok P (s\<lparr>pq_limit_flag := b\<rparr>) = pq_ok P s"
  "pq_ok P (s\<lparr>pq_errors := c\<rparr>) = pq_ok P s" "pq_ok P (s\<lparr>pq_limit_flag := b, pq_limit_info := a\<rparr>) = pq_ok P s"
  "pq_ok P (s\<lparr>pq_stopped := d\<rparr>) = pq_ok P s"
  by (simp_all add: pq_ok_def)

lemma rr_assign_heap: "rr_heap (rr_assign jid f q) g = map (\<lambda>j. if qj_job_id j = jid then f j else j) (rr_heap q g)"
  by (cases "rr_map q g") (simp_all add: rr_assign_def rr_heap_def)

lemma rr_assign_items: "rr_items (rr_assign jid f q) = image_mset (\<lambda>j. if qj_job_id j = jid then f j else j) (rr_items q)"
proof -
  have "(\<Sum>g \<leftarrow> qs. mset (map h (H g))) = image_mset h (\<Sum>g \<leftarrow> qs. mset (H g))" for h and H :: "string \<Rightarrow> queued_job list" and qs
    by (induction qs) simp_all
  moreover have "rr_queues (rr_assign jid f q) = rr_queues q" by (simp add: rr_assign_def)
  ultimately show ?thesis by (simp add: rr_items_def rr_assign_heap)
qed

lemma rr_assign_wf:
  assumes "rr_wf q" "\<And>j. qj_job_group (f j) = qj_job_group j" shows "rr_wf (rr_assign jid f q)"
  using assms unfolding rr_wf_def rr_assign_heap by (auto simp: rr_assign_def dom_def)

lemma assign_tracked_ok:
  assumes "\<And>j. qj_job_group (f j) = qj_job_group j" "\<And>j. qj_job_id (f j) = qj_job_id j"
    "\<And>j. qj_processed (f j) = qj_processed j"
  shows "preserves (pq_ok P) (assign_tracked jid f)"
  unfolding assign_tracked_def
proof (rule preserves_modify)
  fix s assume s: "pq_ok P s"
  let ?h = "\<lambda>j. if qj_job_id j = jid then f j else j"
  have id: "qj_job_id \<circ> ?h = qj_job_id" using assms(2) by auto
  have "dom ((pq_queued_jobs s)(jid := map_option f (pq_queued_jobs s jid))) = dom (pq_queued_jobs s)"
    by (auto split: if_splits)
  moreover have "image_mset qj_job_id (image_mset ?h M) = image_mset qj_job_id M" for M
    by (simp add: multiset.map_comp id)
  moreover have "\<forall>x \<in> ran ((pq_queued_jobs s)(jid := map_option f (pq_queued_jobs s jid))). qj_processed x = None"
    using s assms(3) by (auto simp: pq_ok_def ran_def split: if_splits)
  moreover have "rr_wf (rr_assign jid f (pq_queue s))" using s assms(1) by (intro rr_assign_wf) (auto simp: pq_ok_def)
  ultimately show "pq_ok P (s\<lparr>pq_queued_jobs := (pq_queued_jobs s)(jid := map_option f (pq_queued_jobs s jid)),
      pq_queue := rr_assign jid f (pq_queue s)\<rparr>)"
    using s assms(2) by (auto simp: pq_ok_def rr_assign_items)
qed

lemma new_queued_job_processed: "new_queued_job env qp job = Inr x \<Longrightarrow> qj_processed x = None"
  by (auto simp: new_queued_job_def bindE_Inr_iff)

lemma new_queued_job_id:
  "new_queued_job env qp job = Inr x \<Longrightarrow> job_id job = Some (qj_job_id x)"
  by (cases "job_id job") (auto simp: new_queued_job_def bindE_Inr_iff)

lemma enqueue_ok:
  assumes "pq_ok P s" "pq_queued_jobs s (qj_job_id x) = None" "qj_processed x = None"
  shows "pq_ok P (snd (thenS (on_queue (rr_put x))
           (modify (\<lambda>s. s\<lparr>pq_queued_jobs := (pq_queued_jobs s)(qj_job_id x \<mapsto> x)\<rparr>)) s))"
proof (cases "rr_put x (pq_queue s)")
  case (Pair r q)
  have wf: "rr_wf (pq_queue s)" using assms(1) by (simp add: pq_ok_def)
  show ?thesis
  proof (cases r)
    case (Inl e)
    then show ?thesis using rr.put_Inl [OF wf, of x e q] Pair assms(1)
      by (auto simp: pq_ok_def act_simps on_queue_def)
  next
    case (Inr u)
    from assms have i: "rr_items q = add_mset x (rr_items (pq_queue s))" "rr_wf q"
      using rr.put_Inr [OF wf, of x q] Pair Inr by auto
    have n: "qj_job_id x \<notin> dom (pq_queued_jobs s)" using assms(2) by auto
    have "mset_set (insert (qj_job_id x) (dom (pq_queued_jobs s))) =
        add_mset (qj_job_id x) (mset_set (dom (pq_queued_jobs s)))"
      using n assms(1) by (intro mset_set.insert) (auto simp: pq_ok_def)
    then show ?thesis using assms Inr Pair i n by (auto simp: pq_ok_def act_simps on_queue_def)
  qed
qed

lemma put_ok: "preserves (pq_ok P) (put env qp job)"
proof -
  have "pq_ok P (snd (put env qp job s))" if s: "pq_ok P s" for s
  proof (cases "is_tracked job s")
    case True
    have "preserves (pq_ok P) (bindS (reads (\<lambda>_. get_job_priority env qp job)) (\<lambda>p.
        assign_tracked (the (job_id job)) (\<lambda>j. j\<lparr>qj_priority := p, qj_deleted := None\<rparr>)))"
      by (intro preserves_intros assign_tracked_ok) simp_all
    with True s show ?thesis by (simp add: put_def preserves_def)
  next
    case False
    show ?thesis
    proof (cases "new_queued_job env qp job")
      case (Inr x)
      with False have "pq_queued_jobs s (qj_job_id x) = None"
        using new_queued_job_id [OF Inr] by (simp add: is_tracked_def)
      from enqueue_ok [OF s this new_queued_job_processed [OF Inr]] Inr False s show ?thesis by (simp add: put_def)
    qed (use False s in \<open>simp add: put_def\<close>)
  qed
  then show ?thesis by (simp add: preserves_def)
qed

lemma delete_ok: "preserves (pq_ok P) (delete jid)"
  unfolding delete_def by (intro preserves_intros assign_tracked_ok) simp_all

lemma check_limits_ok: "preserves (pq_ok P) (check_limits env qp job)"
proof -
  have "preserves (pq_ok P) (not_ok env qp job l)" for l
    unfolding not_ok_def by (intro preserves_intros put_ok) (auto split: option.split)
  then show ?thesis unfolding check_limits_def
    by (auto intro!: preserves_intros)
qed

lemma consider_job_ok: "preserves (pq_ok P) (consider_job env qp j)"
  unfolding consider_job_def by (auto intro!: preserves_intros check_limits_ok)

lemma on_queue_get_cases:
  assumes "pq_ok {#} s"
  obtains (taken) x s' where "on_queue rr_get s = (Inr x, s')" "pq_ok {#qj_job_id x#} s'"
      "size (rr_items (pq_queue s')) < size (rr_items (pq_queue s))"
    | (none) s' where "on_queue rr_get s = (Inl QueueEmpty, s')" "pq_ok {#} s'"
      "rr_items (pq_queue s') = rr_items (pq_queue s)"
proof (cases "rr_get (pq_queue s)")
  case (Pair r q)
  have wf: "rr_wf (pq_queue s)" using assms by (simp add: pq_ok_def)
  show ?thesis
  proof (cases r)
    case (Inl e)
    then show ?thesis using none [of "s\<lparr>pq_queue := q\<rparr>"] rr.get_Inl [OF wf, of e q] Pair assms
      by (auto simp: on_queue_def pq_ok_def)
  next
    case (Inr x)
    then have i: "rr_items (pq_queue s) = add_mset x (rr_items q)" "rr_wf q"
      using rr.get_Inr [OF wf, of x q] Pair by auto
    show ?thesis
      using taken [of x "s\<lparr>pq_queue := q\<rparr>"] Inr i Pair assms
      by (auto simp: on_queue_def pq_ok_def)
  qed
qed

lemma remove_pending_ok:
  assumes "pq_ok {#qj_job_id j#} s"
  shows "\<exists>s'. remove_queued_job j s = (Inr (), s') \<and> pq_ok {#} s' \<and> pq_queue s' = pq_queue s \<and>
           pq_queued_jobs s' (qj_job_id j) = None \<and> pq_stopped s' = pq_stopped s"
proof -
  let ?T = "pq_queued_jobs s" and ?i = "qj_job_id j" and ?M = "image_mset qj_job_id (rr_items (pq_queue s))"
  have m: "?M + {#?i#} = mset_set (dom ?T)" and fin: "finite (dom ?T)" using assms by (simp_all add: pq_ok_def)
  then have "?i \<in># mset_set (dom ?T)" by (metis add_mset_add_single union_single_eq_member)
  with fin have in_dom: "?i \<in> dom ?T" by simp
  then have e: "mset_set (dom ?T) = add_mset ?i (mset_set (dom ?T - {?i}))"
    using fin by (metis mset_set.remove)
  with m have M: "?M = mset_set (dom ?T - {?i})" by simp
  then have "?i \<notin># ?M" using fin by simp
  then have "\<forall>x \<in># rr_items (pq_queue s). qj_job_id x \<noteq> ?i" by (metis image_eqI set_image_mset)
  then show ?thesis
    using assms M in_dom fin by (auto simp: remove_queued_job_def pq_ok_def act_simps ran_def) blast
qed

lemma finally_remove:
  assumes "pq_ok {#qj_job_id x#} s"
  obtains s1 s2 where "consider_job env qp x s = (fst (consider_job env qp x s), s1)"
    "finallyS (consider_job env qp x) (remove_queued_job x) s = (fst (consider_job env qp x s), s2)"
    "pq_ok {#qj_job_id x#} s1" "pq_ok {#} s2" "pq_queue s2 = pq_queue s1" "pq_queued_jobs s2 (qj_job_id x) = None"
proof (cases "consider_job env qp x s")
  case (Pair r s1)
  have s1: "pq_ok {#qj_job_id x#} s1"
    using preservesD [OF consider_job_ok assms Pair] .
  from remove_pending_ok [OF s1] show ?thesis using that [of s1] s1 Pair by (auto simp: finallyS_def)
qed

lemma get_step_ok: "pq_ok {#} s \<Longrightarrow> pq_ok {#} (snd (get_step env qp s))"
proof -
  assume s: "pq_ok {#} s"
  from s show ?thesis
  proof (cases rule: on_queue_get_cases)
    case (taken x s')
    from finally_remove [OF taken(2), of env qp] obtain s1 s2 where
      f: "finallyS (consider_job env qp x) (remove_queued_job x) s' = (fst (consider_job env qp x s'), s2)"
      "pq_ok {#} s2" by metis
    have "snd (get_step env qp s) = s2"
      using taken(1) f(1) by (cases "fst (consider_job env qp x s')") (auto simp: get_step_def catchS_def bindS_def)
    with f(2) show ?thesis by simp
  next
    case (none s')
    then show ?thesis by (simp add: get_step_def catchS_def bindS_def)
  qed
qed

lemma get_ok: "pq_ok {#} s \<Longrightarrow> pq_ok {#} (snd (get n env qp s))"
proof (induction n arbitrary: s)
  case (Suc n)
  have "pq_ok {#} (snd (get_step (env n) qp s))" using Suc.prems by (rule get_step_ok)
  then show ?case using Suc by (auto simp: bindS_def split: prod.splits sum.splits option.splits)
qed simp

lemma clear_ok: "preserves (pq_ok P) (check_and_clear_processed_jobs env)"
proof -
  have same: "(\<lambda>jid. case pq_queued_jobs s jid of
      Some j \<Rightarrow> if qj_processed j = Some True then None else Some j | None \<Rightarrow> None) = pq_queued_jobs s"
    if "pq_ok P s" for s
  proof
    fix jid
    show "(case pq_queued_jobs s jid of
      Some j \<Rightarrow> if qj_processed j = Some True then None else Some j | None \<Rightarrow> None) = pq_queued_jobs s jid"
      using that by (auto simp: pq_ok_def ran_def split: option.split)
  qed
  show ?thesis unfolding check_and_clear_processed_jobs_def
    by (auto intro!: preserves_intros simp: same) (simp add: pq_ok_def)
qed

text \<open>The states that the operations reach, in any order, with any profile and environment.\<close>

inductive pq_step :: "provisioning_queue \<Rightarrow> provisioning_queue \<Rightarrow> bool" where
  step_put: "put env qp job s = (r, s') \<Longrightarrow> pq_step s s'"
| step_delete: "delete jid s = (r, s') \<Longrightarrow> pq_step s s'"
| step_clear: "check_and_clear_processed_jobs env s = (r, s') \<Longrightarrow> pq_step s s'"
| step_get: "get n envs qp s = (r', s') \<Longrightarrow> pq_step s s'"
| step_destroy: "destroy s = (r, s') \<Longrightarrow> pq_step s s'"

lemma pq_step_ok: "pq_step s s' \<Longrightarrow> pq_ok {#} s \<Longrightarrow> pq_ok {#} s'"
proof (induction rule: pq_step.induct)
  case (step_get n envs qp s r' s')
  then show ?case using get_ok [OF step_get.prems, of n envs qp] by simp
next
  case (step_destroy s r s')
  then show ?case by (auto simp: destroy_def)
qed (blast dest: preservesD [OF put_ok] preservesD [OF delete_ok] preservesD [OF clear_ok])+

lemma pq_reachable_ok: "pq_step\<^sup>*\<^sup>* pq_init s \<Longrightarrow> pq_ok {#} s"
  by (induction rule: rtranclp_induct) (auto intro: pq_ok_init pq_step_ok)

section \<open>What \<open>get\<close> hands out, and that it ends\<close>

definition within_limits :: "queue_env \<Rightarrow> queue_profile \<Rightarrow> soca_job \<Rightarrow> bool" where
  "within_limits env qp job \<longleftrightarrow>
     (\<exists>qmp n. qp_queue_management_params qp = Some qmp \<and>
        (opt_or (max_provisioned_instances qmp) 0 = 0 \<or>
           desired_nodes job = Inr n \<and> env_instance_count env + n \<le> opt_or (max_provisioned_instances qmp) 0) \<and>
        (opt_or (max_running_jobs qmp) 0 = 0 \<or> env_active_jobs env < opt_or (max_running_jobs qmp) 0))"

lemma not_ok_never_True: "not_ok env qp job l s \<noteq> (Inr True, s')"
  by (auto simp: not_ok_def act_simps split: prod.splits sum.splits if_splits)

lemma check_limits_True:
  assumes "check_limits env qp job s = (Inr True, s')"
  shows "within_limits env qp job"
proof -
  from assms obtain r1 r2 where
    r: "is_max_provisioned_instances_limit env qp job = Inr r1" "failed_limit r1 = None"
    "is_max_running_jobs_limit env qp = Inr r2" "failed_limit r2 = None"
    by (auto simp: check_limits_def act_simps bindS_reads not_ok_never_True
        split: sum.splits option.splits prod.splits)
  then show ?thesis
    by (auto simp: is_max_provisioned_instances_limit_def is_max_running_jobs_limit_def bindE_Inr_iff
        within_limits_def Let_def failed_limit_def lc_bool_def lc_fail_def lc_ok_def new_limit_check_def
        split: if_splits option.splits)
qed

lemma consider_job_Some:
  assumes "consider_job env qp x s = (Inr (Some job), s')"
  shows "env_get_job env (qj_job_id x) = Inr (Some job) \<and> state job = Some JS_QUEUED \<and> within_limits env qp job"
  using assms
  by (auto simp: consider_job_def bindS_reads bindS_def [of "check_limits env qp _"] dest: check_limits_True
      split: sum.splits option.splits prod.splits if_splits)

lemma get_step_Some:
  assumes "pq_ok {#} s" "get_step env qp s = (Inr (Some job), s')"
  shows "\<exists>x \<in># rr_items (pq_queue s). env_get_job env (qj_job_id x) = Inr (Some job) \<and>
     state job = Some JS_QUEUED \<and> within_limits env qp job \<and> pq_queued_jobs s' (qj_job_id x) = None"
  using assms(1)
proof (cases rule: on_queue_get_cases)
  case (taken x s1)
  from finally_remove [OF taken(2), of env qp] obtain t1 t2 where
    f: "consider_job env qp x s1 = (fst (consider_job env qp x s1), t1)"
    "finallyS (consider_job env qp x) (remove_queued_job x) s1 = (fst (consider_job env qp x s1), t2)"
    "pq_queued_jobs t2 (qj_job_id x) = None" by metis
  with assms(2) taken(1) have c: "fst (consider_job env qp x s1) = Inr (Some job)" "s' = t2"
    by (auto simp: get_step_def catchS_def bindS_def split: sum.splits if_splits)
  with f(1) have "consider_job env qp x s1 = (Inr (Some job), t1)" by simp
  from consider_job_Some [OF this] have "env_get_job env (qj_job_id x) = Inr (Some job) \<and>
     state job = Some JS_QUEUED \<and> within_limits env qp job" .
  moreover have "x \<in># rr_items (pq_queue s)"
    using taken(1) assms(1) rr.get_Inr [of "pq_queue s" x]
    by (auto simp: on_queue_def pq_ok_def split: prod.splits)
  ultimately show ?thesis using f(3) c(2) by blast
next
  case (none s1)
  with assms(2) show ?thesis by (simp add: get_step_def catchS_def bindS_def)
qed

section \<open>Termination of the loop\<close>

text \<open>
  What \<open>get\<close> relies on: the job cache answers a job id with that job, and neither it nor the
  power function waits for ever.
\<close>

definition cache_ok :: "queue_env \<Rightarrow> bool" where
  "cache_ok env \<longleftrightarrow>
     (\<forall>jid job. env_get_job env jid = Inr (Some job) \<longrightarrow> job_id job = Some jid) \<and>
     (\<forall>jid. env_get_job env jid \<noteq> Inl Blocks) \<and> (\<forall>x y. env_pow env x y \<noteq> Inl Blocks)"

lemma bindE_no_block: "m \<noteq> Inl Blocks \<Longrightarrow> (\<And>x. f x \<noteq> Inl Blocks) \<Longrightarrow> bindE m f \<noteq> Inl Blocks"
  by (cases m) auto

lemma required_no_block: "e \<noteq> Blocks \<Longrightarrow> required e v \<noteq> Inl Blocks"
  by (cases v) auto

lemma foldE_no_block: "(\<And>x a. f x a \<noteq> Inl Blocks) \<Longrightarrow> foldE f xs a \<noteq> Inl Blocks"
  by (induction xs arbitrary: a) (simp_all add: bindE_no_block)

lemma if_no_block: "(b \<Longrightarrow> m \<noteq> Inl Blocks) \<Longrightarrow> (\<not> b \<Longrightarrow> k \<noteq> Inl Blocks) \<Longrightarrow> (if b then m else k) \<noteq> Inl Blocks"
  by simp

lemma num_ops_no_block:
  "float_of_int i \<noteq> Inl Blocks" "num_add a b \<noteq> Inl Blocks" "num_mul a b \<noteq> Inl Blocks"
  "int_truediv i j \<noteq> Inl Blocks" "int_of_float x \<noteq> Inl Blocks" "fdiv x y \<noteq> Inl Blocks" "opt_num_add c d \<noteq> Inl Blocks"
proof -
  show f: "float_of_int i \<noteq> Inl Blocks" for i by (simp add: float_of_int_def split: pyfloat.split)
  then have t: "num_to_float n \<noteq> Inl Blocks" for n by (simp add: num_to_float_def split: pynum.split)
  show na: "num_add a b \<noteq> Inl Blocks" for a b by (cases a; cases b) (simp_all add: bindE_no_block t)
  show "num_mul a b \<noteq> Inl Blocks" by (cases a; cases b) (simp_all add: bindE_no_block t)
  show "int_truediv i j \<noteq> Inl Blocks" by (simp add: int_truediv_def split: pyfloat.split)
  show "int_of_float x \<noteq> Inl Blocks" by (cases x) auto
  show "fdiv x y \<noteq> Inl Blocks" by (cases x; cases y) auto
  show "opt_num_add c d \<noteq> Inl Blocks" by (simp add: opt_num_add_def bindE_no_block required_no_block na)
qed

lemmas no_block = bindE_no_block required_no_block foldE_no_block if_no_block num_ops_no_block

lemma get_job_priority_no_block:
  assumes "cache_ok env" shows "get_job_priority env qp job \<noteq> Inl Blocks"
proof -
  have ts: "timestamp_float t \<noteq> Inl Blocks" for t by (simp add: timestamp_float_def no_block)
  have lic: "total_licenses job \<noteq> Inl Blocks"
    by (simp add: total_licenses_def foldE_no_block bindE_no_block required_no_block)
  have ord: "get_queue_order qp q \<noteq> Inl Blocks" for q
    by (cases "opt_or (qp_queues qp) []") (simp_all add: get_queue_order_def)
  have wb: "wait_bonus env job i \<noteq> Inl Blocks" for i
    unfolding wait_bonus_def Let_def using assms by (intro no_block ts) (auto simp: cache_ok_def)
  have qb: "queued_bonus env job j b \<noteq> Inl Blocks" for j b
    unfolding queued_bonus_def by (intro no_block lic wb) (auto intro!: no_block lic wb)
  have fs: "compute_fairshare_score env job \<noteq> Inl Blocks"
    by (simp add: compute_fairshare_score_def running_penalty_def no_block qb)
  show ?thesis unfolding get_job_priority_def
    by (intro no_block fs ts ord) (auto intro!: no_block ord split: option.split)
qed

lemma put_tracked:
  assumes "is_tracked job s" "cache_ok env"
  shows "fst (put env qp job s) \<noteq> Inl Blocks"
    "size (rr_items (pq_queue (snd (put env qp job s)))) = size (rr_items (pq_queue s))"
  using assms get_job_priority_no_block [OF assms(2), of qp job]
  by (auto simp: put_def bindS_reads assign_tracked_def rr_assign_items split: sum.split)

lemma not_ok_tracked:
  assumes "is_tracked job s" "cache_ok env" "is_queue_limit l \<noteq> Inl Blocks"
  shows "fst (not_ok env qp job l s) \<noteq> Inl Blocks"
    "size (rr_items (pq_queue (snd (not_ok env qp job l s)))) = size (rr_items (pq_queue s))"
  using put_tracked [OF assms(1,2), of qp] assms(3)
  by (auto simp: not_ok_def act_simps split: prod.splits sum.splits option.splits)

lemma is_queue_limit_no_block: "is_queue_limit l \<noteq> Inl Blocks"
  by (simp add: is_queue_limit_def no_block split: option.split)

lemma consider_job_tracked:
  assumes "pq_ok {#qj_job_id x#} s" "cache_ok env"
  shows "fst (consider_job env qp x s) \<noteq> Inl Blocks"
    "size (rr_items (pq_queue (snd (consider_job env qp x s)))) = size (rr_items (pq_queue s))"
proof -
  have "qj_job_id x \<in># mset_set (dom (pq_queued_jobs s))"
    using assms(1) unfolding pq_ok_def by (metis add_mset_add_single union_single_eq_member)
  then have "qj_job_id x \<in> dom (pq_queued_jobs s)"
    using assms(1) by (simp add: pq_ok_def)
  then have t: "is_tracked job s" if "env_get_job env (qj_job_id x) = Inr (Some job)" for job
    using that assms(2) by (auto simp: cache_ok_def is_tracked_def)
  have l1: "is_max_provisioned_instances_limit env qp job \<noteq> Inl Blocks" for job
    unfolding is_max_provisioned_instances_limit_def desired_nodes_def get_params_def Let_def invalid_job_def
    by (intro no_block) (auto intro!: no_block)
  have l2: "is_max_running_jobs_limit env qp \<noteq> Inl Blocks"
    unfolding is_max_running_jobs_limit_def Let_def by (intro no_block) auto
  have nb: "env_get_job env (qj_job_id x) \<noteq> Inl Blocks" using assms(2) by (simp add: cache_ok_def)
  have cl: "fst (check_limits env qp job s) \<noteq> Inl Blocks \<and>
      size (rr_items (pq_queue (snd (check_limits env qp job s)))) = size (rr_items (pq_queue s))"
    if "is_tracked job s" for job
    using l1 [of job] l2 not_ok_tracked [OF that assms(2) is_queue_limit_no_block, of qp]
    by (auto simp: check_limits_def bindS_reads thenS_apply split: sum.split option.split)
  show "fst (consider_job env qp x s) \<noteq> Inl Blocks"
    using nb cl t
    by (auto simp: consider_job_def bindS_reads bindS_def [of "check_limits env qp _"]
        split: sum.splits option.splits prod.splits)
      (metis fst_conv)+
  show "size (rr_items (pq_queue (snd (consider_job env qp x s)))) = size (rr_items (pq_queue s))"
    using cl t
    by (auto simp: consider_job_def bindS_reads bindS_def [of "check_limits env qp _"]
        split: sum.splits option.splits prod.splits)
      (metis snd_conv)+
qed

lemma get_step_shrinks:
  assumes "pq_ok {#} s" "cache_ok env"
  shows "fst (get_step env qp s) \<noteq> Inl Blocks"
    "get_step env qp s = (Inr None, s') \<Longrightarrow> size (rr_items (pq_queue s')) < size (rr_items (pq_queue s))"
proof -
  have "fst (get_step env qp s) \<noteq> Inl Blocks \<and>
    (\<forall>s'. get_step env qp s = (Inr None, s') \<longrightarrow> size (rr_items (pq_queue s')) < size (rr_items (pq_queue s)))"
    using assms(1)
  proof (cases rule: on_queue_get_cases)
    case (taken x s1)
    from finally_remove [OF taken(2), of env qp] obtain t1 t2 where
      f: "consider_job env qp x s1 = (fst (consider_job env qp x s1), t1)"
      "finallyS (consider_job env qp x) (remove_queued_job x) s1 = (fst (consider_job env qp x s1), t2)"
      "pq_queue t2 = pq_queue t1" by metis
    note c = consider_job_tracked [OF taken(2) assms(2), of qp]
    have "snd (consider_job env qp x s1) = t1" using f(1) by (metis snd_conv)
    with c(2) f(3) taken(3) have "size (rr_items (pq_queue t2)) < size (rr_items (pq_queue s))" by simp
    then show ?thesis using taken(1) f(2) c(1)
      by (auto simp: get_step_def catchS_def bindS_def split: sum.splits)
  next
    case (none s1)
    then show ?thesis by (simp add: get_step_def catchS_def bindS_def)
  qed
  then show "fst (get_step env qp s) \<noteq> Inl Blocks"
    "get_step env qp s = (Inr None, s') \<Longrightarrow> size (rr_items (pq_queue s')) < size (rr_items (pq_queue s))"
    by blast+
qed

lemma get_ends:
  assumes "pq_ok {#} s" "\<And>k. cache_ok (env k)" "size (rr_items (pq_queue s)) < n"
  shows "fst (get n env qp s) \<noteq> Inl Blocks"
  using assms(1,3)
proof (induction n arbitrary: s)
  case (Suc n)
  show ?case
  proof (cases "get_step (env n) qp s")
    case (Pair r s')
    have nb: "r \<noteq> Inl Blocks" using get_step_shrinks(1) [OF Suc.prems(1) assms(2)] Pair by (metis fst_conv)
    have ok: "pq_ok {#} s'" using get_step_ok [OF Suc.prems(1), of "env n" qp] Pair by simp
    have "r = Inr None \<Longrightarrow> fst (get n env qp s') \<noteq> Inl Blocks"
      using get_step_shrinks(2) [OF Suc.prems(1) assms(2), of n qp s'] Pair Suc.prems(2) Suc.IH [OF ok] by simp
    with nb Pair show ?thesis by (auto simp: bindS_def split: sum.split option.split)
  qed
qed simp

lemma get_hands_out:
  assumes "pq_ok {#} s" "get n env qp s = (Inr (Some job), s')"
  shows "\<exists>k < n. state job = Some JS_QUEUED \<and> within_limits (env k) qp job"
  using assms
proof (induction n arbitrary: s)
  case (Suc n)
  show ?case
  proof (cases "get_step (env n) qp s")
    case (Pair r t)
    have ok: "pq_ok {#} t" using get_step_ok [OF Suc.prems(1), of "env n" qp] Pair by simp
    consider "r = Inr None" "get n env qp t = (Inr (Some job), s')" | "r = Inr (Some job)"
      using Suc.prems(2) Pair by (auto simp: bindS_def split: if_splits sum.splits option.splits)
    then show ?thesis
    proof cases
      case 1
      with Suc.IH [OF ok] show ?thesis using less_Suc_eq by blast
    next
      case 2
      with get_step_Some [OF Suc.prems(1), of "env n" qp job] Pair show ?thesis by blast
    qed
  qed
qed simp

section \<open>A sample queue\<close>

definition sample_job :: "string \<Rightarrow> string \<Rightarrow> int \<Rightarrow> soca_job" where
  "sample_job jid user seconds = empty_job\<lparr>job_id := Some jid, owner := Some user, queue := Some ''normal'',
     queue_type := Some ''compute'', state := Some JS_QUEUED, queue_time := Some (seconds * 1000000),
     params := Some (empty_job_params\<lparr>p_nodes := Some 1\<rparr>),
     job_options := Some (empty_provisioning_options\<lparr>po_keep_forever := Some False\<rparr>)\<rparr>"

definition sample_limits :: queue_params where
  "sample_limits = \<lparr>max_running_jobs = Some 3, max_provisioned_instances = Some 5,
     max_provisioned_capacity = None, wait_on_any_job_with_license = None, allowed_instance_types = None,
     excluded_instance_types = None, restricted_parameters = None, allowed_security_groups = None,
     allowed_instance_profiles = None\<rparr>"

definition sample_profile :: queue_profile where
  "sample_profile = \<lparr>qp_queue_profile_id = None, qp_name = ''compute'', qp_project_names = None,
     qp_queues = Some [''high'', ''normal''], qp_enabled = Some True, qp_queue_mode = Some FIFO,
     qp_scaling_mode = Some SINGLE_JOB, qp_terminate_when_idle = Some 0, qp_keep_forever = Some False,
     qp_stack_uuid = None, qp_queue_management_params = Some sample_limits, qp_default_job_params = None,
     qp_status = None, qp_limit_info = None, qp_queue_size = None\<rparr>"

text \<open>Five jobs known to the cache, by their ids; \<open>n\<close> instances are running.\<close>

definition sample_env :: "int \<Rightarrow> queue_env" where
  "sample_env n = \<lparr>env_now_ms = 0, env_now = 0,
     env_list_jobs = (\<lambda>st. if st = JS_RUNNING then [sample_job ''7'' ''ann'' 10] else []),
     env_get_job = (\<lambda>jid. Inr (map_of (map (\<lambda>(i, t). (i, sample_job i ''ann'' t))
        [(''1'', 100), (''2'', 200), (''3'', 300), (''4'', 400), (''5'', 500)]) jid)),
     env_active_jobs = 0, env_instance_count = n, env_start_score = Some 100,
     env_running_job_penalty = Some (- 60), env_score_type = Some ''static'', env_c1 = None, env_c2 = None,
     env_pow = (\<lambda>x y. Inr x), env_digest = (\<lambda>s. s)\<rparr>"

lemma sample_cache_ok: "cache_ok (sample_env n)"
  by (auto simp: cache_ok_def sample_env_def sample_job_def split: if_splits)

definition sample_entry :: queued_job where
  "sample_entry = \<lparr>qj_priority = NI 101, qj_job_id = ''1'', qj_job_group = ''compute'', qj_deleted = None,
     qj_processed = None, qj_capacity_added = None\<rparr>"

definition sample_state :: provisioning_queue where
  "sample_state = pq_init\<lparr>pq_queued_jobs := [''1'' \<mapsto> sample_entry],
     pq_queue := \<lparr>rr_map = [''compute'' \<mapsto> [sample_entry]], rr_queues = [''compute''], rr_index = 0, rr_maxsize = 10000\<rparr>\<rparr>"

lemma sample_priority: "0 \<le> t \<Longrightarrow> t \<le> 2 ^ 20 \<Longrightarrow> get_job_priority (sample_env n) sample_profile (sample_job (str_of_nat i) u t) = Inr (NI (t + int i))"
proof -
  assume t: "0 \<le> t" "t \<le> 2 ^ 20"
  have "timestamp_float (Some (t * 1000000)) = Inr (Fin (of_int t))"
    using t by (simp add: timestamp_float_def int_truediv_def rnd_of_int)
  then show ?thesis
    by (simp add: get_job_priority_def effective_queue_mode_def sample_profile_def get_queue_order_def sample_job_def
       try_extract_job_id_as_int_def int_of_str_of_nat empty_job_def)
qed

lemma str_of_nat_1: "str_of_nat 1 = ''1''"
  by code_simp

lemma sample_new: "0 \<le> t \<Longrightarrow> t \<le> 2 ^ 20 \<Longrightarrow> new_queued_job (sample_env n) sample_profile (sample_job (str_of_nat i) u t) =
   Inr \<lparr>qj_priority = NI (t + int i), qj_job_id = str_of_nat i, qj_job_group = ''compute'', qj_deleted = None, qj_processed = None, qj_capacity_added = None\<rparr>"
  by (simp add: new_queued_job_def sample_priority)
     (simp add: sample_job_def sample_profile_def is_ephemeral_capacity_def empty_job_def empty_provisioning_options_def)

lemma sample_put:
  "put (sample_env n) sample_profile (sample_job ''1'' ''ann'' 100) pq_init = (Inr (), sample_state)"
proof -
  have n: "new_queued_job (sample_env n) sample_profile (sample_job ''1'' ''ann'' 100) = Inr sample_entry"
    using sample_new [of 100 n 1 "''ann''"] by (simp add: str_of_nat_1 [simplified] sample_entry_def)
  have "is_queue_applicable sample_profile (queue (sample_job ''1'' ''ann'' 100))"
    "state (sample_job ''1'' ''ann'' 100) = Some JS_QUEUED" "\<not> is_provisioned (sample_job ''1'' ''ann'' 100)"
    "\<not> is_tracked (sample_job ''1'' ''ann'' 100) pq_init"
    by (simp_all add: is_queue_applicable_def sample_profile_def sample_job_def is_provisioned_def
        is_tracked_def empty_job_def empty_job_params_def pq_init_def)
  then show ?thesis
    by (simp add: put_def n act_simps on_queue_def rr_put_enter pq_put_def pq_init_def rr_init_def rr_enter_def
        sample_state_def sample_entry_def heappush_def siftdown.simps rr_heap_def)
qed

lemma sample_reachable: "pq_step\<^sup>*\<^sup>* pq_init sample_state"
  by (rule r_into_rtranclp) (rule step_put [OF sample_put])

lemma sample_items: "rr_items (pq_queue sample_state) = {#sample_entry#}"
  by (simp add: sample_state_def rr_items_def rr_heap_def)

lemma sample_pq_rr_get: "on_queue rr_get sample_state =
   (Inr sample_entry, sample_state\<lparr>pq_queue := (pq_queue sample_state)\<lparr>rr_map := [''compute'' \<mapsto> []]\<rparr>\<rparr>)"
  by (simp add: on_queue_def rr_get_def sample_state_def rr_heap_def heappop_def Let_def)

lemma sample_get_job: "env_get_job (sample_env n) (qj_job_id sample_entry) = Inr (Some (sample_job ''1'' ''ann'' 100))"
  by (simp add: sample_env_def sample_entry_def)

lemma sample_get:
  "\<exists>s'. get 1 (\<lambda>_. sample_env 0) sample_profile sample_state = (Inr (Some (sample_job ''1'' ''ann'' 100)), s')"
proof -
  let ?j = "sample_job ''1'' ''ann'' 100"
  have j: "desired_nodes ?j = Inr 1" "state ?j = Some JS_QUEUED"
    by (simp_all add: desired_nodes_def get_params_def sample_job_def)
  have "\<exists>r1 r2. is_max_provisioned_instances_limit (sample_env 0) sample_profile ?j = Inr r1 \<and> failed_limit r1 = None \<and>
    is_max_running_jobs_limit (sample_env 0) sample_profile = Inr r2 \<and> failed_limit r2 = None"
    by (simp add: is_max_provisioned_instances_limit_def is_max_running_jobs_limit_def j sample_profile_def
        sample_limits_def sample_env_def failed_limit_def lc_ok_def lc_bool_def)
  then have "\<exists>t'. check_limits (sample_env 0) sample_profile ?j t = (Inr True, t') \<and> pq_queued_jobs t' = pq_queued_jobs t" for t
    by (auto simp: check_limits_def thenS_apply)
  note cl = this
  have cj: "\<exists>t'. consider_job (sample_env 0) sample_profile sample_entry t = (Inr (Some ?j), t') \<and> pq_queued_jobs t' = pq_queued_jobs t" for t
  proof -
    obtain t' where "check_limits (sample_env 0) sample_profile ?j t = (Inr True, t')" "pq_queued_jobs t' = pq_queued_jobs t"
      using cl by blast
    then show ?thesis by (simp add: consider_job_def bindS_reads sample_get_job j bindS_eqI(1))
  qed
  let ?s = "sample_state\<lparr>pq_queue := (pq_queue sample_state)\<lparr>rr_map := [''compute'' \<mapsto> []]\<rparr>\<rparr>"
  obtain t' where t': "consider_job (sample_env 0) sample_profile sample_entry ?s = (Inr (Some ?j), t')"
    "pq_queued_jobs t' ''1'' = Some sample_entry"
    using cj [of ?s] by (auto simp: sample_state_def)
  then have "\<exists>t''. get_step (sample_env 0) sample_profile sample_state = (Inr (Some ?j), t'')"
    by (simp add: get_step_def catchS_def bindS_def [of "on_queue rr_get"] sample_pq_rr_get finallyS_def bindS_prim remove_queued_job_def
        sample_entry_def)
  then show ?thesis by (auto simp: bindS_def sample_state_def pq_init_def)
qed

section \<open>Properties\<close>

lemma get_step_forgets:
  assumes "pq_ok {#} s" "rr_get (pq_queue s) = (Inr x, q)" "get_step env qp s = (r, s')"
  shows "pq_queued_jobs s' (qj_job_id x) = None \<and> (\<forall>y \<in># rr_items (pq_queue s'). qj_job_id y \<noteq> qj_job_id x)"
proof -
  have ok: "pq_ok {#} s'" using get_step_ok [OF assms(1), of env qp] assms(3) by simp
  have "pq_queued_jobs s' (qj_job_id x) = None"
    using assms(1)
  proof (cases rule: on_queue_get_cases)
    case (taken x' s1)
    then have x: "x' = x" using assms(2) by (simp add: on_queue_def)
    from finally_remove [OF taken(2), of env qp] obtain t2 where
      f: "finallyS (consider_job env qp x) (remove_queued_job x) s1 = (fst (consider_job env qp x s1), t2)"
      "pq_queued_jobs t2 (qj_job_id x) = None" unfolding x by metis
    have "s' = t2" using taken(1) f(1) assms(3) x
      by (cases "fst (consider_job env qp x s1)") (auto simp: get_step_def catchS_def bindS_def split: if_splits)
    with f(2) show ?thesis by simp
  next
    case (none s1)
    with assms(2) show ?thesis by (simp add: on_queue_def)
  qed
  moreover from this have "\<forall>y \<in># rr_items (pq_queue s'). qj_job_id y \<noteq> qj_job_id x"
    using ok by (auto simp: pq_ok_def)
  ultimately show ?thesis by simp
qed

lemma tracked_if_queued:
  assumes "pq_ok {#} s" "rr_get (pq_queue s) = (Inr x, q)"
  shows "pq_queued_jobs s (qj_job_id x) = Some x"
  using assms rr.get_Inr [of "pq_queue s" x q] by (auto simp: pq_ok_def)

text \<open>C1: In every state the operations of the provisioning queue reach, in whatever order and with
  whatever configuration and cache contents, a job lies in the round robin queue exactly once if
  it is tracked and not at all otherwise: no job is queued twice and none is tracked in vain.\<close>

lemma queue_each_job_once:
  assumes "pq_step\<^sup>*\<^sup>* pq_init s"
  shows "count (image_mset qj_job_id (rr_items (pq_queue s))) jid = (if pq_queued_jobs s jid = None then 0 else 1)"
proof -
  have "pq_ok {#} s" using assms by (rule pq_reachable_ok)
  then have "image_mset qj_job_id (rr_items (pq_queue s)) = mset_set (dom (pq_queued_jobs s))"
    "finite (dom (pq_queued_jobs s))" by (simp_all add: pq_ok_def)
  then show ?thesis by (auto simp: count_mset_set dom_def)
qed

lemma queue_each_job_once_witness:
  "count (image_mset qj_job_id (rr_items (pq_queue sample_state))) ''1'' = 1"
  using queue_each_job_once [OF sample_reachable, of "''1''"] by (simp add: sample_state_def)

text \<open>C3: The loop of \<open>get\<close> ends: with a job cache that answers by job id, at most one more turn than
  there are jobs in the queue is taken, whether a job is returned or an exception raised.\<close>

lemma get_terminates:
  assumes "pq_step\<^sup>*\<^sup>* pq_init s" "\<And>k. cache_ok (env k)" "size (rr_items (pq_queue s)) < n"
  shows "fst (get n env qp s) \<noteq> Inl Blocks"
  using pq_reachable_ok [OF assms(1)] assms(2,3) by (rule get_ends)

lemma get_terminates_witness:
  "fst (get 2 (\<lambda>_. sample_env 5) sample_profile sample_state) \<noteq> Inl Blocks"
  by (rule get_terminates [OF sample_reachable sample_cache_ok]) (simp add: sample_items)

text \<open>C2: A job that \<open>get\<close> returns was in state QUEUED, and starting it kept the queue within its
  configured maximum of provisioned instances and of running jobs, as counted at that moment.\<close>

lemma get_respects_limits:
  assumes "pq_step\<^sup>*\<^sup>* pq_init s" "get n env qp s = (Inr (Some job), s')"
  shows "\<exists>k < n. state job = Some JS_QUEUED \<and> within_limits (env k) qp job"
  using get_hands_out [OF pq_reachable_ok [OF assms(1)] assms(2)] .

lemma get_respects_limits_witness:
  "within_limits (sample_env 0) sample_profile (sample_job ''1'' ''ann'' 100)"
  using get_respects_limits [OF sample_reachable, of 1 "\<lambda>_. sample_env 0" sample_profile] sample_get by blast

text \<open>C6: A job over the instance limit of its queue is lost: \<open>get\<close> takes it out, fails to put it
  back because it is still tracked, drops the tracking entry and reports an empty queue; the job is then
  neither queued nor tracked.\<close>

lemma job_over_limit_is_lost:
  assumes "pq_step\<^sup>*\<^sup>* pq_init s" "rr_get (pq_queue s) = (Inr x, q)"
    and job: "env_get_job env (qj_job_id x) = Inr (Some job)" "job_id job = Some (qj_job_id x)"
      "state job = Some JS_QUEUED" "get_job_priority env qp job = Inr p"
    and limit: "qp_queue_management_params qp = Some qmp" "max_provisioned_instances qmp = Some m" "m \<noteq> 0"
      "desired_nodes job = Inr n" "m < env_instance_count env + n"
  shows "\<exists>s'. get_step env qp s = (Inl JobProvisioningQueueEmpty, s') \<and> pq_queued_jobs s' (qj_job_id x) = None \<and>
     (\<forall>y \<in># rr_items (pq_queue s'). qj_job_id y \<noteq> qj_job_id x)"
proof -
  have ok: "pq_ok {#} s" using assms(1) by (rule pq_reachable_ok)
  have tr: "pq_queued_jobs s (qj_job_id x) = Some x" using tracked_if_queued [OF ok assms(2)] .
  define t where "t = s\<lparr>pq_queue := q\<rparr>"
  have "fst (put env qp job t) = Inr ()"
    using tr job by (simp add: put_def is_tracked_def t_def bindS_reads assign_tracked_def)
  then obtain t1 where put: "put env qp job t = (Inr (), t1)" by (cases "put env qp job t") auto
  obtain l where l: "is_max_provisioned_instances_limit env qp job = Inr (Some l)" "failed_limit (Some l) = Some l"
    "is_queue_limit l = Inr True"
    using limit by (auto simp: is_max_provisioned_instances_limit_def failed_limit_def lc_bool_def lc_fail_def is_queue_limit_def)
  have "fst (check_limits env qp job t) = Inl QueueEmpty"
    using put by (simp add: check_limits_def l not_ok_def act_simps split: option.split)
  then have c: "fst (consider_job env qp x t) = Inl QueueEmpty"
    using job by (cases "check_limits env qp job t") (auto simp: consider_job_def bindS_reads bindS_def)
  have "pq_ok {#qj_job_id x#} t"
    using ok assms(2) rr.get_Inr [of "pq_queue s" x q] by (auto simp: pq_ok_def t_def)
  from finally_remove [OF this, of env qp] c obtain t2 where
    "finallyS (consider_job env qp x) (remove_queued_job x) t = (Inl QueueEmpty, t2)" by metis
  then have g: "get_step env qp s = (Inl JobProvisioningQueueEmpty, t2)"
    using assms(2) by (simp add: get_step_def catchS_def bindS_def on_queue_def t_def)
  with get_step_forgets [OF ok assms(2) g] show ?thesis by blast
qed

lemma job_over_limit_is_lost_witness:
  "\<exists>s'. get_step (sample_env 5) sample_profile sample_state = (Inl JobProvisioningQueueEmpty, s') \<and>
     pq_queued_jobs s' ''1'' = None"
proof -
  obtain q where q: "rr_get (pq_queue sample_state) = (Inr sample_entry, q)"
    using sample_pq_rr_get by (auto simp: on_queue_def split: prod.splits)
  have pr: "get_job_priority (sample_env 5) sample_profile (sample_job ''1'' ''ann'' 100) = Inr (NI 101)"
    using sample_priority [of 100 5 1 "''ann''"] by (simp add: str_of_nat_1 [simplified])
  have "\<exists>s'. get_step (sample_env 5) sample_profile sample_state = (Inl JobProvisioningQueueEmpty, s') \<and>
     pq_queued_jobs s' (qj_job_id sample_entry) = None \<and>
     (\<forall>y \<in># rr_items (pq_queue s'). qj_job_id y \<noteq> qj_job_id sample_entry)"
    by (rule job_over_limit_is_lost [OF sample_reachable q sample_get_job])
      (rule pr | simp add: sample_job_def sample_entry_def sample_profile_def sample_limits_def desired_nodes_def
         get_params_def sample_env_def)+
  then show ?thesis by (auto simp: sample_entry_def)
qed

lemma queued_bonus_others:
  "\<forall>j \<in> set js. owner j \<noteq> owner job \<Longrightarrow> foldE (queued_bonus env job) js b = Inr b"
  by (induction js arbitrary: b) (auto simp: queued_bonus_def)

text \<open>Fair share scores a job by the start score plus the penalty for every running job of its
  owner. With the negative penalty of the shipped configuration the owner of running jobs thus gets the
  smaller number, which the priority queue serves first.\<close>

lemma fairshare_score:
  assumes "env_start_score env = Some st" "env_running_job_penalty env = Some pen"
    and "\<forall>j \<in> set (env_list_jobs env JS_QUEUED). owner j \<noteq> owner job"
  shows "compute_fairshare_score env job =
     Inr (NI (st + pen * int (length (filter (\<lambda>j. owner j = owner job) (env_list_jobs env JS_RUNNING)))))"
proof -
  have "foldE (running_penalty env job) js (Some (NI a))
      = Inr (Some (NI (a + pen * int (length (filter (\<lambda>j. owner j = owner job) js)))))" for js a
    using assms(2) by (induction js arbitrary: a) (auto simp: opt_num_add_def running_penalty_def algebra_simps)
  with queued_bonus_others [OF assms(3)] assms(1) show ?thesis
    by (simp add: compute_fairshare_score_def opt_num_add_def)
qed

lemma fairshare_score_witness:
  "compute_fairshare_score (sample_env 0) (sample_job ''1'' ''ann'' 100) = Inr (NI 40) \<and>
   compute_fairshare_score (sample_env 0) (sample_job ''1'' ''bob'' 100) = Inr (NI 100)"
  using fairshare_score [of "sample_env 0" 100 "- 60" "sample_job ''1'' ''ann'' 100"]
    fairshare_score [of "sample_env 0" 100 "- 60" "sample_job ''1'' ''bob'' 100"]
  by (simp add: sample_env_def sample_job_def)

section \<open>Behaviour that differs from the documentation of the code\<close>

text \<open>The position of the queue in the profile never enters the priority.\<close>

lemma get_queue_order_constant:
  "get_queue_order qp queue_name =
     (if opt_or (qp_queues qp) [] = [] then Inl (SocaException ''GENERAL_ERROR'') else Inr 1)"
  by (cases "opt_or (qp_queues qp) []") (simp_all add: get_queue_order_def)

text \<open>Without the configuration key the score is None, and adding to it raises TypeError.\<close>

lemma fairshare_unconfigured:
  assumes "env_start_score env = None" "\<forall>j \<in> set (env_list_jobs env JS_RUNNING) \<union> set (env_list_jobs env JS_QUEUED). owner j \<noteq> owner job"
  shows "compute_fairshare_score env job = Inl TypeError"
proof -
  have "\<forall>j \<in> set js. owner j \<noteq> owner job \<Longrightarrow> foldE (running_penalty env job) js a = Inr a" for js a
    by (induction js arbitrary: a) (auto simp: running_penalty_def)
  with queued_bonus_others assms show ?thesis
    by (simp add: compute_fairshare_score_def opt_num_add_def)
qed

text \<open>Assigning a priority to a job in the heap does not move it: the job with the least priority stays behind.\<close>

definition entry_with :: "string \<Rightarrow> int \<Rightarrow> queued_job" where
  "entry_with jid p = sample_entry\<lparr>qj_job_id := jid, qj_priority := NI p\<rparr>"

lemma modified_priority_is_ignored:
  "let q = \<lparr>rr_map = [''compute'' \<mapsto> [entry_with ''1'' 101, entry_with ''2'' 202, entry_with ''3'' 303]],
            rr_queues = [''compute''], rr_index = 0, rr_maxsize = 10000\<rparr>;
       q' = rr_assign ''3'' (\<lambda>j. j\<lparr>qj_priority := NI 5\<rparr>) q
   in rr_sorted q \<and> fst (rr_get q') = Inr (entry_with ''1'' 101) \<and>
      entry_with ''3'' 5 \<in> set (rr_heap q' ''compute'') \<and> qj_lt (entry_with ''3'' 5) (entry_with ''1'' 101)"
proof -
  have "heap_ok qj_lt [entry_with ''1'' 101, entry_with ''2'' 202, entry_with ''3'' 303]"
    by (auto simp: heap_ok_def parent_def qj_lt_def entry_with_def less_Suc_eq)
  then show ?thesis
    by (simp add: Let_def rr_sorted_def rr_heap_def rr_assign_def rr_get_def heappop_def num_priority_def num_val_def
        entry_with_def sample_entry_def qj_lt_def heap_ok_def)
qed

end
