(* ===== verification/Param_Context.thy ===== *)
theory Param_Context
  imports Queue_Types Job_Model
begin

text \<open>
  What the parameter builders of \<open>ideascheduler/app/scheduler/job_param_builder.py\<close> share:
  \<open>JobParamsBuilderContext\<close> (the validation entries, the failed parameters and the two objects being built)
  and the helpers of \<open>BaseParamBuilder\<close>. A validation entry is its error code, the name of the parameter;
  its message is left out.
\<close>

section \<open>The surroundings of a builder\<close>

text \<open>
  \<open>EC2InstanceType\<close> is read through its accessors. The record \<open>build_env\<close> holds what a builder reads and
  never changes: the submitted parameters, the queue profile, the configuration, and as functions the
  answers of AWS, of pydantic (which turns a dict into a model or raises), of \<open>random.choice\<close>, of the
  order in which Python enumerates a set, and of \<open>ast.literal_eval\<close>.
\<close>

record ec2_type =
  et_default_vcpus :: "int option"
  et_default_cores :: "int option"
  et_default_threads :: "int option"
  et_memory_mib :: "int option"
  et_cpu_options_supported :: "bool option"
  et_ebs_optimized_support :: "string option"
  et_placement_strategies :: "string list option"
  et_efa_supported :: "bool option"

record build_env =
  be_params :: pydict
  be_fmt :: "pyval \<Rightarrow> string"
  be_queue :: "queue_profile option"
  be_provider :: "string res"
  be_cluster_name :: string
  be_compute_node_os :: "string option"
  be_compute_node_ami :: "string option"
  be_instance_profile :: "string option"
  be_security_group_ids :: "string list"
  be_private_subnets :: "string list res"
  be_solution_metrics :: bool
  be_all_instance_types :: "string list"
  be_ec2_type :: "string \<Rightarrow> ec2_type res"
  be_s3_error :: "string \<Rightarrow> string option res"
  be_security_group_valid :: "string \<Rightarrow> bool res"
  be_instance_profile_arn :: "string \<Rightarrow> string option res"
  be_parse_fsx :: "pydict \<Rightarrow> fsx_config res"
  be_parse_memory :: "pydict \<Rightarrow> soca_memory res"
  be_literal_eval :: "string \<Rightarrow> pyval res"
  be_random_choice :: "string list \<Rightarrow> string"
  be_set_order :: "string list \<Rightarrow> string list"

record build_state =
  bs_results :: "string list"
  bs_failed :: "string set"
  bs_job_params :: job_params
  bs_options :: provisioning_options

type_synonym 'a build = "(build_state, 'a) act"

definition is_instance_type_valid :: "build_env \<Rightarrow> string \<Rightarrow> bool res" where
  "is_instance_type_valid env t =
     (case be_ec2_type env t of
        Inr _ \<Rightarrow> Inr True
      | Inl e \<Rightarrow> if e = SocaException ''INVALID_EC2_INSTANCE_TYPE'' then Inr False else Inl e)"

definition is_instance_type_efa_supported :: "build_env \<Rightarrow> string \<Rightarrow> bool option res" where
  "is_instance_type_efa_supported env t = bindE (be_ec2_type env t) (\<lambda>et. Inr (et_efa_supported et))"

definition random_choice :: "build_env \<Rightarrow> string list \<Rightarrow> string res" where
  "random_choice env xs = (if xs = [] then Inl IndexError else Inr (be_random_choice env xs))"

text \<open>\<open>SocaMemory(value=i, unit=u)\<close>: pydantic rejects None and an int that no float can hold.\<close>

definition memory_of_int :: "int option \<Rightarrow> mem_unit \<Rightarrow> soca_memory res" where
  "memory_of_int v u =
     (case v of None \<Rightarrow> Inl ValidationError
      | Some i \<Rightarrow> (case float_of_int i of Inl _ \<Rightarrow> Inl ValidationError | Inr x \<Rightarrow> Inr (SocaMemory x u)))"

section \<open>The context\<close>

definition is_failed :: "string list \<Rightarrow> build_state \<Rightarrow> bool" where
  "is_failed names s = (\<exists>p \<in> set names. p \<in> bs_failed s)"

definition add_validation_entry :: "string \<Rightarrow> unit build" where
  "add_validation_entry param = modify (\<lambda>s.
     if is_failed [param] s then s
     else s\<lparr>bs_results := bs_results s @ [param], bs_failed := insert param (bs_failed s)\<rparr>)"

text \<open>The stack id: the argument, then the one of the queue profile, then a fresh one.\<close>

definition new_context :: "queue_profile option \<Rightarrow> string option \<Rightarrow> string \<Rightarrow> build_state" where
  "new_context qp stack_uuid fresh_uuid =
     (let uuid = (if is_empty_opt_str stack_uuid then (case qp of None \<Rightarrow> stack_uuid | Some q \<Rightarrow> qp_stack_uuid q)
                  else stack_uuid);
          uuid' = (if is_empty_opt_str uuid then Some fresh_uuid else uuid)
      in \<lparr>bs_results = [], bs_failed = {}, bs_job_params = empty_job_params,
          bs_options = empty_provisioning_options\<lparr>po_stack_uuid := uuid'\<rparr>\<rparr>)"

definition queue_management :: "build_env \<Rightarrow> queue_params option" where
  "queue_management env = (case be_queue env of None \<Rightarrow> None | Some q \<Rightarrow> qp_queue_management_params q)"

definition default_job_params :: "build_env \<Rightarrow> job_params option" where
  "default_job_params env = (case be_queue env of None \<Rightarrow> None | Some q \<Rightarrow> qp_default_job_params q)"

text \<open>The default the queue has for a parameter, if it has one.\<close>

definition queue_default :: "build_env \<Rightarrow> (job_params \<Rightarrow> 'a option) \<Rightarrow> 'a option" where
  "queue_default env sel = (case default_job_params env of None \<Rightarrow> None | Some p \<Rightarrow> sel p)"

section \<open>Helpers of the builders\<close>

text \<open>\<open>positive\<close> is the value of \<open>value > 0\<close> (of \<open>value >= 0\<close>), which exists for an int, a float and a memory amount.\<close>

definition eval_positive_nonzero_int :: "string \<Rightarrow> bool \<Rightarrow> bool build" where
  "eval_positive_nonzero_int param positive =
     (if positive then ret True else thenS (add_validation_entry param) (ret False))"

definition eval_positive_int :: "string \<Rightarrow> bool \<Rightarrow> bool build" where
  "eval_positive_int param nonnegative =
     (if nonnegative then ret True else thenS (add_validation_entry param) (ret False))"

definition fail_with :: "string \<Rightarrow> bool build" where
  "fail_with param = thenS (add_validation_entry param) (ret False)"

text \<open>The names a parameter has in OpenPBS, as \<open>JOB_PARAM_INFO\<close> lists them.\<close>

definition provider_names :: "(string \<times> string) list" where
  "provider_names =
     [(''instance_types'', ''instance_type''), (''force_reserved_instances'', ''force_ri''),
      (''subnet_ids'', ''subnet_id''), (''keep_ebs_volumes'', ''keep_ebs''),
      (''root_storage_size'', ''root_size''), (''scratch_storage_size'', ''scratch_size''),
      (''scratch_storage_iops'', ''scratch_iops''), (''enable_efa_support'', ''efa_support''),
      (''enable_ht_support'', ''ht_support''), (''enable_placement_group'', ''placement_group''),
      (''enable_system_metrics'', ''system_metrics''), (''enable_anonymous_metrics'', ''anonymous_metrics'')]"

definition provider_param_name :: "build_env \<Rightarrow> string \<Rightarrow> string option res" where
  "provider_param_name env name =
     (case map_of provider_names name of
        None \<Rightarrow> Inr None
      | Some pbs_name \<Rightarrow> bindE (be_provider env) (\<lambda>p. Inr (if p = ''openpbs'' then Some pbs_name else None)))"

definition check_restricted :: "queue_params \<Rightarrow> string \<Rightarrow> bool build" where
  "check_restricted qm name =
     (if is_restricted_parameter qm name then thenS (add_validation_entry name) (ret True) else ret False)"

definition is_restricted :: "build_env \<Rightarrow> string \<Rightarrow> bool build" where
  "is_restricted env name =
     (case queue_management env of
        None \<Rightarrow> ret False
      | Some qm \<Rightarrow>
          bindS (reads (\<lambda>_. provider_param_name env name)) (\<lambda>pbs_name.
          bindS (check_restricted qm name) (\<lambda>r.
            if r then ret True
            else case pbs_name of None \<Rightarrow> ret False | Some p \<Rightarrow> check_restricted qm p)))"

text \<open>\<open>if value is None: return True\<close>, and then \<open>if self.is_restricted_parameter(): return False\<close>.\<close>

definition given :: "'a option res \<Rightarrow> ('a \<Rightarrow> bool build) \<Rightarrow> bool build" where
  "given value k = bindS (reads (\<lambda>_. value)) (\<lambda>v. case v of None \<Rightarrow> ret True | Some x \<Rightarrow> k x)"

text \<open>The same inside \<open>try: ... except SocaException\<close>: the exception becomes an entry.\<close>

definition given_or_entry :: "'a option res \<Rightarrow> string \<Rightarrow> ('a \<Rightarrow> bool build) \<Rightarrow> bool build" where
  "given_or_entry value param k =
     (case value of Inl (SocaException c) \<Rightarrow> fail_with param | r \<Rightarrow> given r k)"

definition unless_restricted :: "build_env \<Rightarrow> string \<Rightarrow> bool build \<Rightarrow> bool build" where
  "unless_restricted env name k = bindS (is_restricted env name) (\<lambda>r. if r then ret False else k)"

definition unless_failed :: "string list \<Rightarrow> bool build \<Rightarrow> bool build" where
  "unless_failed names k = bindS (gets (is_failed names)) (\<lambda>f. if f then ret False else k)"

definition set_param :: "(job_params \<Rightarrow> job_params) \<Rightarrow> unit build" where
  "set_param f = modify (\<lambda>s. s\<lparr>bs_job_params := f (bs_job_params s)\<rparr>)"

definition set_option :: "(provisioning_options \<Rightarrow> provisioning_options) \<Rightarrow> unit build" where
  "set_option f = modify (\<lambda>s. s\<lparr>bs_options := f (bs_options s)\<rparr>)"

section \<open>What validation may change\<close>

text \<open>
  The entries name each failed parameter once, and validating never touches the objects being built. Both are
  instances of one relation between the state before and after: entries are only added at the end.
\<close>

definition ctx_ok :: "build_state \<Rightarrow> bool" where
  "ctx_ok s \<longleftrightarrow> distinct (bs_results s) \<and> set (bs_results s) = bs_failed s"

definition extends :: "build_state \<Rightarrow> build_state \<Rightarrow> bool" where
  "extends s t \<longleftrightarrow>
     bs_job_params t = bs_job_params s \<and> bs_options t = bs_options s \<and>
     bs_failed s \<subseteq> bs_failed t \<and> (\<exists>new. bs_results t = bs_results s @ new)"

definition validating :: "'a build \<Rightarrow> bool" where
  "validating m \<longleftrightarrow> (\<forall>s. extends s (snd (m s)) \<and> (ctx_ok s \<longrightarrow> ctx_ok (snd (m s))))"

definition building :: "'a build \<Rightarrow> bool" where
  "building m \<longleftrightarrow> (\<forall>s. bs_results (snd (m s)) = bs_results s \<and> bs_failed (snd (m s)) = bs_failed s)"

named_theorems build_rules \<open>what a step of a builder changes\<close>

lemma extends_refl [simp]: "extends s s"
  by (simp add: extends_def)

lemma extends_trans: "extends s t \<Longrightarrow> extends t u \<Longrightarrow> extends s u"
  by (auto simp: extends_def)

lemma validatingD: "validating m \<Longrightarrow> m s = (r, t) \<Longrightarrow> extends s t \<and> (ctx_ok s \<longrightarrow> ctx_ok t)"
  unfolding validating_def by (metis snd_conv)

lemma validating_prim [build_rules]:
  "validating (ret x)" "validating (throw e)" "validating (gets f)" "validating (reads g)"
  by (simp_all add: validating_def)

lemma validating_bindS [build_rules]:
  assumes "validating m" "\<And>x. validating (k x)"
  shows "validating (bindS m k)"
  unfolding validating_def
proof
  fix s
  obtain r t where m: "m s = (r, t)" by (cases "m s")
  with assms(1) have st: "extends s t \<and> (ctx_ok s \<longrightarrow> ctx_ok t)" by (rule validatingD)
  show "extends s (snd (bindS m k s)) \<and> (ctx_ok s \<longrightarrow> ctx_ok (snd (bindS m k s)))"
  proof (cases r)
    case (Inl e)
    with m st show ?thesis by (simp add: bindS_def)
  next
    case (Inr x)
    have "extends t (snd (k x t)) \<and> (ctx_ok t \<longrightarrow> ctx_ok (snd (k x t)))"
      using assms(2) [of x] by (simp add: validating_def)
    with m st Inr show ?thesis by (auto simp: bindS_def intro: extends_trans)
  qed
qed

lemma validating_thenS [build_rules]: "validating m \<Longrightarrow> validating k \<Longrightarrow> validating (thenS m k)"
  by (simp add: thenS_def validating_bindS)

lemma validating_if [build_rules]:
  "(b \<Longrightarrow> validating m) \<Longrightarrow> (\<not> b \<Longrightarrow> validating k) \<Longrightarrow> validating (if b then m else k)"
  by simp

lemma validating_option [build_rules]:
  "validating m \<Longrightarrow> (\<And>x. validating (f x)) \<Longrightarrow> validating (case v of None \<Rightarrow> m | Some x \<Rightarrow> f x)"
  by (simp split: option.split)

lemma validating_sum [build_rules]:
  "(\<And>e. validating (h e)) \<Longrightarrow> (\<And>x. validating (f x)) \<Longrightarrow> validating (case v of Inl e \<Rightarrow> h e | Inr x \<Rightarrow> f x)"
  by (simp split: sum.split)

lemma validating_prod [build_rules]:
  "(\<And>a b. validating (f a b)) \<Longrightarrow> validating (case p of (a, b) \<Rightarrow> f a b)"
  by (simp split: prod.split)

lemma validating_Let [build_rules]: "(\<And>x. validating (f x)) \<Longrightarrow> validating (Let v f)"
  by (simp add: Let_def)

lemma validating_add_entry [build_rules]: "validating (add_validation_entry p)"
  by (auto simp: validating_def add_validation_entry_def extends_def ctx_ok_def is_failed_def)

lemma validating_helpers [build_rules]:
  "validating (eval_positive_nonzero_int p b)" "validating (eval_positive_int p b)" "validating (fail_with p)"
  "validating (check_restricted qm p)" "validating (is_restricted env name)"
  "(\<And>x. validating (g x)) \<Longrightarrow> validating (given value g)"
  "validating k \<Longrightarrow> validating (unless_restricted env name k)"
  "validating k \<Longrightarrow> validating (unless_failed names k)"
  unfolding eval_positive_nonzero_int_def eval_positive_int_def fail_with_def check_restricted_def is_restricted_def
    given_def unless_restricted_def unless_failed_def
  by (intro build_rules | assumption)+

lemma validating_given_or_entry [build_rules]:
  "(\<And>x. validating (g x)) \<Longrightarrow> validating (given_or_entry value p g)"
  unfolding given_or_entry_def by (simp split: sum.split exc.split add: build_rules)

lemma building_prim [build_rules]:
  "building (ret x)" "building (throw e)" "building (gets f)" "building (reads g)"
  "building (set_param h)" "building (set_option k)"
  by (simp_all add: building_def set_param_def set_option_def)

lemma building_bindS [build_rules]: "building m \<Longrightarrow> (\<And>x. building (k x)) \<Longrightarrow> building (bindS m k)"
  by (auto simp: building_def bindS_def split: prod.splits sum.splits) (metis snd_conv)+

lemma building_thenS [build_rules]: "building m \<Longrightarrow> building k \<Longrightarrow> building (thenS m k)"
  by (simp add: thenS_def building_bindS)

lemma building_if [build_rules]:
  "(b \<Longrightarrow> building m) \<Longrightarrow> (\<not> b \<Longrightarrow> building k) \<Longrightarrow> building (if b then m else k)"
  by simp

lemma building_option [build_rules]:
  "building m \<Longrightarrow> (\<And>x. building (f x)) \<Longrightarrow> building (case v of None \<Rightarrow> m | Some x \<Rightarrow> f x)"
  by (simp split: option.split)

section \<open>Failing entries\<close>

lemma add_validation_entry_failed:
  "snd (add_validation_entry p s) = s' \<Longrightarrow> p \<in> bs_failed s'"
  by (auto simp: add_validation_entry_def is_failed_def)

lemma unless_restricted_by_name:
  assumes "queue_management env = Some qm" "is_restricted_parameter qm name" "provider_param_name env name = Inr pn"
  shows "unless_restricted env name k s = (Inr False, snd (add_validation_entry name s))"
  using assms
  by (simp add: unless_restricted_def is_restricted_def check_restricted_def thenS_def bindS_def add_validation_entry_def)

end
