(* ===== verification/Param_Get.thy ===== *)
theory Param_Get
  imports Param_Context
begin

text \<open>
  The \<open>get\<close> and \<open>default\<close> methods of the parameter builders of \<open>job_param_builder.py\<close>: what the user
  supplied, read from the dict of submitted parameters, and what applies when nothing was supplied. Several
  parameters have a second name from before version 3, which is read first.
\<close>

section \<open>Reading the submitted parameters\<close>

definition int_param :: "build_env \<Rightarrow> string \<Rightarrow> int option res" where
  "int_param env key = get_value_as_int key (be_params env) None"

definition str_param :: "build_env \<Rightarrow> string \<Rightarrow> string option" where
  "str_param env key = get_value_as_string (be_fmt env) key (be_params env) None"

definition bool_param :: "build_env \<Rightarrow> string \<Rightarrow> bool option" where
  "bool_param env key = get_value_as_bool key (be_params env) None"

definition bool_param2 :: "build_env \<Rightarrow> string \<Rightarrow> string \<Rightarrow> bool option" where
  "bool_param2 env old_key key = opt_else (bool_param env old_key) (bool_param env key)"

definition int_param2 :: "build_env \<Rightarrow> string \<Rightarrow> string \<Rightarrow> int option res" where
  "int_param2 env old_key key =
     bindE (int_param env old_key) (\<lambda>v. case v of Some i \<Rightarrow> Inr (Some i) | None \<Rightarrow> int_param env key)"

text \<open>
  A list of submitted values is a list of strings in the requests the scheduler accepts; the code fails with a
  TypeError at the first use of another element, the model when the list is read.
\<close>

fun str_element :: "pyval \<Rightarrow> string res" where
  "str_element (PStr s) = Inr s"
| "str_element _ = Inl TypeError"

section \<open>Counts and sizes\<close>

definition nodes_get :: "build_env \<Rightarrow> int option res" where
  "nodes_get env = int_param env ''nodes''"

definition nodes_default :: "build_env \<Rightarrow> int" where
  "nodes_default env = opt_or (queue_default env p_nodes) 1"

definition cpus_get :: "build_env \<Rightarrow> int option res" where
  "cpus_get env = int_param env ''cpus''"

definition cpus_default :: "build_env \<Rightarrow> int" where
  "cpus_default env = opt_or (queue_default env p_cpus) 1"

definition memory_get :: "build_env \<Rightarrow> bool \<Rightarrow> soca_memory option res" where
  "memory_get env raise_exc =
     (case str_param env ''memory'' of
        None \<Rightarrow> Inr None
      | Some m \<Rightarrow>
          (case resolve_memory (Some m) (Some MiB) None of
             Inr v \<Rightarrow> Inr v
           | Inl (SocaException c) \<Rightarrow> if raise_exc then Inl (SocaException c) else Inr None
           | Inl e \<Rightarrow> Inl e))"

definition memory_default :: "build_env \<Rightarrow> soca_memory option" where
  "memory_default env = queue_default env p_memory"

definition gpus_get :: "build_env \<Rightarrow> int option res" where
  "gpus_get env = int_param env ''gpus''"

definition gpus_default :: "build_env \<Rightarrow> int option" where
  "gpus_default env = queue_default env p_gpus"

definition mpiprocs_get :: "build_env \<Rightarrow> int option res" where
  "mpiprocs_get env = int_param env ''mpiprocs''"

definition mpiprocs_default :: "build_env \<Rightarrow> int option" where
  "mpiprocs_default env = queue_default env p_mpiprocs"

definition base_os_get :: "build_env \<Rightarrow> string option" where
  "base_os_get env = str_param env ''base_os''"

definition base_os_default :: "build_env \<Rightarrow> string option" where
  "base_os_default env = opt_else (queue_default env p_base_os) (be_compute_node_os env)"

definition instance_ami_get :: "build_env \<Rightarrow> string option" where
  "instance_ami_get env = str_param env ''instance_ami''"

definition instance_ami_default :: "build_env \<Rightarrow> string option" where
  "instance_ami_default env = opt_else (queue_default env p_instance_ami) (be_compute_node_ami env)"

section \<open>Instance types\<close>

text \<open>\<open>for x in value\<close>: a list, the keys of a dict, or the characters of a str.\<close>

fun iterate :: "pyval \<Rightarrow> string list res" where
  "iterate (PList vs) = traverseE str_element vs"
| "iterate (PDict kvs) = Inr (map fst kvs)"
| "iterate (PStr s) = Inr (map (\<lambda>c. [c]) s)"
| "iterate _ = Inl TypeError"

definition dedupe :: "string list \<Rightarrow> string list" where
  "dedupe xs = fold (\<lambda>x r. if x \<in> set r then r else r @ [x]) xs []"

text \<open>Only a str under the old name is split at the plus signs.\<close>

definition instance_types_get :: "build_env \<Rightarrow> string list option res" where
  "instance_types_get env =
     (let value =
        (case get_any_value ''instance_type'' (be_params env) of
           None \<Rightarrow> get_any_value ''instance_types'' (be_params env)
         | Some (PStr s) \<Rightarrow> Some (PList (map PStr (split_char (CHR ''+'') s)))
         | Some v \<Rightarrow> Some v)
      in case value of
           None \<Rightarrow> Inr None
         | Some v \<Rightarrow>
             if is_empty v then Inr None
             else bindE (iterate v) (\<lambda>types. Inr (Some (dedupe types))))"

definition instance_types_default :: "build_env \<Rightarrow> string list option" where
  "instance_types_default env = queue_default env p_instance_types"

text \<open>What the other builders iterate over; \<open>for ... in None\<close> is a TypeError.\<close>

definition effective_instance_types :: "build_env \<Rightarrow> string list res" where
  "effective_instance_types env =
     bindE (instance_types_get env) (\<lambda>types.
       if is_empty_opt_list types then required TypeError (instance_types_default env)
       else required TypeError types)"

definition force_reserved_get :: "build_env \<Rightarrow> bool option" where
  "force_reserved_get env = bool_param2 env ''force_ri'' ''force_reserved_instances''"

definition force_reserved_default :: "build_env \<Rightarrow> bool" where
  "force_reserved_default env = opt_or (queue_default env p_force_reserved_instances) False"

section \<open>Spot capacity\<close>

datatype spot_price = SPrice pyfloat | SText string

definition spot_price_get :: "build_env \<Rightarrow> spot_price option res" where
  "spot_price_get env =
     (case get_any_value ''spot_price'' (be_params env) of
        Some (PDict value) \<Rightarrow>
          bindE (get_value_as_float ''amount'' value None) (\<lambda>amount.
            case amount of
              None \<Rightarrow> Inr None
            | Some x \<Rightarrow> if feq x (Fin 0) then Inr (Some (SText ''auto'')) else Inr (Some (SPrice x)))
      | _ \<Rightarrow>
          bindE (get_value_as_float ''spot_price'' (be_params env) None) (\<lambda>value.
            case value of
              Some x \<Rightarrow> Inr (Some (SPrice x))
            | None \<Rightarrow> Inr (map_option SText (str_param env ''spot_price''))))"

definition spot_price_default :: "build_env \<Rightarrow> pyfloat option" where
  "spot_price_default env = queue_default env p_spot_price"

definition spot_get :: "build_env \<Rightarrow> bool option res" where
  "spot_get env =
     bindE (spot_price_get env) (\<lambda>price.
       if price \<noteq> None then Inr (Some True) else Inr (bool_param env ''spot''))"

definition spot_default :: "build_env \<Rightarrow> bool" where
  "spot_default env = opt_or (queue_default env p_spot) False"

definition spot_allocation_count_get :: "build_env \<Rightarrow> int option res" where
  "spot_allocation_count_get env =
     bindE (int_param env ''spot_allocation_count'') (\<lambda>v. Inr (if v = Some 0 then None else v))"

definition spot_allocation_count_default :: "build_env \<Rightarrow> int option" where
  "spot_allocation_count_default env = queue_default env p_spot_allocation_count"

text \<open>The capacity type reads which parameters failed so far.\<close>

definition get_capacity_type :: "build_env \<Rightarrow> build_state \<Rightarrow> SocaCapacityType option res" where
  "get_capacity_type env s =
     (if is_failed [''nodes'', ''spot'', ''spot_allocation_count''] s then Inr None
      else bindE (nodes_get env) (\<lambda>nodes.
        if nodes = None then Inr None
        else bindE (spot_get env) (\<lambda>spot.
          if \<not> is_true_opt spot then Inr (Some ONDEMAND)
          else bindE (spot_allocation_count_get env) (\<lambda>count.
            Inr (Some (case count of None \<Rightarrow> SPOT | Some c \<Rightarrow> if c \<le> 0 then SPOT else MIXED))))))"

definition is_capacity :: "build_env \<Rightarrow> SocaCapacityType \<Rightarrow> build_state \<Rightarrow> bool res" where
  "is_capacity env t s = bindE (get_capacity_type env s) (\<lambda>c. Inr (c = Some t))"

definition spot_allocation_strategy_get ::
  "build_env \<Rightarrow> bool \<Rightarrow> build_state \<Rightarrow> SocaSpotAllocationStrategy option res" where
  "spot_allocation_strategy_get env raise_exc s =
     (if is_failed [''spot''] s then Inr None
      else bindE (spot_get env) (\<lambda>spot.
        if is_false_opt spot then Inr None
        else case str_param env ''spot_allocation_strategy'' of
               None \<Rightarrow> Inr None
             | Some v \<Rightarrow>
                 (case resolve_strategy (Some v) None of
                    Some strategy \<Rightarrow> Inr (Some strategy)
                  | None \<Rightarrow> if raise_exc then Inl (SocaException ''INVALID_PARAMS'') else Inr None)))"

definition spot_allocation_strategy_default ::
  "build_env \<Rightarrow> build_state \<Rightarrow> SocaSpotAllocationStrategy option res" where
  "spot_allocation_strategy_default env s =
     bindE (is_capacity env MIXED s) (\<lambda>mixed. bindE (if mixed then Inr True else is_capacity env SPOT s) (\<lambda>b.
       if b
       then Inr (opt_else (queue_default env p_spot_allocation_strategy)
                   (resolve_strategy (Some ''capacity-optimized'') None))
       else Inr None))"

section \<open>Placement\<close>

text \<open>A number asks for the first private subnets of the cluster.\<close>

definition first_subnets :: "build_env \<Rightarrow> bool \<Rightarrow> pyval \<Rightarrow> string list option res" where
  "first_subnets env raise_exc v =
     bindE (get_as_int v None) (\<lambda>i. bindE (required TypeError i) (\<lambda>n.
     bindE (be_private_subnets env) (\<lambda>subnets.
       if \<not> (0 < n \<and> n \<le> int (length subnets))
       then (if raise_exc then Inl (SocaException ''INVALID_PARAMS'') else Inr None)
       else Inr (Some (take (nat n) subnets)))))"

fun listed_subnets :: "pyval \<Rightarrow> string list option res" where
  "listed_subnets (PList vs) = bindE (traverseE str_element vs) (\<lambda>ids. Inr (Some ids))"
| "listed_subnets (PStr s) = Inr (Some (split_char (CHR ''+'') s))"
| "listed_subnets _ = Inr None"

definition subnet_ids_get :: "build_env \<Rightarrow> bool \<Rightarrow> string list option res" where
  "subnet_ids_get env raise_exc =
     (case opt_else (get_any_value ''subnet_id'' (be_params env)) (get_any_value ''subnet_ids'' (be_params env)) of
        None \<Rightarrow> Inr None
      | Some v \<Rightarrow>
          bindE (is_int v) (\<lambda>number. if number then first_subnets env raise_exc v else listed_subnets v))"

definition enable_efa_get :: "build_env \<Rightarrow> bool option" where
  "enable_efa_get env = bool_param2 env ''efa_support'' ''enable_efa_support''"

definition enable_efa_default :: "build_env \<Rightarrow> bool" where
  "enable_efa_default env = opt_or (queue_default env p_enable_efa_support) False"

definition enable_ht_get :: "build_env \<Rightarrow> bool option" where
  "enable_ht_get env = bool_param2 env ''ht_support'' ''enable_ht_support''"

definition enable_ht_default :: "build_env \<Rightarrow> bool" where
  "enable_ht_default env = opt_or (queue_default env p_enable_ht_support) False"

definition placement_group_get :: "build_env \<Rightarrow> bool option" where
  "placement_group_get env = bool_param2 env ''placement_group'' ''enable_placement_group''"

text \<open>A single node, several subnets or spot capacity turn the placement group off; the default number of nodes is not looked at.\<close>

definition placement_group_default :: "build_env \<Rightarrow> build_state \<Rightarrow> bool res" where
  "placement_group_default env s =
     bindE (nodes_get env) (\<lambda>nodes.
       if nodes = Some 1 then Inr False
       else bindE (subnet_ids_get env False) (\<lambda>subnets.
         if (case subnets of None \<Rightarrow> False | Some ids \<Rightarrow> length ids > 1) then Inr False
         else bindE (is_capacity env SPOT s) (\<lambda>spot.
           if spot then Inr False
           else bindE (is_capacity env MIXED s) (\<lambda>mixed.
             if mixed then Inr False
             else Inr (opt_or (queue_default env p_enable_placement_group) False)))))"

definition security_groups_get :: "build_env \<Rightarrow> string list option res" where
  "security_groups_get env =
     (case get_any_value ''security_groups'' (be_params env) of
        Some (PList vs) \<Rightarrow> bindE (traverseE str_element vs) (\<lambda>ids. Inr (Some ids))
      | Some (PStr s) \<Rightarrow> Inr (Some (split_char (CHR ''+'') s))
      | _ \<Rightarrow> Inr None)"

definition security_groups_default :: "build_env \<Rightarrow> string list" where
  "security_groups_default env =
     (let groups = queue_default env p_security_groups
      in if is_empty_opt_list groups then be_security_group_ids env else the groups)"

definition instance_profile_get :: "build_env \<Rightarrow> string option" where
  "instance_profile_get env = str_param env ''instance_profile''"

definition instance_profile_default :: "build_env \<Rightarrow> string option" where
  "instance_profile_default env = opt_else (queue_default env p_instance_profile) (be_instance_profile env)"

section \<open>Storage\<close>

definition keep_ebs_get :: "build_env \<Rightarrow> bool option" where
  "keep_ebs_get env = bool_param2 env ''keep_ebs'' ''keep_ebs_volumes''"

definition keep_ebs_default :: "build_env \<Rightarrow> bool" where
  "keep_ebs_default env = opt_or (queue_default env p_keep_ebs_volumes) False"

text \<open>A size: an int in GB under either name, else a dict for pydantic, which rejects anything else.\<close>

definition size_param :: "build_env \<Rightarrow> string \<Rightarrow> string \<Rightarrow> soca_memory option res" where
  "size_param env old_key key =
     bindE (int_param2 env old_key key) (\<lambda>v.
       case v of
         Some i \<Rightarrow> bindE (memory_of_int (Some i) GB) (\<lambda>m. Inr (Some m))
       | None \<Rightarrow>
           (case get_any_value key (be_params env) of
              None \<Rightarrow> Inr None
            | Some (PDict kvs) \<Rightarrow> bindE (be_parse_memory env kvs) (\<lambda>m. Inr (Some m))
            | Some _ \<Rightarrow> Inl ValidationError))"

definition root_storage_size_get :: "build_env \<Rightarrow> soca_memory option res" where
  "root_storage_size_get env = size_param env ''root_size'' ''root_storage_size''"

definition root_storage_size_default :: "build_env \<Rightarrow> soca_memory" where
  "root_storage_size_default env = opt_or (queue_default env p_root_storage_size) (SocaMemory (Fin 10) GB)"

definition scratch_storage_size_get :: "build_env \<Rightarrow> soca_memory option res" where
  "scratch_storage_size_get env = size_param env ''scratch_size'' ''scratch_storage_size''"

definition scratch_storage_size_default :: "build_env \<Rightarrow> soca_memory" where
  "scratch_storage_size_default env = opt_or (queue_default env p_scratch_storage_size) (SocaMemory (Fin 0) GB)"

definition scratch_iops_get :: "build_env \<Rightarrow> int option res" where
  "scratch_iops_get env = int_param2 env ''scratch_iops'' ''scratch_storage_iops''"

definition scratch_iops_default :: "build_env \<Rightarrow> int" where
  "scratch_iops_default env = opt_or (queue_default env p_scratch_storage_iops) 0"

section \<open>FSx for Lustre\<close>

definition fsx_size_param :: "build_env \<Rightarrow> soca_memory option res" where
  "fsx_size_param env =
     (case get_any_value ''fsx_lustre_size'' (be_params env) of
        None \<Rightarrow> Inr None
      | Some (PDict kvs) \<Rightarrow> bindE (be_parse_memory env kvs) (\<lambda>m. Inr (Some m))
      | Some v \<Rightarrow> bindE (get_as_int v None) (\<lambda>i. bindE (memory_of_int i GB) (\<lambda>m. Inr (Some m))))"

text \<open>\<open>bucket+export+import\<close>: the tokens of the string value.\<close>

definition fsx_of_tokens :: "string list \<Rightarrow> fsx_config" where
  "fsx_of_tokens tokens =
     (let backend = hd tokens;
          s3 = (if startswith ''s3://'' backend then backend else ''s3://'' @ backend)
      in empty_fsx_config\<lparr>fsx_enabled := Some True, s3_backend := Some s3,
           export_path := (if length tokens \<ge> 2 then Some (tokens ! 1) else None),
           import_path := (if length tokens \<ge> 3 then Some (tokens ! 2) else None)\<rparr>)"

definition fsx_lustre_get :: "build_env \<Rightarrow> fsx_config option res" where
  "fsx_lustre_get env =
     (case get_any_value ''fsx_lustre'' (be_params env) of
        Some (PDict kvs) \<Rightarrow> bindE (be_parse_fsx env kvs) (\<lambda>c. Inr (Some c))
      | _ \<Rightarrow>
          bindE (fsx_size_param env) (\<lambda>size.
          bindE (int_param env ''fsx_lustre_per_unit_throughput'') (\<lambda>throughput.
            let deployment = map_option lower (str_param env ''fsx_lustre_deployment_type'');
                with_options = (\<lambda>c. c\<lparr>fsx_size := size, per_unit_throughput := throughput, deployment_type := deployment\<rparr>);
                disabled = empty_fsx_config\<lparr>fsx_enabled := Some False\<rparr>
            in case (bool_param env ''fsx_lustre'', str_param env ''fsx_lustre'') of
                 (None, None) \<Rightarrow> Inr None
               | (Some False, _) \<Rightarrow> Inr (Some disabled)
               | (Some True, _) \<Rightarrow> Inr (Some (with_options (empty_fsx_config\<lparr>fsx_enabled := Some True\<rparr>)))
               | (None, Some value) \<Rightarrow>
                   if startswith ''fs-'' value \<or> startswith ''fc-'' value
                   then Inr (Some (empty_fsx_config\<lparr>fsx_enabled := Some True, existing_fsx := Some value\<rparr>))
                   else Inr (Some (with_options (fsx_of_tokens (split_char (CHR ''+'') value)))))))"

definition fsx_lustre_default :: "build_env \<Rightarrow> string option \<Rightarrow> fsx_config" where
  "fsx_lustre_default env backend =
     (let d = opt_or (queue_default env p_fsx_lustre) empty_fsx_config
      in case existing_fsx d of
           Some fs \<Rightarrow> empty_fsx_config\<lparr>existing_fsx := Some fs\<rparr>
         | None \<Rightarrow>
             let deployment = opt_or (deployment_type d) ''scratch_2''
             in empty_fsx_config\<lparr>
                  s3_backend := opt_else backend (s3_backend d),
                  deployment_type := Some deployment,
                  per_unit_throughput :=
                    (if deployment \<in> set [''persistent_1'', ''persistent_2''] then Some 200 else None),
                  fsx_size := Some (opt_or (fsx_size d) (SocaMemory (Fin 1200) GB))\<rparr>)"

definition enable_scratch_default :: "build_env \<Rightarrow> bool" where
  "enable_scratch_default env = opt_or (queue_default env p_enable_scratch) False"

definition enable_scratch_get :: "build_env \<Rightarrow> bool option res" where
  "enable_scratch_get env =
     (case bool_param env ''enable_scratch'' of
        Some b \<Rightarrow> Inr (Some b)
      | None \<Rightarrow>
          bindE (scratch_storage_size_get env) (\<lambda>size. bindE (fsx_lustre_get env) (\<lambda>fsx.
            if (case size of None \<Rightarrow> False | Some m \<Rightarrow> mem_gt_num m 0) then Inr (Some True)
            else if (case fsx of None \<Rightarrow> False | Some c \<Rightarrow> is_true_opt (fsx_enabled c)) then Inr (Some True)
            else Inr (Some (enable_scratch_default env)))))"

text \<open>The default subnets of a job: those of the queue, else those of the cluster or one of them. FSx for Lustre,
  EFA and placement groups narrow them to one.\<close>

definition available_subnets :: "build_env \<Rightarrow> int \<Rightarrow> build_state \<Rightarrow> string list res" where
  "available_subnets env nodes s =
     (let of_queue = queue_default env p_subnet_ids in
      if \<not> is_empty_opt_list of_queue then Inr (the of_queue)
      else bindE (is_capacity env SPOT s) (\<lambda>spot.
           bindE (if spot then Inr True else is_capacity env MIXED s) (\<lambda>b.
             if b \<or> nodes = 1 then be_private_subnets env
             else bindE (be_private_subnets env) (\<lambda>subnets.
                  bindE (random_choice env subnets) (\<lambda>x. Inr [x])))))"

definition narrow_subnets :: "build_env \<Rightarrow> int \<Rightarrow> string list \<Rightarrow> string list res" where
  "narrow_subnets env nodes ids =
     (if length ids = 1 then Inr ids
      else bindE (fsx_lustre_get env) (\<lambda>fsx.
        if (case fsx of None \<Rightarrow> False | Some c \<Rightarrow> is_true_opt (fsx_enabled c))
        then (if ids = [] then Inl IndexError else Inr [hd ids])
        else if enable_efa_get env = Some True \<and> length ids > 1 \<and> nodes > 1
        then bindE (random_choice env ids) (\<lambda>x. Inr [x])
        else if placement_group_get env = Some True \<and> length ids > 1
        then bindE (random_choice env ids) (\<lambda>x. Inr [x])
        else Inr ids))"

definition subnet_ids_default :: "build_env \<Rightarrow> build_state \<Rightarrow> string list res" where
  "subnet_ids_default env s =
     bindE (nodes_get env) (\<lambda>given_nodes.
       let nodes = opt_or given_nodes (nodes_default env)
       in bindE (available_subnets env nodes s) (narrow_subnets env nodes))"

section \<open>Metrics, licences and provisioning options\<close>

definition system_metrics_get :: "build_env \<Rightarrow> bool option" where
  "system_metrics_get env = bool_param2 env ''system_metrics'' ''enable_system_metrics''"

definition system_metrics_default :: "build_env \<Rightarrow> bool" where
  "system_metrics_default env = opt_or (queue_default env p_enable_system_metrics) False"

definition anonymous_metrics_get :: "build_env \<Rightarrow> bool option" where
  "anonymous_metrics_get env = bool_param2 env ''anonymous_metrics'' ''enable_anonymous_metrics''"

definition anonymous_metrics_default :: "build_env \<Rightarrow> bool" where
  "anonymous_metrics_default env = opt_or (queue_default env p_enable_anonymous_metrics) (be_solution_metrics env)"

text \<open>Every parameter with \<open>_lic_\<close> in its name and an int value asks for a licence of that name.\<close>

definition license_keys :: "build_env \<Rightarrow> string list" where
  "license_keys env = filter (contains ''_lic_'') (map fst (be_params env))"

definition license_of_key :: "build_env \<Rightarrow> string \<Rightarrow> license_ask option res" where
  "license_of_key env key =
     bindE (int_param env key) (\<lambda>v.
       Inr (map_option (\<lambda>i. \<lparr>license_name = Some key, license_count = Some i\<rparr>) v))"

definition licenses_get :: "build_env \<Rightarrow> license_ask list option res" where
  "licenses_get env =
     bindE (traverseE (license_of_key env) (license_keys env)) (\<lambda>asks.
       let found = map the (filter (\<lambda>a. a \<noteq> None) asks) in Inr (if found = [] then None else Some found))"

definition terminate_when_idle_get :: "build_env \<Rightarrow> int option res" where
  "terminate_when_idle_get env = int_param env ''terminate_when_idle''"

definition terminate_when_idle_default :: "build_env \<Rightarrow> int" where
  "terminate_when_idle_default env =
     (case be_queue env of None \<Rightarrow> 0 | Some q \<Rightarrow> opt_or (qp_terminate_when_idle q) 0)"

definition keep_forever_get :: "build_env \<Rightarrow> bool option" where
  "keep_forever_get env = bool_param env ''keep_forever''"

definition keep_forever_default :: "build_env \<Rightarrow> bool" where
  "keep_forever_default env = (case be_queue env of None \<Rightarrow> False | Some q \<Rightarrow> opt_or (qp_keep_forever q) False)"

definition tags_get :: "build_env \<Rightarrow> bool \<Rightarrow> pyval option res" where
  "tags_get env raise_exc =
     (let tags = str_param env ''tags'' in
      if is_empty_opt_str tags then Inr None
      else case be_literal_eval env (the tags) of
             Inr v \<Rightarrow> Inr (Some v)
           | Inl _ \<Rightarrow> if raise_exc then Inl (SocaException ''INVALID_PARAMS'') else Inr None)"

section \<open>Stack, group, templates, wall time\<close>

definition compute_stack_get :: "build_env \<Rightarrow> string option" where
  "compute_stack_get env = opt_else (str_param env ''compute_node'') (str_param env ''compute_stack'')"

definition compute_stack_default :: "build_env \<Rightarrow> string option" where
  "compute_stack_default env = queue_default env p_compute_stack"

definition stack_id_get :: "build_env \<Rightarrow> string option" where
  "stack_id_get env = str_param env ''stack_id''"

definition stack_id_default :: "build_env \<Rightarrow> string option" where
  "stack_id_default env = queue_default env p_stack_id"

definition job_group_get :: "build_env \<Rightarrow> string option" where
  "job_group_get env = str_param env ''job_group''"

definition job_group_default :: "build_env \<Rightarrow> string option" where
  "job_group_default env = queue_default env p_job_group"

definition job_started_template_get :: "build_env \<Rightarrow> string option" where
  "job_started_template_get env = str_param env ''job_started_email_template''"

definition job_completed_template_get :: "build_env \<Rightarrow> string option" where
  "job_completed_template_get env = str_param env ''job_completed_email_template''"

definition walltime_get :: "build_env \<Rightarrow> string option" where
  "walltime_get env = str_param env ''walltime''"

definition walltime_default :: "build_env \<Rightarrow> string option" where
  "walltime_default env = queue_default env p_walltime"

section \<open>Properties of the readers\<close>

lemma dedupe_properties: "set (dedupe xs) = set xs" "distinct (dedupe xs)"
proof -
  have "set (fold (\<lambda>x r. if x \<in> set r then r else r @ [x]) xs r) = set r \<union> set xs \<and>
      (distinct r \<longrightarrow> distinct (fold (\<lambda>x r. if x \<in> set r then r else r @ [x]) xs r))" for r :: "string list"
    by (induction xs arbitrary: r) auto
  from this [of "[]"] show "set (dedupe xs) = set xs" "distinct (dedupe xs)"
    by (auto simp: dedupe_def)
qed

lemma queue_default_none: "be_queue env = None \<Longrightarrow> queue_default env sel = None"
  by (simp add: queue_default_def default_job_params_def)

lemma fsx_of_tokens_backend: "\<exists>b. s3_backend (fsx_of_tokens ts) = Some b \<and> startswith ''s3://'' b"
  by (simp add: fsx_of_tokens_def Let_def startswith_def empty_fsx_config_def)

end
