(* ===== verification/Param_Validate.thy ===== *)
theory Param_Validate
  imports Param_Get
begin

text \<open>
  The \<open>validate\<close> methods of the parameter builders of \<open>job_param_builder.py\<close>. Each is an operation on the
  build state: it adds validation entries and answers whether the parameter is valid. Parameters whose
  validation depends on others ask whether those failed before; the order of the builders matters.
\<close>

section \<open>Counts and sizes\<close>

definition nodes_validate :: "build_env \<Rightarrow> bool build" where
  "nodes_validate env = given (nodes_get env) (\<lambda>n.
     unless_restricted env ''nodes'' (eval_positive_nonzero_int ''nodes'' (0 < n)))"

text \<open>The smallest number of CPUs of the instance types; \<open>min\<close> with None is a TypeError.\<close>

definition min_cpus :: "build_env \<Rightarrow> bool \<Rightarrow> string list \<Rightarrow> int res" where
  "min_cpus env ht types =
     foldE (\<lambda>t m. bindE (be_ec2_type env t) (\<lambda>et.
       bindE (required TypeError (if ht then et_default_vcpus et else et_default_cores et)) (\<lambda>n. Inr (min m n))))
       types 9999999"

definition cpus_validate :: "build_env \<Rightarrow> bool build" where
  "cpus_validate env = given (cpus_get env) (\<lambda>cpus.
     unless_restricted env ''cpus''
       (bindS (eval_positive_nonzero_int ''cpus'' (0 < cpus)) (\<lambda>ok.
          if \<not> ok then ret False
          else unless_failed [''instance_types'', ''enable_ht_support'']
            (bindS (reads (\<lambda>_. effective_instance_types env)) (\<lambda>types.
             bindS (reads (\<lambda>_. min_cpus env (opt_or (enable_ht_get env) (enable_ht_default env)) types)) (\<lambda>m.
               if cpus > m then fail_with ''cpus'' else ret True))))))"

definition instance_memory :: "build_env \<Rightarrow> string \<Rightarrow> soca_memory res" where
  "instance_memory env t = bindE (be_ec2_type env t) (\<lambda>et. memory_of_int (et_memory_mib et) MiB)"

text \<open>An amount that is not positive is entered under the name of the CPUs.\<close>

definition memory_validate :: "build_env \<Rightarrow> bool build" where
  "memory_validate env =
     given_or_entry (memory_get env True) ''memory'' (\<lambda>memory.
          unless_restricted env ''memory''
            (bindS (eval_positive_nonzero_int ''cpus'' (mem_gt_num memory 0)) (\<lambda>ok.
               if \<not> ok then ret False
               else unless_failed [''instance_types'']
                 (bindS (reads (\<lambda>_. effective_instance_types env)) (\<lambda>types.
                  bindS (reads (\<lambda>_. bindE (traverseE (instance_memory env) types) mem_min)) (\<lambda>smallest.
                  bindS (reads (\<lambda>_. mem_gt memory smallest)) (\<lambda>too_much.
                    if too_much then fail_with ''memory'' else ret True)))))))"

definition gpus_validate :: "build_env \<Rightarrow> bool build" where
  "gpus_validate env = given (gpus_get env) (\<lambda>n.
     unless_restricted env ''gpus'' (eval_positive_nonzero_int ''gpus'' (0 < n)))"

definition mpiprocs_validate :: "build_env \<Rightarrow> bool build" where
  "mpiprocs_validate env = given (mpiprocs_get env) (\<lambda>n.
     unless_restricted env ''mpiprocs'' (eval_positive_nonzero_int ''mpiprocs'' (0 < n)))"

definition ALLOWED_BASEOS :: "string list" where
  "ALLOWED_BASEOS =
     [''amazonlinux2'', ''amazonlinux2023'', ''rhel8'', ''rhel9'', ''rocky8'', ''rocky9'', ''ubuntu2204'', ''ubuntu2404'']"

text \<open>The answer is True even after an entry was added.\<close>

definition base_os_validate :: "build_env \<Rightarrow> bool build" where
  "base_os_validate env = given (Inr (base_os_get env)) (\<lambda>os.
     unless_restricted env ''base_os''
       (thenS (if os \<in> set ALLOWED_BASEOS then ret () else add_validation_entry ''base_os'') (ret True)))"

definition instance_ami_validate :: "build_env \<Rightarrow> bool build" where
  "instance_ami_validate env = given (Inr (instance_ami_get env)) (\<lambda>ami.
     unless_restricted env ''instance_ami''
       (if startswith ''ami-'' ami then ret True else fail_with ''instance_ami''))"

section \<open>Instance types\<close>

text \<open>The three lists of the loop: types that do not exist, that the queue does not allow, that it excludes.\<close>

type_synonym type_lists = "string list \<times> string list \<times> string list"

definition check_instance_type :: "build_env \<Rightarrow> string \<Rightarrow> type_lists \<Rightarrow> type_lists res" where
  "check_instance_type env t = (\<lambda>(invalid, not_allowed, excluded).
     if t \<notin> set (be_all_instance_types env) then Inr (invalid @ [t], not_allowed, excluded)
     else
       let denied = (case queue_management env of None \<Rightarrow> False | Some qm \<Rightarrow> \<not> is_allowed_instance_type qm t);
           barred = (case queue_management env of None \<Rightarrow> False | Some qm \<Rightarrow> is_excluded_instance_type qm t);
           not_allowed' = (if denied then not_allowed @ [t] else not_allowed);
           excluded' = (if barred then excluded @ [t] else excluded)
       in if denied \<or> barred then Inr (invalid, not_allowed', excluded')
          else bindE (is_instance_type_valid env t) (\<lambda>valid.
                 Inr (if valid then invalid else invalid @ [t], not_allowed', excluded')))"

definition entry_if :: "bool \<Rightarrow> string \<Rightarrow> unit build" where
  "entry_if b param = (if b then add_validation_entry param else ret ())"

definition instance_types_validate :: "build_env \<Rightarrow> bool build" where
  "instance_types_validate env = given (instance_types_get env) (\<lambda>types.
     unless_restricted env ''instance_types''
       (bindS (reads (\<lambda>_. foldE (check_instance_type env) types ([], [], []))) (\<lambda>(invalid, not_allowed, excluded).
          thenS (entry_if (invalid \<noteq> []) ''instance_types'')
         (thenS (entry_if (not_allowed \<noteq> []) ''instance_types'')
         (thenS (entry_if (excluded \<noteq> []) ''instance_types'')
           (ret (invalid = [] \<and> not_allowed = [] \<and> excluded = [])))))))"

text \<open>Parameters that only the queue can restrict.\<close>

definition force_reserved_validate :: "build_env \<Rightarrow> bool build" where
  "force_reserved_validate env = given (Inr (force_reserved_get env)) (\<lambda>_.
     unless_restricted env ''force_reserved_instances'' (ret True))"

section \<open>Spot capacity\<close>

definition spot_validate :: "build_env \<Rightarrow> bool build" where
  "spot_validate env = given (spot_get env) (\<lambda>_. unless_restricted env ''spot'' (ret True))"

definition spot_price_validate :: "build_env \<Rightarrow> bool build" where
  "spot_price_validate env = given (spot_price_get env) (\<lambda>price.
     unless_restricted env ''spot_price''
       (case price of
          SPrice x \<Rightarrow> eval_positive_nonzero_int ''spot_price'' (fless (Fin 0) x)
        | SText s \<Rightarrow> if s = ''auto'' then ret True else fail_with ''spot_price''))"

text \<open>The price may come from the queue, the number of nodes only from the user: \<open>value >= None\<close> is a TypeError.\<close>

definition spot_allocation_count_validate :: "build_env \<Rightarrow> bool build" where
  "spot_allocation_count_validate env = given (spot_allocation_count_get env) (\<lambda>count.
     unless_restricted env ''spot_allocation_count''
       (unless_failed [''nodes'', ''spot_price'']
         (bindS (eval_positive_int ''spot_allocation_count'' (0 \<le> count)) (\<lambda>ok.
            if \<not> ok then ret False
            else bindS (reads (\<lambda>_. spot_price_get env)) (\<lambda>price.
                 if price = None \<and> spot_price_default env = None then fail_with ''spot_allocation_count''
                 else bindS (reads (\<lambda>_. bindE (nodes_get env) (required TypeError))) (\<lambda>nodes.
                      if count \<ge> nodes then fail_with ''spot_allocation_count'' else ret True))))))"

definition spot_allocation_strategy_validate :: "build_env \<Rightarrow> bool build" where
  "spot_allocation_strategy_validate env = (\<lambda>s.
     given_or_entry (spot_allocation_strategy_get env True s) ''spot_allocation_strategy'' (\<lambda>_.
       unless_restricted env ''spot_allocation_strategy'' (ret True)) s)"

section \<open>Placement\<close>

definition subnet_ids_validate :: "build_env \<Rightarrow> bool build" where
  "subnet_ids_validate env =
     given_or_entry (subnet_ids_get env True) ''subnet_ids'' (\<lambda>ids.
          unless_restricted env ''subnet_ids''
            (unless_failed [''enable_placement_group'', ''enable_efa_support'']
              (let grouped = is_true_opt (placement_group_get env) \<and> length ids > 1;
                   efa = is_true_opt (enable_efa_get env) \<and> length ids > 1
               in thenS (entry_if grouped ''subnet_ids'') (thenS (entry_if efa ''subnet_ids'')
                    (ret (\<not> grouped \<and> \<not> efa))))))"

definition check_security_group ::
  "build_env \<Rightarrow> string \<Rightarrow> string list \<times> string list \<Rightarrow> (string list \<times> string list) res" where
  "check_security_group env sg = (\<lambda>(blocked, invalid).
     if \<not> startswith ''sg-'' sg then Inr (blocked, invalid @ [sg])
     else if (case queue_management env of None \<Rightarrow> False | Some qm \<Rightarrow> \<not> is_allowed_security_group qm sg)
     then Inr (blocked @ [sg], invalid)
     else bindE (be_security_group_valid env sg) (\<lambda>valid.
            Inr (blocked, if valid then invalid else invalid @ [sg])))"

definition security_groups_validate :: "build_env \<Rightarrow> bool build" where
  "security_groups_validate env = given (security_groups_get env) (\<lambda>groups.
     unless_restricted env ''security_groups''
       (if length groups > 4 then fail_with ''security_groups''
        else bindS (reads (\<lambda>_. foldE (check_security_group env) groups ([], []))) (\<lambda>(blocked, invalid).
             thenS (entry_if (blocked \<noteq> []) ''security_groups'')
            (thenS (entry_if (invalid \<noteq> []) ''security_groups'')
              (ret (blocked = [] \<and> invalid = []))))))"

text \<open>The name in an ARN is what follows \<open>:instance-profile/\<close>; without it the index is out of range.\<close>

definition instance_profile_name :: "string \<Rightarrow> string res" where
  "instance_profile_name profile =
     (if startswith ''arn:'' profile
      then (case split_str '':instance-profile/'' profile of _ # n # _ \<Rightarrow> Inr n | _ \<Rightarrow> Inl IndexError)
      else Inr profile)"

definition instance_profile_validate :: "build_env \<Rightarrow> bool build" where
  "instance_profile_validate env = given (Inr (instance_profile_get env)) (\<lambda>profile.
     unless_restricted env ''instance_profile''
       (if (case queue_management env of None \<Rightarrow> False | Some qm \<Rightarrow> \<not> is_allowed_instance_profile qm profile)
        then fail_with ''instance_profile''
        else bindS (reads (\<lambda>_. bindE (instance_profile_name profile) (be_instance_profile_arn env))) (\<lambda>arn.
             if arn = None then fail_with ''instance_profile'' else ret True)))"

section \<open>Storage\<close>

definition keep_ebs_validate :: "build_env \<Rightarrow> bool build" where
  "keep_ebs_validate env = given (Inr (keep_ebs_get env)) (\<lambda>_. unless_restricted env ''keep_ebs_volumes'' (ret True))"

definition root_storage_size_validate :: "build_env \<Rightarrow> bool build" where
  "root_storage_size_validate env = given (root_storage_size_get env) (\<lambda>m.
     unless_restricted env ''root_storage_size'' (eval_positive_nonzero_int ''root_storage_size'' (mem_gt_num m 0)))"

definition scratch_storage_size_validate :: "build_env \<Rightarrow> bool build" where
  "scratch_storage_size_validate env = given (scratch_storage_size_get env) (\<lambda>m.
     unless_restricted env ''scratch_storage_size'' (eval_positive_int ''scratch_storage_size'' (mem_ge_num m 0)))"

text \<open>The ratio of IOPS to the number in the size, whatever its unit; also checked for the defaults.\<close>

definition check_iops_ratio :: "build_env \<Rightarrow> int \<Rightarrow> bool build" where
  "check_iops_ratio env iops =
     bindS (reads (\<lambda>_. scratch_storage_size_get env)) (\<lambda>size.
       let storage = opt_or size (scratch_storage_size_default env) in
       if mem_gt_num storage 0
       then bindS (reads (\<lambda>_. bindE (float_of_int iops) (\<lambda>x. fdiv x (mem_value storage)))) (\<lambda>ratio.
              if fless (Fin 50) ratio then fail_with ''scratch_storage_iops'' else ret True)
       else ret True)"

definition scratch_iops_validate :: "build_env \<Rightarrow> bool build" where
  "scratch_iops_validate env =
     bindS (reads (\<lambda>_. scratch_iops_get env)) (\<lambda>v.
       case v of
         Some iops \<Rightarrow>
           unless_restricted env ''scratch_storage_iops''
             (bindS (eval_positive_int ''scratch_storage_iops'' (0 \<le> iops)) (\<lambda>ok.
                if \<not> ok then ret False else check_iops_ratio env iops))
       | None \<Rightarrow> check_iops_ratio env (scratch_iops_default env))"

section \<open>FSx for Lustre\<close>

text \<open>One check of the FSx parameters: an entry and a failure when \<open>bad\<close>.\<close>

definition fsx_check :: "bool \<Rightarrow> string \<Rightarrow> bool build" where
  "fsx_check bad param = (if bad then fail_with param else ret True)"

definition restricted_if :: "build_env \<Rightarrow> bool \<Rightarrow> string \<Rightarrow> bool build \<Rightarrow> bool build" where
  "restricted_if env b name k = (if b then unless_restricted env name k else k)"

definition fsx_sizes_check :: "build_env \<Rightarrow> fsx_config \<Rightarrow> bool build" where
  "fsx_sizes_check env c =
     bindS (fsx_check (fsx_size c = None \<and> str_param env ''fsx_lustre_size'' \<noteq> None) ''fsx_lustre_size'') (\<lambda>a.
     bindS (reads (\<lambda>_. case fsx_size c of
         None \<Rightarrow> Inr False
       | Some m \<Rightarrow> bindE (int_of_float (mem_value m)) (\<lambda>i. Inr (\<not> is_allowed_size i)))) (\<lambda>bad_size.
     bindS (fsx_check bad_size ''fsx_lustre_size'') (\<lambda>b.
     bindS (fsx_check (case deployment_type c of None \<Rightarrow> False | Some t \<Rightarrow> t \<notin> set allowed_deployment_types)
         ''fsx_lustre_deployment_type'') (\<lambda>d.
       ret (a \<and> b \<and> d)))))"

definition fsx_throughput_check :: "build_env \<Rightarrow> fsx_config \<Rightarrow> bool build" where
  "fsx_throughput_check env c =
     (if deployment_type c = Some ''persistent_1''
      then bindS (fsx_check (per_unit_throughput c = None \<and> str_param env ''fsx_lustre_per_unit_throughput'' \<noteq> None)
               ''fsx_lustre_per_unit_throughput'') (\<lambda>a.
           bindS (fsx_check (case per_unit_throughput c of None \<Rightarrow> False
                             | Some t \<Rightarrow> t \<notin> set allowed_per_unit_throughputs)
               ''fsx_lustre_per_unit_throughput'') (\<lambda>b. ret (a \<and> b)))
      else ret True)"

text \<open>A backend makes the answer False whether or not the bucket can be read; an entry is only added when it cannot.\<close>

definition fsx_backend_check :: "build_env \<Rightarrow> fsx_config \<Rightarrow> bool build" where
  "fsx_backend_check env c =
     (case s3_backend c of
        None \<Rightarrow> ret True
      | Some backend \<Rightarrow>
          if backend = [] then ret True
          else bindS (reads (\<lambda>_. be_s3_error env (last (split_str ''s3://'' backend)))) (\<lambda>err.
               thenS (entry_if (err \<in> {Some ''AccessDenied'', Some ''NoSuchBucket''}) ''fsx_lustre_s3_backend'')
                 (ret False)))"

definition fsx_lustre_validate :: "build_env \<Rightarrow> bool build" where
  "fsx_lustre_validate env = given (fsx_lustre_get env) (\<lambda>c.
     if fsx_enabled c = Some False then ret True
     else
       unless_restricted env ''fsx_lustre''
      (restricted_if env (fsx_size c \<noteq> None) ''fsx_lustre_size''
      (restricted_if env (deployment_type c \<noteq> None) ''fsx_lustre_deployment_type''
      (restricted_if env (per_unit_throughput c \<noteq> None) ''fsx_lustre_per_unit_throughput''
        (bindS (fsx_sizes_check env c) (\<lambda>a.
         bindS (fsx_throughput_check env c) (\<lambda>b.
         bindS (fsx_backend_check env c) (\<lambda>d. ret (a \<and> b \<and> d)))))))))"

definition enable_scratch_validate :: "build_env \<Rightarrow> bool build" where
  "enable_scratch_validate env = given (enable_scratch_get env) (\<lambda>_.
     unless_restricted env ''enable_scratch'' (ret True))"

section \<open>EFA, hyper-threading, placement group, metrics\<close>

text \<open>The restriction is checked whether or not the user supplied the parameter.\<close>

definition enable_efa_validate :: "build_env \<Rightarrow> bool build" where
  "enable_efa_validate env =
     (let efa = opt_or (enable_efa_get env) (enable_efa_default env) in
      unless_restricted env ''enable_efa_support''
        (if \<not> efa then ret True
         else unless_failed [''instance_types'', ''spot_price'']
           (bindS (reads (\<lambda>_. effective_instance_types env)) (\<lambda>types.
            bindS (reads (\<lambda>_. traverseE (is_instance_type_efa_supported env) types)) (\<lambda>supported.
              if \<exists>b \<in> set supported. b \<noteq> Some True then fail_with ''enable_efa_support'' else ret True)))))"

definition enable_ht_validate :: "build_env \<Rightarrow> bool build" where
  "enable_ht_validate env = given (Inr (enable_ht_get env)) (\<lambda>ht.
     unless_restricted env ''enable_ht_support''
       (bindS (gets (is_failed [''instance_types''])) (\<lambda>f. ret (\<not> (ht \<and> f)))))"

definition supports_cluster :: "build_env \<Rightarrow> string \<Rightarrow> bool res" where
  "supports_cluster env t = bindE (be_ec2_type env t) (\<lambda>et.
     Inr (case et_placement_strategies et of None \<Rightarrow> False | Some ss \<Rightarrow> ''cluster'' \<in> set ss))"

definition check_placement_group :: "build_env \<Rightarrow> bool \<Rightarrow> bool build" where
  "check_placement_group env on =
     (if \<not> on then ret True
      else bindS (reads (\<lambda>_. effective_instance_types env)) (\<lambda>types.
           bindS (reads (\<lambda>_. traverseE (supports_cluster env) types)) (\<lambda>supported.
             if False \<in> set supported then fail_with ''enable_placement_group'' else ret True)))"

definition placement_group_validate :: "build_env \<Rightarrow> bool build" where
  "placement_group_validate env =
     (case placement_group_get env of
        Some on \<Rightarrow> unless_restricted env ''enable_placement_group'' (check_placement_group env on)
      | None \<Rightarrow>
          unless_failed [''nodes'', ''subnet_ids'', ''instance_types'']
            (bindS (reads (placement_group_default env)) (check_placement_group env)))"

definition system_metrics_validate :: "build_env \<Rightarrow> bool build" where
  "system_metrics_validate env = given (Inr (system_metrics_get env)) (\<lambda>_.
     unless_restricted env ''enable_system_metrics'' (ret True))"

definition anonymous_metrics_validate :: "build_env \<Rightarrow> bool build" where
  "anonymous_metrics_validate env = given (Inr (anonymous_metrics_get env)) (\<lambda>_.
     unless_restricted env ''enable_anonymous_metrics'' (ret True))"

section \<open>Licences and options\<close>

text \<open>Whether a licence is restricted, and otherwise whether its count is no positive number.\<close>

fun check_license_asks :: "build_env \<Rightarrow> license_ask list \<Rightarrow> (bool \<times> bool) build" where
  "check_license_asks env [] = ret (False, False)"
| "check_license_asks env (ask # asks) =
     bindS (is_restricted env (the (license_name ask))) (\<lambda>r.
     bindS (check_license_asks env asks) (\<lambda>(restricted, invalid).
       ret (r \<or> restricted, (\<not> r \<and> the (license_count ask) \<le> 0) \<or> invalid)))"

definition licenses_validate :: "build_env \<Rightarrow> bool build" where
  "licenses_validate env = given (licenses_get env) (\<lambda>asks.
     bindS (check_license_asks env asks) (\<lambda>(restricted, invalid).
       thenS (entry_if invalid ''licenses'') (ret (\<not> restricted \<and> \<not> invalid))))"

definition terminate_when_idle_validate :: "build_env \<Rightarrow> bool build" where
  "terminate_when_idle_validate env = given (terminate_when_idle_get env) (\<lambda>n.
     eval_positive_int ''terminate_when_idle'' (0 \<le> n))"

definition keep_forever_validate :: "bool build" where
  "keep_forever_validate = ret True"

definition tags_validate :: "build_env \<Rightarrow> bool build" where
  "tags_validate env =
     given_or_entry (tags_get env True) ''tags'' (\<lambda>_. ret True)"

section \<open>Stack, group, templates, wall time\<close>

definition sanitize_token :: "string \<Rightarrow> string" where
  "sanitize_token t = remove_char (CHR ''_'') (remove_char (CHR ''-'') (lower (strip t)))"

text \<open>
  \<open>re.match(prefix + pattern, s)\<close> for a prefix without metacharacters and the patterns of the code. With a space in
  the braces, \<open>{5, 50}\<close> is no quantifier for Python's \<open>re\<close>: it matches the braces literally, so the pattern
  is one character of the class followed by this text.
\<close>

definition matches_one_then :: "string \<Rightarrow> (char \<Rightarrow> bool) \<Rightarrow> string \<Rightarrow> string \<Rightarrow> bool" where
  "matches_one_then start cls literal s =
     (startswith start s \<and>
      (case drop (length start) s of [] \<Rightarrow> False | c # rest \<Rightarrow> cls c \<and> startswith literal rest))"

definition compute_stack_validate :: "build_env \<Rightarrow> bool build" where
  "compute_stack_validate env = given (Inr (compute_stack_get env)) (\<lambda>stack.
     unless_restricted env ''compute_stack''
       (if lower (strip stack) = ''tbd'' then ret True
        else if matches_one_then (sanitize_token (be_cluster_name env) @ ''-'')
                  (\<lambda>c. is_lower_alnum c \<or> c = CHR ''-'') ''{5, 50}'' stack
        then ret True
        else fail_with ''compute_stack''))"

definition stack_id_validate :: "build_env \<Rightarrow> bool build" where
  "stack_id_validate env = given (Inr (stack_id_get env)) (\<lambda>_. unless_restricted env ''stack_id'' (ret True))"

text \<open>A bad job group is entered under the name of the compute stack.\<close>

definition job_group_validate :: "build_env \<Rightarrow> bool build" where
  "job_group_validate env = given (Inr (job_group_get env)) (\<lambda>g.
     unless_restricted env ''job_group''
       (if matches_one_then ''custom-'' is_lower_alnum ''{1, 10}'' g then ret True
        else fail_with ''compute_stack''))"

definition job_started_template_validate :: "build_env \<Rightarrow> bool build" where
  "job_started_template_validate env = given (Inr (job_started_template_get env)) (\<lambda>_.
     unless_restricted env ''job_started_email_template'' (ret True))"

definition job_completed_template_validate :: "build_env \<Rightarrow> bool build" where
  "job_completed_template_validate env = given (Inr (job_completed_template_get env)) (\<lambda>_.
     unless_restricted env ''job_completed_email_template'' (ret True))"

text \<open>A wall time is never restricted.\<close>

definition walltime_validate :: "build_env \<Rightarrow> bool build" where
  "walltime_validate env = given (Inr (walltime_get env)) (\<lambda>w.
     case walltime_to_seconds w of
       Inr seconds \<Rightarrow> eval_positive_int ''walltime'' (0 \<le> seconds)
     | Inl e \<Rightarrow> if e = ValueError then fail_with ''walltime'' else throw e)"

text \<open>The method of the custom parameters is \<open>pass\<close>; its None counts as False.\<close>

definition custom_params_validate :: "bool build" where
  "custom_params_validate = ret False"

section \<open>What validation leaves alone\<close>

text \<open>Every \<open>validate\<close> only adds entries: the rules follow the combinators.\<close>

lemma validating_entry_if [build_rules]: "validating (entry_if b p)"
  unfolding entry_if_def by (intro build_rules)

lemma validating_fsx [build_rules]:
  "validating (fsx_check b p)" "validating (fsx_sizes_check env c)" "validating (fsx_throughput_check env c)"
  "validating (fsx_backend_check env c)" "validating k \<Longrightarrow> validating (restricted_if env b name k)"
  unfolding fsx_check_def fsx_sizes_check_def fsx_throughput_check_def fsx_backend_check_def restricted_if_def
  by (intro build_rules | assumption)+

lemma validating_parts [build_rules]:
  "validating (check_iops_ratio env iops)" "validating (check_placement_group env on)"
  unfolding check_iops_ratio_def check_placement_group_def by (intro build_rules)+

lemma validating_license_asks [build_rules]: "validating (check_license_asks env asks)"
proof (induction asks)
  case Nil
  show ?case unfolding check_license_asks.simps by (intro build_rules)
next
  case (Cons ask asks)
  then show ?case unfolding check_license_asks.simps by (intro build_rules)
qed

lemma validating_spot_price_case [build_rules]:
  "(\<And>x. validating (f x)) \<Longrightarrow> (\<And>t. validating (g t)) \<Longrightarrow>
   validating (case v of SPrice x \<Rightarrow> f x | SText t \<Rightarrow> g t)"
  by (simp split: spot_price.split)

lemma validating_strategy [build_rules]: "validating (spot_allocation_strategy_validate env)"
proof -
  have "validating (given_or_entry r ''spot_allocation_strategy'' (\<lambda>_.
      unless_restricted env ''spot_allocation_strategy'' (ret True)))" for r :: "SocaSpotAllocationStrategy option res"
    by (intro build_rules)
  then show ?thesis by (simp add: validating_def spot_allocation_strategy_validate_def)
qed

lemma validating_builders_1 [build_rules]:
  "validating (nodes_validate env)"
  "validating (cpus_validate env)"
  "validating (memory_validate env)"
  "validating (gpus_validate env)"
  "validating (mpiprocs_validate env)"
  "validating (base_os_validate env)"
  "validating (instance_ami_validate env)"
  "validating (instance_types_validate env)"
  "validating (force_reserved_validate env)"
  "validating (spot_validate env)"
  unfolding nodes_validate_def cpus_validate_def memory_validate_def gpus_validate_def mpiprocs_validate_def base_os_validate_def instance_ami_validate_def instance_types_validate_def force_reserved_validate_def spot_validate_def
  by (intro build_rules)+

lemma validating_builders_2 [build_rules]:
  "validating (spot_price_validate env)"
  "validating (spot_allocation_count_validate env)"
  "validating (subnet_ids_validate env)"
  "validating (security_groups_validate env)"
  "validating (instance_profile_validate env)"
  "validating (keep_ebs_validate env)"
  "validating (root_storage_size_validate env)"
  "validating (scratch_storage_size_validate env)"
  "validating (scratch_iops_validate env)"
  "validating (fsx_lustre_validate env)"
  unfolding spot_price_validate_def spot_allocation_count_validate_def subnet_ids_validate_def security_groups_validate_def instance_profile_validate_def keep_ebs_validate_def root_storage_size_validate_def scratch_storage_size_validate_def scratch_iops_validate_def fsx_lustre_validate_def
  by (intro build_rules)+

lemma validating_builders_3 [build_rules]:
  "validating (enable_scratch_validate env)"
  "validating (enable_efa_validate env)"
  "validating (enable_ht_validate env)"
  "validating (placement_group_validate env)"
  "validating (system_metrics_validate env)"
  "validating (anonymous_metrics_validate env)"
  "validating (licenses_validate env)"
  "validating (terminate_when_idle_validate env)"
  "validating (keep_forever_validate)"
  "validating (tags_validate env)"
  unfolding enable_scratch_validate_def enable_efa_validate_def enable_ht_validate_def placement_group_validate_def system_metrics_validate_def anonymous_metrics_validate_def licenses_validate_def terminate_when_idle_validate_def keep_forever_validate_def tags_validate_def
  by (intro build_rules)+

lemma validating_builders_4 [build_rules]:
  "validating (compute_stack_validate env)"
  "validating (stack_id_validate env)"
  "validating (job_group_validate env)"
  "validating (job_started_template_validate env)"
  "validating (job_completed_template_validate env)"
  "validating (walltime_validate env)"
  "validating (custom_params_validate)"
  unfolding compute_stack_validate_def stack_id_validate_def job_group_validate_def job_started_template_validate_def job_completed_template_validate_def walltime_validate_def custom_params_validate_def
  by (intro build_rules)+

end
