(* ===== verification/Param_Apply.thy ===== *)
theory Param_Apply
  imports Param_Get
begin

text \<open>
  The \<open>apply\<close> methods of the parameter builders of \<open>job_param_builder.py\<close>: each writes the supplied value, or
  the default, into the job parameters or the provisioning options being built.
\<close>

section \<open>The common shape\<close>

text \<open>\<open>value = self.get(); if value is None: value = self.default()\<close>, and the assignment of the value.\<close>

definition apply_value :: "'a option res \<Rightarrow> 'a option \<Rightarrow> ('a option \<Rightarrow> job_params \<Rightarrow> job_params) \<Rightarrow> unit build" where
  "apply_value value dflt assign = bindS (reads (\<lambda>_. value)) (\<lambda>v. set_param (assign (opt_else v dflt)))"

lemma building_apply_value [build_rules]: "building (apply_value value dflt assign)"
  unfolding apply_value_def by (intro build_rules)

lemma apply_value_run:
  "value = Inr v \<Longrightarrow> apply_value value dflt assign s = (Inr (), s\<lparr>bs_job_params := assign (opt_else v dflt) (bs_job_params s)\<rparr>)"
  by (simp add: apply_value_def set_param_def bindS_reads)

section \<open>Counts and sizes\<close>

definition nodes_apply :: "build_env \<Rightarrow> unit build" where
  "nodes_apply env = apply_value (nodes_get env) (Some (nodes_default env)) (\<lambda>v p. p\<lparr>p_nodes := v\<rparr>)"

definition cpus_apply :: "build_env \<Rightarrow> unit build" where
  "cpus_apply env = apply_value (cpus_get env) (Some (cpus_default env)) (\<lambda>v p. p\<lparr>p_cpus := v\<rparr>)"

definition memory_apply :: "build_env \<Rightarrow> unit build" where
  "memory_apply env = apply_value (memory_get env False) (memory_default env) (\<lambda>v p. p\<lparr>p_memory := v\<rparr>)"

definition gpus_apply :: "build_env \<Rightarrow> unit build" where
  "gpus_apply env = apply_value (gpus_get env) (gpus_default env) (\<lambda>v p. p\<lparr>p_gpus := v\<rparr>)"

definition mpiprocs_apply :: "build_env \<Rightarrow> unit build" where
  "mpiprocs_apply env = apply_value (mpiprocs_get env) (mpiprocs_default env) (\<lambda>v p. p\<lparr>p_mpiprocs := v\<rparr>)"

definition base_os_apply :: "build_env \<Rightarrow> unit build" where
  "base_os_apply env = apply_value (Inr (base_os_get env)) (base_os_default env) (\<lambda>v p. p\<lparr>p_base_os := v\<rparr>)"

definition instance_ami_apply :: "build_env \<Rightarrow> unit build" where
  "instance_ami_apply env = apply_value (Inr (instance_ami_get env)) (instance_ami_default env) (\<lambda>v p. p\<lparr>p_instance_ami := v\<rparr>)"

section \<open>Instance types\<close>

text \<open>Weights and threads are those without hyper-threading; the builder for hyper-threading overrides them.\<close>

definition instance_type_option_of :: "string \<Rightarrow> ec2_type \<Rightarrow> bool \<Rightarrow> instance_type_options res" where
  "instance_type_option_of t et ht =
     bindE (memory_of_int (et_memory_mib et) MiB) (\<lambda>memory.
       Inr \<lparr>o_name = Some t,
            o_weighted_capacity = (if ht then et_default_vcpus et else et_default_cores et),
            o_cpu_options_supported = Some (et_cpu_options_supported et = Some True),
            o_default_core_count = et_default_cores et,
            o_default_vcpu_count = et_default_vcpus et,
            o_default_threads_per_core = et_default_threads et,
            o_threads_per_core = (if ht then et_default_threads et else Some 1),
            o_memory = Some memory,
            o_ebs_optimized = Some (case et_ebs_optimized_support et of
               None \<Rightarrow> False | Some e \<Rightarrow> e \<noteq> ''unsupported'')\<rparr>)"

definition get_instance_type_options :: "build_env \<Rightarrow> string list \<Rightarrow> bool \<Rightarrow> instance_type_options list res" where
  "get_instance_type_options env types ht =
     traverseE (\<lambda>t. bindE (be_ec2_type env t) (\<lambda>et. instance_type_option_of t et ht)) types"

definition instance_types_apply :: "build_env \<Rightarrow> unit build" where
  "instance_types_apply env =
     bindS (reads (\<lambda>_. instance_types_get env)) (\<lambda>v.
       case opt_else v (instance_types_default env) of
         None \<Rightarrow> throw (SocaException ''INVALID_PARAMS'')
       | Some types \<Rightarrow>
           if types = [] then throw (SocaException ''INVALID_PARAMS'')
           else thenS (set_param (\<lambda>p. p\<lparr>p_instance_types := Some types\<rparr>))
                  (bindS (reads (\<lambda>_. get_instance_type_options env types False)) (\<lambda>opts.
                     set_option (\<lambda>o'. o'\<lparr>po_instance_types := Some opts\<rparr>))))"

definition force_reserved_apply :: "build_env \<Rightarrow> unit build" where
  "force_reserved_apply env = apply_value (Inr (force_reserved_get env)) (Some (force_reserved_default env)) (\<lambda>v p. p\<lparr>p_force_reserved_instances := v\<rparr>)"

section \<open>Spot capacity\<close>

definition spot_apply :: "build_env \<Rightarrow> unit build" where
  "spot_apply env = apply_value (spot_get env) (Some (spot_default env)) (\<lambda>v p. p\<lparr>p_spot := v\<rparr>)"

text \<open>The text \<open>auto\<close> is no amount and leaves the price as it is.\<close>

definition spot_price_apply :: "build_env \<Rightarrow> unit build" where
  "spot_price_apply env =
     bindS (reads (\<lambda>_. spot_price_get env)) (\<lambda>v.
       case v of
         Some (SPrice x) \<Rightarrow> set_param (\<lambda>p. p\<lparr>p_spot_price := Some x\<rparr>)
       | Some (SText _) \<Rightarrow> ret ()
       | None \<Rightarrow>
           (case spot_price_default env of
              None \<Rightarrow> ret ()
            | Some x \<Rightarrow> set_param (\<lambda>p. p\<lparr>p_spot_price := Some x\<rparr>)))"

definition spot_allocation_count_apply :: "build_env \<Rightarrow> unit build" where
  "spot_allocation_count_apply env = apply_value (spot_allocation_count_get env) (spot_allocation_count_default env) (\<lambda>v p. p\<lparr>p_spot_allocation_count := v\<rparr>)"

definition spot_allocation_strategy_apply :: "build_env \<Rightarrow> unit build" where
  "spot_allocation_strategy_apply env =
     bindS (reads (spot_allocation_strategy_get env False)) (\<lambda>v.
     bindS (if v = None then reads (spot_allocation_strategy_default env) else ret v) (\<lambda>strategy.
       set_param (\<lambda>p. p\<lparr>p_spot_allocation_strategy := strategy\<rparr>)))"

section \<open>Placement\<close>

definition subnet_ids_apply :: "build_env \<Rightarrow> unit build" where
  "subnet_ids_apply env =
     bindS (reads (\<lambda>_. subnet_ids_get env False)) (\<lambda>v.
     bindS (if is_empty_opt_list v then reads (subnet_ids_default env) else ret (the v)) (\<lambda>ids.
       set_param (\<lambda>p. p\<lparr>p_subnet_ids := Some ids\<rparr>)))"

text \<open>\<open>list(set(default + additional))\<close>\<close>

definition security_groups_apply :: "build_env \<Rightarrow> unit build" where
  "security_groups_apply env =
     bindS (reads (\<lambda>_. security_groups_get env)) (\<lambda>v.
       set_param (\<lambda>p. p\<lparr>p_security_groups := Some
         (case v of None \<Rightarrow> security_groups_default env
          | Some extra \<Rightarrow> be_set_order env (remdups (security_groups_default env @ extra)))\<rparr>))"

definition get_arn :: "build_env \<Rightarrow> string \<Rightarrow> string res" where
  "get_arn env profile =
     bindE (be_instance_profile_arn env profile) (required (SocaException ''GENERAL_ERROR''))"

definition instance_profile_apply :: "build_env \<Rightarrow> unit build" where
  "instance_profile_apply env =
     bindS (reads (\<lambda>_. required AttributeError (opt_else (instance_profile_get env) (instance_profile_default env)))) (\<lambda>profile.
     bindS (reads (\<lambda>_. if startswith ''arn:'' profile then Inr profile else get_arn env profile)) (\<lambda>arn.
       set_param (\<lambda>p. p\<lparr>p_instance_profile := Some arn\<rparr>)))"

section \<open>Storage\<close>

definition keep_ebs_apply :: "build_env \<Rightarrow> unit build" where
  "keep_ebs_apply env = apply_value (Inr (keep_ebs_get env)) (Some (keep_ebs_default env)) (\<lambda>v p. p\<lparr>p_keep_ebs_volumes := v\<rparr>)"

definition root_storage_size_apply :: "build_env \<Rightarrow> unit build" where
  "root_storage_size_apply env = apply_value (root_storage_size_get env) (Some (root_storage_size_default env)) (\<lambda>v p. p\<lparr>p_root_storage_size := v\<rparr>)"

definition scratch_storage_size_apply :: "build_env \<Rightarrow> unit build" where
  "scratch_storage_size_apply env =
     bindS (reads (\<lambda>_. scratch_storage_size_get env)) (\<lambda>v.
       let size = opt_or v (scratch_storage_size_default env)
       in thenS (set_param (\<lambda>p. p\<lparr>p_scratch_storage_size := Some size\<rparr>))
            (if fless (Fin 0) (mem_value size)
             then set_param (\<lambda>p. p\<lparr>p_scratch_provider := Some ''ebs''\<rparr>) else ret ()))"

definition scratch_iops_apply :: "build_env \<Rightarrow> unit build" where
  "scratch_iops_apply env = apply_value (scratch_iops_get env) (Some (scratch_iops_default env)) (\<lambda>v p. p\<lparr>p_scratch_storage_iops := v\<rparr>)"

text \<open>Only what the user left open is taken from the defaults.\<close>

definition fill_fsx :: "fsx_config \<Rightarrow> fsx_config \<Rightarrow> fsx_config" where
  "fill_fsx d c = c\<lparr>
     s3_backend := opt_else (s3_backend c) (s3_backend d),
     import_path := opt_else (import_path c) (import_path d),
     export_path := opt_else (export_path c) (export_path d),
     deployment_type := opt_else (deployment_type c) (deployment_type d),
     per_unit_throughput := opt_else (per_unit_throughput c) (per_unit_throughput d),
     fsx_size := opt_else (fsx_size c) (fsx_size d)\<rparr>"

definition fsx_lustre_apply :: "build_env \<Rightarrow> unit build" where
  "fsx_lustre_apply env =
     bindS (reads (\<lambda>_. fsx_lustre_get env)) (\<lambda>v.
       let disabled = empty_fsx_config\<lparr>fsx_enabled := Some False\<rparr> in
       case v of
         None \<Rightarrow> set_param (\<lambda>p. p\<lparr>p_fsx_lustre := Some disabled\<rparr>)
       | Some c \<Rightarrow>
           if fsx_enabled c = Some False then set_param (\<lambda>p. p\<lparr>p_fsx_lustre := Some disabled\<rparr>)
           else if existing_fsx c \<noteq> None
           then set_param (\<lambda>p. p\<lparr>p_fsx_lustre := Some c, p_scratch_provider := Some ''fsx-lustre-existing''\<rparr>)
           else if fsx_enabled c = Some True
           then set_param (\<lambda>p. p\<lparr>p_fsx_lustre := Some (fill_fsx (fsx_lustre_default env (s3_backend c)) c),
                               p_scratch_provider := Some ''fsx-lustre-new''\<rparr>)
           else set_param (\<lambda>p. p\<lparr>p_fsx_lustre := Some c\<rparr>))"

definition enable_scratch_apply :: "build_env \<Rightarrow> unit build" where
  "enable_scratch_apply env = apply_value (enable_scratch_get env) (Some (enable_scratch_default env)) (\<lambda>v p. p\<lparr>p_enable_scratch := v\<rparr>)"

section \<open>EFA, hyper-threading, placement group, metrics\<close>

definition enable_efa_apply :: "build_env \<Rightarrow> unit build" where
  "enable_efa_apply env = apply_value (Inr (enable_efa_get env)) (Some (enable_efa_default env)) (\<lambda>v p. p\<lparr>p_enable_efa_support := v\<rparr>)"

text \<open>With hyper-threading the options of every instance type get its threads and vCPUs.\<close>

definition ht_option :: "instance_type_options \<Rightarrow> instance_type_options" where
  "ht_option opt = opt\<lparr>o_threads_per_core := o_default_threads_per_core opt,
                        o_weighted_capacity := o_default_vcpu_count opt\<rparr>"

definition override_provisioning_options :: "bool \<Rightarrow> unit build" where
  "override_provisioning_options ht =
     (if \<not> ht then ret ()
      else bindS (reads (\<lambda>s. required TypeError (po_instance_types (bs_options s)))) (\<lambda>opts.
             set_option (\<lambda>o'. o'\<lparr>po_instance_types := Some (map ht_option opts)\<rparr>)))"

definition enable_ht_apply :: "build_env \<Rightarrow> unit build" where
  "enable_ht_apply env =
     (let ht = opt_or (enable_ht_get env) (enable_ht_default env)
      in thenS (set_param (\<lambda>p. p\<lparr>p_enable_ht_support := Some ht\<rparr>)) (override_provisioning_options ht))"

definition placement_group_apply :: "build_env \<Rightarrow> unit build" where
  "placement_group_apply env =
     bindS (case placement_group_get env of Some b \<Rightarrow> ret b | None \<Rightarrow> reads (placement_group_default env)) (\<lambda>b.
       set_param (\<lambda>p. p\<lparr>p_enable_placement_group := Some b\<rparr>))"

definition system_metrics_apply :: "build_env \<Rightarrow> unit build" where
  "system_metrics_apply env = apply_value (Inr (system_metrics_get env)) (Some (system_metrics_default env)) (\<lambda>v p. p\<lparr>p_enable_system_metrics := v\<rparr>)"

definition anonymous_metrics_apply :: "build_env \<Rightarrow> unit build" where
  "anonymous_metrics_apply env = apply_value (Inr (anonymous_metrics_get env)) (Some (anonymous_metrics_default env)) (\<lambda>v p. p\<lparr>p_enable_anonymous_metrics := v\<rparr>)"

section \<open>Licences, options, stack, templates, wall time\<close>

definition licenses_apply :: "build_env \<Rightarrow> unit build" where
  "licenses_apply env = bindS (reads (\<lambda>_. licenses_get env)) (\<lambda>v. set_param (\<lambda>p. p\<lparr>p_licenses := v\<rparr>))"

definition terminate_when_idle_apply :: "build_env \<Rightarrow> unit build" where
  "terminate_when_idle_apply env =
     bindS (reads (\<lambda>_. terminate_when_idle_get env)) (\<lambda>v.
       set_option (\<lambda>o'. o'\<lparr>po_terminate_when_idle := Some (opt_or v (terminate_when_idle_default env))\<rparr>))"

definition keep_forever_apply :: "build_env \<Rightarrow> unit build" where
  "keep_forever_apply env =
     set_option (\<lambda>o'. o'\<lparr>po_keep_forever := Some (opt_or (keep_forever_get env) (keep_forever_default env))\<rparr>)"

definition tags_apply :: "build_env \<Rightarrow> unit build" where
  "tags_apply env = bindS (reads (\<lambda>_. tags_get env False)) (\<lambda>v. set_option (\<lambda>o'. o'\<lparr>po_tags := v\<rparr>))"

definition compute_stack_apply :: "build_env \<Rightarrow> unit build" where
  "compute_stack_apply env = apply_value (Inr (compute_stack_get env)) (compute_stack_default env) (\<lambda>v p. p\<lparr>p_compute_stack := v\<rparr>)"

definition stack_id_apply :: "build_env \<Rightarrow> unit build" where
  "stack_id_apply env = apply_value (Inr (stack_id_get env)) (stack_id_default env) (\<lambda>v p. p\<lparr>p_stack_id := v\<rparr>)"

definition job_group_apply :: "build_env \<Rightarrow> unit build" where
  "job_group_apply env = apply_value (Inr (job_group_get env)) (job_group_default env) (\<lambda>v p. p\<lparr>p_job_group := v\<rparr>)"

definition job_started_template_apply :: "build_env \<Rightarrow> unit build" where
  "job_started_template_apply env = apply_value (Inr (job_started_template_get env)) None (\<lambda>v p. p\<lparr>p_job_started_email_template := v\<rparr>)"

definition job_completed_template_apply :: "build_env \<Rightarrow> unit build" where
  "job_completed_template_apply env = apply_value (Inr (job_completed_template_get env)) None (\<lambda>v p. p\<lparr>p_job_completed_email_template := v\<rparr>)"

definition walltime_apply :: "build_env \<Rightarrow> unit build" where
  "walltime_apply env = apply_value (Inr (walltime_get env)) (walltime_default env) (\<lambda>v p. p\<lparr>p_walltime := v\<rparr>)"

definition custom_params_apply :: "unit build" where
  "custom_params_apply = ret ()"

section \<open>What building leaves alone\<close>

text \<open>No \<open>apply\<close> adds a validation entry.\<close>

lemma building_spot_price_case [build_rules]:
  "(\<And>x. building (f x)) \<Longrightarrow> (\<And>t. building (g t)) \<Longrightarrow>
   building (case v of SPrice x \<Rightarrow> f x | SText t \<Rightarrow> g t)"
  by (simp split: spot_price.split)

lemma building_Let [build_rules]: "(\<And>x. building (f x)) \<Longrightarrow> building (Let v f)"
  by (simp add: Let_def)

lemma building_override [build_rules]: "building (override_provisioning_options ht)"
  unfolding override_provisioning_options_def by (intro build_rules)

lemma building_builders_1 [build_rules]:
  "building (nodes_apply env)"
  "building (cpus_apply env)"
  "building (memory_apply env)"
  "building (gpus_apply env)"
  "building (mpiprocs_apply env)"
  "building (base_os_apply env)"
  "building (instance_ami_apply env)"
  "building (instance_types_apply env)"
  "building (force_reserved_apply env)"
  "building (spot_apply env)"
  "building (spot_price_apply env)"
  "building (spot_allocation_count_apply env)"
  "building (spot_allocation_strategy_apply env)"
  unfolding nodes_apply_def
    cpus_apply_def
    memory_apply_def
    gpus_apply_def
    mpiprocs_apply_def
    base_os_apply_def
    instance_ami_apply_def
    instance_types_apply_def
    force_reserved_apply_def
    spot_apply_def
    spot_price_apply_def
    spot_allocation_count_apply_def
    spot_allocation_strategy_apply_def
  by (intro build_rules)+

lemma building_builders_2 [build_rules]:
  "building (subnet_ids_apply env)"
  "building (security_groups_apply env)"
  "building (instance_profile_apply env)"
  "building (keep_ebs_apply env)"
  "building (root_storage_size_apply env)"
  "building (scratch_storage_size_apply env)"
  "building (scratch_iops_apply env)"
  "building (fsx_lustre_apply env)"
  "building (enable_scratch_apply env)"
  "building (enable_efa_apply env)"
  "building (enable_ht_apply env)"
  "building (placement_group_apply env)"
  "building (system_metrics_apply env)"
  unfolding subnet_ids_apply_def
    security_groups_apply_def
    instance_profile_apply_def
    keep_ebs_apply_def
    root_storage_size_apply_def
    scratch_storage_size_apply_def
    scratch_iops_apply_def
    fsx_lustre_apply_def
    enable_scratch_apply_def
    enable_efa_apply_def
    enable_ht_apply_def
    placement_group_apply_def
    system_metrics_apply_def
  by (intro build_rules)+

lemma building_builders_3 [build_rules]:
  "building (anonymous_metrics_apply env)"
  "building (licenses_apply env)"
  "building (terminate_when_idle_apply env)"
  "building (keep_forever_apply env)"
  "building (tags_apply env)"
  "building (compute_stack_apply env)"
  "building (stack_id_apply env)"
  "building (job_group_apply env)"
  "building (job_started_template_apply env)"
  "building (job_completed_template_apply env)"
  "building (walltime_apply env)"
  "building custom_params_apply"
  unfolding anonymous_metrics_apply_def
    licenses_apply_def
    terminate_when_idle_apply_def
    keep_forever_apply_def
    tags_apply_def
    compute_stack_apply_def
    stack_id_apply_def
    job_group_apply_def
    job_started_template_apply_def
    job_completed_template_apply_def
    walltime_apply_def
    custom_params_apply_def
  by (intro build_rules)+

end
