(* ===== verification/Job_Builder.thy ===== *)
theory Job_Builder
  imports Param_Validate Param_Apply
begin

text \<open>
  \<open>SocaJobBuilder\<close> of \<open>job_param_builder.py\<close>: the builders of a job in the order in which
  \<open>JobParamsBuilderContext._initialize\<close> adds them, validation of the submitted parameters by all of them,
  and the construction of the job parameters and provisioning options.
\<close>

section \<open>Builders in order\<close>

record builder =
  b_name :: string
  b_validate :: "bool build"
  b_apply :: "unit build"

definition mk :: "string \<Rightarrow> bool build \<Rightarrow> unit build \<Rightarrow> builder" where
  "mk n v a = \<lparr>b_name = n, b_validate = v, b_apply = a\<rparr>"

definition builders :: "build_env \<Rightarrow> builder list" where
  "builders env =
     [mk ''nodes'' (nodes_validate env) (nodes_apply env),
      mk ''instance_types'' (instance_types_validate env) (instance_types_apply env),
      mk ''enable_ht_support'' (enable_ht_validate env) (enable_ht_apply env),
      mk ''cpus'' (cpus_validate env) (cpus_apply env),
      mk ''memory'' (memory_validate env) (memory_apply env),
      mk ''gpus'' (gpus_validate env) (gpus_apply env),
      mk ''mpiprocs'' (mpiprocs_validate env) (mpiprocs_apply env),
      mk ''base_os'' (base_os_validate env) (base_os_apply env),
      mk ''instance_ami'' (instance_ami_validate env) (instance_ami_apply env),
      mk ''enable_placement_group'' (placement_group_validate env) (placement_group_apply env),
      mk ''spot'' (spot_validate env) (spot_apply env),
      mk ''spot_price'' (spot_price_validate env) (spot_price_apply env),
      mk ''spot_allocation_count'' (spot_allocation_count_validate env) (spot_allocation_count_apply env),
      mk ''spot_allocation_strategy'' (spot_allocation_strategy_validate env) (spot_allocation_strategy_apply env),
      mk ''force_reserved_instances'' (force_reserved_validate env) (force_reserved_apply env),
      mk ''enable_efa_support'' (enable_efa_validate env) (enable_efa_apply env),
      mk ''fsx_lustre'' (fsx_lustre_validate env) (fsx_lustre_apply env),
      mk ''subnet_ids'' (subnet_ids_validate env) (subnet_ids_apply env),
      mk ''security_groups'' (security_groups_validate env) (security_groups_apply env),
      mk ''instance_profile'' (instance_profile_validate env) (instance_profile_apply env),
      mk ''keep_ebs_volumes'' (keep_ebs_validate env) (keep_ebs_apply env),
      mk ''root_storage_size'' (root_storage_size_validate env) (root_storage_size_apply env),
      mk ''scratch_storage_size'' (scratch_storage_size_validate env) (scratch_storage_size_apply env),
      mk ''scratch_storage_iops'' (scratch_iops_validate env) (scratch_iops_apply env),
      mk ''enable_scratch'' (enable_scratch_validate env) (enable_scratch_apply env),
      mk ''enable_system_metrics'' (system_metrics_validate env) (system_metrics_apply env),
      mk ''enable_anonymous_metrics'' (anonymous_metrics_validate env) (anonymous_metrics_apply env),
      mk ''keep_forever'' keep_forever_validate (keep_forever_apply env),
      mk ''terminate_when_idle'' (terminate_when_idle_validate env) (terminate_when_idle_apply env),
      mk ''tags'' (tags_validate env) (tags_apply env),
      mk ''licenses'' (licenses_validate env) (licenses_apply env),
      mk ''compute_stack'' (compute_stack_validate env) (compute_stack_apply env),
      mk ''stack_id'' (stack_id_validate env) (stack_id_apply env),
      mk ''job_group'' (job_group_validate env) (job_group_apply env),
      mk ''job_started_email_template'' (job_started_template_validate env) (job_started_template_apply env),
      mk ''job_completed_email_template'' (job_completed_template_validate env) (job_completed_template_apply env),
      mk ''walltime'' (walltime_validate env) (walltime_apply env),
      mk ''custom_params'' custom_params_validate custom_params_apply]"

section \<open>Validating and building\<close>

text \<open>The answers of the builders are dropped; the entries they added are the result.\<close>

definition validate_all :: "builder list \<Rightarrow> unit build" where
  "validate_all bs = forS (\<lambda>b. bindS (b_validate b) (\<lambda>_. ret ())) bs"

definition build_all :: "builder list \<Rightarrow> unit build" where
  "build_all bs = forS b_apply bs"

definition validate_job :: "build_env \<Rightarrow> string list build" where
  "validate_job env = thenS (validate_all (builders env)) (gets bs_results)"

definition is_valid :: "string list \<Rightarrow> bool" where
  "is_valid results = (length results = 0)"

definition build_job :: "build_env \<Rightarrow> (job_params \<times> provisioning_options) build" where
  "build_job env = thenS (build_all (builders env)) (gets (\<lambda>s. (bs_job_params s, bs_options s)))"

section \<open>Lists of builders\<close>

text \<open>
  What is promised for the builders one at a time holds for running them all: validation only adds entries, each
  failed parameter once, and construction leaves the entries alone.
\<close>

locale builder_list =
  fixes bs :: "builder list"
  assumes validate_validating: "b \<in> set bs \<Longrightarrow> validating (b_validate b)"
    and apply_building: "b \<in> set bs \<Longrightarrow> building (b_apply b)"
begin

lemma validating_run: "set cs \<subseteq> set bs \<Longrightarrow> validating (validate_all cs)"
proof (induction cs)
  case Nil
  show ?case unfolding validate_all_def forS.simps by (intro build_rules)
next
  case (Cons c cs)
  then show ?case using validate_validating unfolding validate_all_def forS.simps by (intro build_rules) auto
qed

lemma building_run: "set cs \<subseteq> set bs \<Longrightarrow> building (build_all cs)"
proof (induction cs)
  case Nil
  show ?case unfolding build_all_def forS.simps by (intro build_rules)
next
  case (Cons c cs)
  then show ?case using apply_building unfolding build_all_def forS.simps by (intro build_rules) auto
qed

text \<open>A builder in the middle of a run that did not stop: it was reached, and what follows only adds entries.\<close>

lemma run_reaches:
  assumes "bs = pre @ b # post" "validate_all bs s = (Inr (), t)"
  obtains r u v where "validate_all pre s = (Inr (), u)" "b_validate b u = (Inr r, v)"
    "extends s u" "extends u v" "extends v t"
proof -
  have run: "validate_all (xs @ ys) s = thenS (validate_all xs) (validate_all ys) s" for xs ys s
    by (induction xs arbitrary: s) (simp_all add: validate_all_def thenS_apply split: prod.splits sum.splits)
  from assms(2) obtain u where u: "validate_all pre s = (Inr (), u)" "validate_all (b # post) u = (Inr (), t)"
    unfolding assms(1) run by (auto simp: thenS_apply split: prod.splits sum.splits)
  then obtain r v where v: "b_validate b u = (Inr r, v)" "validate_all post v = (Inr (), t)"
    by (auto simp: validate_all_def thenS_apply bindS_def split: prod.splits sum.splits)
  have "validating (validate_all pre)" "validating (b_validate b)" "validating (validate_all post)"
    using assms(1) validate_validating by (auto intro: validating_run)
  with u v that show ?thesis by (meson validatingD)
qed

text \<open>A builder whose validation enters a name makes that name one of the results.\<close>

lemma run_reports:
  assumes "b \<in> set bs" "validate_all bs s = (Inr (), t)" "ctx_ok s"
    and "\<And>u. extends s u \<Longrightarrow> p \<in> bs_failed (snd (b_validate b u))"
  shows "p \<in> set (bs_results t)"
proof -
  from assms(1) obtain pre post where split: "bs = pre @ b # post" by (meson split_list)
  from run_reaches [OF split assms(2)] obtain r u v where
    run: "b_validate b u = (Inr r, v)" "extends s u" "extends v t" by blast
  have "p \<in> bs_failed t" using assms(4) [OF run(2)] run(1,3) by (auto simp: extends_def)
  moreover have "ctx_ok t" using validatingD [OF validating_run [OF subset_refl] assms(2)] assms(3) by simp
  ultimately show ?thesis by (simp add: ctx_ok_def)
qed

text \<open>When nothing was entered, every builder was run in a state without failures and entered nothing.\<close>

lemma run_valid:
  assumes "b \<in> set bs" "validate_all bs s = (Inr (), t)" "ctx_ok s" "bs_results t = []"
  shows "\<exists>r u v. b_validate b u = (Inr r, v) \<and> bs_failed u = {} \<and> bs_failed v = {}"
proof -
  from assms(1) obtain pre post where split: "bs = pre @ b # post" by (meson split_list)
  from run_reaches [OF split assms(2)] obtain r u v where
    run: "b_validate b u = (Inr r, v)" "extends u v" "extends v t" by blast
  have "ctx_ok t" using validatingD [OF validating_run [OF subset_refl] assms(2)] assms(3) by simp
  then have "bs_failed t = {}" using assms(4) by (auto simp: ctx_ok_def)
  with run show ?thesis by (metis extends_def subset_empty)
qed

end

lemma builders_rules:
  "list_all (\<lambda>b. validating (b_validate b)) (builders env)"
  "list_all (\<lambda>b. building (b_apply b)) (builders env)"
  unfolding builders_def mk_def list.pred_inject(2) builder.simps by (intro conjI list.pred_inject(1) build_rules)+

interpretation jb: builder_list "builders env" for env
  using builders_rules [of env] by unfold_locales (simp_all add: list_all_iff)

end
