(* ===== verification/Job_Validation.thy ===== *)
theory Job_Validation
  imports Job_Builder
begin

text \<open>
  What the validation of \<open>SocaJobBuilder\<close> guarantees for the submitted parameters as a whole: the entries, the
  restrictions of the queue, and what is known of a job when no entry was added.
\<close>

section \<open>Builders of the list\<close>

lemma builders_mem:
  "mk ''nodes'' (nodes_validate env) (nodes_apply env) \<in> set (builders env)"
  "mk ''instance_types'' (instance_types_validate env) (instance_types_apply env) \<in> set (builders env)"
  "mk ''enable_ht_support'' (enable_ht_validate env) (enable_ht_apply env) \<in> set (builders env)"
  "mk ''cpus'' (cpus_validate env) (cpus_apply env) \<in> set (builders env)"
  "mk ''memory'' (memory_validate env) (memory_apply env) \<in> set (builders env)"
  "mk ''gpus'' (gpus_validate env) (gpus_apply env) \<in> set (builders env)"
  "mk ''mpiprocs'' (mpiprocs_validate env) (mpiprocs_apply env) \<in> set (builders env)"
  "mk ''base_os'' (base_os_validate env) (base_os_apply env) \<in> set (builders env)"
  "mk ''instance_ami'' (instance_ami_validate env) (instance_ami_apply env) \<in> set (builders env)"
  "mk ''enable_placement_group'' (placement_group_validate env) (placement_group_apply env) \<in> set (builders env)"
  "mk ''spot'' (spot_validate env) (spot_apply env) \<in> set (builders env)"
  "mk ''spot_price'' (spot_price_validate env) (spot_price_apply env) \<in> set (builders env)"
  "mk ''spot_allocation_count'' (spot_allocation_count_validate env) (spot_allocation_count_apply env) \<in> set (builders env)"
  "mk ''spot_allocation_strategy'' (spot_allocation_strategy_validate env) (spot_allocation_strategy_apply env) \<in> set (builders env)"
  "mk ''force_reserved_instances'' (force_reserved_validate env) (force_reserved_apply env) \<in> set (builders env)"
  "mk ''enable_efa_support'' (enable_efa_validate env) (enable_efa_apply env) \<in> set (builders env)"
  "mk ''fsx_lustre'' (fsx_lustre_validate env) (fsx_lustre_apply env) \<in> set (builders env)"
  "mk ''subnet_ids'' (subnet_ids_validate env) (subnet_ids_apply env) \<in> set (builders env)"
  "mk ''security_groups'' (security_groups_validate env) (security_groups_apply env) \<in> set (builders env)"
  "mk ''instance_profile'' (instance_profile_validate env) (instance_profile_apply env) \<in> set (builders env)"
  "mk ''keep_ebs_volumes'' (keep_ebs_validate env) (keep_ebs_apply env) \<in> set (builders env)"
  "mk ''root_storage_size'' (root_storage_size_validate env) (root_storage_size_apply env) \<in> set (builders env)"
  "mk ''scratch_storage_size'' (scratch_storage_size_validate env) (scratch_storage_size_apply env) \<in> set (builders env)"
  "mk ''scratch_storage_iops'' (scratch_iops_validate env) (scratch_iops_apply env) \<in> set (builders env)"
  "mk ''enable_scratch'' (enable_scratch_validate env) (enable_scratch_apply env) \<in> set (builders env)"
  "mk ''enable_system_metrics'' (system_metrics_validate env) (system_metrics_apply env) \<in> set (builders env)"
  "mk ''enable_anonymous_metrics'' (anonymous_metrics_validate env) (anonymous_metrics_apply env) \<in> set (builders env)"
  "mk ''keep_forever'' keep_forever_validate (keep_forever_apply env) \<in> set (builders env)"
  "mk ''terminate_when_idle'' (terminate_when_idle_validate env) (terminate_when_idle_apply env) \<in> set (builders env)"
  "mk ''tags'' (tags_validate env) (tags_apply env) \<in> set (builders env)"
  "mk ''licenses'' (licenses_validate env) (licenses_apply env) \<in> set (builders env)"
  "mk ''compute_stack'' (compute_stack_validate env) (compute_stack_apply env) \<in> set (builders env)"
  "mk ''stack_id'' (stack_id_validate env) (stack_id_apply env) \<in> set (builders env)"
  "mk ''job_group'' (job_group_validate env) (job_group_apply env) \<in> set (builders env)"
  "mk ''job_started_email_template'' (job_started_template_validate env) (job_started_template_apply env) \<in> set (builders env)"
  "mk ''job_completed_email_template'' (job_completed_template_validate env) (job_completed_template_apply env) \<in> set (builders env)"
  "mk ''walltime'' (walltime_validate env) (walltime_apply env) \<in> set (builders env)"
  "mk ''custom_params'' custom_params_validate custom_params_apply \<in> set (builders env)"
  unfolding builders_def by (intro list.set_intros)+

lemma validate_job_Inr:
  assumes "validate_job env s = (Inr results, t)"
  shows "validate_all (builders env) s = (Inr (), t)" "results = bs_results t"
  using assms by (auto simp: validate_job_def thenS_apply split: prod.splits sum.splits)

lemma new_context_ok: "ctx_ok (new_context q u f)"
  by (simp add: ctx_ok_def new_context_def Let_def)

lemma new_context_empty: "bs_results (new_context q u f) = []" "bs_failed (new_context q u f) = {}"
  by (simp_all add: new_context_def Let_def)

section \<open>Restricted parameters\<close>

definition has :: "'a option res \<Rightarrow> bool" where
  "has g = (case g of Inr (Some _) \<Rightarrow> True | _ \<Rightarrow> False)"

text \<open>The parameters a queue can restrict, and whether the user supplied them.\<close>

definition restrictable :: "build_env \<Rightarrow> (string \<times> bool) list" where
  "restrictable env =
     [(''nodes'', has (nodes_get env)),
      (''instance_types'', has (instance_types_get env)),
      (''enable_ht_support'', enable_ht_get env \<noteq> None),
      (''cpus'', has (cpus_get env)),
      (''memory'', has (memory_get env True)),
      (''gpus'', has (gpus_get env)),
      (''mpiprocs'', has (mpiprocs_get env)),
      (''base_os'', base_os_get env \<noteq> None),
      (''instance_ami'', instance_ami_get env \<noteq> None),
      (''enable_placement_group'', placement_group_get env \<noteq> None),
      (''spot'', has (spot_get env)),
      (''spot_price'', has (spot_price_get env)),
      (''spot_allocation_count'', has (spot_allocation_count_get env)),
      (''force_reserved_instances'', force_reserved_get env \<noteq> None),
      (''enable_efa_support'', True),
      (''subnet_ids'', has (subnet_ids_get env True)),
      (''security_groups'', has (security_groups_get env)),
      (''instance_profile'', instance_profile_get env \<noteq> None),
      (''keep_ebs_volumes'', keep_ebs_get env \<noteq> None),
      (''root_storage_size'', has (root_storage_size_get env)),
      (''scratch_storage_size'', has (scratch_storage_size_get env)),
      (''scratch_storage_iops'', has (scratch_iops_get env)),
      (''enable_scratch'', has (enable_scratch_get env)),
      (''enable_system_metrics'', system_metrics_get env \<noteq> None),
      (''enable_anonymous_metrics'', anonymous_metrics_get env \<noteq> None),
      (''compute_stack'', compute_stack_get env \<noteq> None),
      (''stack_id'', stack_id_get env \<noteq> None),
      (''job_group'', job_group_get env \<noteq> None),
      (''job_started_email_template'', job_started_template_get env \<noteq> None),
      (''job_completed_email_template'', job_completed_template_get env \<noteq> None)]"

lemma has_cases: "has g \<Longrightarrow> \<exists>x. g = Inr (Some x)" "v \<noteq> None \<Longrightarrow> \<exists>x. Inr v = Inr (Some x)"
  by (auto simp: has_def split: sum.splits option.splits)

lemma given_run:
  "g = Inr (Some x) \<Longrightarrow> given g f u = f x u"
  "g = Inr None \<Longrightarrow> given g f u = (Inr True, u)"
  "g = Inr (Some x) \<Longrightarrow> given_or_entry g p f u = f x u"
  by (simp_all add: given_def given_or_entry_def bindS_reads)

text \<open>The builder starts by asking whether its parameter is restricted.\<close>

definition asks_first :: "build_env \<Rightarrow> string \<Rightarrow> bool build \<Rightarrow> bool" where
  "asks_first env n v = (\<forall>u. \<exists>k. v u = unless_restricted env n k u)"

lemma asks_first_given:
  "has g \<Longrightarrow> asks_first env n (given g (\<lambda>x. unless_restricted env n (k x)))"
  "w \<noteq> None \<Longrightarrow> asks_first env n (given (Inr w) (\<lambda>x. unless_restricted env n (k x)))"
  "has g \<Longrightarrow> asks_first env n (given_or_entry g p (\<lambda>x. unless_restricted env n (k x)))"
  "asks_first env n (unless_restricted env n k')"
  by (auto simp: asks_first_def given_run dest!: has_cases)

lemma restricted_builder_reports:
  assumes "mk n v a \<in> set (builders env)" "asks_first env n v"
    and "queue_management env = Some qm" "is_restricted_parameter qm n" "be_provider env = Inr provider"
    and "validate_job env (new_context q u f) = (Inr results, t)"
  shows "n \<in> set results"
proof -
  obtain pn where pn: "provider_param_name env n = Inr pn"
    using assms(5) by (cases "map_of provider_names n") (simp_all add: provider_param_name_def)
  have "n \<in> bs_failed (snd (b_validate (mk n v a) w))" for w
  proof -
    from assms(2) obtain k where "v w = unless_restricted env n k w" unfolding asks_first_def by blast
    then show ?thesis
      by (simp add: mk_def unless_restricted_by_name [OF assms(3,4) pn] add_validation_entry_failed)
  qed
  with jb.run_reports [OF assms(1) validate_job_Inr(1) [OF assms(6)] new_context_ok]
  show ?thesis using validate_job_Inr(2) [OF assms(6)] by simp
qed

lemma placement_group_asks: "placement_group_get env \<noteq> None \<Longrightarrow> asks_first env ''enable_placement_group'' (placement_group_validate env)"
  by (auto simp: asks_first_def placement_group_validate_def)

lemma scratch_iops_asks: "has (scratch_iops_get env) \<Longrightarrow> asks_first env ''scratch_storage_iops'' (scratch_iops_validate env)"
  by (auto simp: asks_first_def scratch_iops_validate_def bindS_reads dest!: has_cases)

lemma enable_efa_asks: "asks_first env ''enable_efa_support'' (enable_efa_validate env)"
  unfolding enable_efa_validate_def Let_def by (rule asks_first_given)

lemma builders_ask:
  "has (nodes_get env) \<Longrightarrow> asks_first env ''nodes'' (nodes_validate env)"
  "has (instance_types_get env) \<Longrightarrow> asks_first env ''instance_types'' (instance_types_validate env)"
  "enable_ht_get env \<noteq> None \<Longrightarrow> asks_first env ''enable_ht_support'' (enable_ht_validate env)"
  "has (cpus_get env) \<Longrightarrow> asks_first env ''cpus'' (cpus_validate env)"
  "has (memory_get env True) \<Longrightarrow> asks_first env ''memory'' (memory_validate env)"
  "has (gpus_get env) \<Longrightarrow> asks_first env ''gpus'' (gpus_validate env)"
  "has (mpiprocs_get env) \<Longrightarrow> asks_first env ''mpiprocs'' (mpiprocs_validate env)"
  "base_os_get env \<noteq> None \<Longrightarrow> asks_first env ''base_os'' (base_os_validate env)"
  "instance_ami_get env \<noteq> None \<Longrightarrow> asks_first env ''instance_ami'' (instance_ami_validate env)"
  "has (spot_get env) \<Longrightarrow> asks_first env ''spot'' (spot_validate env)"
  "has (spot_price_get env) \<Longrightarrow> asks_first env ''spot_price'' (spot_price_validate env)"
  "has (spot_allocation_count_get env) \<Longrightarrow> asks_first env ''spot_allocation_count'' (spot_allocation_count_validate env)"
  "force_reserved_get env \<noteq> None \<Longrightarrow> asks_first env ''force_reserved_instances'' (force_reserved_validate env)"
  "has (subnet_ids_get env True) \<Longrightarrow> asks_first env ''subnet_ids'' (subnet_ids_validate env)"
  "has (security_groups_get env) \<Longrightarrow> asks_first env ''security_groups'' (security_groups_validate env)"
  "instance_profile_get env \<noteq> None \<Longrightarrow> asks_first env ''instance_profile'' (instance_profile_validate env)"
  "keep_ebs_get env \<noteq> None \<Longrightarrow> asks_first env ''keep_ebs_volumes'' (keep_ebs_validate env)"
  "has (root_storage_size_get env) \<Longrightarrow> asks_first env ''root_storage_size'' (root_storage_size_validate env)"
  "has (scratch_storage_size_get env) \<Longrightarrow> asks_first env ''scratch_storage_size'' (scratch_storage_size_validate env)"
  "has (enable_scratch_get env) \<Longrightarrow> asks_first env ''enable_scratch'' (enable_scratch_validate env)"
  "system_metrics_get env \<noteq> None \<Longrightarrow> asks_first env ''enable_system_metrics'' (system_metrics_validate env)"
  "anonymous_metrics_get env \<noteq> None \<Longrightarrow> asks_first env ''enable_anonymous_metrics'' (anonymous_metrics_validate env)"
  "compute_stack_get env \<noteq> None \<Longrightarrow> asks_first env ''compute_stack'' (compute_stack_validate env)"
  "stack_id_get env \<noteq> None \<Longrightarrow> asks_first env ''stack_id'' (stack_id_validate env)"
  "job_group_get env \<noteq> None \<Longrightarrow> asks_first env ''job_group'' (job_group_validate env)"
  "job_started_template_get env \<noteq> None \<Longrightarrow> asks_first env ''job_started_email_template'' (job_started_template_validate env)"
  "job_completed_template_get env \<noteq> None \<Longrightarrow> asks_first env ''job_completed_email_template'' (job_completed_template_validate env)"
  unfolding nodes_validate_def instance_types_validate_def enable_ht_validate_def
    cpus_validate_def memory_validate_def gpus_validate_def
    mpiprocs_validate_def base_os_validate_def instance_ami_validate_def
    spot_validate_def spot_price_validate_def spot_allocation_count_validate_def
    force_reserved_validate_def subnet_ids_validate_def security_groups_validate_def
    instance_profile_validate_def keep_ebs_validate_def root_storage_size_validate_def
    scratch_storage_size_validate_def enable_scratch_validate_def system_metrics_validate_def
    anonymous_metrics_validate_def compute_stack_validate_def stack_id_validate_def
    job_group_validate_def job_started_template_validate_def job_completed_template_validate_def
  by (rule asks_first_given, assumption)+

lemma restrictable_builder:
  "list_all (\<lambda>(n, present). present \<longrightarrow> (\<exists>v a. mk n v a \<in> set (builders env) \<and> asks_first env n v)) (restrictable env)"
  unfolding restrictable_def list.pred_inject(2) prod.case
  by (intro conjI list.pred_inject(1) impI exI,
      (rule builders_mem | rule builders_ask placement_group_asks scratch_iops_asks enable_efa_asks | assumption)+)

section \<open>A small configuration\<close>

text \<open>One instance type with 4 vCPUs on 2 cores and 8 GiB, two subnets, and a queue without defaults that
  restricts the number of nodes.\<close>

definition sample_ec2 :: ec2_type where
  "sample_ec2 = \<lparr>et_default_vcpus = Some 4, et_default_cores = Some 2, et_default_threads = Some 2,
     et_memory_mib = Some 8192, et_cpu_options_supported = Some True, et_ebs_optimized_support = Some ''default'',
     et_placement_strategies = Some [''cluster''], et_efa_supported = Some False\<rparr>"

definition sample_qm :: queue_params where
  "sample_qm = \<lparr>max_running_jobs = None, max_provisioned_instances = None, max_provisioned_capacity = None,
     wait_on_any_job_with_license = None, allowed_instance_types = Some [''c5''], excluded_instance_types = None,
     restricted_parameters = Some [''nodes''], allowed_security_groups = None, allowed_instance_profiles = None\<rparr>"

definition sample_queue :: queue_profile where
  "sample_queue = \<lparr>qp_queue_profile_id = None, qp_name = ''compute'', qp_project_names = None,
     qp_queues = Some [''normal''], qp_enabled = Some True, qp_queue_mode = None, qp_scaling_mode = None,
     qp_terminate_when_idle = None, qp_keep_forever = None, qp_stack_uuid = None,
     qp_queue_management_params = Some sample_qm, qp_default_job_params = None, qp_status = None,
     qp_limit_info = None, qp_queue_size = None\<rparr>"

definition sample_build :: "pydict \<Rightarrow> build_env" where
  "sample_build ps = \<lparr>be_params = ps, be_fmt = (\<lambda>_. []), be_queue = Some sample_queue,
     be_provider = Inr ''openpbs'', be_cluster_name = ''idea-dev'', be_compute_node_os = Some ''rhel9'',
     be_compute_node_ami = Some ''ami-1'', be_instance_profile = Some ''arn:aws:iam::1:instance-profile/compute'',
     be_security_group_ids = [''sg-1''], be_private_subnets = Inr [''subnet-1'', ''subnet-2''],
     be_solution_metrics = True, be_all_instance_types = [''c5.large''],
     be_ec2_type = (\<lambda>t. if t = ''c5.large'' then Inr sample_ec2 else Inl (SocaException ''INVALID_EC2_INSTANCE_TYPE'')),
     be_s3_error = (\<lambda>_. Inr None), be_security_group_valid = (\<lambda>_. Inr True),
     be_instance_profile_arn = (\<lambda>p. Inr (Some p)), be_parse_fsx = (\<lambda>_. Inl ValidationError),
     be_parse_memory = (\<lambda>_. Inl ValidationError), be_literal_eval = (\<lambda>_. Inl ValueError),
     be_random_choice = hd, be_set_order = (\<lambda>xs. xs)\<rparr>"

text \<open>A parameter that the queue profile restricts and the user supplied is reported: its name is among the
  validation entries, so the submission is invalid, whatever the other parameters are. EFA support is reported even
  when the user did not supply it.\<close>

lemma restricted_parameters_reported:
  assumes "validate_job env (new_context q u f) = (Inr results, t)" "be_provider env = Inr provider"
    and "queue_management env = Some qm" "is_restricted_parameter qm n" "(n, True) \<in> set (restrictable env)"
  shows "n \<in> set results \<and> \<not> is_valid results"
proof -
  from restrictable_builder [of env] assms(5) obtain v a where
    "mk n v a \<in> set (builders env)" "asks_first env n v" unfolding list_all_iff by fastforce
  from restricted_builder_reports [OF this assms(3,4,2,1)] show ?thesis by (auto simp: is_valid_def)
qed

lemma restricted_parameters_reported_witness: "''nodes'' \<in> set [''nodes''] \<and> \<not> is_valid [''nodes'']"
proof -
  let ?env = "sample_build [(''nodes'', PInt 2), (''instance_type'', PStr ''c5.large'')]"
  have "fst (validate_job ?env (new_context None None ''u'')) = Inr [''nodes'']" by code_simp
  then obtain t where "validate_job ?env (new_context None None ''u'') = (Inr [''nodes''], t)" by (metis prod.collapse)
  moreover have "be_provider ?env = Inr ''openpbs''" "queue_management ?env = Some sample_qm"
    "is_restricted_parameter sample_qm ''nodes''"
    by (simp_all add: sample_build_def queue_management_def sample_queue_def sample_qm_def is_restricted_parameter_def
        is_empty_opt_list_def)
  moreover have "(''nodes'', True) \<in> set (restrictable ?env)"
    by (simp add: restrictable_def has_def nodes_get_def int_param_def sample_build_def get_value_as_int_def
        get_any_value_def value_exists_def)
  ultimately show ?thesis by (rule restricted_parameters_reported)
qed

section \<open>The entries\<close>

text \<open>Whatever the parameters, the queue and the answers of AWS, and even when a builder stops with an exception:
  validation names each failed parameter exactly once, its entries are exactly the failed parameters, and the job
  parameters and provisioning options under construction are untouched.\<close>

lemma validation_only_adds_entries:
  "case validate_job env (new_context q u f) of (r, t) \<Rightarrow>
     distinct (bs_results t) \<and> set (bs_results t) = bs_failed t \<and>
     bs_job_params t = empty_job_params \<and> bs_options t = bs_options (new_context q u f) \<and>
     (case r of Inr results \<Rightarrow> results = bs_results t | Inl _ \<Rightarrow> True)"
proof -
  obtain r t where rt: "validate_job env (new_context q u f) = (r, t)" by fastforce
  have "validating (validate_job env)" unfolding validate_job_def
    by (intro build_rules jb.validating_run [of _ env] subset_refl)
  from validatingD [OF this rt] new_context_ok have "extends (new_context q u f) t" "ctx_ok t" by auto
  then show ?thesis
    using rt by (auto simp: extends_def ctx_ok_def new_context_def Let_def dest: validate_job_Inr(2) split: sum.split)
qed

section \<open>Jobs without entries\<close>

lemma valid_builder:
  assumes "mk n v a \<in> set (builders env)" "validate_job env (new_context q u f) = (Inr [], t)"
  shows "\<exists>r w w'. v w = (Inr r, w') \<and> bs_failed w = {} \<and> bs_failed w' = {}"
  using jb.run_valid [OF assms(1) validate_job_Inr(1) [OF assms(2)] new_context_ok]
    validate_job_Inr(2) [OF assms(2)] by (simp add: mk_def)

text \<open>In a state without failures, what follows the question for restrictions was reached.\<close>

lemma unless_restricted_passed:
  assumes "unless_restricted env n k w = (Inr r, w')" "bs_failed w = {}" "bs_failed w' = {}"
  shows "k w = (Inr r, w')"
proof -
  obtain x y where i: "is_restricted env n w = (x, y)" by fastforce
  have "x = Inr True \<longrightarrow> bs_failed y \<noteq> {}"
    using i by (auto simp: is_restricted_def check_restricted_def bindS_def thenS_def add_validation_entry_def is_failed_def
        split: option.splits if_splits sum.splits prod.splits)
  moreover have "x = Inr False \<longrightarrow> y = w"
    using i by (auto simp: is_restricted_def check_restricted_def bindS_def thenS_def
        split: option.splits if_splits sum.splits prod.splits)
  ultimately show ?thesis
    using assms i by (cases x) (auto simp: unless_restricted_def bindS_def split: if_splits bool.splits)
qed

lemma unless_failed_passed: "bs_failed w = {} \<Longrightarrow> unless_failed ns k w = k w"
  by (simp add: unless_failed_def is_failed_def)

lemma entry_if_passed:
  assumes "thenS (entry_if b p) k w = (Inr r, w')" "bs_failed w' = {}" "validating k"
  shows "\<not> b \<and> k w = (Inr r, w')"
proof (cases b)
  case True
  then have "k (snd (add_validation_entry p w)) = (Inr r, w')"
    using assms(1) by (simp add: entry_if_def thenS_def add_validation_entry_def)
  from validatingD [OF assms(3) this] add_validation_entry_failed [OF refl, of p w] assms(2)
  show ?thesis by (auto simp: extends_def)
next
  case False
  then show ?thesis using assms(1) by (simp add: entry_if_def thenS_def)
qed

lemma fail_with_not_passed: "fail_with p w = (Inr r, w') \<Longrightarrow> bs_failed w' \<noteq> {}"
  by (auto simp: fail_with_def thenS_def add_validation_entry_def is_failed_def split: if_splits)

lemma check_types_fold:
  assumes "foldE (check_instance_type env) types acc = Inr ([], [], [])"
  shows "acc = ([], [], []) \<and>
    (\<forall>t \<in> set types. t \<in> set (be_all_instance_types env) \<and> (\<exists>et. be_ec2_type env t = Inr et) \<and>
      (\<forall>qm. queue_management env = Some qm \<longrightarrow> is_allowed_instance_type qm t \<and> \<not> is_excluded_instance_type qm t))"
  using assms
proof (induction types arbitrary: acc)
  case Nil
  then show ?case by simp
next
  case (Cons t types)
  obtain a b c where acc: "acc = (a, b, c)" by (cases acc)
  from Cons.prems obtain acc' where step: "check_instance_type env t acc = Inr acc'" and
    "foldE (check_instance_type env) types acc' = Inr ([], [], [])" by (auto simp: bindE_Inr_iff)
  with Cons.IH have "acc' = ([], [], [])" and rest: "\<forall>t \<in> set types. t \<in> set (be_all_instance_types env) \<and>
      (\<exists>et. be_ec2_type env t = Inr et) \<and>
      (\<forall>qm. queue_management env = Some qm \<longrightarrow> is_allowed_instance_type qm t \<and> \<not> is_excluded_instance_type qm t)"
    by blast+
  with step acc have "a = []" "b = []" "c = []" "t \<in> set (be_all_instance_types env)" "\<exists>et. be_ec2_type env t = Inr et"
    "\<forall>qm. queue_management env = Some qm \<longrightarrow> is_allowed_instance_type qm t \<and> \<not> is_excluded_instance_type qm t"
    by (auto simp: check_instance_type_def bindE_Inr_iff is_instance_type_valid_def Let_def
        split: if_splits option.splits sum.splits)
  with rest acc show ?case by simp
qed

text \<open>When validation adds no entry, every submitted instance type exists in the catalogue and in EC2, is
  allowed by the queue (itself or its family) and is not excluded by it.\<close>

lemma valid_instance_types:
  assumes "validate_job env (new_context q u f) = (Inr [], s')" "instance_types_get env = Inr (Some types)" "t \<in> set types"
  shows "t \<in> set (be_all_instance_types env) \<and> (\<exists>et. be_ec2_type env t = Inr et) \<and>
    (\<forall>qm. queue_management env = Some qm \<longrightarrow> is_allowed_instance_type qm t \<and> \<not> is_excluded_instance_type qm t)"
proof -
  from valid_builder [OF builders_mem(2) assms(1)] obtain r w w' where
    "instance_types_validate env w = (Inr r, w')" and ok: "bs_failed w = {}" "bs_failed w' = {}" by blast
  from unless_restricted_passed [OF this(1) [unfolded instance_types_validate_def given_run(1) [OF assms(2)]] ok]
  obtain a b c where l: "foldE (check_instance_type env) types ([], [], []) = Inr (a, b, c)" and
    k: "thenS (entry_if (a \<noteq> []) ''instance_types'') (thenS (entry_if (b \<noteq> []) ''instance_types'')
       (thenS (entry_if (c \<noteq> []) ''instance_types'') (ret (a = [] \<and> b = [] \<and> c = [])))) w = (Inr r, w')"
    by (auto simp: bindS_reads split: sum.splits)
  note e = entry_if_passed [OF _ ok(2)]
  from e [OF k] have "a = []" and k2: "thenS (entry_if (b \<noteq> []) ''instance_types'')
       (thenS (entry_if (c \<noteq> []) ''instance_types'') (ret (a = [] \<and> b = [] \<and> c = []))) w = (Inr r, w')"
    by (auto intro: build_rules)
  from e [OF k2] have "b = []" and k3: "thenS (entry_if (c \<noteq> []) ''instance_types'') (ret (a = [] \<and> b = [] \<and> c = [])) w = (Inr r, w')"
    by (auto intro: build_rules)
  from e [OF k3] have "c = []" by (auto intro: build_rules)
  with l \<open>a = []\<close> \<open>b = []\<close> check_types_fold [of env types "([], [], [])"] assms(3) show ?thesis by blast
qed

text \<open>When validation adds no entry, the submitted number of CPUs is positive and at most the number of vCPUs (of
  cores, without hyper-threading) of every instance type that the job can get.\<close>

lemma valid_cpus_fit:
  assumes "validate_job env (new_context q u f) = (Inr [], s')" "cpus_get env = Inr (Some cpus)"
    and "effective_instance_types env = Inr types" "t \<in> set types"
  shows "0 < cpus \<and> (\<exists>et n. be_ec2_type env t = Inr et \<and> cpus \<le> n \<and>
    (if opt_or (enable_ht_get env) (enable_ht_default env) then et_default_vcpus et else et_default_cores et) = Some n)"
proof -
  let ?ht = "opt_or (enable_ht_get env) (enable_ht_default env)"
  from valid_builder [OF builders_mem(4) assms(1)] obtain r w w' where
    "cpus_validate env w = (Inr r, w')" and ok: "bs_failed w = {}" "bs_failed w' = {}" by blast
  from unless_restricted_passed [OF this(1) [unfolded cpus_validate_def given_run(1) [OF assms(2)]] ok]
  have "0 < cpus" and m: "\<exists>m. min_cpus env ?ht types = Inr m \<and> cpus \<le> m"
    using ok assms(3)
    by (auto simp: eval_positive_nonzero_int_def thenS_def bindS_def unless_failed_def is_failed_def
        add_validation_entry_def fail_with_def split: if_splits sum.splits)
  have "foldE (\<lambda>t m. bindE (be_ec2_type env t) (\<lambda>et.
       bindE (required TypeError (if ?ht then et_default_vcpus et else et_default_cores et)) (\<lambda>n. Inr (min m n)))) ts a = Inr b \<Longrightarrow>
     b \<le> a \<and> (\<forall>t \<in> set ts. \<exists>et n. be_ec2_type env t = Inr et \<and> b \<le> n \<and>
       (if ?ht then et_default_vcpus et else et_default_cores et) = Some n)" for ts a b
    by (induction ts arbitrary: a) (fastforce simp: bindE_Inr_iff)+
  with m assms(4) have "\<exists>et n. be_ec2_type env t = Inr et \<and> cpus \<le> n \<and>
       (if ?ht then et_default_vcpus et else et_default_cores et) = Some n"
    unfolding min_cpus_def by (meson order_trans)
  with \<open>0 < cpus\<close> show ?thesis by blast
qed

lemma mem_min_bound:
  assumes "mem_min ms = Inr m" "mem_gt x m = Inr False" "y \<in> set ms" "bytes y = Inr b"
  shows "\<exists>a. bytes x = Inr a \<and> a \<le> b"
proof -
  from assms(1) obtain z zs where ms: "ms = z # zs" "mem_min_from z zs = Inr m" by (cases ms) auto
  from assms(2) obtain p r where pr: "bytes x = Inr p" "bytes m = Inr r" "p \<le> r"
    by (auto simp: mem_gt_def mem_cmp_def bindE_Inr_iff)
  have "\<forall>a b. bytes m = Inr a \<longrightarrow> bytes y = Inr b \<longrightarrow> a \<le> b"
    using mem_min_from_least [OF ms(2)] assms(3) ms(1) by auto
  with pr assms(4) have "r \<le> b" by blast
  with pr show ?thesis by force
qed

text \<open>When validation adds no entry, the submitted amount of memory is positive and, in bytes, at most the memory
  of every instance type that the job can get.\<close>

lemma valid_memory_fits:
  assumes "validate_job env (new_context q u f) = (Inr [], s')" "memory_get env True = Inr (Some m)"
    and "effective_instance_types env = Inr types" "t \<in> set types" "instance_memory env t = Inr mt" "bytes mt = Inr b"
  shows "mem_gt_num m 0 \<and> (\<exists>a. bytes m = Inr a \<and> a \<le> b)"
proof -
  from valid_builder [OF builders_mem(5) assms(1)] obtain r w w' where
    "memory_validate env w = (Inr r, w')" and ok: "bs_failed w = {}" "bs_failed w' = {}" by blast
  from unless_restricted_passed [OF this(1) [unfolded memory_validate_def given_run(3) [OF assms(2)]] ok]
  obtain smallest where "mem_gt_num m 0" and
    s: "bindE (traverseE (instance_memory env) types) mem_min = Inr smallest" "mem_gt m smallest = Inr False"
    using ok assms(3)
    by (auto simp: eval_positive_nonzero_int_def thenS_def bindS_def unless_failed_def is_failed_def
        add_validation_entry_def fail_with_def split: if_splits sum.splits)
  then obtain ms where ms: "traverseE (instance_memory env) types = Inr ms" "mem_min ms = Inr smallest"
    by (auto simp: bindE_Inr_iff)
  have "traverseE g xs = Inr ys \<Longrightarrow> x \<in> set xs \<Longrightarrow> g x = Inr y \<Longrightarrow> y \<in> set ys" for g :: "string \<Rightarrow> soca_memory res" and xs ys x y
    by (induction xs arbitrary: ys) (auto simp: bindE_Inr_iff)
  from mem_min_bound [OF ms(2) s(2) this [OF ms(1) assms(4,5)] assms(6)] \<open>mem_gt_num m 0\<close> show ?thesis by blast
qed

section \<open>Names of stacks and groups\<close>

lemma contains_brace: "startswith (CHR ''{'' # l) r \<Longrightarrow> CHR ''{'' \<in> set r"
  by (cases r) (auto simp: startswith_def)

lemma matches_has_brace: "matches_one_then p cls (CHR ''{'' # l) s \<Longrightarrow> CHR ''{'' \<in> set s"
  by (auto simp: matches_one_then_def dest!: contains_brace split: list.splits) (metis in_set_dropD list.set_intros(2))

lemma fails_or_restricted:
  assumes "map_of provider_names n = None"
  shows "n \<in> bs_failed (snd (unless_restricted env n (fail_with n) u))"
proof -
  have "provider_param_name env n = Inr None" by (simp add: provider_param_name_def assms)
  then show ?thesis
    by (auto simp: unless_restricted_def is_restricted_def check_restricted_def fail_with_def thenS_def bindS_def
        add_validation_entry_def is_failed_def split: option.splits)
qed

text \<open>The quantifiers of the name patterns are written with a space, which \<open>re\<close> takes literally. So validation
  reports every submitted compute stack other than \<open>tbd\<close> that has no brace in its name.\<close>

lemma compute_stack_reported:
  assumes "validate_job env (new_context q u f) = (Inr results, t)" "compute_stack_get env = Some st"
    and "lower (strip st) \<noteq> ''tbd''" "CHR ''{'' \<notin> set st"
  shows "''compute_stack'' \<in> set results"
proof -
  have "\<not> matches_one_then p cls ''{5, 50}'' st" for p cls using matches_has_brace assms(4) by blast
  then have "compute_stack_validate env w = unless_restricted env ''compute_stack'' (fail_with ''compute_stack'') w" for w
    using assms(3) by (simp add: compute_stack_validate_def given_run assms(2))
  with fails_or_restricted [of "''compute_stack''" env]
    jb.run_reports [OF builders_mem(32) validate_job_Inr(1) [OF assms(1)] new_context_ok]
  show ?thesis by (simp add: mk_def provider_names_def validate_job_Inr(2) [OF assms(1)])
qed

text \<open>Likewise validation reports every job group that the user chooses, unless it has a brace in its name; the
  entry names the compute stack instead of the job group.\<close>

lemma job_group_reported:
  assumes "validate_job env (new_context q u f) = (Inr results, t)" "job_group_get env = Some g"
    and "CHR ''{'' \<notin> set g"
  shows "\<not> is_valid results"
proof
  assume "is_valid results"
  then have v: "validate_job env (new_context q u f) = (Inr [], t)" using assms(1) by (simp add: is_valid_def)
  from valid_builder [OF builders_mem(34) v] obtain r w w' where
    "job_group_validate env w = (Inr r, w')" and ok: "bs_failed w = {}" "bs_failed w' = {}" by blast
  then have "unless_restricted env ''job_group''
       (if matches_one_then ''custom-'' is_lower_alnum ''{1, 10}'' g then ret True
        else fail_with ''compute_stack'') w = (Inr r, w')"
    by (simp add: job_group_validate_def given_run assms(2))
  from unless_restricted_passed [OF this ok] assms(3) show False
    using fail_with_not_passed [of "''compute_stack''" w r w'] ok
    by (auto dest: matches_has_brace split: if_splits)
qed

section \<open>Runs\<close>

definition sample_valid :: build_env where
  "sample_valid = sample_build [(''cpus'', PInt 2), (''memory'', PStr ''4gb''), (''instance_type'', PStr ''c5.large'')]"

definition sample_named :: build_env where
  "sample_named = sample_build [(''instance_type'', PStr ''c5.large''), (''compute_stack'', PStr ''ideadev-abc12''),
     (''job_group'', PStr ''custom-a1'')]"

lemma sample_valid_run: "fst (validate_job sample_valid (new_context None None ''u'')) = Inr []"
  by code_simp

lemma sample_named_run: "fst (validate_job sample_named (new_context None None ''u'')) = Inr [''compute_stack'']"
  by code_simp

lemma sample_valid_reads:
  "instance_types_get sample_valid = Inr (Some [''c5.large''])" "effective_instance_types sample_valid = Inr [''c5.large'']"
  "cpus_get sample_valid = Inr (Some 2)" "memory_get sample_valid True = Inr (Some (SocaMemory (Fin 4) GB))"
  "instance_memory sample_valid ''c5.large'' = Inr (SocaMemory (Fin 8192) MiB)" "bytes (SocaMemory (Fin 8192) MiB) = Inr 8589934592"
  "compute_stack_get sample_named = Some ''ideadev-abc12''" "job_group_get sample_named = Some ''custom-a1''"
  by code_simp+

lemma valid_instance_types_witness:
  "''c5.large'' \<in> set (be_all_instance_types sample_valid) \<and> is_allowed_instance_type sample_qm ''c5.large''"
proof -
  obtain t where "validate_job sample_valid (new_context None None ''u'') = (Inr [], t)"
    using sample_valid_run by (metis prod.collapse)
  from valid_instance_types [OF this sample_valid_reads(1)] show ?thesis
    by (simp add: sample_valid_def sample_build_def queue_management_def sample_queue_def)
qed

lemma valid_cpus_fit_witness: "\<exists>et n. be_ec2_type sample_valid ''c5.large'' = Inr et \<and> et_default_cores et = Some n \<and> 2 \<le> n"
proof -
  obtain t where "validate_job sample_valid (new_context None None ''u'') = (Inr [], t)"
    using sample_valid_run by (metis prod.collapse)
  moreover have "opt_or (enable_ht_get sample_valid) (enable_ht_default sample_valid) = False" by code_simp
  ultimately show ?thesis
    using valid_cpus_fit [OF _ sample_valid_reads(3,2), of _ _ _ _ "''c5.large''"] by fastforce
qed

lemma valid_memory_fits_witness: "\<exists>a. bytes (SocaMemory (Fin 4) GB) = Inr a \<and> a \<le> 8589934592"
proof -
  obtain t where "validate_job sample_valid (new_context None None ''u'') = (Inr [], t)"
    using sample_valid_run by (metis prod.collapse)
  from valid_memory_fits [OF this sample_valid_reads(4,2) _ sample_valid_reads(5,6)] show ?thesis by simp
qed

lemma compute_stack_reported_witness: "''compute_stack'' \<in> set [''compute_stack'']"
proof -
  obtain t where "validate_job sample_named (new_context None None ''u'') = (Inr [''compute_stack''], t)"
    using sample_named_run by (metis prod.collapse)
  moreover have "lower (strip ''ideadev-abc12'') \<noteq> ''tbd''" by code_simp
  ultimately show ?thesis by (rule compute_stack_reported [OF _ sample_valid_reads(7)]) simp
qed

lemma job_group_reported_witness: "\<not> is_valid [''compute_stack'']"
proof -
  obtain t where "validate_job sample_named (new_context None None ''u'') = (Inr [''compute_stack''], t)"
    using sample_named_run by (metis prod.collapse)
  from job_group_reported [OF this sample_valid_reads(8)] show ?thesis by simp
qed

end
