(* ===== verification/Job_Build.thy ===== *)
theory Job_Build
  imports Job_Validation
begin

text \<open>
  What \<open>SocaJobBuilder.build\<close> produces: each field of the result is written by one builder, so its value is that
  builder's, and consequences for instance options, subnets, spot capacity and FSx for Lustre.
\<close>

section \<open>Frames\<close>

text \<open>An operation keeps what \<open>sel\<close> reads of the state, whether it returns or raises.\<close>

definition keeps :: "(build_state \<Rightarrow> 'b) \<Rightarrow> 'a build \<Rightarrow> bool" where
  "keeps sel m \<longleftrightarrow> (\<forall>s. sel (snd (m s)) = sel s)"

named_theorems keeps_rules \<open>what a step of a builder leaves as it is\<close>

lemma keepsD: "keeps sel m \<Longrightarrow> m s = (r, t) \<Longrightarrow> sel t = sel s"
  unfolding keeps_def by (metis snd_conv)

lemma keeps_prim [keeps_rules]:
  "keeps sel (ret x)" "keeps sel (throw e)" "keeps sel (gets f)" "keeps sel (reads g)"
  by (simp_all add: keeps_def)

lemma keeps_bindS [keeps_rules]: "keeps sel m \<Longrightarrow> (\<And>x. keeps sel (k x)) \<Longrightarrow> keeps sel (bindS m k)"
  by (auto simp: keeps_def bindS_def split: prod.splits sum.splits) (metis snd_conv)+

lemma keeps_thenS [keeps_rules]: "keeps sel m \<Longrightarrow> keeps sel k \<Longrightarrow> keeps sel (thenS m k)"
  by (simp add: thenS_def keeps_bindS)

lemma keeps_if [keeps_rules]: "keeps sel m \<Longrightarrow> keeps sel k \<Longrightarrow> keeps sel (if b then m else k)"
  by simp

lemma keeps_cases [keeps_rules]:
  "keeps sel m \<Longrightarrow> (\<And>x. keeps sel (f x)) \<Longrightarrow> keeps sel (case v of None \<Rightarrow> m | Some x \<Rightarrow> f x)"
  "(\<And>x. keeps sel (g x)) \<Longrightarrow> (\<And>t. keeps sel (h t)) \<Longrightarrow> keeps sel (case w of SPrice x \<Rightarrow> g x | SText t \<Rightarrow> h t)"
  "(\<And>x. keeps sel (f x)) \<Longrightarrow> keeps sel (Let v' f)"
  by (simp_all split: option.split spot_price.split)

lemma keeps_sets [keeps_rules]:
  "(\<And>p. g (f p) = g p) \<Longrightarrow> keeps (g \<circ> bs_job_params) (set_param f)"
  "keeps (g \<circ> bs_job_params) (set_option h)"
  "(\<And>o'. k (h o') = k o') \<Longrightarrow> keeps (k \<circ> bs_options) (set_option h)"
  "keeps (k \<circ> bs_options) (set_param f)"
  by (simp_all add: keeps_def set_param_def set_option_def)

lemma keeps_apply_value [keeps_rules]:
  "(\<And>v p. g (assign v p) = g p) \<Longrightarrow> keeps (g \<circ> bs_job_params) (apply_value value dflt assign)"
  "keeps (k \<circ> bs_options) (apply_value value dflt assign)"
  unfolding apply_value_def by (intro keeps_rules | assumption)+

section \<open>Running the builders\<close>

lemma keeps_run: "list_all (\<lambda>c. keeps sel (b_apply c)) cs \<Longrightarrow> keeps sel (build_all cs)"
  unfolding build_all_def by (induction cs) (auto intro: keeps_rules)

lemma build_all_append: "build_all (xs @ ys) s = thenS (build_all xs) (build_all ys) s"
  by (induction xs arbitrary: s) (simp_all add: build_all_def thenS_apply split: prod.splits sum.splits)

context builder_list
begin

text \<open>The value of a field after a successful run is the one its only writer left.\<close>

lemma build_writes:
  assumes "bs = pre @ b # post" "build_all bs s = (Inr (), t)" "list_all (\<lambda>c. keeps sel (b_apply c)) post"
  shows "\<exists>u v. b_apply b u = (Inr (), v) \<and> sel t = sel v \<and> bs_failed u = bs_failed s"
proof -
  from assms(2) obtain u where u: "build_all pre s = (Inr (), u)" "build_all (b # post) u = (Inr (), t)"
    unfolding assms(1) build_all_append by (auto simp: thenS_apply split: prod.splits sum.splits)
  then obtain v where v: "b_apply b u = (Inr (), v)" "build_all post v = (Inr (), t)"
    by (auto simp: build_all_def thenS_apply split: prod.splits sum.splits)
  have "sel t = sel v" using keepsD [OF keeps_run [OF assms(3)] v(2)] .
  moreover have "building (build_all pre)" using assms(1) by (intro building_run) auto
  then have "bs_failed u = bs_failed s" using u(1) by (metis building_def snd_conv)
  ultimately show ?thesis using v(1) by blast
qed

end

lemma build_job_Inr:
  assumes "build_job env s = (Inr (p, po), t)"
  shows "build_all (builders env) s = (Inr (), t)" "p = bs_job_params t" "po = bs_options t"
  using assms by (auto simp: build_job_def thenS_apply split: prod.splits sum.splits)

lemmas apply_defs =
  nodes_apply_def cpus_apply_def memory_apply_def gpus_apply_def mpiprocs_apply_def base_os_apply_def
  instance_ami_apply_def instance_types_apply_def force_reserved_apply_def spot_apply_def spot_price_apply_def
  spot_allocation_count_apply_def spot_allocation_strategy_apply_def subnet_ids_apply_def security_groups_apply_def
  instance_profile_apply_def keep_ebs_apply_def root_storage_size_apply_def scratch_storage_size_apply_def
  scratch_iops_apply_def fsx_lustre_apply_def enable_scratch_apply_def enable_efa_apply_def enable_ht_apply_def
  override_provisioning_options_def placement_group_apply_def system_metrics_apply_def anonymous_metrics_apply_def
  licenses_apply_def terminate_when_idle_apply_def keep_forever_apply_def tags_apply_def compute_stack_apply_def
  stack_id_apply_def job_group_apply_def job_started_template_apply_def job_completed_template_apply_def
  walltime_apply_def custom_params_apply_def

lemma kept_after:
  "list_all (\<lambda>c. keeps (p_instance_types \<circ> bs_job_params) (b_apply c)) (drop 3 (builders env))"
  "list_all (\<lambda>c. keeps (p_enable_ht_support \<circ> bs_job_params) (b_apply c)) (drop 3 (builders env))"
  "list_all (\<lambda>c. keeps (po_instance_types \<circ> bs_options) (b_apply c)) (drop 3 (builders env))"
  "list_all (\<lambda>c. keeps (p_spot \<circ> bs_job_params) (b_apply c)) (drop 11 (builders env))"
  "list_all (\<lambda>c. keeps (p_fsx_lustre \<circ> bs_job_params) (b_apply c)) (drop 17 (builders env))"
  "list_all (\<lambda>c. keeps (p_subnet_ids \<circ> bs_job_params) (b_apply c)) (drop 18 (builders env))"
  by (simp add: builders_def mk_def, unfold apply_defs, intro conjI keeps_rules; simp)+

lemma builders_nth:
  "builders env ! 10 = mk ''spot'' (spot_validate env) (spot_apply env)"
  "builders env ! 16 = mk ''fsx_lustre'' (fsx_lustre_validate env) (fsx_lustre_apply env)"
  "builders env ! 17 = mk ''subnet_ids'' (subnet_ids_validate env) (subnet_ids_apply env)"
  "length (builders env) = 38"
  by (simp_all add: builders_def)

lemma written_by:
  assumes "build_all (builders env) s = (Inr (), t)" "n < 38" "list_all (\<lambda>c. keeps sel (b_apply c)) (drop (Suc n) (builders env))"
  shows "\<exists>u v. b_apply (builders env ! n) u = (Inr (), v) \<and> sel t = sel v \<and> bs_failed u = bs_failed s"
proof (rule jb.build_writes [OF _ assms(1,3)])
  show "builders env = take n (builders env) @ builders env ! n # drop (Suc n) (builders env)"
    using assms(2) builders_nth(4) [of env] by (simp add: id_take_nth_drop)
qed

section \<open>Instance type options\<close>

lemma builders_head:
  "builders env = mk ''nodes'' (nodes_validate env) (nodes_apply env) #
     mk ''instance_types'' (instance_types_validate env) (instance_types_apply env) #
     mk ''enable_ht_support'' (enable_ht_validate env) (enable_ht_apply env) # drop 3 (builders env)"
  by (simp add: builders_def)

lemma options_of_types:
  assumes "get_instance_type_options env types False = Inr opts"
  shows "map o_name opts = map Some types \<and> (\<forall>opt \<in> set opts. o_weighted_capacity opt = o_default_core_count opt \<and> o_threads_per_core opt = Some 1)"
  using assms unfolding get_instance_type_options_def
  by (induction types arbitrary: opts) (auto simp: bindE_Inr_iff instance_type_option_of_def)

lemma instance_types_applied:
  assumes "instance_types_apply env s = (Inr (), t)"
  shows "\<exists>types opts. types \<noteq> [] \<and> p_instance_types (bs_job_params t) = Some types \<and> po_instance_types (bs_options t) = Some opts \<and>
    get_instance_type_options env types False = Inr opts"
  using assms
  by (auto simp: instance_types_apply_def bindS_reads set_param_def set_option_def thenS_def throw_def
      split: sum.splits option.splits if_splits)

text \<open>C7: A job that is built has at least one instance type and one set of options per type, in the same order; its
  weighted capacity and threads per core are those of the vCPUs exactly when the built job has hyper-threading, and
  those of the cores, with one thread each, when it has not.\<close>

lemma built_instance_options:
  assumes "build_job env s = (Inr (p, po), t)"
  shows "\<exists>types opts. types \<noteq> [] \<and> p_instance_types p = Some types \<and> po_instance_types po = Some opts \<and>
    map o_name opts = map Some types \<and>
    (\<forall>opt \<in> set opts.
       if p_enable_ht_support p = Some True
       then o_weighted_capacity opt = o_default_vcpu_count opt \<and> o_threads_per_core opt = o_default_threads_per_core opt
       else o_weighted_capacity opt = o_default_core_count opt \<and> o_threads_per_core opt = Some 1)"
proof -
  let ?ht = "opt_or (enable_ht_get env) (enable_ht_default env)"
  from build_job_Inr(1) [OF assms] obtain s1 s2 s3 where
    s: "instance_types_apply env s1 = (Inr (), s2)" "enable_ht_apply env s2 = (Inr (), s3)"
    "build_all (drop 3 (builders env)) s3 = (Inr (), t)"
    unfolding build_all_def by (subst (asm) builders_head) (auto simp: mk_def thenS_apply split: prod.splits sum.splits)
  from instance_types_applied [OF s(1)] obtain types opts where
    types: "types \<noteq> []" "p_instance_types (bs_job_params s2) = Some types" "po_instance_types (bs_options s2) = Some opts"
    "get_instance_type_options env types False = Inr opts" by blast
  from s(2) types(2,3) have ht: "p_instance_types (bs_job_params s3) = Some types" "p_enable_ht_support (bs_job_params s3) = Some ?ht"
    "po_instance_types (bs_options s3) = Some (if ?ht then map ht_option opts else opts)"
    by (auto simp: enable_ht_apply_def override_provisioning_options_def Let_def set_param_def set_option_def thenS_def
        bindS_reads split: if_splits)
  from keepsD [OF keeps_run [OF kept_after(1)] s(3)] keepsD [OF keeps_run [OF kept_after(2)] s(3)]
    keepsD [OF keeps_run [OF kept_after(3)] s(3)] ht
  have "p_instance_types p = Some types" "p_enable_ht_support p = Some ?ht"
    "po_instance_types po = Some (if ?ht then map ht_option opts else opts)"
    using build_job_Inr(2,3) [OF assms] by simp_all
  moreover have "o_name \<circ> ht_option = o_name" by (auto simp: ht_option_def)
  ultimately show ?thesis using types(1) options_of_types [OF types(4)] by (auto simp: ht_option_def)
qed

section \<open>Spot capacity and subnets\<close>

text \<open>A submitted spot price makes the built job a spot job, even when the user or the queue turned \<open>spot\<close> off.\<close>

lemma spot_price_makes_spot:
  assumes "build_job env s = (Inr (p, po), t)" "spot_price_get env = Inr (Some price)"
  shows "p_spot p = Some True"
proof -
  have "drop (Suc 10) (builders env) = drop 11 (builders env)" by simp
  from written_by [OF build_job_Inr(1) [OF assms(1)], of 10 "p_spot \<circ> bs_job_params"] kept_after(4) [of env]
  obtain u v where "spot_apply env u = (Inr (), v)" "p_spot (bs_job_params t) = p_spot (bs_job_params v)"
    by (auto simp: builders_nth mk_def)
  moreover have "spot_get env = Inr (Some True)" using assms(2) by (simp add: spot_get_def)
  ultimately show ?thesis
    using build_job_Inr(2) [OF assms(1)] by (auto simp: spot_apply_def apply_value_def bindS_reads set_param_def)
qed

lemma random_choice_single: "bindE (random_choice env xs) (\<lambda>x. Inr [x]) = Inr ids \<Longrightarrow> length ids = 1"
  by (auto simp: bindE_Inr_iff)

lemma narrow_subnets_single:
  "narrow_subnets env nodes ids = Inr ids' \<Longrightarrow> placement_group_get env = Some True \<Longrightarrow> length ids' \<le> 1"
  by (auto simp: narrow_subnets_def bindE_Inr_iff split: if_splits)

lemma subnet_ids_default_single:
  "subnet_ids_default env s = Inr ids \<Longrightarrow> placement_group_get env = Some True \<Longrightarrow> length ids \<le> 1"
  unfolding subnet_ids_default_def by (auto simp: bindE_Inr_iff Let_def dest: narrow_subnets_single)

lemma subnet_ids_get_strict:
  assumes "subnet_ids_get env False = Inr (Some ids)"
  shows "subnet_ids_get env True = Inr (Some ids)"
proof -
  have "first_subnets env False v = Inr (Some ids) \<Longrightarrow> first_subnets env True v = Inr (Some ids)" for v
    by (auto simp: first_subnets_def bindE_Inr_iff split: if_splits)
  note first = this
  let ?o = "opt_else (get_any_value ''subnet_id'' (be_params env)) (get_any_value ''subnet_ids'' (be_params env))"
  obtain v where v: "?o = Some v" using assms by (cases ?o) (simp_all only: subnet_ids_get_def option.case sum.inject option.distinct)
  have get: "subnet_ids_get env b = bindE (is_int v) (\<lambda>number. if number then first_subnets env b v else listed_subnets v)" for b
    unfolding subnet_ids_get_def v by (simp only: option.case)
  show ?thesis
  proof (cases "is_int v")
    case (Inl e)
    with assms get [of False] show ?thesis by (simp only: bindE_simps sum.distinct)
  next
    case (Inr number)
    with assms get [of False] first show ?thesis unfolding get [of True] by (cases number) (simp_all only: bindE_simps if_True if_False)
  qed
qed

lemma valid_subnets_single:
  assumes "validate_job env (new_context q u f) = (Inr [], s')" "subnet_ids_get env True = Inr (Some ids)"
    and "placement_group_get env = Some True \<or> enable_efa_get env = Some True"
  shows "length ids \<le> 1"
proof -
  from valid_builder [OF builders_mem(18) assms(1)] obtain r w w' where
    "subnet_ids_validate env w = (Inr r, w')" and ok: "bs_failed w = {}" "bs_failed w' = {}" by blast
  from unless_restricted_passed [OF this(1) [unfolded subnet_ids_validate_def given_run(3) [OF assms(2)]] ok]
  have k: "thenS (entry_if (is_true_opt (placement_group_get env) \<and> length ids > 1) ''subnet_ids'')
      (thenS (entry_if (is_true_opt (enable_efa_get env) \<and> length ids > 1) ''subnet_ids'')
        (ret (\<not> (is_true_opt (placement_group_get env) \<and> length ids > 1) \<and>
              \<not> (is_true_opt (enable_efa_get env) \<and> length ids > 1)))) w = (Inr r, w')"
    by (simp add: unless_failed_passed [OF ok(1)] Let_def)
  note e = entry_if_passed [OF _ ok(2)]
  from e [OF k] have "\<not> (is_true_opt (placement_group_get env) \<and> length ids > 1)" and
    k2: "thenS (entry_if (is_true_opt (enable_efa_get env) \<and> length ids > 1) ''subnet_ids'')
        (ret (\<not> (is_true_opt (placement_group_get env) \<and> length ids > 1) \<and>
              \<not> (is_true_opt (enable_efa_get env) \<and> length ids > 1))) w = (Inr r, w')"
    by (auto intro: build_rules)
  moreover from e [OF k2] have "\<not> (is_true_opt (enable_efa_get env) \<and> length ids > 1)" by (auto intro: build_rules)
  ultimately show ?thesis using assms(3) by auto
qed

text \<open>Validation and construction together: when validation added no entry, a job that is built with an explicit
  placement group has at most one subnet, whether the user, the queue or the cluster supplied the subnets.\<close>

lemma placement_group_single_subnet:
  assumes "validate_job env (new_context q u f) = (Inr [], s')" "build_job env s' = (Inr (p, po), t)"
    and "placement_group_get env = Some True"
  shows "\<exists>ids. p_subnet_ids p = Some ids \<and> length ids \<le> 1"
proof -
  have "drop (Suc 17) (builders env) = drop 18 (builders env)" by simp
  from written_by [OF build_job_Inr(1) [OF assms(2)], of 17 "p_subnet_ids \<circ> bs_job_params"] kept_after(6) [of env]
  obtain w v where run: "subnet_ids_apply env w = (Inr (), v)" "p_subnet_ids (bs_job_params t) = p_subnet_ids (bs_job_params v)"
    by (auto simp: builders_nth mk_def)
  from run(1) obtain given_ids ids where ids: "subnet_ids_get env False = Inr given_ids" "p_subnet_ids (bs_job_params v) = Some ids"
    "if is_empty_opt_list given_ids then subnet_ids_default env w = Inr ids else given_ids = Some ids"
    by (auto simp: subnet_ids_apply_def bindS_reads set_param_def is_empty_opt_list_def split: sum.splits if_splits option.splits)
  have "length ids \<le> 1"
  proof (cases "is_empty_opt_list given_ids")
    case True
    with ids(3) have "subnet_ids_default env w = Inr ids" by simp
    then show ?thesis using assms(3) by (rule subnet_ids_default_single)
  next
    case False
    with ids(1,3) have "subnet_ids_get env True = Inr (Some ids)" by (auto intro: subnet_ids_get_strict)
    from valid_subnets_single [OF assms(1) this] assms(3) show ?thesis by simp
  qed
  with ids(2) run(2) build_job_Inr(2) [OF assms(2)] show ?thesis by auto
qed

section \<open>FSx for Lustre\<close>

text \<open>A job that asks for a new FSx for Lustre file system is built with a complete configuration: what the user
  gave is kept, and deployment type and size are there even if neither the user nor the queue named them, as long as
  the queue does not name an existing file system as its default.\<close>

lemma built_fsx_complete:
  assumes "build_job env s = (Inr (p, po), t)" "fsx_lustre_get env = Inr (Some c)" "fsx_enabled c = Some True"
    and "existing_fsx c = None" "\<And>d. queue_default env p_fsx_lustre = Some d \<Longrightarrow> existing_fsx d = None"
  shows "\<exists>c'. p_fsx_lustre p = Some c' \<and> fsx_enabled c' = Some True \<and> deployment_type c' \<noteq> None \<and> fsx_size c' \<noteq> None \<and>
    (s3_backend c \<noteq> None \<longrightarrow> s3_backend c' = s3_backend c) \<and>
    (deployment_type c \<noteq> None \<longrightarrow> deployment_type c' = deployment_type c) \<and>
    (per_unit_throughput c \<noteq> None \<longrightarrow> per_unit_throughput c' = per_unit_throughput c) \<and>
    (fsx_size c \<noteq> None \<longrightarrow> fsx_size c' = fsx_size c)"
proof -
  have "drop (Suc 16) (builders env) = drop 17 (builders env)" by simp
  from written_by [OF build_job_Inr(1) [OF assms(1)], of 16 "p_fsx_lustre \<circ> bs_job_params"] kept_after(5) [of env]
  obtain w v where run: "fsx_lustre_apply env w = (Inr (), v)" "p_fsx_lustre (bs_job_params t) = p_fsx_lustre (bs_job_params v)"
    by (auto simp: builders_nth mk_def)
  let ?d = "fsx_lustre_default env (s3_backend c)"
  from run(1) assms(2-4) have "p_fsx_lustre (bs_job_params v) = Some (fill_fsx ?d c)"
    by (auto simp: fsx_lustre_apply_def bindS_reads set_param_def Let_def)
  moreover have "deployment_type ?d \<noteq> None" "fsx_size ?d \<noteq> None"
    using assms(5) by (cases "queue_default env p_fsx_lustre"; auto simp: fsx_lustre_default_def Let_def empty_fsx_config_def)+
  ultimately show ?thesis
    using run(2) build_job_Inr(2) [OF assms(1)] assms(3)
    by (auto simp: fill_fsx_def opt_else_def split: option.splits)
qed

text \<open>The default throughput follows the default deployment type and not the submitted one: a job that asks for a
  \<open>persistent_1\<close> file system without a throughput, on a queue without FSx defaults, is built without a throughput.\<close>

lemma persistent_without_throughput:
  assumes "build_job env s = (Inr (p, po), t)" "fsx_lustre_get env = Inr (Some c)" "fsx_enabled c = Some True"
    and "existing_fsx c = None" "deployment_type c = Some ''persistent_1''" "per_unit_throughput c = None"
    and "queue_default env p_fsx_lustre = None"
  shows "\<exists>c'. p_fsx_lustre p = Some c' \<and> deployment_type c' = Some ''persistent_1'' \<and> per_unit_throughput c' = None"
proof -
  have "drop (Suc 16) (builders env) = drop 17 (builders env)" by simp
  from written_by [OF build_job_Inr(1) [OF assms(1)], of 16 "p_fsx_lustre \<circ> bs_job_params"] kept_after(5) [of env]
  obtain w v where run: "fsx_lustre_apply env w = (Inr (), v)" "p_fsx_lustre (bs_job_params t) = p_fsx_lustre (bs_job_params v)"
    by (auto simp: builders_nth mk_def)
  from run(1) assms(2-7) have "p_fsx_lustre (bs_job_params v) = Some (fill_fsx (fsx_lustre_default env (s3_backend c)) c)"
    by (auto simp: fsx_lustre_apply_def bindS_reads set_param_def Let_def)
  with run(2) build_job_Inr(2) [OF assms(1)] assms(5-7) show ?thesis
    by (auto simp: fill_fsx_def fsx_lustre_default_def Let_def empty_fsx_config_def)
qed

text \<open>With an S3 backend the FSx parameters are never answered to be valid, also when the bucket can be read and
  nothing is reported.\<close>

lemma fsx_backend_never_valid:
  assumes "fsx_lustre_get env = Inr (Some c)" "fsx_enabled c \<noteq> Some False" "s3_backend c = Some b" "b \<noteq> []"
    and "fsx_lustre_validate env w = (Inr r, w')"
  shows "\<not> r"
  using assms
  by (auto simp: fsx_lustre_validate_def given_run unless_restricted_def restricted_if_def bindS_def fsx_backend_check_def
      thenS_def split: if_splits prod.splits sum.splits)

section \<open>Runs\<close>

definition sample_params :: pydict where
  "sample_params = [(''instance_type'', PStr ''c5.large''), (''placement_group'', PBool True),
     (''spot_price'', PFloat (Fin (1 / 2))), (''fsx_lustre'', PBool True),
     (''fsx_lustre_deployment_type'', PStr ''Persistent_1'')]"

text \<open>The queue may keep its capacity for ever.\<close>

definition sample_forever :: "bool option \<Rightarrow> build_env" where
  "sample_forever k = (sample_build sample_params)\<lparr>be_queue := Some (sample_queue\<lparr>qp_keep_forever := k\<rparr>)\<rparr>"

abbreviation sample_full :: build_env where
  "sample_full \<equiv> sample_forever None"

definition sample_fsx :: fsx_config where
  "sample_fsx = empty_fsx_config\<lparr>fsx_enabled := Some True, deployment_type := Some ''persistent_1''\<rparr>"

lemma sample_full_validates: "fst (validate_job sample_full (new_context None None ''u'')) = Inr []"
  by code_simp

lemma sample_full_reads:
  "nodes_get (sample_forever k) = Inr None" "cpus_get (sample_forever k) = Inr None" "memory_get (sample_forever k) False = Inr None"
  "gpus_get (sample_forever k) = Inr None" "mpiprocs_get (sample_forever k) = Inr None"
  "instance_types_get (sample_forever k) = Inr (Some [''c5.large''])"
  "spot_price_get (sample_forever k) = Inr (Some (SPrice (Fin (1 / 2))))" "spot_get (sample_forever k) = Inr (Some True)"
  "spot_allocation_count_get (sample_forever k) = Inr None" "str_param (sample_forever k) ''spot_allocation_strategy'' = None"
  "subnet_ids_get (sample_forever k) False = Inr None" "security_groups_get (sample_forever k) = Inr None"
  "instance_profile_get (sample_forever k) = None" "root_storage_size_get (sample_forever k) = Inr None"
  "scratch_storage_size_get (sample_forever k) = Inr None" "scratch_iops_get (sample_forever k) = Inr None"
  "fsx_lustre_get (sample_forever k) = Inr (Some sample_fsx)" "enable_scratch_get (sample_forever k) = Inr (Some True)"
  "placement_group_get (sample_forever k) = Some True" "enable_efa_get (sample_forever k) = None" "licenses_get (sample_forever k) = Inr None"
  "terminate_when_idle_get (sample_forever k) = Inr None" "tags_get (sample_forever k) False = Inr None"
  by code_simp+

lemma sample_full_env:
  "queue_default (sample_forever k) sel = None" "be_private_subnets (sample_forever k) = Inr [''subnet-1'', ''subnet-2'']"
  "instance_profile_default (sample_forever k) = Some ''arn:aws:iam::1:instance-profile/compute''"
  by (simp_all add: queue_default_def default_job_params_def instance_profile_default_def sample_forever_def sample_build_def sample_params_def
      sample_queue_def)

lemma sample_full_capacity: "is_capacity (sample_forever k) c s = Inr False \<or> is_capacity (sample_forever k) c s = Inr True"
  by (auto simp: is_capacity_def get_capacity_type_def sample_full_reads)

lemma sample_full_placement:
  "\<exists>ids. subnet_ids_default (sample_forever k) s = Inr ids" "\<exists>st. spot_allocation_strategy_get (sample_forever k) False s = Inr st"
  "\<exists>st. spot_allocation_strategy_default (sample_forever k) s = Inr st"
proof -
  have "\<exists>ids. available_subnets (sample_forever k) n s = Inr ids \<and> ids \<noteq> []" for n
    using sample_full_capacity [of k SPOT s] sample_full_capacity [of k MIXED s]
    by (auto simp: available_subnets_def sample_full_env is_empty_opt_list_def random_choice_def)
  then obtain ids where "available_subnets (sample_forever k) (nodes_default (sample_forever k)) s = Inr ids" "ids \<noteq> []" by blast
  then show "\<exists>ids. subnet_ids_default (sample_forever k) s = Inr ids"
    by (simp add: subnet_ids_default_def sample_full_reads narrow_subnets_def sample_fsx_def)
  show "\<exists>st. spot_allocation_strategy_get (sample_forever k) False s = Inr st"
    by (simp add: spot_allocation_strategy_get_def sample_full_reads)
  show "\<exists>st. spot_allocation_strategy_default (sample_forever k) s = Inr st"
    using sample_full_capacity [of k SPOT s] sample_full_capacity [of k MIXED s]
    by (auto simp: spot_allocation_strategy_default_def)
qed

lemma sample_full_applies:
  "list_all (\<lambda>b. \<forall>s. fst (b_apply b s) = Inr ()) (drop 3 (builders (sample_forever k)))"
proof -
  obtain ids where "\<And>s. subnet_ids_default (sample_forever k) s = Inr (ids s)" using sample_full_placement(1) by metis
  moreover obtain st where "\<And>s. spot_allocation_strategy_get (sample_forever k) False s = Inr (st s)"
    using sample_full_placement(2) by metis
  moreover obtain st' where "\<And>s. spot_allocation_strategy_default (sample_forever k) s = Inr (st' s)"
    using sample_full_placement(3) by metis
  ultimately show ?thesis
    by (simp add: builders_def mk_def)
       (simp add: apply_defs apply_value_def bindS_reads sample_full_reads sample_full_env set_param_def set_option_def
          thenS_def Let_def is_empty_opt_list_def sample_fsx_def empty_fsx_config_def startswith_def)
qed

lemma sample_full_builds: "\<exists>p po t. build_job (sample_forever k) s = (Inr (p, po), t)"
proof -
  have runs: "list_all (\<lambda>b. \<forall>s. fst (b_apply b s) = Inr ()) bs \<Longrightarrow> fst (build_all bs s) = Inr ()" for bs s
    by (induction bs arbitrary: s) (auto simp: build_all_def thenS_def bindS_def split: prod.splits sum.splits, (metis fst_conv sum.distinct(1))+)
  have "\<exists>opts. get_instance_type_options (sample_forever k) [''c5.large''] False = Inr opts"
    by (simp add: get_instance_type_options_def sample_forever_def sample_build_def sample_params_def instance_type_option_of_def sample_ec2_def
        memory_of_int_def float_of_int_exact)
  then have "fst (build_all (builders (sample_forever k)) s) = Inr ()"
    using runs [OF sample_full_applies]
    by (subst builders_head) (auto simp: build_all_def mk_def thenS_apply nodes_apply_def apply_value_def bindS_reads
        sample_full_reads set_param_def set_option_def instance_types_apply_def enable_ht_apply_def
        override_provisioning_options_def Let_def split: prod.splits)
  then show ?thesis by (auto simp: build_job_def thenS_apply split: prod.splits)
qed

lemma built_instance_options_witness:
  "\<exists>s p po t types opts. build_job sample_full s = (Inr (p, po), t) \<and> p_instance_types p = Some types \<and>
     po_instance_types po = Some opts \<and> map o_name opts = map Some types"
proof -
  obtain p po t where b: "build_job sample_full (new_context None None ''u'') = (Inr (p, po), t)" using sample_full_builds by blast
  from built_instance_options [OF b] obtain types opts where
    "p_instance_types p = Some types" "po_instance_types po = Some opts" "map o_name opts = map Some types" by blast
  with b show ?thesis by blast
qed

lemma spot_price_makes_spot_witness: "\<exists>s p po t. build_job sample_full s = (Inr (p, po), t) \<and> p_spot p = Some True"
proof -
  obtain p po t where b: "build_job sample_full (new_context None None ''u'') = (Inr (p, po), t)" using sample_full_builds by blast
  from spot_price_makes_spot [OF this sample_full_reads(7)] b show ?thesis by blast
qed

lemma placement_group_single_subnet_witness:
  "\<exists>s p po t ids. build_job sample_full s = (Inr (p, po), t) \<and> p_subnet_ids p = Some ids \<and> length ids \<le> 1"
proof -
  obtain s where "validate_job sample_full (new_context None None ''u'') = (Inr [], s)"
    using sample_full_validates by (metis prod.collapse)
  moreover obtain p po t where b: "build_job sample_full s = (Inr (p, po), t)" using sample_full_builds by blast
  ultimately show ?thesis using placement_group_single_subnet [OF _ b sample_full_reads(19)] b by blast
qed

lemma built_fsx_complete_witness:
  "\<exists>s p po t c. build_job sample_full s = (Inr (p, po), t) \<and> p_fsx_lustre p = Some c \<and> fsx_size c \<noteq> None"
proof -
  obtain p po t where b: "build_job sample_full (new_context None None ''u'') = (Inr (p, po), t)" using sample_full_builds by blast
  have "\<exists>c'. p_fsx_lustre p = Some c' \<and> fsx_size c' \<noteq> None"
    using built_fsx_complete [OF b sample_full_reads(17)] by (auto simp: sample_fsx_def empty_fsx_config_def sample_full_env(1))
  with b show ?thesis by blast
qed

lemma persistent_without_throughput_witness:
  "\<exists>s p po t c. build_job sample_full s = (Inr (p, po), t) \<and> p_fsx_lustre p = Some c \<and> per_unit_throughput c = None"
proof -
  obtain p po t where b: "build_job sample_full (new_context None None ''u'') = (Inr (p, po), t)" using sample_full_builds by blast
  have "\<exists>c'. p_fsx_lustre p = Some c' \<and> deployment_type c' = Some ''persistent_1'' \<and> per_unit_throughput c' = None"
    using persistent_without_throughput [OF b sample_full_reads(17) _ _ _ _ sample_full_env(1)]
    by (simp add: sample_fsx_def empty_fsx_config_def)
  with b show ?thesis by blast
qed

definition sample_backend :: build_env where
  "sample_backend = sample_build [(''fsx_lustre'', PStr ''s3://data'')]"

lemma sample_backend_run:
  "fsx_lustre_get sample_backend = Inr (Some (fsx_of_tokens [''s3://data'']))"
  "fst (fsx_lustre_validate sample_backend (new_context None None ''u'')) = Inr False"
  "bs_results (snd (fsx_lustre_validate sample_backend (new_context None None ''u''))) = []"
  by code_simp+

lemma fsx_backend_never_valid_witness: "fst (fsx_lustre_validate sample_backend (new_context None None ''u'')) \<noteq> Inr True"
proof
  assume "fst (fsx_lustre_validate sample_backend (new_context None None ''u'')) = Inr True"
  then obtain t where "fsx_lustre_validate sample_backend (new_context None None ''u'') = (Inr True, t)" by (metis prod.collapse)
  moreover have "fsx_enabled (fsx_of_tokens [''s3://data'']) \<noteq> Some False" "s3_backend (fsx_of_tokens [''s3://data'']) = Some ''s3://data''"
    by code_simp+
  ultimately show False using fsx_backend_never_valid [OF sample_backend_run(1)] by fastforce
qed

section \<open>What the builders do not do\<close>

text \<open>A text under the new name of the instance types is taken apart into its characters.\<close>

lemma instance_types_as_characters:
  "instance_types_get (sample_build [(''instance_types'', PStr ''c5'')]) = Inr (Some [''c'', ''5''])"
  by code_simp

text \<open>A spot allocation count without a number of nodes stops the validation with a TypeError.\<close>

lemma spot_count_needs_nodes:
  "fst (spot_allocation_count_validate (sample_build [(''spot_price'', PStr ''auto''), (''spot_allocation_count'', PInt 1)])
     (new_context None None ''u'')) = Inl TypeError"
  by code_simp

text \<open>An existing file system that the queue names as default does not reach the job.\<close>

lemma queue_existing_fsx_is_ignored:
  "existing_fsx (fill_fsx (empty_fsx_config\<lparr>existing_fsx := Some fs\<rparr>) (empty_fsx_config\<lparr>fsx_enabled := Some True\<rparr>)) = None"
  by (simp add: fill_fsx_def empty_fsx_config_def)

end
