(* ===== verification/Pricing.thy ===== *)
theory Pricing
  imports Job_Model Job_Cost
begin

text \<open>
  \<open>PricingHelper\<close> of \<open>ideascheduler/app/aws/pricing_helper.py\<close>: the estimated bill of materials of a job from
  its nodes, its running time and its storage. The prices of an instance type and the configured rates are
  parameters; a rate that the code reads with \<open>get_int\<close> is truncated there.
\<close>

section \<open>Prices and rates\<close>

record price_env =
  pc_total_time_secs :: "int option"
  pc_boot_penalty_secs :: "int option"
  pc_gp3_rate :: "pyfloat option"
  pc_io1_rate :: "pyfloat option"
  pc_iops_rate :: "pyfloat option"
  pc_fsx_rate :: "pyfloat option"
  pc_default_fsx_size :: "int option"
  pc_ondemand_price :: "string \<Rightarrow> pyfloat option"
  pc_reserved_price :: "string \<Rightarrow> pyfloat option"
  pc_memory_str :: "soca_memory \<Rightarrow> string"

definition total_seconds_in_month :: int where
  "total_seconds_in_month = 60 * 60 * 24 * 30"

definition times_int :: "pyfloat \<Rightarrow> int \<Rightarrow> pyfloat res" where
  "times_int x n = bindE (float_of_int n) (\<lambda>f. Inr (fmul x f))"

text \<open>\<open>round(x)\<close> without digits is an int.\<close>

fun round_int :: "pyfloat \<Rightarrow> int res" where
  "round_int (Fin x) = Inr (round_half_even x)"
| "round_int NaN = Inl ValueError"
| "round_int _ = Inl OverflowError"

definition pc_params :: "soca_job \<Rightarrow> job_params res" where
  "pc_params job = required AttributeError (params job)"

definition total_time_seconds :: "price_env \<Rightarrow> int res" where
  "total_time_seconds env =
     bindE (required TypeError (pc_total_time_secs env)) (\<lambda>t.
     bindE (required TypeError (pc_boot_penalty_secs env)) (\<lambda>b. Inr (t + b)))"

definition total_time_hours :: "price_env \<Rightarrow> pyfloat res" where
  "total_time_hours env = bindE (total_time_seconds env) (\<lambda>s. int_truediv s 3600)"

section \<open>Quantities\<close>

text \<open>GB-months of a volume on every node, to two decimals.\<close>

definition storage_quantity :: "price_env \<Rightarrow> soca_job \<Rightarrow> soca_memory option \<Rightarrow> pyfloat res" where
  "storage_quantity env job volume =
     bindE (required AttributeError volume) (\<lambda>m. bindE (int_val m) (\<lambda>gb.
     bindE (total_time_seconds env) (\<lambda>secs.
     bindE (int_truediv (gb * secs) total_seconds_in_month) (\<lambda>months.
     bindE (desired_nodes job) (\<lambda>n.
     bindE (times_int months n) (\<lambda>q. Inr (fround q 2)))))))"

definition root_storage_quantity :: "price_env \<Rightarrow> soca_job \<Rightarrow> pyfloat res" where
  "root_storage_quantity env job = bindE (pc_params job) (\<lambda>p. storage_quantity env job (p_root_storage_size p))"

definition scratch_storage_quantity :: "price_env \<Rightarrow> soca_job \<Rightarrow> pyfloat res" where
  "scratch_storage_quantity env job = bindE (pc_params job) (\<lambda>p. storage_quantity env job (p_scratch_storage_size p))"

definition scratch_storage_unit_price :: "price_env \<Rightarrow> job_params \<Rightarrow> pyfloat option" where
  "scratch_storage_unit_price env p =
     (if opt_or (p_scratch_storage_iops p) 0 \<noteq> 0 then pc_io1_rate env else pc_gp3_rate env)"

text \<open>The rate is read with \<open>get_int\<close>.\<close>

definition iops_unit_price :: "price_env \<Rightarrow> pyfloat option res" where
  "iops_unit_price env =
     (case pc_iops_rate env of
        None \<Rightarrow> Inr None
      | Some r \<Rightarrow> bindE (int_of_float r) (\<lambda>i. bindE (float_of_int i) (\<lambda>f. Inr (Some f))))"

definition iops_quantity :: "price_env \<Rightarrow> soca_job \<Rightarrow> int \<Rightarrow> int res" where
  "iops_quantity env job iops =
     bindE (desired_nodes job) (\<lambda>n. bindE (total_time_seconds env) (\<lambda>secs.
     bindE (int_truediv (iops * n * secs) total_seconds_in_month) round_int))"

definition fsx_size_of :: "price_env \<Rightarrow> fsx_config \<Rightarrow> soca_memory res" where
  "fsx_size_of env c =
     (if fsx_enabled c \<noteq> Some True then Inr (SocaMemory (Fin 0) GB)
      else case fsx_size c of
        Some m \<Rightarrow> Inr m
      | None \<Rightarrow> bindE (required ValidationError (pc_default_fsx_size env)) (\<lambda>i.
                bindE (float_of_int i) (\<lambda>x. Inr (SocaMemory x GB))))"

text \<open>GB-hours; a file system of size 0 has none.\<close>

definition fsx_quantity :: "price_env \<Rightarrow> fsx_config \<Rightarrow> pyfloat res" where
  "fsx_quantity env c =
     bindE (fsx_size_of env c) (\<lambda>m.
       if feq (mem_value m) (Fin 0) then Inr (Fin 0)
       else bindE (int_val m) (\<lambda>gb. bindE (total_time_hours env) (\<lambda>h. times_int h gb)))"

definition ec2_spot_unit_price :: "price_env \<Rightarrow> soca_job \<Rightarrow> pyfloat option res" where
  "ec2_spot_unit_price env job =
     bindE (is_mixed_capacity job) (\<lambda>mixed. bindE (if mixed then Inr True else is_spot_capacity job) (\<lambda>b.
       if \<not> b then Inr (Some (Fin 0))
       else bindE (pc_params job) (\<lambda>p.
            case p_spot_price p of
              Some x \<Rightarrow> Inr (Some x)
            | None \<Rightarrow> bindE (default_instance_type job) (\<lambda>t. Inr (pc_ondemand_price env t)))))"

definition ec2_ondemand_price :: "price_env \<Rightarrow> soca_job \<Rightarrow> pyfloat res" where
  "ec2_ondemand_price env job =
     bindE (total_time_hours env) (\<lambda>h. bindE (default_instance_type job) (\<lambda>t.
     bindE (required TypeError (pc_ondemand_price env t)) (\<lambda>rate. bindE (ondemand_nodes job) (\<lambda>n.
     bindE (times_int (fmul h rate) n) (\<lambda>x. Inr (fround x 2))))))"

definition ec2_reserved_price :: "price_env \<Rightarrow> soca_job \<Rightarrow> pyfloat res" where
  "ec2_reserved_price env job =
     bindE (total_time_hours env) (\<lambda>h. bindE (default_instance_type job) (\<lambda>t.
     bindE (required TypeError (pc_reserved_price env t)) (\<lambda>rate. bindE (ondemand_nodes job) (\<lambda>n.
     bindE (times_int (fmul h rate) n) (\<lambda>x. Inr (fround x 2))))))"

section \<open>The bill\<close>

definition item :: "string \<Rightarrow> string \<Rightarrow> string \<Rightarrow> string \<Rightarrow> pyfloat \<Rightarrow> pyfloat option \<Rightarrow> line_item_args" where
  "item title service product u quantity price =
     \<lparr>arg_title = Some title, arg_service = Some service, arg_product = Some product, arg_quantity = Some quantity,
      arg_unit = Some u, arg_unit_price = price, arg_total_price = None\<rparr>"

definition nodes_title :: "string \<Rightarrow> int \<Rightarrow> string \<Rightarrow> string" where
  "nodes_title what n of_what = what @ ''('' @ str_of_int n @ '' x '' @ of_what @ '')''"

definition node_hours :: "price_env \<Rightarrow> int \<Rightarrow> pyfloat res" where
  "node_hours env n = bindE (total_time_hours env) (\<lambda>h. times_int h n)"

definition add_ondemand :: "price_env \<Rightarrow> soca_job \<Rightarrow> (bom_cost, unit) act" where
  "add_ondemand env job =
     bindS (reads (\<lambda>_. ondemand_nodes job)) (\<lambda>n.
       if \<not> 0 < n then ret ()
       else bindS (reads (\<lambda>_. node_hours env n)) (\<lambda>hours.
            bindS (reads (\<lambda>_. default_instance_type job)) (\<lambda>t.
            let prod = ''instance_type='' @ t @ '',lifecycle=default'' in
            thenS (add_line_item False (item (nodes_title ''Compute On-Demand: '' n t) ''aws.ec2'' prod ''per hour''
                     hours (pc_ondemand_price env t)))
           (bindS (reads (\<lambda>_. bindE (required TypeError (pc_ondemand_price env t)) (\<lambda>d.
                     bindE (required TypeError (pc_reserved_price env t)) (\<lambda>r. Inr (fsub d r))))) (\<lambda>saved.
              add_savings False (item (nodes_title ''Compute Reserved: [1yr No Upfront] '' n t) ''aws.ec2'' prod
                ''per hour'' hours (Some saved)))))))"

definition add_spot :: "price_env \<Rightarrow> soca_job \<Rightarrow> (bom_cost, unit) act" where
  "add_spot env job =
     bindS (reads (\<lambda>_. spot_nodes job)) (\<lambda>n.
       if \<not> 0 < n then ret ()
       else bindS (reads (\<lambda>_. node_hours env n)) (\<lambda>hours.
            bindS (reads (\<lambda>_. default_instance_type job)) (\<lambda>t.
            bindS (reads (\<lambda>_. ec2_spot_unit_price env job)) (\<lambda>price.
              add_line_item False (item (nodes_title ''Compute Spot: '' n t) ''aws.ec2''
                (''instance_type='' @ t @ '',lifecycle=spot'') ''per hour'' hours price)))))"

definition add_root :: "price_env \<Rightarrow> soca_job \<Rightarrow> (bom_cost, unit) act" where
  "add_root env job =
     bindS (reads (\<lambda>_. root_storage_quantity env job)) (\<lambda>q.
     bindS (reads (\<lambda>_. bindE (pc_params job) (\<lambda>p. required AttributeError (p_root_storage_size p)))) (\<lambda>m.
     bindS (reads (\<lambda>_. desired_nodes job)) (\<lambda>n.
       add_line_item False (item (nodes_title ''Root: EBS gp3 '' n (pc_memory_str env m)) ''aws.ebs'' ''root_storage=gp3''
         ''GB-month'' q (pc_gp3_rate env)))))"

definition add_fsx :: "price_env \<Rightarrow> fsx_config \<Rightarrow> (bom_cost, unit) act" where
  "add_fsx env c =
     bindS (reads (\<lambda>_. fsx_quantity env c)) (\<lambda>q.
     bindS (reads (\<lambda>_. fsx_size_of env c)) (\<lambda>m.
       add_line_item False (item (''Scratch: FSx for Lustre ('' @ pc_memory_str env m @ '')'') ''aws.fsx''
         ''scratch_storage=lustre'' ''GB-month'' q (pc_fsx_rate env))))"

definition add_provisioned_iops :: "price_env \<Rightarrow> soca_job \<Rightarrow> int \<Rightarrow> int \<Rightarrow> (bom_cost, unit) act" where
  "add_provisioned_iops env job n iops =
     bindS (reads (\<lambda>_. iops_unit_price env)) (\<lambda>price.
     bindS (reads (\<lambda>_. iops_quantity env job iops)) (\<lambda>q.
     bindS (reads (\<lambda>_. float_of_int q)) (\<lambda>x.
       add_line_item False (item (nodes_title ''Scratch: Provisioned IOPS '' n (str_of_int iops)) ''aws.ebs''
         (''scratch_storage_iops='' @ str_of_int q) ''IOPS-month'' x price))))"

definition add_scratch :: "price_env \<Rightarrow> soca_job \<Rightarrow> job_params \<Rightarrow> (bom_cost, unit) act" where
  "add_scratch env job p =
     bindS (reads (\<lambda>_. required TypeError (p_scratch_storage_size p))) (\<lambda>m.
       if \<not> mem_gt_num m 0 then ret ()
       else bindS (reads (\<lambda>_. scratch_storage_quantity env job)) (\<lambda>q.
            bindS (reads (\<lambda>_. desired_nodes job)) (\<lambda>n.
            bindS (reads (\<lambda>_. required TypeError (p_scratch_storage_iops p))) (\<lambda>iops.
              let price = scratch_storage_unit_price env p in
              if 0 < iops
              then thenS (add_line_item False (item (nodes_title ''Scratch: EBS io1 '' n (pc_memory_str env m)) ''aws.ebs''
                            ''scratch_storage=io1'' ''GB-month'' q price))
                     (add_provisioned_iops env job n iops)
              else add_line_item False (item (nodes_title ''Scratch: EBS gp3 '' n (pc_memory_str env m)) ''aws.ebs''
                     ''scratch_storage=gp3'' ''GB-month'' q price)))))"

definition bill :: "price_env \<Rightarrow> soca_job \<Rightarrow> (bom_cost, unit) act" where
  "bill env job =
     thenS (reads (\<lambda>_. bindE (default_instance_type job) (\<lambda>_. Inr ())))
    (thenS (add_ondemand env job)
    (thenS (add_spot env job)
    (thenS (add_root env job)
    (bindS (reads (\<lambda>_. pc_params job)) (\<lambda>p.
     bindS (reads (\<lambda>_. required AttributeError (p_fsx_lustre p))) (\<lambda>fsx.
       if fsx_enabled fsx = Some True then add_fsx env fsx else add_scratch env job p))))))"

definition compute_estimated_bom_cost :: "price_env \<Rightarrow> soca_job \<Rightarrow> bom_cost res" where
  "compute_estimated_bom_cost env job =
     (case bill env job empty_bom of (Inl e, _) \<Rightarrow> Inl e | (Inr _, c) \<Rightarrow> Inr c)"

section \<open>The totals of an estimate\<close>

definition item_keys :: "bom_cost \<Rightarrow> (string \<times> string) set" where
  "item_keys c = li_key ` set (opt_or (line_items c) [])"

text \<open>\<open>bills P m\<close>: if \<open>m\<close> returns, a bill whose totals are right still has them, keeps its items and gains \<open>P\<close>.\<close>

definition bills :: "(bom_cost \<Rightarrow> bom_cost \<Rightarrow> bool) \<Rightarrow> (bom_cost, unit) act \<Rightarrow> bool" where
  "bills P m \<longleftrightarrow> (\<forall>c c'. bom_ok c \<longrightarrow> m c = (Inr (), c') \<longrightarrow> bom_ok c' \<and> item_keys c \<subseteq> item_keys c' \<and> P c c')"

lemma billsD: "bills P m \<Longrightarrow> m c = (Inr (), c') \<Longrightarrow> bom_ok c \<Longrightarrow> bom_ok c' \<and> item_keys c \<subseteq> item_keys c' \<and> P c c'"
  by (simp add: bills_def)

lemma bills_reads: "(\<And>x. r = Inr x \<Longrightarrow> bills P (f x)) \<Longrightarrow> bills P (bindS (reads (\<lambda>_. r)) f)"
  by (cases r) (auto simp: bills_def act_simps)

lemma thenS_Inr_iff: "thenS m k c = (Inr x, c') \<longleftrightarrow> (\<exists>y c1. m c = (Inr y, c1) \<and> k c1 = (Inr x, c'))"
  by (auto simp: act_simps split: prod.splits sum.splits)

lemma bills_weaken: "bills P m \<Longrightarrow> (\<And>c c'. P c c' \<Longrightarrow> Q c c') \<Longrightarrow> bills Q m"
  by (auto simp: bills_def)

lemma keys_put_item_set: "li_key ` set (put_item upd it items) = insert (li_key it) (li_key ` set items)"
  using keys_put_item [of upd it items] by (auto simp flip: set_map)

lemma build_item [simp]:
  "build_line_item (item title service product u quantity price) =
     (case price of None \<Rightarrow> Inl invalid_params
      | Some x \<Rightarrow> Inr \<lparr>li_title = title, li_service = service, li_product = product, li_quantity = quantity,
                   li_unit = Some u, li_unit_price = x, li_total_price = fmul x quantity\<rparr>)"
  by (simp add: build_line_item_def item_def split: option.split)

lemma bills_add_line_item:
  "bills (\<lambda>c c'. savings c' = savings c \<and> (service, product) \<in> item_keys c')
     (add_line_item upd (item title service product u quantity price))"
proof (cases price)
  case None
  then show ?thesis by (simp add: bills_def add_line_item_def act_simps)
next
  case (Some x)
  show ?thesis
    unfolding bills_def
  proof (intro allI impI)
    fix c c' assume "bom_ok c" "add_line_item upd (item title service product u quantity price) c = (Inr (), c')"
    with Some add_line_item_ok [OF \<open>bom_ok c\<close>, of "item title service product u quantity price" _ upd]
    have "bom_ok c'" "savings c' = savings c"
      "item_keys c' = insert (service, product) (item_keys c)"
      by (auto simp: item_keys_def keys_put_item_set) (auto simp: li_key_def)
    then show "bom_ok c' \<and> item_keys c \<subseteq> item_keys c' \<and> savings c' = savings c \<and> (service, product) \<in> item_keys c'"
      by auto
  qed
qed

lemma bills_thenS:
  "bills P m \<Longrightarrow> bills Q k \<Longrightarrow> (\<And>c c1 c2. item_keys c1 \<subseteq> item_keys c2 \<Longrightarrow> P c c1 \<Longrightarrow> Q c1 c2 \<Longrightarrow> R c c2) \<Longrightarrow>
   bills R (thenS m k)"
  unfolding bills_def thenS_Inr_iff by (metis (full_types) old.unit.exhaust subset_trans)

lemma bills_with_savings:
  "bills (\<lambda>c c'. savings c' \<noteq> None)
     (thenS (add_line_item False (item title service product u quantity price))
            (bindS (reads (\<lambda>_. r)) (\<lambda>x. add_savings False (item title' service' product' u' quantity' (Some x)))))"
  (is "bills _ (thenS ?m ?k)")
  unfolding bills_def
proof (intro allI impI)
  fix c c' assume c: "bom_ok c" "thenS ?m ?k c = (Inr (), c')"
  then obtain c1 where m: "?m c = (Inr (), c1)" and k: "?k c1 = (Inr (), c')"
    by (auto simp: thenS_Inr_iff)
  from billsD [OF bills_add_line_item m c(1)] have c1: "bom_ok c1" "item_keys c \<subseteq> item_keys c1"
    "(service, product) \<in> item_keys c1" by auto
  then obtain "is" where li: "line_items c1 = Some is" by (cases "line_items c1") (auto simp: item_keys_def)
  from k obtain x where "add_savings False (item title' service' product' u' quantity' (Some x)) c1 = (Inr (), c')"
    by (cases r) (auto simp: act_simps)
  with add_savings_ok [OF c1(1) _ li, of "item title' service' product' u' quantity' (Some x)" _ False]
  have "bom_ok c'" "line_items c' = Some is" "savings c' \<noteq> None" by auto
  with c1 li show "bom_ok c' \<and> item_keys c \<subseteq> item_keys c' \<and> savings c' \<noteq> None"
    by (auto simp: item_keys_def)
qed

text \<open>What the parts of the bill add.\<close>

lemma bills_ret: "bills (\<lambda>c c'. savings c' = savings c) (ret ())"
  by (simp add: bills_def)

lemma bills_ondemand:
  assumes "ondemand_nodes job = Inr n"
  shows "bills (\<lambda>c c'. if 0 < n then savings c' \<noteq> None else savings c' = savings c) (add_ondemand env job)"
proof (cases "0 < n")
  case True
  show ?thesis
    unfolding add_ondemand_def Let_def
    by (rule bills_reads) (use assms True in \<open>auto intro!: bills_reads bills_with_savings simp del: not_None_eq\<close>)
next
  case False
  then show ?thesis
    by (auto simp: add_ondemand_def bills_ret assms intro!: bills_reads)
qed

lemma bills_line: "bills (\<lambda>c c'. savings c' = savings c) (add_line_item upd (item title service product u quantity price))"
  using bills_add_line_item by (rule bills_weaken) simp

lemma bills_spot: "bills (\<lambda>c c'. savings c' = savings c) (add_spot env job)"
  by (auto simp: add_spot_def bills_ret intro!: bills_reads bills_line)

lemma bills_root:
  "bills (\<lambda>c c'. savings c' = savings c \<and> (''aws.ebs'', ''root_storage=gp3'') \<in> item_keys c') (add_root env job)"
  unfolding add_root_def by (intro bills_reads bills_add_line_item)

lemma bills_fsx: "bills (\<lambda>c c'. savings c' = savings c) (add_fsx env cfg)"
  unfolding add_fsx_def by (intro bills_reads bills_line)

lemma bills_iops: "bills (\<lambda>c c'. savings c' = savings c) (add_provisioned_iops env job n iops)"
  unfolding add_provisioned_iops_def by (intro bills_reads bills_line)

lemma bills_scratch: "bills (\<lambda>c c'. savings c' = savings c) (add_scratch env job p)"
  unfolding add_scratch_def Let_def
  by (auto intro!: bills_reads bills_line bills_ret bills_thenS [OF bills_line bills_iops])

lemma bills_bill:
  assumes "ondemand_nodes job = Inr n"
  shows "bills (\<lambda>c c'. (if 0 < n then savings c' \<noteq> None else savings c' = savings c) \<and>
                 (''aws.ebs'', ''root_storage=gp3'') \<in> item_keys c') (bill env job)"
proof -
  let ?scratch = "bindS (reads (\<lambda>_. pc_params job)) (\<lambda>p.
     bindS (reads (\<lambda>_. required AttributeError (p_fsx_lustre p))) (\<lambda>fsx.
       if fsx_enabled fsx = Some True then add_fsx env fsx else add_scratch env job p))"
  have scratch: "bills (\<lambda>c c'. savings c' = savings c) ?scratch"
    by (auto intro!: bills_reads bills_fsx bills_scratch)
  have root: "bills (\<lambda>c c'. savings c' = savings c \<and> (''aws.ebs'', ''root_storage=gp3'') \<in> item_keys c')
      (thenS (add_root env job) ?scratch)"
    by (rule bills_thenS [OF bills_root scratch]) auto
  have spot: "bills (\<lambda>c c'. savings c' = savings c \<and> (''aws.ebs'', ''root_storage=gp3'') \<in> item_keys c')
      (thenS (add_spot env job) (thenS (add_root env job) ?scratch))"
    by (rule bills_thenS [OF bills_spot root]) auto
  have "bills (\<lambda>c c'. (if 0 < n then savings c' \<noteq> None else savings c' = savings c) \<and>
                 (''aws.ebs'', ''root_storage=gp3'') \<in> item_keys c')
      (thenS (add_ondemand env job) (thenS (add_spot env job) (thenS (add_root env job) ?scratch)))"
    by (rule bills_thenS [OF bills_ondemand [OF assms] spot]) (auto split: if_splits)
  then show ?thesis
    unfolding bill_def by (subst thenS_def) (rule bills_reads)
qed

text \<open>C8: An estimated bill is consistent: its items have distinct service and product, its totals are the sums of its
  items and savings, the root volumes are always billed, and reserved instance savings are stated exactly when the
  job has on-demand nodes.\<close>

lemma estimate_in_step:
  assumes "compute_estimated_bom_cost env job = Inr c" "ondemand_nodes job = Inr n"
  shows "bom_ok c \<and> (''aws.ebs'', ''root_storage=gp3'') \<in> item_keys c \<and> (savings c \<noteq> None \<longleftrightarrow> 0 < n)"
proof -
  from assms(1) have "bill env job empty_bom = (Inr (), c)"
    by (auto simp: compute_estimated_bom_cost_def split: prod.splits sum.splits)
  from billsD [OF bills_bill [OF assms(2)] this bom_ok_empty] show ?thesis
    by (auto simp: empty_bom_def split: if_splits)
qed

definition sample_price_env :: price_env where
  "sample_price_env = \<lparr>pc_total_time_secs = Some 2591700, pc_boot_penalty_secs = Some 300, pc_gp3_rate = Some (Fin (1/8)),
     pc_io1_rate = Some (Fin (1/4)), pc_iops_rate = Some (Fin (1/16)), pc_fsx_rate = Some (Fin (1/1024)),
     pc_default_fsx_size = Some 1200, pc_ondemand_price = (\<lambda>_. Some (Fin 2)), pc_reserved_price = (\<lambda>_. Some (Fin 1)),
     pc_memory_str = (\<lambda>_. ''10gb'')\<rparr>"

definition sample_billed_job :: soca_job where
  "sample_billed_job = empty_job\<lparr>params := Some (empty_job_params\<lparr>p_nodes := Some 4, p_spot := Some False,
     p_instance_types := Some [''c5.large''], p_root_storage_size := Some (SocaMemory (Fin 10) GB),
     p_scratch_storage_size := Some (SocaMemory (Fin 30) GB), p_scratch_storage_iops := Some 100,
     p_fsx_lustre := Some empty_fsx_config\<rparr>)\<rparr>"

definition sample_estimate :: bom_cost where
  "sample_estimate = (case compute_estimated_bom_cost sample_price_env sample_billed_job of Inr c \<Rightarrow> c)"

lemma estimate_in_step_witness:
  "bom_ok sample_estimate \<and> (''aws.ebs'', ''root_storage=gp3'') \<in> item_keys sample_estimate \<and>
   (savings sample_estimate \<noteq> None \<longleftrightarrow> 0 < (4::int)) \<and> total sample_estimate = Some (Fin 2915)"
proof -
  have "compute_estimated_bom_cost sample_price_env sample_billed_job = Inr sample_estimate"
    "ondemand_nodes sample_billed_job = Inr 4" "total sample_estimate = Some (Fin 2915)"
    by code_simp+
  from estimate_in_step [OF this(1,2)] this(3) show ?thesis by simp
qed

text \<open>A rate below one dollar per provisioned IOPS, the shipped one is 0.065, is truncated to 0: provisioned IOPS are
  billed at no cost.\<close>

lemma provisioned_iops_are_free:
  assumes "pc_iops_rate env = Some (Fin r)" "0 \<le> r" "r < 1"
    "add_provisioned_iops env job n iops empty_bom = (Inr (), c)"
  shows "total c = Some (Fin 0) \<and> map_option (List.map li_unit_price) (line_items c) = Some [Fin 0]"
proof -
  have price: "iops_unit_price env = Inr (Some (Fin 0))"
  proof -
    have "\<lfloor>r\<rfloor> = 0" using assms(2,3) by (simp add: floor_eq_iff)
    with assms(1,2) float_of_int_exact [of 0] show ?thesis by (simp add: iops_unit_price_def rat_trunc_def)
  qed
  from assms(4) obtain q x where "iops_quantity env job iops = Inr q" "float_of_int q = Inr x"
    by (cases "iops_quantity env job iops"; cases "float_of_int (projr (iops_quantity env job iops))")
      (auto simp: add_provisioned_iops_def price)
  moreover from this(2) obtain y where "x = Fin y" by (cases "rnd (rat_of_int q)") (auto simp: float_of_int_def)
  ultimately show ?thesis
    using assms(4)
    by (auto simp: add_provisioned_iops_def price add_line_item_def act_simps empty_bom_def put_item_def compute_total_def
        sum_items_def)
qed

lemma provisioned_iops_are_free_witness:
  "\<exists>c. add_provisioned_iops sample_price_env sample_billed_job 4 100 empty_bom = (Inr (), c) \<and> total c = Some (Fin 0)"
proof -
  let ?m = "add_provisioned_iops sample_price_env sample_billed_job 4 100 empty_bom"
  have "fst ?m = Inr ()" by code_simp
  then have m: "?m = (Inr (), snd ?m)" by (metis prod.collapse)
  have "pc_iops_rate sample_price_env = Some (Fin (1/16))" by (simp add: sample_price_env_def)
  from provisioned_iops_are_free [OF this _ _ m] m show ?thesis by auto
qed

end
