(* ===== verification/Py_Dict.thy ===== *)
theory Py_Dict
  imports Model_Utils
begin

text \<open>
  Dicts as association lists in the order of insertion, the truth of a value, what \<open>str\<close> prints, and the splitting of a
  text into lines and words.
\<close>

section \<open>Dicts\<close>

text \<open>\<open>result[key] = value\<close> on a dict that keeps the order of insertion.\<close>

fun assign_key :: "'k \<Rightarrow> 'v \<Rightarrow> ('k \<times> 'v) list \<Rightarrow> ('k \<times> 'v) list" where
  "assign_key k v [] = [(k, v)]"
| "assign_key k v ((k', v') # kvs) = (if k' = k then (k, v) # kvs else (k', v') # assign_key k v kvs)"

lemma map_of_assign_key [simp]: "map_of (assign_key k v kvs) = (map_of kvs)(k \<mapsto> v)"
  by (induction kvs) auto

lemma keys_assign_key: "fst ` set (assign_key k v kvs) = insert k (fst ` set kvs)"
  by (induction k v kvs rule: assign_key.induct) auto

lemma distinct_assign_key: "distinct (map fst kvs) \<Longrightarrow> distinct (map fst (assign_key k v kvs))"
  by (induction k v kvs rule: assign_key.induct) (auto simp: keys_assign_key)

lemma map_of_rev_distinct: "distinct (map fst kvs) \<Longrightarrow> map_of (rev kvs) = map_of kvs"
proof (induction kvs)
  case (Cons kv kvs)
  obtain k v where kv: "kv = (k, v)" by fastforce
  with Cons.prems have "map_of kvs k = None" by (simp add: map_of_eq_None_iff)
  then have "[k \<mapsto> v] ++ map_of kvs = (map_of kvs)(k \<mapsto> v)" by (auto simp: map_add_def fun_eq_iff split: option.split)
  with Cons kv show ?case by simp
qed simp

definition del_key :: "'k \<Rightarrow> ('k \<times> 'v) list \<Rightarrow> ('k \<times> 'v) list" where
  "del_key k kvs = filter (\<lambda>(k', _). k' \<noteq> k) kvs"

lemma map_of_del_key [simp]: "map_of (del_key k kvs) = (map_of kvs)(k := None)"
  by (induction kvs) (auto simp: del_key_def fun_eq_iff)

text \<open>\<open>{**a, **b}\<close>\<close>

definition merge_dicts :: "('k \<times> 'v) list \<Rightarrow> ('k \<times> 'v) list \<Rightarrow> ('k \<times> 'v) list" where
  "merge_dicts a b = foldl (\<lambda>d (k, v). assign_key k v d) a b"

section \<open>Truth and text of a value\<close>

fun truthy :: "pyval \<Rightarrow> bool" where
  "truthy PNone = False"
| "truthy (PBool b) = b"
| "truthy (PInt i) = (i \<noteq> 0)"
| "truthy (PFloat x) = (\<not> feq x (Fin 0))"
| "truthy (PStr s) = (s \<noteq> [])"
| "truthy (PList xs) = (xs \<noteq> [])"
| "truthy (PDict kvs) = (kvs \<noteq> [])"

text \<open>What \<open>str(value)\<close> prints; \<open>fmt\<close> for the floats, lists, dicts and foreign objects.\<close>

fun py_str :: "(pyval \<Rightarrow> string) \<Rightarrow> pyval \<Rightarrow> string" where
  "py_str fmt PNone = ''None''"
| "py_str fmt (PStr s) = s"
| "py_str fmt (PBool b) = (if b then ''True'' else ''False'')"
| "py_str fmt (PInt i) = str_of_int i"
| "py_str fmt v = fmt v"

section \<open>Lines and words\<close>

definition is_line_break :: "char \<Rightarrow> bool" where
  "is_line_break c = (let n = code c in (10 \<le> n \<and> n \<le> 13) \<or> (28 \<le> n \<and> n \<le> 30))"

text \<open>\<open>s.splitlines()\<close>: a carriage return and a newline are one break, and a break that ends the text starts no line.\<close>

fun split_lines :: "string \<Rightarrow> string list" where
  "split_lines [] = []"
| "split_lines [c] = (if is_line_break c then [[]] else [[c]])"
| "split_lines (c # d # s) =
     (if code c = 13 \<and> code d = 10 then [] # split_lines s
      else if is_line_break c then [] # split_lines (d # s)
      else case split_lines (d # s) of [] \<Rightarrow> [[c]] | w # ws \<Rightarrow> (c # w) # ws)"

text \<open>\<open>s.split()\<close>\<close>

definition words_of :: "string \<Rightarrow> string list" where
  "words_of s = filter (\<lambda>w. w \<noteq> []) (split_char (CHR '' '') (map (\<lambda>c. if is_space c then CHR '' '' else c) s))"

lemma split_lines_plain: "list_all (\<lambda>c. \<not> is_line_break c) s \<Longrightarrow> s \<noteq> [] \<Longrightarrow> split_lines s = [s]"
  by (induction s rule: split_lines.induct) (auto simp: is_line_break_def)

end
