(* ===== verification/EC2_Data.thy ===== *)
theory EC2_Data
  imports Py_Dict
begin

text \<open>
  The wrappers over what the EC2 API answers: \<open>EC2Instance\<close> of \<open>ideadatamodel/aws/ec2_instance.py\<close> and
  \<open>EC2InstanceType\<close> of \<open>ideadatamodel/aws/ec2_instance_type.py\<close>. The wrapped dict is a \<open>pydict\<close>; one definition
  per property reads it. \<open>fmt\<close> prints a value that is no string; \<open>arrow_get\<close> is the date library's reading of a
  time, in microseconds since the epoch. The entries of \<open>Tags\<close> are dicts, as the API documents.
\<close>

section \<open>Reading an answer\<close>

definition sub_dict :: "string \<Rightarrow> pydict \<Rightarrow> pydict" where
  "sub_dict key d = opt_or (get_value_as_dict key d None) []"

definition str_at :: "(pyval \<Rightarrow> string) \<Rightarrow> string \<Rightarrow> pydict \<Rightarrow> string option" where
  "str_at fmt key d = get_value_as_string fmt key d None"

definition int_at :: "string \<Rightarrow> pydict \<Rightarrow> int option res" where
  "int_at key d = get_value_as_int key d None"

definition bool_at :: "string \<Rightarrow> pydict \<Rightarrow> bool option" where
  "bool_at key d = get_value_as_bool key d None"

definition float_at :: "string \<Rightarrow> pydict \<Rightarrow> pyfloat option res" where
  "float_at key d = get_value_as_float key d None"

definition list_at :: "string \<Rightarrow> pydict \<Rightarrow> pyval list option" where
  "list_at key d = get_value_as_list key d None"

definition dict_at :: "string \<Rightarrow> pydict \<Rightarrow> pydict option" where
  "dict_at key d = get_value_as_dict key d None"

fun entry_dict :: "pyval \<Rightarrow> pydict" where
  "entry_dict (PDict kvs) = kvs"
| "entry_dict _ = []"

section \<open>Tag names\<close>

definition AWS_TAG_AUTOSCALING_GROUP_NAME :: string where
  "AWS_TAG_AUTOSCALING_GROUP_NAME = ''aws:autoscaling:groupName''"

definition AWS_TAG_CFN_LOGICAL_ID :: string where
  "AWS_TAG_CFN_LOGICAL_ID = ''aws:cloudformation:logical-id''"

definition AWS_TAG_CFN_STACK_ID :: string where
  "AWS_TAG_CFN_STACK_ID = ''aws:cloudformation:stack-id''"

definition AWS_TAG_CFN_STACK_NAME :: string where
  "AWS_TAG_CFN_STACK_NAME = ''aws:cloudformation:stack-name''"

definition AWS_TAG_EC2SPOT_FLEET_REQUEST_ID :: string where
  "AWS_TAG_EC2SPOT_FLEET_REQUEST_ID = ''aws:ec2spot:fleet-request-id''"

definition IDEA_TAG_NAME :: string where
  "IDEA_TAG_NAME = ''Name''"

definition IDEA_TAG_NODE_TYPE :: string where
  "IDEA_TAG_NODE_TYPE = ''idea:NodeType''"

definition IDEA_TAG_CLUSTER_NAME :: string where
  "IDEA_TAG_CLUSTER_NAME = ''idea:ClusterName''"

definition IDEA_TAG_MODULE_ID :: string where
  "IDEA_TAG_MODULE_ID = ''idea:ModuleId''"

definition IDEA_TAG_MODULE_NAME :: string where
  "IDEA_TAG_MODULE_NAME = ''idea:ModuleName''"

definition IDEA_TAG_MODULE_VERSION :: string where
  "IDEA_TAG_MODULE_VERSION = ''idea:ModuleVersion''"

definition IDEA_TAG_PROJECT :: string where
  "IDEA_TAG_PROJECT = ''idea:Project''"

definition IDEA_TAG_AMI_BUILDER :: string where
  "IDEA_TAG_AMI_BUILDER = ''idea:AmiBuilder''"

definition IDEA_TAG_JOB_ID :: string where
  "IDEA_TAG_JOB_ID = ''idea:JobId''"

definition IDEA_TAG_JOB_GROUP :: string where
  "IDEA_TAG_JOB_GROUP = ''idea:JobGroup''"

definition IDEA_TAG_JOB_NAME :: string where
  "IDEA_TAG_JOB_NAME = ''idea:JobName''"

definition IDEA_TAG_JOB_OWNER :: string where
  "IDEA_TAG_JOB_OWNER = ''idea:JobOwner''"

definition IDEA_TAG_JOB_OWNER_EMAIL :: string where
  "IDEA_TAG_JOB_OWNER_EMAIL = ''idea:JobOwnerEmail''"

definition IDEA_TAG_JOB_QUEUE :: string where
  "IDEA_TAG_JOB_QUEUE = ''idea:JobQueue''"

definition IDEA_TAG_KEEP_FOREVER :: string where
  "IDEA_TAG_KEEP_FOREVER = ''idea:KeepForever''"

definition IDEA_TAG_TERMINATE_WHEN_IDLE :: string where
  "IDEA_TAG_TERMINATE_WHEN_IDLE = ''idea:TerminateWhenIdle''"

definition IDEA_TAG_QUEUE_TYPE :: string where
  "IDEA_TAG_QUEUE_TYPE = ''idea:QueueType''"

definition IDEA_TAG_SCALING_MODE :: string where
  "IDEA_TAG_SCALING_MODE = ''idea:ScalingMode''"

definition IDEA_TAG_CAPACITY_TYPE :: string where
  "IDEA_TAG_CAPACITY_TYPE = ''idea:CapacityType''"

definition IDEA_TAG_FSX :: string where
  "IDEA_TAG_FSX = ''idea:FSx''"

definition IDEA_TAG_COMPUTE_STACK :: string where
  "IDEA_TAG_COMPUTE_STACK = ''idea:StackId''"

definition IDEA_TAG_CREATED_FROM :: string where
  "IDEA_TAG_CREATED_FROM = ''idea:CreatedFrom''"

definition IDEA_TAG_CREATED_ON :: string where
  "IDEA_TAG_CREATED_ON = ''idea:CreatedOn''"

definition IDEA_TAG_BACKUP_PLAN :: string where
  "IDEA_TAG_BACKUP_PLAN = ''idea:BackupPlan''"

definition IDEA_TAG_STACK_TYPE :: string where
  "IDEA_TAG_STACK_TYPE = ''idea:StackType''"

definition IDEA_TAG_IDEA_SESSION_ID :: string where
  "IDEA_TAG_IDEA_SESSION_ID = ''idea:IDEASessionUUID''"

definition IDEA_TAG_DCV_SESSION_ID :: string where
  "IDEA_TAG_DCV_SESSION_ID = ''idea:DCVSessionUUID''"

definition NODE_TYPE_COMPUTE :: string where
  "NODE_TYPE_COMPUTE = ''compute-node''"

definition NODE_TYPE_DCV_HOST :: string where
  "NODE_TYPE_DCV_HOST = ''virtual-desktop-dcv-host''"

definition NODE_TYPE_UNKNOWN :: string where
  "NODE_TYPE_UNKNOWN = ''unknown''"

section \<open>Tags of an instance\<close>

fun find_tag :: "(pyval \<Rightarrow> string) \<Rightarrow> string \<Rightarrow> pyval list \<Rightarrow> string option" where
  "find_tag fmt key [] = None"
| "find_tag fmt key (tag # tags) =
     (if str_at fmt ''Key'' (entry_dict tag) = Some key then str_at fmt ''Value'' (entry_dict tag)
      else find_tag fmt key tags)"

definition get_tag :: "(pyval \<Rightarrow> string) \<Rightarrow> string \<Rightarrow> pydict \<Rightarrow> string option" where
  "get_tag fmt key d = (case list_at ''Tags'' d of None \<Rightarrow> None | Some tags \<Rightarrow> find_tag fmt key tags)"

definition inst_tags :: "(pyval \<Rightarrow> string) \<Rightarrow> pydict \<Rightarrow> (string option \<times> string option) list option" where
  "inst_tags fmt d =
     (case list_at ''Tags'' d of
        None \<Rightarrow> None
      | Some tags \<Rightarrow> Some (fold (\<lambda>tag result.
          assign_key (str_at fmt ''Key'' (entry_dict tag)) (str_at fmt ''Value'' (entry_dict tag)) result) tags []))"

section \<open>Properties of an instance\<close>

definition inst_reservation_id :: "(pyval \<Rightarrow> string) \<Rightarrow> pydict \<Rightarrow> string option" where
  "inst_reservation_id fmt d = str_at fmt ''ReservationId'' (sub_dict ''SocaCustomFields'' d)"

definition inst_requester_id :: "(pyval \<Rightarrow> string) \<Rightarrow> pydict \<Rightarrow> string option" where
  "inst_requester_id fmt d = str_at fmt ''RequesterId'' (sub_dict ''SocaCustomFields'' d)"

definition inst_owner_id :: "(pyval \<Rightarrow> string) \<Rightarrow> pydict \<Rightarrow> string option" where
  "inst_owner_id fmt d = str_at fmt ''OwnerId'' (sub_dict ''SocaCustomFields'' d)"

definition inst_ami_launch_index :: "pydict \<Rightarrow> int option res" where
  "inst_ami_launch_index d = int_at ''AmiLaunchIndex'' d"

definition inst_image_id :: "(pyval \<Rightarrow> string) \<Rightarrow> pydict \<Rightarrow> string option" where
  "inst_image_id fmt d = str_at fmt ''ImageId'' d"

definition inst_instance_id :: "(pyval \<Rightarrow> string) \<Rightarrow> pydict \<Rightarrow> string option" where
  "inst_instance_id fmt d = str_at fmt ''InstanceId'' d"

definition inst_instance_type :: "(pyval \<Rightarrow> string) \<Rightarrow> pydict \<Rightarrow> string option" where
  "inst_instance_type fmt d = str_at fmt ''InstanceType'' d"

definition inst_kernel_id :: "(pyval \<Rightarrow> string) \<Rightarrow> pydict \<Rightarrow> string option" where
  "inst_kernel_id fmt d = str_at fmt ''KernelId'' d"

definition inst_key_name :: "(pyval \<Rightarrow> string) \<Rightarrow> pydict \<Rightarrow> string option" where
  "inst_key_name fmt d = str_at fmt ''KeyName'' d"

definition inst_monitoring_state :: "(pyval \<Rightarrow> string) \<Rightarrow> pydict \<Rightarrow> string option" where
  "inst_monitoring_state fmt d = str_at fmt ''State'' (sub_dict ''Monitoring'' d)"

definition inst_placement_availability_zone :: "(pyval \<Rightarrow> string) \<Rightarrow> pydict \<Rightarrow> string option" where
  "inst_placement_availability_zone fmt d = str_at fmt ''AvailabilityZone'' (sub_dict ''Placement'' d)"

definition inst_placement_affinity :: "(pyval \<Rightarrow> string) \<Rightarrow> pydict \<Rightarrow> string option" where
  "inst_placement_affinity fmt d = str_at fmt ''Affinity'' (sub_dict ''Placement'' d)"

definition inst_placement_group_name :: "(pyval \<Rightarrow> string) \<Rightarrow> pydict \<Rightarrow> string option" where
  "inst_placement_group_name fmt d = str_at fmt ''GroupName'' (sub_dict ''Placement'' d)"

definition inst_placement_partition_number :: "pydict \<Rightarrow> int option res" where
  "inst_placement_partition_number d = int_at ''PartitionNumber'' (sub_dict ''Placement'' d)"

definition inst_placement_host_id :: "(pyval \<Rightarrow> string) \<Rightarrow> pydict \<Rightarrow> string option" where
  "inst_placement_host_id fmt d = str_at fmt ''HostId'' (sub_dict ''Placement'' d)"

definition inst_placement_tenancy :: "(pyval \<Rightarrow> string) \<Rightarrow> pydict \<Rightarrow> string option" where
  "inst_placement_tenancy fmt d = str_at fmt ''Tenancy'' (sub_dict ''Placement'' d)"

definition inst_placement_spread_domain :: "(pyval \<Rightarrow> string) \<Rightarrow> pydict \<Rightarrow> string option" where
  "inst_placement_spread_domain fmt d = str_at fmt ''SpreadDomain'' (sub_dict ''Placement'' d)"

definition inst_placement_host_resource_group_arn :: "(pyval \<Rightarrow> string) \<Rightarrow> pydict \<Rightarrow> string option" where
  "inst_placement_host_resource_group_arn fmt d = str_at fmt ''HostResourceGroupArn'' (sub_dict ''Placement'' d)"

definition inst_platform :: "(pyval \<Rightarrow> string) \<Rightarrow> pydict \<Rightarrow> string option" where
  "inst_platform fmt d = str_at fmt ''Platform'' d"

definition inst_private_dns_name_fqdn :: "(pyval \<Rightarrow> string) \<Rightarrow> pydict \<Rightarrow> string option" where
  "inst_private_dns_name_fqdn fmt d = str_at fmt ''PrivateDnsName'' d"

definition inst_private_ip_address :: "(pyval \<Rightarrow> string) \<Rightarrow> pydict \<Rightarrow> string option" where
  "inst_private_ip_address fmt d = str_at fmt ''PrivateIpAddress'' d"

definition inst_product_codes :: "pydict \<Rightarrow> pyval list option" where
  "inst_product_codes d = list_at ''ProductCodes'' d"

definition inst_public_dns_name :: "(pyval \<Rightarrow> string) \<Rightarrow> pydict \<Rightarrow> string option" where
  "inst_public_dns_name fmt d = str_at fmt ''PublicDnsName'' d"

definition inst_public_ip_address :: "(pyval \<Rightarrow> string) \<Rightarrow> pydict \<Rightarrow> string option" where
  "inst_public_ip_address fmt d = str_at fmt ''PublicIpAddress'' d"

definition inst_ramdisk_id :: "(pyval \<Rightarrow> string) \<Rightarrow> pydict \<Rightarrow> string option" where
  "inst_ramdisk_id fmt d = str_at fmt ''RamdiskId'' d"

definition inst_state :: "(pyval \<Rightarrow> string) \<Rightarrow> pydict \<Rightarrow> string option" where
  "inst_state fmt d = str_at fmt ''Name'' (sub_dict ''State'' d)"

definition inst_state_code :: "pydict \<Rightarrow> int option res" where
  "inst_state_code d = int_at ''Code'' (sub_dict ''State'' d)"

definition inst_state_transition_reason :: "(pyval \<Rightarrow> string) \<Rightarrow> pydict \<Rightarrow> string option" where
  "inst_state_transition_reason fmt d = str_at fmt ''StateTransitionReason'' d"

definition inst_subnet_id :: "(pyval \<Rightarrow> string) \<Rightarrow> pydict \<Rightarrow> string option" where
  "inst_subnet_id fmt d = str_at fmt ''SubnetId'' d"

definition inst_vpc_id :: "(pyval \<Rightarrow> string) \<Rightarrow> pydict \<Rightarrow> string option" where
  "inst_vpc_id fmt d = str_at fmt ''VpcId'' d"

definition inst_architecture :: "(pyval \<Rightarrow> string) \<Rightarrow> pydict \<Rightarrow> string option" where
  "inst_architecture fmt d = str_at fmt ''Architecture'' d"

definition inst_block_device_mappings :: "pydict \<Rightarrow> pyval list option" where
  "inst_block_device_mappings d = list_at ''BlockDeviceMappings'' d"

definition inst_client_token :: "(pyval \<Rightarrow> string) \<Rightarrow> pydict \<Rightarrow> string option" where
  "inst_client_token fmt d = str_at fmt ''ClientToken'' d"

definition inst_ebs_optimized :: "pydict \<Rightarrow> bool option" where
  "inst_ebs_optimized d = bool_at ''EbsOptimized'' d"

definition inst_ena_support :: "pydict \<Rightarrow> bool option" where
  "inst_ena_support d = bool_at ''EnaSupport'' d"

definition inst_hypervisor :: "(pyval \<Rightarrow> string) \<Rightarrow> pydict \<Rightarrow> string option" where
  "inst_hypervisor fmt d = str_at fmt ''Hypervisor'' d"

definition inst_iam_instance_profile_arn :: "(pyval \<Rightarrow> string) \<Rightarrow> pydict \<Rightarrow> string option" where
  "inst_iam_instance_profile_arn fmt d = str_at fmt ''Arn'' (sub_dict ''IamInstanceProfile'' d)"

definition inst_iam_instance_profile_id :: "(pyval \<Rightarrow> string) \<Rightarrow> pydict \<Rightarrow> string option" where
  "inst_iam_instance_profile_id fmt d = str_at fmt ''Id'' (sub_dict ''IamInstanceProfile'' d)"

definition inst_instance_lifecycle :: "(pyval \<Rightarrow> string) \<Rightarrow> pydict \<Rightarrow> string option" where
  "inst_instance_lifecycle fmt d = str_at fmt ''InstanceLifecycle'' d"

definition inst_elastic_gpu_associations :: "pydict \<Rightarrow> pyval list option" where
  "inst_elastic_gpu_associations d = list_at ''ElasticGpuAssociations'' d"

definition inst_elastic_inference_accelerator_associations :: "pydict \<Rightarrow> pyval list option" where
  "inst_elastic_inference_accelerator_associations d = list_at ''ElasticInferenceAcceleratorAssociations'' d"

definition inst_network_interfaces :: "pydict \<Rightarrow> pyval list option" where
  "inst_network_interfaces d = list_at ''NetworkInterfaces'' d"

definition inst_outpost_arn :: "(pyval \<Rightarrow> string) \<Rightarrow> pydict \<Rightarrow> string option" where
  "inst_outpost_arn fmt d = str_at fmt ''OutpostArn'' d"

definition inst_root_device_name :: "(pyval \<Rightarrow> string) \<Rightarrow> pydict \<Rightarrow> string option" where
  "inst_root_device_name fmt d = str_at fmt ''RootDeviceName'' d"

definition inst_root_device_type :: "(pyval \<Rightarrow> string) \<Rightarrow> pydict \<Rightarrow> string option" where
  "inst_root_device_type fmt d = str_at fmt ''RootDeviceType'' d"

definition inst_security_groups :: "pydict \<Rightarrow> pyval list option" where
  "inst_security_groups d = list_at ''SecurityGroups'' d"

definition inst_source_dest_check :: "pydict \<Rightarrow> bool option" where
  "inst_source_dest_check d = bool_at ''SourceDestCheck'' d"

definition inst_spot_instance_request_id :: "(pyval \<Rightarrow> string) \<Rightarrow> pydict \<Rightarrow> string option" where
  "inst_spot_instance_request_id fmt d = str_at fmt ''SpotInstanceRequestId'' d"

definition inst_sriov_net_support :: "(pyval \<Rightarrow> string) \<Rightarrow> pydict \<Rightarrow> string option" where
  "inst_sriov_net_support fmt d = str_at fmt ''SriovNetSupport'' d"

definition inst_state_reason_code :: "(pyval \<Rightarrow> string) \<Rightarrow> pydict \<Rightarrow> string option" where
  "inst_state_reason_code fmt d = str_at fmt ''Code'' (sub_dict ''StateReason'' d)"

definition inst_state_reason_message :: "(pyval \<Rightarrow> string) \<Rightarrow> pydict \<Rightarrow> string option" where
  "inst_state_reason_message fmt d = str_at fmt ''Message'' (sub_dict ''StateReason'' d)"

definition inst_virtualization_type :: "(pyval \<Rightarrow> string) \<Rightarrow> pydict \<Rightarrow> string option" where
  "inst_virtualization_type fmt d = str_at fmt ''VirtualizationType'' d"

definition inst_cpu_options_core_count :: "pydict \<Rightarrow> int option res" where
  "inst_cpu_options_core_count d = int_at ''CoreCount'' (sub_dict ''CpuOptions'' d)"

definition inst_cpu_options_threads_per_core :: "pydict \<Rightarrow> int option res" where
  "inst_cpu_options_threads_per_core d = int_at ''ThreadsPerCore'' (sub_dict ''CpuOptions'' d)"

definition inst_capacity_reservation_id :: "(pyval \<Rightarrow> string) \<Rightarrow> pydict \<Rightarrow> string option" where
  "inst_capacity_reservation_id fmt d = str_at fmt ''CapacityReservationId'' d"

definition inst_capacity_reservation_preference :: "(pyval \<Rightarrow> string) \<Rightarrow> pydict \<Rightarrow> string option" where
  "inst_capacity_reservation_preference fmt d = str_at fmt ''CapacityReservationPreference'' (sub_dict ''CapacityReservationSpecification'' d)"

definition inst_capacity_reservation_target_id :: "(pyval \<Rightarrow> string) \<Rightarrow> pydict \<Rightarrow> string option" where
  "inst_capacity_reservation_target_id fmt d = str_at fmt ''CapacityReservationId'' (sub_dict ''CapacityReservationTarget'' (sub_dict ''CapacityReservationSpecification'' d))"

definition inst_capacity_reservation_target_resource_group_arn :: "(pyval \<Rightarrow> string) \<Rightarrow> pydict \<Rightarrow> string option" where
  "inst_capacity_reservation_target_resource_group_arn fmt d = str_at fmt ''CapacityReservationResourceGroupArn'' (sub_dict ''CapacityReservationTarget'' (sub_dict ''CapacityReservationSpecification'' d))"

definition inst_hibernation_options_configured :: "pydict \<Rightarrow> bool option" where
  "inst_hibernation_options_configured d = bool_at ''Configured'' (sub_dict ''HibernationOptions'' d)"

definition inst_licenses :: "pydict \<Rightarrow> pyval list option" where
  "inst_licenses d = list_at ''Licenses'' d"

definition inst_metadata_options_state :: "(pyval \<Rightarrow> string) \<Rightarrow> pydict \<Rightarrow> string option" where
  "inst_metadata_options_state fmt d = str_at fmt ''State'' (sub_dict ''MetadataOptions'' d)"

definition inst_metadata_options_http_tokens :: "(pyval \<Rightarrow> string) \<Rightarrow> pydict \<Rightarrow> string option" where
  "inst_metadata_options_http_tokens fmt d = str_at fmt ''HttpTokens'' (sub_dict ''MetadataOptions'' d)"

definition inst_metadata_options_http_put_response_hop_limit :: "pydict \<Rightarrow> int option res" where
  "inst_metadata_options_http_put_response_hop_limit d = int_at ''HttpPutResponseHopLimit'' (sub_dict ''MetadataOptions'' d)"

definition inst_metadata_options_http_endpoint :: "(pyval \<Rightarrow> string) \<Rightarrow> pydict \<Rightarrow> string option" where
  "inst_metadata_options_http_endpoint fmt d = str_at fmt ''HttpEndpoint'' (sub_dict ''MetadataOptions'' d)"

definition inst_metadata_options_http_protocol_ipv6 :: "(pyval \<Rightarrow> string) \<Rightarrow> pydict \<Rightarrow> string option" where
  "inst_metadata_options_http_protocol_ipv6 fmt d = str_at fmt ''HttpProtocolIpv6'' (sub_dict ''MetadataOptions'' d)"

definition inst_enclave_options_enabled :: "pydict \<Rightarrow> bool option" where
  "inst_enclave_options_enabled d = bool_at ''Enabled'' (sub_dict ''EnclaveOptions'' d)"

definition inst_boot_mode :: "(pyval \<Rightarrow> string) \<Rightarrow> pydict \<Rightarrow> string option" where
  "inst_boot_mode fmt d = str_at fmt ''BootMode'' d"

definition inst_platform_details :: "(pyval \<Rightarrow> string) \<Rightarrow> pydict \<Rightarrow> string option" where
  "inst_platform_details fmt d = str_at fmt ''PlatformDetails'' d"

definition inst_usage_operation :: "(pyval \<Rightarrow> string) \<Rightarrow> pydict \<Rightarrow> string option" where
  "inst_usage_operation fmt d = str_at fmt ''UsageOperation'' d"

definition inst_aws_ec2spot_fleet_request_id :: "(pyval \<Rightarrow> string) \<Rightarrow> pydict \<Rightarrow> string option" where
  "inst_aws_ec2spot_fleet_request_id fmt d = get_tag fmt AWS_TAG_EC2SPOT_FLEET_REQUEST_ID d"

definition inst_aws_autoscaling_group_name :: "(pyval \<Rightarrow> string) \<Rightarrow> pydict \<Rightarrow> string option" where
  "inst_aws_autoscaling_group_name fmt d = get_tag fmt AWS_TAG_AUTOSCALING_GROUP_NAME d"

definition inst_aws_cloudformation_stack_name :: "(pyval \<Rightarrow> string) \<Rightarrow> pydict \<Rightarrow> string option" where
  "inst_aws_cloudformation_stack_name fmt d = get_tag fmt AWS_TAG_CFN_STACK_NAME d"

definition inst_aws_cloudformation_stack_id :: "(pyval \<Rightarrow> string) \<Rightarrow> pydict \<Rightarrow> string option" where
  "inst_aws_cloudformation_stack_id fmt d = get_tag fmt AWS_TAG_CFN_STACK_ID d"

definition inst_aws_cloudformation_logical_id :: "(pyval \<Rightarrow> string) \<Rightarrow> pydict \<Rightarrow> string option" where
  "inst_aws_cloudformation_logical_id fmt d = get_tag fmt AWS_TAG_CFN_LOGICAL_ID d"

definition inst_soca_cluster_name :: "(pyval \<Rightarrow> string) \<Rightarrow> pydict \<Rightarrow> string option" where
  "inst_soca_cluster_name fmt d = get_tag fmt IDEA_TAG_CLUSTER_NAME d"

definition inst_soca_node_type :: "(pyval \<Rightarrow> string) \<Rightarrow> pydict \<Rightarrow> string option" where
  "inst_soca_node_type fmt d = get_tag fmt IDEA_TAG_NODE_TYPE d"

definition inst_idea_module_id :: "(pyval \<Rightarrow> string) \<Rightarrow> pydict \<Rightarrow> string option" where
  "inst_idea_module_id fmt d = get_tag fmt IDEA_TAG_MODULE_ID d"

definition inst_soca_job_id :: "(pyval \<Rightarrow> string) \<Rightarrow> pydict \<Rightarrow> string option" where
  "inst_soca_job_id fmt d = get_tag fmt IDEA_TAG_JOB_ID d"

definition inst_soca_job_group :: "(pyval \<Rightarrow> string) \<Rightarrow> pydict \<Rightarrow> string option" where
  "inst_soca_job_group fmt d = get_tag fmt IDEA_TAG_JOB_GROUP d"

definition inst_soca_job_name :: "(pyval \<Rightarrow> string) \<Rightarrow> pydict \<Rightarrow> string option" where
  "inst_soca_job_name fmt d = get_tag fmt IDEA_TAG_JOB_NAME d"

definition inst_soca_job_owner :: "(pyval \<Rightarrow> string) \<Rightarrow> pydict \<Rightarrow> string option" where
  "inst_soca_job_owner fmt d = get_tag fmt IDEA_TAG_JOB_OWNER d"

definition inst_soca_job_queue :: "(pyval \<Rightarrow> string) \<Rightarrow> pydict \<Rightarrow> string option" where
  "inst_soca_job_queue fmt d = get_tag fmt IDEA_TAG_JOB_QUEUE d"

definition inst_soca_queue_type :: "(pyval \<Rightarrow> string) \<Rightarrow> pydict \<Rightarrow> string option" where
  "inst_soca_queue_type fmt d = get_tag fmt IDEA_TAG_QUEUE_TYPE d"

definition inst_soca_job_project :: "(pyval \<Rightarrow> string) \<Rightarrow> pydict \<Rightarrow> string option" where
  "inst_soca_job_project fmt d = get_tag fmt IDEA_TAG_PROJECT d"

definition inst_soca_compute_stack :: "(pyval \<Rightarrow> string) \<Rightarrow> pydict \<Rightarrow> string option" where
  "inst_soca_compute_stack fmt d = get_tag fmt IDEA_TAG_COMPUTE_STACK d"

definition inst_soca_created_from :: "(pyval \<Rightarrow> string) \<Rightarrow> pydict \<Rightarrow> string option" where
  "inst_soca_created_from fmt d = get_tag fmt IDEA_TAG_CREATED_FROM d"

definition inst_soca_backup_plan :: "(pyval \<Rightarrow> string) \<Rightarrow> pydict \<Rightarrow> string option" where
  "inst_soca_backup_plan fmt d = get_tag fmt IDEA_TAG_BACKUP_PLAN d"

definition inst_soca_scaling_mode :: "(pyval \<Rightarrow> string) \<Rightarrow> pydict \<Rightarrow> string option" where
  "inst_soca_scaling_mode fmt d = get_tag fmt IDEA_TAG_SCALING_MODE d"

definition inst_soca_capacity_type :: "(pyval \<Rightarrow> string) \<Rightarrow> pydict \<Rightarrow> string option" where
  "inst_soca_capacity_type fmt d = get_tag fmt IDEA_TAG_CAPACITY_TYPE d"

definition inst_launch_time :: "(pyval \<Rightarrow> int res) \<Rightarrow> pydict \<Rightarrow> int option res" where
  "inst_launch_time arrow_get d =
     (case map_of d ''LaunchTime'' of None \<Rightarrow> Inr None | Some v \<Rightarrow> bindE (arrow_get v) (\<lambda>t. Inr (Some t)))"

definition inst_usage_operation_update_time :: "(pyval \<Rightarrow> int res) \<Rightarrow> pydict \<Rightarrow> int option res" where
  "inst_usage_operation_update_time arrow_get d =
     (case map_of d ''UsageOperationUpdateTime'' of
        None \<Rightarrow> Inr None | Some v \<Rightarrow> bindE (arrow_get v) (\<lambda>t. Inr (Some t)))"

definition inst_private_dns_name :: "(pyval \<Rightarrow> string) \<Rightarrow> pydict \<Rightarrow> string option" where
  "inst_private_dns_name fmt d =
     (case inst_private_dns_name_fqdn fmt d of None \<Rightarrow> None | Some fqdn \<Rightarrow> Some (hd (split_char (CHR ''.'') fqdn)))"

definition inst_is_running :: "(pyval \<Rightarrow> string) \<Rightarrow> pydict \<Rightarrow> bool" where
  "inst_is_running fmt d = (inst_state fmt d = Some ''running'')"

definition inst_is_pending :: "(pyval \<Rightarrow> string) \<Rightarrow> pydict \<Rightarrow> bool" where
  "inst_is_pending fmt d = (inst_state fmt d = Some ''pending'')"

definition inst_is_stopped :: "(pyval \<Rightarrow> string) \<Rightarrow> pydict \<Rightarrow> bool" where
  "inst_is_stopped fmt d = (inst_state fmt d \<in> {Some ''stopping'', Some ''stopped''})"

definition inst_is_terminated :: "(pyval \<Rightarrow> string) \<Rightarrow> pydict \<Rightarrow> bool" where
  "inst_is_terminated fmt d = (inst_state fmt d \<in> {Some ''shutting-down'', Some ''terminated''})"

section \<open>Properties of an instance of the cluster\<close>

definition tag_val :: "string option \<Rightarrow> pyval" where
  "tag_val v = (case v of None \<Rightarrow> PNone | Some s \<Rightarrow> PStr s)"

definition inst_soca_keep_forever :: "(pyval \<Rightarrow> string) \<Rightarrow> pydict \<Rightarrow> bool" where
  "inst_soca_keep_forever fmt d =
     opt_or (get_as_bool (tag_val (get_tag fmt IDEA_TAG_KEEP_FOREVER d)) (Some False)) False"

definition inst_soca_terminate_when_idle :: "(pyval \<Rightarrow> string) \<Rightarrow> pydict \<Rightarrow> int res" where
  "inst_soca_terminate_when_idle fmt d =
     bindE (get_as_int (tag_val (get_tag fmt IDEA_TAG_TERMINATE_WHEN_IDLE d)) (Some 0)) (\<lambda>i. Inr (opt_or i 0))"

definition inst_is_soca_ephemeral_capacity :: "(pyval \<Rightarrow> string) \<Rightarrow> pydict \<Rightarrow> bool res" where
  "inst_is_soca_ephemeral_capacity fmt d =
     (if inst_soca_keep_forever fmt d then Inr False
      else bindE (inst_soca_terminate_when_idle fmt d) (\<lambda>t. Inr (\<not> t > 0)))"

definition inst_soca_fsx :: "(pyval \<Rightarrow> string) \<Rightarrow> pydict \<Rightarrow> bool option" where
  "inst_soca_fsx fmt d = get_as_bool (tag_val (get_tag fmt IDEA_TAG_FSX d)) None"

definition inst_soca_created_on :: "(pyval \<Rightarrow> string) \<Rightarrow> (pyval \<Rightarrow> int res) \<Rightarrow> pydict \<Rightarrow> int option res" where
  "inst_soca_created_on fmt arrow_get d =
     (case get_tag fmt IDEA_TAG_CREATED_ON d of
        None \<Rightarrow> Inr None | Some s \<Rightarrow> bindE (arrow_get (PStr s)) (\<lambda>t. Inr (Some t)))"

definition inst_is_idea_compute_node :: "(pyval \<Rightarrow> string) \<Rightarrow> pydict \<Rightarrow> bool" where
  "inst_is_idea_compute_node fmt d =
     (case inst_soca_node_type fmt d of None \<Rightarrow> False | Some t \<Rightarrow> t = NODE_TYPE_COMPUTE)"

definition inst_is_soca_dcv_node :: "(pyval \<Rightarrow> string) \<Rightarrow> pydict \<Rightarrow> bool" where
  "inst_is_soca_dcv_node fmt d =
     (case inst_soca_node_type fmt d of None \<Rightarrow> False | Some t \<Rightarrow> t = NODE_TYPE_DCV_HOST)"

definition inst_node_type :: "(pyval \<Rightarrow> string) \<Rightarrow> pydict \<Rightarrow> string" where
  "inst_node_type fmt d =
     (if inst_is_idea_compute_node fmt d then NODE_TYPE_COMPUTE
      else if inst_is_soca_dcv_node fmt d then NODE_TYPE_DCV_HOST else NODE_TYPE_UNKNOWN)"

definition inst_is_valid_idea_compute_node :: "(pyval \<Rightarrow> string) \<Rightarrow> pydict \<Rightarrow> bool" where
  "inst_is_valid_idea_compute_node fmt d =
     (if \<not> inst_is_idea_compute_node fmt d then False
      else case inst_soca_job_id fmt d of None \<Rightarrow> False | Some _ \<Rightarrow> True)"

definition inst_is_current_cluster :: "(pyval \<Rightarrow> string) \<Rightarrow> string \<Rightarrow> pydict \<Rightarrow> bool" where
  "inst_is_current_cluster fmt name d =
     (case inst_soca_cluster_name fmt d of None \<Rightarrow> False | Some c \<Rightarrow> c = name)"

definition inst_eq :: "(pyval \<Rightarrow> string) \<Rightarrow> pydict \<Rightarrow> pydict \<Rightarrow> bool" where
  "inst_eq fmt a b = (inst_instance_id fmt a = inst_instance_id fmt b)"

definition inst_str :: "(pyval \<Rightarrow> string) \<Rightarrow> pydict \<Rightarrow> string" where
  "inst_str fmt d =
     ''Host: '' @ opt_or (inst_private_dns_name fmt d) ''None'' @ '', InstanceId: '' @
     opt_or (inst_instance_id fmt d) ''None'' @
     (if inst_is_idea_compute_node fmt d
      then '', ComputeStack: '' @ opt_or (inst_soca_compute_stack fmt d) ''None'' else [])"

section \<open>Properties of an instance type\<close>

definition itype_instance_type :: "(pyval \<Rightarrow> string) \<Rightarrow> pydict \<Rightarrow> string option" where
  "itype_instance_type fmt d = str_at fmt ''InstanceType'' d"

definition itype_current_generation :: "pydict \<Rightarrow> bool option" where
  "itype_current_generation d = bool_at ''CurrentGeneration'' d"

definition itype_free_tier_eligible :: "pydict \<Rightarrow> bool option" where
  "itype_free_tier_eligible d = bool_at ''FreeTierEligible'' d"

definition itype_supported_usage_classes :: "pydict \<Rightarrow> pyval list option" where
  "itype_supported_usage_classes d = list_at ''SupportedUsageClasses'' d"

definition itype_supported_root_device_types :: "pydict \<Rightarrow> pyval list option" where
  "itype_supported_root_device_types d = list_at ''SupportedRootDeviceTypes'' d"

definition itype_supported_virtualization_types :: "pydict \<Rightarrow> pyval list option" where
  "itype_supported_virtualization_types d = list_at ''SupportedVirtualizationTypes'' d"

definition itype_bare_metal :: "pydict \<Rightarrow> bool option" where
  "itype_bare_metal d = bool_at ''BareMetal'' d"

definition itype_hypervisor :: "(pyval \<Rightarrow> string) \<Rightarrow> pydict \<Rightarrow> string option" where
  "itype_hypervisor fmt d = str_at fmt ''Hypervisor'' d"

definition itype_processor_info_supported_architectures :: "pydict \<Rightarrow> pyval list option" where
  "itype_processor_info_supported_architectures d = list_at ''SupportedArchitectures'' (sub_dict ''ProcessorInfo'' d)"

definition itype_processor_info_sustained_click_speed_in_ghz :: "pydict \<Rightarrow> pyfloat option res" where
  "itype_processor_info_sustained_click_speed_in_ghz d = float_at ''SustainedClockSpeedInGhz'' (sub_dict ''ProcessorInfo'' d)"

definition itype_vcpu_info_default_vcpus :: "pydict \<Rightarrow> int option res" where
  "itype_vcpu_info_default_vcpus d = int_at ''DefaultVCpus'' (sub_dict ''VCpuInfo'' d)"

definition itype_vcpu_info_default_cores :: "pydict \<Rightarrow> int option res" where
  "itype_vcpu_info_default_cores d = int_at ''DefaultCores'' (sub_dict ''VCpuInfo'' d)"

definition itype_vcpu_info_default_threads_per_core :: "pydict \<Rightarrow> int option res" where
  "itype_vcpu_info_default_threads_per_core d = int_at ''DefaultThreadsPerCore'' (sub_dict ''VCpuInfo'' d)"

definition itype_vcpu_info_valid_cores :: "pydict \<Rightarrow> pyval list option" where
  "itype_vcpu_info_valid_cores d = list_at ''ValidCores'' (sub_dict ''VCpuInfo'' d)"

definition itype_vcpu_info_valid_threads_per_core :: "pydict \<Rightarrow> pyval list option" where
  "itype_vcpu_info_valid_threads_per_core d = list_at ''ValidThreadsPerCore'' (sub_dict ''VCpuInfo'' d)"

definition itype_memory_info_size_in_mib :: "pydict \<Rightarrow> int option res" where
  "itype_memory_info_size_in_mib d = int_at ''SizeInMiB'' (sub_dict ''MemoryInfo'' d)"

definition itype_instance_storage_supported :: "pydict \<Rightarrow> bool option" where
  "itype_instance_storage_supported d = bool_at ''InstanceStorageSupported'' d"

definition itype_instance_storage_info_total_size_in_gb :: "pydict \<Rightarrow> int option res" where
  "itype_instance_storage_info_total_size_in_gb d = int_at ''TotalSizeInGB'' (sub_dict ''InstanceStorageInfo'' d)"

definition itype_instance_storage_info_disks :: "pydict \<Rightarrow> pyval list option" where
  "itype_instance_storage_info_disks d = list_at ''Disks'' (sub_dict ''InstanceStorageInfo'' d)"

definition itype_instance_storage_info_nvme_support :: "(pyval \<Rightarrow> string) \<Rightarrow> pydict \<Rightarrow> string option" where
  "itype_instance_storage_info_nvme_support fmt d = str_at fmt ''NvmeSupport'' (sub_dict ''InstanceStorageInfo'' d)"

definition itype_instance_storage_info_encryption_support :: "(pyval \<Rightarrow> string) \<Rightarrow> pydict \<Rightarrow> string option" where
  "itype_instance_storage_info_encryption_support fmt d = str_at fmt ''EncryptionSupport'' (sub_dict ''InstanceStorageInfo'' d)"

definition itype_ebs_info_ebs_optimized_support :: "(pyval \<Rightarrow> string) \<Rightarrow> pydict \<Rightarrow> string option" where
  "itype_ebs_info_ebs_optimized_support fmt d = str_at fmt ''EbsOptimizedSupport'' (sub_dict ''EbsInfo'' d)"

definition itype_ebs_info_ebs_optimized_info :: "pydict \<Rightarrow> pydict option" where
  "itype_ebs_info_ebs_optimized_info d = dict_at ''EbsOptimizedInfo'' (sub_dict ''EbsInfo'' d)"

definition itype_ebs_info_nvme_support :: "(pyval \<Rightarrow> string) \<Rightarrow> pydict \<Rightarrow> string option" where
  "itype_ebs_info_nvme_support fmt d = str_at fmt ''NvmeSupport'' (sub_dict ''EbsInfo'' d)"

definition itype_network_info_network_performance :: "(pyval \<Rightarrow> string) \<Rightarrow> pydict \<Rightarrow> string option" where
  "itype_network_info_network_performance fmt d = str_at fmt ''NetworkPerformance'' (sub_dict ''NetworkInfo'' d)"

definition itype_network_info_maximum_network_interfaces :: "pydict \<Rightarrow> int option res" where
  "itype_network_info_maximum_network_interfaces d = int_at ''MaximumNetworkInterfaces'' (sub_dict ''NetworkInfo'' d)"

definition itype_network_info_maximum_network_cards :: "pydict \<Rightarrow> int option res" where
  "itype_network_info_maximum_network_cards d = int_at ''MaximumNetworkCards'' (sub_dict ''NetworkInfo'' d)"

definition itype_network_info_default_network_card_index :: "pydict \<Rightarrow> int option res" where
  "itype_network_info_default_network_card_index d = int_at ''DefaultNetworkCardIndex'' (sub_dict ''NetworkInfo'' d)"

definition itype_network_info_network_cards :: "pydict \<Rightarrow> pyval list option" where
  "itype_network_info_network_cards d = list_at ''NetworkCards'' (sub_dict ''NetworkInfo'' d)"

definition itype_network_info_ipv4_addresses_per_interface :: "pydict \<Rightarrow> int option res" where
  "itype_network_info_ipv4_addresses_per_interface d = int_at ''Ipv4AddressesPerInterface'' (sub_dict ''NetworkInfo'' d)"

definition itype_network_info_ipv6_addresses_per_interface :: "pydict \<Rightarrow> int option res" where
  "itype_network_info_ipv6_addresses_per_interface d = int_at ''Ipv6AddressesPerInterface'' (sub_dict ''NetworkInfo'' d)"

definition itype_network_info_ipv6_supported :: "pydict \<Rightarrow> bool option" where
  "itype_network_info_ipv6_supported d = bool_at ''Ipv6Supported'' (sub_dict ''NetworkInfo'' d)"

definition itype_network_info_ena_supported :: "pydict \<Rightarrow> bool option" where
  "itype_network_info_ena_supported d = bool_at ''EnaSupport'' (sub_dict ''NetworkInfo'' d)"

definition itype_network_info_efa_supported :: "pydict \<Rightarrow> bool option" where
  "itype_network_info_efa_supported d = bool_at ''EfaSupported'' (sub_dict ''NetworkInfo'' d)"

definition itype_network_info_efa_info_max_efa_interfaces :: "pydict \<Rightarrow> int option res" where
  "itype_network_info_efa_info_max_efa_interfaces d = int_at ''MaximumEfaInterfaces'' (sub_dict ''EfaInfo'' (sub_dict ''NetworkInfo'' d))"

definition itype_network_info_encryption_in_transit_supported :: "pydict \<Rightarrow> bool option" where
  "itype_network_info_encryption_in_transit_supported d = bool_at ''EncryptionInTransitSupported'' (sub_dict ''NetworkInfo'' d)"

definition itype_network_info_ena_express_supported :: "pydict \<Rightarrow> bool option" where
  "itype_network_info_ena_express_supported d = bool_at ''EnaSrdSupported'' (sub_dict ''NetworkInfo'' d)"

definition itype_gpu_info_gpus :: "pydict \<Rightarrow> pyval list option" where
  "itype_gpu_info_gpus d = list_at ''Gpus'' (sub_dict ''GpuInfo'' d)"

definition itype_gpu_info_total_gpu_memory_in_mib :: "pydict \<Rightarrow> int option res" where
  "itype_gpu_info_total_gpu_memory_in_mib d = int_at ''TotalGpuMemoryInMiB'' (sub_dict ''GpuInfo'' d)"

definition itype_fpga_info_fpgas :: "pydict \<Rightarrow> pyval list option" where
  "itype_fpga_info_fpgas d = list_at ''Fpgas'' (sub_dict ''FpgaInfo'' d)"

definition itype_fpga_info_total_fpga_memory_in_mib :: "pydict \<Rightarrow> int option res" where
  "itype_fpga_info_total_fpga_memory_in_mib d = int_at ''TotalFpgaMemoryInMiB'' (sub_dict ''FpgaInfo'' d)"

definition itype_placement_group_info_supported_strategies :: "pydict \<Rightarrow> pyval list option" where
  "itype_placement_group_info_supported_strategies d = list_at ''SupportedStrategies'' (sub_dict ''PlacementGroupInfo'' d)"

definition itype_inference_accelerator_info_accelerators :: "pydict \<Rightarrow> pyval list option" where
  "itype_inference_accelerator_info_accelerators d = list_at ''Accelerators'' (sub_dict ''InferenceAcceleratorInfo'' d)"

definition itype_hibernation_supported :: "pydict \<Rightarrow> bool option" where
  "itype_hibernation_supported d = bool_at ''HibernationSupported'' d"

definition itype_burstable_performance_supported :: "pydict \<Rightarrow> bool option" where
  "itype_burstable_performance_supported d = bool_at ''BurstablePerformanceSupported'' d"

definition itype_dedicated_hosts_supported :: "pydict \<Rightarrow> bool option" where
  "itype_dedicated_hosts_supported d = bool_at ''DedicatedHostsSupported'' d"

definition itype_auto_recovery_supported :: "pydict \<Rightarrow> bool option" where
  "itype_auto_recovery_supported d = bool_at ''AutoRecoverySupported'' d"

definition itype_supported_boot_modes :: "pydict \<Rightarrow> pyval list option" where
  "itype_supported_boot_modes d = list_at ''SupportedBootModes'' d"

text \<open>The whole \<open>EbsInfo\<close> is turned into a string, and then a key of it is read.\<close>

definition itype_ebs_info_encryption_support :: "(pyval \<Rightarrow> string) \<Rightarrow> pydict \<Rightarrow> string option res" where
  "itype_ebs_info_encryption_support fmt d =
     (case str_at fmt ''EbsInfo'' d of
        None \<Rightarrow> Inr None
      | Some text \<Rightarrow> if contains ''EncryptionSupport'' text then Inl TypeError else Inr None)"

definition CPU_OPTIONS_UNSUPPORTED_FAMILY :: "string list" where
  "CPU_OPTIONS_UNSUPPORTED_FAMILY = [''t2'', ''hpc6a'', ''hpc7a'', ''a1'']"

definition itype_is_cpu_options_supported :: "(pyval \<Rightarrow> string) \<Rightarrow> pydict \<Rightarrow> bool res" where
  "itype_is_cpu_options_supported fmt d =
     bindE (required AttributeError (itype_instance_type fmt d)) (\<lambda>name.
       let family = lower (hd (split_char (CHR ''.'') name)) in
       Inr (\<not> (itype_bare_metal d = Some True \<or> list_ex (\<lambda>f. startswith f family) CPU_OPTIONS_UNSUPPORTED_FAMILY)))"

section \<open>Tags as the code writes them\<close>

definition tag_entry :: "string \<Rightarrow> string \<Rightarrow> pyval" where
  "tag_entry key value = PDict [(''Key'', PStr key), (''Value'', PStr value)]"

text \<open>A word is not blank and carries no space at its ends: the reading of a tag keeps it.\<close>

definition word :: "string \<Rightarrow> bool" where
  "word s \<longleftrightarrow> s \<noteq> [] \<and> strip s = s"

lemma str_at_word: "map_of d key = Some (PStr s) \<Longrightarrow> word s \<Longrightarrow> str_at fmt key d = Some s"
  by (simp add: str_at_def get_value_as_string_def get_any_value_def value_exists_def is_empty_str_def word_def Let_def)

definition words :: "(string \<times> string) list \<Rightarrow> bool" where
  "words kvs \<longleftrightarrow> list_all (\<lambda>(k, v). word k \<and> word v) kvs"

lemma read_tag_entry:
  "word k \<Longrightarrow> str_at fmt ''Key'' (entry_dict (tag_entry k v)) = Some k"
  "word v \<Longrightarrow> str_at fmt ''Value'' (entry_dict (tag_entry k v)) = Some v"
  by (simp_all add: tag_entry_def str_at_word)

lemma find_tag_entries: "words kvs \<Longrightarrow> find_tag fmt key (map (\<lambda>(k, v). tag_entry k v) kvs) = map_of kvs key"
  by (induction kvs) (auto simp: words_def read_tag_entry)

lemma list_at_list: "map_of d key = Some (PList vs) \<Longrightarrow> vs \<noteq> [] \<Longrightarrow> list_at key d = Some vs"
  by (simp add: list_at_def get_value_as_list_def get_any_value_def value_exists_def)

lemma get_tag_entries:
  assumes "map_of d ''Tags'' = Some (PList (map (\<lambda>(k, v). tag_entry k v) kvs))"
    and "words kvs"
  shows "get_tag fmt key d = map_of kvs key"
proof (cases "kvs = []")
  case True
  with assms(1) show ?thesis
    by (simp add: get_tag_def list_at_def get_value_as_list_def get_any_value_def value_exists_def)
next
  case False
  with assms find_tag_entries [of kvs] show ?thesis by (simp add: get_tag_def list_at_list)
qed

end
