(* ===== verification/EC2_View.thy ===== *)
theory EC2_View
  imports EC2_Data Node_Model Param_Context
begin

text \<open>
  What the scheduler sees of the EC2 wrappers: the records \<open>ec2_instance\<close> and \<open>ec2_type\<close>, which the provisioning,
  the node housekeeping and the job builders read, as views of the wrapped dicts. A launch time the library cannot
  read, or a termination delay that is no number, raises where the property is read.
\<close>

section \<open>Instances\<close>

definition capacity_of_tag :: "string option \<Rightarrow> SocaCapacityType option" where
  "capacity_of_tag v =
     (if v = Some (capacity_type_str ONDEMAND) then Some ONDEMAND
      else if v = Some (capacity_type_str SPOT) then Some SPOT
      else if v = Some (capacity_type_str MIXED) then Some MIXED else None)"

definition instance_view :: "(pyval \<Rightarrow> string) \<Rightarrow> (pyval \<Rightarrow> int res) \<Rightarrow> pydict \<Rightarrow> ec2_instance res" where
  "instance_view fmt arrow_get d =
     bindE (inst_launch_time arrow_get d) (\<lambda>launched.
     bindE (inst_soca_terminate_when_idle fmt d) (\<lambda>idle.
     Inr \<lparr>i_private_dns_name = inst_private_dns_name fmt d, i_instance_id = inst_instance_id fmt d,
       i_instance_type = inst_instance_type fmt d, i_state = inst_state fmt d, i_image_id = inst_image_id fmt d,
       i_iam_instance_profile_id = inst_iam_instance_profile_id fmt d,
       i_instance_lifecycle = inst_instance_lifecycle fmt d, i_placement_tenancy = inst_placement_tenancy fmt d,
       i_placement_availability_zone = inst_placement_availability_zone fmt d, i_subnet_id = inst_subnet_id fmt d,
       i_launch_time = launched, i_aws_ec2spot_fleet_request_id = inst_aws_ec2spot_fleet_request_id fmt d,
       i_aws_autoscaling_group_name = inst_aws_autoscaling_group_name fmt d,
       i_aws_cloudformation_stack_id = inst_aws_cloudformation_stack_id fmt d,
       i_soca_cluster_name = inst_soca_cluster_name fmt d, i_soca_job_queue = inst_soca_job_queue fmt d,
       i_soca_queue_type = inst_soca_queue_type fmt d, i_soca_job_id = inst_soca_job_id fmt d,
       i_soca_job_group = inst_soca_job_group fmt d, i_soca_scaling_mode = inst_soca_scaling_mode fmt d,
       i_soca_capacity_type = capacity_of_tag (inst_soca_capacity_type fmt d),
       i_soca_compute_stack = inst_soca_compute_stack fmt d, i_soca_keep_forever = inst_soca_keep_forever fmt d,
       i_soca_terminate_when_idle = idle,
       i_is_valid_idea_compute_node = inst_is_valid_idea_compute_node fmt d\<rparr>))"

section \<open>Instance types\<close>

fun strings_of :: "pyval list \<Rightarrow> string list" where
  "strings_of [] = []"
| "strings_of (PStr s # vs) = s # strings_of vs"
| "strings_of (_ # vs) = strings_of vs"

definition type_view :: "(pyval \<Rightarrow> string) \<Rightarrow> pydict \<Rightarrow> ec2_type res" where
  "type_view fmt d =
     bindE (itype_vcpu_info_default_vcpus d) (\<lambda>vcpus.
     bindE (itype_vcpu_info_default_cores d) (\<lambda>cores.
     bindE (itype_vcpu_info_default_threads_per_core d) (\<lambda>threads.
     bindE (itype_memory_info_size_in_mib d) (\<lambda>mib.
     bindE (itype_is_cpu_options_supported fmt d) (\<lambda>cpu_options.
     Inr \<lparr>et_default_vcpus = vcpus, et_default_cores = cores, et_default_threads = threads, et_memory_mib = mib,
       et_cpu_options_supported = Some cpu_options, et_ebs_optimized_support = itype_ebs_info_ebs_optimized_support fmt d,
       et_placement_strategies = map_option strings_of (itype_placement_group_info_supported_strategies d),
       et_efa_supported = itype_network_info_efa_supported d\<rparr>)))))"

section \<open>Tags\<close>

lemma fold_assign_key:
  "map_of (fold (\<lambda>t r. assign_key (f t) (g t) r) ts kvs) k =
     (case map_of (rev (map (\<lambda>t. (f t, g t)) ts)) k of None \<Rightarrow> map_of kvs k | Some v \<Rightarrow> Some v)"
  by (induction ts arbitrary: kvs) (auto simp: map_add_def split: option.splits)

lemma find_tag_map_of:
  "find_tag fmt key tags =
     (case map_of (map (\<lambda>t. (str_at fmt ''Key'' (entry_dict t), str_at fmt ''Value'' (entry_dict t))) tags) (Some key) of
        None \<Rightarrow> None | Some v \<Rightarrow> v)"
  by (induction tags) auto

text \<open>C32: When no tag name occurs twice, the search of \<open>get_tag\<close> and the dict of \<open>tags\<close> give the same value.\<close>

lemma tags_agree:
  assumes "list_at ''Tags'' d = Some tags" "distinct (map (\<lambda>t. str_at fmt ''Key'' (entry_dict t)) tags)"
  shows "\<exists>r. inst_tags fmt d = Some r \<and>
    get_tag fmt key d = (case map_of r (Some key) of None \<Rightarrow> None | Some v \<Rightarrow> v)"
proof -
  let ?kv = "\<lambda>t. (str_at fmt ''Key'' (entry_dict t), str_at fmt ''Value'' (entry_dict t))"
  have "map_of (rev (map ?kv tags)) = map_of (map ?kv tags)"
    using assms(2) by (intro map_of_rev_distinct) (simp add: comp_def)
  with assms(1) show ?thesis
    by (simp add: inst_tags_def get_tag_def find_tag_map_of fold_assign_key)
      (auto simp: rev_map split: option.split)
qed

definition sample_tagged :: pydict where
  "sample_tagged = [(''Tags'', PList [tag_entry ''Name'' ''node'', tag_entry ''idea:JobId'' ''7''])]"

lemma tags_agree_witness:
  "\<exists>r. inst_tags (\<lambda>_. []) sample_tagged = Some r \<and>
    get_tag (\<lambda>_. []) ''idea:JobId'' sample_tagged = (case map_of r (Some ''idea:JobId'') of None \<Rightarrow> None | Some v \<Rightarrow> v)"
proof (rule tags_agree)
  show "list_at ''Tags'' sample_tagged = Some [tag_entry ''Name'' ''node'', tag_entry ''idea:JobId'' ''7'']"
    by code_simp
  show "distinct (map (\<lambda>t. str_at (\<lambda>_. []) ''Key'' (entry_dict t)) [tag_entry ''Name'' ''node'', tag_entry ''idea:JobId'' ''7''])"
    by code_simp
qed

end
