(* ===== verification/Instance_Cache.thy ===== *)
theory Instance_Cache
  imports EC2_Data
begin

text \<open>
  The cache of EC2 instances, \<open>ideascheduler/app/aws/instance_cache.py\<close>. The third-party in-memory cache below its
  maximal size and within its time to live is a map: \<open>set_many\<close> overwrites, \<open>delete_many\<close> removes; the order of
  its values is not documented and nothing below depends on it. Instances are the dicts of \<open>EC2_Data\<close>.
\<close>

section \<open>Filters\<close>

text \<open>The keyword arguments; None is an argument that is not given.\<close>

record instance_filter =
  f_cluster_name :: "string option"
  f_node_type :: "string option"
  f_instance_types :: "string list option"
  f_states :: "string list option"
  f_capacity_type :: "string option"
  f_tenancy :: "string option"
  f_job_id :: "string option"
  f_job_group :: "string option"
  f_job_project :: "string option"
  f_job_queue :: "string option"
  f_job_queue_type :: "string option"
  f_module_id :: "string option"

definition no_filter :: instance_filter where
  "no_filter = \<lparr>f_cluster_name = None, f_node_type = None, f_instance_types = None, f_states = None,
     f_capacity_type = None, f_tenancy = None, f_job_id = None, f_job_group = None, f_job_project = None,
     f_job_queue = None, f_job_queue_type = None, f_module_id = None\<rparr>"

definition tag_differs :: "string option \<Rightarrow> string option \<Rightarrow> bool" where
  "tag_differs wanted got = (case wanted of None \<Rightarrow> False | Some w \<Rightarrow> (case got of None \<Rightarrow> True | Some g \<Rightarrow> g \<noteq> w))"

definition not_among :: "string list option \<Rightarrow> string option \<Rightarrow> bool" where
  "not_among wanted got =
     (case wanted of None \<Rightarrow> False
      | Some ws \<Rightarrow> if ws = [] then False else got \<notin> Some ` set ws)"

definition passes_filter :: "(pyval \<Rightarrow> string) \<Rightarrow> instance_filter \<Rightarrow> pydict \<Rightarrow> bool" where
  "passes_filter fmt f i =
     (if tag_differs (f_cluster_name f) (inst_soca_cluster_name fmt i) then False
      else if tag_differs (f_module_id f) (inst_idea_module_id fmt i) then False
      else if tag_differs (f_node_type f) (inst_soca_node_type fmt i) then False
      else if not_among (f_instance_types f) (inst_instance_type fmt i) then False
      else if not_among (f_states f) (inst_state fmt i) then False
      else if f_capacity_type f = Some ''spot'' \<and> inst_spot_instance_request_id fmt i = None then False
      else if f_capacity_type f = Some ''on-demand'' \<and> inst_spot_instance_request_id fmt i \<noteq> None then False
      else if f_tenancy f \<noteq> None \<and> inst_placement_tenancy fmt i \<noteq> f_tenancy f then False
      else if tag_differs (f_job_id f) (inst_soca_job_id fmt i) then False
      else if tag_differs (f_job_group f) (inst_soca_job_group fmt i) then False
      else if tag_differs (f_job_project f) (inst_soca_job_project fmt i) then False
      else if tag_differs (f_job_queue f) (inst_soca_job_queue fmt i) then False
      else if tag_differs (f_job_queue_type f) (inst_soca_queue_type fmt i) then False
      else True)"

definition apply_filters :: "(pyval \<Rightarrow> string) \<Rightarrow> pydict list \<Rightarrow> instance_filter \<Rightarrow> pydict list" where
  "apply_filters fmt instances f = filter (passes_filter fmt f) instances"

section \<open>The in-memory database\<close>

type_synonym instance_db = "(string option \<times> pydict) list"

definition db_get :: "string option \<Rightarrow> instance_db \<Rightarrow> pydict option" where
  "db_get i db = map_of db i"

definition db_get_many :: "string option list \<Rightarrow> instance_db \<Rightarrow> pydict list" where
  "db_get_many ids db = List.map_filter (\<lambda>i. map_of db i) (remdups ids)"

text \<open>\<open>add_many\<close> collects the instances under their ids first: of several with one id the last remains.\<close>

definition db_add_many :: "(pyval \<Rightarrow> string) \<Rightarrow> pydict list \<Rightarrow> instance_db \<Rightarrow> instance_db" where
  "db_add_many fmt instances db =
     (let items = fold (\<lambda>i items. assign_key (inst_instance_id fmt i) i items) instances []
      in fold (\<lambda>(k, i) db. assign_key k i db) items db)"

definition db_delete_many :: "string option list \<Rightarrow> instance_db \<Rightarrow> instance_db" where
  "db_delete_many ids db = filter (\<lambda>(k, _). k \<notin> set ids) db"

definition db_query :: "(pyval \<Rightarrow> string) \<Rightarrow> instance_filter \<Rightarrow> instance_db \<Rightarrow> pydict list" where
  "db_query fmt f db = apply_filters fmt (map snd db) f"

definition db_keys :: "instance_db \<Rightarrow> string option list" where
  "db_keys db = map fst db"

section \<open>The cache\<close>

record sync_session =
  ss_existing_keys :: "string option list"
  ss_new_keys :: "string option list"

record instance_cache =
  ic_db :: instance_db
  ic_session :: "sync_session option"
  ic_ready :: bool
  ic_job_metrics :: "(string option \<times> int) list"
  ic_job_group_metrics :: "(string option \<times> int) list"
  ic_queue_profile_metrics :: "(string option \<times> int) list"

record cache_env =
  ce_fmt :: "pyval \<Rightarrow> string"
  ce_cluster_name :: string
  ce_module_id :: string

definition new_instance_cache :: instance_cache where
  "new_instance_cache = \<lparr>ic_db = [], ic_session = None, ic_ready = False, ic_job_metrics = [],
     ic_job_group_metrics = [], ic_queue_profile_metrics = []\<rparr>"

definition list_instances :: "cache_env \<Rightarrow> instance_filter \<Rightarrow> instance_cache \<Rightarrow> pydict list" where
  "list_instances env f c = db_query (ce_fmt env) f (ic_db c)"

definition set_default :: "'a option \<Rightarrow> 'a \<Rightarrow> 'a option" where
  "set_default v d = Some (opt_or v d)"

definition list_compute_instances :: "cache_env \<Rightarrow> string option \<Rightarrow> instance_filter \<Rightarrow> instance_cache \<Rightarrow> pydict list" where
  "list_compute_instances env name f c =
     (let name' = (if is_empty_opt_str name then ce_cluster_name env else the name)
      in db_query (ce_fmt env)
           (f\<lparr>f_cluster_name := set_default (f_cluster_name f) name',
              f_node_type := set_default (f_node_type f) NODE_TYPE_COMPUTE,
              f_module_id := set_default (f_module_id f) (ce_module_id env)\<rparr>) (ic_db c))"

definition list_dcv_instances :: "cache_env \<Rightarrow> string \<Rightarrow> instance_filter \<Rightarrow> instance_cache \<Rightarrow> pydict list" where
  "list_dcv_instances env name f c =
     db_query (ce_fmt env)
       (f\<lparr>f_cluster_name := set_default (f_cluster_name f) name,
          f_node_type := set_default (f_node_type f) NODE_TYPE_DCV_HOST\<rparr>) (ic_db c)"

definition get_instance :: "string option \<Rightarrow> instance_cache \<Rightarrow> pydict option" where
  "get_instance i c = db_get i (ic_db c)"

definition get_job_instance_count :: "string \<Rightarrow> instance_cache \<Rightarrow> int" where
  "get_job_instance_count j c = opt_or (map_of (ic_job_metrics c) (Some j)) 0"

definition get_job_group_instance_count :: "string \<Rightarrow> instance_cache \<Rightarrow> int" where
  "get_job_group_instance_count g c = opt_or (map_of (ic_job_group_metrics c) (Some g)) 0"

definition get_queue_profile_instance_count :: "string \<Rightarrow> instance_cache \<Rightarrow> int" where
  "get_queue_profile_instance_count q c = opt_or (map_of (ic_queue_profile_metrics c) (Some q)) 0"

definition sync_begin :: "(instance_cache, unit) act" where
  "sync_begin = modify (\<lambda>c. c\<lparr>ic_session := Some \<lparr>ss_existing_keys = db_keys (ic_db c), ss_new_keys = []\<rparr>\<rparr>)"

definition sync :: "cache_env \<Rightarrow> pydict list \<Rightarrow> (instance_cache, unit) act" where
  "sync env instances =
     bindS (reads (\<lambda>c. required AttributeError (ic_session c))) (\<lambda>s.
       modify (\<lambda>c. c\<lparr>ic_session := Some (s\<lparr>ss_new_keys :=
            ss_new_keys s @ map (inst_instance_id (ce_fmt env)) instances\<rparr>),
          ic_db := db_add_many (ce_fmt env) instances (ic_db c)\<rparr>))"

text \<open>The counter is read under the literal key \<open>count\<close> and written under the group.\<close>

definition count_under :: "string option \<Rightarrow> (string option \<times> int) list \<Rightarrow> (string option \<times> int) list" where
  "count_under key metrics = assign_key key (opt_or (map_of metrics (Some ''count'')) 0 + 1) metrics"

definition count_by :: "(pydict \<Rightarrow> string option) \<Rightarrow> pydict list \<Rightarrow> (string option \<times> int) list" where
  "count_by key instances = fold (\<lambda>i metrics. count_under (key i) metrics) instances []"

definition sync_commit :: "cache_env \<Rightarrow> (instance_cache, unit) act" where
  "sync_commit env =
     bindS (reads (\<lambda>c. required AttributeError (ic_session c))) (\<lambda>s.
     thenS (modify (\<lambda>c. c\<lparr>ic_db := db_delete_many
        (filter (\<lambda>k. k \<notin> set (ss_new_keys s)) (ss_existing_keys s)) (ic_db c)\<rparr>))
    (thenS (modify (\<lambda>c. c\<lparr>ic_ready := True\<rparr>))
    (bindS (gets (list_compute_instances env None (no_filter\<lparr>f_states := Some [''pending'', ''running'']\<rparr>))) (\<lambda>is.
      modify (\<lambda>c. c\<lparr>ic_job_metrics := count_by (inst_soca_job_id (ce_fmt env)) is,
                    ic_job_group_metrics := count_by (inst_soca_job_group (ce_fmt env)) is,
                    ic_queue_profile_metrics := count_by (inst_soca_queue_type (ce_fmt env)) is\<rparr>)))))"

definition sync_abort :: "(instance_cache, unit) act" where
  "sync_abort = modify (\<lambda>c. c\<lparr>ic_session := None, ic_ready := False\<rparr>)"

section \<open>A round of synchronisation\<close>

text \<open>The monitor begins a session, hands over the pages of one listing, and commits.\<close>

definition sync_round :: "cache_env \<Rightarrow> pydict list list \<Rightarrow> (instance_cache, unit) act" where
  "sync_round env pages = thenS sync_begin (thenS (forS (sync env) pages) (sync_commit env))"

text \<open>The snapshot: of several entries with one id the last.\<close>

definition snapshot :: "(pyval \<Rightarrow> string) \<Rightarrow> pydict list list \<Rightarrow> string option \<Rightarrow> pydict option" where
  "snapshot fmt pages = map_of (rev (map (\<lambda>i. (inst_instance_id fmt i, i)) (concat pages)))"

lemma map_of_fold_assign: "map_of (fold (\<lambda>i items. assign_key (f i) i items) xs kvs) = map_of kvs ++ map_of (rev (map (\<lambda>i. (f i, i)) xs))"
  by (induction xs arbitrary: kvs) (auto simp: map_add_def fun_eq_iff split: option.splits)

lemma distinct_fold_assign: "distinct (map fst kvs) \<Longrightarrow> distinct (map fst (fold (\<lambda>i items. assign_key (f i) i items) xs kvs))"
  by (induction xs arbitrary: kvs) (auto simp: distinct_assign_key)

lemma map_of_fold_pairs: "map_of (fold (\<lambda>(k, i) db. assign_key k i db) items db) = map_of db ++ map_of (rev items)"
  by (induction items arbitrary: db) (auto simp: map_add_def fun_eq_iff split: option.splits)

lemma map_of_add_many:
  "map_of (db_add_many fmt is db) = map_of db ++ map_of (rev (map (\<lambda>i. (inst_instance_id fmt i, i)) is))"
  by (simp add: db_add_many_def Let_def map_of_fold_pairs map_of_rev_distinct distinct_fold_assign map_of_fold_assign)

lemma map_of_delete_many: "map_of (db_delete_many ids db) k = (if k \<in> set ids then None else map_of db k)"
  by (induction db) (auto simp: db_delete_many_def)

lemma sync_pages:
  assumes "ic_session c = Some s"
  shows "\<exists>c'. forS (sync env) pages c = (Inr (), c') \<and>
    ic_session c' = Some (s\<lparr>ss_new_keys := ss_new_keys s @ map (inst_instance_id (ce_fmt env)) (concat pages)\<rparr>) \<and>
    map_of (ic_db c') = map_of (ic_db c) ++ snapshot (ce_fmt env) pages"
  using assms
proof (induction pages arbitrary: c s)
  case Nil
  then show ?case by (simp add: snapshot_def)
next
  case (Cons page pages)
  let ?s = "s\<lparr>ss_new_keys := ss_new_keys s @ map (inst_instance_id (ce_fmt env)) page\<rparr>"
  let ?c = "c\<lparr>ic_session := Some ?s, ic_db := db_add_many (ce_fmt env) page (ic_db c)\<rparr>"
  have "sync env page c = (Inr (), ?c)"
    using Cons.prems by (simp add: sync_def act_simps)
  then have step: "forS (sync env) (page # pages) c = forS (sync env) pages ?c"
    by (simp add: thenS_eqI(1))
  have "ic_session ?c = Some ?s" by simp
  from Cons.IH [OF this] obtain c' where "forS (sync env) pages ?c = (Inr (), c')"
    "ic_session c' = Some (?s\<lparr>ss_new_keys := ss_new_keys ?s @ map (inst_instance_id (ce_fmt env)) (concat pages)\<rparr>)"
    "map_of (ic_db c') = map_of (ic_db ?c) ++ snapshot (ce_fmt env) pages" by blast
  with step show ?case
    by (simp add: map_of_add_many snapshot_def)
qed

text \<open>C9: A round of synchronisation returns, and after it the cache is the snapshot it was given: what was not listed
  is forgotten, what was listed is found with its last description.\<close>

lemma sync_round_is_snapshot:
  "\<exists>c'. sync_round env pages c = (Inr (), c') \<and> ic_ready c' \<and>
     (\<lambda>i. get_instance i c') = snapshot (ce_fmt env) pages"
proof -
  let ?c = "c\<lparr>ic_session := Some \<lparr>ss_existing_keys = db_keys (ic_db c), ss_new_keys = []\<rparr>\<rparr>"
  let ?ids = "map (inst_instance_id (ce_fmt env)) (concat pages)"
  obtain c1 where c1: "forS (sync env) pages ?c = (Inr (), c1)"
    "ic_session c1 = Some \<lparr>ss_existing_keys = db_keys (ic_db c), ss_new_keys = ?ids\<rparr>"
    "map_of (ic_db c1) = map_of (ic_db c) ++ snapshot (ce_fmt env) pages"
    using sync_pages [of ?c "\<lparr>ss_existing_keys = db_keys (ic_db c), ss_new_keys = []\<rparr>" env pages] by auto
  have "k \<in> set ?ids \<longleftrightarrow> snapshot (ce_fmt env) pages k \<noteq> None" for k
    by (auto simp: snapshot_def map_of_eq_None_iff image_iff)
  moreover have "k \<in> set (db_keys (ic_db c)) \<longleftrightarrow> map_of (ic_db c) k \<noteq> None" for k
    by (auto simp: db_keys_def map_of_eq_None_iff)
  ultimately have "map_of (db_delete_many (filter (\<lambda>k. k \<notin> set ?ids) (db_keys (ic_db c))) (ic_db c1)) =
      snapshot (ce_fmt env) pages"
    using c1(3) by (auto simp: map_of_delete_many fun_eq_iff map_add_def split: option.splits)
  with c1 show ?thesis
    by (simp add: sync_round_def sync_begin_def thenS_def sync_commit_def get_instance_def db_get_def act_simps)
qed

lemma count_by_ones:
  assumes "Some ''count'' \<notin> key ` set instances"
  shows "map_of (count_by key instances) k = (if k \<in> key ` set instances then Some 1 else None)"
proof -
  have "map_of (fold (\<lambda>i metrics. count_under (key i) metrics) instances m) k =
      (if k \<in> key ` set instances then Some 1 else map_of m k)"
    if "map_of m (Some ''count'') = None" "Some ''count'' \<notin> key ` set instances" for m
    using that by (induction instances arbitrary: m) (auto simp: count_under_def)
  with assms show ?thesis by (simp add: count_by_def)
qed

text \<open>The instance counts of the cache are not counts: as long as no job group is called \<open>count\<close>, a job group with
  any number of pending or running instances is reported with 1 instance.\<close>

lemma group_count_is_one:
  assumes "sync_commit env c = (Inr (), c')"
    and "Some ''count'' \<notin> inst_soca_job_group (ce_fmt env) `
           set (list_compute_instances env None (no_filter\<lparr>f_states := Some [''pending'', ''running'']\<rparr>) c')"
  shows "get_job_group_instance_count g c' =
    (if Some g \<in> inst_soca_job_group (ce_fmt env) `
          set (list_compute_instances env None (no_filter\<lparr>f_states := Some [''pending'', ''running'']\<rparr>) c') then 1 else 0)"
proof -
  let ?f = "no_filter\<lparr>f_states := Some [''pending'', ''running'']\<rparr>"
  have "ic_job_group_metrics c' = count_by (inst_soca_job_group (ce_fmt env)) (list_compute_instances env None ?f c')"
    using assms(1)
    by (cases "ic_session c") (auto simp: sync_commit_def act_simps list_compute_instances_def Let_def)
  with assms(2) show ?thesis
    by (simp add: get_job_group_instance_count_def count_by_ones)
qed

definition sample_tags :: "(string \<times> string) list" where
  "sample_tags = [(IDEA_TAG_CLUSTER_NAME, ''idea''), (IDEA_TAG_NODE_TYPE, NODE_TYPE_COMPUTE),
     (IDEA_TAG_MODULE_ID, ''scheduler''), (IDEA_TAG_JOB_GROUP, ''grp'')]"

definition sample_instance_dict :: "string \<Rightarrow> pydict" where
  "sample_instance_dict i = [(''InstanceId'', PStr i), (''State'', PDict [(''Name'', PStr ''running'')]),
     (''Tags'', PList (map (\<lambda>(k, v). tag_entry k v) sample_tags))]"

definition sample_cache_env :: cache_env where
  "sample_cache_env = \<lparr>ce_fmt = (\<lambda>_. []), ce_cluster_name = ''idea'', ce_module_id = ''scheduler''\<rparr>"

definition sample_synced :: instance_cache where
  "sample_synced = new_instance_cache
     \<lparr>ic_db := [(Some ''i-1'', sample_instance_dict ''i-1''), (Some ''i-2'', sample_instance_dict ''i-2'')],
      ic_session := Some \<lparr>ss_existing_keys = [], ss_new_keys = [Some ''i-1'', Some ''i-2'']\<rparr>\<rparr>"

lemma sample_tag: "get_tag fmt key (sample_instance_dict i) = map_of sample_tags key"
proof (rule get_tag_entries)
  show "words sample_tags" by code_simp
qed (simp add: sample_instance_dict_def)

lemma sample_state: "inst_state fmt (sample_instance_dict i) = Some ''running''"
proof -
  have "sub_dict ''State'' (sample_instance_dict i) = [(''Name'', PStr ''running'')]"
    by (simp add: sub_dict_def get_value_as_dict_def get_any_value_def value_exists_def sample_instance_dict_def)
  moreover have "word ''running''" by code_simp
  ultimately show ?thesis by (simp add: inst_state_def str_at_word)
qed

lemma sample_compute_instances:
  "list_compute_instances sample_cache_env None (no_filter\<lparr>f_states := Some [''pending'', ''running'']\<rparr>) sample_synced =
     [sample_instance_dict ''i-1'', sample_instance_dict ''i-2'']"
  by (simp add: list_compute_instances_def db_query_def apply_filters_def passes_filter_def tag_differs_def not_among_def
      no_filter_def set_default_def sample_cache_env_def sample_synced_def sample_state sample_tag is_empty_opt_str_def
      inst_soca_cluster_name_def inst_idea_module_id_def inst_soca_node_type_def sample_tags_def IDEA_TAG_CLUSTER_NAME_def
      IDEA_TAG_NODE_TYPE_def IDEA_TAG_MODULE_ID_def)

lemma group_count_is_one_witness:
  "get_job_group_instance_count ''grp'' (snd (sync_commit sample_cache_env sample_synced)) = 1 \<and>
   length (list_compute_instances sample_cache_env None (no_filter\<lparr>f_states := Some [''pending'', ''running'']\<rparr>)
     (snd (sync_commit sample_cache_env sample_synced))) = 2"
proof -
  let ?f = "no_filter\<lparr>f_states := Some [''pending'', ''running'']\<rparr>"
  let ?c = "snd (sync_commit sample_cache_env sample_synced)"
  have run: "sync_commit sample_cache_env sample_synced = (Inr (), ?c)" and db: "ic_db ?c = ic_db sample_synced"
    by (simp_all add: sync_commit_def act_simps sample_synced_def db_delete_many_def)
  have list: "list_compute_instances sample_cache_env None ?f ?c = [sample_instance_dict ''i-1'', sample_instance_dict ''i-2'']"
    using sample_compute_instances db by (simp add: list_compute_instances_def)
  have grp: "inst_soca_job_group (ce_fmt sample_cache_env) ` {sample_instance_dict ''i-1'', sample_instance_dict ''i-2''} = {Some ''grp''}"
    by (simp add: inst_soca_job_group_def sample_tag sample_tags_def IDEA_TAG_CLUSTER_NAME_def
        IDEA_TAG_NODE_TYPE_def IDEA_TAG_MODULE_ID_def IDEA_TAG_JOB_GROUP_def)
  from group_count_is_one [OF run, of "''grp''"] list grp show ?thesis by simp
qed

end
