(* ===== verification/Fleet_Data.thy ===== *)
theory Fleet_Data
  imports EC2_Data
begin

text \<open>
  The wrappers over the answers about the resources of a compute stack: \<open>EC2SpotFleetRequestConfig\<close>,
  \<open>AutoScalingGroup\<close>, \<open>CloudFormationStack\<close> and \<open>CloudFormationStackResources\<close> of \<open>ideadatamodel/aws\<close>, and the
  operations of \<open>ideasdk/aws/aws_util.py\<close> on them. What the AWS API answers is the argument; a request is an entry
  of the list of calls made.
\<close>

section \<open>Capacities\<close>

type_synonym weights = "(string option \<times> int option) list"

text \<open>The loop over the overrides of a launch template, shared by spot fleets and auto scaling groups.\<close>

fun override_weights :: "(pyval \<Rightarrow> string) \<Rightarrow> pyval list \<Rightarrow> weights \<Rightarrow> weights res" where
  "override_weights fmt [] weights = Inr weights"
| "override_weights fmt (v # vs) weights =
     bindE (int_at ''WeightedCapacity'' (entry_dict v)) (\<lambda>w.
       override_weights fmt vs (assign_key (str_at fmt ''InstanceType'' (entry_dict v)) w weights))"

definition weights_of_overrides :: "(pyval \<Rightarrow> string) \<Rightarrow> pyval list option \<Rightarrow> weights option res" where
  "weights_of_overrides fmt overrides =
     (case overrides of
        None \<Rightarrow> Inr None
      | Some [] \<Rightarrow> Inr None
      | Some (v # vs) \<Rightarrow>
          if map_of (entry_dict v) ''WeightedCapacity'' = None then Inr None
          else bindE (override_weights fmt (v # vs) []) (\<lambda>ws. Inr (Some ws)))"

definition int_or_zero :: "string \<Rightarrow> pydict \<Rightarrow> int res" where
  "int_or_zero key d = bindE (get_value_as_int key d (Some 0)) (\<lambda>v. Inr (opt_or v 0))"

section \<open>Spot fleets\<close>

definition fleet_activity_status :: "(pyval \<Rightarrow> string) \<Rightarrow> pydict \<Rightarrow> string option" where
  "fleet_activity_status fmt d = str_at fmt ''ActivityStatus'' d"

definition fleet_fulfilled_capacity :: "pydict \<Rightarrow> int res" where
  "fleet_fulfilled_capacity d = int_or_zero ''FulfilledCapacity'' (sub_dict ''SpotFleetRequestConfig'' d)"

definition fleet_target_capacity :: "pydict \<Rightarrow> int res" where
  "fleet_target_capacity d = int_or_zero ''TargetCapacity'' (sub_dict ''SpotFleetRequestConfig'' d)"

definition fleet_state :: "(pyval \<Rightarrow> string) \<Rightarrow> pydict \<Rightarrow> string option" where
  "fleet_state fmt d = str_at fmt ''SpotFleetRequestState'' d"

definition fleet_weighted_capacities :: "(pyval \<Rightarrow> string) \<Rightarrow> pydict \<Rightarrow> weights option res" where
  "fleet_weighted_capacities fmt d =
     (case list_at ''LaunchTemplateConfigs'' (sub_dict ''SpotFleetRequestConfig'' d) of
        None \<Rightarrow> Inr None
      | Some [] \<Rightarrow> Inr None
      | Some (c # _) \<Rightarrow> weights_of_overrides fmt (list_at ''Overrides'' (entry_dict c)))"

definition describe_spot_fleet :: "pydict \<Rightarrow> pydict option" where
  "describe_spot_fleet answer =
     (case list_at ''SpotFleetRequestConfigs'' answer of None \<Rightarrow> None | Some [] \<Rightarrow> None | Some (c # _) \<Rightarrow> Some (entry_dict c))"

section \<open>Auto scaling groups\<close>

definition asg_desired_capacity :: "pydict \<Rightarrow> int res" where
  "asg_desired_capacity d = int_or_zero ''DesiredCapacity'' d"

definition asg_weighted_capacities :: "(pyval \<Rightarrow> string) \<Rightarrow> pydict \<Rightarrow> weights option res" where
  "asg_weighted_capacities fmt d =
     (case dict_at ''MixedInstancesPolicy'' d of
        None \<Rightarrow> Inr None
      | Some policy \<Rightarrow>
          (case dict_at ''LaunchTemplate'' policy of
             None \<Rightarrow> Inr None
           | Some template \<Rightarrow> weights_of_overrides fmt (list_at ''Overrides'' template)))"

definition asg_instance_count :: "(pyval \<Rightarrow> string) \<Rightarrow> string \<Rightarrow> pydict \<Rightarrow> int" where
  "asg_instance_count fmt lifecycle d =
     (case list_at ''Instances'' d of
        None \<Rightarrow> 0
      | Some instances \<Rightarrow>
          int (List.length (filter (\<lambda>i. str_at fmt ''LifecycleState'' (entry_dict i) = Some lifecycle) instances)))"

definition describe_auto_scaling_group :: "pydict \<Rightarrow> pydict option" where
  "describe_auto_scaling_group answer =
     (case list_at ''AutoScalingGroups'' answer of None \<Rightarrow> None | Some [] \<Rightarrow> None | Some (g # _) \<Rightarrow> Some (entry_dict g))"

text \<open>The batches of \<open>autoscaling_detach_instances\<close>: slices of 20 while some remain.\<close>

definition max_detach_limit :: nat where
  "max_detach_limit = 20"

function detach_from :: "nat \<Rightarrow> int \<Rightarrow> 'a list \<Rightarrow> 'a list list" where
  "detach_from start remaining ids =
     (if remaining > 0
      then take max_detach_limit (drop start ids) #
           detach_from (start + max_detach_limit) (remaining - int max_detach_limit) ids
      else [])"
  by pat_completeness auto
termination
  by (relation "measure (\<lambda>(_, remaining, _). nat remaining)") (auto simp: max_detach_limit_def)

declare detach_from.simps [simp del]

definition detach_batches :: "'a list \<Rightarrow> 'a list list" where
  "detach_batches ids = detach_from 0 (int (List.length ids)) ids"

section \<open>CloudFormation stacks\<close>

definition stack_stack_id :: "(pyval \<Rightarrow> string) \<Rightarrow> pydict \<Rightarrow> string option" where
  "stack_stack_id fmt d = str_at fmt ''StackId'' d"

definition stack_stack_status :: "(pyval \<Rightarrow> string) \<Rightarrow> pydict \<Rightarrow> string option" where
  "stack_stack_status fmt d = str_at fmt ''StackStatus'' d"

definition stack_creation_time :: "(pyval \<Rightarrow> int res) \<Rightarrow> pydict \<Rightarrow> int option res" where
  "stack_creation_time arrow_get d =
     (case map_of d ''CreationTime'' of None \<Rightarrow> Inr None | Some v \<Rightarrow> bindE (arrow_get v) (\<lambda>t. Inr (Some t)))"

definition stack_get_tag :: "(pyval \<Rightarrow> string) \<Rightarrow> string \<Rightarrow> pydict \<Rightarrow> string option" where
  "stack_get_tag fmt key d = (case list_at ''Tags'' d of None \<Rightarrow> None | Some tags \<Rightarrow> find_tag fmt key tags)"

definition stack_soca_keep_forever :: "(pyval \<Rightarrow> string) \<Rightarrow> pydict \<Rightarrow> bool" where
  "stack_soca_keep_forever fmt d =
     opt_or (get_as_bool (tag_val (stack_get_tag fmt IDEA_TAG_KEEP_FOREVER d)) (Some False)) False"

definition stack_soca_terminate_when_idle :: "(pyval \<Rightarrow> string) \<Rightarrow> pydict \<Rightarrow> int res" where
  "stack_soca_terminate_when_idle fmt d =
     bindE (get_as_int (tag_val (stack_get_tag fmt IDEA_TAG_TERMINATE_WHEN_IDLE d)) (Some 0)) (\<lambda>i. Inr (opt_or i 0))"

definition stack_soca_job_group :: "(pyval \<Rightarrow> string) \<Rightarrow> pydict \<Rightarrow> string option" where
  "stack_soca_job_group fmt d = stack_get_tag fmt IDEA_TAG_JOB_GROUP d"

definition stack_soca_job_queue :: "(pyval \<Rightarrow> string) \<Rightarrow> pydict \<Rightarrow> string option" where
  "stack_soca_job_queue fmt d = stack_get_tag fmt IDEA_TAG_JOB_QUEUE d"

definition stack_soca_queue_type :: "(pyval \<Rightarrow> string) \<Rightarrow> pydict \<Rightarrow> string option" where
  "stack_soca_queue_type fmt d = stack_get_tag fmt IDEA_TAG_QUEUE_TYPE d"

definition stack_outputs :: "pydict \<Rightarrow> pyval list option" where
  "stack_outputs d = list_at ''Outputs'' d"

definition stack_get_output :: "(pyval \<Rightarrow> string) \<Rightarrow> string \<Rightarrow> pydict \<Rightarrow> pyval option" where
  "stack_get_output fmt key d =
     (case stack_outputs d of
        None \<Rightarrow> None
      | Some outputs \<Rightarrow> find (\<lambda>output. str_at fmt ''OutputKey'' (entry_dict output) = Some key) outputs)"

text \<open>The resource of a type, by the loop both operations share.\<close>

definition find_resource :: "(pyval \<Rightarrow> string) \<Rightarrow> string \<Rightarrow> pydict \<Rightarrow> string option" where
  "find_resource fmt type d =
     (case list_at ''StackResources'' d of
        None \<Rightarrow> None
      | Some resources \<Rightarrow>
          (case find (\<lambda>r. str_at fmt ''ResourceType'' (entry_dict r) = Some type) resources of
             None \<Rightarrow> None | Some r \<Rightarrow> str_at fmt ''PhysicalResourceId'' (entry_dict r)))"

definition get_spot_fleet_request_id :: "(pyval \<Rightarrow> string) \<Rightarrow> pydict \<Rightarrow> string option" where
  "get_spot_fleet_request_id fmt d = find_resource fmt ''AWS::EC2::SpotFleet'' d"

definition get_auto_scaling_group_name :: "(pyval \<Rightarrow> string) \<Rightarrow> pydict \<Rightarrow> string option" where
  "get_auto_scaling_group_name fmt d = find_resource fmt ''AWS::AutoScaling::AutoScalingGroup'' d"

section \<open>Reserved instances\<close>

text \<open>
  The loop over the reservations of an answer. A type that was asked for is added to an entry of \<open>response\<close> that may
  not exist yet, which raises KeyError.
\<close>

fun count_reservations ::
  "(pyval \<Rightarrow> string) \<Rightarrow> string list \<Rightarrow> pyval list \<Rightarrow> (string option \<times> int) list \<Rightarrow> (string option \<times> int) list res" where
  "count_reservations fmt instance_types [] response = Inr response"
| "count_reservations fmt instance_types (r # rs) response =
     (let t = str_at fmt ''InstanceType'' (entry_dict r) in
      bindE (int_or_zero ''InstanceCount'' (entry_dict r)) (\<lambda>n.
      if t \<in> Some ` set instance_types
      then case map_of response t of
             None \<Rightarrow> Inl KeyError
           | Some k \<Rightarrow> count_reservations fmt instance_types rs (assign_key t (k + n) response)
      else count_reservations fmt instance_types rs (assign_key t n response)))"

definition describe_reserved_instances ::
  "(pyval \<Rightarrow> string) \<Rightarrow> string list \<Rightarrow> pydict \<Rightarrow> (string option \<times> int) list res" where
  "describe_reserved_instances fmt instance_types answer =
     (case map_of answer ''ReservedInstances'' of
        Some (PList reservations) \<Rightarrow> count_reservations fmt instance_types reservations []
      | Some _ \<Rightarrow> Inl TypeError
      | None \<Rightarrow> Inr [])"

section \<open>Properties\<close>

lemma detach_from_spec:
  "detach_from start (int (List.length ids) - int start) ids =
     (if start < List.length ids
      then take max_detach_limit (drop start ids) #
           detach_from (start + max_detach_limit) (int (List.length ids) - int (start + max_detach_limit)) ids
      else [])"
  by (subst detach_from.simps) (simp add: algebra_simps)

lemma detach_from_covers:
  "concat (detach_from start (int (List.length ids) - int start) ids) = drop start ids"
proof (induction "List.length ids - start" arbitrary: start rule: less_induct)
  case less
  show ?case
  proof (cases "start < List.length ids")
    case True
    with less.hyps [of "start + max_detach_limit"]
    have "concat (detach_from (start + max_detach_limit) (int (List.length ids) - int (start + max_detach_limit)) ids)
        = drop (start + max_detach_limit) ids"
      by (simp add: max_detach_limit_def)
    with True show ?thesis
      by (subst detach_from_spec) (simp add: drop_drop [symmetric] add.commute del: drop_drop)
  qed (subst detach_from_spec, simp)
qed

lemma detach_from_bounded:
  "b \<in> set (detach_from start (int (List.length ids) - int start) ids) \<Longrightarrow> b \<noteq> [] \<and> List.length b \<le> 20"
proof (induction "List.length ids - start" arbitrary: start rule: less_induct)
  case less
  from less.prems have s: "start < List.length ids"
    by (subst (asm) detach_from_spec) (simp split: if_splits)
  then have decreases: "List.length ids - (start + max_detach_limit) < List.length ids - start"
    by (simp add: max_detach_limit_def)
  from less.prems s consider "b = take max_detach_limit (drop start ids)"
    | "b \<in> set (detach_from (start + max_detach_limit) (int (List.length ids) - int (start + max_detach_limit)) ids)"
    by (subst (asm) detach_from_spec) auto
  then show ?case
  proof cases
    case 1
    with s show ?thesis by (simp add: max_detach_limit_def)
  next
    case 2
    from less.hyps [OF decreases 2] show ?thesis .
  qed
qed

text \<open>Detaching instances makes requests of between 1 and 20 instances that together name every instance once, in
  order.\<close>

lemma detach_in_batches:
  "concat (detach_batches ids) = ids \<and> list_all (\<lambda>b. b \<noteq> [] \<and> List.length b \<le> 20) (detach_batches ids)"
  using detach_from_covers [of 0 ids] detach_from_bounded [of _ 0 ids]
  by (auto simp: detach_batches_def list_all_iff)

text \<open>As soon as the account has a reservation of a requested instance type, counting the reserved instances raises
  KeyError.\<close>

lemma reserved_instances_raise:
  assumes "map_of answer ''ReservedInstances'' = Some (PList (PDict r # rs))"
    and "get_value_as_string fmt ''InstanceType'' r None = Some t" "t \<in> set instance_types"
    and "get_value_as_int ''InstanceCount'' r (Some 0) = Inr n"
  shows "describe_reserved_instances fmt instance_types answer = Inl KeyError"
  using assms by (simp add: describe_reserved_instances_def str_at_def int_or_zero_def)

lemma reserved_instances_raise_witness:
  "describe_reserved_instances (\<lambda>_. []) [''c5.large'']
     [(''ReservedInstances'', PList [PDict [(''InstanceType'', PStr ''c5.large''), (''InstanceCount'', PInt 3)]])]
   = Inl KeyError"
proof (rule reserved_instances_raise)
  show "get_value_as_string (\<lambda>_. []) ''InstanceType'' [(''InstanceType'', PStr ''c5.large''), (''InstanceCount'', PInt 3)] None
      = Some ''c5.large''" by code_simp
qed simp_all

end
