(* ===== verification/Node_Housekeeping.thy ===== *)
theory Node_Housekeeping
  imports Node_Model Provisioning_Checks Fleet_Data
begin

text \<open>
  The housekeeping of compute nodes: \<open>NodeHouseKeepingSession\<close> and \<open>NodeHouseKeeper\<close> of
  \<open>ideascheduler/app/provisioning/node_monitor/node_house_keeper.py\<close>. What the session is told is \<open>hk_env\<close>; every
  call it makes to the outside is an effect, appended to the session when the call succeeds; \<open>hk_fails\<close> says which
  calls raise. The clock stands still during a session; times are in microseconds. A Python set is the list of its
  elements in order of insertion. Log messages are left out.
\<close>

section \<open>The world of a session\<close>

datatype hk_effect =
    Metric string "string option" int
  | SetOffline "string option"
  | DeleteNode "string option"
  | Terminate "string option" bool
  | DeleteComputer string "string option"
  | ModifySpotFleet string int
  | DetachInstances string "string option list"
  | UpdateAutoScalingGroup string int
  | DeleteStack "string option"
  | ResetJob "string option"
  | JobModified "string option"
  | PutJob "string option"
  | AddNodes

record hk_env =
  hk_now :: int
  hk_fails :: "hk_effect \<Rightarrow> exc option"
  hk_cluster_name :: "string option"
  hk_fmt :: "pyval \<Rightarrow> string"
  hk_list_nodes :: "compute_node list res"
  hk_instance :: "string option \<Rightarrow> ec2_instance option"
  hk_job :: "string option \<Rightarrow> soca_job option"
  hk_pending_jobs :: "string option \<Rightarrow> int res"
  hk_desired_capacity :: "string option \<Rightarrow> int"
  hk_spot_fleets :: "string \<Rightarrow> pydict res"
  hk_asgs :: "string \<Rightarrow> pydict res"
  hk_get_node :: "string option \<Rightarrow> compute_node option res"
  hk_directory_provider :: "string option"
  hk_ad_queue_url :: "string option"
  hk_aws_region :: "string res"
  hk_aws_account :: "string res"
  hk_required_cluster_name :: "string res"
  hk_hostname_prefix :: string
  hk_shake_256 :: "string \<Rightarrow> nat \<Rightarrow> string"
  hk_queued_jobs :: "soca_job option res list res"
  hk_stack_timeout_secs :: "int option"
  hk_scheduler_job :: "string option \<Rightarrow> soca_job option res"
  hk_has_provisioning_queue :: "string option \<Rightarrow> bool res"
  hk_digest :: "string \<Rightarrow> string"
  hk_stack :: "string \<Rightarrow> prov_env"
  hk_default_vcpus :: "string option \<Rightarrow> int option res"
  hk_duration_ms :: int

type_synonym capacity_tuple = "int \<times> int"

record hk_session =
  hs_job_groups :: "(string option \<times> ec2_instance list) list"
  hs_spot_fleet_instances :: "(string \<times> ec2_instance list) list"
  hs_asg_instances :: "(string \<times> ec2_instance list) list"
  hs_spot_fleet_present :: "(string \<times> int) list"
  hs_asg_present :: "(string \<times> int) list"
  hs_spot_fleet_desired :: "(string \<times> capacity_tuple) list"
  hs_asg_desired :: "(string \<times> capacity_tuple) list"
  hs_nodes_to_delete :: "compute_node list"
  hs_instances_to_terminate :: "ec2_instance list"
  hs_stacks_to_delete :: "string option list"
  hs_spot_fleet_update :: "(string \<times> capacity_tuple) list"
  hs_asg_update :: "(string \<times> capacity_tuple) list"
  hs_asg_detach :: "(string \<times> string option list) list"
  hs_stack_info :: "(string option \<times> string option) list"
  hs_spot_fleet_info :: "(string \<times> string option) list"
  hs_asg_info :: "(string \<times> string option) list"
  hs_effects :: "hk_effect list"

definition new_hk_session :: hk_session where
  "new_hk_session = \<lparr>hs_job_groups = [], hs_spot_fleet_instances = [], hs_asg_instances = [],
     hs_spot_fleet_present = [], hs_asg_present = [], hs_spot_fleet_desired = [], hs_asg_desired = [],
     hs_nodes_to_delete = [], hs_instances_to_terminate = [], hs_stacks_to_delete = [], hs_spot_fleet_update = [],
     hs_asg_update = [], hs_asg_detach = [], hs_stack_info = [], hs_spot_fleet_info = [], hs_asg_info = [],
     hs_effects = []\<rparr>"

definition call :: "hk_env \<Rightarrow> hk_effect \<Rightarrow> (hk_session, unit) act" where
  "call env e =
     thenS (reads (\<lambda>_. case hk_fails env e of None \<Rightarrow> Inr () | Some x \<Rightarrow> Inl x))
           (modify (\<lambda>s. s\<lparr>hs_effects := hs_effects s @ [e]\<rparr>))"

section \<open>Capacities\<close>

definition weight_of :: "weights \<Rightarrow> ec2_instance \<Rightarrow> int res" where
  "weight_of ws i = bindE (required KeyError (map_of ws (i_instance_type i))) (required TypeError)"

definition weighted_sum :: "weights \<Rightarrow> ec2_instance list \<Rightarrow> int res" where
  "weighted_sum ws instances = foldE (\<lambda>i a. bindE (weight_of ws i) (\<lambda>w. Inr (a + w))) instances 0"

definition hk_desired :: "int \<Rightarrow> weights option \<Rightarrow> ec2_instance list \<Rightarrow> int res" where
  "hk_desired current ws instances =
     (case ws of
        None \<Rightarrow> Inr (max 0 (current - int (List.length instances)))
      | Some ws \<Rightarrow> bindE (weighted_sum ws instances) (\<lambda>w. Inr (max 0 (current - w))))"

definition hk_present :: "weights option \<Rightarrow> ec2_instance list \<Rightarrow> int res" where
  "hk_present ws instances =
     (case ws of None \<Rightarrow> Inr (int (List.length instances)) | Some ws \<Rightarrow> weighted_sum ws instances)"

text \<open>The capacities of a spot fleet: current and desired, or None when the request is unknown.\<close>

definition spot_fleet_desired :: "hk_env \<Rightarrow> string \<Rightarrow> ec2_instance list \<Rightarrow> capacity_tuple option res" where
  "spot_fleet_desired env fleet instances =
     bindE (hk_spot_fleets env fleet) (\<lambda>answer.
       case describe_spot_fleet answer of
         None \<Rightarrow> Inr None
       | Some r \<Rightarrow>
           bindE (fleet_fulfilled_capacity r) (\<lambda>fulfilled. bindE (fleet_target_capacity r) (\<lambda>target.
           bindE (fleet_weighted_capacities (hk_fmt env) r) (\<lambda>ws.
             let current = min fulfilled target
             in bindE (hk_desired current ws instances) (\<lambda>d. Inr (Some (current, d)))))))"

definition spot_fleet_present :: "hk_env \<Rightarrow> string \<Rightarrow> ec2_instance list \<Rightarrow> int option res" where
  "spot_fleet_present env fleet instances =
     bindE (hk_spot_fleets env fleet) (\<lambda>answer.
       case describe_spot_fleet answer of
         None \<Rightarrow> Inr None
       | Some r \<Rightarrow>
           bindE (fleet_fulfilled_capacity r) (\<lambda>_. bindE (fleet_target_capacity r) (\<lambda>_.
           bindE (fleet_weighted_capacities (hk_fmt env) r) (\<lambda>ws.
             bindE (hk_present ws instances) (\<lambda>p. Inr (Some p))))))"

definition asg_desired :: "hk_env \<Rightarrow> string \<Rightarrow> ec2_instance list \<Rightarrow> capacity_tuple option res" where
  "asg_desired env grp instances =
     bindE (hk_asgs env grp) (\<lambda>answer.
       case describe_auto_scaling_group answer of
         None \<Rightarrow> Inr None
       | Some r \<Rightarrow>
           bindE (asg_desired_capacity r) (\<lambda>current. bindE (asg_weighted_capacities (hk_fmt env) r) (\<lambda>ws.
             bindE (hk_desired current ws instances) (\<lambda>d. Inr (Some (current, d))))))"

definition asg_present :: "hk_env \<Rightarrow> string \<Rightarrow> ec2_instance list \<Rightarrow> int option res" where
  "asg_present env grp instances =
     bindE (hk_asgs env grp) (\<lambda>answer.
       case describe_auto_scaling_group answer of
         None \<Rightarrow> Inr None
       | Some r \<Rightarrow>
           bindE (asg_desired_capacity r) (\<lambda>_. bindE (asg_weighted_capacities (hk_fmt env) r) (\<lambda>ws.
             bindE (hk_present ws instances) (\<lambda>p. Inr (Some p)))))"

definition assign_some :: "'k \<Rightarrow> 'v option \<Rightarrow> ('k \<times> 'v) list \<Rightarrow> ('k \<times> 'v) list" where
  "assign_some k v kvs = (case v of None \<Rightarrow> kvs | Some x \<Rightarrow> assign_key k x kvs)"

definition append_under :: "'k \<Rightarrow> 'v \<Rightarrow> ('k \<times> 'v list) list \<Rightarrow> ('k \<times> 'v list) list" where
  "append_under k v kvs = assign_key k (opt_or (map_of kvs k) [] @ [v]) kvs"

section \<open>Pass 1: candidates\<close>

definition add_to_job_group :: "ec2_instance \<Rightarrow> (hk_session, unit) act" where
  "add_to_job_group i = modify (\<lambda>s. s\<lparr>hs_job_groups := append_under (i_soca_job_group i) i (hs_job_groups s)\<rparr>)"

definition last_used :: "compute_node \<Rightarrow> int option" where
  "last_used node =
     (case n_last_used_time node of
        Some t \<Rightarrow> Some t
      | None \<Rightarrow> if has_state node [NS_FREE] then n_last_state_changed_time node else None)"

definition can_terminate :: "hk_env \<Rightarrow> ec2_instance \<Rightarrow> compute_node \<Rightarrow> bool res" where
  "can_terminate env i node =
     (if \<not> i_is_valid_idea_compute_node i then Inr False
      else if is_soca_ephemeral_capacity i \<and>
              (case hk_job env (i_soca_job_id i) of
                 None \<Rightarrow> False | Some j \<Rightarrow> state j \<in> {Some JS_QUEUED, Some JS_RUNNING, Some JS_HELD}) then Inr False
      else if i_soca_keep_forever i \<and> i_soca_terminate_when_idle i = 0 then Inr False
      else if i_soca_terminate_when_idle i > 0
      then (case last_used node of
              None \<Rightarrow> Inr False
            | Some t \<Rightarrow>
                if t + i_soca_terminate_when_idle i * 60 * 1000000 > hk_now env then Inr False
                else bindE (hk_pending_jobs env (n_job_group node)) (\<lambda>pending. Inr (\<not> pending > 0)))
      else Inr True)"

definition add_candidate_for_deletion :: "ec2_instance \<Rightarrow> (hk_session, unit) act" where
  "add_candidate_for_deletion i =
     (if i_soca_capacity_type i = Some SPOT
      then if is_empty_opt_str (i_aws_ec2spot_fleet_request_id i) then ret ()
           else modify (\<lambda>s. s\<lparr>hs_spot_fleet_instances :=
                  append_under (the (i_aws_ec2spot_fleet_request_id i)) i (hs_spot_fleet_instances s)\<rparr>)
      else if is_empty_opt_str (i_aws_autoscaling_group_name i) then ret ()
           else modify (\<lambda>s. s\<lparr>hs_asg_instances :=
                  append_under (the (i_aws_autoscaling_group_name i)) i (hs_asg_instances s)\<rparr>))"

definition publish_node_metrics :: "hk_env \<Rightarrow> compute_node \<Rightarrow> (hk_session, unit) act" where
  "publish_node_metrics env node =
     call env (Metric
       (if has_state node [NS_BUSY, NS_JOB_BUSY] then ''nodes_busy''
        else if has_state node [NS_FREE] then ''nodes_idle''
        else if has_state node [NS_OFFLINE] then ''nodes_offline''
        else ''nodes_down'') (n_queue_type node) 1)"

definition publish_instance_metrics :: "hk_env \<Rightarrow> ec2_instance \<Rightarrow> (hk_session, unit) act" where
  "publish_instance_metrics env i =
     (if i_state i \<in> {Some ''running'', Some ''pending''}
      then call env (Metric ''instances_running'' (i_soca_queue_type i) 1) else ret ())"

text \<open>Nodes are one element of a set when they have one host.\<close>

definition add_node_to_delete :: "compute_node \<Rightarrow> (hk_session, unit) act" where
  "add_node_to_delete node = modify (\<lambda>s. s\<lparr>hs_nodes_to_delete :=
     (if n_host node \<in> n_host ` set (hs_nodes_to_delete s) then hs_nodes_to_delete s
      else hs_nodes_to_delete s @ [node])\<rparr>)"

definition visit_node :: "hk_env \<Rightarrow> compute_node \<Rightarrow> (hk_session, unit) act" where
  "visit_node env node =
     (if \<not> node_is_provisioned node then ret ()
      else if \<not> is_valid_idea_compute_node node then ret ()
      else if \<not> is_current_cluster (hk_cluster_name env) node then ret ()
      else thenS (publish_node_metrics env node)
        (if has_state node [NS_BUSY, NS_JOB_BUSY] then ret ()
         else if \<not> is_empty_opt_list (n_jobs node) then ret ()
         else case hk_instance env (n_instance_id node) of
           None \<Rightarrow> add_node_to_delete node
         | Some i \<Rightarrow>
             if i_state i \<in> {Some ''stopping'', Some ''stopped'', Some ''shutting-down'', Some ''terminated''}
             then add_node_to_delete node
             else thenS (publish_instance_metrics env i)
                 (thenS (add_to_job_group i)
                 (bindS (reads (\<lambda>_. can_terminate env i node)) (\<lambda>ok.
                   if ok then add_candidate_for_deletion i else ret ())))))"

definition pass1 :: "hk_env \<Rightarrow> (hk_session, unit) act" where
  "pass1 env = bindS (reads (\<lambda>_. hk_list_nodes env)) (forS (visit_node env))"

section \<open>Passes 2, 3 and 5: capacities\<close>

definition pass2 :: "hk_env \<Rightarrow> (hk_session, unit) act" where
  "pass2 env =
     thenS (bindS (gets hs_spot_fleet_instances) (forS (\<lambda>(fleet, instances).
              bindS (reads (\<lambda>_. spot_fleet_present env fleet instances)) (\<lambda>p.
                modify (\<lambda>s. s\<lparr>hs_spot_fleet_present := assign_some fleet p (hs_spot_fleet_present s)\<rparr>)))))
           (bindS (gets hs_asg_instances) (forS (\<lambda>(grp, instances).
              bindS (reads (\<lambda>_. asg_present env grp instances)) (\<lambda>p.
                modify (\<lambda>s. s\<lparr>hs_asg_present := assign_some grp p (hs_asg_present s)\<rparr>)))))"

text \<open>The turn of pass 3 for one job group; the session never runs this pass.\<close>

definition filter_group :: "hk_env \<Rightarrow> ec2_instance list \<Rightarrow> (hk_session, unit) act" where
  "filter_group env instances =
     bindS (reads (\<lambda>_. case instances of [] \<Rightarrow> Inl IndexError | i # _ \<Rightarrow> Inr i)) (\<lambda>i.
       if is_soca_ephemeral_capacity i then ret ()
       else let needed = hk_desired_capacity env (i_soca_job_group i) in
            if i_soca_capacity_type i = Some SPOT
            then bindS (gets (\<lambda>s. Option.bind (i_aws_ec2spot_fleet_request_id i) (map_of (hs_spot_fleet_present s)))) (\<lambda>present.
                   case present of
                     None \<Rightarrow> ret ()
                   | Some p \<Rightarrow>
                       if p < needed
                       then let fleet = the (i_aws_ec2spot_fleet_request_id i) in
                            thenS (reads (\<lambda>s. bindE (required KeyError (map_of (hs_spot_fleet_instances s) fleet)) (\<lambda>_. Inr ())))
                              (modify (\<lambda>s. s\<lparr>hs_spot_fleet_instances := del_key fleet (hs_spot_fleet_instances s)\<rparr>))
                       else ret ())
            else bindS (gets (\<lambda>s. Option.bind (i_aws_autoscaling_group_name i) (map_of (hs_asg_present s)))) (\<lambda>present.
                   case present of
                     None \<Rightarrow> ret ()
                   | Some p \<Rightarrow>
                       if p < needed
                       then let grp = the (i_aws_autoscaling_group_name i) in
                            thenS (reads (\<lambda>s. bindE (required KeyError (map_of (hs_asg_instances s) grp)) (\<lambda>_. Inr ())))
                              (modify (\<lambda>s. s\<lparr>hs_asg_instances := del_key grp (hs_asg_instances s)\<rparr>))
                       else ret ()))"

definition pass3 :: "hk_env \<Rightarrow> (hk_session, unit) act" where
  "pass3 env = bindS (gets hs_job_groups) (forS (\<lambda>(_, instances). filter_group env instances))"

definition pass5 :: "hk_env \<Rightarrow> (hk_session, unit) act" where
  "pass5 env =
     thenS (bindS (gets hs_spot_fleet_instances) (forS (\<lambda>(fleet, instances).
              bindS (reads (\<lambda>_. spot_fleet_desired env fleet instances)) (\<lambda>d.
                modify (\<lambda>s. s\<lparr>hs_spot_fleet_desired := assign_some fleet d (hs_spot_fleet_desired s)\<rparr>)))))
           (bindS (gets hs_asg_instances) (forS (\<lambda>(grp, instances).
              bindS (reads (\<lambda>_. asg_desired env grp instances)) (\<lambda>d.
                modify (\<lambda>s. s\<lparr>hs_asg_desired := assign_some grp d (hs_asg_desired s)\<rparr>)))))"

section \<open>Pass 4: offline\<close>

definition add_instance :: "ec2_instance \<Rightarrow> ec2_instance list \<Rightarrow> ec2_instance list" where
  "add_instance i is = (if i_instance_id i \<in> i_instance_id ` set is then is else is @ [i])"

definition still_idle :: "hk_env \<Rightarrow> ec2_instance \<Rightarrow> bool res" where
  "still_idle env i =
     bindE (hk_get_node env (i_private_dns_name i)) (\<lambda>node.
       case node of None \<Rightarrow> Inr False
       | Some n \<Rightarrow> Inr (\<not> has_state n [NS_BUSY, NS_JOB_BUSY]))"

definition collect_idle :: "hk_env \<Rightarrow> ec2_instance list \<Rightarrow> ec2_instance list \<Rightarrow> ec2_instance list res" where
  "collect_idle env = foldE (\<lambda>i acc. bindE (still_idle env i) (\<lambda>b. Inr (if b then add_instance i acc else acc)))"

definition meet :: "ec2_instance list \<Rightarrow> ec2_instance list \<Rightarrow> ec2_instance list" where
  "meet instances offline =
     filter (\<lambda>i. i_instance_id i \<in> i_instance_id ` set offline) (fold add_instance instances [])"

definition keep_offline :: "ec2_instance list \<Rightarrow> (string \<times> ec2_instance list) list \<Rightarrow> (string \<times> ec2_instance list) list" where
  "keep_offline offline groups =
     filter (\<lambda>(_, is). is \<noteq> []) (map (\<lambda>(g, is). (g, meet is offline)) groups)"

definition pass4 :: "hk_env \<Rightarrow> (hk_session, unit) act" where
  "pass4 env =
     bindS (reads (\<lambda>s. bindE (collect_idle env (concat (map snd (hs_spot_fleet_instances s))) [])
                              (collect_idle env (concat (map snd (hs_asg_instances s)))))) (\<lambda>offline.
     thenS (forS (\<lambda>i. call env (SetOffline (i_private_dns_name i))) offline)
           (modify (\<lambda>s. s\<lparr>hs_spot_fleet_instances := keep_offline offline (hs_spot_fleet_instances s),
                          hs_asg_instances := keep_offline offline (hs_asg_instances s)\<rparr>)))"

section \<open>Pass 6: resources to delete\<close>

definition mark_stack :: "ec2_instance \<Rightarrow> (hk_session, unit) act" where
  "mark_stack i = modify (\<lambda>s. s
     \<lparr>hs_stack_info := assign_key (i_soca_compute_stack i) (i_soca_queue_type i) (hs_stack_info s),
      hs_stacks_to_delete :=
        (if i_soca_compute_stack i \<in> set (hs_stacks_to_delete s) then hs_stacks_to_delete s
         else hs_stacks_to_delete s @ [i_soca_compute_stack i])\<rparr>)"

definition add_all_to_terminate :: "ec2_instance list \<Rightarrow> (hk_session, unit) act" where
  "add_all_to_terminate instances =
     modify (\<lambda>s. s\<lparr>hs_instances_to_terminate := fold add_instance instances (hs_instances_to_terminate s)\<rparr>)"

definition first_instance :: "ec2_instance list \<Rightarrow> ec2_instance res" where
  "first_instance instances = (case instances of [] \<Rightarrow> Inl IndexError | i # _ \<Rightarrow> Inr i)"

definition finalize_spot_fleet :: "string \<times> capacity_tuple \<Rightarrow> (hk_session, unit) act" where
  "finalize_spot_fleet = (\<lambda>(fleet, current, desired).
     bindS (reads (\<lambda>s. required KeyError (map_of (hs_spot_fleet_instances s) fleet))) (\<lambda>instances.
     thenS (add_all_to_terminate instances)
    (bindS (reads (\<lambda>_. first_instance instances)) (\<lambda>i.
       if desired = 0 then mark_stack i
       else modify (\<lambda>s. s
         \<lparr>hs_spot_fleet_info := assign_key fleet (i_soca_queue_type i) (hs_spot_fleet_info s),
          hs_spot_fleet_update := assign_key fleet (current, desired) (hs_spot_fleet_update s)\<rparr>)))))"

definition finalize_asg :: "string \<times> capacity_tuple \<Rightarrow> (hk_session, unit) act" where
  "finalize_asg = (\<lambda>(grp, current, desired).
     bindS (reads (\<lambda>s. required KeyError (map_of (hs_asg_instances s) grp))) (\<lambda>instances.
     thenS (add_all_to_terminate instances)
    (bindS (reads (\<lambda>_. first_instance instances)) (\<lambda>i.
       if desired = 0 then mark_stack i
       else modify (\<lambda>s. s
         \<lparr>hs_asg_info := assign_key grp (i_soca_queue_type i) (hs_asg_info s),
          hs_asg_update := assign_key grp (current, desired) (hs_asg_update s),
          hs_asg_detach := assign_key grp (map i_instance_id instances) (hs_asg_detach s)\<rparr>)))))"

definition pass6 :: "(hk_session, unit) act" where
  "pass6 =
     thenS (bindS (gets hs_spot_fleet_desired) (forS finalize_spot_fleet))
           (bindS (gets hs_asg_desired) (forS finalize_asg))"

section \<open>Clean-up\<close>

definition delete_nodes :: "hk_env \<Rightarrow> compute_node list \<Rightarrow> (hk_session, string option list) act" where
  "delete_nodes env nodes =
     bindS (filterS (\<lambda>n.
        catchS (thenS (call env (DeleteNode (n_host n)))
               (thenS (call env (Metric ''nodes_deleted'' (n_queue_type n) 1)) (ret False)))
          (\<lambda>e. case e of SocaException _ \<Rightarrow> ret True | _ \<Rightarrow> throw e)) nodes) (\<lambda>failed.
      ret (map n_instance_id failed))"

definition force_terminate :: "hk_env \<Rightarrow> ec2_instance \<Rightarrow> bool" where
  "force_terminate env i =
     (i_state i \<in> {Some ''shutting-down'', Some ''stopping''} \<and>
      (case i_launch_time i of None \<Rightarrow> False | Some t \<Rightarrow> timedelta_seconds (hk_now env - t) > 300))"

text \<open>The duration is taken from now to the launch.\<close>

definition running_duration :: "hk_env \<Rightarrow> ec2_instance \<Rightarrow> int res" where
  "running_duration env i =
     bindE (required TypeError (i_launch_time i)) (\<lambda>t. Inr (timedelta_seconds (t - hk_now env)))"

definition upper_char :: "char \<Rightarrow> char" where
  "upper_char c = (let n = of_char c :: nat in if 97 \<le> n \<and> n \<le> 122 then char_of (n - 32) else c)"

definition upper :: "string \<Rightarrow> string" where
  "upper s = map upper_char s"

definition last_chars :: "nat \<Rightarrow> string \<Rightarrow> string" where
  "last_chars n s = drop (List.length s - n) s"

definition generated_hostname :: "hk_env \<Rightarrow> ec2_instance \<Rightarrow> string res" where
  "generated_hostname env i =
     bindE (hk_aws_region env) (\<lambda>region. bindE (hk_aws_account env) (\<lambda>account.
     bindE (hk_required_cluster_name env) (\<lambda>cluster.
       let prefix = hk_hostname_prefix env;
           data = region @ ''|'' @ account @ ''|'' @ cluster @ ''|'' @ pystr (i_instance_id i);
           (prefix', avail) = (if int 15 - int (List.length prefix) < 4 then (''IDEA-'', 10)
                               else (prefix, 15 - List.length prefix))
       in Inr (upper (prefix' @ last_chars avail (hk_shake_256 env data 256))))))"

definition computer_name :: "hk_env \<Rightarrow> ec2_instance \<Rightarrow> string option" where
  "computer_name env i =
     (case i_private_dns_name i of
        Some (c # cs) \<Rightarrow>
          (let name = hd (split_char (CHR ''.'') (c # cs)) in
           if name \<noteq> [] then Some name
           else case generated_hostname env i of Inl _ \<Rightarrow> None | Inr n \<Rightarrow> if n = [] then None else Some n)
      | _ \<Rightarrow> (case generated_hostname env i of Inl _ \<Rightarrow> None | Inr n \<Rightarrow> if n = [] then None else Some n))"

definition delete_computer :: "hk_env \<Rightarrow> ec2_instance \<Rightarrow> (hk_session, unit) act" where
  "delete_computer env i =
     (if hk_directory_provider env \<notin> {Some ''aws_managed_activedirectory'', Some ''activedirectory''} then ret ()
      else if hk_ad_queue_url env = None \<or> hk_ad_queue_url env = Some [] then ret ()
      else case computer_name env i of
             None \<Rightarrow> ret ()
           | Some name \<Rightarrow> call env (DeleteComputer name (i_instance_id i)))"

definition terminate_instance :: "hk_env \<Rightarrow> string option list \<Rightarrow> ec2_instance \<Rightarrow> (hk_session, unit) act" where
  "terminate_instance env failed i =
     (if i_instance_id i \<in> set failed then ret ()
      else thenS (call env (Terminate (i_instance_id i) (force_terminate env i)))
          (thenS (call env (Metric ''instances_terminated'' (i_soca_queue_type i) 1))
          (bindS (reads (\<lambda>_. running_duration env i)) (\<lambda>d.
           thenS (call env (Metric ''instances_running_duration'' (i_soca_queue_type i) d))
                 (catchS (delete_computer env i) (\<lambda>_. ret ()))))))"

definition terminate_instances :: "hk_env \<Rightarrow> string option list \<Rightarrow> (hk_session, unit) act" where
  "terminate_instances env failed = bindS (gets hs_instances_to_terminate) (forS (terminate_instance env failed))"

definition update_spot_fleet :: "hk_env \<Rightarrow> string \<times> capacity_tuple \<Rightarrow> (hk_session, unit) act" where
  "update_spot_fleet env = (\<lambda>(fleet, current, target).
     bindS (reads (\<lambda>s. required KeyError (map_of (hs_spot_fleet_info s) fleet))) (\<lambda>q.
     thenS (call env (ModifySpotFleet fleet target))
           (call env (Metric ''spotfleet_capacity_decreased'' q (current - target)))))"

definition detach_instances :: "hk_env \<Rightarrow> string \<times> string option list \<Rightarrow> (hk_session, unit) act" where
  "detach_instances env = (\<lambda>(grp, ids).
     bindS (reads (\<lambda>s. required KeyError (map_of (hs_asg_info s) grp))) (\<lambda>_.
       forS (\<lambda>batch. call env (DetachInstances grp batch)) (detach_batches ids)))"

definition update_asg :: "hk_env \<Rightarrow> string \<times> capacity_tuple \<Rightarrow> (hk_session, unit) act" where
  "update_asg env = (\<lambda>(grp, current, desired).
     bindS (reads (\<lambda>s. required KeyError (map_of (hs_asg_info s) grp))) (\<lambda>q.
     thenS (call env (UpdateAutoScalingGroup grp desired))
           (call env (Metric ''asg_capacity_decreased'' q (current - desired)))))"

definition delete_stack :: "hk_env \<Rightarrow> string option \<Rightarrow> (hk_session, unit) act" where
  "delete_stack env stack =
     bindS (reads (\<lambda>s. required KeyError (map_of (hs_stack_info s) stack))) (\<lambda>q.
     thenS (call env (DeleteStack stack)) (call env (Metric ''stacks_deleted'' q 1)))"

definition cleanup :: "hk_env \<Rightarrow> (hk_session, unit) act" where
  "cleanup env =
     bindS (bindS (gets hs_nodes_to_delete) (delete_nodes env)) (\<lambda>failed.
     thenS (terminate_instances env failed)
    (thenS (bindS (gets hs_spot_fleet_update) (forS (update_spot_fleet env)))
    (thenS (bindS (gets hs_asg_detach) (forS (detach_instances env)))
    (thenS (bindS (gets hs_asg_update) (forS (update_asg env)))
           (bindS (gets hs_stacks_to_delete) (forS (delete_stack env)))))))"

section \<open>Retrying the provisioning\<close>

type_synonym stack_statuses = "(string \<times> ProvisioningStatus option) list"

text \<open>The status of a stack is asked for once per session.\<close>

definition stack_status :: "hk_env \<Rightarrow> string \<Rightarrow> stack_statuses \<Rightarrow> (ProvisioningStatus option \<times> stack_statuses) res" where
  "stack_status env stack known =
     (case map_of known stack of
        Some st \<Rightarrow> Inr (st, known)
      | None \<Rightarrow> bindE (check_status (hk_stack env stack)) (\<lambda>st. Inr (st, assign_key stack st known)))"

definition swallow :: "(hk_session, unit) act \<Rightarrow> (hk_session, unit) act" where
  "swallow m = catchS m (\<lambda>_. ret ())"

datatype retry_action = Skip | Requeue | RequeueHeld soca_job | Reset bool string

text \<open>What is to be done about a queued job: the decision reads the scheduler and the stack.\<close>

definition completed_action :: "hk_env \<Rightarrow> string \<Rightarrow> retry_action res" where
  "completed_action env stack =
     bindE (get_stack (hk_stack env stack)) (\<lambda>st.
       case st_creation_time st of
         None \<Rightarrow> Inr Skip
       | Some created \<Rightarrow>
           bindE (required TypeError (hk_stack_timeout_secs env)) (\<lambda>timeout.
             if timedelta_seconds (hk_now env - created) < timeout then Inr Skip else Inr (Reset True stack)))"

definition status_action ::
  "hk_env \<Rightarrow> soca_job \<Rightarrow> string \<Rightarrow> ProvisioningStatus option \<Rightarrow> retry_action res" where
  "status_action env job stack st =
     (if st \<in> {Some IN_PROGRESS, Some DELETE_IN_PROGRESS} then Inr Skip
      else if is_shared_capacity job \<and> st = Some COMPLETED then Inr Skip
      else if st = Some COMPLETED then completed_action env stack
      else if st \<in> {Some FAILED, Some TIMEOUT} then Inr (Reset True stack)
      else Inr (Reset False stack))"

definition retry_decision :: "hk_env \<Rightarrow> soca_job \<Rightarrow> stack_statuses \<Rightarrow> (retry_action \<times> stack_statuses) res" where
  "retry_decision env job known =
     (if state job = Some JS_HELD
      then bindE (hk_scheduler_job env (job_id job)) (\<lambda>j. bindE (required AttributeError j) (\<lambda>fresh.
             if state fresh = Some JS_HELD then Inr (Skip, known) else Inr (RequeueHeld fresh, known)))
      else if \<not> is_provisioned job
      then bindE (hk_has_provisioning_queue env (queue_type job)) (\<lambda>b. Inr (if b then Requeue else Skip, known))
      else bindE (get_compute_stack (hk_digest env) job) (\<lambda>stack.
           bindE (stack_status env stack known) (\<lambda>(st, known').
           bindE (status_action env job stack st) (\<lambda>a. Inr (a, known')))))"

text \<open>
  The status is remembered even when the rest of the turn raises; \<open>known_after\<close> is the table after the turn.
\<close>

definition known_after :: "hk_env \<Rightarrow> soca_job \<Rightarrow> stack_statuses \<Rightarrow> stack_statuses" where
  "known_after env job known =
     (if state job = Some JS_HELD \<or> \<not> is_provisioned job then known
      else case bindE (get_compute_stack (hk_digest env) job) (\<lambda>stack. stack_status env stack known) of
             Inl _ \<Rightarrow> known | Inr (_, known') \<Rightarrow> known')"

definition do_retry :: "hk_env \<Rightarrow> soca_job \<Rightarrow> retry_action \<Rightarrow> (hk_session, unit) act" where
  "do_retry env job a =
     (case a of
        Skip \<Rightarrow> ret ()
      | RequeueHeld fresh \<Rightarrow> call env (JobModified (job_id fresh))
      | Requeue \<Rightarrow> call env (PutJob (job_id job))
      | Reset delete stack \<Rightarrow>
          thenS (if delete then swallow (call env (DeleteStack (Some stack))) else ret ())
         (thenS (call env (ResetJob (job_id job)))
                (swallow (call env (JobModified (job_id job))))))"

definition retry_job :: "hk_env \<Rightarrow> soca_job \<Rightarrow> stack_statuses \<Rightarrow> (hk_session, unit) act" where
  "retry_job env job known =
     swallow (bindS (reads (\<lambda>_. retry_decision env job known)) (\<lambda>(a, _). do_retry env job a))"

fun retry_jobs :: "hk_env \<Rightarrow> soca_job option res list \<Rightarrow> stack_statuses \<Rightarrow> (hk_session, unit) act" where
  "retry_jobs env [] known = ret ()"
| "retry_jobs env (Inl e # entries) known = retry_jobs env entries known"
| "retry_jobs env (Inr None # entries) known = retry_jobs env entries known"
| "retry_jobs env (Inr (Some job) # entries) known =
     thenS (retry_job env job known) (retry_jobs env entries (known_after env job known))"

definition retry_provisioning_cleanup :: "hk_env \<Rightarrow> (hk_session, unit) act" where
  "retry_provisioning_cleanup env = bindS (reads (\<lambda>_. hk_queued_jobs env)) (\<lambda>entries. retry_jobs env entries [])"

section \<open>Cluster metrics\<close>

text \<open>Of the dimensions of a metric the first is kept.\<close>

record cluster_counts =
  cc_total_cpus :: int
  cc_types :: "(string option \<times> int) list"
  cc_vcpus :: "(string option \<times> int) list"
  cc_ht_cpus :: "((string option \<times> bool) \<times> int) list"

definition add_under :: "'k \<Rightarrow> int \<Rightarrow> ('k \<times> int) list \<Rightarrow> ('k \<times> int) list" where
  "add_under k n kvs = assign_key k (opt_or (map_of kvs k) 0 + n) kvs"

definition count_node :: "hk_env \<Rightarrow> compute_node \<Rightarrow> cluster_counts \<Rightarrow> cluster_counts res" where
  "count_node env n c =
     (if has_state n [NS_BUSY, NS_JOB_BUSY, NS_FREE] \<and> \<not> has_state n [NS_DOWN]
      then bindE (hk_default_vcpus env (n_instance_type n)) (\<lambda>v. bindE (required TypeError v) (\<lambda>vcpus.
             let cpus = (case n_resources_available n of None \<Rightarrow> 0 | Some r \<Rightarrow> opt_or r 0) in
             Inr (c\<lparr>cc_total_cpus := cc_total_cpus c + cpus,
                    cc_types := add_under (n_instance_type n) 1 (cc_types c),
                    cc_vcpus := add_under (n_instance_type n) vcpus (cc_vcpus c),
                    cc_ht_cpus := add_under (n_instance_type n, n_enable_ht_support n = Some True) cpus (cc_ht_cpus c)\<rparr>)))
      else Inr c)"

definition publish_counts :: "hk_env \<Rightarrow> cluster_counts \<Rightarrow> (hk_session, unit) act" where
  "publish_counts env c =
     thenS (call env (Metric ''cpus_total'' None (cc_total_cpus c)))
    (thenS (forS (\<lambda>(t, n). call env (Metric ''total'' t n)) (cc_types c))
    (thenS (forS (\<lambda>(t, n). call env (Metric ''vcpus_total'' t n)) (cc_vcpus c))
           (forS (\<lambda>((t, ht), n). call env (Metric ''cpus_total'' (Some (pystr t)) n)) (cc_ht_cpus c))))"

definition publish_cluster_metrics :: "hk_env \<Rightarrow> (hk_session, unit) act" where
  "publish_cluster_metrics env =
     bindS (reads (\<lambda>_. hk_list_nodes env)) (\<lambda>nodes.
       if nodes = [] then ret ()
       else thenS (swallow (bindS (reads (\<lambda>_. foldE (count_node env) nodes
                    \<lparr>cc_total_cpus = 0, cc_types = [], cc_vcpus = [], cc_ht_cpus = []\<rparr>)) (publish_counts env)))
                  (swallow (call env AddNodes)))"

section \<open>A session\<close>

definition hk_passes :: "hk_env \<Rightarrow> (hk_session, unit) act" where
  "hk_passes env =
     thenS (pass1 env) (thenS (pass2 env) (thenS (pass4 env) (thenS (pass5 env) (thenS pass6
    (thenS (cleanup env) (thenS (retry_provisioning_cleanup env) (publish_cluster_metrics env)))))))"

definition hk_begin :: "hk_env \<Rightarrow> (hk_session, unit) act" where
  "hk_begin env =
     thenS (catchS (hk_passes env) (\<lambda>_. call env (Metric ''node_housekeeping_failed'' None 1)))
           (call env (Metric ''node_housekeeping_duration'' None (hk_duration_ms env)))"

section \<open>The housekeeper\<close>

text \<open>
  \<open>invoke\<close> runs on the thread of the node monitor: it tests the event, sets it, starts a session in a thread of its own
  and clears the event. \<open>kp_at\<close> is where the caller stands, \<open>kp_live\<close> counts the sessions that are running.
\<close>

datatype invoke_point = Outside | EventSet | ThreadStarted

record house_keeper =
  kp_running :: bool
  kp_at :: invoke_point
  kp_live :: nat

definition new_house_keeper :: house_keeper where
  "new_house_keeper = \<lparr>kp_running = False, kp_at = Outside, kp_live = 0\<rparr>"

inductive keeper_step :: "house_keeper \<Rightarrow> house_keeper \<Rightarrow> bool" where
  not_ready: "kp_at k = Outside \<Longrightarrow> keeper_step k k"
| refused: "kp_at k = Outside \<Longrightarrow> kp_running k \<Longrightarrow> keeper_step k k"
| invoked: "kp_at k = Outside \<Longrightarrow> \<not> kp_running k \<Longrightarrow> keeper_step k (k\<lparr>kp_running := True, kp_at := EventSet\<rparr>)"
| started: "kp_at k = EventSet \<Longrightarrow> keeper_step k (k\<lparr>kp_at := ThreadStarted, kp_live := kp_live k + 1\<rparr>)"
| cleared: "kp_at k = ThreadStarted \<Longrightarrow> keeper_step k (k\<lparr>kp_running := False, kp_at := Outside\<rparr>)"
| session_ends: "kp_live k > 0 \<Longrightarrow> keeper_step k (k\<lparr>kp_live := kp_live k - 1\<rparr>)"

inductive keeper_reachable :: "house_keeper \<Rightarrow> bool" where
  initially: "keeper_reachable new_house_keeper"
| stepped: "keeper_reachable k \<Longrightarrow> keeper_step k k' \<Longrightarrow> keeper_reachable k'"

text \<open>\<open>stop\<close> waits for the thread only while the event is set.\<close>

definition stop_waits :: "house_keeper \<Rightarrow> bool" where
  "stop_waits k = kp_running k"

inductive_cases keeper_stepE: "keeper_step k k'"

text \<open>The event is set only inside \<open>invoke\<close>.\<close>

lemma event_only_inside: "keeper_reachable k \<Longrightarrow> kp_running k \<longleftrightarrow> kp_at k \<noteq> Outside"
  by (induction rule: keeper_reachable.induct) (auto simp: new_house_keeper_def elim!: keeper_stepE)

text \<open>The event does not keep sessions apart: for every number n there is a run of the node monitor after which n
  sessions are running at once and \<open>invoke\<close> would start another, while \<open>stop\<close> waits for none of them.\<close>

lemma sessions_overlap:
  "\<exists>k. keeper_reachable k \<and> kp_live k = n \<and> kp_at k = Outside \<and> \<not> kp_running k \<and> \<not> stop_waits k"
proof (induction n)
  case 0
  show ?case by (rule exI [of _ new_house_keeper]) (simp add: new_house_keeper_def stop_waits_def keeper_reachable.initially [unfolded new_house_keeper_def])
next
  case (Suc n)
  then obtain k where k: "keeper_reachable k" "kp_live k = n" "kp_at k = Outside" "\<not> kp_running k" by blast
  let ?k1 = "k\<lparr>kp_running := True, kp_at := EventSet\<rparr>"
  let ?k2 = "?k1\<lparr>kp_at := ThreadStarted, kp_live := kp_live ?k1 + 1\<rparr>"
  let ?k3 = "?k2\<lparr>kp_running := False, kp_at := Outside\<rparr>"
  have "keeper_reachable ?k1" using k by (intro keeper_reachable.stepped [OF k(1)] keeper_step.invoked)
  then have "keeper_reachable ?k2" by (rule keeper_reachable.stepped) (rule keeper_step.started, simp)
  then have "keeper_reachable ?k3" by (rule keeper_reachable.stepped) (rule keeper_step.cleared, simp)
  with k(2) show ?case by (intro exI [of _ ?k3]) (simp add: stop_waits_def)
qed

end
