(* ===== verification/Housekeeping_Safety.thy ===== *)
theory Housekeeping_Safety
  imports Node_Housekeeping
begin

text \<open>
  What a housekeeping session may terminate: every instance it terminates was idle in the scheduler's list, was cleared
  by \<open>can_terminate\<close>, was looked up again, and was set offline before.
\<close>

section \<open>What a session may terminate\<close>

text \<open>A candidate: an instance the scheduler's list shows idle, and that \<open>can_terminate\<close> clears.\<close>

definition candidate :: "hk_env \<Rightarrow> ec2_instance \<Rightarrow> bool" where
  "candidate env i \<longleftrightarrow>
     (\<exists>nodes node. hk_list_nodes env = Inr nodes \<and> node \<in> set nodes \<and> hk_instance env (n_instance_id node) = Some i \<and>
        is_current_cluster (hk_cluster_name env) node \<and> \<not> has_state node [NS_BUSY, NS_JOB_BUSY] \<and>
        is_empty_opt_list (n_jobs node) \<and> can_terminate env i node = Inr True)"

definition taken_offline :: "hk_env \<Rightarrow> hk_effect list \<Rightarrow> string option \<Rightarrow> bool" where
  "taken_offline env es iid \<longleftrightarrow>
     (\<exists>i. candidate env i \<and> i_instance_id i = iid \<and> still_idle env i = Inr True \<and> SetOffline (i_private_dns_name i) \<in> set es)"

definition permitted :: "hk_env \<Rightarrow> hk_effect list \<Rightarrow> hk_effect \<Rightarrow> bool" where
  "permitted env es e \<longleftrightarrow> (case e of Terminate iid f \<Rightarrow> taken_offline env es iid | _ \<Rightarrow> True)"

definition orderly :: "hk_env \<Rightarrow> hk_effect list \<Rightarrow> bool" where
  "orderly env es \<longleftrightarrow> (\<forall>n < List.length es. permitted env (take n es) (es ! n))"

lemma permitted_simps [simp]:
  "permitted env es (Terminate iid f) \<longleftrightarrow> taken_offline env es iid"
  "(\<And>iid f. e \<noteq> Terminate iid f) \<Longrightarrow> permitted env es e"
  by (simp_all add: permitted_def split: hk_effect.split)

lemma taken_offline_append [simp]: "taken_offline env es iid \<Longrightarrow> taken_offline env (es @ fs) iid"
  by (auto simp: taken_offline_def)

lemma orderly_snoc: "orderly env (es @ [e]) \<longleftrightarrow> orderly env es \<and> permitted env es e"
proof -
  have "orderly env (es @ [e]) \<longleftrightarrow> (\<forall>n < Suc (List.length es). permitted env (take n (es @ [e])) ((es @ [e]) ! n))"
    by (simp add: orderly_def)
  also have "\<dots> \<longleftrightarrow> permitted env es e \<and> (\<forall>n < List.length es. permitted env (take n es) (es ! n))"
    by (subst All_less_Suc) (simp add: nth_append)
  finally show ?thesis by (auto simp: orderly_def)
qed

definition grouped :: "hk_session \<Rightarrow> ec2_instance set" where
  "grouped s = (\<Union>(_, is) \<in> set (hs_spot_fleet_instances s) \<union> set (hs_asg_instances s). set is)"

text \<open>Until the instances are offline, and after they were set offline in the effects \<open>off\<close>.\<close>

definition hk_ok :: "hk_env \<Rightarrow> hk_session \<Rightarrow> bool" where
  "hk_ok env s \<longleftrightarrow> (\<forall>i \<in> grouped s. candidate env i) \<and> hs_instances_to_terminate s = [] \<and> orderly env (hs_effects s)"

definition hk_offline :: "hk_env \<Rightarrow> hk_effect list \<Rightarrow> hk_session \<Rightarrow> bool" where
  "hk_offline env off s \<longleftrightarrow>
     (\<forall>i \<in> grouped s \<union> set (hs_instances_to_terminate s). taken_offline env off (i_instance_id i)) \<and>
     (\<exists>more. hs_effects s = off @ more) \<and> orderly env (hs_effects s)"

section \<open>The passes keep the invariant\<close>

declare preserves_case_prod [preserves_intros]

text \<open>Both invariants are kept by every step that neither groups nor terminates.\<close>

definition hk_invariant :: "hk_env \<Rightarrow> (hk_session \<Rightarrow> bool) \<Rightarrow> bool" where
  "hk_invariant env P \<longleftrightarrow> P = hk_ok env \<or> (\<exists>off. P = hk_offline env off)"

lemma hk_invariant_both [simp]: "hk_invariant env (hk_ok env)" "hk_invariant env (hk_offline env off)"
  by (auto simp: hk_invariant_def)

lemma hk_frame:
  assumes "hk_invariant env P" "P s"
    "hs_spot_fleet_instances s' = hs_spot_fleet_instances s" "hs_asg_instances s' = hs_asg_instances s"
    "hs_instances_to_terminate s' = hs_instances_to_terminate s" "hs_effects s' = hs_effects s"
  shows "P s'"
  using assms by (auto simp: hk_invariant_def hk_offline_def hk_ok_def grouped_def)

lemma hk_effect_ok:
  assumes "hk_invariant env P" "P s" "permitted env (hs_effects s) e"
  shows "P (s\<lparr>hs_effects := hs_effects s @ [e]\<rparr>)"
proof -
  have "grouped (s\<lparr>hs_effects := hs_effects s @ [e]\<rparr>) = grouped s" by (simp add: grouped_def)
  with assms show ?thesis
    by (auto simp: hk_invariant_def hk_offline_def hk_ok_def orderly_snoc)
qed

lemma preserves_call:
  assumes "hk_invariant env P" "\<And>iid f. e \<noteq> Terminate iid f"
  shows "preserves P (call env e)"
proof -
  have "permitted env es e" for es using assms(2) by simp
  with assms(1) show ?thesis
    by (auto simp: preserves_def call_def act_simps intro: hk_effect_ok split: option.split)
qed

lemma preserves_quiet_modify:
  assumes "hk_invariant env P"
    "\<And>s. hs_spot_fleet_instances (f s) = hs_spot_fleet_instances s" "\<And>s. hs_asg_instances (f s) = hs_asg_instances s"
    "\<And>s. hs_instances_to_terminate (f s) = hs_instances_to_terminate s" "\<And>s. hs_effects (f s) = hs_effects s"
  shows "preserves P (modify f)"
  using assms by (auto intro!: preserves_modify intro: hk_frame)

lemma set_append_under: "(g, is) \<in> set (append_under k v kvs) \<Longrightarrow>
   (g, is) \<in> set kvs \<or> (\<exists>old. (old = [] \<or> (k, old) \<in> set kvs) \<and> is = old @ [v])"
proof -
  have "(g, is) \<in> set (assign_key k x kvs) \<Longrightarrow> (g, is) \<in> set kvs \<or> is = x" for x
    by (induction k x kvs rule: assign_key.induct) (auto split: if_splits)
  then show "(g, is) \<in> set (append_under k v kvs) \<Longrightarrow> ?thesis"
    by (cases "map_of kvs k") (auto simp: append_under_def dest: map_of_SomeD)
qed


section \<open>Passes 1 and 2\<close>

lemma preserves_candidate:
  assumes "candidate env i"
  shows "preserves (hk_ok env) (add_candidate_for_deletion i)"
proof -
  have "hk_ok env (s\<lparr>hs_spot_fleet_instances := append_under k i (hs_spot_fleet_instances s)\<rparr>)"
    "hk_ok env (s\<lparr>hs_asg_instances := append_under k i (hs_asg_instances s)\<rparr>)" if "hk_ok env s" for s k
    using that assms by (fastforce simp: hk_ok_def grouped_def dest: set_append_under)+
  then show ?thesis
    by (auto simp: add_candidate_for_deletion_def intro!: preserves_intros)
qed

lemma preserves_quiet_steps:
  assumes "hk_invariant env P"
  shows "preserves P (publish_node_metrics env n)" "preserves P (publish_instance_metrics env i)"
    "preserves P (add_to_job_group i)" "preserves P (add_node_to_delete n)"
    "preserves P (call env AddNodes)" "preserves P (call env (Metric m q v))" "preserves P (call env (SetOffline h))"
    "preserves P (call env (DeleteNode h))" "preserves P (call env (DeleteComputer c j))"
    "preserves P (call env (ModifySpotFleet g k))" "preserves P (call env (DetachInstances g ids))"
    "preserves P (call env (UpdateAutoScalingGroup g k))" "preserves P (call env (DeleteStack st))"
    "preserves P (call env (ResetJob j))" "preserves P (call env (JobModified j))" "preserves P (call env (PutJob j))"
    "preserves P (mark_stack i)"
  using assms
  by (auto simp: publish_node_metrics_def publish_instance_metrics_def add_to_job_group_def add_node_to_delete_def
      mark_stack_def intro!: preserves_call preserves_prim preserves_quiet_modify)

lemmas ok_steps = preserves_quiet_steps [where P = "hk_ok env" and env = env for env, OF hk_invariant_both(1)]
lemmas offline_steps = preserves_quiet_steps [where P = "hk_offline env off" and env = env for env off, OF hk_invariant_both(2)]

lemma preserves_visit:
  assumes "hk_list_nodes env = Inr nodes" "node \<in> set nodes"
  shows "preserves (hk_ok env) (visit_node env node)"
proof -
  have "candidate env i"
    if "hk_instance env (n_instance_id node) = Some i" "is_current_cluster (hk_cluster_name env) node"
      "\<not> has_state node [NS_BUSY, NS_JOB_BUSY]" "is_empty_opt_list (n_jobs node)" "can_terminate env i node = Inr True" for i
    using that assms by (auto simp: candidate_def)
  then show ?thesis
    unfolding visit_node_def
    by (auto intro!: preserves_intros ok_steps preserves_reads preserves_candidate split: option.split)
qed

lemma preserves_pass1: "preserves (hk_ok env) (pass1 env)"
  unfolding pass1_def by (rule preserves_reads) (auto intro!: preserves_forS_mem preserves_visit)

lemma preserves_pass2: "preserves (hk_ok env) (pass2 env)"
  unfolding pass2_def
  by (auto intro!: preserves_thenS preserves_bindS preserves_prim preserves_forS
      preserves_quiet_modify [OF hk_invariant_both(1)])

section \<open>Pass 4\<close>

lemma collect_idle_members:
  assumes "collect_idle env is acc = Inr res" "i \<in> set res"
  shows "i \<in> set acc \<or> (i \<in> set is \<and> still_idle env i = Inr True)"
  using assms
proof (induction "is" arbitrary: acc)
  case (Cons j js)
  from Cons.prems obtain b where b: "still_idle env j = Inr b" "collect_idle env js (if b then add_instance j acc else acc) = Inr res"
    by (auto simp: collect_idle_def bindE_Inr_iff)
  from Cons.IH [OF b(2) Cons.prems(2)] b(1) show ?case
    by (auto simp: add_instance_def split: if_splits)
qed (simp add: collect_idle_def)

lemma call_run:
  "call env e s = (case hk_fails env e of None \<Rightarrow> (Inr (), s\<lparr>hs_effects := hs_effects s @ [e]\<rparr>) | Some x \<Rightarrow> (Inl x, s))"
  by (simp add: call_def act_simps split: option.split)

lemma calls_in_order:
  "forS (\<lambda>x. call env (g x)) xs s = (Inr (), s') \<Longrightarrow> s' = s\<lparr>hs_effects := hs_effects s @ map g xs\<rparr>"
proof (induction xs arbitrary: s)
  case (Cons x xs)
  show ?case
  proof (cases "hk_fails env (g x)")
    case None
    then have run: "call env (g x) s = (Inr (), s\<lparr>hs_effects := hs_effects s @ [g x]\<rparr>)" by (simp add: call_run)
    from Cons.prems have "forS (\<lambda>x. call env (g x)) xs (s\<lparr>hs_effects := hs_effects s @ [g x]\<rparr>) = (Inr (), s')"
      by (simp add: thenS_eqI(1) [where m = "call env (g x)", OF run])
    from Cons.IH [OF this] show ?thesis by simp
  next
    case (Some e)
    then have run: "call env (g x) s = (Inl e, s)" by (simp add: call_run)
    from Cons.prems show ?thesis by (simp add: thenS_eqI(2) [where m = "call env (g x)", OF run])
  qed
qed simp

lemma set_fold_add_instance: "set (fold add_instance is acc) \<subseteq> set is \<union> set acc"
  by (induction "is" arbitrary: acc) (force simp: add_instance_def split: if_splits)+

lemma keep_offline_members:
  assumes "(g, is) \<in> set (keep_offline offline groups)" "i \<in> set is"
  shows "\<exists>js. (g, js) \<in> set groups \<and> i \<in> set js" "\<exists>j \<in> set offline. i_instance_id j = i_instance_id i"
  using assms set_fold_add_instance by (fastforce simp: keep_offline_def meet_def)+


lemma preserves_pass4_ok: "preserves (hk_ok env) (pass4 env)"
proof -
  have "hk_ok env (s\<lparr>hs_spot_fleet_instances := keep_offline off (hs_spot_fleet_instances s),
                     hs_asg_instances := keep_offline off (hs_asg_instances s)\<rparr>)" if "hk_ok env s" for s off
    using that keep_offline_members(1) by (fastforce simp: hk_ok_def grouped_def)
  then show ?thesis
    unfolding pass4_def by (auto intro!: preserves_intros ok_steps)
qed

lemma pass4_offline:
  assumes "hk_ok env s" "pass4 env s = (Inr (), s')"
  shows "hk_offline env (hs_effects s') s'"
proof -
  obtain spot offline where c: "collect_idle env (concat (map snd (hs_spot_fleet_instances s))) [] = Inr spot"
    "collect_idle env (concat (map snd (hs_asg_instances s))) spot = Inr offline"
    using assms(2) by (auto simp: pass4_def bindS_reads bindE_def split: sum.splits)
  let ?keep = "\<lambda>s. s\<lparr>hs_spot_fleet_instances := keep_offline offline (hs_spot_fleet_instances s),
                     hs_asg_instances := keep_offline offline (hs_asg_instances s)\<rparr>"
  from assms(2) c have "thenS (forS (\<lambda>i. call env (SetOffline (i_private_dns_name i))) offline) (modify ?keep) s = (Inr (), s')"
    by (simp add: pass4_def)
  then obtain s1 where s1: "forS (\<lambda>i. call env (SetOffline (i_private_dns_name i))) offline s = (Inr (), s1)" "s' = ?keep s1"
    by (cases "forS (\<lambda>i. call env (SetOffline (i_private_dns_name i))) offline s"; cases "fst (forS (\<lambda>i. call env (SetOffline (i_private_dns_name i))) offline s)")
      (auto simp: thenS_def bindS_def)
  note eff = calls_in_order [OF s1(1)]
  have off: "candidate env j \<and> still_idle env j = Inr True \<and> SetOffline (i_private_dns_name j) \<in> set (hs_effects s')"
    if "j \<in> set offline" for j
  proof -
    from collect_idle_members [OF c(2) that] collect_idle_members [OF c(1)]
    have "still_idle env j = Inr True" "j \<in> grouped s" by (fastforce simp: grouped_def)+
    with assms(1) that eff s1(2) show ?thesis by (simp add: hk_ok_def)
  qed
  have "taken_offline env (hs_effects s') (i_instance_id i)" if "i \<in> grouped s'" for i
  proof -
    from that s1(2) eff obtain g "is" groups where "(g, is) \<in> set (keep_offline offline groups)" "i \<in> set is"
      by (auto simp: grouped_def)
    from keep_offline_members(2) [OF this] off show ?thesis by (auto simp: taken_offline_def)
  qed
  moreover have "hk_ok env s'" using preservesD [OF preserves_pass4_ok assms] .
  ultimately show ?thesis by (simp add: hk_offline_def hk_ok_def)
qed

section \<open>Passes 5 and 6, the clean-up and the rest\<close>

lemma preserves_pass5: "preserves (hk_offline env off) (pass5 env)"
  unfolding pass5_def
  by (auto intro!: preserves_thenS preserves_bindS preserves_prim preserves_forS
      preserves_quiet_modify [OF hk_invariant_both(2)])

lemma preserves_add_all:
  assumes "\<And>i. i \<in> set instances \<Longrightarrow> taken_offline env off (i_instance_id i)"
  shows "preserves (hk_offline env off) (add_all_to_terminate instances)"
  unfolding add_all_to_terminate_def
  by (rule preserves_modify) (use assms set_fold_add_instance in \<open>fastforce simp: hk_offline_def grouped_def\<close>)

lemma grouped_lookup:
  "map_of (hs_spot_fleet_instances s) k = Some is \<Longrightarrow> i \<in> set is \<Longrightarrow> i \<in> grouped s"
  "map_of (hs_asg_instances s) k = Some is \<Longrightarrow> i \<in> set is \<Longrightarrow> i \<in> grouped s"
  by (auto simp: grouped_def dest!: map_of_SomeD)

lemma grouped_offline:
  assumes "hk_offline env off s" "i \<in> set is"
    "map_of (hs_spot_fleet_instances s) k = Some is \<or> map_of (hs_asg_instances s) k = Some is"
  shows "taken_offline env off (i_instance_id i)"
  using assms grouped_lookup [of s k "is" i] by (auto simp: hk_offline_def)

lemma preserves_finalize:
  "preserves (hk_offline env off) (finalize_spot_fleet x)" "preserves (hk_offline env off) (finalize_asg x)"
  unfolding finalize_spot_fleet_def finalize_asg_def
  by (auto intro: grouped_offline
      intro!: preserves_reads preserves_thenS preserves_add_all preserves_if offline_steps
        preserves_quiet_modify [OF hk_invariant_both(2)] split: prod.split)

lemma preserves_pass6: "preserves (hk_offline env off) pass6"
  unfolding pass6_def by (intro preserves_intros preserves_finalize)


lemma preserves_swallow [preserves_intros]: "preserves P m \<Longrightarrow> preserves P (swallow m)"
  unfolding swallow_def by (intro preserves_intros)

lemma preserves_terminate_call:
  assumes "taken_offline env off iid"
  shows "preserves (hk_offline env off) (call env (Terminate iid f))"
proof -
  have "hk_offline env off (s\<lparr>hs_effects := hs_effects s @ [Terminate iid f]\<rparr>)" if "hk_offline env off s" for s
  proof (rule hk_effect_ok [OF hk_invariant_both(2) that])
    from that assms show "permitted env (hs_effects s) (Terminate iid f)" by (auto simp: hk_offline_def)
  qed
  then show ?thesis by (auto simp: preserves_def call_run split: option.split)
qed

lemma preserves_terminate:
  "taken_offline env off (i_instance_id i) \<Longrightarrow> preserves (hk_offline env off) (terminate_instance env failed i)"
  unfolding terminate_instance_def delete_computer_def
  by (auto intro!: preserves_intros offline_steps preserves_terminate_call)

lemma preserves_delete_nodes: "preserves (hk_offline env off) (delete_nodes env nodes)"
proof -
  have "preserves P (case e of SocaException _ \<Rightarrow> ret True | _ \<Rightarrow> throw e)" for e and P :: "hk_session \<Rightarrow> bool"
    by (cases e) (simp_all add: preserves_prim)
  then show ?thesis
    unfolding delete_nodes_def
    by (intro preserves_bindS preserves_filterS preserves_catchS preserves_thenS offline_steps preserves_prim)
qed

lemma preserves_terminate_all: "preserves (hk_offline env off) (terminate_instances env failed)"
  unfolding terminate_instances_def
  by (rule preserves_gets) (auto simp: hk_offline_def intro!: preserves_forS_mem preserves_terminate)

lemma preserves_updates:
  "preserves (hk_offline env off) (update_spot_fleet env x)" "preserves (hk_offline env off) (detach_instances env y)"
  "preserves (hk_offline env off) (update_asg env x)" "preserves (hk_offline env off) (delete_stack env st)"
  unfolding update_spot_fleet_def detach_instances_def update_asg_def delete_stack_def
  by (intro preserves_intros offline_steps)+

lemma preserves_cleanup: "preserves (hk_offline env off) (cleanup env)"
  unfolding cleanup_def
  by (intro preserves_bindS preserves_thenS preserves_prim preserves_forS preserves_delete_nodes preserves_updates
      preserves_terminate_all)

lemma preserves_retry: "hk_invariant env P \<Longrightarrow> preserves P (retry_provisioning_cleanup env)"
proof -
  assume P: "hk_invariant env P"
  have "preserves P (retry_job env job known)" for job known
    unfolding retry_job_def do_retry_def
    by (auto intro!: preserves_intros preserves_quiet_steps [OF P] split: retry_action.split)
  then have "preserves P (retry_jobs env entries known)" for entries known
    by (induction env entries known rule: retry_jobs.induct) (auto intro!: preserves_intros)
  then show ?thesis unfolding retry_provisioning_cleanup_def by (intro preserves_intros)
qed

lemma preserves_publish: "hk_invariant env P \<Longrightarrow> preserves P (publish_cluster_metrics env)"
  unfolding publish_cluster_metrics_def publish_counts_def
  by (auto intro!: preserves_intros preserves_quiet_steps split: prod.split)

lemma hk_passes_orderly:
  assumes "hk_ok env s" "hk_passes env s = (r, s')"
  shows "\<exists>P. hk_invariant env P \<and> P s'"
proof -
  let ?rest = "thenS (pass5 env) (thenS pass6 (thenS (cleanup env) (thenS (retry_provisioning_cleanup env) (publish_cluster_metrics env))))"
  have start: "preserves (hk_ok env) (thenS (pass1 env) (pass2 env))"
    by (intro preserves_intros preserves_pass1 preserves_pass2)
  have rest: "preserves (hk_offline env off) ?rest" for off
    by (intro preserves_intros preserves_pass5 preserves_pass6 preserves_cleanup preserves_retry preserves_publish) simp_all
  have assoc: "hk_passes env = thenS (thenS (pass1 env) (pass2 env)) (thenS (pass4 env) ?rest)"
    by (auto simp: hk_passes_def fun_eq_iff act_simps split: prod.split sum.split)
  obtain r1 s1 where 1: "thenS (pass1 env) (pass2 env) s = (r1, s1)" by fastforce
  note ok1 = preservesD [OF start assms(1) 1]
  show ?thesis
  proof (cases r1)
    case (Inl e)
    with assms(2) assoc 1 ok1 show ?thesis
      by (intro exI [of _ "hk_ok env"]) (simp add: thenS_eqI(2))
  next
    case (Inr u)
    obtain r2 s2 where 2: "pass4 env s1 = (r2, s2)" by fastforce
    from assms(2) assoc 1 Inr have run: "thenS (pass4 env) ?rest s1 = (r, s')" by (simp add: thenS_eqI(1))
    show ?thesis
    proof (cases r2)
      case (Inl e)
      with run 2 have "s' = s2" by (simp add: thenS_eqI(2))
      with preservesD [OF preserves_pass4_ok ok1 2] show ?thesis by (intro exI [of _ "hk_ok env"]) simp
    next
      case (Inr u)
      with run 2 have "?rest s2 = (r, s')" by (simp add: thenS_eqI(1))
      from preservesD [OF rest _ this] pass4_offline [OF ok1, of s2] 2 Inr show ?thesis
        by (intro exI [of _ "hk_offline env (hs_effects s2)"]) (simp add: old.unit.exhaust)
    qed
  qed
qed

section \<open>Properties of a session\<close>

lemma hk_ok_new: "hk_ok env new_hk_session"
  by (simp add: hk_ok_def new_hk_session_def grouped_def orderly_def)

lemma hk_begin_orderly:
  assumes "hk_begin env new_hk_session = (r, s')"
  shows "orderly env (hs_effects s')"
proof -
  obtain r1 s1 where 1: "hk_passes env new_hk_session = (r1, s1)" by fastforce
  from hk_passes_orderly [OF hk_ok_new 1] obtain P where P: "hk_invariant env P" "P s1" by blast
  let ?m = "catchS (hk_passes env) (\<lambda>_. call env (Metric ''node_housekeeping_failed'' None 1))"
  obtain r2 s2 where 2: "?m new_hk_session = (r2, s2)" by fastforce
  have "P s2"
  proof (cases r1)
    case (Inl e)
    with 1 2 have "call env (Metric ''node_housekeeping_failed'' None 1) s1 = (r2, s2)" by (simp add: catchS_def)
    from preservesD [OF preserves_quiet_steps(6) [OF P(1)] P(2) this] show ?thesis .
  qed (use 1 2 P(2) in \<open>simp add: catchS_def\<close>)
  moreover have "hk_begin env new_hk_session =
      (case (r2, s2) of (Inl e, s') \<Rightarrow> (Inl e, s')
       | (Inr _, s') \<Rightarrow> call env (Metric ''node_housekeeping_duration'' None (hk_duration_ms env)) s')"
    using 2 by (simp add: hk_begin_def thenS_apply)
  moreover have "P s'" if "P s2" "call env m s2 = (r, s')" "m = Metric a b c" for m a b c
    using preservesD [OF preserves_quiet_steps(6) [OF P(1)] that(1)] that(2,3) by blast
  ultimately have "P s'" using assms by (cases r2) auto
  with P(1) show ?thesis by (auto simp: hk_invariant_def hk_ok_def hk_offline_def)
qed

text \<open>C10: Every instance a housekeeping session terminates was idle: the scheduler listed its node in the cluster, not busy
  and without jobs, \<open>can_terminate\<close> cleared it, it was not busy when looked up again, and its node was set offline
  before, so that no job could be placed on it.\<close>

lemma terminated_instances_were_idle:
  assumes "hk_begin env new_hk_session = (r, s')" "hs_effects s' = pre @ Terminate iid f # post"
  shows "\<exists>nodes node i. hk_list_nodes env = Inr nodes \<and> node \<in> set nodes \<and> hk_instance env (n_instance_id node) = Some i \<and>
    i_instance_id i = iid \<and> is_current_cluster (hk_cluster_name env) node \<and> \<not> has_state node [NS_BUSY, NS_JOB_BUSY] \<and>
    is_empty_opt_list (n_jobs node) \<and> can_terminate env i node = Inr True \<and> still_idle env i = Inr True \<and>
    SetOffline (i_private_dns_name i) \<in> set pre"
proof -
  from hk_begin_orderly [OF assms(1)] assms(2) have "taken_offline env pre iid"
    by (auto simp: orderly_def dest: spec [of _ "List.length pre"])
  then show ?thesis by (auto simp: taken_offline_def candidate_def)
qed

text \<open>An instance of ephemeral capacity is not cleared while its job is queued, running or held, nor is one that is kept
  forever without an idle time.\<close>

lemma active_job_keeps_instance:
  assumes "can_terminate env i node = Inr True"
  shows "i_is_valid_idea_compute_node i \<and> (i_soca_keep_forever i \<longrightarrow> i_soca_terminate_when_idle i \<noteq> 0) \<and>
    (case hk_job env (i_soca_job_id i) of None \<Rightarrow> True
     | Some j \<Rightarrow> is_soca_ephemeral_capacity i \<longrightarrow> state j \<notin> {Some JS_QUEUED, Some JS_RUNNING, Some JS_HELD}) \<and>
    (case last_used node of None \<Rightarrow> \<not> i_soca_terminate_when_idle i > 0
     | Some t \<Rightarrow> i_soca_terminate_when_idle i > 0 \<longrightarrow> t + i_soca_terminate_when_idle i * 60000000 \<le> hk_now env)"
  using assms unfolding can_terminate_def
  by (auto simp: bindE_Inr_iff split: if_splits option.splits)

text \<open>The definitions a session runs, at an environment with another required capacity.\<close>

lemma ignore_capacity_1:
  "call (env\<lparr>hk_desired_capacity := f\<rparr>) = call env"
  "spot_fleet_desired (env\<lparr>hk_desired_capacity := f\<rparr>) = spot_fleet_desired env"
  "spot_fleet_present (env\<lparr>hk_desired_capacity := f\<rparr>) = spot_fleet_present env"
  "asg_desired (env\<lparr>hk_desired_capacity := f\<rparr>) = asg_desired env"
  "asg_present (env\<lparr>hk_desired_capacity := f\<rparr>) = asg_present env"
  "can_terminate (env\<lparr>hk_desired_capacity := f\<rparr>) = can_terminate env"
  "collect_idle (env\<lparr>hk_desired_capacity := f\<rparr>) = collect_idle env"
  "force_terminate (env\<lparr>hk_desired_capacity := f\<rparr>) = force_terminate env"
  "running_duration (env\<lparr>hk_desired_capacity := f\<rparr>) = running_duration env"
  "computer_name (env\<lparr>hk_desired_capacity := f\<rparr>) = computer_name env"
  "retry_decision (env\<lparr>hk_desired_capacity := f\<rparr>) = retry_decision env"
  "known_after (env\<lparr>hk_desired_capacity := f\<rparr>) = known_after env"
  "count_node (env\<lparr>hk_desired_capacity := f\<rparr>) = count_node env"
  by (simp_all add: fun_eq_iff call_def spot_fleet_desired_def spot_fleet_present_def asg_desired_def asg_present_def
      can_terminate_def collect_idle_def still_idle_def force_terminate_def running_duration_def computer_name_def
      generated_hostname_def retry_decision_def known_after_def stack_status_def status_action_def completed_action_def
      count_node_def cong: if_cong option.case_cong list.case_cong)

lemma ignore_capacity_2:
  "visit_node (env\<lparr>hk_desired_capacity := f\<rparr>) = visit_node env"
  "delete_computer (env\<lparr>hk_desired_capacity := f\<rparr>) = delete_computer env"
  "retry_jobs (env\<lparr>hk_desired_capacity := f\<rparr>) = retry_jobs env"
proof -
  show "visit_node (env\<lparr>hk_desired_capacity := f\<rparr>) = visit_node env"
    "delete_computer (env\<lparr>hk_desired_capacity := f\<rparr>) = delete_computer env"
    by (simp_all add: fun_eq_iff visit_node_def delete_computer_def publish_node_metrics_def publish_instance_metrics_def
        ignore_capacity_1 cong: if_cong option.case_cong)
  have "retry_jobs (env\<lparr>hk_desired_capacity := f\<rparr>) entries known = retry_jobs env entries known" for entries known
    by (induction env entries known rule: retry_jobs.induct)
      (simp_all add: ignore_capacity_1 retry_job_def do_retry_def cong: retry_action.case_cong if_cong)
  then show "retry_jobs (env\<lparr>hk_desired_capacity := f\<rparr>) = retry_jobs env" by (simp add: fun_eq_iff)
qed

lemma ignore_capacity_3:
  "pass1 (env\<lparr>hk_desired_capacity := f\<rparr>) = pass1 env"
  "pass2 (env\<lparr>hk_desired_capacity := f\<rparr>) = pass2 env"
  "pass4 (env\<lparr>hk_desired_capacity := f\<rparr>) = pass4 env"
  "pass5 (env\<lparr>hk_desired_capacity := f\<rparr>) = pass5 env"
  "delete_nodes (env\<lparr>hk_desired_capacity := f\<rparr>) = delete_nodes env"
  "terminate_instance (env\<lparr>hk_desired_capacity := f\<rparr>) = terminate_instance env"
  "update_spot_fleet (env\<lparr>hk_desired_capacity := f\<rparr>) = update_spot_fleet env"
  "detach_instances (env\<lparr>hk_desired_capacity := f\<rparr>) = detach_instances env"
  "update_asg (env\<lparr>hk_desired_capacity := f\<rparr>) = update_asg env"
  "delete_stack (env\<lparr>hk_desired_capacity := f\<rparr>) = delete_stack env"
  "retry_provisioning_cleanup (env\<lparr>hk_desired_capacity := f\<rparr>) = retry_provisioning_cleanup env"
  "publish_counts (env\<lparr>hk_desired_capacity := f\<rparr>) = publish_counts env"
  by (simp_all add: fun_eq_iff pass1_def pass2_def pass4_def pass5_def delete_nodes_def terminate_instance_def
      update_spot_fleet_def detach_instances_def update_asg_def delete_stack_def retry_provisioning_cleanup_def
      publish_counts_def ignore_capacity_1 ignore_capacity_2)

text \<open>A session does the same whatever capacity the queued jobs of a group require: the pass that compares the present
  with the required capacity is never run.\<close>

lemma required_capacity_ignored:
  "hk_begin (env\<lparr>hk_desired_capacity := f\<rparr>) s = hk_begin env s"
  by (simp add: hk_begin_def hk_passes_def cleanup_def terminate_instances_def publish_cluster_metrics_def
      ignore_capacity_1 ignore_capacity_3 cong: if_cong)

text \<open>The running time reported for a terminated instance is the complement to a day: an instance that ran for \<open>k\<close>
  seconds of a day is reported with \<open>86400 - k\<close>.\<close>

lemma running_duration_reversed:
  assumes "i_launch_time i = Some t" "hk_now env = t + k * 1000000" "0 < k" "k < 86400"
  shows "running_duration env i = Inr (86400 - k)"
proof -
  have "(t - hk_now env) div 1000000 = - k" using assms(2) by simp
  moreover have "(- k) mod 86400 = 86400 - k" using assms(3,4) by (simp add: zmod_zminus1_eq_if)
  ultimately show ?thesis using assms(1) by (simp add: running_duration_def timedelta_seconds_def)
qed

text \<open>A host name generated for an instance has at most 15 characters, whatever prefix is configured.\<close>

lemma generated_hostname_fits: "case generated_hostname env i of Inl _ \<Rightarrow> True | Inr name \<Rightarrow> List.length name \<le> 15"
  by (auto simp: generated_hostname_def bindE_def Let_def upper_def last_chars_def split: sum.split)

section \<open>Retried jobs\<close>

definition reset_justified :: "hk_env \<Rightarrow> soca_job option res list \<Rightarrow> string option \<Rightarrow> bool" where
  "reset_justified env entries j \<longleftrightarrow>
     (\<exists>job stack st. Inr (Some job) \<in> set entries \<and> job_id job = j \<and> state job \<noteq> Some JS_HELD \<and> is_provisioned job \<and>
        get_compute_stack (hk_digest env) job = Inr stack \<and> check_status (hk_stack env stack) = Inr st \<and>
        st \<notin> {Some IN_PROGRESS, Some DELETE_IN_PROGRESS} \<and> \<not> (is_shared_capacity job \<and> st = Some COMPLETED))"

definition resets_justified :: "hk_env \<Rightarrow> soca_job option res list \<Rightarrow> hk_session \<Rightarrow> bool" where
  "resets_justified env entries s \<longleftrightarrow> (\<forall>j. ResetJob j \<in> set (hs_effects s) \<longrightarrow> reset_justified env entries j)"

definition known_ok :: "hk_env \<Rightarrow> stack_statuses \<Rightarrow> bool" where
  "known_ok env known \<longleftrightarrow> (\<forall>stack st. map_of known stack = Some st \<longrightarrow> check_status (hk_stack env stack) = Inr st)"

lemma stack_status_ok:
  assumes "known_ok env known" "stack_status env stack known = Inr (st, known')"
  shows "check_status (hk_stack env stack) = Inr st \<and> known_ok env known'"
  using assms by (auto simp: stack_status_def known_ok_def bindE_Inr_iff split: option.splits if_splits)

lemma known_after_ok: "known_ok env known \<Longrightarrow> known_ok env (known_after env job known)"
  using stack_status_ok by (auto simp: known_after_def bindE_Inr_iff split: sum.split)

lemma reset_decision_justified:
  assumes "retry_decision env job known = Inr (Reset delete stack, known')" "known_ok env known"
    "Inr (Some job) \<in> set entries"
  shows "reset_justified env entries (job_id job)"
proof -
  from assms(1) obtain stk st where "state job \<noteq> Some JS_HELD" "is_provisioned job"
    "get_compute_stack (hk_digest env) job = Inr stk" "stack_status env stk known = Inr (st, known')"
    "status_action env job stk st = Inr (Reset delete stack)"
    by (auto simp: retry_decision_def bindE_Inr_iff split: if_splits)
  moreover from this(5) have "st \<notin> {Some IN_PROGRESS, Some DELETE_IN_PROGRESS}" "\<not> (is_shared_capacity job \<and> st = Some COMPLETED)"
    by (auto simp: status_action_def split: if_splits)
  ultimately show ?thesis
    using stack_status_ok [OF assms(2)] assms(3) unfolding reset_justified_def by blast
qed

lemma preserves_justified_call:
  assumes "\<And>j. e = ResetJob j \<Longrightarrow> reset_justified env entries j"
  shows "preserves (resets_justified env entries) (call env e)"
  using assms by (auto simp: preserves_def call_run resets_justified_def split: option.split)

lemma preserves_retry_job:
  assumes "known_ok env known" "Inr (Some job) \<in> set entries"
  shows "preserves (resets_justified env entries) (retry_job env job known)"
proof -
  have "preserves (resets_justified env entries) (do_retry env job a)"
    if "retry_decision env job known = Inr (a, known')" for a known'
  proof (cases a)
    case (Reset delete stack)
    with that assms have "reset_justified env entries (job_id job)" by (intro reset_decision_justified) auto
    with Reset show ?thesis
      by (auto simp: do_retry_def intro!: preserves_swallow preserves_thenS preserves_if preserves_prim preserves_justified_call)
  qed (auto simp: do_retry_def intro!: preserves_prim preserves_justified_call)
  then show ?thesis
    unfolding retry_job_def by (auto intro!: preserves_swallow preserves_reads split: prod.split)
qed

lemma preserves_retry_jobs:
  "known_ok env known \<Longrightarrow> set entries \<subseteq> set all \<Longrightarrow> preserves (resets_justified env all) (retry_jobs env entries known)"
proof (induction env entries known rule: retry_jobs.induct)
  case (4 env job entries known)
  then show ?case
    by (simp add: known_after_ok preserves_thenS preserves_retry_job)
qed (auto intro: preserves_prim)

text \<open>The retry of a session resets a job only when it is queued and provisioned and its stack is neither being created
  or deleted, nor, for shared capacity, complete.\<close>

lemma reset_only_stuck_jobs:
  assumes "hk_queued_jobs env = Inr entries" "hs_effects s = []" "retry_provisioning_cleanup env s = (r, s')"
    "ResetJob j \<in> set (hs_effects s')"
  shows "reset_justified env entries j"
proof -
  have "preserves (resets_justified env entries) (retry_provisioning_cleanup env)"
    unfolding retry_provisioning_cleanup_def
    by (rule preserves_reads) (use assms(1) preserves_retry_jobs [of env "[]" entries entries] in \<open>auto simp: known_ok_def\<close>)
  from preservesD [OF this _ assms(3)] assms(2,4) show ?thesis by (simp add: resets_justified_def)
qed

section \<open>A session that terminates an idle instance\<close>

definition sample_node :: compute_node where
  "sample_node = \<lparr>n_host = Some ''ip-10-0-0-1'', n_cluster_name = Some ''idea'', n_states = Some [NS_FREE],
     n_queue_type = Some ''compute'', n_queue = None, n_last_used_time = None, n_last_state_changed_time = None,
     n_availability_zone = None, n_subnet_id = None, n_instance_id = Some ''i-1'', n_instance_type = None,
     n_instance_ami = None, n_instance_profile = None, n_job_id = Some ''7'', n_job_group = None,
     n_scaling_mode = Some SINGLE_JOB, n_keep_forever = None, n_terminate_when_idle = None,
     n_compute_stack = Some ''idea-7'', n_stack_id = None, n_lifecycle = None, n_tenancy = None,
     n_spot_fleet_request = None, n_auto_scaling_group = Some ''asg'', n_spot = None, n_spot_price = None,
     n_enable_ht_support = None, n_resources_available = None, n_launch_time = None, n_jobs = None\<rparr>"

definition sample_idle_instance :: ec2_instance where
  "sample_idle_instance = (sample_instance ''c5.large'')\<lparr>i_private_dns_name := Some ''ip-10-0-0-1'',
     i_instance_id := Some ''i-1'', i_aws_autoscaling_group_name := Some ''asg'', i_soca_job_id := Some ''7'',
     i_soca_compute_stack := Some ''idea-7'', i_launch_time := Some 0\<rparr>"

definition sample_hk_job :: soca_job where
  "sample_hk_job = (sample_ri_job 1)\<lparr>job_id := Some ''8'', state := Some JS_QUEUED, provisioned := Some True\<rparr>"

definition sample_hk_env :: hk_env where
  "sample_hk_env = \<lparr>hk_now = 3600000000, hk_fails = (\<lambda>_. None), hk_cluster_name = Some ''idea'', hk_fmt = (\<lambda>_. []),
     hk_list_nodes = Inr [sample_node], hk_instance = (\<lambda>_. Some sample_idle_instance), hk_job = (\<lambda>_. None),
     hk_pending_jobs = (\<lambda>_. Inr 0), hk_desired_capacity = (\<lambda>_. 0), hk_spot_fleets = (\<lambda>_. Inr []),
     hk_asgs = (\<lambda>_. Inr [(''AutoScalingGroups'', PList [PDict [(''DesiredCapacity'', PInt 1)]])]),
     hk_get_node = (\<lambda>_. Inr (Some sample_node)), hk_directory_provider = None, hk_ad_queue_url = None,
     hk_aws_region = Inr [], hk_aws_account = Inr [], hk_required_cluster_name = Inr [], hk_hostname_prefix = ''IDEA-'',
     hk_shake_256 = (\<lambda>_ _. []), hk_queued_jobs = Inr [Inr (Some sample_hk_job)], hk_stack_timeout_secs = Some 1800,
     hk_scheduler_job = (\<lambda>_. Inr None), hk_has_provisioning_queue = (\<lambda>_. Inr True), hk_digest = (\<lambda>s. s),
     hk_stack = (\<lambda>_. sample_prov_env None), hk_default_vcpus = (\<lambda>_. Inr (Some 2)), hk_duration_ms = 0\<rparr>"

definition sample_hk_end :: hk_session where
  "sample_hk_end = snd (hk_begin sample_hk_env new_hk_session)"

lemma sample_hk_run: "hk_begin sample_hk_env new_hk_session = (Inr (), sample_hk_end)"
proof -
  have "fst (hk_begin sample_hk_env new_hk_session) = Inr ()" by code_simp
  then show ?thesis unfolding sample_hk_end_def by (metis prod.collapse)
qed

lemma sample_hk_effects:
  "take 4 (hs_effects sample_hk_end) =
     [Metric ''nodes_idle'' (Some ''compute'') 1, Metric ''instances_running'' None 1,
      SetOffline (Some ''ip-10-0-0-1''), Terminate (Some ''i-1'') False]"
  by code_simp

lemma terminated_instances_were_idle_witness:
  "\<exists>nodes node i pre. hk_list_nodes sample_hk_env = Inr nodes \<and> node \<in> set nodes \<and>
    hk_instance sample_hk_env (n_instance_id node) = Some i \<and> i_instance_id i = Some ''i-1'' \<and>
    can_terminate sample_hk_env i node = Inr True \<and> SetOffline (i_private_dns_name i) \<in> set pre"
proof -
  have "hs_effects sample_hk_end = [Metric ''nodes_idle'' (Some ''compute'') 1, Metric ''instances_running'' None 1,
      SetOffline (Some ''ip-10-0-0-1'')] @ Terminate (Some ''i-1'') False # drop 4 (hs_effects sample_hk_end)"
    using sample_hk_effects append_take_drop_id [of 4 "hs_effects sample_hk_end"] by simp
  from terminated_instances_were_idle [OF sample_hk_run this] show ?thesis by blast
qed

lemma active_job_keeps_instance_witness:
  "i_is_valid_idea_compute_node sample_idle_instance \<and> can_terminate sample_hk_env sample_idle_instance sample_node = Inr True"
proof -
  have c: "can_terminate sample_hk_env sample_idle_instance sample_node = Inr True" by code_simp
  with active_job_keeps_instance [OF c] show ?thesis by simp
qed

lemma running_duration_reversed_witness: "running_duration sample_hk_env sample_idle_instance = Inr (86400 - 3600)"
  by (rule running_duration_reversed [where t = 0]) (simp_all add: sample_idle_instance_def sample_hk_env_def)

lemma reset_only_stuck_jobs_witness:
  "reset_justified sample_hk_env [Inr (Some sample_hk_job)] (Some ''8'')"
proof -
  let ?final = "snd (retry_provisioning_cleanup sample_hk_env new_hk_session)"
  have "ResetJob (Some ''8'') \<in> set (hs_effects ?final)" by code_simp
  moreover have "retry_provisioning_cleanup sample_hk_env new_hk_session =
      (fst (retry_provisioning_cleanup sample_hk_env new_hk_session), ?final)" by simp
  moreover have "hk_queued_jobs sample_hk_env = Inr [Inr (Some sample_hk_job)]" by (simp add: sample_hk_env_def)
  moreover have "hs_effects new_hk_session = []" by (simp add: new_hk_session_def)
  ultimately show ?thesis using reset_only_stuck_jobs by blast
qed

end
