(* ===== verification/Api_Auth.thy ===== *)
theory Api_Auth
  imports EC2_Data
begin

text \<open>
  Who may call the API: \<open>GroupNameHelper\<close> (\<open>ideasdk/utils/group_name_helper.py\<close>), \<open>TokenService\<close>
  (\<open>ideasdk/auth/token_service.py\<close>) and \<open>ApiInvocationContext\<close> (\<open>ideasdk/api/api_invocation_context.py\<close>). The JWT
  library is \<open>to_jwt\<close>: what decoding a token answers, with or without the test of its expiration; the HTTP client is
  \<open>to_post\<close>. The clock does not move during an invocation, so what the code remembers of a decoded token is what
  decoding it again gives.
\<close>

section \<open>Group names\<close>

definition build_group_name :: "string \<Rightarrow> string \<Rightarrow> string" where
  "build_group_name group_type name = name @ ''-'' @ group_type @ ''-group''"

definition cluster_group :: "string \<Rightarrow> string" where
  "cluster_group configured =
     (if endswith ''cluster-group'' configured then configured else build_group_name ''cluster'' configured)"

definition get_module_administrators_group :: "string \<Rightarrow> string" where
  "get_module_administrators_group module_id = build_group_name ''module'' (module_id @ ''-administrators'')"

definition get_module_users_group :: "string \<Rightarrow> string" where
  "get_module_users_group module_id = build_group_name ''module'' (module_id @ ''-users'')"

definition get_project_group :: "string \<Rightarrow> string" where
  "get_project_group project_code = build_group_name ''project'' project_code"

definition get_default_project_group :: string where
  "get_default_project_group = get_project_group ''default''"

definition get_user_group :: "string \<Rightarrow> string" where
  "get_user_group username = build_group_name ''user'' username"

section \<open>Tokens\<close>

datatype jwt_error = ExpiredSignature | InvalidToken | OtherError exc

datatype authorization_type = AT_ADMINISTRATOR | AT_MANAGER | AT_USER | AT_APP

record api_authorization =
  az_type :: authorization_type
  az_username :: "string option"
  az_client_id :: "string option"
  az_groups :: "string list"
  az_scopes :: "string list option"
  az_invocation_source :: "string option"

record token_request =
  tr_url :: string
  tr_basic_auth :: "string option"
  tr_data :: "(string \<times> string) list"

record auth_result =
  ar_access_token :: "string option"
  ar_refresh_token :: "string option"
  ar_id_token :: "string option"
  ar_expires_in :: "int option"
  ar_token_type :: "string option"

text \<open>The options, and what the service relies on; \<open>to_post\<close> may answer differently to every request made.\<close>

record token_options =
  to_provider_url :: "string option"
  to_domain_url :: "string option"
  to_client_id :: "string option"
  to_client_secret :: "string option"
  to_client_credentials_scope :: "string list option"
  to_refresh_token :: "string option"
  to_administrators_group_name :: "string option"
  to_managers_group_name :: "string option"
  to_jwt :: "string \<Rightarrow> bool \<Rightarrow> jwt_error + pydict"
  to_post :: "token_request list \<Rightarrow> token_request \<Rightarrow> pydict res"
  to_post_status :: "token_request \<Rightarrow> int"
  to_basic_auth :: "string \<Rightarrow> string \<Rightarrow> string"
  to_sso_client_id :: "string res"
  to_sso_client_secret :: "string res"
  to_fmt :: "pyval \<Rightarrow> string"

record token_service =
  tk_client_credentials_grant :: "auth_result option"
  tk_refresh_token_grant :: "auth_result option"
  tk_sso_client_id :: "string option"
  tk_sso_client_secret :: "string option"
  tk_requests :: "token_request list"

definition unauthorized_access :: exc where
  "unauthorized_access = SocaException ''UNAUTHORIZED_ACCESS''"

definition validate_options :: "token_options \<Rightarrow> unit res" where
  "validate_options cfg =
     (if is_empty_opt_str (to_provider_url cfg) then Inl (SocaException ''CONFIG_ERROR'')
      else if is_empty_opt_str (to_domain_url cfg) then Inl (SocaException ''CONFIG_ERROR'') else Inr ())"

definition new_token_service :: "token_options \<Rightarrow> token_service res" where
  "new_token_service cfg = bindE (validate_options cfg) (\<lambda>_.
     Inr \<lparr>tk_client_credentials_grant = None, tk_refresh_token_grant = None, tk_sso_client_id = None,
        tk_sso_client_secret = None, tk_requests = []\<rparr>)"

definition decode_token :: "token_options \<Rightarrow> string option \<Rightarrow> bool \<Rightarrow> pydict res" where
  "decode_token cfg token verify_exp =
     (if is_empty_opt_str token then Inl unauthorized_access
      else case to_jwt cfg (the token) verify_exp of
        Inl ExpiredSignature \<Rightarrow> Inl (SocaException ''AUTH_TOKEN_EXPIRED'')
      | Inl InvalidToken \<Rightarrow> Inl unauthorized_access
      | Inl (OtherError e) \<Rightarrow> Inl e
      | Inr d \<Rightarrow> Inr d)"

text \<open>The handler waits for an error of the JWT library, which \<open>decode_token\<close> has already turned into its own.\<close>

definition is_token_expired :: "token_options \<Rightarrow> string option \<Rightarrow> bool res" where
  "is_token_expired cfg token = bindE (decode_token cfg token True) (\<lambda>_. Inr False)"

fun string_of :: "pyval \<Rightarrow> string res" where
  "string_of (PStr s) = Inr s"
| "string_of _ = Inl ValidationError"

definition token_authorization :: "token_options \<Rightarrow> pydict \<Rightarrow> api_authorization res" where
  "token_authorization cfg decoded =
     (let username = get_value_as_string (to_fmt cfg) ''username'' decoded None;
          groups = opt_or (get_value_as_list ''cognito:groups'' decoded (Some [])) [];
          token_scope = get_value_as_string (to_fmt cfg) ''scope'' decoded None;
          client = get_value_as_string (to_fmt cfg) ''client_id'' decoded None;
          admins = to_administrators_group_name cfg;
          is_member = (\<lambda>g. (case g of None \<Rightarrow> PNone | Some s \<Rightarrow> PStr s) \<in> set groups);
          by_group = (if \<not> is_empty_opt_str admins \<and> is_member admins then Some AT_ADMINISTRATOR
                      else if \<not> is_empty_opt_str admins \<and> is_member (to_managers_group_name cfg) then Some AT_MANAGER
                      else None);
          t = (if is_empty_opt_str username then AT_APP else opt_or by_group AT_USER)
      in bindE (traverseE string_of groups) (\<lambda>gs.
           Inr \<lparr>az_type = t, az_username = username, az_client_id = client, az_groups = gs,
                az_scopes = (if is_empty_opt_str token_scope then None
                             else Some (split_char (CHR '' '') (the token_scope))),
                az_invocation_source = None\<rparr>))"

definition token_scope_authorized :: "token_options \<Rightarrow> string option \<Rightarrow> string \<Rightarrow> bool \<Rightarrow> bool res" where
  "token_scope_authorized cfg access_token scope verify_exp =
     (if is_empty_opt_str access_token then Inr False
      else if is_empty_str scope then Inr False
      else bindE (decode_token cfg access_token verify_exp) (\<lambda>d.
           bindE (token_authorization cfg d) (\<lambda>a.
             if az_type a \<noteq> AT_APP then Inr False
             else Inr (case az_scopes a of None \<Rightarrow> False | Some ss \<Rightarrow> scope \<in> set ss))))"

definition token_is_administrator :: "token_options \<Rightarrow> string option \<Rightarrow> bool \<Rightarrow> bool res" where
  "token_is_administrator cfg access_token verify_exp =
     (if is_empty_opt_str access_token then Inr False
      else if is_empty_opt_str (to_administrators_group_name cfg) then Inr False
      else bindE (decode_token cfg access_token verify_exp) (\<lambda>d.
           bindE (token_authorization cfg d) (\<lambda>a. Inr (az_type a = AT_ADMINISTRATOR))))"

definition token_is_manager :: "token_options \<Rightarrow> string option \<Rightarrow> bool \<Rightarrow> bool res" where
  "token_is_manager cfg access_token verify_exp =
     (if is_empty_opt_str access_token then Inr False
      else if is_empty_opt_str (to_managers_group_name cfg) then Inr False
      else bindE (decode_token cfg access_token verify_exp) (\<lambda>d.
           bindE (token_authorization cfg d) (\<lambda>a. Inr (az_type a = AT_MANAGER))))"

definition token_username :: "token_options \<Rightarrow> string option \<Rightarrow> bool \<Rightarrow> string option res" where
  "token_username cfg access_token verify_exp =
     (if is_empty_opt_str access_token then Inr None
      else bindE (decode_token cfg access_token verify_exp) (\<lambda>d.
           Inr (get_value_as_string (to_fmt cfg) ''username'' d None)))"

section \<open>Fetching tokens\<close>

definition oauth2_access_token_url :: "token_options \<Rightarrow> string" where
  "oauth2_access_token_url cfg = opt_or (to_domain_url cfg) ''None'' @ ''/oauth2/token''"

definition oauth2_revoke_url :: "token_options \<Rightarrow> string" where
  "oauth2_revoke_url cfg = opt_or (to_domain_url cfg) ''None'' @ ''/oauth2/revoke''"

definition post :: "token_options \<Rightarrow> token_request \<Rightarrow> (token_service, pydict) act" where
  "post cfg r =
     bindS (gets tk_requests) (\<lambda>made.
     thenS (modify (\<lambda>s. s\<lparr>tk_requests := tk_requests s @ [r]\<rparr>)) (reads (\<lambda>_. to_post cfg made r)))"

definition auth_result_of :: "token_options \<Rightarrow> pydict \<Rightarrow> auth_result res" where
  "auth_result_of cfg d =
     bindE (get_value_as_int ''expires_in'' d None) (\<lambda>expires.
       Inr \<lparr>ar_access_token = get_value_as_string (to_fmt cfg) ''access_token'' d None, ar_refresh_token = None,
            ar_id_token = None, ar_expires_in = expires,
            ar_token_type = get_value_as_string (to_fmt cfg) ''token_type'' d None\<rparr>)"

text \<open>\<open>get_cached_grant\<close>, the nested function both grants use.\<close>

definition get_cached_grant :: "token_options \<Rightarrow> bool \<Rightarrow> auth_result option \<Rightarrow> auth_result option res" where
  "get_cached_grant cfg force_renewal grant =
     (if force_renewal then Inr None
      else case grant of
        None \<Rightarrow> Inr None
      | Some g \<Rightarrow> bindE (is_token_expired cfg (ar_access_token g)) (\<lambda>expired. Inr (if expired then None else Some g)))"

definition access_token_using_client_credentials :: "token_options \<Rightarrow> bool \<Rightarrow> (token_service, auth_result) act" where
  "access_token_using_client_credentials cfg force_renewal =
     (if is_empty_opt_str (to_client_id cfg) \<or> is_empty_opt_str (to_client_secret cfg) then throw (SocaException ''GENERAL_ERROR'')
      else if is_empty_opt_list (to_client_credentials_scope cfg) then throw (SocaException ''GENERAL_ERROR'')
      else bindS (reads (\<lambda>s. get_cached_grant cfg force_renewal (tk_client_credentials_grant s))) (\<lambda>cached.
           case cached of
             Some g \<Rightarrow> ret g
           | None \<Rightarrow>
               bindS (post cfg \<lparr>tr_url = oauth2_access_token_url cfg,
                        tr_basic_auth = Some (to_basic_auth cfg (the (to_client_id cfg)) (the (to_client_secret cfg))),
                        tr_data = [(''grant_type'', ''client_credentials''),
                                   (''scope'', join '' '' (the (to_client_credentials_scope cfg)))]\<rparr>) (\<lambda>answer.
               bindS (reads (\<lambda>_. auth_result_of cfg answer)) (\<lambda>g.
               thenS (modify (\<lambda>s. s\<lparr>tk_client_credentials_grant := Some g\<rparr>)) (ret g)))))"

definition access_token_using_refresh_token :: "token_options \<Rightarrow> bool \<Rightarrow> (token_service, auth_result) act" where
  "access_token_using_refresh_token cfg force_renewal =
     (if is_empty_opt_str (to_refresh_token cfg) then throw (SocaException ''GENERAL_ERROR'')
      else bindS (reads (\<lambda>s. get_cached_grant cfg force_renewal (tk_refresh_token_grant s))) (\<lambda>cached.
           case cached of
             Some g \<Rightarrow> ret g
           | None \<Rightarrow>
               bindS (post cfg \<lparr>tr_url = oauth2_access_token_url cfg, tr_basic_auth = None,
                        tr_data = [(''grant_type'', ''refresh_token''),
                                   (''refresh_token'', the (to_refresh_token cfg))]\<rparr>) (\<lambda>answer.
               bindS (reads (\<lambda>_. auth_result_of cfg answer)) (\<lambda>g.
               thenS (modify (\<lambda>s. s\<lparr>tk_refresh_token_grant := Some g\<rparr>)) (ret g)))))"

definition get_access_token :: "token_options \<Rightarrow> bool \<Rightarrow> (token_service, string option) act" where
  "get_access_token cfg force_renewal =
     bindS (if \<not> is_empty_opt_str (to_refresh_token cfg)
            then bindS (access_token_using_refresh_token cfg force_renewal) (\<lambda>g. ret (Some g)) else ret None) (\<lambda>first.
     bindS (if \<not> (is_empty_opt_str (to_client_id cfg) \<and> is_empty_opt_str (to_client_secret cfg))
            then bindS (access_token_using_client_credentials cfg force_renewal) (\<lambda>g. ret (Some g)) else ret first) (\<lambda>result.
     ret (case result of None \<Rightarrow> None | Some g \<Rightarrow> ar_access_token g)))"

definition sso_client :: "token_options \<Rightarrow> (token_service, string \<times> string) act" where
  "sso_client cfg =
     bindS (gets (\<lambda>s. (tk_sso_client_id s, tk_sso_client_secret s))) (\<lambda>known.
       case known of
         (Some i, Some secret) \<Rightarrow> ret (i, secret)
       | _ \<Rightarrow>
           bindS (reads (\<lambda>_. to_sso_client_id cfg)) (\<lambda>i. bindS (reads (\<lambda>_. to_sso_client_secret cfg)) (\<lambda>secret.
           thenS (modify (\<lambda>s. s\<lparr>tk_sso_client_id := Some i, tk_sso_client_secret := Some secret\<rparr>)) (ret (i, secret)))))"

definition access_token_using_sso_auth_code ::
  "token_options \<Rightarrow> string option \<Rightarrow> string option \<Rightarrow> (token_service, auth_result) act" where
  "access_token_using_sso_auth_code cfg authorization_code redirect_uri =
     (if is_empty_opt_str authorization_code then throw (SocaException ''INVALID_PARAMS'')
      else if is_empty_opt_str redirect_uri then throw (SocaException ''INVALID_PARAMS'')
      else bindS (sso_client cfg) (\<lambda>(client, secret).
           bindS (post cfg \<lparr>tr_url = oauth2_access_token_url cfg, tr_basic_auth = Some (to_basic_auth cfg client secret),
                    tr_data = [(''grant_type'', ''authorization_code''), (''code'', the authorization_code), (''client_id'', client),
                               (''redirect_uri'', the redirect_uri)]\<rparr>) (\<lambda>answer.
             if \<not> is_empty_opt_str (get_value_as_string (to_fmt cfg) ''error'' answer None) then throw unauthorized_access
             else bindS (reads (\<lambda>_. auth_result_of cfg answer)) (\<lambda>g.
               ret (g\<lparr>ar_refresh_token := get_value_as_string (to_fmt cfg) ''refresh_token'' answer None,
                      ar_id_token := get_value_as_string (to_fmt cfg) ''id_token'' answer None\<rparr>)))))"

text \<open>The test of the secret, \<open>is_empty(secret) is None\<close>, never holds.\<close>

definition revoke_client :: "token_options \<Rightarrow> bool \<Rightarrow> (token_service, string option \<times> string option) act" where
  "revoke_client cfg sso_auth =
     (if sso_auth
      then thenS
          (bindS (gets tk_sso_client_id) (\<lambda>known.
             if is_empty_opt_str known
             then bindS (reads (\<lambda>_. to_sso_client_id cfg)) (\<lambda>i.
                  thenS (modify (\<lambda>s. s\<lparr>tk_sso_client_id := Some i\<rparr>))
                  (bindS (reads (\<lambda>_. to_sso_client_secret cfg)) (\<lambda>secret.
                   modify (\<lambda>s. s\<lparr>tk_sso_client_secret := Some secret\<rparr>))))
             else ret ()))
          (gets (\<lambda>s. (tk_sso_client_id s, tk_sso_client_secret s)))
      else ret (to_client_id cfg, to_client_secret cfg))"

definition revoke_authorization :: "token_options \<Rightarrow> string option \<Rightarrow> bool \<Rightarrow> (token_service, unit) act" where
  "revoke_authorization cfg refresh_token sso_auth =
     (if is_empty_opt_str refresh_token then throw (SocaException ''INVALID_PARAMS'')
      else bindS (revoke_client cfg sso_auth) (\<lambda>(client, secret).
        if is_empty_opt_str client \<or> is_empty_opt_str secret then throw (SocaException ''GENERAL_ERROR'')
        else let r = \<lparr>tr_url = oauth2_revoke_url cfg, tr_basic_auth = Some (to_basic_auth cfg (the client) (the secret)),
                      tr_data = [(''token'', the refresh_token), (''client_id'', the client)]\<rparr> in
             thenS (modify (\<lambda>s. s\<lparr>tk_requests := tk_requests s @ [r]\<rparr>))
               (if to_post_status cfg r \<noteq> 200 then throw (SocaException ''AUTH_TOKEN_REVOCATION_FAILED'') else ret ())))"

section \<open>An invocation\<close>

record invocation =
  iv_request :: pydict
  iv_source :: string
  iv_token :: "pydict option"
  iv_tokens :: "token_options option"
  iv_module_id :: string
  iv_administrator_username :: "string res"
  iv_fmt :: "pyval \<Rightarrow> string"

definition access_token :: "invocation \<Rightarrow> string option" where
  "access_token iv =
     (let d = opt_or (iv_token iv) [] in
      if get_value_as_string (iv_fmt iv) ''token_type'' d None \<noteq> Some ''Bearer'' then None
      else get_value_as_string (iv_fmt iv) ''token'' d None)"

definition is_access_token_expired :: "invocation \<Rightarrow> bool res" where
  "is_access_token_expired iv =
     (if is_empty_opt_str (access_token iv) then Inr True
      else case iv_tokens iv of None \<Rightarrow> Inr True | Some cfg \<Rightarrow> is_token_expired cfg (access_token iv))"

definition is_scope_authorized :: "invocation \<Rightarrow> string \<Rightarrow> bool res" where
  "is_scope_authorized iv scope =
     (if is_empty_opt_str (access_token iv) then Inr False
      else case iv_tokens iv of None \<Rightarrow> Inr False
         | Some cfg \<Rightarrow> token_scope_authorized cfg (access_token iv) scope True)"

definition is_unix_domain_socket_invocation :: "invocation \<Rightarrow> bool" where
  "is_unix_domain_socket_invocation iv = (iv_source iv = ''unix-socket'')"

definition has_access_token :: "invocation \<Rightarrow> bool" where
  "has_access_token iv = (\<not> is_empty_opt_str (access_token iv))"

definition get_decoded_token :: "invocation \<Rightarrow> pydict option res" where
  "get_decoded_token iv =
     (if is_empty_opt_str (access_token iv) then Inr None
      else bindE (required AttributeError (iv_tokens iv)) (\<lambda>cfg.
           bindE (decode_token cfg (access_token iv) True) (\<lambda>d. Inr (Some d))))"

definition get_authorization :: "invocation \<Rightarrow> api_authorization res" where
  "get_authorization iv =
     (if is_unix_domain_socket_invocation iv
      then bindE (iv_administrator_username iv) (\<lambda>u.
             Inr \<lparr>az_type = AT_ADMINISTRATOR, az_username = Some u, az_client_id = None, az_groups = [], az_scopes = None,
                  az_invocation_source = Some ''unix-socket''\<rparr>)
      else if \<not> has_access_token iv then Inl unauthorized_access
      else bindE (get_decoded_token iv) (\<lambda>d.
           bindE (required AttributeError (iv_tokens iv)) (\<lambda>cfg.
           bindE (token_authorization cfg (opt_or d [])) (\<lambda>a. Inr (a\<lparr>az_invocation_source := Some ''http''\<rparr>)))))"

definition is_administrator :: "invocation \<Rightarrow> bool res" where
  "is_administrator iv = bindE (get_authorization iv) (\<lambda>a. Inr (az_type a = AT_ADMINISTRATOR))"

definition is_manager :: "invocation \<Rightarrow> bool res" where
  "is_manager iv = bindE (get_authorization iv) (\<lambda>a.
     Inr (if az_type a = AT_MANAGER then True
          else if az_type a = AT_USER then get_module_administrators_group (iv_module_id iv) \<in> set (az_groups a)
          else False))"

definition is_authenticated_user :: "invocation \<Rightarrow> bool res" where
  "is_authenticated_user iv = bindE (get_authorization iv) (\<lambda>a.
     Inr (az_type a \<in> {AT_USER, AT_ADMINISTRATOR, AT_MANAGER}))"

definition is_authenticated_app :: "invocation \<Rightarrow> bool res" where
  "is_authenticated_app iv = bindE (get_authorization iv) (\<lambda>a. Inr (az_type a = AT_APP))"

definition is_authenticated :: "invocation \<Rightarrow> bool res" where
  "is_authenticated iv = bindE (get_authorization iv) (\<lambda>_. Inr True)"

definition is_authorized_user :: "invocation \<Rightarrow> bool res" where
  "is_authorized_user iv =
     bindE (is_administrator iv) (\<lambda>admin. if admin then Inr True
      else bindE (is_manager iv) (\<lambda>manager. if manager then Inr True
      else bindE (get_authorization iv) (\<lambda>a.
        Inr (if az_type a = AT_USER then get_module_users_group (iv_module_id iv) \<in> set (az_groups a) else False))))"

definition is_authorized_app :: "invocation \<Rightarrow> bool res" where
  "is_authorized_app iv = bindE (get_authorization iv) (\<lambda>a.
     Inr (if az_type a \<noteq> AT_APP then False
          else case az_scopes a of
            None \<Rightarrow> False
          | Some scopes \<Rightarrow> list_ex (\<lambda>s. s \<in> {iv_module_id iv @ ''/read'', iv_module_id iv @ ''/write''}) scopes))"

fun all_scopes_authorized :: "invocation \<Rightarrow> string list \<Rightarrow> bool res" where
  "all_scopes_authorized iv [] = Inr True"
| "all_scopes_authorized iv (s # ss) =
     bindE (is_scope_authorized iv s) (\<lambda>b. if b then all_scopes_authorized iv ss else Inr False)"

definition is_authorized :: "invocation \<Rightarrow> bool \<Rightarrow> string list option \<Rightarrow> bool res" where
  "is_authorized iv elevated_access scopes =
     bindE (if elevated_access
            then bindE (is_administrator iv) (\<lambda>admin. if admin then Inr True else is_manager iv)
            else is_authorized_user iv) (\<lambda>user.
     bindE (if is_empty_opt_list scopes then Inr False
            else bindE (is_authorized_app iv) (\<lambda>app.
                   if app then all_scopes_authorized iv (the scopes) else Inr False)) (\<lambda>app.
     Inr (user \<or> app)))"

definition get_username :: "invocation \<Rightarrow> string option res" where
  "get_username iv =
     (case iv_tokens iv of None \<Rightarrow> Inr None
      | Some _ \<Rightarrow> bindE (get_authorization iv) (\<lambda>a. Inr (az_username a)))"

section \<open>Requests and responses\<close>

definition iv_header :: "invocation \<Rightarrow> pydict option" where
  "iv_header iv = get_value_as_dict ''header'' (iv_request iv) None"

definition iv_namespace :: "invocation \<Rightarrow> string option" where
  "iv_namespace iv = get_value_as_string (iv_fmt iv) ''namespace'' (opt_or (iv_header iv) []) None"

definition iv_request_id :: "invocation \<Rightarrow> string option" where
  "iv_request_id iv = get_value_as_string (iv_fmt iv) ''request_id'' (opt_or (iv_header iv) []) None"

definition iv_request_payload :: "invocation \<Rightarrow> pydict" where
  "iv_request_payload iv = opt_or (get_value_as_dict ''payload'' (iv_request iv) (Some [])) []"

definition ascii_alnum :: "char \<Rightarrow> bool" where
  "ascii_alnum c = (let n = of_char c :: nat in (48 \<le> n \<and> n \<le> 57) \<or> (65 \<le> n \<and> n \<le> 90) \<or> (97 \<le> n \<and> n \<le> 122))"

definition newline :: char where
  "newline = CHR 0x0A"

text \<open>A \<open>$\<close> also matches before a newline that ends the text.\<close>

definition before_end :: "string \<Rightarrow> string list" where
  "before_end s = (if s \<noteq> [] \<and> last s = newline then [s, butlast s] else [s])"

text \<open>\<open>^[A-Za-z0-9]+.{1}[A-Za-z0-9]+$\<close>: the dot is any character but a newline.\<close>

definition matches_namespace :: "string \<Rightarrow> bool" where
  "matches_namespace s =
     list_ex (\<lambda>t. list_ex (\<lambda>i. list_all ascii_alnum (take i t) \<and> t ! i \<noteq> newline \<and>
        list_all ascii_alnum (drop (Suc i) t) \<and> Suc i < List.length t) [1..<List.length t]) (before_end s)"

definition matches_request_id :: "string \<Rightarrow> bool" where
  "matches_request_id s =
     list_ex (\<lambda>t. t \<noteq> [] \<and> list_all (\<lambda>c. ascii_alnum c \<or> c = CHR ''-'' \<or> c = CHR ''_'') t) (before_end s)"

definition validate_request :: "invocation \<Rightarrow> unit res" where
  "validate_request iv =
     (if iv_header iv = None then Inl (SocaException ''INVALID_PARAMS'')
      else case iv_namespace iv of
        None \<Rightarrow> Inl (SocaException ''INVALID_PARAMS'')
      | Some ns \<Rightarrow>
          if \<not> matches_namespace ns then Inl (SocaException ''INVALID_PARAMS'')
          else (case iv_request_id iv of
                  None \<Rightarrow> Inr ()
                | Some rid \<Rightarrow> if matches_request_id rid then Inr () else Inl (SocaException ''INVALID_PARAMS'')))"

definition is_valid_request :: "invocation \<Rightarrow> bool res" where
  "is_valid_request iv =
     (case validate_request iv of
        Inr _ \<Rightarrow> Inr True
      | Inl (SocaException ecode) \<Rightarrow> if ecode = ''INVALID_PARAMS'' then Inr False else Inl (SocaException ecode)
      | Inl e \<Rightarrow> Inl e)"

definition header_value :: "invocation \<Rightarrow> pyval" where
  "header_value iv = (case iv_header iv of None \<Rightarrow> PNone | Some h \<Rightarrow> PDict h)"

definition payload_value :: "pydict option \<Rightarrow> pyval" where
  "payload_value p = (case p of None \<Rightarrow> PNone | Some d \<Rightarrow> PDict d)"

text \<open>The response of an invocation, None before the first answer.\<close>

definition respond_success :: "invocation \<Rightarrow> pydict option \<Rightarrow> pydict option \<Rightarrow> pydict" where
  "respond_success iv payload response =
     (case response of
        None \<Rightarrow> [(''header'', header_value iv), (''success'', PBool True), (''payload'', payload_value payload)]
      | Some r \<Rightarrow> assign_key ''payload'' (payload_value payload) (assign_key ''success'' (PBool True) r))"

definition respond_fail :: "invocation \<Rightarrow> string \<Rightarrow> string \<Rightarrow> pydict option \<Rightarrow> pydict option \<Rightarrow> pydict" where
  "respond_fail iv ecode message payload response =
     assign_key ''payload'' (payload_value payload) (assign_key ''message'' (PStr message)
       (assign_key ''error_code'' (PStr ecode) (assign_key ''success'' (PBool False)
         (assign_key ''header'' (header_value iv) (opt_or response [])))))"

definition respond_exception :: "invocation \<Rightarrow> exc \<Rightarrow> string \<Rightarrow> pydict option \<Rightarrow> pydict" where
  "respond_exception iv e message response =
     (case e of
        SocaException ecode \<Rightarrow> respond_fail iv ecode message None response
      | _ \<Rightarrow> respond_fail iv ''GENERAL_ERROR'' message None response)"

definition is_success :: "pydict option \<Rightarrow> bool" where
  "is_success response =
     (case response of None \<Rightarrow> False
      | Some r \<Rightarrow> if r = [] then False else opt_or (get_value_as_bool ''success'' r (Some False)) False)"

end
