(* ===== verification/Auth_Properties.thy ===== *)
theory Auth_Properties
  imports Api_Auth
begin

text \<open>
  What the authorization of the API guarantees, the shape of the namespaces it accepts, and what becomes of an expired
  token.
\<close>

section \<open>An example\<close>

definition sample_jwt :: "string \<Rightarrow> bool \<Rightarrow> jwt_error + pydict" where
  "sample_jwt t verify_exp =
     (if t = ''app'' then Inr [(''scope'', PStr ''sched/read sched/write''), (''client_id'', PStr ''c1'')]
      else if t = ''old'' \<and> verify_exp then Inl ExpiredSignature
      else if t = ''bob'' then Inr [(''username'', PStr ''bob''), (''cognito:groups'', PList [PStr ''managers''])]
      else Inl InvalidToken)"

definition sample_tokens :: token_options where
  "sample_tokens = \<lparr>to_provider_url = Some ''https://idp'', to_domain_url = Some ''https://auth'', to_client_id = Some ''c1'',
     to_client_secret = Some ''s1'', to_client_credentials_scope = Some [''sched/read''], to_refresh_token = None,
     to_administrators_group_name = Some ''admins'', to_managers_group_name = Some ''managers'',
     to_jwt = sample_jwt, to_post = \<lambda>_ _. Inr [(''access_token'', PStr ''app'')], to_post_status = \<lambda>_. 200,
     to_basic_auth = \<lambda>u v. u @ v, to_sso_client_id = Inr ''c2'', to_sso_client_secret = Inr ''s2'', to_fmt = \<lambda>_. ''''\<rparr>"

definition sample_invocation :: "string \<Rightarrow> invocation" where
  "sample_invocation t = \<lparr>iv_request = [], iv_source = ''http'',
     iv_token = Some [(''token_type'', PStr ''Bearer''), (''token'', PStr t)], iv_tokens = Some sample_tokens,
     iv_module_id = ''sched'', iv_administrator_username = Inr ''root'', iv_fmt = \<lambda>_. ''''\<rparr>"

definition sample_grant :: "string \<Rightarrow> auth_result" where
  "sample_grant t = \<lparr>ar_access_token = Some t, ar_refresh_token = None, ar_id_token = None, ar_expires_in = None,
     ar_token_type = None\<rparr>"

definition sample_service :: "auth_result option \<Rightarrow> token_service" where
  "sample_service g = \<lparr>tk_client_credentials_grant = g, tk_refresh_token_grant = None, tk_sso_client_id = None,
     tk_sso_client_secret = None, tk_requests = []\<rparr>"

section \<open>Authorization\<close>

lemma get_authorization_cases:
  assumes "get_authorization iv = Inr a" "\<not> is_unix_domain_socket_invocation iv"
  shows "\<exists>cfg d b. iv_tokens iv = Some cfg \<and> decode_token cfg (access_token iv) True = Inr d \<and>
    token_authorization cfg d = Inr b \<and> a = b\<lparr>az_invocation_source := Some ''http''\<rparr>"
  using assms by (auto simp: get_authorization_def get_decoded_token_def has_access_token_def bindE_Inr_iff split: if_splits)

lemma all_scopes_authorized_iff:
  "all_scopes_authorized iv ss = Inr True \<longleftrightarrow> (\<forall>s \<in> set ss. is_scope_authorized iv s = Inr True)"
  by (induction ss) (auto simp: bindE_Inr_iff split: if_splits)

lemma scope_authorized_member:
  assumes "is_scope_authorized iv s = Inr True" "iv_tokens iv = Some cfg" "decode_token cfg (access_token iv) True = Inr d"
    "token_authorization cfg d = Inr a"
  shows "\<exists>ss. az_scopes a = Some ss \<and> s \<in> set ss"
  using assms by (auto simp: is_scope_authorized_def token_scope_authorized_def bindE_Inr_iff split: if_splits option.splits)

text \<open>C15: An authorized invocation comes over the local socket, or carries a token that decodes and names an administrator, a
  manager, a user in the administrators group of the module, without elevation a user in its users group, or an
  application with a scope of the module and every scope asked for.\<close>

lemma authorized_invocations:
  assumes "is_authorized iv elevated scopes = Inr True" "\<not> is_unix_domain_socket_invocation iv"
  shows "\<exists>cfg d a. iv_tokens iv = Some cfg \<and> decode_token cfg (access_token iv) True = Inr d \<and>
    token_authorization cfg d = Inr a \<and>
    (case az_type a of
       AT_ADMINISTRATOR \<Rightarrow> True
     | AT_MANAGER \<Rightarrow> True
     | AT_USER \<Rightarrow> get_module_administrators_group (iv_module_id iv) \<in> set (az_groups a) \<or>
         (\<not> elevated \<and> get_module_users_group (iv_module_id iv) \<in> set (az_groups a))
     | AT_APP \<Rightarrow> (\<exists>granted asked. az_scopes a = Some granted \<and> scopes = Some asked \<and> asked \<noteq> [] \<and> set asked \<subseteq> set granted \<and>
         (iv_module_id iv @ ''/read'' \<in> set granted \<or> iv_module_id iv @ ''/write'' \<in> set granted)))"
proof -
  obtain a where a: "get_authorization iv = Inr a"
    using assms(1) by (cases elevated) (auto simp: is_authorized_def is_administrator_def is_authorized_user_def bindE_Inr_iff)
  from get_authorization_cases [OF a assms(2)] obtain cfg d b where
    b: "iv_tokens iv = Some cfg" "decode_token cfg (access_token iv) True = Inr d" "token_authorization cfg d = Inr b"
      "az_type b = az_type a" "az_groups b = az_groups a" "az_scopes b = az_scopes a" by auto
  have scopes: "set asked \<subseteq> set granted" if "all_scopes_authorized iv asked = Inr True" "az_scopes b = Some granted" for asked granted
    using that scope_authorized_member [OF _ b(1-3)] by (fastforce simp: all_scopes_authorized_iff)
  show ?thesis
  proof (cases "az_type a")
    case AT_USER
    with assms(1) a show ?thesis using b
      by (auto simp: is_authorized_def is_administrator_def is_manager_def is_authorized_user_def is_authorized_app_def
          bindE_Inr_iff split: if_splits)
  next
    case AT_APP
    with assms(1) a obtain asked where s: "scopes = Some asked" "asked \<noteq> []" "is_authorized_app iv = Inr True"
      "all_scopes_authorized iv asked = Inr True"
      by (cases scopes) (auto simp: is_authorized_def is_administrator_def is_manager_def is_authorized_user_def
          bindE_Inr_iff is_empty_opt_list_def split: if_splits)
    from s(3) a AT_APP obtain granted where "az_scopes a = Some granted"
      "iv_module_id iv @ ''/read'' \<in> set granted \<or> iv_module_id iv @ ''/write'' \<in> set granted"
      by (auto simp: is_authorized_app_def list_ex_iff split: option.splits)
    with s b scopes [OF s(4)] AT_APP show ?thesis by auto
  qed (use b in auto)
qed

text \<open>A token makes an administrator only of a named user in the configured administrators group, a manager only of a
  named user in the managers group, and an application exactly of a token without a user name.\<close>

lemma token_privileges:
  assumes "token_authorization cfg d = Inr a"
  shows "case az_type a of
      AT_ADMINISTRATOR \<Rightarrow> az_username a \<noteq> None \<and> (\<exists>g. to_administrators_group_name cfg = Some g \<and> g \<in> set (az_groups a))
    | AT_MANAGER \<Rightarrow> az_username a \<noteq> None \<and> (\<exists>g. to_managers_group_name cfg = Some g \<and> g \<in> set (az_groups a))
    | AT_USER \<Rightarrow> az_username a \<noteq> None
    | AT_APP \<Rightarrow> is_empty_opt_str (az_username a)"
proof -
  have strings: "PStr s \<in> set vs \<Longrightarrow> s \<in> set ss" "PNone \<notin> set vs" if "traverseE string_of vs = Inr ss" for vs ss s
    using that by (induction vs arbitrary: ss) (auto simp: bindE_Inr_iff elim!: string_of.elims)
  define groups where "groups = opt_or (get_value_as_list ''cognito:groups'' d (Some [])) []"
  from assms have gs: "traverseE string_of groups = Inr (az_groups a)"
    and t: "az_type a = (if is_empty_opt_str (az_username a) then AT_APP
        else opt_or (if \<not> is_empty_opt_str (to_administrators_group_name cfg) \<and>
                        tag_val (to_administrators_group_name cfg) \<in> set groups then Some AT_ADMINISTRATOR
                     else if \<not> is_empty_opt_str (to_administrators_group_name cfg) \<and>
                        tag_val (to_managers_group_name cfg) \<in> set groups then Some AT_MANAGER else None) AT_USER)"
    by (auto simp: token_authorization_def Let_def bindE_Inr_iff groups_def tag_val_def)
  have member: "\<exists>s. g = Some s \<and> s \<in> set (az_groups a)" if "tag_val g \<in> set groups" for g
    using that strings [OF gs] by (cases g) (auto simp: tag_val_def)
  have named: "az_username a \<noteq> None" if "\<not> is_empty_opt_str (az_username a)"
    using that by (cases "az_username a") (auto simp: is_empty_opt_str_def)
  show ?thesis
    using t member named by (cases "az_type a") (auto simp del: not_None_eq split: if_splits)
qed

text \<open>Over the network, without an access token every test of authorization raises the unauthorized access error.\<close>

lemma no_token_no_access:
  assumes "\<not> is_unix_domain_socket_invocation iv" "\<not> has_access_token iv"
  shows "is_authorized iv elevated scopes = Inl unauthorized_access \<and> is_authenticated iv = Inl unauthorized_access \<and>
    is_authenticated_user iv = Inl unauthorized_access \<and> is_authenticated_app iv = Inl unauthorized_access"
  using assms
  by (cases elevated) (simp_all add: is_authorized_def is_administrator_def is_authorized_user_def is_authenticated_def
      is_authenticated_user_def is_authenticated_app_def get_authorization_def)

section \<open>Group names\<close>

text \<open>The groups of projects, modules and users are kept apart: no project or user name gives the group of another
  kind, nor the users group of a module its administrators group.\<close>

lemma group_kinds_disjoint:
  "get_project_group p \<noteq> get_module_administrators_group m \<and> get_project_group p \<noteq> get_module_users_group m \<and>
   get_project_group p \<noteq> get_user_group u \<and> get_user_group u \<noteq> get_module_administrators_group m \<and>
   get_user_group u \<noteq> get_module_users_group m \<and> get_module_users_group m' \<noteq> get_module_administrators_group m"
proof -
  have at: "rev (get_project_group p) ! 6 = CHR ''t''" "rev (get_module_administrators_group m) ! 6 = CHR ''e''"
    "rev (get_module_users_group m) ! 6 = CHR ''e''" "rev (get_user_group u) ! 6 = CHR ''r''"
    "rev (get_module_users_group m') ! 15 = CHR ''e''" "rev (get_module_administrators_group m) ! 15 = CHR ''o''"
    for p m u m'
    by (simp_all add: get_project_group_def get_module_administrators_group_def get_module_users_group_def
        get_user_group_def build_group_name_def)
  have "get_project_group p \<noteq> get_module_administrators_group m" "get_project_group p \<noteq> get_module_users_group m"
    using at(1) [of p] at(2,3) [of m] by auto
  moreover have "get_project_group p \<noteq> get_user_group u" "get_user_group u \<noteq> get_module_administrators_group m"
    "get_user_group u \<noteq> get_module_users_group m"
    using at(1) [of p] at(2,3) [of m] at(4) [of u] by auto
  moreover have "get_module_users_group m' \<noteq> get_module_administrators_group m"
    using at(5) [of m'] at(6) [of m] by auto
  ultimately show ?thesis by blast
qed

section \<open>Expired tokens\<close>

text \<open>The test whether a token is expired never answers yes: for an expired token it raises.\<close>

lemma expiry_is_never_reported:
  "is_token_expired cfg token \<noteq> Inr True \<and>
   (case token of None \<Rightarrow> True
    | Some t \<Rightarrow> if \<not> is_empty_str t \<and> to_jwt cfg t True = Inl ExpiredSignature
                then is_token_expired cfg token = Inl (SocaException ''AUTH_TOKEN_EXPIRED'') else True)"
  by (auto simp: is_token_expired_def decode_token_def is_empty_opt_str_def bindE_def split: option.split sum.split)

text \<open>C16: An application whose cached grant has expired does not get a new one: asking for a token without forcing its
  renewal raises, makes no request, and changes nothing, so it raises for ever.\<close>

lemma expired_grant_never_renewed:
  assumes "tk_client_credentials_grant s = Some g" "ar_access_token g = Some t" "\<not> is_empty_str t"
    "to_jwt cfg t True = Inl ExpiredSignature"
    "\<not> is_empty_opt_str (to_client_id cfg)" "\<not> is_empty_opt_str (to_client_secret cfg)"
    "\<not> is_empty_opt_list (to_client_credentials_scope cfg)"
  shows "access_token_using_client_credentials cfg False s = (Inl (SocaException ''AUTH_TOKEN_EXPIRED''), s)"
  using assms
  by (simp add: access_token_using_client_credentials_def get_cached_grant_def is_token_expired_def decode_token_def
      is_empty_opt_str_def)

text \<open>With forced renewal a token is always asked for, and the new grant is the one remembered.\<close>

lemma forced_renewal_asks:
  assumes "access_token_using_client_credentials cfg True s = (Inr g, s')"
  shows "\<exists>r. tk_requests s' = tk_requests s @ [r] \<and> tr_url r = oauth2_access_token_url cfg \<and>
    (''grant_type'', ''client_credentials'') \<in> set (tr_data r) \<and> tk_client_credentials_grant s' = Some g"
  using assms
  by (auto simp: access_token_using_client_credentials_def get_cached_grant_def post_def act_simps
      split: if_splits sum.splits)

section \<open>Namespaces\<close>

text \<open>A namespace is accepted exactly when it is two alphanumeric words around any one character; a newline may follow.\<close>

lemma namespace_accepted:
  "matches_namespace s \<longleftrightarrow>
     (\<exists>a c b t. s \<in> {t, t @ [newline]} \<and> t = a @ [c] @ b \<and> a \<noteq> [] \<and> b \<noteq> [] \<and> c \<noteq> newline \<and>
        list_all ascii_alnum a \<and> list_all ascii_alnum b)"
proof -
  have ends: "t \<in> set (before_end s) \<longleftrightarrow> s = t \<or> s = t @ [newline]" for t
    by (cases s rule: rev_cases) (auto simp: before_end_def)
  have split: "(\<exists>i \<in> set [1..<List.length t]. list_all ascii_alnum (take i t) \<and> t ! i \<noteq> newline \<and>
        list_all ascii_alnum (drop (Suc i) t) \<and> Suc i < List.length t) \<longleftrightarrow>
      (\<exists>a c b. t = a @ [c] @ b \<and> a \<noteq> [] \<and> b \<noteq> [] \<and> c \<noteq> newline \<and> list_all ascii_alnum a \<and> list_all ascii_alnum b)"
    (is "?L \<longleftrightarrow> ?R") for t
  proof
    assume ?L
    then obtain i where i: "1 \<le> i" "list_all ascii_alnum (take i t)" "t ! i \<noteq> newline" "list_all ascii_alnum (drop (Suc i) t)"
      "Suc i < List.length t" by auto
    then have "t = take i t @ [t ! i] @ drop (Suc i) t" by (simp add: id_take_nth_drop)
    with i show ?R by (intro exI [of _ "take i t"] exI [of _ "t ! i"] exI [of _ "drop (Suc i) t"]) auto
  next
    assume ?R
    then obtain a c b where t: "t = a @ [c] @ b" "a \<noteq> []" "b \<noteq> []" "c \<noteq> newline" "list_all ascii_alnum a" "list_all ascii_alnum b"
      by blast
    have len: "List.length t = Suc (List.length a + List.length b)" "0 < List.length a" "0 < List.length b" using t(1-3) by simp_all
    show ?L
    proof (intro bexI [of _ "List.length a"] conjI)
      show "Suc (List.length a) < List.length t" using len by linarith
      show "List.length a \<in> set [1..<List.length t]" unfolding set_upt atLeastLessThan_iff using len by (intro conjI; linarith)
      show "list_all ascii_alnum (take (List.length a) t)" "t ! List.length a \<noteq> newline"
        "list_all ascii_alnum (drop (Suc (List.length a)) t)" unfolding t(1) using t(4-6) by simp_all
    qed
  qed
  have "matches_namespace s \<longleftrightarrow> (\<exists>t. t \<in> set (before_end s) \<and>
      (\<exists>i \<in> set [1..<List.length t]. list_all ascii_alnum (take i t) \<and> t ! i \<noteq> newline \<and>
        list_all ascii_alnum (drop (Suc i) t) \<and> Suc i < List.length t))"
    unfolding matches_namespace_def list_ex_iff by (rule Bex_def)
  also have "\<dots> \<longleftrightarrow> (\<exists>t. (s = t \<or> s = t @ [newline]) \<and>
      (\<exists>a c b. t = a @ [c] @ b \<and> a \<noteq> [] \<and> b \<noteq> [] \<and> c \<noteq> newline \<and> list_all ascii_alnum a \<and> list_all ascii_alnum b))"
    by (simp only: ends split)
  finally have iff: "matches_namespace s \<longleftrightarrow> (\<exists>t. (s = t \<or> s = t @ [newline]) \<and>
      (\<exists>a c b. t = a @ [c] @ b \<and> a \<noteq> [] \<and> b \<noteq> [] \<and> c \<noteq> newline \<and> list_all ascii_alnum a \<and> list_all ascii_alnum b))" .
  show ?thesis
    unfolding iff insert_iff empty_iff by (intro iffI; elim exE conjE; intro exI conjI; assumption?; simp)
qed

section \<open>Witnesses\<close>

lemma sample_app_authorized: "is_authorized (sample_invocation ''app'') True (Some [''sched/write'']) = Inr True"
  by code_simp

lemma sample_not_local: "\<not> is_unix_domain_socket_invocation (sample_invocation t)"
  by (simp add: is_unix_domain_socket_invocation_def sample_invocation_def)

lemma sample_bob:
  "token_authorization sample_tokens [(''username'', PStr ''bob''), (''cognito:groups'', PList [PStr ''managers''])] =
     Inr \<lparr>az_type = AT_MANAGER, az_username = Some ''bob'', az_client_id = None, az_groups = [''managers''], az_scopes = None,
          az_invocation_source = None\<rparr>"
  by code_simp

lemma sample_old: "to_jwt sample_tokens ''old'' True = Inl ExpiredSignature"
  by code_simp

lemma sample_renewal:
  "\<exists>s'. access_token_using_client_credentials sample_tokens True (sample_service None) = (Inr (sample_grant ''app''), s')"
proof -
  have "fst (access_token_using_client_credentials sample_tokens True (sample_service None)) = Inr (sample_grant ''app'')"
    by code_simp
  then show ?thesis by (metis prod.collapse)
qed

lemma authorized_invocations_witness:
  "\<exists>d a. decode_token sample_tokens (access_token (sample_invocation ''app'')) True = Inr d \<and>
     token_authorization sample_tokens d = Inr a"
  using authorized_invocations [OF sample_app_authorized sample_not_local] by (auto simp: sample_invocation_def)

lemma token_privileges_witness:
  "\<exists>a. token_authorization sample_tokens [(''username'', PStr ''bob''), (''cognito:groups'', PList [PStr ''managers''])] = Inr a \<and>
     az_type a = AT_MANAGER \<and> (\<exists>g. to_managers_group_name sample_tokens = Some g \<and> g \<in> set (az_groups a))"
  using token_privileges [OF sample_bob] sample_bob by simp

lemma no_token_no_access_witness:
  "is_authorized (sample_invocation []) False None = Inl unauthorized_access"
proof -
  have "\<not> has_access_token (sample_invocation [])" by code_simp
  from no_token_no_access [OF sample_not_local this] show ?thesis by blast
qed

lemma expired_grant_never_renewed_witness:
  "access_token_using_client_credentials sample_tokens False (sample_service (Some (sample_grant ''old''))) =
     (Inl (SocaException ''AUTH_TOKEN_EXPIRED''), sample_service (Some (sample_grant ''old'')))"
  by (rule expired_grant_never_renewed [OF _ _ _ sample_old]) code_simp+

lemma forced_renewal_asks_witness:
  "\<exists>s'. access_token_using_client_credentials sample_tokens True (sample_service None) = (Inr (sample_grant ''app''), s') \<and>
     List.length (tk_requests s') = 1 \<and> tk_client_credentials_grant s' = Some (sample_grant ''app'')"
proof -
  obtain s' where run: "access_token_using_client_credentials sample_tokens True (sample_service None) = (Inr (sample_grant ''app''), s')"
    using sample_renewal by blast
  with forced_renewal_asks [OF run] show ?thesis by (auto simp: sample_service_def)
qed

end
