(* ===== verification/PBS_Hook_Job.thy ===== *)
theory PBS_Hook_Job
  imports Py_Dict
begin

text \<open>
  The first half of \<open>resources/openpbs/hooks/openpbs_hook_handler.py\<close>: the event types of OpenPBS, the table of the job
  attributes a hook may read at each event, and \<open>OpenPBSJob\<close>, which copies the readable attributes of a job of the \<open>pbs\<close>
  module into a dict. The job of the \<open>pbs\<close> module is a record of what reading each attribute answers; a read may raise.
\<close>

section \<open>Event types\<close>

definition HOOK_EVENT_QUEUEJOB :: int where
  "HOOK_EVENT_QUEUEJOB = 1"

definition HOOK_EVENT_MODIFYJOB :: int where
  "HOOK_EVENT_MODIFYJOB = 2"

definition HOOK_EVENT_RESVSUB :: int where
  "HOOK_EVENT_RESVSUB = 4"

definition HOOK_EVENT_MOVEJOB :: int where
  "HOOK_EVENT_MOVEJOB = 8"

definition HOOK_EVENT_RUNJOB :: int where
  "HOOK_EVENT_RUNJOB = 16"

definition HOOK_EVENT_PROVISION :: int where
  "HOOK_EVENT_PROVISION = 32"

definition HOOK_EVENT_PERIODIC :: int where
  "HOOK_EVENT_PERIODIC = 32768"

definition HOOK_EVENT_RESV_END :: int where
  "HOOK_EVENT_RESV_END = 65536"

definition HOOK_EVENT_MANAGEMENT :: int where
  "HOOK_EVENT_MANAGEMENT = 2097152"

definition HOOK_EVENT_MODIFYVNODE :: int where
  "HOOK_EVENT_MODIFYVNODE = 4194304"

definition HOOK_EVENT_RESV_BEGIN :: int where
  "HOOK_EVENT_RESV_BEGIN = 16777216"

definition HOOK_EVENT_RESV_CONFIRM :: int where
  "HOOK_EVENT_RESV_CONFIRM = 33554432"

definition HOOK_EVENT_MODIFYRESV :: int where
  "HOOK_EVENT_MODIFYRESV = 67108864"

definition HOOK_EVENT_EXECJOB_BEGIN :: int where
  "HOOK_EVENT_EXECJOB_BEGIN = 64"

definition HOOK_EVENT_EXECJOB_PROLOGUE :: int where
  "HOOK_EVENT_EXECJOB_PROLOGUE = 128"

definition HOOK_EVENT_EXECJOB_EPILOGUE :: int where
  "HOOK_EVENT_EXECJOB_EPILOGUE = 256"

definition HOOK_EVENT_EXECJOB_END :: int where
  "HOOK_EVENT_EXECJOB_END = 512"

definition HOOK_EVENT_EXECJOB_PRETERM :: int where
  "HOOK_EVENT_EXECJOB_PRETERM = 1024"

definition HOOK_EVENT_EXECJOB_LAUNCH :: int where
  "HOOK_EVENT_EXECJOB_LAUNCH = 2048"

definition HOOK_EVENT_EXECHOST_PERIODIC :: int where
  "HOOK_EVENT_EXECHOST_PERIODIC = 4096"

definition HOOK_EVENT_EXECHOST_STARTUP :: int where
  "HOOK_EVENT_EXECHOST_STARTUP = 8192"

definition HOOK_EVENT_EXECJOB_ATTACH :: int where
  "HOOK_EVENT_EXECJOB_ATTACH = 16384"

definition HOOK_EVENT_EXECJOB_RESIZE :: int where
  "HOOK_EVENT_EXECJOB_RESIZE = 131072"

definition HOOK_EVENT_EXECJOB_ABORT :: int where
  "HOOK_EVENT_EXECJOB_ABORT = 262144"

definition HOOK_EVENT_EXECJOB_POSTSUSPEND :: int where
  "HOOK_EVENT_EXECJOB_POSTSUSPEND = 524288"

definition HOOK_EVENT_EXECJOB_PRERESUME :: int where
  "HOOK_EVENT_EXECJOB_PRERESUME = 1048576"

lemmas hook_event_defs =
  HOOK_EVENT_QUEUEJOB_def HOOK_EVENT_MODIFYJOB_def HOOK_EVENT_RESVSUB_def HOOK_EVENT_MOVEJOB_def
  HOOK_EVENT_RUNJOB_def HOOK_EVENT_PROVISION_def HOOK_EVENT_PERIODIC_def HOOK_EVENT_RESV_END_def
  HOOK_EVENT_MANAGEMENT_def HOOK_EVENT_MODIFYVNODE_def HOOK_EVENT_RESV_BEGIN_def HOOK_EVENT_RESV_CONFIRM_def
  HOOK_EVENT_MODIFYRESV_def HOOK_EVENT_EXECJOB_BEGIN_def HOOK_EVENT_EXECJOB_PROLOGUE_def HOOK_EVENT_EXECJOB_EPILOGUE_def
  HOOK_EVENT_EXECJOB_END_def HOOK_EVENT_EXECJOB_PRETERM_def HOOK_EVENT_EXECJOB_LAUNCH_def HOOK_EVENT_EXECHOST_PERIODIC_def
  HOOK_EVENT_EXECHOST_STARTUP_def HOOK_EVENT_EXECJOB_ATTACH_def HOOK_EVENT_EXECJOB_RESIZE_def HOOK_EVENT_EXECJOB_ABORT_def
  HOOK_EVENT_EXECJOB_POSTSUSPEND_def HOOK_EVENT_EXECJOB_PRERESUME_def

definition HOOK_EVENT_TO_NAME_MAP :: "(int \<times> string) list" where
  "HOOK_EVENT_TO_NAME_MAP =
     [(1, ''queuejob''), (2, ''modifyjob''), (4, ''resvsub''), (8, ''movejob''),
      (16, ''runjob''), (32, ''provision''), (32768, ''periodic''), (65536, ''resv_end''),
      (2097152, ''management''), (4194304, ''modifyvnode''), (16777216, ''resv_begin''), (33554432, ''resv_confirm''),
      (67108864, ''modify_resv''), (64, ''execjob_begin''), (128, ''execjob_prologue''), (256, ''execjob_epilogue''),
      (512, ''execjob_end''), (1024, ''execjob_preterm''), (2048, ''execjob_launch''), (4096, ''exechost_periodic''),
      (8192, ''exechost_startup''), (16384, ''execjob_attach''), (131072, ''execjob_resize''), (262144, ''execjob_abort''),
      (524288, ''execjob_postsuspend''), (1048576, ''execjob_preresume'')]"

definition SUPPORTED_EVENTS :: "int list" where
  "SUPPORTED_EVENTS =
     [HOOK_EVENT_QUEUEJOB, HOOK_EVENT_MODIFYJOB, HOOK_EVENT_MOVEJOB,
      HOOK_EVENT_RUNJOB, HOOK_EVENT_EXECJOB_BEGIN, HOOK_EVENT_EXECJOB_END]"

definition ALWAYS_SUCCESS_EVENTS :: "int list" where
  "ALWAYS_SUCCESS_EVENTS =
     [HOOK_EVENT_RUNJOB, HOOK_EVENT_EXECJOB_BEGIN, HOOK_EVENT_EXECJOB_END]"

definition PRE_EXECUTION_HOOKS :: "int list" where
  "PRE_EXECUTION_HOOKS =
     [HOOK_EVENT_QUEUEJOB, HOOK_EVENT_MODIFYJOB, HOOK_EVENT_RESVSUB,
      HOOK_EVENT_MOVEJOB, HOOK_EVENT_RUNJOB, HOOK_EVENT_PROVISION,
      HOOK_EVENT_PERIODIC, HOOK_EVENT_RESV_END, HOOK_EVENT_MANAGEMENT,
      HOOK_EVENT_MODIFYVNODE, HOOK_EVENT_RESV_BEGIN, HOOK_EVENT_RESV_CONFIRM,
      HOOK_EVENT_MODIFYRESV]"

definition EXECUTION_HOOKS :: "int list" where
  "EXECUTION_HOOKS =
     [HOOK_EVENT_EXECJOB_BEGIN, HOOK_EVENT_EXECJOB_PROLOGUE, HOOK_EVENT_EXECJOB_EPILOGUE,
      HOOK_EVENT_EXECJOB_END, HOOK_EVENT_EXECJOB_PRETERM, HOOK_EVENT_EXECJOB_LAUNCH,
      HOOK_EVENT_EXECHOST_PERIODIC, HOOK_EVENT_EXECHOST_STARTUP, HOOK_EVENT_EXECJOB_ATTACH,
      HOOK_EVENT_EXECJOB_RESIZE, HOOK_EVENT_EXECJOB_ABORT, HOOK_EVENT_EXECJOB_POSTSUSPEND,
      HOOK_EVENT_EXECJOB_PRERESUME]"

section \<open>Which attribute can be read when\<close>

definition JOB_PARAM_EVENT_TYPE_MATRIX :: "string list" where
  "JOB_PARAM_EVENT_TYPE_MATRIX =
     ['''',
      ''Job Attribute,queuejob,modifyjob,movejob,runjob,resvsub,resv_end,periodic,execjob_begin,execjob_attach,execjob_prologue,execjob_launch,execjob_postsuspend,execjob_preresume,execjob_end,execjob_epilogue,execjob_preterm,exechost_startup,exechost_periodic,'',
      ''accounting_id,-,r,r,r,-,-,-,-,-,-,-,-,-,-,-,-,-,-,'',
      ''Account_Name,rs,rs,r,r,-,-,-,r,r,r,r,r,r,r,r,r,-,r,'',
      ''accrue_type,-,r,r,r,-,-,-,r,r,r,r,r,r,r,r,r,-,r,'',
      ''alt_id,-,r,r,r,-,-,-,-,-,-,-,-,-,-,-,-,-,-,'',
      ''argument_list,-,-,r,r,-,-,-,r,r,r,r,r,r,r,r,r,-,r,'',
      ''array,-,-,-,-,-,-,-,-,-,-,-,-,-,-,-,-,-,-,'',
      ''array_id,-,r,r,r,-,-,-,r,r,r,r,r,r,r,r,r,-,r,'',
      ''array_index,-,r,r,r,-,-,-,r,r,r,r,r,r,r,r,r,-,r,'',
      ''array_indices_remaining,-,r,r,r,-,-,-,-,-,-,-,-,-,-,-,-,-,-,'',
      ''array_indices_submitted,rs,-,r,-,-,-,-,-,-,-,-,-,-,-,-,-,-,-,'',
      ''array_state_count,-,r,r,r,-,-,-,-,-,-,-,-,-,-,-,-,-,-,'',
      ''block,-,rs,r,r,-,-,-,-,-,-,-,-,-,-,-,-,-,-,'',
      ''Checkpoint,rs,rs,r,r,-,-,-,r,r,r,r,r,r,r,r,r,-,r,'',
      ''comment,-,-,r,r,-,-,-,-,-,-,-,-,-,-,-,-,-,-,'',
      ''create_resv_from_job,rs,rs,rs,rs,rs,rs,rs,rs,rs,rs,rs,rs,rs,rs,rs,rs,rs,rs,'',
      ''ctime,-,r,r,r,-,-,-,-,-,-,-,-,-,-,-,-,-,-,'',
      ''depend,rs,rs,r,r,-,-,-,-,-,-,-,-,-,-,-,-,-,-,'',
      ''egroup,-,r,r,r,-,-,-,r,r,r,r,r,r,r,r,r,-,r,'',
      ''eligible_time,-,rs,r,r,-,-,-,-,-,-,-,-,-,-,-,-,-,-,'',
      ''Error_Path,rs,rs,r,rs,-,-,-,r,r,r,r,r,r,r,r,r,-,r,'',
      ''estimated,-,r,r,r,-,-,-,-,-,-,-,-,-,-,-,-,-,-,'',
      ''etime,-,r,r,r,-,-,-,-,-,-,-,-,-,-,-,-,-,-,'',
      ''euser,-,r,r,r,-,-,-,r,r,r,r,r,r,r,r,r,-,r,'',
      ''Executable,s,-,r,-,-,-,-,-,-,-,-,-,-,-,-,-,-,-,'',
      ''Execution_Time,rs,rs,r,r,-,-,-,rs,r,rs,rs,r,r,r,rs,rs,-,rs,'',
      ''exec_host,-,-,r,-,-,-,-,r,r,r,r,r,r,r,r,r,-,r,'',
      ''exec_vnode,-,-,r,r,-,-,-,r,r,r,r,r,r,r,r,r,-,r,'',
      ''Exit_status,-,r,r,r,-,-,-,-,r,-,-,r,r,r,r,-,-,-,'',
      ''group_list,rs,rs,r,r,-,-,-,r,r,r,r,r,r,r,r,r,-,r,'',
      ''hashname,-,r,r,r,-,-,-,r,r,r,r,r,r,r,r,r,-,r,'',
      ''Hold_Types,rs,rs,r,r,-,-,-,rs,r,rs,rs,r,r,r,rs,rs,-,rs,'',
      ''interactive,rs,r,o,r,r,-,-,-,r,r,r,r,r,r,r,r,r,-,r'',
      ''jobdir,-,r,r,-,-,-,-,-,-,-,-,-,-,-,r,-,-,-,'',
      ''Job_Name,rs,rs,r,r,-,-,-,r,r,r,r,r,r,r,r,r,-,r,'',
      ''Job_Owner,-,r,r,r,-,-,-,-,-,-,-,-,-,-,-,-,-,-,'',
      ''job_state,-,r,r,r,-,-,-,-,-,-,-,-,-,-,-,-,-,-,'',
      ''Join_Path,rs,rs,r,r,-,-,-,r,r,r,r,r,r,r,r,r,-,r,'',
      ''Keep_Files,rs,rs,r,r,-,-,-,r,r,r,r,r,r,r,r,r,-,r,'',
      ''Mail_Points,rs,rs,r,r,-,-,-,-,-,-,-,-,-,-,-,-,-,-,'',
      ''Mail_Users,rs,rs,r,r,-,-,-,r,r,r,r,r,r,r,r,r,-,r,'',
      ''mtime,-,r,r,r,-,-,-,-,-,-,-,-,-,-,-,-,-,-,'',
      ''no_stdio_sockets,-,-,r,r,-,-,-,r,r,r,r,r,r,r,r,r,-,r,'',
      ''Output_Path,rs,rs,r,rs,-,-,-,r,r,r,r,r,r,r,r,r,-,r,'',
      ''Priority,rs,rs,r,r,-,-,-,-,-,-,-,-,-,-,-,-,-,-,'',
      ''project,rs,rs,r,r,-,-,-,r,r,r,r,r,r,r,r,r,-,r,'',
      ''qtime,-,r,r,r,-,-,-,-,-,-,-,-,-,-,-,-,-,-,'',
      ''queue,rs,r,rs,r,-,-,-,r,r,r,r,r,r,r,r,r,-,r,'',
      ''queue_rank,-,r,r,r,-,-,-,-,-,-,-,-,-,-,-,-,-,-,'',
      ''queue_type,-,r,r,r,-,-,-,-,-,-,-,-,-,-,-,-,-,-,'',
      ''release_nodes_on_stageout,rs,rs,-,-,-,-,-,-,-,-,-,-,-,-,-,-,-,-,'',
      ''Rerunable,rs,rs,r,r,-,-,-,-,-,-,-,-,-,-,-,-,-,-,'',
      ''resources_released,r,r,r,r,-,-,-,-,-,-,-,-,-,-,-,-,-,-,'',
      ''resources_released_list,-,-,r,-,-,-,-,-,-,-,-,-,-,-,-,-,-,-,'',
      ''resources_used,-,r,r,r,-,-,-,rs,r,rs,rs,r,r,r,rs,rs,rs,rs,'',
      ''Resource_List,rs,rs,r,rs,-,-,-,r,r,r,r,r,r,r,r,r,-,r,'',
      ''run_count,rs,rs,r,r,-,-,-,rs,r,rs,rs,r,r,r,rs,rs,-,rs,'',
      ''run_version,-,r,r,r,-,-,-,r,r,r,r,r,r,r,r,r,-,r,'',
      ''sandbox,rs,rs,r,r,-,-,-,r,r,r,r,r,r,r,r,r,-,r,'',
      ''schedselect,-,r,r,r,-,-,-,-,-,-,-,-,-,-,-,-,-,-,'',
      ''sched_hint,-,-,r,r,-,-,-,-,-,-,-,-,-,-,-,-,-,-,'',
      ''server,-,r,r,r,-,-,-,r,r,r,r,r,r,r,r,r,-,r,'',
      ''session_id,-,-,-,-,-,-,-,-,-,-,-,r,r,r,r,r,-,-,'',
      ''Shell_Path_List,rs,rs,r,r,-,-,-,r,r,r,r,r,r,r,r,r,-,r,'',
      ''stagein,rs,rs,r,r,-,-,-,r,r,r,r,r,r,r,r,r,-,r,'',
      ''stageout,rs,rs,r,r,-,-,-,r,r,r,r,r,r,r,r,r,-,r,'',
      ''Stageout_status,-,r,r,r,-,-,-,-,-,-,-,-,-,-,-,-,-,-,'',
      ''stime,-,r,r,r,-,-,-,-,-,-,-,-,-,-,-,-,-,-,'',
      ''Submit_arguments,-,-,r,r,-,-,-,-,-,-,-,-,-,-,-,-,-,-,'',
      ''substate,-,r,r,r,-,-,-,-,-,-,-,-,-,-,-,-,-,-,'',
      ''sw_index,-,-,r,-,-,-,-,-,-,-,-,-,-,-,-,-,-,-,'',
      ''umask,rs,rs,r,r,-,-,-,r,r,r,r,r,r,r,r,r,-,r,'',
      ''User_List,rs,rs,r,r,-,-,-,-,-,-,-,-,-,-,-,-,-,-,'',
      ''Variable_List,rs,rs,r,rs,-,-,-,rs,r,r,r,r,r,r,r,r,-,rs,'']"

text \<open>The columns of one row whose name is the event type; the loop counts the tokens along with the header.\<close>

fun row_events :: "string \<Rightarrow> string list \<Rightarrow> string list \<Rightarrow> string list res" where
  "row_events e [] ts = Inr []"
| "row_events e (h # hs) ts =
     (if e \<noteq> h then row_events e hs (tl ts)
      else case ts of
        [] \<Rightarrow> Inl IndexError
      | t # ts' \<Rightarrow> bindE (row_events e hs ts') (\<lambda>es. Inr (if t \<in> {''r'', ''rs''} then h # es else es)))"

definition matrix_row :: "string \<Rightarrow> string list \<Rightarrow> string \<Rightarrow> (string \<times> string list) res" where
  "matrix_row e header line =
     (let tokens = split_char (CHR '','') line in
      bindE (row_events e (tl header) (tl tokens)) (\<lambda>es. Inr (hd tokens, es)))"

definition build_matrix_of :: "string list \<Rightarrow> string \<Rightarrow> (string \<times> string list) list res" where
  "build_matrix_of text e =
     (case filter (\<lambda>l. strip l \<noteq> []) text of
        [] \<Rightarrow> Inr []
      | header # rows \<Rightarrow> traverseE (matrix_row e (split_char (CHR '','') header)) rows)"

definition build_matrix :: "string \<Rightarrow> (string \<times> string list) list res" where
  "build_matrix = build_matrix_of JOB_PARAM_EVENT_TYPE_MATRIX"

section \<open>A job of the hook\<close>

datatype pbs_job_state =
    JOB_STATE_EXITING | JOB_STATE_EXPIRED | JOB_STATE_BEGUN | JOB_STATE_FINISHED | JOB_STATE_HELD | JOB_STATE_MOVED
  | JOB_STATE_QUEUED | JOB_STATE_RUNNING | JOB_STATE_SUSPEND | JOB_STATE_SUSPEND_USERACTIVE | JOB_STATE_OTHER pyval

record pbs_job =
  pbs_id :: "pyval res"
  pbs_attr :: "string \<Rightarrow> pyval res"
  pbs_state :: "pbs_job_state option res"

record hook_job =
  hj_event_type :: string
  hj_job :: pbs_job
  hj_matrix :: "(string \<times> string list) list"

definition new_hook_job :: "string \<Rightarrow> pbs_job \<Rightarrow> hook_job res" where
  "new_hook_job e job = bindE (build_matrix e) (\<lambda>m. Inr \<lparr>hj_event_type = e, hj_job = job, hj_matrix = m\<rparr>)"

text \<open>\<open>self.event_type in self.matrix[name]\<close>\<close>

definition readable :: "string \<Rightarrow> hook_job \<Rightarrow> bool res" where
  "readable name j =
     bindE (required KeyError (map_of (rev (hj_matrix j)) name)) (\<lambda>es. Inr (hj_event_type j \<in> set es))"

definition raw_attr :: "string \<Rightarrow> hook_job \<Rightarrow> pyval res" where
  "raw_attr name j = bindE (readable name j) (\<lambda>b. if b then pbs_attr (hj_job j) name else Inr PNone)"

definition scalar_attr :: "(pyval \<Rightarrow> string) \<Rightarrow> string \<Rightarrow> hook_job \<Rightarrow> pyval res" where
  "scalar_attr fmt name j =
     bindE (raw_attr name j) (\<lambda>v. Inr (if v = PNone then PNone else PStr (py_str fmt v)))"

fun dict_of_strings :: "(pyval \<Rightarrow> string) \<Rightarrow> pyval \<Rightarrow> pyval res" where
  "dict_of_strings fmt PNone = Inr PNone"
| "dict_of_strings fmt (PDict kvs) = Inr (PDict (map (\<lambda>(k, v). (k, PStr (py_str fmt v))) kvs))"
| "dict_of_strings fmt _ = Inl AttributeError"

definition dict_attr :: "(pyval \<Rightarrow> string) \<Rightarrow> string \<Rightarrow> hook_job \<Rightarrow> pyval res" where
  "dict_attr fmt name j = bindE (raw_attr name j) (dict_of_strings fmt)"

definition pj_id :: "(pyval \<Rightarrow> string) \<Rightarrow> hook_job \<Rightarrow> pyval res" where
  "pj_id fmt j = bindE (pbs_id (hj_job j)) (\<lambda>v. Inr (if v = PNone then PNone else PStr (py_str fmt v)))"

definition pj_job_state :: "(pyval \<Rightarrow> string) \<Rightarrow> hook_job \<Rightarrow> pyval res" where
  "pj_job_state fmt j = bindE (readable ''job_state'' j) (\<lambda>b.
     if \<not> b then Inr PNone
     else bindE (pbs_state (hj_job j)) (\<lambda>state. Inr (case state of
        None \<Rightarrow> PNone
      | Some s \<Rightarrow> PStr (case s of
            JOB_STATE_EXITING \<Rightarrow> ''E'' | JOB_STATE_EXPIRED \<Rightarrow> ''X'' | JOB_STATE_BEGUN \<Rightarrow> ''B'' | JOB_STATE_FINISHED \<Rightarrow> ''F''
          | JOB_STATE_HELD \<Rightarrow> ''H'' | JOB_STATE_MOVED \<Rightarrow> ''M'' | JOB_STATE_QUEUED \<Rightarrow> ''Q'' | JOB_STATE_RUNNING \<Rightarrow> ''R''
          | JOB_STATE_SUSPEND \<Rightarrow> ''S'' | JOB_STATE_SUSPEND_USERACTIVE \<Rightarrow> ''S'' | JOB_STATE_OTHER v \<Rightarrow> py_str fmt v))))"

definition pj_accounting_id :: "(pyval \<Rightarrow> string) \<Rightarrow> hook_job \<Rightarrow> pyval res" where
  "pj_accounting_id fmt = scalar_attr fmt ''accounting_id''"

definition pj_Account_Name :: "(pyval \<Rightarrow> string) \<Rightarrow> hook_job \<Rightarrow> pyval res" where
  "pj_Account_Name fmt = scalar_attr fmt ''Account_Name''"

definition pj_accrue_type :: "(pyval \<Rightarrow> string) \<Rightarrow> hook_job \<Rightarrow> pyval res" where
  "pj_accrue_type fmt = scalar_attr fmt ''accrue_type''"

definition pj_alt_id :: "(pyval \<Rightarrow> string) \<Rightarrow> hook_job \<Rightarrow> pyval res" where
  "pj_alt_id fmt = raw_attr ''alt_id''"

definition pj_argument_list :: "(pyval \<Rightarrow> string) \<Rightarrow> hook_job \<Rightarrow> pyval res" where
  "pj_argument_list fmt = scalar_attr fmt ''argument_list''"

definition pj_array :: "(pyval \<Rightarrow> string) \<Rightarrow> hook_job \<Rightarrow> pyval res" where
  "pj_array fmt = scalar_attr fmt ''array''"

definition pj_array_id :: "(pyval \<Rightarrow> string) \<Rightarrow> hook_job \<Rightarrow> pyval res" where
  "pj_array_id fmt = scalar_attr fmt ''array_id''"

definition pj_array_index :: "(pyval \<Rightarrow> string) \<Rightarrow> hook_job \<Rightarrow> pyval res" where
  "pj_array_index fmt = scalar_attr fmt ''array_index''"

definition pj_array_indices_remaining :: "(pyval \<Rightarrow> string) \<Rightarrow> hook_job \<Rightarrow> pyval res" where
  "pj_array_indices_remaining fmt = scalar_attr fmt ''array_indices_remaining''"

definition pj_array_indices_submitted :: "(pyval \<Rightarrow> string) \<Rightarrow> hook_job \<Rightarrow> pyval res" where
  "pj_array_indices_submitted fmt = scalar_attr fmt ''array_indices_submitted''"

definition pj_array_state_count :: "(pyval \<Rightarrow> string) \<Rightarrow> hook_job \<Rightarrow> pyval res" where
  "pj_array_state_count fmt = scalar_attr fmt ''array_state_count''"

definition pj_block :: "(pyval \<Rightarrow> string) \<Rightarrow> hook_job \<Rightarrow> pyval res" where
  "pj_block fmt = scalar_attr fmt ''block''"

definition pj_Checkpoint :: "(pyval \<Rightarrow> string) \<Rightarrow> hook_job \<Rightarrow> pyval res" where
  "pj_Checkpoint fmt = scalar_attr fmt ''Checkpoint''"

definition pj_comment :: "(pyval \<Rightarrow> string) \<Rightarrow> hook_job \<Rightarrow> pyval res" where
  "pj_comment fmt = scalar_attr fmt ''comment''"

definition pj_create_resv_from_job :: "(pyval \<Rightarrow> string) \<Rightarrow> hook_job \<Rightarrow> pyval res" where
  "pj_create_resv_from_job fmt = scalar_attr fmt ''create_resv_from_job''"

definition pj_ctime :: "(pyval \<Rightarrow> string) \<Rightarrow> hook_job \<Rightarrow> pyval res" where
  "pj_ctime fmt = scalar_attr fmt ''ctime''"

definition pj_depend :: "(pyval \<Rightarrow> string) \<Rightarrow> hook_job \<Rightarrow> pyval res" where
  "pj_depend fmt = scalar_attr fmt ''depend''"

definition pj_egroup :: "(pyval \<Rightarrow> string) \<Rightarrow> hook_job \<Rightarrow> pyval res" where
  "pj_egroup fmt = scalar_attr fmt ''egroup''"

definition pj_eligible_time :: "(pyval \<Rightarrow> string) \<Rightarrow> hook_job \<Rightarrow> pyval res" where
  "pj_eligible_time fmt = scalar_attr fmt ''eligible_time''"

definition pj_Error_Path :: "(pyval \<Rightarrow> string) \<Rightarrow> hook_job \<Rightarrow> pyval res" where
  "pj_Error_Path fmt = scalar_attr fmt ''Error_Path''"

definition pj_estimated :: "(pyval \<Rightarrow> string) \<Rightarrow> hook_job \<Rightarrow> pyval res" where
  "pj_estimated fmt = scalar_attr fmt ''estimated''"

definition pj_etime :: "(pyval \<Rightarrow> string) \<Rightarrow> hook_job \<Rightarrow> pyval res" where
  "pj_etime fmt = scalar_attr fmt ''etime''"

definition pj_euser :: "(pyval \<Rightarrow> string) \<Rightarrow> hook_job \<Rightarrow> pyval res" where
  "pj_euser fmt = scalar_attr fmt ''euser''"

definition pj_Executable :: "(pyval \<Rightarrow> string) \<Rightarrow> hook_job \<Rightarrow> pyval res" where
  "pj_Executable fmt = scalar_attr fmt ''Executable''"

definition pj_Execution_Time :: "(pyval \<Rightarrow> string) \<Rightarrow> hook_job \<Rightarrow> pyval res" where
  "pj_Execution_Time fmt = scalar_attr fmt ''Execution_Time''"

definition pj_exec_host :: "(pyval \<Rightarrow> string) \<Rightarrow> hook_job \<Rightarrow> pyval res" where
  "pj_exec_host fmt = scalar_attr fmt ''exec_host''"

definition pj_exec_vnode :: "(pyval \<Rightarrow> string) \<Rightarrow> hook_job \<Rightarrow> pyval res" where
  "pj_exec_vnode fmt = scalar_attr fmt ''exec_vnode''"

definition pj_Exit_status :: "(pyval \<Rightarrow> string) \<Rightarrow> hook_job \<Rightarrow> pyval res" where
  "pj_Exit_status fmt = scalar_attr fmt ''Exit_status''"

definition pj_group_list :: "(pyval \<Rightarrow> string) \<Rightarrow> hook_job \<Rightarrow> pyval res" where
  "pj_group_list fmt = dict_attr fmt ''group_list''"

definition pj_hashname :: "(pyval \<Rightarrow> string) \<Rightarrow> hook_job \<Rightarrow> pyval res" where
  "pj_hashname fmt = scalar_attr fmt ''hashname''"

definition pj_Hold_Types :: "(pyval \<Rightarrow> string) \<Rightarrow> hook_job \<Rightarrow> pyval res" where
  "pj_Hold_Types fmt = scalar_attr fmt ''Hold_Types''"

definition pj_interactive :: "(pyval \<Rightarrow> string) \<Rightarrow> hook_job \<Rightarrow> pyval res" where
  "pj_interactive fmt = scalar_attr fmt ''interactive''"

definition pj_jobdir :: "(pyval \<Rightarrow> string) \<Rightarrow> hook_job \<Rightarrow> pyval res" where
  "pj_jobdir fmt = scalar_attr fmt ''jobdir''"

definition pj_Job_Name :: "(pyval \<Rightarrow> string) \<Rightarrow> hook_job \<Rightarrow> pyval res" where
  "pj_Job_Name fmt = scalar_attr fmt ''Job_Name''"

definition pj_Job_Owner :: "(pyval \<Rightarrow> string) \<Rightarrow> hook_job \<Rightarrow> pyval res" where
  "pj_Job_Owner fmt = scalar_attr fmt ''Job_Owner''"

definition pj_Join_Path :: "(pyval \<Rightarrow> string) \<Rightarrow> hook_job \<Rightarrow> pyval res" where
  "pj_Join_Path fmt = scalar_attr fmt ''Join_Path''"

definition pj_Keep_Files :: "(pyval \<Rightarrow> string) \<Rightarrow> hook_job \<Rightarrow> pyval res" where
  "pj_Keep_Files fmt = scalar_attr fmt ''Keep_Files''"

definition pj_Mail_Points :: "(pyval \<Rightarrow> string) \<Rightarrow> hook_job \<Rightarrow> pyval res" where
  "pj_Mail_Points fmt = scalar_attr fmt ''Mail_Points''"

definition pj_Mail_Users :: "(pyval \<Rightarrow> string) \<Rightarrow> hook_job \<Rightarrow> pyval res" where
  "pj_Mail_Users fmt = scalar_attr fmt ''Mail_Users''"

definition pj_mtime :: "(pyval \<Rightarrow> string) \<Rightarrow> hook_job \<Rightarrow> pyval res" where
  "pj_mtime fmt = scalar_attr fmt ''mtime''"

definition pj_no_stdio_sockets :: "(pyval \<Rightarrow> string) \<Rightarrow> hook_job \<Rightarrow> pyval res" where
  "pj_no_stdio_sockets fmt = scalar_attr fmt ''no_stdio_sockets''"

definition pj_Output_Path :: "(pyval \<Rightarrow> string) \<Rightarrow> hook_job \<Rightarrow> pyval res" where
  "pj_Output_Path fmt = scalar_attr fmt ''Output_Path''"

definition pj_Priority :: "(pyval \<Rightarrow> string) \<Rightarrow> hook_job \<Rightarrow> pyval res" where
  "pj_Priority fmt = scalar_attr fmt ''Priority''"

definition pj_project :: "(pyval \<Rightarrow> string) \<Rightarrow> hook_job \<Rightarrow> pyval res" where
  "pj_project fmt = scalar_attr fmt ''project''"

definition pj_qtime :: "(pyval \<Rightarrow> string) \<Rightarrow> hook_job \<Rightarrow> pyval res" where
  "pj_qtime fmt = scalar_attr fmt ''qtime''"

definition pj_queue :: "(pyval \<Rightarrow> string) \<Rightarrow> hook_job \<Rightarrow> pyval res" where
  "pj_queue fmt = scalar_attr fmt ''queue''"

definition pj_queue_rank :: "(pyval \<Rightarrow> string) \<Rightarrow> hook_job \<Rightarrow> pyval res" where
  "pj_queue_rank fmt = scalar_attr fmt ''queue_rank''"

definition pj_queue_type :: "(pyval \<Rightarrow> string) \<Rightarrow> hook_job \<Rightarrow> pyval res" where
  "pj_queue_type fmt = scalar_attr fmt ''queue_type''"

definition pj_release_nodes_on_stageout :: "(pyval \<Rightarrow> string) \<Rightarrow> hook_job \<Rightarrow> pyval res" where
  "pj_release_nodes_on_stageout fmt = scalar_attr fmt ''release_nodes_on_stageout''"

definition pj_Rerunable :: "(pyval \<Rightarrow> string) \<Rightarrow> hook_job \<Rightarrow> pyval res" where
  "pj_Rerunable fmt = scalar_attr fmt ''Rerunable''"

definition pj_resources_released :: "(pyval \<Rightarrow> string) \<Rightarrow> hook_job \<Rightarrow> pyval res" where
  "pj_resources_released fmt = scalar_attr fmt ''resources_released''"

definition pj_resources_released_list :: "(pyval \<Rightarrow> string) \<Rightarrow> hook_job \<Rightarrow> pyval res" where
  "pj_resources_released_list fmt = dict_attr fmt ''resources_released_list''"

definition pj_resources_used :: "(pyval \<Rightarrow> string) \<Rightarrow> hook_job \<Rightarrow> pyval res" where
  "pj_resources_used fmt = scalar_attr fmt ''resources_used''"

definition pj_Resource_List :: "(pyval \<Rightarrow> string) \<Rightarrow> hook_job \<Rightarrow> pyval res" where
  "pj_Resource_List fmt = dict_attr fmt ''Resource_List''"

definition pj_run_count :: "(pyval \<Rightarrow> string) \<Rightarrow> hook_job \<Rightarrow> pyval res" where
  "pj_run_count fmt = scalar_attr fmt ''run_count''"

definition pj_run_version :: "(pyval \<Rightarrow> string) \<Rightarrow> hook_job \<Rightarrow> pyval res" where
  "pj_run_version fmt = scalar_attr fmt ''run_version''"

definition pj_sandbox :: "(pyval \<Rightarrow> string) \<Rightarrow> hook_job \<Rightarrow> pyval res" where
  "pj_sandbox fmt = scalar_attr fmt ''sandbox''"

definition pj_schedselect :: "(pyval \<Rightarrow> string) \<Rightarrow> hook_job \<Rightarrow> pyval res" where
  "pj_schedselect fmt = scalar_attr fmt ''schedselect''"

definition pj_sched_hint :: "(pyval \<Rightarrow> string) \<Rightarrow> hook_job \<Rightarrow> pyval res" where
  "pj_sched_hint fmt = scalar_attr fmt ''sched_hint''"

definition pj_server :: "(pyval \<Rightarrow> string) \<Rightarrow> hook_job \<Rightarrow> pyval res" where
  "pj_server fmt = scalar_attr fmt ''server''"

definition pj_session_id :: "(pyval \<Rightarrow> string) \<Rightarrow> hook_job \<Rightarrow> pyval res" where
  "pj_session_id fmt = scalar_attr fmt ''session_id''"

definition pj_Shell_Path_List :: "(pyval \<Rightarrow> string) \<Rightarrow> hook_job \<Rightarrow> pyval res" where
  "pj_Shell_Path_List fmt = scalar_attr fmt ''Shell_Path_List''"

definition pj_stagein :: "(pyval \<Rightarrow> string) \<Rightarrow> hook_job \<Rightarrow> pyval res" where
  "pj_stagein fmt = scalar_attr fmt ''stagein''"

definition pj_stageout :: "(pyval \<Rightarrow> string) \<Rightarrow> hook_job \<Rightarrow> pyval res" where
  "pj_stageout fmt = scalar_attr fmt ''stageout''"

definition pj_Stageout_status :: "(pyval \<Rightarrow> string) \<Rightarrow> hook_job \<Rightarrow> pyval res" where
  "pj_Stageout_status fmt = scalar_attr fmt ''Stageout_status''"

definition pj_stime :: "(pyval \<Rightarrow> string) \<Rightarrow> hook_job \<Rightarrow> pyval res" where
  "pj_stime fmt = scalar_attr fmt ''stime''"

definition pj_Submit_arguments :: "(pyval \<Rightarrow> string) \<Rightarrow> hook_job \<Rightarrow> pyval res" where
  "pj_Submit_arguments fmt = scalar_attr fmt ''Submit_arguments''"

definition pj_substate :: "(pyval \<Rightarrow> string) \<Rightarrow> hook_job \<Rightarrow> pyval res" where
  "pj_substate fmt = scalar_attr fmt ''substate''"

definition pj_sw_index :: "(pyval \<Rightarrow> string) \<Rightarrow> hook_job \<Rightarrow> pyval res" where
  "pj_sw_index fmt = scalar_attr fmt ''sw_index''"

definition pj_umask :: "(pyval \<Rightarrow> string) \<Rightarrow> hook_job \<Rightarrow> pyval res" where
  "pj_umask fmt = scalar_attr fmt ''umask''"

definition pj_User_List :: "(pyval \<Rightarrow> string) \<Rightarrow> hook_job \<Rightarrow> pyval res" where
  "pj_User_List fmt = dict_attr fmt ''User_List''"

definition pj_Variable_List :: "(pyval \<Rightarrow> string) \<Rightarrow> hook_job \<Rightarrow> pyval res" where
  "pj_Variable_List fmt = dict_attr fmt ''Variable_List''"

section \<open>The dict of a job\<close>

definition job_properties :: "(pyval \<Rightarrow> string) \<Rightarrow> (string \<times> (hook_job \<Rightarrow> pyval res)) list" where
  "job_properties fmt =
     [(''id'', pj_id fmt), (''accounting_id'', pj_accounting_id fmt), (''Account_Name'', pj_Account_Name fmt),
      (''accrue_type'', pj_accrue_type fmt), (''alt_id'', pj_alt_id fmt), (''argument_list'', pj_argument_list fmt),
      (''array'', pj_array fmt), (''array_id'', pj_array_id fmt), (''array_index'', pj_array_index fmt),
      (''array_indices_remaining'', pj_array_indices_remaining fmt), (''array_indices_submitted'', pj_array_indices_submitted fmt), (''array_state_count'', pj_array_state_count fmt),
      (''block'', pj_block fmt), (''Checkpoint'', pj_Checkpoint fmt), (''comment'', pj_comment fmt),
      (''create_resv_from_job'', pj_create_resv_from_job fmt), (''ctime'', pj_ctime fmt), (''depend'', pj_depend fmt),
      (''egroup'', pj_egroup fmt), (''eligible_time'', pj_eligible_time fmt), (''Error_Path'', pj_Error_Path fmt),
      (''estimated'', pj_estimated fmt), (''etime'', pj_etime fmt), (''euser'', pj_euser fmt),
      (''Executable'', pj_Executable fmt), (''Execution_Time'', pj_Execution_Time fmt), (''exec_host'', pj_exec_host fmt),
      (''exec_vnode'', pj_exec_vnode fmt), (''Exit_status'', pj_Exit_status fmt), (''group_list'', pj_group_list fmt),
      (''hashname'', pj_hashname fmt), (''Hold_Types'', pj_Hold_Types fmt), (''interactive'', pj_interactive fmt),
      (''jobdir'', pj_jobdir fmt), (''Job_Name'', pj_Job_Name fmt), (''Job_Owner'', pj_Job_Owner fmt),
      (''job_state'', pj_job_state fmt), (''Join_Path'', pj_Join_Path fmt), (''Keep_Files'', pj_Keep_Files fmt),
      (''Mail_Points'', pj_Mail_Points fmt), (''Mail_Users'', pj_Mail_Users fmt), (''mtime'', pj_mtime fmt),
      (''no_stdio_sockets'', pj_no_stdio_sockets fmt), (''Output_Path'', pj_Output_Path fmt), (''Priority'', pj_Priority fmt),
      (''project'', pj_project fmt), (''qtime'', pj_qtime fmt), (''queue'', pj_queue fmt),
      (''queue_rank'', pj_queue_rank fmt), (''queue_type'', pj_queue_type fmt), (''release_nodes_on_stageout'', pj_release_nodes_on_stageout fmt),
      (''Rerunable'', pj_Rerunable fmt), (''resources_released'', pj_resources_released fmt), (''resources_released_list'', pj_resources_released_list fmt),
      (''resources_used'', pj_resources_used fmt), (''Resource_List'', pj_Resource_List fmt), (''run_count'', pj_run_count fmt),
      (''run_version'', pj_run_version fmt), (''sandbox'', pj_sandbox fmt), (''schedselect'', pj_schedselect fmt),
      (''sched_hint'', pj_sched_hint fmt), (''server'', pj_server fmt), (''session_id'', pj_session_id fmt),
      (''Shell_Path_List'', pj_Shell_Path_List fmt), (''stagein'', pj_stagein fmt), (''stageout'', pj_stageout fmt),
      (''Stageout_status'', pj_Stageout_status fmt), (''stime'', pj_stime fmt), (''Submit_arguments'', pj_Submit_arguments fmt),
      (''substate'', pj_substate fmt), (''sw_index'', pj_sw_index fmt), (''umask'', pj_umask fmt),
      (''User_List'', pj_User_List fmt)]"

definition add_job_entry :: "string \<times> pyval \<Rightarrow> pydict \<Rightarrow> pydict" where
  "add_job_entry = (\<lambda>(k, v) d.
     if v = PNone then d
     else if k = ''Resource_List''
          then (case v of
                  PDict r \<Rightarrow> (case map_of r ''dry_run'' of
                               None \<Rightarrow> assign_key k v d
                             | Some x \<Rightarrow> assign_key ''dry_run'' x (assign_key k v d))
                | _ \<Rightarrow> assign_key k v d)
          else assign_key k v d)"

definition build_job_dict :: "(pyval \<Rightarrow> string) \<Rightarrow> hook_job \<Rightarrow> pydict res" where
  "build_job_dict fmt j =
     bindE (traverseE (\<lambda>(k, f). bindE (f j) (\<lambda>v. Inr (k, v))) (job_properties fmt)) (\<lambda>kvs.
       Inr (fold add_job_entry kvs []))"

section \<open>Lemmas\<close>

lemmas pj_defs_scalar =
  pj_accounting_id_def pj_Account_Name_def pj_accrue_type_def pj_alt_id_def pj_argument_list_def
  pj_array_def pj_array_id_def pj_array_index_def pj_array_indices_remaining_def pj_array_indices_submitted_def
  pj_array_state_count_def pj_block_def pj_Checkpoint_def pj_comment_def pj_create_resv_from_job_def
  pj_ctime_def pj_depend_def pj_egroup_def pj_eligible_time_def pj_Error_Path_def
  pj_estimated_def pj_etime_def pj_euser_def pj_Executable_def pj_Execution_Time_def
  pj_exec_host_def pj_exec_vnode_def pj_Exit_status_def pj_group_list_def pj_hashname_def
  pj_Hold_Types_def pj_interactive_def pj_jobdir_def pj_Job_Name_def pj_Job_Owner_def
  pj_Join_Path_def pj_Keep_Files_def pj_Mail_Points_def pj_Mail_Users_def pj_mtime_def
  pj_no_stdio_sockets_def pj_Output_Path_def pj_Priority_def pj_project_def pj_qtime_def
  pj_queue_def pj_queue_rank_def pj_queue_type_def pj_release_nodes_on_stageout_def pj_Rerunable_def
  pj_resources_released_def pj_resources_released_list_def pj_resources_used_def pj_Resource_List_def pj_run_count_def
  pj_run_version_def pj_sandbox_def pj_schedselect_def pj_sched_hint_def pj_server_def
  pj_session_id_def pj_Shell_Path_List_def pj_stagein_def pj_stageout_def pj_Stageout_status_def
  pj_stime_def pj_Submit_arguments_def pj_substate_def pj_sw_index_def pj_umask_def
  pj_User_List_def pj_Variable_List_def

lemma split_char_hd: "hd (split_char c s) = takeWhile (\<lambda>x. x \<noteq> c) s"
  by (induction s) (auto split: list.splits)

lemma row_events_iff:
  assumes "row_events e hs ts = Inr es"
  shows "e \<in> set es \<longleftrightarrow> (\<exists>i < List.length hs. i < List.length ts \<and> hs ! i = e \<and> ts ! i \<in> {''r'', ''rs''})"
  using assms
proof (induction e hs ts arbitrary: es rule: row_events.induct)
  case (2 e h hs ts)
  show ?case
  proof (cases "e = h")
    case False
    with 2 have "e \<in> set es \<longleftrightarrow>
        (\<exists>i < List.length hs. i < List.length (tl ts) \<and> hs ! i = e \<and> tl ts ! i \<in> {''r'', ''rs''})" by simp
    also have "\<dots> \<longleftrightarrow> (\<exists>i < List.length (h # hs). i < List.length ts \<and> (h # hs) ! i = e \<and> ts ! i \<in> {''r'', ''rs''})"
      using False by (cases ts) (auto simp: Ex_less_Suc2)
    finally show ?thesis .
  next
    case True
    with 2(3) obtain t ts' es' where ts: "ts = t # ts'" "row_events e hs ts' = Inr es'"
      "es = (if t \<in> {''r'', ''rs''} then h # es' else es')"
      by (cases ts) (auto simp: bindE_Inr_iff)
    from 2(2) [OF _ ts(1,2)] True have IH: "e \<in> set es' \<longleftrightarrow>
        (\<exists>i < List.length hs. i < List.length ts' \<and> hs ! i = e \<and> ts' ! i \<in> {''r'', ''rs''})" by simp
    show ?thesis using IH True ts by (auto simp: Ex_less_Suc2)
  qed
qed simp

lemma traverseE_member:
  "traverseE f xs = Inr ys \<Longrightarrow> y \<in> set ys \<longleftrightarrow> (\<exists>x \<in> set xs. f x = Inr y)"
proof (induction xs arbitrary: ys)
  case (Cons x xs)
  then obtain z zs where "f x = Inr z" "traverseE f xs = Inr zs" "ys = z # zs" by (auto simp: bindE_Inr_iff)
  with Cons.IH show ?case by auto
qed simp

definition reads_only :: "string \<Rightarrow> (hook_job \<Rightarrow> pyval res) \<Rightarrow> bool" where
  "reads_only k f = (k = ''id'' \<or> (\<forall>j v. f j = Inr v \<longrightarrow> v \<noteq> PNone \<longrightarrow> readable k j = Inr True))"

lemma reads_only_attrs:
  "reads_only k (raw_attr k)" "reads_only k (scalar_attr fmt k)" "reads_only k (dict_attr fmt k)"
  "reads_only ''id'' f" "reads_only ''job_state'' (pj_job_state fmt)"
  by (auto simp: reads_only_def raw_attr_def scalar_attr_def dict_attr_def pj_job_state_def bindE_Inr_iff split: if_splits)

lemma properties_read_only: "list_all (\<lambda>(k, f). reads_only k f) (job_properties fmt)"
  unfolding job_properties_def list.pred_inject prod.case pj_defs_scalar by (intro conjI reads_only_attrs list.pred_inject(1))

lemma keys_add_job_entry:
  "fst ` set (add_job_entry (k, v) d) \<subseteq> insert ''dry_run'' (fst ` set d \<union> (if v = PNone then {} else {k}))"
  by (auto simp: add_job_entry_def keys_assign_key split: pyval.splits option.splits if_splits)

lemma keys_of_entries:
  "fst ` set (fold add_job_entry kvs d) \<subseteq> insert ''dry_run'' (fst ` set d \<union> {k. \<exists>v. (k, v) \<in> set kvs \<and> v \<noteq> PNone})"
proof (induction kvs arbitrary: d)
  case (Cons kv kvs)
  obtain k v where kv: "kv = (k, v)" by fastforce
  have "fst ` set (fold add_job_entry (kv # kvs) d) \<subseteq>
      insert ''dry_run'' (fst ` set (add_job_entry (k, v) d) \<union> {k. \<exists>v. (k, v) \<in> set kvs \<and> v \<noteq> PNone})"
    using Cons.IH [of "add_job_entry (k, v) d"] kv by simp
  also have "\<dots> \<subseteq> insert ''dry_run'' (fst ` set d \<union> {k. \<exists>v. (k, v) \<in> set (kv # kvs) \<and> v \<noteq> PNone})"
    using keys_add_job_entry [of k v d] kv by (auto split: if_splits)
  finally show ?case .
qed auto

lemma build_keys_readable:
  assumes "build_job_dict fmt j = Inr d" "k \<in> fst ` set d"
  shows "k \<in> {''id'', ''dry_run''} \<or> readable k j = Inr True"
proof -
  obtain kvs where kvs: "traverseE (\<lambda>(k, f). bindE (f j) (\<lambda>v. Inr (k, v))) (job_properties fmt) = Inr kvs"
    "d = fold add_job_entry kvs []"
    using assms(1) by (auto simp: build_job_dict_def bindE_Inr_iff)
  have "readable k j = Inr True" if kv: "(k, v) \<in> set kvs" and v: "v \<noteq> PNone" and id: "k \<noteq> ''id''" for v
  proof -
    from kv kvs(1) obtain f where "(k, f) \<in> set (job_properties fmt)" "f j = Inr v"
      by (auto simp: traverseE_member bindE_Inr_iff)
    with properties_read_only [of fmt] v id show ?thesis by (auto simp: list_all_iff reads_only_def)
  qed
  with keys_of_entries [of kvs "[]"] assms(2) kvs(2) show ?thesis by auto
qed

lemma add_job_entry_keeps: "fst ` set d \<subseteq> fst ` set (add_job_entry kv d)" "v \<noteq> PNone \<Longrightarrow> k \<in> fst ` set (add_job_entry (k, v) d)"
  by (cases kv; auto simp: add_job_entry_def keys_assign_key split: pyval.splits option.splits)+

lemma fold_entries_keeps: "fst ` set d \<subseteq> fst ` set (fold add_job_entry kvs d)"
  using add_job_entry_keeps(1) by (induction kvs arbitrary: d) (simp, force)

lemma fold_entries_posts: "(k, v) \<in> set kvs \<Longrightarrow> v \<noteq> PNone \<Longrightarrow> k \<in> fst ` set (fold add_job_entry kvs d)"
proof (induction kvs arbitrary: d)
  case (Cons kv kvs)
  show ?case
  proof (cases "kv = (k, v)")
    case True
    with add_job_entry_keeps(2) [OF Cons.prems(2)] fold_entries_keeps [of "add_job_entry kv d" kvs] show ?thesis by auto
  qed (use Cons in auto)
qed simp

lemma build_posts:
  assumes "build_job_dict fmt j = Inr d" "(k, f) \<in> set (job_properties fmt)" "f j = Inr v" "v \<noteq> PNone"
  shows "k \<in> fst ` set d"
proof -
  obtain kvs where kvs: "traverseE (\<lambda>(k, f). bindE (f j) (\<lambda>v. Inr (k, v))) (job_properties fmt) = Inr kvs"
    "d = fold add_job_entry kvs []"
    using assms(1) by (auto simp: build_job_dict_def bindE_Inr_iff)
  from assms(2,3) have "(k, v) \<in> set kvs" unfolding traverseE_member [OF kvs(1)] by (intro bexI [of _ "(k, f)"]) simp_all
  with fold_entries_posts assms(4) kvs(2) show ?thesis by blast
qed

text \<open>The table allows an attribute at an event: some row starts with the attribute and has \<open>r\<close> or \<open>rs\<close> in a column of the event.\<close>

definition table_allows :: "string list \<Rightarrow> string \<Rightarrow> string \<Rightarrow> bool" where
  "table_allows text e k \<longleftrightarrow> (case filter (\<lambda>l. strip l \<noteq> []) text of
       [] \<Rightarrow> False
     | header # rows \<Rightarrow> (let names = tl (split_char (CHR '','') header) in
         \<exists>line \<in> set rows. \<exists>cells i. split_char (CHR '','') line = k # cells \<and> i < List.length names \<and>
           i < List.length cells \<and> names ! i = e \<and> cells ! i \<in> {''r'', ''rs''}))"

lemma build_matrix_allows:
  assumes "build_matrix_of text e = Inr m" "map_of (rev m) k = Some es" "e \<in> set es"
  shows "table_allows text e k"
proof (cases "filter (\<lambda>l. strip l \<noteq> []) text")
  case Nil
  with assms show ?thesis by (simp add: build_matrix_of_def)
next
  case (Cons header rows)
  let ?H = "split_char (CHR '','') header"
  from assms(2) have "(k, es) \<in> set m" by (auto dest: map_of_SomeD)
  with assms(1) Cons obtain line where line: "line \<in> set rows" "matrix_row e ?H line = Inr (k, es)"
    by (auto simp: build_matrix_of_def traverseE_member)
  obtain t ts where tokens: "split_char (CHR '','') line = t # ts" by (cases "split_char (CHR '','') line") auto
  from line(2) have "row_events e (tl ?H) ts = Inr es" "t = k"
    by (auto simp: matrix_row_def Let_def tokens bindE_Inr_iff)
  with row_events_iff [of e "tl ?H" ts es] assms(3) tokens line(1) Cons show ?thesis
    by (auto simp: table_allows_def Let_def)
qed

text \<open>The dict of a job that a hook posts holds, beside the id of the job and the dry run option, only attributes that the
  table lets the hook read at its event.\<close>

lemma hook_posts_readable_attributes:
  assumes "new_hook_job e job = Inr j" "build_job_dict fmt j = Inr d" "k \<in> fst ` set d" "k \<notin> {''id'', ''dry_run''}"
  shows "table_allows JOB_PARAM_EVENT_TYPE_MATRIX e k"
proof -
  from build_keys_readable [OF assms(2,3)] assms(4) have "readable k j = Inr True" by blast
  with assms(1) show ?thesis
    by (auto simp: new_hook_job_def readable_def bindE_Inr_iff build_matrix_def intro: build_matrix_allows)
qed

section \<open>Every attribute has its row\<close>

definition attribute_rows :: "string list" where
  "attribute_rows = tl (tl JOB_PARAM_EVENT_TYPE_MATRIX)"

definition event_names :: "string list" where
  "event_names = tl (split_char (CHR '','') (hd (tl JOB_PARAM_EVENT_TYPE_MATRIX)))"

definition attribute_name :: "string \<Rightarrow> string" where
  "attribute_name row = hd (split_char (CHR '','') row)"

lemma matrix_text: "filter (\<lambda>l. strip l \<noteq> []) JOB_PARAM_EVENT_TYPE_MATRIX = hd (tl JOB_PARAM_EVENT_TYPE_MATRIX) # attribute_rows"
  by code_simp

lemma rows_long_enough:
  "list_all (\<lambda>row. list_all (\<lambda>h. h = []) (drop (List.length (tl (split_char (CHR '','') row))) event_names)) attribute_rows"
  by code_simp

lemma row_names: "map attribute_name attribute_rows = tl (map fst (job_properties (\<lambda>_. []))) @ [''Variable_List'']"
  by code_simp

lemma list_all_covered: "hd ks = x \<Longrightarrow> ns = tl ks @ zs \<Longrightarrow> list_all (\<lambda>k. k = x \<or> k \<in> set ns) ks"
  by (cases ks) (auto simp: list_all_iff)

lemma properties_have_rows:
  "list_all (\<lambda>k. k = ''id'' \<or> k \<in> set (map attribute_name attribute_rows)) (map fst (job_properties (\<lambda>_. [])))"
  by (rule list_all_covered [OF _ row_names]) (simp add: job_properties_def)

lemma row_events_total: "list_all (\<lambda>h. h \<noteq> e) (drop (List.length ts) hs) \<Longrightarrow> \<exists>es. row_events e hs ts = Inr es"
proof (induction e hs ts rule: row_events.induct)
  case (2 e h hs ts)
  then show ?case by (cases ts) fastforce+
qed simp

lemma matrix_row_total:
  assumes "e \<noteq> []" "row \<in> set attribute_rows"
  shows "\<exists>es. matrix_row e (split_char (CHR '','') (hd (tl JOB_PARAM_EVENT_TYPE_MATRIX))) row = Inr (attribute_name row, es)"
proof -
  from rows_long_enough assms have "list_all (\<lambda>h. h \<noteq> e) (drop (List.length (tl (split_char (CHR '','') row))) event_names)"
    by (auto simp: list_all_iff)
  from row_events_total [OF this] show ?thesis
    by (auto simp: matrix_row_def Let_def event_names_def attribute_name_def)
qed

lemma traverseE_keys:
  "(\<And>x. x \<in> set xs \<Longrightarrow> \<exists>v. f x = Inr (g x, v)) \<Longrightarrow> \<exists>ys. traverseE f xs = Inr ys \<and> map fst ys = map g xs"
  by (induction xs) fastforce+

lemma matrix_total: "e \<noteq> [] \<Longrightarrow> \<exists>m. build_matrix e = Inr m \<and> map fst m = map attribute_name attribute_rows"
  unfolding build_matrix_def build_matrix_of_def matrix_text list.case by (intro traverseE_keys matrix_row_total)

text \<open>The \<open>pbs\<close> module lets an event read what the table says, and keeps the resource lists as dicts.\<close>

definition dict_attributes :: "string list" where
  "dict_attributes = [''group_list'', ''resources_released_list'', ''Resource_List'', ''User_List'']"

definition attributes_answer :: "hook_job \<Rightarrow> bool" where
  "attributes_answer j \<longleftrightarrow> (\<exists>v. pbs_id (hj_job j) = Inr v) \<and> (\<exists>v. pbs_state (hj_job j) = Inr v) \<and>
     (\<forall>k. readable k j = Inr True \<longrightarrow> (\<exists>v. pbs_attr (hj_job j) k = Inr v \<and>
        (k \<in> set dict_attributes \<longrightarrow> v = PNone \<or> (\<exists>kvs. v = PDict kvs))))"

definition answers :: "hook_job \<Rightarrow> string \<Rightarrow> (hook_job \<Rightarrow> pyval res) \<Rightarrow> bool" where
  "answers j k f = ((k = ''id'' \<or> k \<in> set (map fst (hj_matrix j))) \<longrightarrow> (\<exists>v. f j = Inr v))"

lemma readable_known: "k \<in> set (map fst (hj_matrix j)) \<Longrightarrow> \<exists>b. readable k j = Inr b"
  by (cases "map_of (rev (hj_matrix j)) k") (auto simp: readable_def map_of_eq_None_iff)

lemma raw_attr_answers:
  assumes "attributes_answer j" "k \<in> set (map fst (hj_matrix j))"
  shows "\<exists>v. raw_attr k j = Inr v \<and> (k \<in> set dict_attributes \<longrightarrow> v = PNone \<or> (\<exists>kvs. v = PDict kvs))"
proof -
  from readable_known [OF assms(2)] obtain b where b: "readable k j = Inr b" by blast
  show ?thesis
  proof (cases b)
    case True
    with b have "readable k j = Inr True" by simp
    with assms(1) have "\<exists>v. pbs_attr (hj_job j) k = Inr v \<and> (k \<in> set dict_attributes \<longrightarrow> v = PNone \<or> (\<exists>kvs. v = PDict kvs))"
      unfolding attributes_answer_def by blast
    with b True show ?thesis by (simp add: raw_attr_def)
  qed (use b in \<open>simp add: raw_attr_def\<close>)
qed

lemma answers_attrs:
  assumes "attributes_answer j"
  shows "k \<noteq> ''id'' \<Longrightarrow> answers j k (raw_attr k)" "k \<noteq> ''id'' \<Longrightarrow> answers j k (scalar_attr fmt k)"
    "k \<in> set dict_attributes \<Longrightarrow> answers j k (dict_attr fmt k)"
    "answers j ''id'' (pj_id fmt)" "answers j ''job_state'' (pj_job_state fmt)"
  subgoal using raw_attr_answers [OF assms] by (auto simp: answers_def)
  subgoal using raw_attr_answers [OF assms] by (fastforce simp: answers_def scalar_attr_def)
  subgoal
  proof (unfold answers_def, intro impI)
    assume k: "k \<in> set dict_attributes" and m: "k = ''id'' \<or> k \<in> set (map fst (hj_matrix j))"
    then have "k \<in> set (map fst (hj_matrix j))" by (auto simp: dict_attributes_def)
    from raw_attr_answers [OF assms this] k obtain v where "raw_attr k j = Inr v" "v = PNone \<or> (\<exists>kvs. v = PDict kvs)" by blast
    then show "\<exists>v. dict_attr fmt k j = Inr v" by (auto simp: dict_attr_def)
  qed
  subgoal using assms by (auto simp: answers_def pj_id_def attributes_answer_def)
  subgoal
  proof (unfold answers_def, intro impI)
    assume "''job_state'' = ''id'' \<or> ''job_state'' \<in> set (map fst (hj_matrix j))"
    then obtain b where "readable ''job_state'' j = Inr b" using readable_known [of "''job_state''" j] by auto
    moreover obtain v where "pbs_state (hj_job j) = Inr v" using assms by (auto simp: attributes_answer_def)
    ultimately show "\<exists>v. pj_job_state fmt j = Inr v" by (auto simp: pj_job_state_def)
  qed
  done

lemma properties_answer:
  assumes "attributes_answer j" shows "list_all (\<lambda>(k, f). answers j k f) (job_properties fmt)"
  unfolding job_properties_def list.pred_inject prod.case pj_defs_scalar
  by (intro conjI answers_attrs [OF assms] list.pred_inject(1); simp add: dict_attributes_def)

lemma property_names: "map fst (job_properties fmt) = map fst (job_properties (\<lambda>_. []))"
  unfolding job_properties_def list.map fst_conv by (rule refl)

lemma hook_job_total:
  assumes "e \<noteq> []" "new_hook_job e job = Inr j" "attributes_answer j"
  shows "\<exists>d. build_job_dict fmt j = Inr d"
proof -
  from assms(2) have "build_matrix e = Inr (hj_matrix j)" by (auto simp: new_hook_job_def bindE_Inr_iff)
  with matrix_total [OF assms(1)] have "map fst (hj_matrix j) = map attribute_name attribute_rows" by auto
  with properties_have_rows property_names [of fmt]
  have known: "list_all (\<lambda>k. k = ''id'' \<or> k \<in> set (map fst (hj_matrix j))) (map fst (job_properties fmt))"
    by (simp only:)
  have "\<exists>v. f j = Inr v" if kf: "(k, f) \<in> set (job_properties fmt)" for k f
  proof -
    from kf known have "k = ''id'' \<or> k \<in> set (map fst (hj_matrix j))" by (force simp: list_all_iff)
    moreover from kf properties_answer [OF assms(3), of fmt] have "answers j k f" by (auto simp: list_all_iff)
    ultimately show ?thesis by (auto simp: answers_def)
  qed
  then have "traverseE (\<lambda>(k, f). bindE (f j) (\<lambda>v. Inr (k, v))) (job_properties fmt) =
      Inr (map (\<lambda>(k, f). (k, projr (f j))) (job_properties fmt))"
    by (intro traverseE_total) (force simp: split_beta)
  then show ?thesis by (simp add: build_job_dict_def)
qed


end
