(* ===== verification/PBS_Hook.thy ===== *)
theory PBS_Hook
  imports PBS_Hook_Job
begin

text \<open>
  The second half of \<open>resources/openpbs/hooks/openpbs_hook_handler.py\<close>: \<open>OpenPBSNode\<close>, \<open>OpenPBSEvent\<close>, the call of the
  scheduler over its unix socket, and the main flow of the hook. What the hook tells OpenPBS is the list of its effects.
  The socket, the metadata service, the JSON library and the objects of the \<open>pbs\<close> module are fields of \<open>hook_env\<close>.
\<close>

section \<open>Nodes and events\<close>

record pbs_node =
  pn_resources_assigned :: "pydict option"
  pn_resources_available :: "pydict option"
  pn_pcpus :: pyval
  pn_pbs_version :: pyval

record pbs_event =
  pe_type :: int
  pe_hook_name :: pyval
  pe_requestor :: pyval
  pe_requestor_host :: pyval
  pe_hook_type :: pyval
  pe_vnode_list :: "(string \<times> pbs_node) list option"
  pe_job_list :: "(string \<times> pbs_job) list option"
  pe_argv :: pyval
  pe_env :: pyval
  pe_progname :: pyval
  pe_vnode_list_fail :: "(string \<times> pbs_node) list option"
  pe_pid :: pyval
  pe_src_queue :: pyval
  pe_resv :: pyval
  pe_job :: "pbs_job option"
  pe_job_o :: "pbs_job option"

datatype daemon_answer =
    HttpResponse string
  | SocketTimeout
  | ConnectionFailed string
  | OtherFailure exc

record hook_env =
  he_fmt :: "pyval \<Rightarrow> string"
  he_start_time :: int
  he_instance_id :: "string res"
  he_instance_type :: "string res"
  he_environ :: "string \<Rightarrow> string option"
  he_socket_exists :: bool
  he_request_id :: string
  he_daemon :: "pydict \<Rightarrow> daemon_answer"
  he_json_loads :: "string \<Rightarrow> pydict res"
  he_dumps_base64 :: "pydict \<Rightarrow> string res"
  he_find_queue :: "pyval \<Rightarrow> unit res"
  he_set_project :: "pyval \<Rightarrow> unit res"
  he_set_resource :: "string \<Rightarrow> pyval \<Rightarrow> unit res"
  he_failure_message :: "exc \<Rightarrow> string"

definition str_or_none :: "hook_env \<Rightarrow> pyval \<Rightarrow> pyval" where
  "str_or_none env v = (if v = PNone then PNone else PStr (py_str (he_fmt env) v))"

definition drop_none :: "pydict \<Rightarrow> pydict" where
  "drop_none d = filter (\<lambda>(_, v). v \<noteq> PNone) d"

definition pcpus :: "hook_env \<Rightarrow> pbs_node \<Rightarrow> pyval" where
  "pcpus env n = str_or_none env (pn_pcpus n)"

definition pbs_version :: "hook_env \<Rightarrow> pbs_node \<Rightarrow> pyval" where
  "pbs_version env n = str_or_none env (pn_pbs_version n)"

definition strings_of_resources :: "hook_env \<Rightarrow> pydict option \<Rightarrow> pyval" where
  "strings_of_resources env r = (case r of None \<Rightarrow> PNone
     | Some kvs \<Rightarrow> PDict (map (\<lambda>(k, v). (k, PStr (py_str (he_fmt env) v))) (drop_none kvs)))"

definition node_resources_assigned :: "hook_env \<Rightarrow> pbs_node \<Rightarrow> pyval" where
  "node_resources_assigned env n = strings_of_resources env (pn_resources_assigned n)"

definition node_resources_available :: "hook_env \<Rightarrow> pbs_node \<Rightarrow> pyval" where
  "node_resources_available env n = strings_of_resources env (pn_resources_available n)"

definition build_node :: "hook_env \<Rightarrow> pbs_node \<Rightarrow> pydict" where
  "build_node env n = drop_none
     [(''resources_assigned'', node_resources_assigned env n), (''resources_available'', node_resources_available env n),
      (''pcpus'', pcpus env n), (''pbs_version'', pbs_version env n)]"

definition ev_type :: "pbs_event \<Rightarrow> string res" where
  "ev_type e = required KeyError (map_of HOOK_EVENT_TO_NAME_MAP (pe_type e))"

definition node_dicts :: "hook_env \<Rightarrow> (string \<times> pbs_node) list option \<Rightarrow> pyval" where
  "node_dicts env ns = (case ns of None \<Rightarrow> PNone
     | Some kvs \<Rightarrow> PDict (map (\<lambda>(k, n). (k, PDict (build_node env n))) kvs))"

text \<open>The last name of the list is two names run together.\<close>

definition ev_vnode_list :: "hook_env \<Rightarrow> string \<Rightarrow> pbs_event \<Rightarrow> pyval" where
  "ev_vnode_list env t e =
     (if t \<in> {''exechost_startup'', ''exechost_periodic'', ''execjob_launch'', ''execjob_prologue'', ''execjob_begin'',
              ''execjob_end'', ''execjob_preterm'', ''execjob_epilogue'', ''execjob_preresume'',
              ''execjob_postsuspendexecjob_attach''}
      then node_dicts env (pe_vnode_list e) else PNone)"

definition job_dict :: "hook_env \<Rightarrow> string \<Rightarrow> pbs_job \<Rightarrow> pydict res" where
  "job_dict env t job = bindE (new_hook_job t job) (build_job_dict (he_fmt env))"

definition ev_job_list :: "hook_env \<Rightarrow> string \<Rightarrow> pbs_event \<Rightarrow> pyval res" where
  "ev_job_list env t e =
     (if t \<in> {''exechost_periodic''}
      then (case pe_job_list e of
              None \<Rightarrow> Inr PNone
            | Some kvs \<Rightarrow> bindE (traverseE (\<lambda>(_, j). job_dict env t j) kvs) (\<lambda>ds. Inr (PList (map PDict ds))))
      else Inr PNone)"

definition ev_argv :: "hook_env \<Rightarrow> string \<Rightarrow> pbs_event \<Rightarrow> pyval" where
  "ev_argv env t e = (if t \<in> {''execjob_launch''} then str_or_none env (pe_argv e) else PNone)"

definition ev_env :: "hook_env \<Rightarrow> string \<Rightarrow> pbs_event \<Rightarrow> pyval" where
  "ev_env env t e = (if t \<in> {''execjob_launch''} then str_or_none env (pe_env e) else PNone)"

definition ev_job :: "string \<Rightarrow> pbs_event \<Rightarrow> pbs_job option" where
  "ev_job t e =
     (if t \<in> {''execjob_launch'', ''execjob_prologue'', ''execjob_begin'', ''execjob_end'', ''execjob_preterm'',
              ''execjob_epilogue'', ''execjob_preresume'', ''execjob_postsuspend'', ''execjob_attach'', ''queuejob'',
              ''runjob'', ''modifyjob'', ''movejob''}
      then pe_job e else None)"

definition ev_progname :: "hook_env \<Rightarrow> string \<Rightarrow> pbs_event \<Rightarrow> pyval" where
  "ev_progname env t e = (if t \<in> {''execjob_launch''} then str_or_none env (pe_progname e) else PNone)"

definition ev_vnode_list_fail :: "hook_env \<Rightarrow> string \<Rightarrow> pbs_event \<Rightarrow> pyval" where
  "ev_vnode_list_fail env t e =
     (if t \<in> {''execjob_launch'', ''execjob_prologue''} then node_dicts env (pe_vnode_list_fail e) else PNone)"

definition ev_pid :: "string \<Rightarrow> pbs_event \<Rightarrow> pyval" where
  "ev_pid t e = (if t \<in> {''execjob_attach''} then pe_pid e else PNone)"

definition ev_job_o :: "string \<Rightarrow> pbs_event \<Rightarrow> pbs_job option" where
  "ev_job_o t e = (if t \<in> {''modifyjob''} then pe_job_o e else None)"

definition ev_src_queue :: "string \<Rightarrow> pbs_event \<Rightarrow> pyval" where
  "ev_src_queue t e = (if t \<in> {''movejob''} then pe_src_queue e else PNone)"

definition ev_resv :: "string \<Rightarrow> pbs_event \<Rightarrow> pyval" where
  "ev_resv t e = (if t \<in> {''resvsub'', ''resv_end''} then pe_resv e else PNone)"

definition optional_job :: "hook_env \<Rightarrow> string \<Rightarrow> string \<Rightarrow> pbs_job option \<Rightarrow> pydict res" where
  "optional_job env key t job = (case job of None \<Rightarrow> Inr []
     | Some j \<Rightarrow> bindE (job_dict env t j) (\<lambda>d. Inr [(key, PDict d)]))"

definition instance_entries :: "hook_env \<Rightarrow> string \<Rightarrow> pydict res" where
  "instance_entries env t =
     (if startswith ''execjob_'' t
      then bindE (he_instance_id env) (\<lambda>i. bindE (he_instance_type env) (\<lambda>ty.
             Inr [(''instance_id'', PStr i), (''instance_type'', PStr ty)]))
      else Inr [])"

definition build_event :: "hook_env \<Rightarrow> pbs_event \<Rightarrow> pydict res" where
  "build_event env e =
     bindE (ev_type e) (\<lambda>t.
     bindE (instance_entries env t) (\<lambda>instance_kvs.
     bindE (ev_job_list env t e) (\<lambda>job_list.
     bindE (optional_job env ''job'' t (ev_job t e)) (\<lambda>job.
     bindE (optional_job env ''job_o'' t (ev_job_o t e)) (\<lambda>job_o.
       Inr (drop_none ([(''timestamp'', PInt (he_start_time env))] @ instance_kvs @
         [(''type'', PStr t),
          (''hook_name'', PStr (py_str (he_fmt env) (pe_hook_name e))),
          (''requestor'', PStr (py_str (he_fmt env) (pe_requestor e))),
          (''requestor_host'', PStr (py_str (he_fmt env) (pe_requestor_host e))),
          (''hook_type'', PStr (py_str (he_fmt env) (pe_hook_type e))),
          (''vnode_list'', ev_vnode_list env t e), (''job_list'', job_list), (''argv'', ev_argv env t e),
          (''env'', ev_env env t e), (''prog'', ev_progname env t e), (''vnode_list_fail'', ev_vnode_list_fail env t e),
          (''pid'', ev_pid t e), (''src_queue'', ev_src_queue t e), (''resv'', ev_resv t e)] @ job @ job_o)))))))"

section \<open>Calling the scheduler\<close>

text \<open>The exception \<open>SocaException\<close> of this script carries a message, kept in the state as the value it was made from.\<close>

datatype hook_effect =
    SetQueue pyval
  | SetProject pyval
  | SetResource string pyval
  | SendMessage string
  | Accept pyval
  | Reject string

record hook_state =
  h_message :: pyval
  h_effects :: "hook_effect list"

type_synonym 'a hook = "(hook_state, 'a) act"

definition emit_hook :: "hook_effect \<Rightarrow> unit hook" where
  "emit_hook x = modify (\<lambda>s. s\<lparr>h_effects := h_effects s @ [x]\<rparr>)"

definition raise_soca :: "pyval \<Rightarrow> 'a hook" where
  "raise_soca message = thenS (modify (\<lambda>s. s\<lparr>h_message := message\<rparr>)) (throw (SocaException ''SocaException''))"

fun is_numeric :: "string \<Rightarrow> bool" where
  "is_numeric [] = False"
| "is_numeric [c] = is_digit c"
| "is_numeric (c # cs) = (is_digit c \<and> is_numeric cs)"

definition get_env_str :: "hook_env \<Rightarrow> string \<Rightarrow> string option \<Rightarrow> string option" where
  "get_env_str env key d =
     (case he_environ env key of
        None \<Rightarrow> d
      | Some v \<Rightarrow> if strip v = [] then d else Some (strip v))"

definition get_env_int :: "hook_env \<Rightarrow> string \<Rightarrow> int option \<Rightarrow> int option" where
  "get_env_int env key d =
     (case he_environ env key of
        None \<Rightarrow> d
      | Some v \<Rightarrow> if strip v = [] then d
                  else if \<not> is_numeric (strip v) then d else Some (int (digits_val (strip v))))"

definition socket_address :: "hook_env \<Rightarrow> string" where
  "socket_address env = opt_or (get_env_str env ''IDEA_SCHEDULER_UNIX_SOCKET'' (Some ''/run/idea.sock'')) ''''"

definition get_socket :: "hook_env \<Rightarrow> unit hook" where
  "get_socket env =
     (if he_socket_exists env then ret ()
      else raise_soca (PStr ''Error: idea-scheduler is not running. Contact administrator to resolve the problem.''))"

definition sanitize_error_message :: "string \<Rightarrow> string" where
  "sanitize_error_message message = remove_char (CHR 0x22) message"

definition is_always_success_event :: "pbs_event \<Rightarrow> bool" where
  "is_always_success_event e = (pe_type e \<in> set ALWAYS_SUCCESS_EVENTS)"

definition is_applicable_event :: "pbs_event \<Rightarrow> bool" where
  "is_applicable_event e =
     (if pe_type e \<notin> set SUPPORTED_EVENTS then False
      else if pe_type e = HOOK_EVENT_MODIFYJOB \<and> pe_requestor e = PStr ''root'' then False
      else True)"

definition hook_request :: "hook_env \<Rightarrow> string \<Rightarrow> pydict \<Rightarrow> pydict" where
  "hook_request env t payload =
     [(''header'', PDict [(''namespace'', PStr (''OpenPBSHook.'' @ t)), (''request_id'', PStr (he_request_id env))]),
      (''payload'', PDict [(''event'', PDict payload)])]"

text \<open>The last line after the empty line that ends the headers; none, and the log message raises.\<close>

fun response_payload :: "string list \<Rightarrow> string option" where
  "response_payload [] = None"
| "response_payload (l # ls) = (if l = [] then (if ls = [] then None else Some (last ls)) else response_payload ls)"

definition timeout_message :: string where
  "timeout_message = ''idea-scheduler is taking a long time ( more than 10 secs) to respond. '' @
     ''Please try again later or contact your administrator to investigate the problem.''"

definition connection_message :: "hook_env \<Rightarrow> string \<Rightarrow> string" where
  "connection_message env err = ''Could not connect to idea-scheduler at '' @ socket_address env @ ''. '' @
     ''Please contact administrator to investigate the problem. Err: '' @ err"

definition invoke_soca_scheduler :: "hook_env \<Rightarrow> pbs_event \<Rightarrow> pydict hook" where
  "invoke_soca_scheduler env e =
     bindS (reads (\<lambda>_. build_event env e)) (\<lambda>payload.
     thenS (get_socket env)
    (bindS (reads (\<lambda>_. ev_type e)) (\<lambda>t.
       case he_daemon env (hook_request env t payload) of
         SocketTimeout \<Rightarrow> raise_soca (PStr timeout_message)
       | ConnectionFailed err \<Rightarrow> raise_soca (PStr (connection_message env err))
       | OtherFailure x \<Rightarrow> throw x
       | HttpResponse text \<Rightarrow>
           bindS (reads (\<lambda>_. required TypeError (response_payload (split_lines text)))) (\<lambda>body.
             reads (\<lambda>_. he_json_loads env body)))))"

section \<open>The hook\<close>

definition update_resource :: "hook_env \<Rightarrow> string \<times> pyval \<Rightarrow> unit hook" where
  "update_resource env = (\<lambda>(name, v).
     thenS (reads (\<lambda>_. he_set_resource env name v)) (emit_hook (SetResource name v)))"

definition value_or_none :: "string \<Rightarrow> pydict \<Rightarrow> pyval" where
  "value_or_none k d = opt_or (map_of d k) PNone"

definition apply_answer :: "hook_env \<Rightarrow> pbs_event \<Rightarrow> pydict \<Rightarrow> unit hook" where
  "apply_answer env e payload =
     bindS (reads (\<lambda>_. required KeyError (map_of payload ''accept''))) (\<lambda>accept.
     let message = opt_or (map_of payload ''formatted_user_message'') (PStr '''');
         queue_name = value_or_none ''queue'' payload;
         project = value_or_none ''project'' payload;
         updated = value_or_none ''resources_updated'' payload
     in if \<not> truthy accept then raise_soca message
        else
          thenS (if queue_name \<noteq> PNone \<and> pe_type e = HOOK_EVENT_QUEUEJOB
                 then thenS (reads (\<lambda>_. he_find_queue env queue_name)) (emit_hook (SetQueue queue_name)) else ret ())
         (thenS (if project \<noteq> PNone
                 then thenS (reads (\<lambda>_. he_set_project env project)) (emit_hook (SetProject project)) else ret ())
         (thenS (case updated of
                   PNone \<Rightarrow> ret ()
                 | PDict kvs \<Rightarrow> forS (update_resource env) kvs
                 | _ \<Rightarrow> throw AttributeError)
                (emit_hook (Accept message)))))"

fun payload_dict :: "pyval \<Rightarrow> pydict res" where
  "payload_dict (PDict d) = Inr d"
| "payload_dict _ = Inl TypeError"

definition pre_execution_hook :: "hook_env \<Rightarrow> pbs_event \<Rightarrow> unit hook" where
  "pre_execution_hook env e =
     bindS (invoke_soca_scheduler env e) (\<lambda>response.
       if \<not> truthy (opt_or (map_of response ''success'') (PBool False))
       then bindS (reads (\<lambda>_. required KeyError (map_of response ''message''))) raise_soca
       else case value_or_none ''payload'' response of
              PNone \<Rightarrow> ret ()
            | v \<Rightarrow> bindS (reads (\<lambda>_. payload_dict v)) (apply_answer env e))"

definition send_message_command :: "hook_env \<Rightarrow> string \<Rightarrow> string" where
  "send_message_command env body =
     ''AWS_DEFAULT_REGION='' @ opt_or (get_env_str env ''AWS_DEFAULT_REGION'' None) ''None'' @
     '' /bin/aws sqs send-message --queue-url '' @
     opt_or (get_env_str env ''IDEA_JOB_STATUS_SQS_QUEUE_URL'' None) ''None'' @
     '' --message-body '' @ [CHR 0x22] @ body @ [CHR 0x22] @ '' ''"

definition execution_hook :: "hook_env \<Rightarrow> pbs_event \<Rightarrow> unit hook" where
  "execution_hook env e =
     bindS (reads (\<lambda>_. build_event env e)) (\<lambda>payload.
     bindS (reads (\<lambda>_. ev_type e)) (\<lambda>t.
     bindS (reads (\<lambda>_. he_dumps_base64 env (hook_request env t payload))) (\<lambda>body.
       emit_hook (SendMessage (send_message_command env body)))))"

definition hook_body :: "hook_env \<Rightarrow> pbs_event \<Rightarrow> unit hook" where
  "hook_body env e =
     (if \<not> is_applicable_event e then ret ()
      else if pe_type e \<in> set PRE_EXECUTION_HOOKS then pre_execution_hook env e
      else if pe_type e \<in> set EXECUTION_HOOKS then execution_hook env e
      else ret ())"

text \<open>The handler of the exceptions; \<open>message.replace\<close> of a value that is no text raises, and the message stays None.\<close>

definition error_message :: "hook_env \<Rightarrow> exc \<Rightarrow> pyval \<Rightarrow> string" where
  "error_message env x message =
     (case x of
        SocaException _ \<Rightarrow> (case message of PStr m \<Rightarrow> sanitize_error_message m | _ \<Rightarrow> ''Unknown Error'')
      | _ \<Rightarrow> he_failure_message env x)"

definition handle_failure :: "hook_env \<Rightarrow> pbs_event \<Rightarrow> exc \<Rightarrow> unit hook" where
  "handle_failure env e x =
     bindS (gets h_message) (\<lambda>message.
       if is_always_success_event e then emit_hook (Accept PNone)
       else emit_hook (Reject (sanitize_error_message (error_message env x message))))"

definition run_hook :: "hook_env \<Rightarrow> pbs_event \<Rightarrow> hook_effect list" where
  "run_hook env e =
     h_effects (snd (catchS (hook_body env e) (handle_failure env e) \<lparr>h_message = PNone, h_effects = []\<rparr>))"

section \<open>What the hook tells OpenPBS\<close>

definition is_reject :: "hook_effect \<Rightarrow> bool" where
  "is_reject x = (case x of Reject _ \<Rightarrow> True | _ \<Rightarrow> False)"

definition effects_in :: "hook_effect set \<Rightarrow> hook_state \<Rightarrow> bool" where
  "effects_in X s \<longleftrightarrow> set (h_effects s) \<subseteq> X"

lemma effects_emit [preserves_intros]: "x \<in> X \<Longrightarrow> preserves (effects_in X) (emit_hook x)"
  by (simp add: emit_hook_def preserves_def effects_in_def)

lemma effects_raise [preserves_intros]: "preserves (effects_in X) (raise_soca m)"
  unfolding raise_soca_def by (intro preserves_intros) (simp add: effects_in_def)

lemma preserves_daemon [preserves_intros]:
  "\<lbrakk>\<And>t. preserves P (f t); preserves P g; \<And>m. preserves P (h m); \<And>x. preserves P (k x)\<rbrakk> \<Longrightarrow>
   preserves P (case a of HttpResponse t \<Rightarrow> f t | SocketTimeout \<Rightarrow> g | ConnectionFailed m \<Rightarrow> h m | OtherFailure x \<Rightarrow> k x)"
  by (simp split: daemon_answer.split)

lemma preserves_pyval [preserves_intros]:
  "\<lbrakk>preserves P a; \<And>d. preserves P (f d); preserves P b\<rbrakk> \<Longrightarrow>
   preserves P (case v of PNone \<Rightarrow> a | PDict d \<Rightarrow> f d | _ \<Rightarrow> b)"
  "\<lbrakk>preserves P a; \<And>w. preserves P (g w)\<rbrakk> \<Longrightarrow> preserves P (case v of PNone \<Rightarrow> a | w \<Rightarrow> g w)"
  by (simp_all split: pyval.split)

lemma invoke_effects: "preserves (effects_in X) (invoke_soca_scheduler env e)"
  unfolding invoke_soca_scheduler_def get_socket_def by (intro preserves_intros)

lemma apply_answer_effects:
  assumes "\<And>m. Accept m \<in> X" "\<And>q. pe_type e = HOOK_EVENT_QUEUEJOB \<Longrightarrow> SetQueue q \<in> X" "\<And>q. SetProject q \<in> X"
    "\<And>n v. SetResource n v \<in> X"
  shows "preserves (effects_in X) (apply_answer env e payload)"
  unfolding apply_answer_def Let_def update_resource_def split_beta
  by (intro preserves_intros assms; simp)

lemma hook_body_effects:
  assumes "\<And>m. Accept m \<in> X" "\<And>q. pe_type e = HOOK_EVENT_QUEUEJOB \<Longrightarrow> SetQueue q \<in> X" "\<And>q. SetProject q \<in> X"
    "\<And>n v. SetResource n v \<in> X" "\<And>c. SendMessage c \<in> X"
  shows "preserves (effects_in X) (hook_body env e)"
  unfolding hook_body_def pre_execution_hook_def execution_hook_def
  by (intro preserves_intros invoke_effects apply_answer_effects assms; simp)

lemma run_hook_cases:
  obtains s where "hook_body env e \<lparr>h_message = PNone, h_effects = []\<rparr> = (Inr (), s)" "run_hook env e = h_effects s"
  | x s where "hook_body env e \<lparr>h_message = PNone, h_effects = []\<rparr> = (Inl x, s)"
      "run_hook env e = h_effects s @ [if is_always_success_event e then Accept PNone
         else Reject (sanitize_error_message (error_message env x (h_message s)))]"
  by (cases "hook_body env e \<lparr>h_message = PNone, h_effects = []\<rparr>"; cases "fst (hook_body env e \<lparr>h_message = PNone, h_effects = []\<rparr>)")
    (auto simp: run_hook_def catchS_def handle_failure_def emit_hook_def)

lemma body_effects_in:
  assumes "preserves (effects_in X) (hook_body env e)" "hook_body env e \<lparr>h_message = PNone, h_effects = []\<rparr> = (r, s)"
  shows "set (h_effects s) \<subseteq> X"
  using preservesD [OF assms(1) _ assms(2)] by (simp add: effects_in_def)

text \<open>A hook of an event that must always succeed (a job that runs, begins or ends) never tells OpenPBS to reject the job,
  whatever fails.\<close>

lemma status_hook_never_rejects:
  assumes "is_always_success_event e" "x \<in> set (run_hook env e)"
  shows "\<not> is_reject x"
proof -
  have "preserves (effects_in {x. \<not> is_reject x}) (hook_body env e)"
    by (rule hook_body_effects) (simp_all add: is_reject_def)
  from body_effects_in [OF this] assms show ?thesis
    by (cases env e rule: run_hook_cases) (auto simp: is_reject_def)
qed

text \<open>A job is moved to another queue only when it is being queued, and a reason for a rejection never holds a double
  quote.\<close>

lemma hook_effects_allowed:
  assumes "x \<in> set (run_hook env e)"
  shows "case x of SetQueue q \<Rightarrow> pe_type e = HOOK_EVENT_QUEUEJOB | Reject m \<Rightarrow> CHR 0x22 \<notin> set m | _ \<Rightarrow> True"
proof -
  let ?X = "{x. case x of SetQueue q \<Rightarrow> pe_type e = HOOK_EVENT_QUEUEJOB | Reject m \<Rightarrow> False | _ \<Rightarrow> True}"
  have "preserves (effects_in ?X) (hook_body env e)" by (rule hook_body_effects) simp_all
  from body_effects_in [OF this] assms show ?thesis
    by (cases env e rule: run_hook_cases)
      (fastforce simp: sanitize_error_message_def remove_char_def split: hook_effect.splits if_splits)+
qed

text \<open>An event the hook does not support, and a change of a job made by root, is left to OpenPBS untouched.\<close>

lemma other_events_untouched:
  "if is_applicable_event e then pe_type e \<in> set PRE_EXECUTION_HOOKS \<union> set EXECUTION_HOOKS else run_hook env e = []"
  by (auto simp: run_hook_def hook_body_def catchS_def is_applicable_event_def SUPPORTED_EVENTS_def PRE_EXECUTION_HOOKS_def
      EXECUTION_HOOKS_def hook_event_defs)

definition scheduler_accepts :: "pydict \<Rightarrow> bool" where
  "scheduler_accepts response \<longleftrightarrow> truthy (opt_or (map_of response ''success'') (PBool False)) \<and>
     (case value_or_none ''payload'' response of
        PNone \<Rightarrow> True
      | PDict d \<Rightarrow> (case map_of d ''accept'' of None \<Rightarrow> False | Some v \<Rightarrow> truthy v)
      | _ \<Rightarrow> False)"

lemma pre_execution_returns:
  assumes "pre_execution_hook env e s = (Inr (), s')"
  shows "\<exists>response s1. invoke_soca_scheduler env e s = (Inr response, s1) \<and> scheduler_accepts response"
  using assms
  by (auto simp: pre_execution_hook_def bindS_apply thenS_apply raise_soca_def apply_answer_def Let_def scheduler_accepts_def
      split: prod.splits sum.splits if_splits pyval.splits option.splits elim!: payload_dict.elims)

lemma invoke_returns:
  assumes "invoke_soca_scheduler env e s = (Inr response, s')"
  shows "\<exists>t payload text body. ev_type e = Inr t \<and> build_event env e = Inr payload \<and> he_socket_exists env \<and>
    he_daemon env (hook_request env t payload) = HttpResponse text \<and>
    response_payload (split_lines text) = Some body \<and> he_json_loads env body = Inr response"
  using assms
  by (auto simp: invoke_soca_scheduler_def bindS_apply thenS_apply raise_soca_def get_socket_def
      split: prod.splits sum.splits if_splits daemon_answer.splits)


section \<open>Witnesses\<close>

definition sample_pbs_job :: pbs_job where
  "sample_pbs_job = \<lparr>pbs_id = Inr PNone,
     pbs_attr = (\<lambda>k. if k = ''Job_Name'' then Inr (PStr ''run1'') else if k = ''euser'' then Inl AttributeError else Inr PNone),
     pbs_state = Inr (Some JOB_STATE_QUEUED)\<rparr>"

definition sample_event :: "int \<Rightarrow> pbs_event" where
  "sample_event t = \<lparr>pe_type = t, pe_hook_name = PStr ''validate_job'', pe_requestor = PStr ''alice'', pe_requestor_host = PStr ''h1'',
     pe_hook_type = PStr ''site'', pe_vnode_list = None, pe_job_list = None, pe_argv = PNone, pe_env = PNone, pe_progname = PNone,
     pe_vnode_list_fail = None, pe_pid = PNone, pe_src_queue = PNone, pe_resv = PNone, pe_job = None,
     pe_job_o = None\<rparr>"

definition sample_hook_env :: "bool \<Rightarrow> hook_env" where
  "sample_hook_env up = \<lparr>he_fmt = (\<lambda>_. ''?''), he_start_time = 1, he_instance_id = Inr ''i-1'', he_instance_type = Inr ''c5.large'',
     he_environ = (\<lambda>_. None), he_socket_exists = up, he_request_id = ''r1'',
     he_daemon = (\<lambda>_. HttpResponse (''HTTP'' @ [CHR 0x0A, CHR 0x0A] @ ''body'')),
     he_json_loads = (\<lambda>_. Inr [(''success'', PBool True),
        (''payload'', PDict [(''accept'', PBool True), (''queue'', PStr ''normal''),
           (''resources_updated'', PDict [(''select'', PStr ''1:ncpus=1'')])])]),
     he_dumps_base64 = (\<lambda>_. Inr ''e30=''), he_find_queue = (\<lambda>_. Inr ()), he_set_project = (\<lambda>_. Inr ()),
     he_set_resource = (\<lambda>_ _. Inr ()), he_failure_message = (\<lambda>_. ''failed'')\<rparr>"

lemma sample_run_up:
  "run_hook (sample_hook_env True) (sample_event HOOK_EVENT_QUEUEJOB) =
     [SetQueue (PStr ''normal''), SetResource ''select'' (PStr ''1:ncpus=1''), Accept (PStr '''')]"
  by code_simp

lemma sample_run_down:
  "run_hook (sample_hook_env False) (sample_event HOOK_EVENT_RUNJOB) = [Accept PNone]"
  by code_simp

definition sample_matrix :: "(string \<times> string list) list" where
  "sample_matrix =
     [(''accounting_id'', []), (''Account_Name'', [''queuejob'']), (''accrue_type'', []), (''alt_id'', []),
      (''argument_list'', []), (''array'', []), (''array_id'', []), (''array_index'', []),
      (''array_indices_remaining'', []), (''array_indices_submitted'', [''queuejob'']), (''array_state_count'', []), (''block'', []),
      (''Checkpoint'', [''queuejob'']), (''comment'', []), (''create_resv_from_job'', [''queuejob'']), (''ctime'', []),
      (''depend'', [''queuejob'']), (''egroup'', []), (''eligible_time'', []), (''Error_Path'', [''queuejob'']),
      (''estimated'', []), (''etime'', []), (''euser'', []), (''Executable'', []),
      (''Execution_Time'', [''queuejob'']), (''exec_host'', []), (''exec_vnode'', []), (''Exit_status'', []),
      (''group_list'', [''queuejob'']), (''hashname'', []), (''Hold_Types'', [''queuejob'']), (''interactive'', [''queuejob'']),
      (''jobdir'', []), (''Job_Name'', [''queuejob'']), (''Job_Owner'', []), (''job_state'', []),
      (''Join_Path'', [''queuejob'']), (''Keep_Files'', [''queuejob'']), (''Mail_Points'', [''queuejob'']), (''Mail_Users'', [''queuejob'']),
      (''mtime'', []), (''no_stdio_sockets'', []), (''Output_Path'', [''queuejob'']), (''Priority'', [''queuejob'']),
      (''project'', [''queuejob'']), (''qtime'', []), (''queue'', [''queuejob'']), (''queue_rank'', []),
      (''queue_type'', []), (''release_nodes_on_stageout'', [''queuejob'']), (''Rerunable'', [''queuejob'']), (''resources_released'', [''queuejob'']),
      (''resources_released_list'', []), (''resources_used'', []), (''Resource_List'', [''queuejob'']), (''run_count'', [''queuejob'']),
      (''run_version'', []), (''sandbox'', [''queuejob'']), (''schedselect'', []), (''sched_hint'', []),
      (''server'', []), (''session_id'', []), (''Shell_Path_List'', [''queuejob'']), (''stagein'', [''queuejob'']),
      (''stageout'', [''queuejob'']), (''Stageout_status'', []), (''stime'', []), (''Submit_arguments'', []),
      (''substate'', []), (''sw_index'', []), (''umask'', [''queuejob'']), (''User_List'', [''queuejob'']),
      (''Variable_List'', [''queuejob''])]"

lemma sample_matrix: "build_matrix ''queuejob'' = Inr sample_matrix"
  by code_simp

definition sample_hook_job :: hook_job where
  "sample_hook_job = \<lparr>hj_event_type = ''queuejob'', hj_job = sample_pbs_job, hj_matrix = sample_matrix\<rparr>"

lemma sample_hook_job: "new_hook_job ''queuejob'' sample_pbs_job = Inr sample_hook_job"
  by (simp add: new_hook_job_def sample_hook_job_def sample_matrix)

lemma sample_answers: "attributes_answer sample_hook_job"
proof -
  have raises: "readable ''euser'' sample_hook_job = Inr False" by code_simp
  have "\<exists>v. pbs_attr sample_pbs_job k = Inr v \<and> (k \<in> set dict_attributes \<longrightarrow> v = PNone \<or> (\<exists>kvs. v = PDict kvs))"
    if k: "readable k sample_hook_job = Inr True" for k
  proof (cases "k = ''Job_Name''")
    case False
    from k raises have "k \<noteq> ''euser''" by auto
    with False show ?thesis by (simp add: sample_pbs_job_def)
  qed (simp add: sample_pbs_job_def dict_attributes_def)
  moreover have "hj_job sample_hook_job = sample_pbs_job" by (simp add: sample_hook_job_def)
  moreover have "\<exists>v. pbs_id sample_pbs_job = Inr v" "\<exists>v. pbs_state sample_pbs_job = Inr v" by (simp_all add: sample_pbs_job_def)
  ultimately show ?thesis unfolding attributes_answer_def by metis
qed


lemma hook_posts_readable_attributes_witness:
  "table_allows JOB_PARAM_EVENT_TYPE_MATRIX ''queuejob'' ''Job_Name''"
proof -
  obtain v where v: "pj_Job_Name (\<lambda>_. []) sample_hook_job = Inr v" "v \<noteq> PNone"
  proof -
    have "pj_Job_Name (\<lambda>_. []) sample_hook_job = Inr (PStr ''run1'')" by code_simp
    then show ?thesis using that by simp
  qed
  have p: "(''Job_Name'', pj_Job_Name (\<lambda>_. [])) \<in> set (job_properties (\<lambda>_. []))" by (simp add: job_properties_def)
  from hook_job_total [OF _ sample_hook_job sample_answers] obtain d where d: "build_job_dict (\<lambda>_. []) sample_hook_job = Inr d"
    by auto
  from hook_posts_readable_attributes [OF sample_hook_job d build_posts [OF d p v]] show ?thesis by simp
qed

lemma status_hook_never_rejects_witness:
  "list_all (\<lambda>x. \<not> is_reject x) (run_hook (sample_hook_env False) (sample_event HOOK_EVENT_RUNJOB))"
  using status_hook_never_rejects [of "sample_event HOOK_EVENT_RUNJOB" _ "sample_hook_env False"]
  by (auto simp: list_all_iff is_always_success_event_def sample_event_def ALWAYS_SUCCESS_EVENTS_def)

lemma hook_effects_allowed_witness:
  "SetQueue (PStr ''normal'') \<in> set (run_hook (sample_hook_env True) (sample_event HOOK_EVENT_QUEUEJOB)) \<and>
   pe_type (sample_event HOOK_EVENT_QUEUEJOB) = HOOK_EVENT_QUEUEJOB"
proof
  show m: "SetQueue (PStr ''normal'') \<in> set (run_hook (sample_hook_env True) (sample_event HOOK_EVENT_QUEUEJOB))"
    by (simp add: sample_run_up)
  from hook_effects_allowed [OF m] show "pe_type (sample_event HOOK_EVENT_QUEUEJOB) = HOOK_EVENT_QUEUEJOB" by simp
qed


end
