(* ===== verification/PBS_Ncpus.thy ===== *)
theory PBS_Ncpus
  imports Py_Dict
begin

text \<open>
  The hook of OpenPBS that sets the number of CPUs of a job when it is queued
  (\<open>resources/openpbs/hooks/calculate_ncpus_hook.py\<close>): the lookup of an instance type with its cache, and the rewriting of
  the select statement. The AWS command line tool is the parameter \<open>describe\<close>: the object it prints for an instance type,
  None when it fails or prints no JSON. The select statement of a job is the text that \<open>str\<close> prints for it.
\<close>

section \<open>Instance types\<close>

record instance_info =
  ii_vcpus :: pyval
  ii_cores :: pyval
  ii_threads_per_core :: pyval

type_synonym info_cache = "(string \<times> instance_info) list"

text \<open>A missing or empty figure makes the answer useless; a \<open>VCpuInfo\<close> that is no dict raises, which is handled.\<close>

definition vcpu_info :: "pydict \<Rightarrow> pydict option" where
  "vcpu_info d = (case opt_or (map_of d ''VCpuInfo'') (PDict []) of PDict v \<Rightarrow> Some v | _ \<Rightarrow> None)"

definition info_of_answer :: "pydict option \<Rightarrow> instance_info option" where
  "info_of_answer answer =
     (case Option.bind answer vcpu_info of
        None \<Rightarrow> None
      | Some v \<Rightarrow> let get = (\<lambda>k. opt_or (map_of v k) PNone);
                     vcpus = get ''DefaultVCpus''; cores = get ''DefaultCores''; threads = get ''DefaultThreadsPerCore''
                 in if truthy vcpus \<and> truthy cores \<and> truthy threads
                    then Some \<lparr>ii_vcpus = vcpus, ii_cores = cores, ii_threads_per_core = threads\<rparr> else None)"

definition get_ec2_instance_type_info_from_aws ::
  "(string \<Rightarrow> pydict option) \<Rightarrow> string \<Rightarrow> (info_cache, instance_info option) act" where
  "get_ec2_instance_type_info_from_aws describe t =
     (case info_of_answer (describe t) of
        None \<Rightarrow> ret None
      | Some i \<Rightarrow> thenS (modify (assign_key t i)) (ret (Some i)))"

definition default_info :: instance_info where
  "default_info = \<lparr>ii_vcpus = PInt 1, ii_cores = PInt 1, ii_threads_per_core = PInt 1\<rparr>"

definition get_instance_type_info :: "(string \<Rightarrow> pydict option) \<Rightarrow> string \<Rightarrow> (info_cache, instance_info) act" where
  "get_instance_type_info describe t =
     bindS (gets (\<lambda>c. map_of c t)) (\<lambda>cached.
       case cached of
         Some i \<Rightarrow> ret i
       | None \<Rightarrow>
           bindS (get_ec2_instance_type_info_from_aws describe t) (\<lambda>found.
             case found of
               Some i \<Rightarrow> ret i
             | None \<Rightarrow> thenS (modify (assign_key t default_info)) (ret default_info)))"

section \<open>The number of CPUs\<close>

record ncpus_job =
  nj_queue :: "string option"
  nj_resources :: "pydict option"

definition first_type :: "string \<Rightarrow> string" where
  "first_type t = (if CHR ''+'' \<in> set t then hd (split_char (CHR ''+'') t) else t)"

definition ht_support :: "(pyval \<Rightarrow> string) \<Rightarrow> pydict \<Rightarrow> bool" where
  "ht_support fmt resources =
     (case map_of resources ''ht_support'' of
        None \<Rightarrow> True
      | Some v \<Rightarrow> lower (py_str fmt v) \<in> {''true'', ''yes'', ''1''})"

definition calculate_ncpus ::
  "(pyval \<Rightarrow> string) \<Rightarrow> (string \<Rightarrow> pydict option) \<Rightarrow> ncpus_job \<Rightarrow> (info_cache, pyval option) act" where
  "calculate_ncpus fmt describe job =
     (let resources = opt_or (nj_resources job) [] in
      if resources = [] then ret None
      else case map_of resources ''instance_type'' of
        None \<Rightarrow> ret None
      | Some v \<Rightarrow>
          let t = py_str fmt v in
          if t = [] then ret None
          else bindS (get_instance_type_info describe (first_type t)) (\<lambda>i.
                 ret (Some (if ht_support fmt resources then ii_vcpus i else ii_cores i))))"

section \<open>The select statement\<close>

definition is_digits :: "string \<Rightarrow> bool" where
  "is_digits s = (s \<noteq> [] \<and> list_all is_digit s)"

text \<open>\<open>part.split('=', 1)\<close> of a part that holds an equals sign.\<close>

definition key_value :: "string \<Rightarrow> string \<times> string" where
  "key_value part = (takeWhile (\<lambda>c. c \<noteq> CHR ''='') part, tl (dropWhile (\<lambda>c. c \<noteq> CHR ''='') part))"

definition add_part :: "string \<Rightarrow> (string \<times> string) list \<Rightarrow> (string \<times> string) list" where
  "add_part part parsed =
     (if CHR ''='' \<in> set part then assign_key (fst (key_value part)) (snd (key_value part)) parsed else parsed)"

definition parse_select :: "string \<Rightarrow> ((string \<times> string) list \<times> int) option" where
  "parse_select s =
     (if s = [] then None
      else let parts = split_char (CHR '':'') s;
               counted = is_digits (hd parts)
           in Some (fold add_part (if counted then tl parts else parts) [],
                    if counted then int (digits_val (hd parts)) else 1))"

definition print_select :: "int \<Rightarrow> (string \<times> string) list \<Rightarrow> string" where
  "print_select count kvs = str_of_int count @ concat (map (\<lambda>(k, v). CHR '':'' # k @ CHR ''='' # v) kvs)"

definition preserved_compute_node :: "string \<Rightarrow> (string \<times> string) list \<Rightarrow> (string \<times> string) list res" where
  "preserved_compute_node select kvs =
     (if contains ''compute_node'' select
      then (case split_str ''compute_node='' select of
              _ # rest # _ \<Rightarrow>
                Inr (if ''compute_node'' \<in> set (map fst kvs) then []
                     else [(''compute_node'', hd (split_char (CHR '':'') rest))])
            | _ \<Rightarrow> Inl IndexError)
      else Inr [])"

text \<open>\<open>pbs.select(text)\<close> is the text.\<close>

definition new_select :: "(pyval \<Rightarrow> string) \<Rightarrow> pydict \<Rightarrow> pyval \<Rightarrow> string option res" where
  "new_select fmt resources ncpus =
     (case map_of resources ''select'' of
        None \<Rightarrow>
          bindE (case map_of resources ''nodes'' of None \<Rightarrow> Inr 1
                 | Some v \<Rightarrow> (case v of PStr s \<Rightarrow> int_of_str s | PInt i \<Rightarrow> Inr i | PBool b \<Rightarrow> Inr (int_of_bool b)
                            | PFloat x \<Rightarrow> int_of_float x | _ \<Rightarrow> Inl TypeError)) (\<lambda>nodes.
            Inr (Some (str_of_int nodes @ '':ncpus='' @ py_str fmt ncpus)))
      | Some v \<Rightarrow>
          let select = py_str fmt v in
          (case parse_select select of
             None \<Rightarrow> Inr None
           | Some (parsed, count) \<Rightarrow>
               if parsed = [] then Inr None
               else let kvs = assign_key ''ncpus'' (py_str fmt ncpus) parsed in
                    bindE (preserved_compute_node select kvs) (\<lambda>extra.
                      Inr (Some (print_select count (kvs @ extra))))))"

definition update_select_statement :: "(pyval \<Rightarrow> string) \<Rightarrow> ncpus_job \<Rightarrow> pyval \<Rightarrow> ncpus_job res" where
  "update_select_statement fmt job ncpus =
     (let resources = opt_or (nj_resources job) [] in
      bindE (new_select fmt resources ncpus) (\<lambda>s.
        Inr (case s of None \<Rightarrow> job
             | Some text \<Rightarrow> job\<lparr>nj_resources := Some (assign_key ''select'' (PStr text) resources)\<rparr>)))"

section \<open>The hook\<close>

definition should_skip_ncpus_calculation :: "ncpus_job \<Rightarrow> bool" where
  "should_skip_ncpus_calculation job = (nj_queue job = Some ''job-shared'')"

text \<open>The job OpenPBS queues; an exception leaves it as it is.\<close>

definition ncpus_hook ::
  "(pyval \<Rightarrow> string) \<Rightarrow> (string \<Rightarrow> pydict option) \<Rightarrow> bool \<Rightarrow> ncpus_job \<Rightarrow> (info_cache, ncpus_job) act" where
  "ncpus_hook fmt describe is_queuejob job =
     (if \<not> is_queuejob then ret job
      else if should_skip_ncpus_calculation job then ret job
      else catchS
        (bindS (calculate_ncpus fmt describe job) (\<lambda>ncpus.
           case ncpus of
             None \<Rightarrow> ret job
           | Some n \<Rightarrow> if truthy n then reads (\<lambda>_. update_select_statement fmt job n) else ret job))
        (\<lambda>_. ret job))"

section \<open>The round trip of the select statement\<close>

definition good_parts :: "(string \<times> string) list \<Rightarrow> bool" where
  "good_parts kvs \<longleftrightarrow> distinct (map fst kvs) \<and>
     (\<forall>(k, v) \<in> set kvs. CHR '':'' \<notin> set k \<and> CHR ''='' \<notin> set k \<and> CHR '':'' \<notin> set v)"

lemma assign_key_new: "k \<notin> fst ` set d \<Longrightarrow> assign_key k v d = d @ [(k, v)]"
  by (induction k v d rule: assign_key.induct) auto

lemma set_assign_key: "kv \<in> set (assign_key k v d) \<Longrightarrow> kv = (k, v) \<or> kv \<in> set d"
  by (induction k v d rule: assign_key.induct) (auto split: if_splits)

lemma good_parts_assign:
  assumes "good_parts d" "CHR '':'' \<notin> set k" "CHR ''='' \<notin> set k" "CHR '':'' \<notin> set v"
  shows "good_parts (assign_key k v d)"
  using assms by (auto simp: good_parts_def distinct_assign_key dest!: set_assign_key)

lemma key_value_parts:
  assumes "CHR ''='' \<in> set part" "CHR '':'' \<notin> set part"
  shows "CHR '':'' \<notin> set (fst (key_value part))" "CHR ''='' \<notin> set (fst (key_value part))"
    "CHR '':'' \<notin> set (snd (key_value part))"
proof -
  obtain x where x: "dropWhile (\<lambda>c. c \<noteq> CHR ''='') part = CHR ''='' # x" "set x \<subseteq> set part"
  proof -
    have "dropWhile (\<lambda>c. c \<noteq> CHR ''='') part \<noteq> []" using assms(1) by (simp add: dropWhile_eq_Nil_conv)
    then obtain y x where "dropWhile (\<lambda>c. c \<noteq> CHR ''='') part = y # x" by (cases "dropWhile (\<lambda>c. c \<noteq> CHR ''='') part") auto
    with hd_dropWhile [of "\<lambda>c. c \<noteq> CHR ''=''" part] set_dropWhileD [of _ "\<lambda>c. c \<noteq> CHR ''=''" part] that show ?thesis by force
  qed
  show "CHR '':'' \<notin> set (fst (key_value part))" "CHR ''='' \<notin> set (fst (key_value part))"
    using assms(2) by (auto simp: key_value_def dest: set_takeWhileD)
  show "CHR '':'' \<notin> set (snd (key_value part))"
    using x assms(2) by (auto simp: key_value_def)
qed

lemma good_parts_fold:
  "list_all (\<lambda>p. CHR '':'' \<notin> set p) parts \<Longrightarrow> good_parts d \<Longrightarrow> good_parts (fold add_part parts d)"
proof (induction parts arbitrary: d)
  case (Cons p parts)
  then have "CHR '':'' \<notin> set p" by simp
  with key_value_parts [of p] good_parts_assign [OF Cons.prems(2)] have "good_parts (add_part p d)"
    using Cons.prems(2) by (simp add: add_part_def)
  with Cons show ?case by simp
qed simp

lemma parse_select_good:
  assumes "parse_select s = Some (kvs, c)"
  shows "good_parts kvs \<and> 0 \<le> c"
proof -
  have parts: "list_all (\<lambda>p. CHR '':'' \<notin> set p) (split_char (CHR '':'') s)"
    by (auto simp: list_all_iff dest: split_char_parts)
  then have "list_all (\<lambda>p. CHR '':'' \<notin> set p) (tl (split_char (CHR '':'') s))"
    by (cases "split_char (CHR '':'') s") auto
  moreover have "good_parts []" by (simp add: good_parts_def)
  ultimately show ?thesis
    using assms parts by (auto simp: parse_select_def Let_def intro!: good_parts_fold split: if_splits)
qed

lemma add_part_pair: "CHR ''='' \<notin> set k \<Longrightarrow> add_part (k @ CHR ''='' # v) d = assign_key k v d"
proof -
  assume k: "CHR ''='' \<notin> set k"
  then have "takeWhile (\<lambda>c. c \<noteq> CHR ''='') (k @ CHR ''='' # v) = k"
    "dropWhile (\<lambda>c. c \<noteq> CHR ''='') (k @ CHR ''='' # v) = CHR ''='' # v"
    by (induction k) auto
  then show ?thesis by (simp add: add_part_def key_value_def)
qed

lemma fold_add_pairs:
  "good_parts (d @ kvs) \<Longrightarrow> fold add_part (map (\<lambda>(k, v). k @ CHR ''='' # v) kvs) d = d @ kvs"
proof (induction kvs arbitrary: d)
  case (Cons kv kvs)
  obtain k v where kv: "kv = (k, v)" by fastforce
  with Cons.prems have "CHR ''='' \<notin> set k" "k \<notin> fst ` set d" by (auto simp: good_parts_def)
  then have "add_part (k @ CHR ''='' # v) d = d @ [(k, v)]" by (simp add: add_part_pair assign_key_new)
  with Cons.IH [of "d @ [kv]"] Cons.prems kv show ?case by simp
qed simp

lemma print_select_join:
  "print_select c kvs = join '':'' (str_of_int c # map (\<lambda>(k, v). k @ CHR ''='' # v) kvs)"
  by (induction kvs arbitrary: c rule: rev_induct) (auto simp: print_select_def join_def split_beta)

lemma parse_print:
  assumes "good_parts kvs" "0 \<le> c"
  shows "parse_select (print_select c kvs) = Some (kvs, c)"
proof -
  let ?parts = "str_of_int c # map (\<lambda>(k, v). k @ CHR ''='' # v) kvs"
  from assms(2) have c: "str_of_int c = str_of_nat (nat c)" by (simp add: str_of_int_def)
  have "split_char (CHR '':'') (print_select c kvs) = ?parts"
    unfolding print_select_join using assms(1) colon_notin_digits
    by (intro split_char_join) (auto simp: good_parts_def c)
  moreover have "is_digits (str_of_int c)" using str_of_nat_digits [of "nat c"] by (simp add: c is_digits_def)
  moreover have "print_select c kvs \<noteq> []" using str_of_nat_digits [of "nat c"] by (auto simp: print_select_def c)
  moreover have "int (digits_val (str_of_int c)) = c" using assms(2) by (simp add: c digits_val_str_of_nat)
  ultimately show ?thesis using fold_add_pairs [of "[]" kvs] assms(1) by (simp add: parse_select_def)
qed

lemma colon_notin_int: "CHR '':'' \<notin> set (str_of_int i)"
  using colon_notin_digits by (auto simp: str_of_int_def)

lemma preserved_good:
  assumes "preserved_compute_node s kvs = Inr extra" "good_parts kvs"
  shows "good_parts (kvs @ extra) \<and>
    (extra = [] \<or> (\<exists>w. extra = [(''compute_node'', w)] \<and> ''compute_node'' \<notin> fst ` set kvs))"
proof -
  have "CHR '':'' \<notin> set (hd (split_char (CHR '':'') r))" for r
    using split_char_parts [of "hd (split_char (CHR '':'') r)" "CHR '':''" r] by simp
  with assms show ?thesis
    by (auto simp: preserved_compute_node_def good_parts_def image_iff split: if_splits list.splits)
qed

text \<open>C19: The select statement the hook writes reads back as the statement of the job with the number of CPUs replaced: the same
  count, the same keys and values in the same order, and at most a compute node the text named in passing.\<close>

lemma select_reads_back:
  assumes "map_of resources ''select'' = Some v" "parse_select (py_str fmt v) = Some (kvs, c)"
    "new_select fmt resources (PInt n) = Inr (Some text)"
  shows "\<exists>extra. parse_select text = Some (assign_key ''ncpus'' (str_of_int n) kvs @ extra, c) \<and>
    (extra = [] \<or> (\<exists>w. extra = [(''compute_node'', w)] \<and> ''compute_node'' \<notin> fst ` set kvs))"
proof -
  let ?kvs = "assign_key ''ncpus'' (str_of_int n) kvs"
  from assms obtain extra where extra: "preserved_compute_node (py_str fmt v) ?kvs = Inr extra"
    "text = print_select c (?kvs @ extra)"
    by (auto simp: new_select_def Let_def bindE_Inr_iff split: if_splits)
  from parse_select_good [OF assms(2)] have good: "good_parts ?kvs" "0 \<le> c"
    by (auto intro!: good_parts_assign simp: colon_notin_int)
  from preserved_good [OF extra(1) good(1)] parse_print [OF _ good(2)] extra(2) show ?thesis
    by (auto simp: keys_assign_key)
qed

text \<open>When the lookup of an instance type fails, one CPU is remembered for it: no later lookup of the type is tried, however
  AWS would answer.\<close>

lemma failed_lookup_remembered:
  assumes "map_of c t = None" "info_of_answer (describe t) = None"
  shows "\<exists>c'. get_instance_type_info describe t c = (Inr default_info, c') \<and>
    get_instance_type_info describe' t c' = (Inr default_info, c')"
  using assms by (simp add: get_instance_type_info_def get_ec2_instance_type_info_from_aws_def thenS_apply bindS_apply)

lemma select_reads_back_witness:
  "\<exists>extra. parse_select ''2:ncpus=36:mpiprocs=4'' = Some ([(''ncpus'', ''36''), (''mpiprocs'', ''4'')] @ extra, 2)"
proof -
  let ?r = "[(''select'', PStr ''2:ncpus=1:mpiprocs=4'')]"
  have "map_of ?r ''select'' = Some (PStr ''2:ncpus=1:mpiprocs=4'')" by simp
  moreover have "parse_select (py_str (\<lambda>_. []) (PStr ''2:ncpus=1:mpiprocs=4'')) = Some ([(''ncpus'', ''1''), (''mpiprocs'', ''4'')], 2)"
    by code_simp
  moreover have "new_select (\<lambda>_. []) ?r (PInt 36) = Inr (Some ''2:ncpus=36:mpiprocs=4'')" by code_simp
  ultimately have "\<exists>extra. parse_select ''2:ncpus=36:mpiprocs=4'' =
      Some (assign_key ''ncpus'' (str_of_int 36) [(''ncpus'', ''1''), (''mpiprocs'', ''4'')] @ extra, 2)"
    using select_reads_back by blast
  moreover have "str_of_int 36 = ''36''" by code_simp
  ultimately show ?thesis by simp
qed

lemma failed_lookup_remembered_witness:
  "\<exists>c'. get_instance_type_info (\<lambda>_. None) ''c5.large'' [] = (Inr default_info, c') \<and>
     get_instance_type_info (\<lambda>_. Some [(''VCpuInfo'', PDict [(''DefaultVCpus'', PInt 2)])]) ''c5.large'' c' = (Inr default_info, c')"
  by (rule failed_lookup_remembered) (simp_all add: info_of_answer_def)

end
