(* ===== verification/PBS_Model.thy ===== *)
theory PBS_Model
  imports Job_Builder Py_Dict
begin

text \<open>
  The jobs and events of OpenPBS as the scheduler receives them (\<open>app/scheduler/openpbs/openpbs_model.py\<close>) and their
  translation into jobs of the scheduler. The parsing of dates by the \<open>arrow\<close> library is \<open>pb_arrow\<close>: the text and the
  format, to microseconds. Of the fields of an OpenPBS job the record keeps those the code reads.
\<close>

section \<open>OpenPBS jobs and events\<close>

record openpbs_job =
  ob_dry_run :: "string option"
  ob_id :: "string option"
  ob_comment :: "string option"
  ob_euser :: "string option"
  ob_exec_host :: "string option"
  ob_exec_vnode :: "string option"
  ob_Exit_status :: "int option"
  ob_Job_Name :: pyval
  ob_Job_Owner :: "string option"
  ob_job_state :: "string option"
  ob_Mail_Points :: "string option"
  ob_project :: "string option"
  ob_qtime :: "string option"
  ob_queue :: "string option"
  ob_resources_used :: pyval
  ob_Resource_List :: "pydict option"
  ob_schedselect :: "string option"
  ob_stime :: "string option"

record openpbs_event =
  oe_timestamp :: "int option"
  oe_instance_id :: "string option"
  oe_instance_type :: "string option"
  oe_type :: "string option"
  oe_hook_name :: "string option"
  oe_requestor :: "string option"
  oe_requestor_host :: "string option"
  oe_job :: "openpbs_job option"
  oe_job_o :: "openpbs_job option"

record pbs_env =
  pb_fmt :: "pyval \<Rightarrow> string"
  pb_arrow :: "string \<Rightarrow> string \<Rightarrow> int res"
  pb_cluster_name :: "string option"

section \<open>State\<close>

definition to_soca_job_state :: "string \<Rightarrow> SocaJobState option" where
  "to_soca_job_state st =
     (let t = lower st in
      if t = ''t'' then Some JS_TRANSITION
      else if t = ''q'' then Some JS_QUEUED
      else if t = ''h'' then Some JS_HELD
      else if t = ''w'' then Some JS_WAITING
      else if t = ''r'' then Some JS_RUNNING
      else if t = ''e'' then Some JS_EXIT
      else if t = ''x'' then Some JS_SUBJOB_EXPIRED
      else if t = ''b'' then Some JS_SUBJOB_BEGUN
      else if t = ''m'' then Some JS_MOVED
      else if t = ''f'' then Some JS_FINISHED
      else if t = ''s'' then Some JS_SUSPENDED
      else None)"

definition soca_job_state :: "openpbs_job \<Rightarrow> SocaJobState option" where
  "soca_job_state j = Option.bind (ob_job_state j) to_soca_job_state"

section \<open>Parameters\<close>

definition select_token :: "string \<Rightarrow> pydict \<Rightarrow> pydict" where
  "select_token token acc =
     (case split_char (CHR ''='') token of
        [key] \<Rightarrow> (case int_of_str key of Inr _ \<Rightarrow> assign_key ''nodes'' (PStr key) acc | Inl _ \<Rightarrow> acc)
      | [key, v] \<Rightarrow> assign_key key (PStr v) acc
      | _ \<Rightarrow> acc)"

definition parse_pbs_select :: "string \<Rightarrow> pydict" where
  "parse_pbs_select s = fold select_token (split_char (CHR '':'') s) []"

definition soca_param_name :: "string \<Rightarrow> string" where
  "soca_param_name key =
     (if key = ''ncpus'' then ''cpus''
      else if key = ''nodect'' then ''nodes''
      else if key = ''ngpus'' then ''gpus''
      else if key = ''mpiprocs'' then ''mpiprocs''
      else if key = ''mem'' then ''memory''
      else if key = ''compute_node'' then ''compute_stack''
      else if key = ''stack_id'' then ''stack_id''
      else key)"

text \<open>The guard of the branch for \<open>nodes\<close> has no effect: the last line assigns the same key.\<close>

definition build_soca_job_params :: "pydict \<Rightarrow> pydict \<Rightarrow> pydict" where
  "build_soca_job_params pbs_params soca_params =
     fold (\<lambda>(key, v) acc. if key = ''select'' then acc else assign_key (soca_param_name key) v acc)
       pbs_params soca_params"

definition get_soca_job_params :: "openpbs_job \<Rightarrow> pydict res" where
  "get_soca_job_params j =
     (case ob_Resource_List j of
        None \<Rightarrow> Inr []
      | Some resources \<Rightarrow>
          bindE (case map_of resources ''select'' of
                   None \<Rightarrow> Inr []
                 | Some (PStr s) \<Rightarrow> Inr (build_soca_job_params (parse_pbs_select s) [])
                 | Some _ \<Rightarrow> Inl AttributeError) (\<lambda>acc.
            Inr (build_soca_job_params resources acc)))"

definition resource :: "string \<Rightarrow> openpbs_job \<Rightarrow> pyval option" where
  "resource key j = (case ob_Resource_List j of None \<Rightarrow> None | Some r \<Rightarrow> map_of r key)"

definition is_dry_run :: "openpbs_job \<Rightarrow> bool" where
  "is_dry_run j = (resource ''dry_run'' j \<noteq> None)"

text \<open>Pydantic accepts a text for the fields of a job that hold one of these.\<close>

definition text_resource :: "string \<Rightarrow> openpbs_job \<Rightarrow> string option res" where
  "text_resource key j = (case resource key j of
      None \<Rightarrow> Inr None | Some PNone \<Rightarrow> Inr None | Some (PStr s) \<Rightarrow> Inr (Some s) | Some _ \<Rightarrow> Inl ValidationError)"

definition pbs_get_job_group :: "openpbs_job \<Rightarrow> string option res" where
  "pbs_get_job_group = text_resource ''job_group''"

definition pbs_get_job_uid :: "openpbs_job \<Rightarrow> string option res" where
  "pbs_get_job_uid = text_resource ''job_uid''"

definition pbs_get_cluster_name :: "pbs_env \<Rightarrow> openpbs_job \<Rightarrow> string option" where
  "pbs_get_cluster_name env j = get_as_string (pb_fmt env) (opt_or (resource ''cluster_name'' j) PNone) (pb_cluster_name env)"

definition pbs_get_cluster_version :: "openpbs_job \<Rightarrow> pyval option" where
  "pbs_get_cluster_version = resource ''cluster_version''"

definition pbs_get_error_message :: "openpbs_job \<Rightarrow> string option res" where
  "pbs_get_error_message = text_resource ''error_message''"

definition get_notifications :: "openpbs_job \<Rightarrow> job_notifications option" where
  "get_notifications j =
     (case get_as_string (\<lambda>_. []) (case ob_Mail_Points j of None \<Rightarrow> PNone | Some s \<Rightarrow> PStr s) None of
        None \<Rightarrow> None
      | Some flags \<Rightarrow>
          let started = (if CHR ''b'' \<in> set flags then Some True else None);
              completed = (if CHR ''e'' \<in> set flags then Some True else None)
          in if started \<noteq> None \<or> completed \<noteq> None
             then Some \<lparr>nt_started = started, nt_completed = completed, nt_subjobs = None,
                        nt_job_started_email_template = None, nt_job_completed_email_template = None\<rparr>
             else None)"

definition pbs_provisioning_time :: "pbs_env \<Rightarrow> openpbs_job \<Rightarrow> int option res" where
  "pbs_provisioning_time env j = (case resource ''provisioning_time'' j of
      None \<Rightarrow> Inr None | Some v \<Rightarrow> bindE (pb_arrow env (py_str (pb_fmt env) v) '''') (\<lambda>t. Inr (Some t)))"

definition pbs_capacity_added :: "openpbs_job \<Rightarrow> bool option" where
  "pbs_capacity_added j = (case ob_Resource_List j of None \<Rightarrow> None
     | Some r \<Rightarrow> get_value_as_bool ''capacity_added'' r (Some True))"

section \<open>Execution hosts\<close>

definition host_names :: "openpbs_job \<Rightarrow> string list option" where
  "host_names j =
     (if opt_or (ob_exec_host j) [] \<noteq> []
      then Some (map (\<lambda>t. hd (split_char (CHR ''/'') t)) (split_char (CHR ''+'') (opt_or (ob_exec_host j) [])))
      else if opt_or (ob_exec_vnode j) [] \<noteq> []
      then Some (map (\<lambda>t. drop 1 (hd (split_char (CHR '':'') t))) (split_char (CHR ''+'') (opt_or (ob_exec_vnode j) [])))
      else None)"

definition plain_host :: "string \<Rightarrow> execution_host" where
  "plain_host h = \<lparr>eh_host = h, eh_instance_id = None, eh_instance_type = None, eh_capacity_type = None, eh_tenancy = None,
     eh_reservation = None, eh_execution = None\<rparr>"

definition no_resources_used :: resources_used where
  "no_resources_used = \<lparr>ru_cpu_time_secs = None, ru_memory = None, ru_virtual_memory = None, ru_cpus = None, ru_gpus = None,
     ru_cpu_percent = None\<rparr>"

definition used_token :: "string \<Rightarrow> resources_used \<Rightarrow> resources_used res" where
  "used_token token u =
     (case split_char (CHR ''='') token of
        [key, v] \<Rightarrow>
          if key = ''cput'' then bindE (walltime_to_seconds v) (\<lambda>t. Inr (u\<lparr>ru_cpu_time_secs := Some t\<rparr>))
          else if key = ''mem'' then bindE (resolve_memory (Some v) None None) (\<lambda>m. Inr (u\<lparr>ru_memory := m\<rparr>))
          else if key = ''vmem'' then bindE (resolve_memory (Some v) None None) (\<lambda>m. Inr (u\<lparr>ru_virtual_memory := m\<rparr>))
          else if key = ''ncpus'' then bindE (get_as_int (PStr v) None) (\<lambda>c. Inr (u\<lparr>ru_cpus := c\<rparr>))
          else if key = ''cpupercent'' then bindE (get_as_int (PStr v) None) (\<lambda>c. Inr (u\<lparr>ru_cpu_percent := c\<rparr>))
          else Inr u
      | _ \<Rightarrow> Inr u)"

definition parse_resources_used :: "pyval \<Rightarrow> resources_used res" where
  "parse_resources_used v =
     (case v of PStr s \<Rightarrow> foldE used_token (split_char (CHR '','') s) no_resources_used | _ \<Rightarrow> Inr no_resources_used)"

definition event_time :: "pbs_env \<Rightarrow> openpbs_event \<Rightarrow> int res" where
  "event_time env e = pb_arrow env (case oe_timestamp e of None \<Rightarrow> ''None'' | Some t \<Rightarrow> str_of_int t) ''x''"

definition execution_runs :: "pbs_env \<Rightarrow> openpbs_event \<Rightarrow> string \<Rightarrow> openpbs_job \<Rightarrow> execution_run list res" where
  "execution_runs env e t j =
     (if t = ''execjob_begin''
      then bindE (event_time env e) (\<lambda>ts. Inr [\<lparr>run_id = ''1'', run_start = Some ts, run_end = None, run_exit_code = None,
             run_status = None, run_resources_used = None\<rparr>])
      else if t = ''execjob_end''
      then bindE (parse_resources_used (ob_resources_used j)) (\<lambda>u. bindE (event_time env e) (\<lambda>ts.
             Inr [\<lparr>run_id = ''1'', run_start = None, run_end = Some ts, run_exit_code = ob_Exit_status j,
                   run_status = Some (if ob_Exit_status j = Some 0 then ''success'' else ''failed''),
                   run_resources_used = Some u\<rparr>]))
      else Inr [])"

definition get_soca_execution_hosts :: "pbs_env \<Rightarrow> openpbs_event option \<Rightarrow> openpbs_job \<Rightarrow> execution_host list option res" where
  "get_soca_execution_hosts env event j =
     (case (event, host_names j) of
        (Some e, Some hosts) \<Rightarrow>
          if oe_type e = Some ''runjob'' then Inr (Some (map plain_host hosts))
          else bindE (required AttributeError (oe_type e)) (\<lambda>t.
               if startswith ''execjob_'' t
               then bindE (required AttributeError (oe_requestor_host e)) (\<lambda>rh.
                    bindE (execution_runs env e t j) (\<lambda>rs.
                      Inr (Some [(plain_host (hd (split_char (CHR ''.'') rh)))
                        \<lparr>eh_instance_id := oe_instance_id e, eh_instance_type := oe_instance_type e,
                         eh_execution := Some \<lparr>run_count = None, runs = Some rs\<rparr>\<rparr>])))
               else Inr (Some []))
      | _ \<Rightarrow> Inr None)"

section \<open>The select expression and times\<close>

definition get_select :: "pbs_env \<Rightarrow> openpbs_job \<Rightarrow> string option" where
  "get_select env j =
     (let select = (if \<not> is_empty_opt_str (ob_schedselect j) then ob_schedselect j
                    else case ob_Resource_List j of None \<Rightarrow> None
                         | Some r \<Rightarrow> get_value_as_string (pb_fmt env) ''select'' r None)
      in case select of
           None \<Rightarrow> None
         | Some s \<Rightarrow> Some (if contains ''compute_node='' s then s else s @ '':compute_node=tbd''))"

fun single_spaces :: "string \<Rightarrow> string" where
  "single_spaces [] = []"
| "single_spaces [c] = [c]"
| "single_spaces (c # d # s) = (if c = CHR '' '' \<and> d = CHR '' '' then CHR '' '' # single_spaces s else c # single_spaces (d # s))"

definition parse_pbs_datetime :: "pbs_env \<Rightarrow> string option \<Rightarrow> int option res" where
  "parse_pbs_datetime env v =
     (case v of
        None \<Rightarrow> Inr None
      | Some s \<Rightarrow>
          (case int_of_str s of
             Inr _ \<Rightarrow> bindE (pb_arrow env s ''X'') (\<lambda>t. Inr (Some t))
           | Inl _ \<Rightarrow>
               (if strip s = [] then Inr None
                else bindE (pb_arrow env (single_spaces (strip s)) ''ddd MMM D HH:mm:ss YYYY'') (\<lambda>t. Inr (Some t)))))"

text \<open>A text has no keys to look \<open>walltime\<close> up by.\<close>

definition get_resources_used_wall_time :: "pbs_env \<Rightarrow> openpbs_job \<Rightarrow> string option res" where
  "get_resources_used_wall_time env j =
     (case ob_resources_used j of
        PNone \<Rightarrow> Inr None
      | PDict d \<Rightarrow> Inr (get_value_as_string (pb_fmt env) ''walltime'' d None)
      | PStr s \<Rightarrow> if contains ''walltime'' s then Inl TypeError else Inr None
      | _ \<Rightarrow> Inl TypeError)"

definition job_end_time :: "pbs_env \<Rightarrow> openpbs_job \<Rightarrow> int option \<Rightarrow> int option res" where
  "job_end_time env j start =
     (if soca_job_state j \<noteq> Some JS_FINISHED then Inr None
      else bindE (get_resources_used_wall_time env j) (\<lambda>w.
           if is_empty_opt_str w then Inr None
           else bindE (walltime_to_seconds (the w)) (\<lambda>secs. bindE (required TypeError start) (\<lambda>s.
                  Inr (Some (s + secs * 1000000))))))"

section \<open>Translation\<close>

definition pbs_owner :: "openpbs_job \<Rightarrow> string option" where
  "pbs_owner j = (case ob_Job_Owner j of None \<Rightarrow> ob_euser j | Some o_ \<Rightarrow> Some (hd (split_char (CHR ''@'') o_)))"

text \<open>
  The builder is given as its environment and the state it runs in; the job builder has no attribute \<open>name\<close>, so without a
  queue profile the translation raises after the builder has run.
\<close>

definition as_soca_job ::
  "pbs_env \<Rightarrow> openpbs_event option \<Rightarrow> queue_profile option \<Rightarrow> build_env \<Rightarrow> openpbs_job \<Rightarrow> soca_job build" where
  "as_soca_job env event profile benv j =
     bindS (reads (\<lambda>_. get_soca_job_params j)) (\<lambda>_.
     bindS (reads (\<lambda>_. get_soca_execution_hosts env event j)) (\<lambda>hosts.
     bindS (reads (\<lambda>_. parse_pbs_datetime env (ob_qtime j))) (\<lambda>queued_at.
     bindS (reads (\<lambda>_. parse_pbs_datetime env (ob_stime j))) (\<lambda>started_at.
     bindS (reads (\<lambda>_. job_end_time env j started_at)) (\<lambda>ended_at.
     bindS (build_job benv) (\<lambda>(jp, po).
     bindS (reads (\<lambda>_. pbs_provisioning_time env j)) (\<lambda>provisioned_at.
     bindS (reads (\<lambda>_. required AttributeError profile)) (\<lambda>qp.
     bindS (reads (\<lambda>_. pbs_get_job_uid j)) (\<lambda>uid.
     bindS (reads (\<lambda>_. pbs_get_job_group j)) (\<lambda>group_name.
     bindS (reads (\<lambda>_. pbs_get_error_message j)) (\<lambda>err.
     let select = get_select env j in
     ret (empty_job
       \<lparr>cluster_name := pbs_get_cluster_name env j,
        job_id := map_option (\<lambda>s. hd (split_char (CHR ''.'') s)) (ob_id j),
        job_uid := uid, job_group := group_name, project := ob_project j, job_name := ob_Job_Name j, queue := ob_queue j,
        queue_type := Some (qp_name qp), scaling_mode := qp_scaling_mode qp, owner := pbs_owner j,
        state := soca_job_state j, exit_status := ob_Exit_status j,
        provisioned := Some (case select of None \<Rightarrow> False | Some s \<Rightarrow> \<not> contains ''compute_node=tbd'' s),
        queue_time := queued_at, start_time := started_at, end_time := ended_at, provisioning_time := provisioned_at,
        capacity_added := pbs_capacity_added j,
        params := Some (jp\<lparr>p_custom_params := Some [(''select'', select)]\<rparr>), job_options := Some po,
        execution_hosts := hosts, comment := (case err of None \<Rightarrow> ob_comment j | Some m \<Rightarrow> Some m),
        notifications := get_notifications j\<rparr>))))))))))))"

text \<open>Without a builder of its own, the translation makes one from the parameters of the job.\<close>

definition as_soca_job_new ::
  "pbs_env \<Rightarrow> openpbs_event option \<Rightarrow> queue_profile option \<Rightarrow> build_env \<Rightarrow> string \<Rightarrow> openpbs_job \<Rightarrow> soca_job res" where
  "as_soca_job_new env event profile benv fresh_uuid j =
     bindE (get_soca_job_params j) (\<lambda>ps.
       fst (as_soca_job env event profile (benv\<lparr>be_params := ps, be_queue := profile\<rparr>) j
              (new_context profile None fresh_uuid)))"

definition event_job :: "openpbs_event \<Rightarrow> openpbs_job res" where
  "event_job e =
     bindE (required AttributeError (case oe_job e of Some j \<Rightarrow> Some j | None \<Rightarrow> oe_job_o e)) (\<lambda>j.
       Inr (j\<lparr>ob_id := Some (opt_or (ob_id j) ''TBD''),
              ob_Job_Owner := (case ob_Job_Owner j of None \<Rightarrow> oe_requestor e | Some w \<Rightarrow> Some w)\<rparr>))"

definition event_as_soca_job ::
  "pbs_env \<Rightarrow> queue_profile option \<Rightarrow> build_env \<Rightarrow> openpbs_event \<Rightarrow> soca_job build" where
  "event_as_soca_job env profile benv e =
     bindS (reads (\<lambda>_. event_job e)) (\<lambda>j. as_soca_job env (Some e) profile benv j)"

definition event_as_soca_job_new ::
  "pbs_env \<Rightarrow> queue_profile option \<Rightarrow> build_env \<Rightarrow> string \<Rightarrow> openpbs_event \<Rightarrow> soca_job res" where
  "event_as_soca_job_new env profile benv fresh_uuid e =
     bindE (event_job e) (\<lambda>j. as_soca_job_new env (Some e) profile benv fresh_uuid j)"

section \<open>What the translation promises\<close>

lemma contains_append_left: "contains p t \<Longrightarrow> contains p (s @ t)"
  by (induction s) auto

lemma selected_compute_node:
  assumes "get_select env j = Some s"
  shows "contains ''compute_node='' s"
proof -
  have "contains ''compute_node='' '':compute_node=tbd''" by code_simp
  with assms show ?thesis by (auto simp: get_select_def Let_def contains_append_left split: option.splits if_splits)
qed

lemma bindS_fst_Inr: "fst (bindS m f s) = Inr y \<longleftrightarrow> (\<exists>x u. m s = (Inr x, u) \<and> fst (f x u) = Inr y)"
  by (auto simp: bindS_def split: prod.splits sum.splits)

lemma as_soca_job_Inr:
  assumes "fst (as_soca_job env event profile benv j st) = Inr job"
  obtains qp jp po where "profile = Some qp" "queue_type job = Some (qp_name qp)"
    "provisioned job = Some (case get_select env j of None \<Rightarrow> False | Some s \<Rightarrow> \<not> contains ''compute_node=tbd'' s)"
    "params job = Some (jp\<lparr>p_custom_params := Some [(''select'', get_select env j)]\<rparr>)" "job_options job = Some po"
    "parse_pbs_datetime env (ob_stime j) = Inr (start_time job)" "job_end_time env j (start_time job) = Inr (end_time job)"
    "state job = soca_job_state j"
  using assms by (auto simp: as_soca_job_def bindS_fst_Inr Let_def)

text \<open>The select expression a translated job carries always places its compute node, and the job counts as provisioned exactly
  when it has an expression whose compute node is no longer the placeholder.\<close>

lemma translated_job_select:
  assumes "fst (as_soca_job env event profile benv j st) = Inr job"
  shows "\<exists>p s. params job = Some p \<and> p_custom_params p = Some [(''select'', s)] \<and>
    (provisioned job = Some True \<longleftrightarrow> (\<exists>text. s = Some text \<and> \<not> contains ''compute_node=tbd'' text)) \<and>
    (\<forall>text. s = Some text \<longrightarrow> contains ''compute_node='' text)"
proof -
  from assms obtain jp where "params job = Some (jp\<lparr>p_custom_params := Some [(''select'', get_select env j)]\<rparr>)"
    "provisioned job = Some (case get_select env j of None \<Rightarrow> False | Some s \<Rightarrow> \<not> contains ''compute_node=tbd'' s)"
    by (rule as_soca_job_Inr)
  then show ?thesis by (auto simp: selected_compute_node split: option.splits)
qed

text \<open>Without a queue profile the translation of a job never returns a job, whatever the job and the builder are.\<close>

lemma no_profile_no_job: "fst (as_soca_job env event None benv j st) \<noteq> Inr job"
proof
  assume "fst (as_soca_job env event None benv j st) = Inr job"
  then show False by (rule as_soca_job_Inr) simp
qed

text \<open>The guard on \<open>nodes\<close> in the translation of parameters has no effect: the value of \<open>nodes\<close> always ends up in the parameters
  when no \<open>nodect\<close> follows.\<close>

lemma nodes_guard_ineffective:
  "map_of (build_soca_job_params [(''nodes'', v)] acc) ''nodes'' = Some v"
  by (simp add: build_soca_job_params_def soca_param_name_def map_of_assign_key)

end
