(* ===== verification/PBS_Api.thy ===== *)
theory PBS_Api
  imports PBS_Model Provisioning_Checks Pricing
begin

text \<open>
  The answer of the scheduler to the hooks of OpenPBS: \<open>app/scheduler/openpbs/openpbs_api_invocation_context.py\<close> and
  \<open>app/api/opepbs_api.py\<close>. The record \<open>hook_context\<close> is the invocation context with the job builder it made, the answer given
  and what was told to the job monitor, the submission tracker and the notification service, in that order. Validation entries are
  their error codes; a message to the user is named by what it is made from, its text is not modelled. Queue profiles, the project
  of a queue profile, the prices and what the checks ask of AWS are parameters (\<open>hook_api_env\<close>).
\<close>

section \<open>The invocation context\<close>

datatype hook_message =
    NoMessage
  | Invalid "string list" "string list"
  | JobJson soca_job
  | EmailsSent
  | DryRunReport bom_cost "budget_usage option" bool "service_quota list option" bool
  | Failed exc

record hook_result =
  hr_accept :: bool
  hr_queue :: "string option"
  hr_project :: "string option"
  hr_message :: hook_message
  hr_resources_updated :: "(string \<times> string option) list"

record submit_result =
  sj_dry_run :: "DryRunOption option"
  sj_accepted :: "bool option"
  sj_job :: "soca_job option"
  sj_validations :: "string list option"
  sj_incidentals :: "string list option"
  sj_service_quotas :: "service_quota list option"
  sj_estimated_bom_cost :: "bom_cost option"
  sj_budget_usage :: "budget_usage option"

datatype told =
    JobQueued soca_job
  | JobRunning soca_job
  | JobStatusUpdate soca_job
  | StartedEmail soca_job
  | CompletedEmail soca_job "budget_usage option"
  | TrackerOk submit_result
  | TrackerFail "string option" exc

record hook_context =
  hc_event :: openpbs_event
  hc_builder :: build_state
  hc_build_env :: "build_env option"
  hc_validation :: "string list option"
  hc_incidentals :: "string list option"
  hc_job :: "soca_job option"
  hc_ri_unavailable :: bool
  hc_quotas :: "service_quota list option"
  hc_quota_unavailable :: bool
  hc_bom_cost :: "bom_cost option"
  hc_budget_usage :: "budget_usage option"
  hc_submission :: submit_result
  hc_response :: "hook_result option"
  hc_told :: "told list"

record hook_api_env =
  ha_ready :: bool
  ha_now :: int
  ha_pbs :: pbs_env
  ha_build :: build_env
  ha_uuid :: string
  ha_stack_uuid :: string
  ha_profile :: "string option \<Rightarrow> queue_profile res"
  ha_queue_project :: "queue_profile \<Rightarrow> string option res"
  ha_prov :: prov_env
  ha_price :: "int \<Rightarrow> price_env"
  ha_digest :: "string \<Rightarrow> string"
  ha_email :: "told \<Rightarrow> unit res"

type_synonym 'a hook = "(hook_context, 'a) act"

definition no_submission :: submit_result where
  "no_submission = \<lparr>sj_dry_run = None, sj_accepted = None, sj_job = None, sj_validations = None, sj_incidentals = None,
     sj_service_quotas = None, sj_estimated_bom_cost = None, sj_budget_usage = None\<rparr>"

definition hook_start :: "openpbs_event \<Rightarrow> hook_context" where
  "hook_start e = \<lparr>hc_event = e, hc_builder = new_context None None [], hc_build_env = None, hc_validation = None, hc_incidentals = None,
     hc_job = None, hc_ri_unavailable = False, hc_quotas = None, hc_quota_unavailable = False, hc_bom_cost = None,
     hc_budget_usage = None, hc_submission = no_submission, hc_response = None, hc_told = []\<rparr>"

definition job_validation_result :: "hook_context \<Rightarrow> string list" where
  "job_validation_result c = opt_or (hc_validation c) []"

definition incidentals_validation_result :: "hook_context \<Rightarrow> string list" where
  "incidentals_validation_result c = opt_or (hc_incidentals c) []"

definition context_is_valid :: "hook_context \<Rightarrow> bool" where
  "context_is_valid c = (is_valid (job_validation_result c) \<and> is_valid (incidentals_validation_result c))"

definition add_job_validation_entry :: "string \<Rightarrow> unit hook" where
  "add_job_validation_entry ec = modify (\<lambda>c. c\<lparr>hc_validation := Some (job_validation_result c @ [ec])\<rparr>)"

definition add_incidentals_validation_entry :: "string \<Rightarrow> unit hook" where
  "add_incidentals_validation_entry ec = modify (\<lambda>c. c\<lparr>hc_incidentals := Some (incidentals_validation_result c @ [ec])\<rparr>)"

definition dry_run_option :: "hook_context \<Rightarrow> DryRunOption option res" where
  "dry_run_option c =
     (case oe_job (hc_event c) of
        None \<Rightarrow> Inr None
      | Some j \<Rightarrow> resolve_dry_run (case ob_dry_run j of None \<Rightarrow> PNone | Some s \<Rightarrow> PStr s))"

definition the_job :: "soca_job hook" where
  "the_job = reads (\<lambda>c. required AttributeError (hc_job c))"

definition set_job :: "(soca_job \<Rightarrow> soca_job) \<Rightarrow> unit hook" where
  "set_job f = modify (\<lambda>c. c\<lparr>hc_job := map_option f (hc_job c)\<rparr>)"

definition tell :: "told \<Rightarrow> unit hook" where
  "tell t = modify (\<lambda>c. c\<lparr>hc_told := hc_told c @ [t]\<rparr>)"

definition respond :: "hook_result \<Rightarrow> unit hook" where
  "respond r = modify (\<lambda>c. c\<lparr>hc_response := Some r\<rparr>)"

definition in_builder :: "'a build \<Rightarrow> 'a hook" where
  "in_builder m = (\<lambda>c. case m (hc_builder c) of (r, b) \<Rightarrow> (r, c\<lparr>hc_builder := b\<rparr>))"

section \<open>Building and validating\<close>

definition reraised_codes :: "string list" where
  "reraised_codes = [''SCHEDULER_QUEUE_PROFILE_DISABLED'', ''SCHEDULER_QUEUE_PROFILE_NOT_FOUND'', ''PROJECT_NOT_FOUND'', ''CONFIG_ERROR'']"

definition submitted_params :: "(openpbs_job option) \<Rightarrow> pydict res" where
  "submitted_params j = (case j of None \<Rightarrow> Inr [] | Some job \<Rightarrow> get_soca_job_params job)"

definition build_steps :: "hook_api_env \<Rightarrow> unit hook" where
  "build_steps env =
     bindS (gets hc_event) (\<lambda>e.
     bindS (reads (\<lambda>_. submitted_params (oe_job_o e))) (\<lambda>old_params.
     bindS (reads (\<lambda>_. case oe_job_o e of None \<Rightarrow> Inr None | Some j \<Rightarrow> pbs_get_job_uid j)) (\<lambda>old_uid.
     bindS (reads (\<lambda>_. submitted_params (oe_job e))) (\<lambda>new_params.
     bindS (reads (\<lambda>_. case oe_job e of None \<Rightarrow> Inr old_uid | Some j \<Rightarrow> pbs_get_job_uid j)) (\<lambda>given_uid.
     let uid = (if is_empty_opt_str given_uid then Some (ha_uuid env) else given_uid);
         submitted_queue = Option.bind (oe_job e) ob_queue;
         submitted_project = Option.bind (oe_job e) ob_project;
         queue_name = (if is_empty_opt_str submitted_queue then Some ''normal'' else submitted_queue)
     in
     thenS (modify (\<lambda>c. c\<lparr>hc_job := Some (empty_job\<lparr>job_uid := uid\<rparr>)\<rparr>))
     (bindS (reads (\<lambda>_. ha_profile env queue_name)) (\<lambda>profile.
      thenS (if is_enabled profile then ret () else throw (SocaException ''SCHEDULER_QUEUE_PROFILE_DISABLED''))
      (let benv = (ha_build env)\<lparr>be_params := merge_dicts old_params new_params, be_queue := Some profile\<rparr> in
       thenS (modify (\<lambda>c. c\<lparr>hc_build_env := Some benv, hc_builder := new_context (Some profile) None (ha_stack_uuid env)\<rparr>))
       (bindS (in_builder (event_as_soca_job (ha_pbs env) (Some profile) benv e)) (\<lambda>job.
        thenS (modify (\<lambda>c. c\<lparr>hc_job := Some (job\<lparr>queue := queue_name\<rparr>)\<rparr>))
        (bindS (if is_empty_opt_str submitted_project then reads (\<lambda>_. ha_queue_project env profile) else ret submitted_project)
          (\<lambda>project_name.
         thenS (set_job (\<lambda>j. j\<lparr>project := project_name\<rparr>))
         (bindS (reads dry_run_option) (\<lambda>dry.
          thenS (if dry = Some DEBUG then set_job (\<lambda>j. j\<lparr>debug := Some True\<rparr>) else ret ())
          (thenS (set_job (\<lambda>j. j\<lparr>job_id := Some ''tbd'', job_uid := uid\<rparr>))
           (thenS (modify (\<lambda>c. c\<lparr>hc_validation := None\<rparr>))
            (bindS (in_builder (validate_job benv)) (\<lambda>results.
               modify (\<lambda>c. c\<lparr>hc_validation := Some results\<rparr>)))))))))))))))))))"

definition build_and_validate_job :: "hook_api_env \<Rightarrow> unit hook" where
  "build_and_validate_job env =
     finallyS
       (catchS (build_steps env)
          (\<lambda>e. case e of
             SocaException ec \<Rightarrow> if ec \<in> set reraised_codes then throw e else add_job_validation_entry ec
           | _ \<Rightarrow> throw e))
       (bindS (reads dry_run_option) (\<lambda>dry.
          modify (\<lambda>c. c\<lparr>hc_validation := Some (job_validation_result c),
             hc_submission := (hc_submission c)\<lparr>sj_job := hc_job c, sj_validations := Some (job_validation_result c), sj_dry_run := dry\<rparr>\<rparr>)))"

section \<open>Incidentals\<close>

text \<open>\<open>try: check except SocaException as e: handler\<close>\<close>

definition soca_catch :: "'a hook \<Rightarrow> (string \<Rightarrow> 'a hook) \<Rightarrow> 'a hook" where
  "soca_catch m h = catchS m (\<lambda>e. case e of SocaException ec \<Rightarrow> h ec | _ \<Rightarrow> throw e)"

definition budget_entry :: "string \<Rightarrow> string" where
  "budget_entry ec =
     (if ec = ''BUDGETS_PROJECT_IS_REQUIRED'' then ''Budgets.ProjectNameRequired''
      else if ec = ''BUDGETS_USER_NOT_CONFIGURED'' then ''Budgets.UserNotConfigured''
      else if ec = ''PROJECT_NOT_FOUND'' then ''Budgets.ProjectNotFound''
      else ''Budgets.LimitExceeded'')"

text \<open>The quotas that the error of the check carries.\<close>

definition asked_quotas :: "prov_env \<Rightarrow> soca_job list \<Rightarrow> service_quota list res" where
  "asked_quotas env jobs =
     bindE (first_job jobs) (\<lambda>job.
     bindE (capacity_type job) (\<lambda>ct.
     bindE (get_params job) (\<lambda>p.
       let types = opt_or (p_instance_types p) [];
           quota = (\<lambda>t nodes. bindE (sum_nodes nodes jobs) (check_service_quota (pe_quota env) types t))
       in (case ct of
             SPOT \<Rightarrow> quota EC2_SERVICE_QUOTA_SPOT spot_nodes
           | MIXED \<Rightarrow> bindE (quota EC2_SERVICE_QUOTA_ONDEMAND ondemand_nodes) (\<lambda>a.
                      bindE (quota EC2_SERVICE_QUOTA_SPOT spot_nodes) (\<lambda>b. Inr (a @ b)))
           | ONDEMAND \<Rightarrow> quota EC2_SERVICE_QUOTA_ONDEMAND ondemand_nodes))))"

definition check_acls_incidental :: "hook_api_env \<Rightarrow> soca_job \<Rightarrow> bool hook" where
  "check_acls_incidental env job =
     soca_catch (thenS (reads (\<lambda>_. check_acls (ha_prov env) job)) (ret True))
       (\<lambda>_. thenS (add_incidentals_validation_entry ''NotAuthorized'') (ret False))"

definition check_budgets_incidental :: "hook_api_env \<Rightarrow> soca_job \<Rightarrow> unit hook" where
  "check_budgets_incidental env job =
     soca_catch (reads (\<lambda>_. check_budgets (ha_prov env) [job])) (\<lambda>ec. add_incidentals_validation_entry (budget_entry ec))"

definition check_reserved_incidental :: "hook_api_env \<Rightarrow> soca_job \<Rightarrow> unit hook" where
  "check_reserved_incidental env job =
     soca_catch (reads (\<lambda>_. check_reserved_instance_usage (ha_prov env) [job]))
       (\<lambda>ec. if ec = ''EC2_RESERVED_INSTANCES_NOT_PURCHASED'' then add_incidentals_validation_entry ''ReservedInstancesNotPurchased''
             else if ec = ''EC2_RESERVED_INSTANCES_NOT_AVAILABLE'' then modify (\<lambda>c. c\<lparr>hc_ri_unavailable := True\<rparr>)
             else ret ())"

definition check_quota_incidental :: "hook_api_env \<Rightarrow> soca_job \<Rightarrow> unit hook" where
  "check_quota_incidental env job =
     (if pe_service_quotas_enabled (ha_prov env)
      then soca_catch
        (bindS (reads (\<lambda>_. check_service_quota_of (ha_prov env) [job])) (\<lambda>quotas.
           modify (\<lambda>c. c\<lparr>hc_quotas := Some quotas, hc_submission := (hc_submission c)\<lparr>sj_service_quotas := Some quotas\<rparr>\<rparr>)))
        (\<lambda>ec. if ec \<noteq> ''SERVICE_QUOTA_NOT_AVAILABLE'' then ret ()
              else bindS (reads (\<lambda>_. asked_quotas (ha_prov env) [job])) (\<lambda>quotas.
                if find_insufficient_quotas (Some quotas) \<noteq> [] then add_incidentals_validation_entry ''ServiceQuota''
                else modify (\<lambda>c. c\<lparr>hc_quota_unavailable := True\<rparr>)))
      else modify (\<lambda>c. c\<lparr>hc_quota_unavailable := False, hc_quotas := None,
             hc_submission := (hc_submission c)\<lparr>sj_service_quotas := None\<rparr>\<rparr>))"

definition check_dry_run_incidental :: "hook_api_env \<Rightarrow> soca_job \<Rightarrow> unit hook" where
  "check_dry_run_incidental env job =
     soca_catch (if is_ephemeral_capacity job then reads (\<lambda>_. ec2_dry_run (ha_prov env) job) else ret ())
       (\<lambda>ec. if ec = ''EC2_DRY_RUN_FAILED'' then add_incidentals_validation_entry ''EC2DryRunFailed'' else ret ())"

definition check_incidentals :: "hook_api_env \<Rightarrow> unit hook" where
  "check_incidentals env =
     bindS (gets hc_job) (\<lambda>found.
       case found of
         None \<Rightarrow> ret ()
       | Some job \<Rightarrow>
           bindS (check_acls_incidental env job) (\<lambda>has_access.
             if \<not> has_access then ret ()
             else thenS (check_budgets_incidental env job)
                 (thenS (check_reserved_incidental env job)
                 (thenS (check_quota_incidental env job)
                        (check_dry_run_incidental env job)))))"

section \<open>Estimates\<close>

definition get_job_time_seconds :: "soca_job \<Rightarrow> int res" where
  "get_job_time_seconds job =
     bindE (required AttributeError (params job)) (\<lambda>p.
       case p_walltime p of None \<Rightarrow> Inr (60 * 60) | Some w \<Rightarrow> if w = [] then Inr (60 * 60) else walltime_to_seconds w)"

definition get_bom_cost :: "hook_api_env \<Rightarrow> bom_cost hook" where
  "get_bom_cost env =
     bindS (gets hc_bom_cost) (\<lambda>known.
       case known of
         Some cost \<Rightarrow> ret cost
       | None \<Rightarrow>
           bindS the_job (\<lambda>job.
           bindS (reads (\<lambda>_. get_job_time_seconds job)) (\<lambda>secs.
           bindS (reads (\<lambda>_. compute_estimated_bom_cost (ha_price env secs) job)) (\<lambda>cost.
           thenS (modify (\<lambda>c. c\<lparr>hc_bom_cost := Some cost, hc_submission := (hc_submission c)\<lparr>sj_estimated_bom_cost := Some cost\<rparr>\<rparr>))
             (ret cost)))))"

text \<open>A budget that is not found is replaced by an exhausted one.\<close>

definition missing_usage :: "string \<Rightarrow> budget_usage" where
  "missing_usage name = \<lparr>bu_budget_name = name, bu_job_usage_percent = Fin 100, bu_job_usage_percent_with_savings = Fin 100\<rparr>"

definition get_budget_usage :: "hook_api_env \<Rightarrow> budget_usage option hook" where
  "get_budget_usage env =
     bindS (gets hc_budget_usage) (\<lambda>known.
       case known of
         Some u \<Rightarrow> ret (Some u)
       | None \<Rightarrow>
           bindS the_job (\<lambda>job.
           bindS (reads (\<lambda>_. helper_project (ha_prov env) job)) (\<lambda>p.
           bindS (get_bom_cost env) (\<lambda>cost.
           bindS (soca_catch (reads (\<lambda>_. compute_budget_usage (ha_prov env) job p (Some cost)))
                    (\<lambda>ec. if ec = ''BUDGET_NOT_FOUND''
                          then thenS (add_incidentals_validation_entry ''Budgets.LimitExceeded'')
                                 (ret (Some (missing_usage (opt_or (budget_name p) []))))
                          else throw (SocaException ec))) (\<lambda>usage.
           thenS (modify (\<lambda>c. c\<lparr>hc_budget_usage := usage, hc_submission := (hc_submission c)\<lparr>sj_budget_usage := usage\<rparr>\<rparr>))
             (ret usage))))))"

section \<open>Dry runs\<close>

definition send_email :: "hook_api_env \<Rightarrow> told \<Rightarrow> unit hook" where
  "send_email env t = thenS (tell t) (reads (\<lambda>_. ha_email env t))"

definition send_dry_run_emails :: "hook_api_env \<Rightarrow> unit hook" where
  "send_dry_run_emails env =
     thenS (set_job (\<lambda>j. j\<lparr>notifications := Some \<lparr>nt_started = Some True, nt_completed = Some True, nt_subjobs = None,
         nt_job_started_email_template = None, nt_job_completed_email_template = None\<rparr>,
         state := Some JS_RUNNING, queue_time := Some (ha_now env - 10000000),
         provisioning_time := Some (ha_now env - 5000000)\<rparr>))
     (bindS the_job (\<lambda>started.
      thenS (send_email env (StartedEmail started))
      (thenS (set_job (\<lambda>j. j\<lparr>state := Some JS_FINISHED, start_time := Some (ha_now env)\<rparr>))
      (bindS (reads (\<lambda>_. get_job_time_seconds started)) (\<lambda>secs.
       thenS (set_job (\<lambda>j. j\<lparr>end_time := Some (ha_now env + secs * 1000000)\<rparr>))
       (bindS (get_bom_cost env) (\<lambda>cost.
        thenS (set_job (\<lambda>j. j\<lparr>estimated_bom_cost := Some cost\<rparr>))
        (bindS (get_budget_usage env) (\<lambda>usage.
         bindS the_job (\<lambda>completed. send_email env (CompletedEmail completed usage))))))))))) "

definition dry_run_post_processing :: "hook_api_env \<Rightarrow> hook_result hook" where
  "dry_run_post_processing env =
     bindS (reads dry_run_option) (\<lambda>dry.
     bindS
       (if dry = Some JSON_JOB then bindS the_job (\<lambda>job. ret (JobJson job))
        else if dry = Some NOTIFICATION_EMAIL then thenS (send_dry_run_emails env) (ret EmailsSent)
        else bindS the_job (\<lambda>job.
             bindS (reads (\<lambda>_. get_job_time_seconds job)) (\<lambda>_.
             bindS (get_bom_cost env) (\<lambda>cost.
             bindS (get_budget_usage env) (\<lambda>usage.
             gets (\<lambda>c. DryRunReport cost usage (hc_ri_unavailable c) (hc_quotas c) (hc_quota_unavailable c))))))) (\<lambda>msg.
     ret \<lparr>hr_accept = False, hr_queue = None, hr_project = None, hr_message = msg, hr_resources_updated = []\<rparr>))"

section \<open>The hooks\<close>

text \<open>The submission result holds the job and the lists of entries by reference.\<close>

definition submission_of :: "hook_context \<Rightarrow> submit_result" where
  "submission_of c = (let s = hc_submission c in s
     \<lparr>sj_job := (if sj_job s = None then None else hc_job c),
      sj_incidentals := (if sj_incidentals s = None then None else hc_incidentals c)\<rparr>)"

definition tell_tracker :: "unit hook" where
  "tell_tracker = bindS (gets submission_of) (\<lambda>r. tell (TrackerOk r))"

definition set_accepted :: "bool \<Rightarrow> unit hook" where
  "set_accepted b = modify (\<lambda>c. c\<lparr>hc_submission := (hc_submission c)\<lparr>sj_accepted := Some b\<rparr>\<rparr>)"

definition base_select :: "soca_job \<Rightarrow> string res" where
  "base_select job =
     bindE (required AttributeError (params job)) (\<lambda>p.
       let s = (case p_custom_params p of None \<Rightarrow> [] | Some kvs \<Rightarrow> (case map_of kvs ''select'' of Some (Some t) \<Rightarrow> strip t | _ \<Rightarrow> []))
       in Inr (hd (split_str '':compute_node'' s)))"

definition placed_select :: "soca_job \<Rightarrow> string res \<Rightarrow> string res" where
  "placed_select job node =
     bindE (base_select job) (\<lambda>s.
       if \<not> is_empty_str s then bindE node (\<lambda>n. Inr (s @ '':compute_node='' @ n))
       else bindE (desired_nodes job) (\<lambda>k. bindE node (\<lambda>n. Inr (str_of_int k @ '':ncpus=1:compute_node='' @ n))))"

definition accept_result :: "soca_job \<Rightarrow> (string \<times> string option) list \<Rightarrow> hook_result" where
  "accept_result job resources = \<lparr>hr_accept = True, hr_queue = queue job, hr_project = project job, hr_message = NoMessage,
     hr_resources_updated = resources\<rparr>"

definition reject_job :: "unit hook" where
  "reject_job =
     thenS (set_accepted False)
     (thenS (bindS (gets (\<lambda>c. Invalid (job_validation_result c) (incidentals_validation_result c))) (\<lambda>msg.
        respond \<lparr>hr_accept = False, hr_queue = None, hr_project = None, hr_message = msg, hr_resources_updated = []\<rparr>))
       tell_tracker)"

definition accept_persistent :: "hook_api_env \<Rightarrow> soca_job \<Rightarrow> unit hook" where
  "accept_persistent env job =
     bindS (reads (\<lambda>_. placed_select job (get_compute_stack (ha_digest env) job))) (\<lambda>select.
     thenS (tell (JobQueued job))
     (bindS (reads (\<lambda>_. get_job_group (ha_digest env) job)) (\<lambda>grp.
      respond (accept_result job [(''select'', Some select), (''job_uid'', job_uid job), (''job_group'', Some grp),
        (''cluster_name'', cluster_name job), (''nodes'', None)]))))"

definition accept_queued :: "hook_api_env \<Rightarrow> soca_job \<Rightarrow> unit hook" where
  "accept_queued env job =
     thenS (tell (JobQueued job))
     (bindS (reads (\<lambda>_. placed_select job (Inr ''tbd''))) (\<lambda>select.
      thenS (bindS (get_bom_cost env) (\<lambda>_. ret ()))
      (thenS (bindS (get_budget_usage env) (\<lambda>_. ret ()))
       (bindS (reads (\<lambda>_. get_job_group (ha_digest env) job)) (\<lambda>grp.
        respond (accept_result job [(''select'', Some select), (''stack_id'', Some ''tbd''), (''job_uid'', job_uid job),
          (''job_group'', Some grp), (''cluster_name'', cluster_name job), (''nodes'', None)]))))))"

definition answer_valid_job :: "hook_api_env \<Rightarrow> unit hook" where
  "answer_valid_job env =
     bindS the_job (\<lambda>job.
     bindS (reads (\<lambda>_. required AttributeError (job_options job))) (\<lambda>po.
     bindS (reads dry_run_option) (\<lambda>dry.
       thenS
         (if is_true_opt (po_keep_forever po) then accept_persistent env job
          else if dry \<noteq> None
          then thenS (set_accepted False) (bindS (dry_run_post_processing env) respond)
          else accept_queued env job)
         tell_tracker)))"

definition check_submission :: "hook_api_env \<Rightarrow> unit hook" where
  "check_submission env =
     thenS (if ha_ready env then ret () else throw (SocaException ''JOB_PROVISIONING_NOT_READY''))
     (thenS (build_and_validate_job env)
     (bindS (gets context_is_valid) (\<lambda>valid.
        if valid
        then thenS (check_incidentals env)
               (modify (\<lambda>c. c\<lparr>hc_incidentals := Some (incidentals_validation_result c),
                  hc_submission := (hc_submission c)\<lparr>sj_incidentals := Some (incidentals_validation_result c)\<rparr>\<rparr>))
        else ret ())))"

text \<open>The handler of every exception reads the uid of the job, which is not there before the job is built.\<close>

definition hook_failed :: "exc \<Rightarrow> unit hook" where
  "hook_failed e =
     thenS (respond \<lparr>hr_accept = False, hr_queue = None, hr_project = None, hr_message = Failed e, hr_resources_updated = []\<rparr>)
     (bindS the_job (\<lambda>job. tell (TrackerFail (job_uid job) e)))"

definition hook_validate_job :: "hook_api_env \<Rightarrow> unit hook" where
  "hook_validate_job env =
     catchS
       (thenS (check_submission env)
          (bindS (gets context_is_valid) (\<lambda>valid. if valid then answer_valid_job env else reject_job)))
       hook_failed"

definition hook_job_status :: "hook_api_env \<Rightarrow> unit hook" where
  "hook_job_status env =
     finallyS
       (catchS
         (bindS (reads (\<lambda>c. required AttributeError (oe_job (hc_event c)))) (\<lambda>j.
          bindS (reads (\<lambda>_. ha_profile env (ob_queue j))) (\<lambda>profile.
          bindS (gets hc_event) (\<lambda>e.
          bindS (reads (\<lambda>_. event_as_soca_job_new (ha_pbs env) (Some profile) (ha_build env) (ha_stack_uuid env) e)) (\<lambda>job.
            tell (if oe_type e = Some ''runjob'' then JobRunning job else JobStatusUpdate job))))))
         (\<lambda>_. ret ()))
       (respond \<lparr>hr_accept = True, hr_queue = None, hr_project = None, hr_message = NoMessage, hr_resources_updated = []\<rparr>)"

definition invoke_hook :: "hook_api_env \<Rightarrow> bool \<Rightarrow> unit hook" where
  "invoke_hook env is_administrator =
     (if \<not> is_administrator then throw (SocaException ''UNAUTHORIZED_ACCESS'')
      else bindS (gets (\<lambda>c. oe_hook_name (hc_event c))) (\<lambda>name.
           if name = Some ''validate_job'' then hook_validate_job env
           else if name = Some ''job_status'' then hook_job_status env
           else ret ()))"

section \<open>What an answer promises\<close>

text \<open>The hook for the status of a job answers that it accepts, and never raises, whatever happens on the way.\<close>

lemma status_hook_accepts:
  "\<exists>c' r. hook_job_status env c = (Inr (), c') \<and> hc_response c' = Some r \<and> hr_accept r"
  by (simp add: hook_job_status_def finallyS_def catchS_def respond_def split: prod.split sum.split)

text \<open>While provisioning is not ready the hook for a submission raises in its own handler, after having answered that the job
  is rejected: the handler asks for the uid of a job that was not built.\<close>

lemma not_ready_raises:
  assumes "\<not> ha_ready env"
  shows "\<exists>c'. hook_validate_job env (hook_start e) = (Inl AttributeError, c') \<and>
    (\<exists>r. hc_response c' = Some r \<and> \<not> hr_accept r) \<and> hc_told c' = []"
  using assms
  by (simp add: hook_validate_job_def check_submission_def catchS_def thenS_def bindS_def hook_failed_def respond_def the_job_def
      hook_start_def)

lemma soca_catch_cases:
  assumes "soca_catch m h c = (Inr x, c')"
  obtains "m c = (Inr x, c')" | ec d where "m c = (Inl (SocaException ec), d)" "h ec d = (Inr x, c')"
  using assms by (auto simp: soca_catch_def catchS_def split: prod.splits sum.splits exc.splits)

text \<open>One step of the incidentals: what it leaves alone, and what holds of the job when it leaves no entry.\<close>

definition checked :: "hook_context \<Rightarrow> hook_context \<Rightarrow> bool" where
  "checked c c' \<longleftrightarrow> hc_job c' = hc_job c \<and> hc_event c' = hc_event c \<and> hc_told c' = hc_told c \<and> hc_bom_cost c' = hc_bom_cost c \<and>
     job_validation_result c' = job_validation_result c \<and>
     (\<exists>new. incidentals_validation_result c' = incidentals_validation_result c @ new)"

lemma checked_refl [simp]: "checked c c"
  by (simp add: checked_def)

lemma checked_trans: "checked c d \<Longrightarrow> checked d e \<Longrightarrow> checked c e"
  by (auto simp: checked_def)

lemma checked_valid: "checked c c' \<Longrightarrow> context_is_valid c' \<Longrightarrow> context_is_valid c"
  by (auto simp: checked_def context_is_valid_def is_valid_def)

lemma checked_entry:
  "checked c (snd (add_incidentals_validation_entry ec c))"
  "\<not> context_is_valid (snd (add_incidentals_validation_entry ec c))"
  by (simp_all add: checked_def add_incidentals_validation_entry_def job_validation_result_def incidentals_validation_result_def
      context_is_valid_def is_valid_def)

lemma acls_checked:
  assumes "check_acls_incidental env job c = (Inr ok, c')"
  shows "checked c c' \<and> (context_is_valid c' \<longrightarrow> ok \<and> check_acls (ha_prov env) job = Inr True)"
  using assms unfolding check_acls_incidental_def
proof (rule soca_catch_cases)
  assume "thenS (reads (\<lambda>_. check_acls (ha_prov env) job)) (ret True) c = (Inr ok, c')"
  then show ?thesis by (auto simp: thenS_apply check_acls_def split: sum.splits if_splits)
next
  fix ec d
  assume "thenS (reads (\<lambda>_. check_acls (ha_prov env) job)) (ret True) c = (Inl (SocaException ec), d)"
    and "thenS (add_incidentals_validation_entry ''NotAuthorized'') (ret False) d = (Inr ok, c')"
  then show ?thesis
    using checked_entry [where c = c and ec = "''NotAuthorized''"]
    by (auto simp: thenS_apply add_incidentals_validation_entry_def split: sum.splits)
qed

lemma budgets_checked:
  assumes "check_budgets_incidental env job c = (Inr u, c')"
  shows "checked c c' \<and> (context_is_valid c' \<longrightarrow> check_budgets (ha_prov env) [job] = Inr ())"
  using assms unfolding check_budgets_incidental_def
proof (rule soca_catch_cases)
  fix ec d
  assume "reads (\<lambda>_. check_budgets (ha_prov env) [job]) c = (Inl (SocaException ec), d)"
    and "add_incidentals_validation_entry (budget_entry ec) d = (Inr u, c')"
  then show ?thesis using checked_entry [where c = c and ec = "budget_entry ec"] by auto
qed auto

lemma reserved_checked:
  assumes "check_reserved_incidental env job c = (Inr u, c')"
  shows "checked c c'"
  using assms unfolding check_reserved_incidental_def
  by (rule soca_catch_cases)
    (auto simp: checked_def add_incidentals_validation_entry_def job_validation_result_def incidentals_validation_result_def split: if_splits)

lemma quota_checked:
  assumes "check_quota_incidental env job c = (Inr u, c')"
  shows "checked c c' \<and>
    (context_is_valid c' \<and> pe_service_quotas_enabled (ha_prov env) \<and>
       check_service_quota_of (ha_prov env) [job] = Inl (SocaException ''SERVICE_QUOTA_NOT_AVAILABLE'') \<longrightarrow>
     (\<exists>quotas. asked_quotas (ha_prov env) [job] = Inr quotas \<and> find_insufficient_quotas (Some quotas) = []))"
proof (cases "pe_service_quotas_enabled (ha_prov env)")
  case False
  with assms show ?thesis
    by (auto simp: check_quota_incidental_def checked_def job_validation_result_def incidentals_validation_result_def)
next
  case True
  from assms have "soca_catch
        (bindS (reads (\<lambda>_. check_service_quota_of (ha_prov env) [job])) (\<lambda>quotas.
           modify (\<lambda>c. c\<lparr>hc_quotas := Some quotas, hc_submission := (hc_submission c)\<lparr>sj_service_quotas := Some quotas\<rparr>\<rparr>)))
        (\<lambda>ec. if ec \<noteq> ''SERVICE_QUOTA_NOT_AVAILABLE'' then ret ()
              else bindS (reads (\<lambda>_. asked_quotas (ha_prov env) [job])) (\<lambda>quotas.
                if find_insufficient_quotas (Some quotas) \<noteq> [] then add_incidentals_validation_entry ''ServiceQuota''
                else modify (\<lambda>c. c\<lparr>hc_quota_unavailable := True\<rparr>))) c = (Inr u, c')"
    using True by (simp add: check_quota_incidental_def)
  then show ?thesis
    by (rule soca_catch_cases)
      (auto simp: bindS_reads checked_def add_incidentals_validation_entry_def job_validation_result_def incidentals_validation_result_def
        context_is_valid_def is_valid_def split: if_splits sum.splits)
qed

lemma dry_run_checked:
  assumes "check_dry_run_incidental env job c = (Inr u, c')"
  shows "checked c c' \<and> (context_is_valid c' \<and> is_ephemeral_capacity job \<longrightarrow>
    ec2_dry_run (ha_prov env) job \<noteq> Inl (SocaException ''EC2_DRY_RUN_FAILED''))"
  using assms unfolding check_dry_run_incidental_def
  by (rule soca_catch_cases)
    (auto simp: checked_def add_incidentals_validation_entry_def job_validation_result_def incidentals_validation_result_def
      context_is_valid_def is_valid_def split: if_splits)

lemma bindS_Inr: "bindS m f c = (Inr y, c') \<longleftrightarrow> (\<exists>x d. m c = (Inr x, d) \<and> f x d = (Inr y, c'))"
  by (auto simp: bindS_def split: prod.splits sum.splits)

lemma thenS_Inr: "thenS m k c = (Inr y, c') \<longleftrightarrow> (\<exists>x d. m c = (Inr x, d) \<and> k d = (Inr y, c'))"
  by (simp add: thenS_def bindS_Inr)

definition passes_checks :: "prov_env \<Rightarrow> soca_job \<Rightarrow> bool" where
  "passes_checks env job \<longleftrightarrow>
     check_acls env job = Inr True \<and> check_budgets env [job] = Inr () \<and>
     (is_ephemeral_capacity job \<longrightarrow> ec2_dry_run env job \<noteq> Inl (SocaException ''EC2_DRY_RUN_FAILED'')) \<and>
     (pe_service_quotas_enabled env \<and> check_service_quota_of env [job] = Inl (SocaException ''SERVICE_QUOTA_NOT_AVAILABLE'') \<longrightarrow>
        (\<exists>quotas. asked_quotas env [job] = Inr quotas \<and> find_insufficient_quotas (Some quotas) = []))"

lemma incidentals_checked:
  assumes "check_incidentals env c = (Inr u, c')" "hc_job c = Some job"
  shows "checked c c' \<and> (context_is_valid c' \<longrightarrow> passes_checks (ha_prov env) job)"
proof -
  from assms obtain ok d where acls: "check_acls_incidental env job c = (Inr ok, d)"
    "(if \<not> ok then ret () else thenS (check_budgets_incidental env job)
       (thenS (check_reserved_incidental env job) (thenS (check_quota_incidental env job) (check_dry_run_incidental env job)))) d =
     (Inr u, c')"
    by (auto simp: check_incidentals_def bindS_Inr)
  note first = acls_checked [OF acls(1)]
  show ?thesis
  proof (cases ok)
    case False
    with acls(2) first show ?thesis by auto
  next
    case True
    with acls(2) obtain d1 d2 d3 u1 u2 u3 where steps: "check_budgets_incidental env job d = (Inr u1, d1)"
      "check_reserved_incidental env job d1 = (Inr u2, d2)" "check_quota_incidental env job d2 = (Inr u3, d3)"
      "check_dry_run_incidental env job d3 = (Inr u, c')"
      by (auto simp: thenS_Inr)
    note all = budgets_checked [OF steps(1)] reserved_checked [OF steps(2)] quota_checked [OF steps(3)] dry_run_checked [OF steps(4)]
    have chain: "checked c d" "checked d d1" "checked d1 d2" "checked d2 d3" "checked d3 c'" using first all by blast+
    then have "checked c c'" by (meson checked_trans)
    moreover have "passes_checks (ha_prov env) job" if valid: "context_is_valid c'"
    proof -
      have "context_is_valid d3" "context_is_valid d2" "context_is_valid d1" "context_is_valid d"
        using valid chain by (meson checked_valid)+
      with valid first all show ?thesis by (auto simp: passes_checks_def)
    qed
    ultimately show ?thesis by blast
  qed
qed

text \<open>The estimates change neither the job, nor what was told, nor the answer.\<close>

definition visible :: "hook_context \<Rightarrow> soca_job option \<times> openpbs_event \<times> told list \<times> hook_result option" where
  "visible c = (hc_job c, hc_event c, hc_told c, hc_response c)"

lemma quiet_bom_cost: "preserves (\<lambda>c. visible c = v) (get_bom_cost env)"
  unfolding get_bom_cost_def the_job_def by (intro preserves_intros) (simp add: visible_def)

lemma preserves_soca_catch: "preserves P m \<Longrightarrow> (\<And>ec. preserves P (h ec)) \<Longrightarrow> preserves P (soca_catch m h)"
  unfolding soca_catch_def by (intro preserves_catchS) (auto intro: preserves_intros split: exc.split)

lemma quiet_budget_usage: "preserves (\<lambda>c. visible c = v) (get_budget_usage env)"
  unfolding get_budget_usage_def the_job_def add_incidentals_validation_entry_def
  by (intro preserves_intros preserves_soca_catch quiet_bom_cost) (simp_all add: visible_def)

lemma bom_cost_visible: "get_bom_cost env c = (r, c') \<Longrightarrow> visible c' = visible c"
  using preservesD [OF quiet_bom_cost [of "visible c" env]] by blast

lemma budget_usage_visible: "get_budget_usage env c = (r, c') \<Longrightarrow> visible c' = visible c"
  using preservesD [OF quiet_budget_usage [of "visible c" env]] by blast


lemma dry_run_rejects: "dry_run_post_processing env c = (Inr r, c') \<Longrightarrow> \<not> hr_accept r"
  by (auto simp: dry_run_post_processing_def bindS_Inr)

lemma persistent_accepted:
  assumes "accept_persistent env job c = (Inr u, c')"
  shows "hc_job c' = hc_job c \<and> hc_event c' = hc_event c \<and> hc_told c' = hc_told c @ [JobQueued job]"
  using assms by (auto simp: accept_persistent_def bindS_Inr thenS_Inr tell_def respond_def)

lemma queued_accepted:
  assumes "accept_queued env job c = (Inr u, c')"
  shows "hc_job c' = hc_job c \<and> hc_event c' = hc_event c \<and> hc_told c' = hc_told c @ [JobQueued job]"
proof -
  from assms obtain cost usage d1 d2 where run: "get_bom_cost env (c\<lparr>hc_told := hc_told c @ [JobQueued job]\<rparr>) = (Inr cost, d1)"
    "get_budget_usage env d1 = (Inr usage, d2)" "hc_job c' = hc_job d2" "hc_event c' = hc_event d2" "hc_told c' = hc_told d2"
    by (auto simp: accept_queued_def bindS_Inr thenS_Inr tell_def respond_def)
  from bom_cost_visible [OF run(1)] budget_usage_visible [OF run(2)] run(3-5) show ?thesis by (simp add: visible_def)
qed

lemma answer_accepts:
  assumes "answer_valid_job env c = (Inr u, c')" "hc_response c' = Some r" "hr_accept r"
  shows "\<exists>job po. hc_job c = Some job \<and> hc_job c' = Some job \<and> job_options job = Some po \<and> JobQueued job \<in> set (hc_told c') \<and>
    (is_true_opt (po_keep_forever po) \<or> dry_run_option c' = Inr None)"
proof -
  have events: "hc_event a = hc_event b \<Longrightarrow> dry_run_option a = dry_run_option b" for a b by (simp add: dry_run_option_def)
  from assms(1) obtain job po dry d u' where run: "hc_job c = Some job" "job_options job = Some po" "dry_run_option c = Inr dry"
    "(if is_true_opt (po_keep_forever po) then accept_persistent env job
      else if dry \<noteq> None then thenS (set_accepted False) (bindS (dry_run_post_processing env) respond)
      else accept_queued env job) c = (Inr u', d)" "tell_tracker d = (Inr u, c')"
    by (auto simp: answer_valid_job_def bindS_Inr thenS_Inr the_job_def)
  have tracker: "hc_response d = hc_response c'" "hc_job c' = hc_job d" "set (hc_told d) \<subseteq> set (hc_told c')" "hc_event c' = hc_event d"
    using run(5) by (auto simp: tell_tracker_def tell_def)
  show ?thesis
  proof (cases "is_true_opt (po_keep_forever po)")
    case True
    with run tracker persistent_accepted [of env job c u' d] show ?thesis by auto
  next
    case False
    show ?thesis
    proof (cases dry)
      case None
      with False run(4) have "accept_queued env job c = (Inr u', d)" by simp
      from queued_accepted [OF this] run(1-3) None tracker events [of c' c] show ?thesis by auto
    next
      case (Some opt)
      with False run(4) obtain res where "hc_response d = Some res" "\<not> hr_accept res"
        by (auto simp: bindS_Inr thenS_Inr respond_def dest: dry_run_rejects)
      with assms(2,3) tracker(1) show ?thesis by simp
    qed
  qed
qed


text \<open>A job is announced to the monitor before it is priced: when its price cannot be computed, the hook rejects a job that the
  monitor has been told is queued.\<close>

lemma announced_before_priced:
  assumes "hc_job c = Some job" "job_options job = Some po" "\<not> is_true_opt (po_keep_forever po)" "dry_run_option c = Inr None"
    and "placed_select job (Inr ''tbd'') = Inr s" "hc_bom_cost c = None"
    and "get_job_time_seconds job = Inr secs" "compute_estimated_bom_cost (ha_price env secs) job = Inl ex"
  shows "\<exists>c'. catchS (answer_valid_job env) hook_failed c = (Inr (), c') \<and>
    hc_told c' = hc_told c @ [JobQueued job, TrackerFail (job_uid job) ex] \<and>
    (\<exists>res. hc_response c' = Some res \<and> \<not> hr_accept res)"
  using assms
  by (simp add: answer_valid_job_def catchS_def bindS_def thenS_def the_job_def accept_queued_def tell_def get_bom_cost_def
      hook_failed_def respond_def)

end
