(* ===== verification/PBS_Convert.thy ===== *)
theory PBS_Convert
  imports PBS_Model Node_Model
begin

text \<open>
  The translation of OpenPBS nodes and queues into those of the scheduler (\<open>app/scheduler/openpbs/openpbs_converter.py\<close>), and
  the data it builds: \<open>SocaComputeNodeSharing\<close>, \<open>SocaComputeNodeResources\<close>, \<open>OpenPBSInfo\<close>, \<open>SocaQueue\<close>. The conversions the
  pydantic library makes when a text is given for a number or a truth value, and the times of the \<open>arrow\<close> library, are parameters
  (\<open>convert_env\<close>). The list of node states is made from a set; its order is that of the text.
\<close>

section \<open>Node states and sharing\<close>

definition node_state_of_token :: "string \<Rightarrow> SocaComputeNodeState option" where
  "node_state_of_token t =
     (if t = ''busy'' then Some NS_BUSY
      else if t = ''down'' then Some NS_DOWN
      else if t = ''free'' then Some NS_FREE
      else if t = ''offline'' then Some NS_OFFLINE
      else if t = ''job-busy'' then Some NS_JOB_BUSY
      else if t = ''job-exclusive'' then Some NS_JOB_EXCLUSIVE
      else if t = ''provisioning'' then Some NS_PROVISIONING
      else if t = ''resv-exclusive'' then Some NS_RESV_EXCLUSIVE
      else if t = ''stale'' then Some NS_STALE
      else if t = ''stale-unknown'' then Some NS_STALE_UNKNOWN
      else if t = ''unresolvable'' then Some NS_UNRESOLVABLE
      else if t = ''wait-provisioning'' then Some NS_WAIT_PROVISIONING
      else if t = ''initializing'' then Some NS_INITIALIZING
      else None)"

definition to_soca_compute_node_state :: "string option \<Rightarrow> SocaComputeNodeState list option res" where
  "to_soca_compute_node_state st =
     (case st of
        None \<Rightarrow> Inr None
      | Some s \<Rightarrow>
          let result = remdups (List.map_filter node_state_of_token (split_char (CHR '','') (lower (strip s))))
          in if result = [] then Inl (SocaException ''SCHEDULER_ERROR'') else Inr (Some result))"

fun from_soca_compute_node_state :: "SocaComputeNodeState \<Rightarrow> string res" where
  "from_soca_compute_node_state NS_BUSY = Inr ''busy''"
| "from_soca_compute_node_state NS_DOWN = Inr ''down''"
| "from_soca_compute_node_state NS_FREE = Inr ''free''"
| "from_soca_compute_node_state NS_OFFLINE = Inr ''offline''"
| "from_soca_compute_node_state NS_JOB_BUSY = Inr ''job-busy''"
| "from_soca_compute_node_state NS_JOB_EXCLUSIVE = Inr ''job-exclusive''"
| "from_soca_compute_node_state NS_PROVISIONING = Inr ''provisioning''"
| "from_soca_compute_node_state NS_RESV_EXCLUSIVE = Inr ''resv-exclusive''"
| "from_soca_compute_node_state NS_STALE = Inr ''stale''"
| "from_soca_compute_node_state NS_STALE_UNKNOWN = Inr ''stale-unknown''"
| "from_soca_compute_node_state NS_UNRESOLVABLE = Inr ''unresolvable''"
| "from_soca_compute_node_state NS_WAIT_PROVISIONING = Inr ''wait-provisioning''"
| "from_soca_compute_node_state NS_INITIALIZING = Inl (SocaException ''SCHEDULER_ERROR'')"

datatype SocaComputeNodeSharing =
  DEFAULT_EXCL | DEFAULT_EXCLHOST | DEFAULT_SHARED | FORCE_EXCL | FORCE_EXCLHOST | IGNORE_EXCL

definition to_soca_compute_node_sharing :: "string option \<Rightarrow> SocaComputeNodeSharing option res" where
  "to_soca_compute_node_sharing sharing =
     (case sharing of
        None \<Rightarrow> Inr None
      | Some s \<Rightarrow>
          if s = ''default_excl'' then Inr (Some DEFAULT_EXCL)
          else if s = ''default_exclhost'' then Inr (Some DEFAULT_EXCLHOST)
          else if s = ''default_shared'' then Inr (Some DEFAULT_SHARED)
          else if s = ''force_excl'' then Inr (Some FORCE_EXCL)
          else if s = ''force_exclhost'' then Inr (Some FORCE_EXCLHOST)
          else if s = ''ignore_excl'' then Inr (Some IGNORE_EXCL)
          else Inl (SocaException ''SCHEDULER_ERROR''))"

section \<open>Nodes\<close>

record convert_env =
  cv_fmt :: "pyval \<Rightarrow> string"
  cv_int :: "string \<Rightarrow> int res"
  cv_bool :: "string \<Rightarrow> bool res"
  cv_arrow :: "int \<Rightarrow> int res"

record node_resources =
  nr_cpus :: "int option"
  nr_gpus :: "int option"
  nr_memory :: "soca_memory option"

record openpbs_info =
  oi_name :: "string option"
  oi_version :: "string option"
  oi_mom_private_dns :: "string option"
  oi_mom_port :: "int option"

record soca_compute_node = compute_node +
  sn_cluster_version :: "string option"
  sn_provisioning_time :: "int option"
  sn_scheduler_info :: openpbs_info
  sn_sharing :: "SocaComputeNodeSharing option"
  sn_base_os :: "string option"
  sn_enable_placement_group :: "bool option"
  sn_keep_ebs_volumes :: "bool option"
  sn_root_storage_size :: "soca_memory option"
  sn_scratch_storage_size :: "soca_memory option"
  sn_scratch_storage_iops :: "int option"
  sn_enable_efa_support :: "bool option"
  sn_force_reserved_instances :: "bool option"
  sn_enable_system_metrics :: "bool option"
  sn_enable_anonymous_metrics :: "bool option"
  sn_resources_available :: "node_resources option"
  sn_resources_assigned :: "node_resources option"
  sn_fsx_lustre :: "fsx_config option"

definition opt_map_res :: "('a \<Rightarrow> 'b res) \<Rightarrow> 'a option \<Rightarrow> 'b option res" where
  "opt_map_res f v = (case v of None \<Rightarrow> Inr None | Some x \<Rightarrow> bindE (f x) (\<lambda>y. Inr (Some y)))"

definition to_soca_compute_node_resources :: "convert_env \<Rightarrow> pydict option \<Rightarrow> node_resources option res" where
  "to_soca_compute_node_resources env resources =
     (case resources of
        None \<Rightarrow> Inr None
      | Some r \<Rightarrow>
          if r = [] then Inr None
          else bindE (resolve_memory (get_value_as_string (cv_fmt env) ''mem'' r None) None None) (\<lambda>memory.
               bindE (opt_map_res (cv_int env) (get_value_as_string (cv_fmt env) ''ncpus'' r None)) (\<lambda>cpus.
                 Inr (Some \<lparr>nr_cpus = cpus, nr_gpus = None, nr_memory = memory\<rparr>))))"

definition job_number :: "pyval \<Rightarrow> string res" where
  "job_number v = (case v of PStr s \<Rightarrow> Inr (hd (split_char (CHR ''.'') s)) | _ \<Rightarrow> Inl AttributeError)"

text \<open>A time that is zero is left as it is, and read as the start of the epoch.\<close>

definition node_time :: "convert_env \<Rightarrow> int option \<Rightarrow> int option res" where
  "node_time env t = opt_map_res (\<lambda>i. if i = 0 then Inr 0 else cv_arrow env i) t"

text \<open>The amount of a numeric price is the answer of the test, the number 1.\<close>

definition spot_of :: "string option \<Rightarrow> bool \<times> pyfloat option" where
  "spot_of price =
     (case price of
        None \<Rightarrow> (False, None)
      | Some p \<Rightarrow>
          if p = ''auto'' then (True, None)
          else if is_float (PStr p) = Inr True then (True, Some (Fin 1))
          else (False, None))"

definition to_soca_node :: "convert_env \<Rightarrow> string \<Rightarrow> pydict option \<Rightarrow> soca_compute_node option res" where
  "to_soca_node env host_name node =
     (case node of
        None \<Rightarrow> Inr None
      | Some d \<Rightarrow>
          if get_value_as_string (cv_fmt env) ''Error'' d None \<noteq> None then Inr None
          else
            let ra = get_value_as_dict ''resources_available'' d None; res = opt_or ra [];
                str = (\<lambda>key. get_value_as_string (cv_fmt env) key res None);
                flag = (\<lambda>key. get_value_as_bool key res None);
                num = (\<lambda>key. get_value_as_int key res None) in
            bindE (to_soca_compute_node_state (get_value_as_string (cv_fmt env) ''state'' d None)) (\<lambda>states.
            bindE (traverseE job_number (opt_or (get_value_as_list ''jobs'' d (Some [])) [])) (\<lambda>job_ids.
            bindE (get_value_as_int ''Port'' d None) (\<lambda>mom_port.
            bindE (bindE (get_value_as_int ''last_used_time'' d None) (opt_map_res (cv_arrow env))) (\<lambda>last_used.
            bindE (bindE (get_value_as_int ''last_state_change_time'' d None) (opt_map_res (cv_arrow env))) (\<lambda>last_changed.
            bindE (to_soca_compute_node_sharing (get_value_as_string (cv_fmt env) ''sharing'' d None)) (\<lambda>sharing.
            bindE (bindE (num ''launch_time'') (node_time env)) (\<lambda>launched.
            bindE (bindE (num ''provisioning_time'') (node_time env)) (\<lambda>provisioned_at.
            bindE (num ''terminate_when_idle'') (\<lambda>idle.
            bindE (num ''scratch_iops'') (\<lambda>iops.
            bindE (resolve_memory (str ''root_size'') None None) (\<lambda>root.
            bindE (resolve_memory (str ''scratch_size'') None None) (\<lambda>scratch.
            bindE (to_soca_compute_node_resources env ra) (\<lambda>available.
            bindE (to_soca_compute_node_resources env (get_value_as_dict ''resources_assigned'' d None)) (\<lambda>assigned.
            bindE (opt_map_res (cv_bool env) (str ''placement_group'')) (\<lambda>pg.
            bindE (opt_map_res (cv_bool env) (str ''ht_support'')) (\<lambda>ht.
            let (spot, price) = spot_of (str ''spot_price'') in
            Inr (Some \<lparr>n_host = Some host_name, n_cluster_name = str ''cluster_name'', n_states = states,
              n_queue_type = str ''queue_type'', n_queue = get_value_as_string (cv_fmt env) ''queue'' d None,
              n_last_used_time = last_used, n_last_state_changed_time = last_changed,
              n_availability_zone = str ''availability_zone'', n_subnet_id = str ''subnet_id'',
              n_instance_id = str ''instance_id'', n_instance_type = str ''instance_type'', n_instance_ami = str ''instance_ami'',
              n_instance_profile = str ''instance_profile'', n_job_id = str ''job_id'', n_job_group = str ''job_group'',
              n_scaling_mode = resolve_scaling_mode (str ''scaling_mode'') None, n_keep_forever = flag ''keep_forever'',
              n_terminate_when_idle = idle, n_compute_stack = str ''compute_node'', n_stack_id = str ''stack_id'',
              n_lifecycle = str ''lifecycle'', n_tenancy = str ''tenancy'', n_spot_fleet_request = str ''spot_fleet_request'',
              n_auto_scaling_group = str ''auto_scaling_group'', n_spot = Some spot, n_spot_price = price,
              n_enable_ht_support = ht, n_resources_available = map_option nr_cpus available, n_launch_time = launched,
              n_jobs = Some job_ids,
              sn_cluster_version = str ''cluster_version'', sn_provisioning_time = provisioned_at,
              sn_scheduler_info = \<lparr>oi_name = Some ''openpbs'',
                oi_version = get_value_as_string (cv_fmt env) ''pbs_version'' d None,
                oi_mom_private_dns = Some host_name, oi_mom_port = mom_port\<rparr>,
              sn_sharing = sharing, sn_base_os = str ''base_os'', sn_enable_placement_group = pg,
              sn_keep_ebs_volumes = flag ''keep_ebs'', sn_root_storage_size = root, sn_scratch_storage_size = scratch,
              sn_scratch_storage_iops = iops, sn_enable_efa_support = flag ''efa_support'',
              sn_force_reserved_instances = flag ''force_ri'', sn_enable_system_metrics = flag ''system_metrics'',
              sn_enable_anonymous_metrics = flag ''anonymous_metrics'',
              sn_resources_available = available, sn_resources_assigned = assigned,
              sn_fsx_lustre = None\<rparr>))))))))))))))))))"

section \<open>Queues and jobs\<close>

record queue_stats =
  qs_transit :: "int option"
  qs_queued :: "int option"
  qs_held :: "int option"
  qs_waiting :: "int option"
  qs_running :: "int option"
  qs_exiting :: "int option"
  qs_begun :: "int option"

record soca_queue =
  sq_name :: "string option"
  sq_enabled :: "bool option"
  sq_started :: "bool option"
  sq_total_jobs :: "int option"
  sq_stats :: queue_stats

definition no_stats :: queue_stats where
  "no_stats = \<lparr>qs_transit = Some 0, qs_queued = Some 0, qs_held = Some 0, qs_waiting = Some 0, qs_running = Some 0,
     qs_exiting = Some 0, qs_begun = Some 0\<rparr>"

definition count_state :: "string \<Rightarrow> queue_stats \<Rightarrow> queue_stats res" where
  "count_state token q =
     (case split_char (CHR '':'') token of
        key # v # _ \<Rightarrow> bindE (get_as_int (PStr v) None) (\<lambda>n. Inr
          (if key = ''Transit'' then q\<lparr>qs_transit := n\<rparr>
           else if key = ''Queued'' then q\<lparr>qs_queued := n\<rparr>
           else if key = ''Held'' then q\<lparr>qs_held := n\<rparr>
           else if key = ''Waiting'' then q\<lparr>qs_waiting := n\<rparr>
           else if key = ''Running'' then q\<lparr>qs_running := n\<rparr>
           else if key = ''Exiting'' then q\<lparr>qs_exiting := n\<rparr>
           else if key = ''Begun'' then q\<lparr>qs_begun := n\<rparr>
           else q))
      | _ \<Rightarrow> Inl IndexError)"

definition to_soca_queue :: "(pyval \<Rightarrow> string) \<Rightarrow> string \<Rightarrow> pydict option \<Rightarrow> soca_queue option res" where
  "to_soca_queue fmt queue_name ps =
     (case ps of
        None \<Rightarrow> Inr None
      | Some d \<Rightarrow>
          bindE (get_value_as_int ''total_jobs'' d None) (\<lambda>jobs.
          bindE (required AttributeError (get_value_as_string fmt ''state_count'' d None)) (\<lambda>counts.
          bindE (foldE count_state (split_char (CHR '' '') counts) no_stats) (\<lambda>stats.
            Inr (Some \<lparr>sq_name = Some queue_name, sq_enabled = get_value_as_bool ''enabled'' d None,
              sq_started = get_value_as_bool ''started'' d None, sq_total_jobs = jobs, sq_stats = stats\<rparr>)))))"

text \<open>\<open>read_job\<close> is pydantic's construction of an \<open>OpenPBSJob\<close> from the attributes.\<close>

definition to_soca_job ::
  "pbs_env \<Rightarrow> (string option \<Rightarrow> pydict \<Rightarrow> openpbs_job res) \<Rightarrow> build_env \<Rightarrow> string \<Rightarrow> string option \<Rightarrow> pydict option \<Rightarrow> soca_job option res" where
  "to_soca_job env read_job benv fresh_uuid jid ps =
     (case ps of
        None \<Rightarrow> Inr None
      | Some d \<Rightarrow> bindE (read_job jid d) (\<lambda>j. bindE (as_soca_job_new env None None benv fresh_uuid j) (\<lambda>job. Inr (Some job))))"

section \<open>What the translation promises\<close>

text \<open>The name given to a node state is read back as that state alone, and every state but \<open>initializing\<close> has a name.\<close>

lemma node_state_round_trip:
  "(case from_soca_compute_node_state st of
      Inl _ \<Rightarrow> st = NS_INITIALIZING \<and> to_soca_compute_node_state (Some ''initializing'') = Inr (Some [st])
    | Inr text \<Rightarrow> to_soca_compute_node_state (Some text) = Inr (Some [st]))"
  by (cases st; simp; code_simp)

text \<open>A numeric spot price of a node is lost: whatever the number, the node is recorded with the price 1.\<close>

lemma numeric_spot_price_is_one:
  assumes "to_soca_node env h (Some d) = Inr (Some n)"
    and "get_value_as_dict ''resources_available'' d None = Some r"
    and "get_value_as_string (cv_fmt env) ''spot_price'' r None = Some p" "float_of_str p = Inr x" "p \<noteq> ''auto''"
  shows "n_spot n = Some True \<and> n_spot_price n = Some (Fin 1)"
  using assms by (auto simp: to_soca_node_def Let_def bindE_Inr_iff spot_of_def split: prod.splits if_splits)

text \<open>No attributes of a job are ever translated: \<open>to_soca_job\<close> gives the translation no queue profile.\<close>

lemma to_soca_job_never_returns: "to_soca_job env read_job benv u jid (Some d) \<noteq> Inr (Some job)"
proof
  assume "to_soca_job env read_job benv u jid (Some d) = Inr (Some job)"
  then show False
    by (auto simp: to_soca_job_def bindE_Inr_iff as_soca_job_new_def elim: as_soca_job_Inr)
qed

end
