(* ===== verification/PBS_Query.thy ===== *)
theory PBS_Query
  imports PBS_Convert
begin

text \<open>
  How the scheduler asks OpenPBS for jobs: \<open>ShellInvoker\<close> of \<open>ideasdk/shell/shell_invoker.py\<close> and the wrappers around
  \<open>qselect\<close> and \<open>qstat\<close> (\<open>openpbs_qselect.py\<close>, \<open>openpbs_qstat.py\<close>). The state of an operation is the list of the commands
  run so far, the latest first; what a command answers, a parameter, may depend on all that ran before it (\<open>sv_run\<close>). Other
  parameters: the JSON parser, the reading of an OpenPBS job by pydantic, the queue profile of a queue, the clock.
\<close>

section \<open>Commands\<close>

datatype command = Shell string | Args "string list"

record completed_process =
  cp_returncode :: int
  cp_stdout :: string
  cp_stderr :: string

record shell_result =
  sr_command :: command
  sr_returncode :: int
  sr_stdout :: string
  sr_stderr :: string
  sr_total_time_ms :: int

record pbs_server =
  sv_run :: "command list \<Rightarrow> command \<Rightarrow> completed_process"
  sv_now :: "command list \<Rightarrow> int"
  sv_json :: "string \<Rightarrow> pydict res"
  sv_read_job :: "string \<Rightarrow> pydict \<Rightarrow> openpbs_job res"
  sv_profile :: "string option \<Rightarrow> queue_profile option res"
  sv_pbs :: pbs_env
  sv_convert :: convert_env
  sv_build :: build_env
  sv_uuid :: string
  sv_memory_str :: "soca_memory \<Rightarrow> string"
  sv_float_str :: "pyfloat \<Rightarrow> string"
  sv_digest :: "string \<Rightarrow> string"

definition shell_command :: "command \<Rightarrow> string" where
  "shell_command c = (case c of Shell s \<Rightarrow> s | Args ws \<Rightarrow> join '' '' ws)"

definition shell_result_str :: "shell_result \<Rightarrow> string" where
  "shell_result_str r =
     (if sr_returncode r = 0
      then ''shell> '' @ shell_command (sr_command r) @ '' >> returncode: '' @ str_of_int (sr_returncode r) @
        '' >> '' @ str_of_int (sr_total_time_ms r) @ '' ms''
      else ''shell> '' @ shell_command (sr_command r) @ '' >> returncode: '' @ str_of_int (sr_returncode r) @
        '' >> stderr: '' @ (if \<not> is_empty_str (sr_stderr r) then sr_stderr r else sr_stdout r) @
        '' >> '' @ str_of_int (sr_total_time_ms r) @ '' ms'')"

definition shell_invoke :: "pbs_server \<Rightarrow> command \<Rightarrow> (command list, shell_result) act" where
  "shell_invoke sv c =
     bindS (gets (\<lambda>hist. sv_run sv hist c)) (\<lambda>p.
     bindS (gets (\<lambda>hist. sv_now sv (c # hist) - sv_now sv hist)) (\<lambda>t.
     thenS (modify (\<lambda>hist. c # hist))
       (ret \<lparr>sr_command = c, sr_returncode = cp_returncode p, sr_stdout = strip (cp_stdout p),
             sr_stderr = strip (cp_stderr p), sr_total_time_ms = t\<rparr>)))"

definition scheduler_error :: exc where
  "scheduler_error = SocaException ''SCHEDULER_ERROR''"

section \<open>qselect\<close>

text \<open>The state of a query is one state or a list of states; one state is a text, whose characters have no value.\<close>

datatype state_query = OneState SocaJobState | States "SocaJobState list"

record job_query =
  jq_queue :: "string option"
  jq_job_ids :: "string list option"
  jq_owners :: "string list option"
  jq_state :: "state_query option"
  jq_queued_after :: "string option"
  jq_job_group :: "string option"
  jq_stack_id :: "string option"
  jq_max_jobs :: "int option"

fun job_state_value :: "SocaJobState \<Rightarrow> string" where
  "job_state_value JS_TRANSITION = ''transition''"
| "job_state_value JS_QUEUED = ''queued''"
| "job_state_value JS_HELD = ''held''"
| "job_state_value JS_WAITING = ''waiting''"
| "job_state_value JS_RUNNING = ''running''"
| "job_state_value JS_EXIT = ''exit''"
| "job_state_value JS_SUBJOB_EXPIRED = ''subjob_expired''"
| "job_state_value JS_SUBJOB_BEGUN = ''subjob_begun''"
| "job_state_value JS_MOVED = ''moved''"
| "job_state_value JS_FINISHED = ''finished''"
| "job_state_value JS_SUSPENDED = ''suspended''"

definition upper_char :: "char \<Rightarrow> char" where
  "upper_char c = (if 97 \<le> code c \<and> code c \<le> 122 then char_of (code c - 32) else c)"

definition get_queue_select_state_filter :: "state_query \<Rightarrow> string res" where
  "get_queue_select_state_filter q =
     (case q of OneState _ \<Rightarrow> Inl AttributeError
      | States sts \<Rightarrow> Inr (map (\<lambda>st. upper_char (hd (job_state_value st))) sts))"

definition is_owner_query :: "job_query \<Rightarrow> bool" where
  "is_owner_query q = (jq_owners q \<noteq> None \<and> jq_owners q \<noteq> Some [])"

definition is_job_state_query :: "job_query \<Rightarrow> bool" where
  "is_job_state_query q = (jq_state q \<noteq> None \<and> jq_state q \<noteq> Some (States []))"

definition state_arguments :: "job_query \<Rightarrow> string list res" where
  "state_arguments q =
     (if \<not> is_job_state_query q then Inr []
      else bindE (get_queue_select_state_filter (the (jq_state q))) (\<lambda>f. Inr
        ([''-s'', f] @
         (case jq_queued_after q of
            Some t \<Rightarrow> if jq_state q = Some (OneState JS_QUEUED) then [''-tq.gt.'' @ t] else []
          | None \<Rightarrow> []) @
         (if jq_state q = Some (OneState JS_FINISHED) then [''-x''] else []))))"

definition qselect_command :: "job_query \<Rightarrow> command res" where
  "qselect_command q =
     bindE (state_arguments q) (\<lambda>sargs. Inr (Args
       ([''/opt/pbs/bin/qselect''] @
        (if is_owner_query q then [''-u'', join '','' (opt_or (jq_owners q) [])] else []) @
        (if \<not> is_empty_opt_str (jq_queue q) then [''-q'', opt_or (jq_queue q) []] else []) @
        sargs @
        (if \<not> is_empty_opt_str (jq_job_group q) then [''-l'', ''job_group.eq.'' @ opt_or (jq_job_group q) []] else []) @
        (if \<not> is_empty_opt_str (jq_stack_id q) then [''-l'', ''stack_id.eq.'' @ opt_or (jq_stack_id q) []] else []))))"

definition qselect :: "pbs_server \<Rightarrow> job_query \<Rightarrow> (command list, string list) act" where
  "qselect sv q =
     bindS (reads (\<lambda>_. qselect_command q)) (\<lambda>c.
     bindS (shell_invoke sv c) (\<lambda>r.
       let ids = (if sr_returncode r = 0 then map (\<lambda>l. hd (split_char (CHR ''.'') l)) (split_lines (sr_stdout r)) else []);
           n = opt_or (jq_max_jobs q) (-1)
       in ret (if n > 0 then take (nat n) ids else ids)))"

definition qselect_count :: "pbs_server \<Rightarrow> job_query \<Rightarrow> (command list, int) act" where
  "qselect_count sv q = bindS (qselect sv q) (\<lambda>ids. ret (int (length ids)))"

section \<open>qstat\<close>

definition QSTAT_ERROR_CODE_ABORTED :: int where "QSTAT_ERROR_CODE_ABORTED = -2"
definition QSTAT_ERROR_CODE_JOB_FINISHED :: int where "QSTAT_ERROR_CODE_JOB_FINISHED = 35"
definition QSTAT_ERROR_CODE_UNKNOWN_JOB_ID :: int where "QSTAT_ERROR_CODE_UNKNOWN_JOB_ID = 153"

definition compare_job_state :: "string \<Rightarrow> state_query \<Rightarrow> bool" where
  "compare_job_state pbs_state q =
     (if is_empty_str pbs_state then False
      else (case (to_soca_job_state pbs_state, q) of (Some st, OneState wanted) \<Rightarrow> st = wanted | _ \<Rightarrow> False))"

text \<open>A name that is shown shortened ends in a star.\<close>

definition shortened :: "string \<Rightarrow> string option" where
  "shortened s = (if endswith ''*'' s then Some (butlast s) else None)"

definition owner_line :: "job_query \<Rightarrow> string \<Rightarrow> string option" where
  "owner_line q line =
     (let tokens = words_of line in
      if length tokens \<noteq> 11 then None
      else if \<not> (case shortened (tokens ! 1) of
                    Some p \<Rightarrow> list_ex (startswith p) (opt_or (jq_owners q) [])
                  | None \<Rightarrow> tokens ! 1 \<in> set (opt_or (jq_owners q) [])) then None
      else if \<not> (case jq_queue q of None \<Rightarrow> True
                  | Some qn \<Rightarrow> (case shortened (tokens ! 2) of Some p \<Rightarrow> startswith p qn | None \<Rightarrow> tokens ! 2 = qn)) then None
      else if \<not> (case jq_state q of None \<Rightarrow> True | Some st \<Rightarrow> compare_job_state (tokens ! 9) st) then None
      else Some (hd (split_char (CHR ''.'') (tokens ! 0))))"

fun strip_variables :: "bool \<Rightarrow> string list \<Rightarrow> string list" where
  "strip_variables inside [] = []"
| "strip_variables inside (line # ls) =
     (let current = strip line; inside' = (inside \<or> current = ''\"Variable_List\":{'') in
      if inside' \<and> current = ''},'' then strip_variables False ls
      else if inside' then strip_variables True ls
      else line # strip_variables False ls)"

definition listed_job :: "pbs_server \<Rightarrow> string \<times> pyval \<Rightarrow> soca_job list \<Rightarrow> soca_job list res" where
  "listed_job sv = (\<lambda>(jid, v) acc.
     bindE (case v of PDict d \<Rightarrow> sv_read_job sv jid d | _ \<Rightarrow> Inl TypeError) (\<lambda>j.
     bindE (sv_profile sv (ob_queue j)) (\<lambda>profile.
       case profile of
         None \<Rightarrow> Inr acc
       | Some qp \<Rightarrow>
           bindE (as_soca_job_new (sv_pbs sv) None (Some qp) (sv_build sv) (sv_uuid sv) j) (\<lambda>job. Inr (acc @ [job])))))"

definition handle_qstat_result :: "pbs_server \<Rightarrow> string \<Rightarrow> soca_job list res" where
  "handle_qstat_result sv text =
     (if is_empty_str text then Inr []
      else bindE (sv_json sv (concat (strip_variables False (split_lines text)))) (\<lambda>answer.
             case get_value_as_dict ''Jobs'' answer None of
               None \<Rightarrow> Inr []
             | Some jobs \<Rightarrow> foldE (listed_job sv) jobs []))"

definition handle_unknown_job_id_error :: "pbs_server \<Rightarrow> shell_result \<Rightarrow> soca_job list res" where
  "handle_unknown_job_id_error sv r =
     handle_qstat_result sv
       (concat (filter (\<lambda>l. \<not> startswith ''qstat: unknown job'' (lower l)) (split_lines (sr_stderr r))))"

definition handle_failed_query :: "pbs_server \<Rightarrow> shell_result \<Rightarrow> soca_job list res" where
  "handle_failed_query sv r =
     (if sr_returncode r = QSTAT_ERROR_CODE_JOB_FINISHED then Inl (SocaException ''SCHEDULER_JOB_FINISHED'')
      else if sr_returncode r = QSTAT_ERROR_CODE_UNKNOWN_JOB_ID then handle_unknown_job_id_error sv r
      else if sr_returncode r = QSTAT_ERROR_CODE_ABORTED then Inr []
      else Inl scheduler_error)"

definition json_options :: "job_query \<Rightarrow> string list" where
  "json_options q =
     (if jq_state q = Some (OneState JS_FINISHED) then [''-E'', ''-x'', ''-f'', ''-F'', ''json'']
      else [''-E'', ''-f'', ''-F'', ''json''])"

definition qstat_bin :: string where
  "qstat_bin = ''/opt/pbs/bin/qstat''"

definition invoke_qstat_ids :: "pbs_server \<Rightarrow> job_query \<Rightarrow> (command list, soca_job list) act" where
  "invoke_qstat_ids sv q =
     bindS (shell_invoke sv (Args ([qstat_bin] @
       (case jq_job_ids q of
          Some (i # more_ids) \<Rightarrow> json_options q @ i # more_ids
        | _ \<Rightarrow> (case jq_queue q of Some qn \<Rightarrow> [''-E'', ''-f'', ''-F'', ''json''] @ [qn] | None \<Rightarrow> []))))) (\<lambda>r.
     reads (\<lambda>_. if sr_returncode r = 0 then handle_qstat_result sv (sr_stdout r) else handle_failed_query sv r))"

definition handle_owner_query_result :: "pbs_server \<Rightarrow> job_query \<Rightarrow> shell_result \<Rightarrow> (command list, soca_job list) act" where
  "handle_owner_query_result sv q r =
     (let ids = List.map_filter (owner_line q) (split_lines (sr_stdout r)) in
      if ids = [] then ret [] else invoke_qstat_ids sv (q\<lparr>jq_owners := None, jq_job_ids := Some ids\<rparr>))"

definition invoke_qstat :: "pbs_server \<Rightarrow> job_query \<Rightarrow> (command list, soca_job list) act" where
  "invoke_qstat sv q =
     (if is_owner_query q
      then bindS (shell_invoke sv (Args [qstat_bin, ''-u'', join '','' (opt_or (jq_owners q) [])])) (\<lambda>r.
             if sr_returncode r = 0 then handle_owner_query_result sv q r else reads (\<lambda>_. handle_failed_query sv r))
      else invoke_qstat_ids sv q)"

definition qstat_get_job :: "pbs_server \<Rightarrow> job_query \<Rightarrow> (command list, soca_job option) act" where
  "qstat_get_job sv q = bindS (invoke_qstat sv q) (\<lambda>jobs. ret (case jobs of [] \<Rightarrow> None | j # _ \<Rightarrow> Some j))"

section \<open>Pages of jobs\<close>

definition PAGE_SIZE :: nat where
  "PAGE_SIZE = 100"

text \<open>The start moves on only after a page that was answered; the number of rounds does not depend on the answers.\<close>

fun job_pages ::
  "pbs_server \<Rightarrow> string list \<Rightarrow> string list \<Rightarrow> nat \<Rightarrow> nat \<Rightarrow> shell_result option \<Rightarrow> soca_job list \<Rightarrow>
     (command list, shell_result option \<times> soca_job list) act" where
  "job_pages sv cmd ids start remaining latest jobs =
     (if remaining = 0 then ret (latest, jobs)
      else bindS (shell_invoke sv (Args (cmd @ take PAGE_SIZE (drop start ids)))) (\<lambda>r.
           if sr_returncode r = 0
           then bindS (reads (\<lambda>_. handle_qstat_result sv (sr_stdout r))) (\<lambda>page.
                  job_pages sv cmd ids (start + PAGE_SIZE) (remaining - 100) (Some r) (jobs @ page))
           else job_pages sv cmd ids start (remaining - 100) (Some r) jobs))"

declare job_pages.simps [simp del]

definition list_jobs_query :: "pbs_server \<Rightarrow> job_query \<Rightarrow> (command list, soca_job list) act" where
  "list_jobs_query sv q =
     bindS (case jq_job_ids q of Some (i # more_ids) \<Rightarrow> ret (i # more_ids) | _ \<Rightarrow> qselect sv q) (\<lambda>ids.
       if ids = [] then ret []
       else bindS (job_pages sv (qstat_bin # json_options q) ids 0 (length ids) None []) (\<lambda>(latest, jobs).
            case latest of
              None \<Rightarrow> ret jobs
            | Some r \<Rightarrow>
                if sr_returncode r = 0 then ret jobs
                else bindS (reads (\<lambda>_. handle_failed_query sv r)) (\<lambda>more. ret (jobs @ more))))"

section \<open>What a query asks\<close>

text \<open>The time after which jobs were queued never reaches \<open>qselect\<close>: with one state the query raises, with a list of states,
  or none, the option is not added.\<close>

lemma queued_after_ignored: "qselect_command (q\<lparr>jq_queued_after := t\<rparr>) = qselect_command q"
proof (cases "jq_state q")
  case (Some st)
  then show ?thesis
    by (cases st) (simp_all add: qselect_command_def state_arguments_def is_job_state_query_def is_owner_query_def
        get_queue_select_state_filter_def split: option.splits)
qed (simp add: qselect_command_def state_arguments_def is_job_state_query_def is_owner_query_def)

text \<open>The letter by which a state is selected is read back as that state, but for the two states of subjobs, whose letter is
  that of suspended jobs.\<close>

lemma state_letter_round_trip:
  "get_queue_select_state_filter (States [st]) = Inr [upper_char (hd (job_state_value st))] \<and>
   to_soca_job_state [upper_char (hd (job_state_value st))] =
     Some (if st \<in> {JS_SUBJOB_EXPIRED, JS_SUBJOB_BEGUN} then JS_SUSPENDED else st)"
proof
  show "get_queue_select_state_filter (States [st]) = Inr [upper_char (hd (job_state_value st))]"
    by (simp add: get_queue_select_state_filter_def)
  show "to_soca_job_state [upper_char (hd (job_state_value st))] =
      Some (if st \<in> {JS_SUBJOB_EXPIRED, JS_SUBJOB_BEGUN} then JS_SUSPENDED else st)"
    by (cases st; simp; code_simp)
qed

section \<open>Pages\<close>

lemma shell_invoke_apply [simp]:
  "shell_invoke sv c hist =
     (Inr \<lparr>sr_command = c, sr_returncode = cp_returncode (sv_run sv hist c), sr_stdout = strip (cp_stdout (sv_run sv hist c)),
           sr_stderr = strip (cp_stderr (sv_run sv hist c)), sr_total_time_ms = sv_now sv (c # hist) - sv_now sv hist\<rparr>, c # hist)"
  by (simp add: shell_invoke_def thenS_def)

definition page_command :: "string list \<Rightarrow> string list \<Rightarrow> nat \<Rightarrow> command" where
  "page_command cmd ids start = Args (cmd @ take PAGE_SIZE (drop start ids))"

lemma job_pages_step:
  assumes "remaining \<noteq> 0"
  shows "(\<exists>e. job_pages sv cmd ids start remaining latest jobs hist = (Inl e, page_command cmd ids start # hist)) \<or>
    (\<exists>start' latest' jobs'. (start' = start \<or> start' = start + 100) \<and>
       (cp_returncode (sv_run sv hist (page_command cmd ids start)) \<noteq> 0 \<longrightarrow> start' = start) \<and>
       job_pages sv cmd ids start remaining latest jobs hist =
       job_pages sv cmd ids start' (remaining - 100) latest' jobs' (page_command cmd ids start # hist))"
proof (cases "cp_returncode (sv_run sv hist (page_command cmd ids start)) = 0")
  case True
  with assms show ?thesis
    by (subst job_pages.simps, subst (2) job_pages.simps)
      (auto simp: bindS_def page_command_def PAGE_SIZE_def split: sum.splits)
next
  case False
  with assms show ?thesis
    by (subst job_pages.simps, subst (2) job_pages.simps) (auto simp: bindS_def page_command_def)
qed

text \<open>Whatever is answered, the commands of \<open>k\<close> rounds ask for pages among the first \<open>k\<close> from the start on.\<close>

lemma job_pages_commands:
  assumes "remaining \<le> 100 * k"
  shows "\<exists>cs. snd (job_pages sv cmd ids start remaining latest jobs hist) = cs @ hist \<and>
    (\<forall>c \<in> set cs. \<exists>i<k. c = page_command cmd ids (start + 100 * i))"
  using assms
proof (induction k arbitrary: start remaining latest jobs hist)
  case 0
  then show ?case by (subst job_pages.simps) simp
next
  case (Suc k)
  let ?c = "page_command cmd ids start"
  have here: "\<exists>i<Suc k. ?c = page_command cmd ids (start + 100 * i)" by (intro exI [of _ 0]) simp
  consider (finished) "remaining = 0"
    | (raised) e where "job_pages sv cmd ids start remaining latest jobs hist = (Inl e, ?c # hist)"
    | (more) start' latest' jobs' where "start' = start \<or> start' = start + 100"
        "job_pages sv cmd ids start remaining latest jobs hist = job_pages sv cmd ids start' (remaining - 100) latest' jobs' (?c # hist)"
    using job_pages_step [of remaining sv cmd ids start latest jobs hist] by blast
  then show ?case
  proof cases
    case finished
    then show ?thesis by (subst job_pages.simps) simp
  next
    case raised
    with here show ?thesis by (intro exI [of _ "[?c]"]) simp
  next
    case more
    from Suc.prems have "remaining - 100 \<le> 100 * k" by simp
    from Suc.IH [OF this] obtain cs where cs:
      "snd (job_pages sv cmd ids start' (remaining - 100) latest' jobs' (?c # hist)) = cs @ ?c # hist"
      "\<forall>c \<in> set cs. \<exists>i<k. c = page_command cmd ids (start' + 100 * i)" by blast
    have "\<exists>i<Suc k. c = page_command cmd ids (start + 100 * i)" if c: "c \<in> set cs" for c
    proof -
      from cs(2) c obtain i where i: "i < k" "c = page_command cmd ids (start' + 100 * i)" by blast
      from more(1) show ?thesis
      proof
        assume "start' = start"
        with i show ?thesis by (intro exI [of _ i]) simp
      next
        assume "start' = start + 100"
        with i show ?thesis by (intro exI [of _ "Suc i"]) (simp add: algebra_simps)
      qed
    qed
    with cs(1) more(2) here show ?thesis by (intro exI [of _ "cs @ [?c]"]) auto
  qed
qed

lemma job_pages_failed_first:
  assumes "cp_returncode (sv_run sv hist (page_command cmd ids start)) \<noteq> 0" "remaining \<le> 100 * Suc k" "0 < k"
  shows "\<exists>cs. snd (job_pages sv cmd ids start remaining latest jobs hist) = cs @ hist \<and>
    (\<forall>c \<in> set cs. \<exists>i<k. c = page_command cmd ids (start + 100 * i))"
proof (cases "remaining = 0")
  case True
  then show ?thesis by (subst job_pages.simps) simp
next
  case False
  let ?c = "page_command cmd ids start"
  from assms(3) have here: "\<exists>i<k. ?c = page_command cmd ids (start + 100 * i)" by (intro exI [of _ 0]) simp
  from job_pages_step [OF False, of sv cmd ids start latest jobs hist] assms(1)
  consider (raised) e where "job_pages sv cmd ids start remaining latest jobs hist = (Inl e, ?c # hist)"
    | (more) latest' jobs' where
        "job_pages sv cmd ids start remaining latest jobs hist = job_pages sv cmd ids start (remaining - 100) latest' jobs' (?c # hist)"
    by metis
  then show ?thesis
  proof cases
    case raised
    with here show ?thesis by (intro exI [of _ "[?c]"]) simp
  next
    case more
    from assms(2) have "remaining - 100 \<le> 100 * k" by simp
    from job_pages_commands [OF this, of sv cmd ids start latest' jobs' "?c # hist"] obtain cs where
      "snd (job_pages sv cmd ids start (remaining - 100) latest' jobs' (?c # hist)) = cs @ ?c # hist"
      "\<forall>c \<in> set cs. \<exists>i<k. c = page_command cmd ids (start + 100 * i)" by blast
    with more here show ?thesis by (intro exI [of _ "cs @ [?c]"]) auto
  qed
qed

lemma list_jobs_commands:
  assumes "jq_job_ids q = Some ids" "ids \<noteq> []"
  shows "snd (list_jobs_query sv q hist) = snd (job_pages sv (qstat_bin # json_options q) ids 0 (length ids) None [] hist)"
  using assms by (cases ids) (auto simp: list_jobs_query_def bindS_def split: prod.splits sum.splits option.splits)

text \<open>When the query of the first page of several fails, the start stays where it is while the rounds run out: whatever is
  answered afterwards, the last job is never asked for.\<close>

lemma failed_page_drops_jobs:
  assumes "jq_job_ids q = Some ids" "100 < length ids" "distinct ids"
    and "cp_returncode (sv_run sv hist (page_command (qstat_bin # json_options q) ids 0)) \<noteq> 0"
  shows "\<exists>cs. snd (list_jobs_query sv q hist) = cs @ hist \<and>
    (\<forall>c \<in> set cs. \<exists>p. c = Args (qstat_bin # json_options q @ p) \<and> last ids \<notin> set p)"
proof -
  define k where "k = (length ids - 1) div 100"
  from assms(2) have k: "length ids \<le> 100 * Suc k" "0 < k" "100 * k < length ids" by (simp_all add: k_def)
  from job_pages_failed_first [OF assms(4) k(1,2), of None "[]"] list_jobs_commands [OF assms(1), of sv hist] assms(2)
  obtain cs where cs: "snd (list_jobs_query sv q hist) = cs @ hist"
    "\<forall>c \<in> set cs. \<exists>i<k. c = page_command (qstat_bin # json_options q) ids (0 + 100 * i)" by fastforce
  have "last ids \<notin> set (take 100 (drop (100 * i) ids))" if i: "i < k" for i
  proof
    assume "last ids \<in> set (take 100 (drop (100 * i) ids))"
    then obtain m where m: "m < 100" "m + 100 * i < length ids" "ids ! (100 * i + m) = last ids"
      by (auto simp: in_set_conv_nth)
    from k i have "ids \<noteq> []" "100 * i + m < length ids - 1" using m(1) by auto
    with assms(3) m(3) show False by (simp add: last_conv_nth nth_eq_iff_index_eq)
  qed
  with cs show ?thesis by (intro exI [of _ cs]) (auto simp: page_command_def PAGE_SIZE_def)
qed

lemma job_pages_answered_step:
  assumes "cp_returncode (sv_run sv hist (page_command cmd ids start)) = 0" "remaining \<noteq> 0"
  shows "\<exists>r. job_pages sv cmd ids start remaining latest jobs hist =
    (case handle_qstat_result sv (sr_stdout r) of
       Inl e \<Rightarrow> (Inl e, page_command cmd ids start # hist)
     | Inr page \<Rightarrow> job_pages sv cmd ids (start + 100) (remaining - 100) (Some r) (jobs @ page) (page_command cmd ids start # hist))"
proof -
  let ?c = "page_command cmd ids start"
  let ?r = "\<lparr>sr_command = ?c, sr_returncode = cp_returncode (sv_run sv hist ?c), sr_stdout = strip (cp_stdout (sv_run sv hist ?c)),
     sr_stderr = strip (cp_stderr (sv_run sv hist ?c)), sr_total_time_ms = sv_now sv (?c # hist) - sv_now sv hist\<rparr>"
  show ?thesis
    using assms by (intro exI [of _ ?r], subst job_pages.simps)
      (simp add: bindS_def page_command_def PAGE_SIZE_def split: sum.splits)
qed

lemma job_pages_answered:
  assumes "\<And>hist c. cp_returncode (sv_run sv hist c) = 0"
    and "fst (job_pages sv cmd ids start (length ids - start) latest jobs hist) = Inr res"
  shows "\<exists>pages. concat pages = drop start ids \<and> (\<forall>p \<in> set pages. length p \<le> 100) \<and>
    snd (job_pages sv cmd ids start (length ids - start) latest jobs hist) = rev (map (\<lambda>p. Args (cmd @ p)) pages) @ hist"
  using assms(2)
proof (induction "length ids - start" arbitrary: start latest jobs hist rule: less_induct)
  case less
  show ?case
  proof (cases "length ids - start = 0")
    case True
    then show ?thesis by (subst job_pages.simps) (intro exI [of _ "[]"], simp)
  next
    case False
    let ?page = "take PAGE_SIZE (drop start ids)"
    from job_pages_answered_step [OF assms(1) False, of cmd ids start latest jobs hist] obtain r where r:
      "job_pages sv cmd ids start (length ids - start) latest jobs hist =
        (case handle_qstat_result sv (sr_stdout r) of
           Inl e \<Rightarrow> (Inl e, page_command cmd ids start # hist)
         | Inr page \<Rightarrow> job_pages sv cmd ids (start + 100) (length ids - start - 100) (Some r) (jobs @ page)
             (page_command cmd ids start # hist))" by blast
    with less.prems obtain page where page:
      "job_pages sv cmd ids start (length ids - start) latest jobs hist =
       job_pages sv cmd ids (start + PAGE_SIZE) (length ids - (start + PAGE_SIZE)) (Some r) (jobs @ page) (Args (cmd @ ?page) # hist)"
      by (cases "handle_qstat_result sv (sr_stdout r)") (simp_all add: page_command_def PAGE_SIZE_def)
    from False have shorter: "length ids - (start + PAGE_SIZE) < length ids - start" by (simp add: PAGE_SIZE_def)
    from less.hyps [OF shorter] less.prems page obtain pages where pages:
      "concat pages = drop (start + PAGE_SIZE) ids" "\<forall>p \<in> set pages. length p \<le> 100"
      "snd (job_pages sv cmd ids start (length ids - start) latest jobs hist) =
         rev (map (\<lambda>p. Args (cmd @ p)) pages) @ Args (cmd @ ?page) # hist" by metis
    have "concat (?page # pages) = drop start ids"
      using pages(1) append_take_drop_id [of PAGE_SIZE "drop start ids"] by (simp add: add.commute)
    with pages(2,3) show ?thesis by (intro exI [of _ "?page # pages"]) (simp add: PAGE_SIZE_def)
  qed
qed

text \<open>When every query is answered, the pages asked for are the job identifiers in their order, each once, at most a hundred
  at a time.\<close>

lemma answered_pages_cover:
  assumes "jq_job_ids q = Some ids" "ids \<noteq> []" "\<And>hist c. cp_returncode (sv_run sv hist c) = 0"
    and "fst (list_jobs_query sv q hist) = Inr jobs"
  shows "\<exists>pages. concat pages = ids \<and> (\<forall>p \<in> set pages. length p \<le> 100) \<and>
    snd (list_jobs_query sv q hist) = rev (map (\<lambda>p. Args (qstat_bin # json_options q @ p)) pages) @ hist"
proof -
  from assms(1,2,4) obtain res where "fst (job_pages sv (qstat_bin # json_options q) ids 0 (length ids) None [] hist) = Inr res"
    by (cases ids) (auto simp: list_jobs_query_def bindS_def split: prod.splits sum.splits option.splits)
  with job_pages_answered [OF assms(3), of "qstat_bin # json_options q" ids 0 None "[]" hist res]
    list_jobs_commands [OF assms(1,2), of sv hist]
  show ?thesis by simp
qed

end
