(* ===== verification/PBS_Server.thy ===== *)
theory PBS_Server
  imports PBS_Query
begin

text \<open>
  The operations of the scheduler on the OpenPBS server (\<open>app/scheduler/openpbs/openpbs_scheduler.py\<close> behind the wrapper
  \<open>app/scheduler/soca_scheduler.py\<close>), each a sequence of commands as in \<open>PBS_Query\<close>. The entries of the answer of \<open>pbsnodes\<close> are
  objects; the debug option of \<open>list_nodes\<close>, which only logs, is left out.
\<close>

section \<open>Constants\<close>

definition QSTAT_ERROR_CODE_UNKNOWN_QUEUE :: int where "QSTAT_ERROR_CODE_UNKNOWN_QUEUE = 170"
definition QMGR_ERROR_CODE_OBJECT_BUSY :: int where "QMGR_ERROR_CODE_OBJECT_BUSY = 179"
definition QMGR :: string where "QMGR = ''/opt/pbs/bin/qmgr''"
definition PBSNODES :: string where "PBSNODES = ''/opt/pbs/bin/pbsnodes''"
definition QALTER :: string where "QALTER = ''/opt/pbs/bin/qalter''"
definition QDEL :: string where "QDEL = ''/opt/pbs/bin/qdel''"

text \<open>A command whose failure is an error of the scheduler.\<close>

definition must_run :: "pbs_server \<Rightarrow> string list \<Rightarrow> (command list, unit) act" where
  "must_run sv ws =
     bindS (shell_invoke sv (Args ws)) (\<lambda>r. if sr_returncode r \<noteq> 0 then throw scheduler_error else ret ())"

definition pbs_is_ready :: "pbs_server \<Rightarrow> (command list, bool) act" where
  "pbs_is_ready sv = bindS (shell_invoke sv (Shell ''systemctl status pbs'')) (\<lambda>r. ret (sr_returncode r = 0))"

section \<open>Nodes\<close>

fun mentions :: "string \<Rightarrow> pyval \<Rightarrow> bool res" where
  "mentions text (PStr s) = Inr (contains text s)"
| "mentions text (PList vs) = Inr (PStr text \<in> set vs)"
| "mentions text (PDict kvs) = Inr (text \<in> fst ` set kvs)"
| "mentions text _ = Inl TypeError"

definition unknown_node :: "string \<Rightarrow> pyval \<Rightarrow> bool res" where
  "unknown_node h v =
     (case v of
        PDict d \<Rightarrow>
          bindE (case map_of d ''Error'' of None \<Rightarrow> Inr False | Some e \<Rightarrow> mentions ''Unknown node'' e) (\<lambda>old.
            if old then Inr True
            else (case map_of d h of None \<Rightarrow> Inr False | Some e \<Rightarrow> mentions ''Unknown node'' e))
      | _ \<Rightarrow> Inr False)"

definition listed_node :: "pbs_server \<Rightarrow> string \<times> pyval \<Rightarrow> soca_compute_node list \<Rightarrow> soca_compute_node list res" where
  "listed_node sv = (\<lambda>(h, v) acc.
     bindE (unknown_node h v) (\<lambda>unknown.
       if unknown then Inr acc
       else bindE (to_soca_node (sv_convert sv) h (case v of PDict d \<Rightarrow> Some d | _ \<Rightarrow> None)) (\<lambda>n.
              Inr (case n of None \<Rightarrow> acc | Some x \<Rightarrow> acc @ [x]))))"

definition list_nodes :: "pbs_server \<Rightarrow> string option \<Rightarrow> (command list, soca_compute_node list) act" where
  "list_nodes sv h =
     bindS (shell_invoke sv (Args (case h of
         Some name \<Rightarrow> words_of (PBSNODES @ '' -v -F json '' @ name) | None \<Rightarrow> words_of (PBSNODES @ '' -v -a -F json'')))) (\<lambda>r.
     if sr_returncode r \<noteq> 0
     then (if contains ''Server has no node list'' (sr_stderr r) then ret [] else throw scheduler_error)
     else reads (\<lambda>_. bindE (sv_json sv (sr_stdout r)) (\<lambda>answer.
            case get_value_as_dict ''nodes'' answer None of
              None \<Rightarrow> Inr []
            | Some nodes \<Rightarrow> foldE (listed_node sv) nodes [])))"

definition get_node :: "pbs_server \<Rightarrow> string \<Rightarrow> (command list, soca_compute_node option) act" where
  "get_node sv h = bindS (list_nodes sv (Some h)) (\<lambda>ns. ret (case ns of [] \<Rightarrow> None | n # _ \<Rightarrow> Some n))"

definition attribute_tokens :: "string \<Rightarrow> (string \<times> string option) list \<Rightarrow> string" where
  "attribute_tokens pre attrs =
     join '','' (List.map_filter (\<lambda>(a, v). map_option (\<lambda>s. pre @ a @ ''='' @ s) v) attrs)"

definition set_node_attributes :: "pbs_server \<Rightarrow> string \<Rightarrow> (string \<times> string option) list \<Rightarrow> (command list, bool) act" where
  "set_node_attributes sv h attrs =
     thenS (must_run sv [QMGR, ''-c'', ''set node '' @ h @ '' '' @ attribute_tokens ''resources_available.'' attrs]) (ret True)"

definition bool_text :: "bool option \<Rightarrow> string option" where
  "bool_text = map_option (\<lambda>b. if b then ''True'' else ''False'')"

definition spot_price_text :: "pbs_server \<Rightarrow> soca_compute_node \<Rightarrow> string option" where
  "spot_price_text sv n =
     (if opt_or (n_spot n) False
      then (case n_spot_price n of Some p \<Rightarrow> Some (sv_float_str sv p) | None \<Rightarrow> Some ''auto'')
      else None)"

definition node_attributes :: "pbs_server \<Rightarrow> int \<Rightarrow> soca_compute_node \<Rightarrow> (string \<times> string option) list" where
  "node_attributes sv now_ms n =
     [(''job_id'', n_job_id n), (''job_group'', n_job_group n),
      (''launch_time'', map_option (\<lambda>t. str_of_int (t div 1000000)) (n_launch_time n)),
      (''instance_id'', n_instance_id n), (''instance_type'', n_instance_type n),
      (''availability_zone'', n_availability_zone n), (''subnet_id'', n_subnet_id n),
      (''cluster_name'', n_cluster_name n), (''cluster_version'', sn_cluster_version n),
      (''queue_type'', n_queue_type n), (''scaling_mode'', map_option scaling_mode_str (n_scaling_mode n)),
      (''instance_ami'', n_instance_ami n), (''instance_profile'', n_instance_profile n),
      (''lifecycle'', n_lifecycle n), (''tenancy'', n_tenancy n), (''spot_fleet_request'', n_spot_fleet_request n),
      (''auto_scaling_group'', n_auto_scaling_group n), (''keep_forever'', bool_text (n_keep_forever n)),
      (''terminate_when_idle'', map_option str_of_int (n_terminate_when_idle n)),
      (''spot_price'', spot_price_text sv n), (''base_os'', sn_base_os n),
      (''placement_group'', bool_text (sn_enable_placement_group n)), (''ht_support'', bool_text (n_enable_ht_support n)),
      (''keep_ebs'', bool_text (sn_keep_ebs_volumes n)),
      (''root_size'', map_option (sv_memory_str sv) (sn_root_storage_size n)),
      (''scratch_size'', map_option (sv_memory_str sv) (sn_scratch_storage_size n)),
      (''scratch_iops'', map_option str_of_int (sn_scratch_storage_iops n)),
      (''efa_support'', bool_text (sn_enable_efa_support n)), (''force_ri'', bool_text (sn_force_reserved_instances n)),
      (''system_metrics'', bool_text (sn_enable_system_metrics n)),
      (''anonymous_metrics'', bool_text (sn_enable_anonymous_metrics n)),
      (''compute_node'', n_compute_stack n), (''stack_id'', n_stack_id n),
      (''provisioning_time'', Some (str_of_int now_ms))]"

definition param_text :: "pbs_server \<Rightarrow> pyval \<Rightarrow> string option" where
  "param_text sv v = (if v = PNone then None else Some (py_str (cv_fmt (sv_convert sv)) v))"

definition create_node :: "pbs_server \<Rightarrow> soca_compute_node \<Rightarrow> (command list, bool) act" where
  "create_node sv n =
     thenS (must_run sv [QMGR, ''-c'', ''create node '' @ pystr (n_host n) @ '' queue='' @ pystr (n_queue n)])
     (bindS (gets (sv_now sv)) (\<lambda>now_ms.
     bindS (reads (\<lambda>_. case sn_fsx_lustre n of None \<Rightarrow> Inr [] | Some c \<Rightarrow> as_job_submit_params c)) (\<lambda>fsx.
     thenS (set_node_attributes sv (pystr (n_host n))
              (fold (\<lambda>(k, v). assign_key k (param_text sv v)) fsx (node_attributes sv now_ms n)))
       (ret True))))"

definition busy_or_error :: "string \<Rightarrow> pbs_server \<Rightarrow> string list \<Rightarrow> (command list, unit) act" where
  "busy_or_error busy sv ws =
     bindS (shell_invoke sv (Args ws)) (\<lambda>r.
       if sr_returncode r = 0 then ret ()
       else if sr_returncode r = QMGR_ERROR_CODE_OBJECT_BUSY then throw (SocaException busy)
       else throw scheduler_error)"

definition delete_node :: "pbs_server \<Rightarrow> string \<Rightarrow> (command list, bool) act" where
  "delete_node sv h = thenS (busy_or_error ''SCHEDULER_NODE_BUSY'' sv [QMGR, ''-c'', ''delete node '' @ h]) (ret True)"

definition set_node_state :: "pbs_server \<Rightarrow> string \<Rightarrow> SocaComputeNodeState \<Rightarrow> (command list, bool) act" where
  "set_node_state sv h st =
     bindS (reads (\<lambda>_. from_soca_compute_node_state st)) (\<lambda>text.
     thenS (must_run sv [QMGR, ''-c'', ''set node '' @ h @ '' state='' @ text]) (ret True))"

section \<open>Queues\<close>

definition set_queue_attributes :: "pbs_server \<Rightarrow> string \<Rightarrow> (string \<times> string option) list \<Rightarrow> (command list, unit) act" where
  "set_queue_attributes sv qn attrs =
     must_run sv [QMGR, ''-c'', ''set queue '' @ qn @ '' '' @ attribute_tokens [] attrs]"

definition query_queues :: "pbs_server \<Rightarrow> string option \<Rightarrow> (command list, shell_result) act" where
  "query_queues sv qn =
     shell_invoke sv (Args (case qn of
       Some q \<Rightarrow> words_of (qstat_bin @ '' -Q -f -F json '' @ q) | None \<Rightarrow> words_of (qstat_bin @ '' -Q -f -F json'')))"

definition listed_queue :: "pbs_server \<Rightarrow> string \<times> pyval \<Rightarrow> soca_queue list \<Rightarrow> soca_queue list res" where
  "listed_queue sv = (\<lambda>(qn, v) acc.
     bindE (to_soca_queue (cv_fmt (sv_convert sv)) qn (case v of PDict d \<Rightarrow> Some d | _ \<Rightarrow> None)) (\<lambda>q.
       Inr (case q of None \<Rightarrow> acc | Some x \<Rightarrow> acc @ [x])))"

definition queues_of_result :: "pbs_server \<Rightarrow> shell_result \<Rightarrow> soca_queue list res" where
  "queues_of_result sv r =
     (if sr_returncode r \<noteq> 0
      then Inl (if sr_returncode r = QSTAT_ERROR_CODE_UNKNOWN_QUEUE then SocaException ''SCHEDULER_QUEUE_NOT_FOUND'' else scheduler_error)
      else bindE (sv_json sv (sr_stdout r)) (\<lambda>answer.
           bindE (required AttributeError (get_value_as_dict ''Queue'' answer None)) (\<lambda>queues.
             foldE (listed_queue sv) queues [])))"

definition list_queues :: "pbs_server \<Rightarrow> string option \<Rightarrow> (command list, soca_queue list) act" where
  "list_queues sv qn = bindS (query_queues sv qn) (\<lambda>r. reads (\<lambda>_. queues_of_result sv r))"

definition pbs_get_queue :: "pbs_server \<Rightarrow> string \<Rightarrow> (command list, soca_queue option) act" where
  "pbs_get_queue sv qn =
     bindS (query_queues sv (Some qn)) (\<lambda>r.
       case queues_of_result sv r of
         Inr [] \<Rightarrow> ret None
       | Inr (q # _) \<Rightarrow> ret (Some q)
       | Inl e \<Rightarrow> if e = scheduler_error \<and> contains (''Unknown queue '' @ qn) (shell_result_str r) then ret None else throw e)"

definition create_queue :: "pbs_server \<Rightarrow> string \<Rightarrow> (command list, unit) act" where
  "create_queue sv qn =
     bindS (list_queues sv None) (\<lambda>queues.
       let found = (case filter (\<lambda>q. sq_name q = Some qn) queues of [] \<Rightarrow> None | qs \<Rightarrow> Some (last qs)) in
       bindS (case found of
                None \<Rightarrow> thenS (must_run sv [QMGR, ''-c'', ''create queue '' @ qn]) (ret False)
              | Some q \<Rightarrow> ret (is_true_opt (sq_enabled q) \<and> is_false_opt (sq_started q))) (\<lambda>is_enabled.
         if is_enabled then ret ()
         else set_queue_attributes sv qn
           [(''queue_type'', Some ''Execution''), (''started'', Some ''True''), (''enabled'', Some ''True'')]))"

definition delete_queue :: "pbs_server \<Rightarrow> string \<Rightarrow> (command list, unit) act" where
  "delete_queue sv qn =
     bindS (catchS (bindS (pbs_get_queue sv qn) (\<lambda>q. ret (Inl q)))
              (\<lambda>e. if e = SocaException ''SCHEDULER_QUEUE_NOT_FOUND'' then ret (Inr ()) else throw e)) (\<lambda>found.
       case found of
         Inr _ \<Rightarrow> ret ()
       | Inl queue_opt \<Rightarrow>
           bindS (reads (\<lambda>_. required AttributeError queue_opt)) (\<lambda>existing.
           thenS (if is_true_opt (sq_enabled existing) \<or> is_true_opt (sq_started existing)
                  then set_queue_attributes sv qn [(''enabled'', Some ''False''), (''started'', Some ''False'')] else ret ())
             (busy_or_error ''SCHEDULER_QUEUE_BUSY'' sv [QMGR, ''-c'', ''delete queue '' @ qn])))"

text \<open>The answer may be None: \<open>enabled and started\<close> of the queue, as they are.\<close>

definition is_queue_enabled :: "pbs_server \<Rightarrow> string \<Rightarrow> (command list, bool option) act" where
  "is_queue_enabled sv qn =
     bindS (pbs_get_queue sv qn) (\<lambda>found. ret (case found of
         None \<Rightarrow> Some False
       | Some q \<Rightarrow> if sq_enabled q = Some True then sq_started q else sq_enabled q))"

section \<open>Jobs\<close>

definition job_query_of :: "string list option \<Rightarrow> state_query option \<Rightarrow> job_query" where
  "job_query_of ids st = \<lparr>jq_queue = None, jq_job_ids = ids, jq_owners = None, jq_state = st, jq_queued_after = None,
     jq_job_group = None, jq_stack_id = None, jq_max_jobs = None\<rparr>"

definition pbs_get_job :: "pbs_server \<Rightarrow> string \<Rightarrow> (command list, soca_job option) act" where
  "pbs_get_job sv jid = qstat_get_job sv (job_query_of (Some [jid]) None)"

definition get_finished_job :: "pbs_server \<Rightarrow> string \<Rightarrow> (command list, soca_job option) act" where
  "get_finished_job sv jid = qstat_get_job sv (job_query_of (Some [jid]) (Some (OneState JS_FINISHED)))"

definition delete_job :: "pbs_server \<Rightarrow> string \<Rightarrow> (command list, unit) act" where
  "delete_job sv jid =
     bindS (pbs_get_job sv jid) (\<lambda>found.
     bindS (reads (\<lambda>_. required AttributeError found)) (\<lambda>job.
       must_run sv [''su'', pystr (owner job), ''-c'', QDEL @ '' '' @ jid]))"

definition is_job_active :: "pbs_server \<Rightarrow> string \<Rightarrow> (command list, bool) act" where
  "is_job_active sv jid =
     bindS (shell_invoke sv (Args [qstat_bin, jid])) (\<lambda>r.
       if sr_returncode r = 0 then ret True
       else if sr_returncode r = QSTAT_ERROR_CODE_UNKNOWN_JOB_ID then ret False
       else if sr_returncode r = QSTAT_ERROR_CODE_JOB_FINISHED then ret False
       else throw scheduler_error)"

definition is_job_queued_or_running :: "pbs_server \<Rightarrow> string \<Rightarrow> (command list, bool) act" where
  "is_job_queued_or_running sv jid = bindS (shell_invoke sv (Args [qstat_bin, jid])) (\<lambda>r. ret (sr_returncode r = 0))"

definition qalter_message :: "string \<Rightarrow> string" where
  "qalter_message s = map (\<lambda>c. if c \<in> {CHR '' '', CHR '';'', CHR 0x27, CHR 0x22} then CHR ''_'' else c) s"

definition qalter_option :: "string \<times> string option \<Rightarrow> string list" where
  "qalter_option = (\<lambda>(a, v). [''-l'', (case v of
       None \<Rightarrow> a @ ''=''
     | Some s \<Rightarrow> a @ ''='' @ (if a = ''error_message'' then qalter_message s else s))])"

definition set_job_attributes :: "pbs_server \<Rightarrow> string \<Rightarrow> (string \<times> string option) list \<Rightarrow> (command list, bool) act" where
  "set_job_attributes sv jid attrs =
     thenS (must_run sv (QALTER # concat (map qalter_option attrs) @ [jid])) (ret True)"

definition select_base :: "string \<Rightarrow> string" where
  "select_base s = hd (split_str '':compute_node'' s)"

definition provisioned_select :: "string \<Rightarrow> string \<Rightarrow> string" where
  "provisioned_select s stack = select_base s @ '':compute_node='' @ stack"

definition reset_select :: "string \<Rightarrow> string" where
  "reset_select s = select_base s @ '':compute_node=tbd''"

definition job_select :: "soca_job \<Rightarrow> string res" where
  "job_select job =
     bindE (required AttributeError (params job)) (\<lambda>p.
     bindE (required TypeError (p_custom_params p)) (\<lambda>custom.
     bindE (required KeyError (map_of custom ''select'')) (\<lambda>s. required AttributeError s)))"

text \<open>The handler of both operations looks at the error code alone.\<close>

definition unless_finished :: "'a \<Rightarrow> (command list, 'a) act \<Rightarrow> (command list, 'a) act" where
  "unless_finished x m = catchS m (\<lambda>e. if e = SocaException ''SCHEDULER_JOB_FINISHED'' then ret x else throw e)"

definition pbs_provision_job :: "pbs_server \<Rightarrow> soca_job \<Rightarrow> string \<Rightarrow> (command list, int) act" where
  "pbs_provision_job sv job stack =
     unless_finished (-1)
       (bindS (reads (\<lambda>_. job_select job)) (\<lambda>s.
        bindS (reads (\<lambda>_. get_compute_stack (sv_digest sv) job)) (\<lambda>cs.
        bindS (gets (sv_now sv)) (\<lambda>now_ms.
        bindS (reads (\<lambda>_. required TypeError (job_id job))) (\<lambda>jid.
        thenS (set_job_attributes sv jid
                 [(''select'', Some (provisioned_select s cs)), (''stack_id'', Some stack),
                  (''provisioning_time'', Some (str_of_int now_ms))])
          (ret now_ms))))))"

definition reset_job :: "pbs_server \<Rightarrow> string \<Rightarrow> (command list, bool) act" where
  "reset_job sv jid =
     unless_finished True
       (bindS (pbs_get_job sv jid) (\<lambda>found.
        bindS (reads (\<lambda>_. required AttributeError found)) (\<lambda>job.
        bindS (reads (\<lambda>_. job_select job)) (\<lambda>s.
          set_job_attributes sv jid
            [(''select'', Some (reset_select s)), (''stack_id'', Some ''tbd''), (''provisioning_time'', None)]))))"

section \<open>What the operations promise\<close>

lemma must_run_raises: "fst (must_run sv ws hist) = Inl e \<Longrightarrow> e = scheduler_error"
  by (simp add: must_run_def bindS_def split: if_splits)

lemma must_run_apply:
  "must_run sv ws hist = (if cp_returncode (sv_run sv hist (Args ws)) \<noteq> 0 then Inl scheduler_error else Inr (), Args ws # hist)"
  by (simp add: must_run_def bindS_def)

text \<open>A message written into a job keeps its length and holds no blank, semicolon or quote.\<close>

lemma messages_sanitized:
  "\<exists>options. snd (set_job_attributes sv jid attrs hist) = Args (QALTER # concat (map (\<lambda>w. [''-l'', w]) options) @ [jid]) # hist \<and>
     length options = length attrs \<and>
     (\<forall>i < length attrs. \<forall>s. attrs ! i = (''error_message'', Some s) \<longrightarrow>
        (\<exists>m. options ! i = ''error_message='' @ m \<and> length m = length s \<and>
           set m \<inter> {CHR '' '', CHR '';'', CHR 0x27, CHR 0x22} = {}))"
proof (intro exI conjI allI impI)
  let ?options = "map (\<lambda>av. hd (tl (qalter_option av))) attrs"
  have "concat (map qalter_option attrs) = concat (map (\<lambda>w. [''-l'', w]) ?options)"
    by (induction attrs) (auto simp: qalter_option_def)
  then show "snd (set_job_attributes sv jid attrs hist) = Args (QALTER # concat (map (\<lambda>w. [''-l'', w]) ?options) @ [jid]) # hist"
    by (simp add: set_job_attributes_def thenS_def bindS_def must_run_apply)
  fix i s
  assume "i < length attrs" "attrs ! i = (''error_message'', Some s)"
  then show "?options ! i = ''error_message='' @ qalter_message s" by (simp add: qalter_option_def)
  show "length (qalter_message s) = length s" by (simp add: qalter_message_def)
  show "set (qalter_message s) \<inter> {CHR '' '', CHR '';'', CHR 0x27, CHR 0x22} = {}" by (auto simp: qalter_message_def)
qed simp

lemma set_job_attributes_apply:
  "set_job_attributes sv jid attrs hist =
    (let c = Args (QALTER # concat (map qalter_option attrs) @ [jid]) in
     (if cp_returncode (sv_run sv hist c) \<noteq> 0 then Inl scheduler_error else Inr True, c # hist))"
  by (simp add: set_job_attributes_def thenS_def bindS_def must_run_apply Let_def)

lemma group_tokens_error: "job_group_tokens job \<noteq> Inl (SocaException ''SCHEDULER_JOB_FINISHED'')"
  by (auto simp: job_group_tokens_def get_params_def invalid_job_def capacity_type_def Let_def bindE_def required_def
      split: sum.splits option.splits if_splits)

lemma compute_stack_error: "get_compute_stack d job \<noteq> Inl (SocaException ''SCHEDULER_JOB_FINISHED'')"
  by (auto simp: get_compute_stack_def get_params_def invalid_job_def get_job_group_def capacity_type_def Let_def bindE_def required_def
        group_tokens_error split: sum.splits option.splits if_splits)

text \<open>Provisioning a job that returns has run one command, \<open>qalter\<close> with the compute stack in the select expression, and
  returns the time of the clock: it never reports the -1 that stands for a finished job.\<close>

lemma provision_runs_qalter:
  assumes "fst (pbs_provision_job sv job stack hist) = Inr t"
  shows "t = sv_now sv hist \<and> (\<exists>s cs jid. job_select job = Inr s \<and> get_compute_stack (sv_digest sv) job = Inr cs \<and> job_id job = Some jid \<and>
    snd (pbs_provision_job sv job stack hist) = Args [QALTER, ''-l'', ''select='' @ provisioned_select s cs, ''-l'', ''stack_id='' @ stack,
      ''-l'', ''provisioning_time='' @ str_of_int t, jid] # hist)"
  using assms compute_stack_error [of "sv_digest sv" job]
  by (auto simp: pbs_provision_job_def unless_finished_def catchS_def bindS_reads thenS_apply set_job_attributes_apply Let_def qalter_option_def
      scheduler_error_def job_select_def bindE_def required_def split: sum.splits option.splits if_splits)

section \<open>Select expressions\<close>

lemma startswith_append: "startswith p s \<Longrightarrow> startswith p (s @ t)"
  by (auto simp: startswith_def) (metis length_take min.bounded_iff order_refl)

lemma split_once_base:
  assumes "p \<noteq> []" "hd p \<notin> set (tl p)"
  shows "split_once p a = None \<Longrightarrow> split_once p (a @ p @ r) = Some (a, r)"
proof (induction a)
  case Nil
  from assms(1) show ?case by (cases p) (simp_all add: startswith_def)
next
  case (Cons c a)
  have "\<not> startswith p (c # a @ p @ r)"
  proof
    assume st: "startswith p (c # a @ p @ r)"
    show False
    proof (cases "length p \<le> length (c # a)")
      case True
      with st have "startswith p (c # a)" by (cases p) (simp_all add: startswith_def)
      with Cons.prems show False by simp
    next
      case False
      have "p ! length (c # a) = (c # a @ p @ r) ! length (c # a)"
        using st False by (metis nth_take startswith_def not_le)
      also have "\<dots> = hd p" using assms(1) by (simp add: nth_append hd_conv_nth)
      finally have "hd p \<in> set (tl p)"
        using False by (cases p) auto
      with assms(2) show False by contradiction
    qed
  qed
  with Cons show ?case by (auto split: if_splits)
qed

lemma split_once_first: "split_once p s = Some (a, b) \<Longrightarrow> p \<noteq> [] \<Longrightarrow> split_once p a = None"
proof (induction s arbitrary: a)
  case (Cons c s)
  show ?case
  proof (cases "startswith p (c # s)")
    case True
    with Cons.prems show ?thesis by simp
  next
    case False
    with Cons.prems obtain a' where a': "a = c # a'" "split_once p s = Some (a', b)" by (auto split: if_splits)
    from a'(2) have "prefix a' s" by (induction s arbitrary: a') (auto split: if_splits)
    then obtain t where "c # s = (c # a') @ t" by (auto simp: prefix_def)
    with False have "\<not> startswith p (c # a')" by (metis startswith_append)
    with Cons.IH [OF a'(2) Cons.prems(2)] a'(1) show ?thesis by simp
  qed
qed simp

lemma select_base_split: "select_base s = (case split_once '':compute_node'' s of None \<Rightarrow> s | Some (a, _) \<Rightarrow> a)"
  by (simp add: select_base_def split_str.simps split: option.splits prod.splits)


section \<open>Queues\<close>

text \<open>A queue that exists, is enabled and is stopped stays stopped: creating it only lists the queues.\<close>

lemma stopped_queue_stays_stopped:
  assumes "fst (list_queues sv None hist) = Inr queues" "filter (\<lambda>q. sq_name q = Some qn) queues = [q]"
    and "sq_enabled q = Some True" "sq_started q = Some False"
  shows "create_queue sv qn hist = (Inr (), snd (list_queues sv None hist))"
  using assms by (cases "list_queues sv None hist") (auto simp: create_queue_def bindS_def)

text \<open>A queue that is disabled is enabled and started, one that is unknown created first.\<close>

lemma create_queue_starts:
  assumes "fst (list_queues sv None hist) = Inr queues" "filter (\<lambda>q. sq_name q = Some qn) queues = []"
    and "fst (create_queue sv qn hist) = Inr ()"
  shows "snd (create_queue sv qn hist) =
    Args [QMGR, ''-c'', ''set queue '' @ qn @ '' queue_type=Execution,started=True,enabled=True''] #
    Args [QMGR, ''-c'', ''create queue '' @ qn] # snd (list_queues sv None hist)"
proof -
  have "attribute_tokens [] [(''queue_type'', Some ''Execution''), (''started'', Some ''True''), (''enabled'', Some ''True'')] =
      ''queue_type=Execution,started=True,enabled=True''" by code_simp
  with assms show ?thesis
    by (cases "list_queues sv None hist")
      (auto simp: create_queue_def bindS_def thenS_def must_run_apply set_queue_attributes_def split: if_splits)
qed

text \<open>On a server without queues no queue is ever created: the listing itself raises.\<close>

lemma first_queue_never_created:
  assumes "\<And>hist. cp_returncode (sv_run sv hist c) = 0" "c = Args (words_of (qstat_bin @ '' -Q -f -F json''))"
    and "sv_json sv (strip (cp_stdout (sv_run sv hist c))) = Inr answer" "get_value_as_dict ''Queue'' answer None = None"
  shows "create_queue sv qn hist = (Inl AttributeError, c # hist)"
  using assms by (simp add: create_queue_def list_queues_def query_queues_def queues_of_result_def bindS_def)

end
