(* ===== verification/PBS_View.thy ===== *)
theory PBS_View
  imports PBS_Server Job_Build
begin

text \<open>
  A job of OpenPBS that the translation of \<open>PBS_Model\<close> turns into a job of the scheduler, with the builder that \<open>Job_Build\<close>
  runs, a server of OpenPBS, and the properties of \<open>PBS_Model\<close>, \<open>PBS_Convert\<close>, \<open>PBS_Query\<close> and \<open>PBS_Server\<close> at them.
\<close>

definition sample_openpbs_job :: openpbs_job where
  "sample_openpbs_job = \<lparr>ob_dry_run = None, ob_id = Some ''12.ip-10-0-0-9'', ob_comment = None, ob_euser = None, ob_exec_host = None,
     ob_exec_vnode = None, ob_Exit_status = None, ob_Job_Name = PStr ''run1'', ob_Job_Owner = Some ''alice@host'',
     ob_job_state = Some ''Q'', ob_Mail_Points = Some ''abe'', ob_project = Some ''p1'', ob_qtime = None, ob_queue = Some ''normal'',
     ob_resources_used = PNone, ob_Resource_List = Some [(''select'', PStr ''2:ncpus=1''), (''instance_type'', PStr ''c5.large'')],
     ob_schedselect = None, ob_stime = None\<rparr>"

definition sample_pbs_env :: pbs_env where
  "sample_pbs_env = \<lparr>pb_fmt = (\<lambda>_. []), pb_arrow = (\<lambda>_ _. Inr 0), pb_cluster_name = Some ''idea-test''\<rparr>"

lemma sample_translates:
  "\<exists>job. fst (as_soca_job sample_pbs_env None (Some qp) sample_full sample_openpbs_job st) = Inr job"
proof -
  obtain p po t where b: "build_job sample_full st = (Inr (p, po), t)" using sample_full_builds by blast
  have "get_soca_job_params sample_openpbs_job =
      Inr [(''nodes'', PStr ''2''), (''cpus'', PStr ''1''), (''instance_type'', PStr ''c5.large'')]"
    by code_simp
  moreover have "soca_job_state sample_openpbs_job = Some JS_QUEUED" by code_simp
  ultimately show ?thesis
    by (simp add: as_soca_job_def bindS_fst_Inr b Let_def get_soca_execution_hosts_def sample_openpbs_job_def
        parse_pbs_datetime_def job_end_time_def pbs_provisioning_time_def resource_def pbs_get_job_uid_def
        pbs_get_job_group_def pbs_get_error_message_def text_resource_def)
qed

lemma translated_job_select_witness:
  "\<exists>job p s. fst (as_soca_job sample_pbs_env None (Some sample_queue) sample_full sample_openpbs_job (new_context None None ''u'')) = Inr job \<and>
     params job = Some p \<and> p_custom_params p = Some [(''select'', s)]"
proof -
  obtain job where "fst (as_soca_job sample_pbs_env None (Some sample_queue) sample_full sample_openpbs_job (new_context None None ''u'')) = Inr job"
    using sample_translates by blast
  with translated_job_select [OF this] show ?thesis by blast
qed

definition sample_convert_env :: convert_env where
  "sample_convert_env = \<lparr>cv_fmt = (\<lambda>_. []), cv_int = (\<lambda>_. Inr 36), cv_bool = (\<lambda>_. Inr True), cv_arrow = (\<lambda>i. Inr (i * 1000000))\<rparr>"

definition sample_node_dict :: pydict where
  "sample_node_dict = [(''state'', PStr ''free''), (''resources_available'', PDict [(''spot_price'', PStr ''2.5'')])]"

lemma numeric_spot_price_is_one_witness:
  "\<exists>n. to_soca_node sample_convert_env ''ip-10-0-0-9'' (Some sample_node_dict) = Inr (Some n) \<and> n_spot_price n = Some (Fin 1)"
proof -
  have state: "to_soca_compute_node_state (Some ''free'') = Inr (Some [NS_FREE])" by code_simp
  have str: "get_value_as_string (cv_fmt sample_convert_env) ''Error'' sample_node_dict None = None"
    "get_value_as_string (cv_fmt sample_convert_env) ''state'' sample_node_dict None = Some ''free''"
    "get_value_as_string (cv_fmt sample_convert_env) ''sharing'' sample_node_dict None = None" by code_simp+
  have more: "get_value_as_list ''jobs'' sample_node_dict (Some []) = Some []" "get_value_as_int ''Port'' sample_node_dict None = Inr None"
    "get_value_as_int ''last_used_time'' sample_node_dict None = Inr None"
    "get_value_as_int ''last_state_change_time'' sample_node_dict None = Inr None" 
    "get_value_as_dict ''resources_assigned'' sample_node_dict None = None" by code_simp+
  let ?r = "[(''spot_price'', PStr ''2.5'')]"
  have res: "get_value_as_dict ''resources_available'' sample_node_dict None = Some ?r"
    "get_value_as_string (cv_fmt sample_convert_env) ''spot_price'' ?r None = Some ''2.5''" by code_simp+
  have absent: "get_value_as_string fmt k ?r None = None" "get_value_as_int k ?r None = Inr None" if "k \<noteq> ''spot_price''" for k fmt
    using that by (simp_all add: get_value_as_string_def get_value_as_int_def get_any_value_def value_exists_def)
  have price: "\<exists>x. float_of_str ''2.5'' = Inr x" by (cases "float_of_str ''2.5''") (auto, code_simp?)
  have "\<exists>n. to_soca_node sample_convert_env ''ip-10-0-0-9'' (Some sample_node_dict) = Inr (Some n)"
    by (simp add: to_soca_node_def Let_def str state more res absent opt_map_res_def to_soca_compute_node_sharing_def node_time_def
        resolve_memory_def to_soca_compute_node_resources_def is_empty_opt_str_def split: prod.split)
  with price numeric_spot_price_is_one [OF _ res] show ?thesis by (auto simp: sample_node_dict_def)
qed

section \<open>A server\<close>

definition sample_server :: "int \<Rightarrow> pydict \<Rightarrow> pbs_server" where
  "sample_server rc answer = \<lparr>sv_run = (\<lambda>_ _. \<lparr>cp_returncode = rc, cp_stdout = [], cp_stderr = []\<rparr>), sv_now = (\<lambda>h. int (length h)),
     sv_json = (\<lambda>_. Inr answer), sv_read_job = (\<lambda>_ _. Inr sample_openpbs_job), sv_profile = (\<lambda>_. Inr None),
     sv_pbs = sample_pbs_env, sv_convert = sample_convert_env, sv_build = sample_full, sv_uuid = ''u'',
     sv_memory_str = (\<lambda>_. ''1gb''), sv_float_str = (\<lambda>_. ''1.0''), sv_digest = id\<rparr>"

definition sample_ids :: "string list" where
  "sample_ids = map (\<lambda>n. replicate n (CHR ''1'')) [0..<101]"

lemma failed_page_drops_jobs_witness:
  "\<exists>cs. snd (list_jobs_query (sample_server 1 []) (job_query_of (Some sample_ids) None) []) = cs @ [] \<and>
     (\<forall>c \<in> set cs. \<exists>p. c = Args (qstat_bin # json_options (job_query_of (Some sample_ids) None) @ p) \<and> last sample_ids \<notin> set p)"
proof -
  have "distinct sample_ids"
    by (simp add: sample_ids_def distinct_map inj_on_def)
  then show ?thesis
    by (intro failed_page_drops_jobs) (simp_all add: job_query_of_def sample_ids_def sample_server_def)
qed

lemma answered_pages_cover_witness:
  "\<exists>pages. concat pages = [''7''] \<and> (\<forall>p \<in> set pages. length p \<le> 100) \<and>
    snd (list_jobs_query (sample_server 0 []) (job_query_of (Some [''7'']) None) []) =
      rev (map (\<lambda>p. Args (qstat_bin # json_options (job_query_of (Some [''7'']) None) @ p)) pages) @ []"
proof -
  have none: "fst (job_pages sv cmd ids start 0 latest jobs hist) = Inr (latest, jobs)" for sv cmd ids start latest jobs hist
    by (subst job_pages.simps) simp
  have "\<exists>r. fst (job_pages (sample_server 0 []) cmd [''7''] 0 (Suc 0) None [] []) = Inr (Some r, []) \<and> sr_returncode r = 0" for cmd
    by (subst job_pages.simps)
      (simp add: sample_server_def bindS_def handle_qstat_result_def is_empty_str_def strip_by_def PAGE_SIZE_def none)
  then obtain r h where r: "job_pages (sample_server 0 []) (qstat_bin # json_options (job_query_of (Some [''7'']) None)) [''7''] 0 (Suc 0) None [] [] =
      (Inr (Some r, []), h)" "sr_returncode r = 0" by (metis prod.collapse)
  have "jq_job_ids (job_query_of (Some [''7'']) None) = Some [''7'']" by (simp add: job_query_of_def)
  with r have "fst (list_jobs_query (sample_server 0 []) (job_query_of (Some [''7'']) None) []) = Inr []"
    by (simp add: list_jobs_query_def bindS_def)
  then show ?thesis
    by (intro answered_pages_cover) (simp_all add: job_query_of_def sample_server_def)
qed

lemma messages_sanitized_witness:
  "\<exists>w m. snd (set_job_attributes (sample_server 0 []) ''7'' [(''error_message'', Some ''no; way'')] []) =
       [Args [QALTER, ''-l'', w, ''7'']] \<and> w = ''error_message='' @ m \<and>
     set m \<inter> {CHR '' '', CHR '';'', CHR 0x27, CHR 0x22} = {}"
proof -
  from messages_sanitized [of "sample_server 0 []" "''7''" "[(''error_message'', Some ''no; way'')]" "[]"] obtain options where o:
    "snd (set_job_attributes (sample_server 0 []) ''7'' [(''error_message'', Some ''no; way'')] []) =
       Args (QALTER # concat (map (\<lambda>w. [''-l'', w]) options) @ [''7'']) # []" "length options = 1"
    "\<exists>m. options ! 0 = ''error_message='' @ m \<and> length m = length ''no; way'' \<and> set m \<inter> {CHR '' '', CHR '';'', CHR 0x27, CHR 0x22} = {}"
    by auto
  from o(2) obtain w where "options = [w]" by (cases options) auto
  with o show ?thesis by auto
qed

definition sample_provisionable :: soca_job where
  "sample_provisionable = empty_job\<lparr>job_id := Some ''7'', params := Some (empty_job_params\<lparr>
     p_custom_params := Some [(''select'', Some ''2:ncpus=1:compute_node=tbd'')], p_compute_stack := Some ''stack-1''\<rparr>)\<rparr>"

lemma provision_runs_qalter_witness:
  "snd (pbs_provision_job (sample_server 0 []) sample_provisionable ''arn:1'' []) \<noteq> []"
proof -
  have "fst (pbs_provision_job (sample_server 0 []) sample_provisionable ''arn:1'' []) = Inr 0"
    by (simp add: pbs_provision_job_def unless_finished_def catchS_def bindS_reads job_select_def get_compute_stack_def get_params_def
        sample_provisionable_def is_empty_opt_str_def is_empty_str_def strip_by_def is_space_def thenS_apply set_job_attributes_apply
        sample_server_def)
  from provision_runs_qalter [OF this] show ?thesis by auto
qed

definition sample_queues :: pydict where
  "sample_queues = [(''Queue'', PDict [(''normal'', PDict [(''state_count'', PStr ''Transit:0 Queued:2''),
     (''enabled'', PStr ''True''), (''started'', PStr ''False'')])])]"

lemma stopped_queue_stays_stopped_witness:
  "fst (create_queue (sample_server 0 sample_queues) ''normal'' []) = Inr ()"
proof -
  let ?q = "\<lparr>sq_name = Some ''normal'', sq_enabled = Some True, sq_started = Some False, sq_total_jobs = None,
     sq_stats = no_stats\<lparr>qs_queued := Some 2\<rparr>\<rparr>"
  have answer: "get_value_as_dict ''Queue'' sample_queues None = Some [(''normal'', PDict [(''state_count'', PStr ''Transit:0 Queued:2''),
     (''enabled'', PStr ''True''), (''started'', PStr ''False'')])]" by code_simp
  have queue: "to_soca_queue (\<lambda>_. []) ''normal'' (Some [(''state_count'', PStr ''Transit:0 Queued:2''),
     (''enabled'', PStr ''True''), (''started'', PStr ''False'')]) = Inr (Some ?q)" by code_simp
  have "fst (list_queues (sample_server 0 sample_queues) None []) = Inr [?q]"
    by (simp add: list_queues_def query_queues_def sample_server_def queues_of_result_def bindS_def answer listed_queue_def
        sample_convert_env_def queue)
  with stopped_queue_stays_stopped [of "sample_server 0 sample_queues" "[]" "[?q]" "''normal''" ?q] show ?thesis by simp
qed

lemma first_queue_never_created_witness:
  "create_queue (sample_server 0 []) ''normal'' [] =
     (Inl AttributeError, [Args (words_of (qstat_bin @ '' -Q -f -F json''))])"
proof (rule first_queue_never_created)
  show "get_value_as_dict ''Queue'' [] None = None" by code_simp
qed (simp_all add: sample_server_def)

end
