(* ===== verification/PBS_Api_View.thy ===== *)
theory PBS_Api_View
  imports PBS_Api PBS_View
begin

text \<open>
  A submission that the hook of \<open>PBS_Api\<close> accepts: a job for a queue that keeps its capacity for ever, built and validated with
  the builders of \<open>Job_Build\<close>, and the properties of \<open>PBS_Api\<close> at it.
\<close>

section \<open>What is known of every built job\<close>

lemma built_values:
  assumes "build_job env s = (Inr (p, po), t)"
  shows "p_enable_ht_support p \<noteq> None"
    and "p_instance_ami p = opt_else (instance_ami_get env) (instance_ami_default env)"
    and "p_force_reserved_instances p = opt_else (force_reserved_get env) (Some (force_reserved_default env))"
    and "po_keep_forever po = Some (opt_or (keep_forever_get env) (keep_forever_default env))"
    and "po_stack_uuid po = po_stack_uuid (bs_options s)"
    and "bs_results t = bs_results s" "bs_failed t = bs_failed s"
proof -
  note run = build_job_Inr [OF assms]
  have nth: "builders env ! 2 = mk ''enable_ht_support'' (enable_ht_validate env) (enable_ht_apply env)"
    "builders env ! 8 = mk ''instance_ami'' (instance_ami_validate env) (instance_ami_apply env)"
    "builders env ! 14 = mk ''force_reserved_instances'' (force_reserved_validate env) (force_reserved_apply env)"
    "builders env ! 27 = mk ''keep_forever'' keep_forever_validate (keep_forever_apply env)"
    by (simp_all add: builders_def)
  have later: "list_all (\<lambda>c. keeps (p_instance_ami \<circ> bs_job_params) (b_apply c)) (drop (Suc 8) (builders env))"
    "list_all (\<lambda>c. keeps (p_force_reserved_instances \<circ> bs_job_params) (b_apply c)) (drop (Suc 14) (builders env))"
    "list_all (\<lambda>c. keeps (po_keep_forever \<circ> bs_options) (b_apply c)) (drop (Suc 27) (builders env))"
    "list_all (\<lambda>c. keeps (po_stack_uuid \<circ> bs_options) (b_apply c)) (builders env)"
    by (simp add: builders_def mk_def, unfold apply_defs, intro conjI keeps_rules; simp)+
  show "po_stack_uuid po = po_stack_uuid (bs_options s)"
    using keepsD [OF keeps_run [OF later(4)] run(1)] run(3) by simp
  from written_by [OF run(1) _ later(1)] obtain u v where
    "instance_ami_apply env u = (Inr (), v)" "p_instance_ami (bs_job_params t) = p_instance_ami (bs_job_params v)"
    by (auto simp: nth mk_def)
  with run(2) show "p_instance_ami p = opt_else (instance_ami_get env) (instance_ami_default env)"
    by (auto simp: instance_ami_apply_def apply_value_run [OF refl])
  from written_by [OF run(1) _ later(2)] obtain u v where
    "force_reserved_apply env u = (Inr (), v)" "p_force_reserved_instances (bs_job_params t) = p_force_reserved_instances (bs_job_params v)"
    by (auto simp: nth mk_def)
  with run(2) show "p_force_reserved_instances p = opt_else (force_reserved_get env) (Some (force_reserved_default env))"
    by (auto simp: force_reserved_apply_def apply_value_run [OF refl])
  from written_by [OF run(1) _ later(3)] obtain u v where
    "keep_forever_apply env u = (Inr (), v)" "po_keep_forever (bs_options t) = po_keep_forever (bs_options v)"
    by (auto simp: nth mk_def)
  with run(3) show "po_keep_forever po = Some (opt_or (keep_forever_get env) (keep_forever_default env))"
    by (auto simp: keep_forever_apply_def set_option_def)
  have "drop (Suc 2) (builders env) = drop 3 (builders env)" by simp
  with written_by [OF run(1), of 2 "p_enable_ht_support \<circ> bs_job_params"] kept_after(2) [of env] obtain u v where
    "enable_ht_apply env u = (Inr (), v)" "p_enable_ht_support (bs_job_params t) = p_enable_ht_support (bs_job_params v)"
    by (auto simp: nth mk_def)
  with run(2) show "p_enable_ht_support p \<noteq> None"
    by (auto simp: enable_ht_apply_def set_param_def set_option_def Let_def thenS_apply override_provisioning_options_def bindS_reads
        split: prod.splits sum.splits option.splits if_splits)
  have "building (build_all (builders env))" using jb.building_run by blast
  with run(1) show "bs_results t = bs_results s" "bs_failed t = bs_failed s" by (metis building_def snd_conv)+
qed

section \<open>The submission\<close>

definition forever_queue :: queue_profile where
  "forever_queue = sample_queue\<lparr>qp_keep_forever := Some True\<rparr>"

definition submitted_job :: openpbs_job where
  "submitted_job = sample_openpbs_job\<lparr>ob_Resource_List := Some sample_params\<rparr>"

definition submitted_event :: openpbs_event where
  "submitted_event = \<lparr>oe_timestamp = None, oe_instance_id = None, oe_instance_type = None, oe_type = Some ''queuejob'',
     oe_hook_name = Some ''validate_job'', oe_requestor = Some ''alice'', oe_requestor_host = Some ''h1'',
     oe_job = Some submitted_job, oe_job_o = None\<rparr>"

definition sample_hook_api :: "bool \<Rightarrow> hook_api_env" where
  "sample_hook_api up = \<lparr>ha_ready = up, ha_now = 0, ha_pbs = sample_pbs_env, ha_build = sample_full, ha_uuid = ''uid-1'',
     ha_stack_uuid = ''st-1'', ha_profile = (\<lambda>_. Inr forever_queue), ha_queue_project = (\<lambda>_. Inr (Some ''p1'')),
     ha_prov = (sample_prov_env None)\<lparr>pe_user_projects := (\<lambda>_. [Some ''p1''])\<rparr>,
     ha_price = (\<lambda>_. sample_price_env), ha_digest = id, ha_email = (\<lambda>_. Inr ())\<rparr>"

lemma forever_env:
  "(sample_full)\<lparr>be_params := sample_params, be_queue := Some forever_queue\<rparr> = sample_forever (Some True)"
  by (simp add: sample_forever_def sample_build_def forever_queue_def)

lemma submitted_reads:
  "submitted_params (Some submitted_job) = Inr sample_params" "merge_dicts [] sample_params = sample_params"
  "pbs_get_job_uid submitted_job = Inr None" "pbs_get_job_group submitted_job = Inr None"
  "pbs_get_error_message submitted_job = Inr None" "pbs_provisioning_time sample_pbs_env submitted_job = Inr None"
  "get_select sample_pbs_env submitted_job = None" "soca_job_state submitted_job = Some JS_QUEUED"
  "host_names submitted_job = None" "get_soca_job_params submitted_job = Inr sample_params"
  "pbs_get_cluster_name sample_pbs_env submitted_job = Some ''idea-test''"
  "parse_pbs_datetime sample_pbs_env (ob_qtime submitted_job) = Inr None"
  "parse_pbs_datetime sample_pbs_env (ob_stime submitted_job) = Inr None"
  by code_simp+

lemma forever_validates:
  "fst (validate_job (sample_forever (Some True)) \<lparr>bs_results = [], bs_failed = {}, bs_job_params = p, bs_options = po\<rparr>) = Inr []"
  by code_simp

text \<open>A job the checks accept, and whose stack and group have names.\<close>

definition acceptable :: "soca_job \<Rightarrow> bool" where
  "acceptable job \<longleftrightarrow> (\<exists>p po. params job = Some p \<and> job_options job = Some po \<and> po_keep_forever po = Some True \<and>
     po_stack_uuid po \<noteq> None \<and> p_enable_ht_support p \<noteq> None \<and> p_instance_ami p = Some ''ami-1'' \<and>
     (\<exists>types. types \<noteq> [] \<and> p_instance_types p = Some types) \<and> p_force_reserved_instances p = Some False \<and>
     p_custom_params p = Some [(''select'', None)]) \<and>
   provisioned job = Some False \<and> job_group job = None \<and> cluster_name job = Some ''idea-test'' \<and> queue_type job = Some ''compute''"

lemma translated_acceptable:
  assumes "b = new_context (Some forever_queue) None ''st-1''"
  shows "\<exists>job b'. event_as_soca_job sample_pbs_env (Some forever_queue) (sample_forever (Some True)) submitted_event b = (Inr job, b') \<and>
    acceptable job \<and> bs_results b' = [] \<and> bs_failed b' = {}"
proof -
  obtain p po b' where built: "build_job (sample_forever (Some True)) b = (Inr (p, po), b')" using sample_full_builds by blast
  note facts = built_values [OF built]
  from built_instance_options [OF built] obtain types where types: "types \<noteq> []" "p_instance_types p = Some types" by blast
  have env: "instance_ami_get (sample_forever (Some True)) = None" "instance_ami_default (sample_forever (Some True)) = Some ''ami-1''"
    "force_reserved_get (sample_forever (Some True)) = None" "force_reserved_default (sample_forever (Some True)) = False"
    "keep_forever_get (sample_forever (Some True)) = None" "keep_forever_default (sample_forever (Some True)) = True"
    by code_simp+
  have uuid: "po_stack_uuid (bs_options b) \<noteq> None" "bs_results b = []" "bs_failed b = {}"
    by (simp_all add: assms new_context_def forever_queue_def sample_queue_def Let_def is_empty_opt_str_def)
  let ?job = "submitted_job\<lparr>ob_id := Some ''12.ip-10-0-0-9'', ob_Job_Owner := Some ''alice@host''\<rparr>"
  have job: "event_job submitted_event = Inr ?job"
    by (simp add: event_job_def submitted_event_def submitted_job_def sample_openpbs_job_def)
  have same: "?job = submitted_job" by (simp add: submitted_job_def sample_openpbs_job_def)
  obtain job where translated: "as_soca_job sample_pbs_env (Some submitted_event) (Some forever_queue) (sample_forever (Some True)) submitted_job b =
      (Inr job, b')" "params job = Some (p\<lparr>p_custom_params := Some [(''select'', None)]\<rparr>)" "job_options job = Some po"
      "provisioned job = Some False" "job_group job = None" "cluster_name job = Some ''idea-test''" "queue_type job = Some ''compute''"
    by (simp add: as_soca_job_def bindS_def built get_soca_execution_hosts_def submitted_reads Let_def job_end_time_def
        forever_queue_def sample_queue_def)
  moreover have "acceptable job"
    using translated(2-) facts types uuid by (auto simp: acceptable_def env)
  ultimately show ?thesis
    using facts(6,7) uuid(2,3)
    by (simp add: event_as_soca_job_def bindS_def job same)
qed

section \<open>The run\<close>

lemma acceptable_passes:
  assumes "acceptable job"
  shows "\<exists>cs. get_compute_stack id job = Inr cs" "\<exists>g. get_job_group id (job\<lparr>queue := Some q\<rparr>) = Inr g"
    and "\<not> is_ephemeral_capacity job" "force_ri [job] = Inr False" "base_select job = Inr []" "\<exists>n. desired_nodes job = Inr n"
proof -
  show "\<exists>cs. get_compute_stack id job = Inr cs"
    using assms by (auto simp: acceptable_def get_compute_stack_def get_params_def capacity_type_def is_persistent_capacity_def)
  show "\<exists>g. get_job_group id (job\<lparr>queue := Some q\<rparr>) = Inr g"
    using assms
    by (auto simp: acceptable_def get_job_group_def is_provisioned_def job_group_tokens_def get_params_def capacity_type_def
        is_empty_opt_list_def is_empty_opt_str_def is_empty_str_def strip_by_def is_space_def split: option.splits)
  have "split_str '':compute_node'' [] = [[]]" by code_simp
  with assms show "base_select job = Inr []" by (auto simp: acceptable_def base_select_def)
  show "\<not> is_ephemeral_capacity job" "force_ri [job] = Inr False" "\<exists>n. desired_nodes job = Inr n"
    using assms by (auto simp: acceptable_def is_ephemeral_capacity_def force_ri_def desired_nodes_def get_params_def)
qed

lemma forever_build_steps:
  "\<exists>c. build_steps (sample_hook_api True) (hook_start submitted_event) = (Inr (), c) \<and>
     (\<exists>job. hc_job c = Some (job\<lparr>queue := Some ''normal'', project := Some ''p1'', job_id := Some ''tbd'', job_uid := Some ''uid-1''\<rparr>) \<and>
        acceptable job) \<and>
     hc_validation c = Some [] \<and> hc_incidentals c = None \<and> hc_event c = submitted_event \<and> hc_told c = []"
proof -
  from translated_acceptable [OF refl] obtain job b where b:
    "event_as_soca_job sample_pbs_env (Some forever_queue) (sample_forever (Some True)) submitted_event
       (new_context (Some forever_queue) None ''st-1'') = (Inr job, b)" "acceptable job" "bs_results b = []" "bs_failed b = {}"
    by blast
  obtain b' where valid: "validate_job (sample_forever (Some True)) b = (Inr [], b')"
    using forever_validates [of "bs_job_params b" "bs_options b"] b(3,4)
    by (cases "validate_job (sample_forever (Some True)) b") (cases b, simp)
  have dry: "dry_run_option c = Inr None" if "hc_event c = submitted_event" for c
    using that by (simp add: dry_run_option_def submitted_event_def submitted_job_def sample_openpbs_job_def)
  have "oe_job submitted_event = Some submitted_job" "oe_job_o submitted_event = None" "ob_queue submitted_job = Some ''normal''"
    "ob_project submitted_job = Some ''p1''" "qp_enabled forever_queue = Some True"
    "submitted_params None = Inr []"
    by (simp_all add: submitted_event_def submitted_job_def sample_openpbs_job_def forever_queue_def sample_queue_def submitted_params_def)
  then show ?thesis
    by (simp add: build_steps_def bindS_def thenS_def sample_hook_api_def hook_start_def submitted_reads is_enabled_def
        in_builder_def forever_env b valid set_job_def dry is_empty_opt_str_def is_empty_str_def strip_by_def is_space_def Let_def)
      (use b(2) in blast)?
qed

lemma forever_checks:
  assumes "acceptable job" "project job = Some ''p1''" "hc_job c = Some job"
  shows "check_incidentals (sample_hook_api True) c =
    (Inr (), c\<lparr>hc_quota_unavailable := False, hc_quotas := None, hc_submission := (hc_submission c)\<lparr>sj_service_quotas := None\<rparr>\<rparr>)"
  using assms acceptable_passes(3,4) [OF assms(1)]
  by (simp add: check_incidentals_def bindS_def thenS_def check_acls_incidental_def check_budgets_incidental_def soca_catch_def
      catchS_def check_acls_def sample_hook_api_def sample_prov_env_def check_budgets_def helper_project_def check_budget_availability_def
      get_budget_def budget_name_def is_empty_opt_str_def is_empty_str_def check_reserved_incidental_def
      check_reserved_instance_usage_def check_quota_incidental_def check_dry_run_incidental_def split: if_splits)

lemma forever_answer:
  assumes "acceptable job" "queue job = Some q" "hc_job c = Some job" "hc_event c = submitted_event"
  shows "\<exists>c' r. answer_valid_job (sample_hook_api True) c = (Inr (), c') \<and> hc_response c' = Some r \<and> hr_accept r"
proof -
  obtain cs where cs: "get_compute_stack id job = Inr cs" using acceptable_passes(1) [OF assms(1)] by blast
  have "job\<lparr>queue := Some q\<rparr> = job" using assms(2) by simp
  then obtain g where g: "get_job_group id job = Inr g" using acceptable_passes(2) [OF assms(1), of q] by metis
  obtain n where "desired_nodes job = Inr n" using acceptable_passes(6) [OF assms(1)] by blast
  then obtain sel where sel: "placed_select job (Inr cs) = Inr sel"
    using acceptable_passes(5) [OF assms(1)] by (simp add: placed_select_def is_empty_str_def strip_by_def)
  have dry: "dry_run_option c = Inr None"
    using assms(4) by (simp add: dry_run_option_def submitted_event_def submitted_job_def sample_openpbs_job_def)
  obtain po where "job_options job = Some po" "po_keep_forever po = Some True" using assms(1) by (auto simp: acceptable_def)
  then show ?thesis
    using assms(3) dry cs g sel
    by (simp add: answer_valid_job_def bindS_def thenS_def the_job_def accept_persistent_def sample_hook_api_def tell_def
        respond_def accept_result_def tell_tracker_def)
qed

lemma forever_accepted:
  "\<exists>c' r. hook_validate_job (sample_hook_api True) (hook_start submitted_event) = (Inr (), c') \<and> hc_response c' = Some r \<and> hr_accept r"
proof -
  from forever_build_steps obtain c job where c: "build_steps (sample_hook_api True) (hook_start submitted_event) = (Inr (), c)"
    "hc_job c = Some (job\<lparr>queue := Some ''normal'', project := Some ''p1'', job_id := Some ''tbd'', job_uid := Some ''uid-1''\<rparr>)"
    "acceptable job" "hc_validation c = Some []" "hc_incidentals c = None" "hc_event c = submitted_event" by blast
  let ?job = "job\<lparr>queue := Some ''normal'', project := Some ''p1'', job_id := Some ''tbd'', job_uid := Some ''uid-1''\<rparr>"
  have job: "acceptable ?job" using c(3) by (simp add: acceptable_def)
  have dry: "dry_run_option c = Inr None"
    using c(6) by (simp add: dry_run_option_def submitted_event_def submitted_job_def sample_openpbs_job_def)
  obtain c1 where c1: "build_and_validate_job (sample_hook_api True) (hook_start submitted_event) = (Inr (), c1)"
    "hc_job c1 = Some ?job" "hc_validation c1 = Some []" "hc_incidentals c1 = None" "hc_event c1 = submitted_event"
    using c dry by (simp add: build_and_validate_job_def finallyS_def catchS_def bindS_def job_validation_result_def)
  have "\<exists>c2. check_submission (sample_hook_api True) (hook_start submitted_event) = (Inr (), c2) \<and> hc_job c2 = Some ?job \<and>
      hc_event c2 = submitted_event \<and> context_is_valid c2"
    using c1 forever_checks [OF job _ c1(2)]
    by (simp add: check_submission_def thenS_def bindS_def context_is_valid_def job_validation_result_def
        incidentals_validation_result_def is_valid_def sample_hook_api_def)
  then obtain c2 where c2: "check_submission (sample_hook_api True) (hook_start submitted_event) = (Inr (), c2)"
    "hc_job c2 = Some ?job" "hc_event c2 = submitted_event" "context_is_valid c2" by blast
  from forever_answer [OF job _ c2(2,3), of "''normal''"] obtain c3 r where
    "answer_valid_job (sample_hook_api True) c2 = (Inr (), c3)" "hc_response c3 = Some r" "hr_accept r" by auto
  with c2 show ?thesis by (simp add: hook_validate_job_def catchS_def thenS_def bindS_def)
qed


lemma not_ready_raises_witness:
  "\<exists>c'. hook_validate_job (sample_hook_api False) (hook_start submitted_event) = (Inl AttributeError, c') \<and>
    (\<exists>r. hc_response c' = Some r \<and> \<not> hr_accept r) \<and> hc_told c' = []"
  by (rule not_ready_raises) (simp add: sample_hook_api_def)

definition unpriced_job :: soca_job where
  "unpriced_job = empty_job\<lparr>job_options := Some empty_provisioning_options, params := Some empty_job_params\<rparr>"

lemma announced_before_priced_witness:
  "\<exists>c'. catchS (answer_valid_job (sample_hook_api True)) hook_failed ((hook_start submitted_event)\<lparr>hc_job := Some unpriced_job\<rparr>) = (Inr (), c') \<and>
     JobQueued unpriced_job \<in> set (hc_told c')"
proof -
  have "job_options unpriced_job = Some empty_provisioning_options" "\<not> is_true_opt (po_keep_forever empty_provisioning_options)"
    "get_job_time_seconds unpriced_job = Inr 3600"
    by (simp_all add: unpriced_job_def empty_provisioning_options_def get_job_time_seconds_def empty_job_params_def)
  moreover have "dry_run_option (hook_start submitted_event) = Inr None" by code_simp
  then have "dry_run_option ((hook_start submitted_event)\<lparr>hc_job := Some unpriced_job\<rparr>) = Inr None" by (simp add: dry_run_option_def)
  moreover have "placed_select unpriced_job (Inr ''tbd'') = Inr ''1:ncpus=1:compute_node=tbd''" by code_simp
  moreover have "compute_estimated_bom_cost (ha_price (sample_hook_api True) 3600) unpriced_job = Inl (SocaException ''SOCA_SCHEDULER_INVALID_JOB'')"
    by (simp add: sample_hook_api_def, code_simp)
  moreover have "hc_bom_cost (hook_start submitted_event) = None" "hc_told (hook_start submitted_event) = []" by (simp_all add: hook_start_def)
  ultimately show ?thesis
    using announced_before_priced [of "(hook_start submitted_event)\<lparr>hc_job := Some unpriced_job\<rparr>" unpriced_job _ "''1:ncpus=1:compute_node=tbd''"
        3600 "sample_hook_api True"] by fastforce
qed

end
