(* ===== verification/Job_Cache.thy ===== *)
theory Job_Cache
  imports PBS_Server Instance_Cache
begin

text \<open>
  The job cache of \<open>ideascheduler/app/provisioning/job_monitor/job_cache.py\<close> (\<open>JobsDB\<close> behind \<open>JobCache\<close>). Its five SQL
  tables have a unique index each; a table is kept as the association list of its rows under that index, in the order of the
  row ids: an upsert replaces the columns of the row with the key or adds a row at the end, a transaction that raises leaves
  the tables as they were. The JSON text of a job or a host is what the parameters \<open>je_to_json\<close> and \<open>je_host_to_json\<close> make of
  it. The names in the text of an SQL query are taken to hold no quote. Locks, logging, the creation of the file, the tables
  and their indices are left out.
\<close>

section \<open>Tables\<close>

record base_row =
  r_job_group :: "string option"
  r_job_uid :: "string option"
  r_desired_capacity :: int
  r_state :: string
  r_owner :: "string option"
  r_queue :: "string option"
  r_queue_profile :: "string option"
  r_project :: "string option"
  r_job_data :: string

record job_row = base_row +
  r_provisioned :: bool

record error_row =
  er_code :: "string option"
  er_message :: "string option"

record job_db =
  db_jobs :: "(string option \<times> job_row) list"
  db_finished :: "(string option \<times> base_row) list"
  db_hosts :: "((string option \<times> string) \<times> string) list"
  db_licenses :: "((string option \<times> string option) \<times> int) list"
  db_errors :: "(string option \<times> error_row) list"

record db_env =
  je_to_json :: "soca_job \<Rightarrow> string res"
  je_from_json :: "string \<Rightarrow> soca_job res"
  je_host_to_json :: "execution_host \<Rightarrow> string res"
  je_host_from_json :: "string option \<Rightarrow> execution_host res"
  je_instances :: instance_cache
  je_fmt :: "pyval \<Rightarrow> string"

definition empty_job_db :: job_db where
  "empty_job_db = \<lparr>db_jobs = [], db_finished = [], db_hosts = [], db_licenses = [], db_errors = []\<rparr>"

definition drop_key :: "'k \<Rightarrow> ('k \<times> 'v) list \<Rightarrow> ('k \<times> 'v) list" where
  "drop_key k rows = filter (\<lambda>(k', _). k' \<noteq> k) rows"

definition transaction :: "('s, 'a) act \<Rightarrow> ('s, 'a) act" where
  "transaction m s = (case m s of (Inl e, _) \<Rightarrow> (Inl e, s) | (Inr x, s') \<Rightarrow> (Inr x, s'))"

section \<open>Jobs\<close>

definition job_columns :: "db_env \<Rightarrow> soca_job \<Rightarrow> 'm \<Rightarrow> 'm base_row_scheme res" where
  "job_columns env job more_columns =
     bindE (job_desired_capacity job) (\<lambda>c.
     bindE (required AttributeError (state job)) (\<lambda>st.
     bindE (je_to_json env job) (\<lambda>data.
       Inr \<lparr>r_job_group = job_group job, r_job_uid = job_uid job, r_desired_capacity = c, r_state = job_state_value st,
         r_owner = owner job, r_queue = queue job, r_queue_profile = queue_type job, r_project = project job,
         r_job_data = data, \<dots> = more_columns\<rparr>)))"

definition jobs_add :: "db_env \<Rightarrow> soca_job \<Rightarrow> (job_db, unit) act" where
  "jobs_add env job = transaction
     (bindS (reads (\<lambda>_. job_columns env job \<lparr>r_provisioned = is_provisioned job\<rparr>)) (\<lambda>r.
      modify (\<lambda>s. s\<lparr>db_jobs := assign_key (job_id job) r (db_jobs s)\<rparr>)))"

definition add_finished_job :: "db_env \<Rightarrow> soca_job \<Rightarrow> (job_db, unit) act" where
  "add_finished_job env job = transaction
     (bindS (reads (\<lambda>_. job_columns env job ())) (\<lambda>r.
      modify (\<lambda>s. s\<lparr>db_finished := assign_key (job_id job) r (db_finished s)\<rparr>)))"

definition jobs_sync :: "db_env \<Rightarrow> soca_job list \<Rightarrow> (job_db, unit) act" where
  "jobs_sync env jobs = transaction (forS (jobs_add env) jobs)"

definition jobs_delete :: "string option \<Rightarrow> (job_db, unit) act" where
  "jobs_delete jid = transaction (modify (\<lambda>s. s
     \<lparr>db_jobs := drop_key jid (db_jobs s),
      db_licenses := filter (\<lambda>((j, _), _). j \<noteq> jid) (db_licenses s),
      db_errors := drop_key jid (db_errors s)\<rparr>))"

definition delete_jobs :: "string option list \<Rightarrow> (job_db, unit) act" where
  "delete_jobs ids = transaction (forS jobs_delete ids)"

section \<open>Licences, hosts and errors\<close>

definition add_one_license_ask :: "soca_job \<Rightarrow> license_ask \<Rightarrow> (job_db, unit) act" where
  "add_one_license_ask job ask =
     (if is_empty_opt_str (license_name ask) then ret ()
      else if opt_or (license_count ask) 0 \<le> 0 then ret ()
      else modify (\<lambda>s. s\<lparr>db_licenses :=
             assign_key (job_id job, license_name ask) (opt_or (license_count ask) 0) (db_licenses s)\<rparr>))"

definition add_active_licenses :: "soca_job list \<Rightarrow> (job_db, unit) act" where
  "add_active_licenses jobs =
     (if jobs = [] then ret ()
      else transaction (forS (\<lambda>job.
             if is_empty_opt_str (job_id job) then ret ()
             else (case params job of
                     None \<Rightarrow> ret ()
                   | Some p \<Rightarrow>
                       if is_empty_opt_list (p_licenses p) then ret ()
                       else forS (add_one_license_ask job) (opt_or (p_licenses p) []))) jobs))"

definition set_job_provisioning_error :: "string option \<Rightarrow> string option \<Rightarrow> string option \<Rightarrow> (job_db, unit) act" where
  "set_job_provisioning_error jid error_code msg = transaction
     (modify (\<lambda>s. s\<lparr>db_errors := assign_key jid \<lparr>er_code = error_code, er_message = msg\<rparr> (db_errors s)\<rparr>))"

definition clear_job_provisioning_error :: "string option \<Rightarrow> (job_db, unit) act" where
  "clear_job_provisioning_error jid =
     (if is_empty_opt_str jid then ret ()
      else transaction (modify (\<lambda>s. s\<lparr>db_errors := drop_key jid (db_errors s)\<rparr>)))"

definition add_execution_host :: "db_env \<Rightarrow> string option \<Rightarrow> execution_host \<Rightarrow> (job_db, unit) act" where
  "add_execution_host env jid h = transaction
     (bindS (reads (\<lambda>_. je_host_to_json env h)) (\<lambda>data.
      modify (\<lambda>s. s\<lparr>db_hosts := assign_key (jid, eh_host h) data (db_hosts s)\<rparr>)))"

definition get_job_execution_hosts :: "db_env \<Rightarrow> string option \<Rightarrow> (job_db, execution_host list) act" where
  "get_job_execution_hosts env jid = reads (\<lambda>s. traverseE
     (\<lambda>(_, data). je_host_from_json env (get_as_string (je_fmt env) (PStr data) None))
     (filter (\<lambda>((j, _), _). j = jid) (db_hosts s)))"

definition delete_job_execution_hosts :: "string option \<Rightarrow> (job_db, unit) act" where
  "delete_job_execution_hosts jid =
     transaction (modify (\<lambda>s. s\<lparr>db_hosts := filter (\<lambda>((j, _), _). j \<noteq> jid) (db_hosts s)\<rparr>))"

text \<open>A host is told once: what it says itself is kept, the rest is filled in from the instance.\<close>

definition fill_host :: "(pyval \<Rightarrow> string) \<Rightarrow> pydict \<Rightarrow> execution_host \<Rightarrow> execution_host" where
  "fill_host fmt i h = h
     \<lparr>eh_capacity_type := (case eh_capacity_type h of
         None \<Rightarrow> resolve_capacity_type (inst_soca_capacity_type fmt i) None | Some c \<Rightarrow> Some c),
      eh_instance_id := (case eh_instance_id h of None \<Rightarrow> inst_instance_id fmt i | Some x \<Rightarrow> Some x),
      eh_instance_type := (case eh_instance_type h of None \<Rightarrow> inst_instance_type fmt i | Some x \<Rightarrow> Some x),
      eh_tenancy := (case eh_tenancy h of None \<Rightarrow> inst_placement_tenancy fmt i | Some x \<Rightarrow> Some x),
      eh_reservation := (case eh_reservation h of None \<Rightarrow> inst_capacity_reservation_id fmt i | Some x \<Rightarrow> Some x)\<rparr>"

definition log_job_execution :: "db_env \<Rightarrow> string option \<Rightarrow> execution_host \<Rightarrow> pydict option \<Rightarrow> (job_db, unit) act" where
  "log_job_execution env jid h inst =
     (let inst' = (case inst of
            Some i \<Rightarrow> Some i
          | None \<Rightarrow> (case eh_instance_id h of
                       None \<Rightarrow> None | Some i \<Rightarrow> get_instance (Some i) (je_instances env)))
      in add_execution_host env jid (case inst' of None \<Rightarrow> h | Some i \<Rightarrow> fill_host (je_fmt env) i h))"

section \<open>Reading\<close>

definition convert_db_entry_to_job :: "db_env \<Rightarrow> 'm base_row_scheme option \<Rightarrow> soca_job option res" where
  "convert_db_entry_to_job env entry =
     (case entry of
        None \<Rightarrow> Inr None
      | Some r \<Rightarrow>
          (case get_as_string (je_fmt env) (PStr (r_job_data r)) None of
             None \<Rightarrow> Inr None
           | Some data \<Rightarrow>
               if data = ''NULL'' then Inr None
               else bindE (je_from_json env data) (\<lambda>job. Inr (Some job))))"

definition with_error :: "db_env \<Rightarrow> job_db \<Rightarrow> soca_job \<Rightarrow> soca_job" where
  "with_error env s job = job\<lparr>error_message :=
     (case map_of (db_errors s) (job_id job) of
        None \<Rightarrow> None
      | Some e \<Rightarrow> (case er_message e of None \<Rightarrow> None | Some m \<Rightarrow> get_as_string (je_fmt env) (PStr m) None))\<rparr>"

definition cached_job :: "db_env \<Rightarrow> job_db \<Rightarrow> job_row option \<Rightarrow> soca_job option res" where
  "cached_job env s entry =
     bindE (convert_db_entry_to_job env entry) (\<lambda>job. Inr (map_option (with_error env s) job))"

definition jobs_get :: "db_env \<Rightarrow> string option \<Rightarrow> (job_db, soca_job option) act" where
  "jobs_get env jid = reads (\<lambda>s. cached_job env s (map_of (db_jobs s) jid))"

definition get_completed_job :: "db_env \<Rightarrow> string option \<Rightarrow> (job_db, soca_job option) act" where
  "get_completed_job env jid = reads (\<lambda>s. convert_db_entry_to_job env (map_of (db_finished s) jid))"

definition jobs_exists :: "string option \<Rightarrow> (job_db, bool) act" where
  "jobs_exists jid = gets (\<lambda>s. map_of (db_jobs s) jid \<noteq> None)"

text \<open>The rows of a page are taken in the reverse order of their ids. The conditions are a predicate on the row and its key.\<close>

definition page_of_rows :: "int \<Rightarrow> nat \<Rightarrow> ('k \<times> 'r \<Rightarrow> bool) \<Rightarrow> ('k \<times> 'r) list \<Rightarrow> ('k \<times> 'r) list" where
  "page_of_rows limit offset cond rows =
     (if limit > 0 then take (nat limit) (drop offset (rev (filter cond rows))) else filter cond rows)"

fun present :: "'a option list \<Rightarrow> 'a list" where
  "present [] = []"
| "present (None # xs) = present xs"
| "present (Some x # xs) = x # present xs"

definition list_cached_jobs ::
  "db_env \<Rightarrow> int \<Rightarrow> nat \<Rightarrow> (string option \<times> job_row \<Rightarrow> bool) \<Rightarrow> (job_db, soca_job list) act" where
  "list_cached_jobs env limit offset cond = reads (\<lambda>s.
     bindE (traverseE (\<lambda>(_, r). cached_job env s (Some r)) (page_of_rows limit offset cond (db_jobs s))) (\<lambda>jobs.
       Inr (present jobs)))"

definition list_completed_jobs ::
  "db_env \<Rightarrow> int \<Rightarrow> nat \<Rightarrow> (string option \<times> base_row \<Rightarrow> bool) \<Rightarrow> (job_db, soca_job list) act" where
  "list_completed_jobs env limit offset cond = reads (\<lambda>s.
     bindE (traverseE (\<lambda>(_, r). convert_db_entry_to_job env (Some r)) (page_of_rows limit offset cond (db_finished s))) (\<lambda>jobs.
       Inr (present jobs)))"

definition get_count :: "(string option \<times> job_row \<Rightarrow> bool) \<Rightarrow> job_db \<Rightarrow> nat" where
  "get_count cond s = length (filter cond (db_jobs s))"

definition get_completed_jobs_count :: "(string option \<times> base_row \<Rightarrow> bool) \<Rightarrow> job_db \<Rightarrow> nat" where
  "get_completed_jobs_count cond s = length (filter cond (db_finished s))"

definition get_desired_capacity :: "string \<Rightarrow> job_db \<Rightarrow> int" where
  "get_desired_capacity grp s =
     sum_list (map (\<lambda>(_, r). r_desired_capacity r) (filter (\<lambda>(_, r). r_job_group r = Some grp) (db_jobs s)))"

definition get_active_jobs :: "string \<Rightarrow> job_db \<Rightarrow> nat" where
  "get_active_jobs profile s = length (filter (\<lambda>(_, r). r_queue_profile r = Some profile \<and>
     r_state r \<in> {''queued'', ''running''} \<and> r_provisioned r) (db_jobs s))"

definition get_active_license_count :: "string \<Rightarrow> job_db \<Rightarrow> int" where
  "get_active_license_count name s =
     sum_list (map snd (filter (\<lambda>((_, n), _). n = Some name) (db_licenses s)))"

section \<open>Tables under an index\<close>

text \<open>What the users of a table rely on: a written row is found under its key and no other, a deleted one is not found.\<close>

locale keyed_table =
  fixes find_row :: "'k \<Rightarrow> 't \<Rightarrow> 'r option"
    and put_row :: "'k \<Rightarrow> 'r \<Rightarrow> 't \<Rightarrow> 't"
    and drop_row :: "'k \<Rightarrow> 't \<Rightarrow> 't"
    and indexed :: "'t \<Rightarrow> bool"
  assumes find_put: "find_row k (put_row k' r t) = (if k = k' then Some r else find_row k t)"
    and find_drop: "find_row k (drop_row k' t) = (if k = k' then None else find_row k t)"
    and indexed_put: "indexed t \<Longrightarrow> indexed (put_row k r t)"
    and indexed_drop: "indexed t \<Longrightarrow> indexed (drop_row k t)"
begin

lemma find_put_all:
  "find_row k (fold (\<lambda>(k, r). put_row k r) rows t) =
     (case map_of (rev rows) k of None \<Rightarrow> find_row k t | Some r \<Rightarrow> Some r)"
  by (induction rows arbitrary: t) (auto simp: find_put map_add_def split: option.splits)

lemma indexed_put_all: "indexed t \<Longrightarrow> indexed (fold (\<lambda>(k, r). put_row k r) rows t)"
  by (induction rows arbitrary: t) (auto simp: indexed_put)

lemma find_drop_all: "find_row k (fold drop_row ks t) = (if k \<in> set ks then None else find_row k t)"
  by (induction ks arbitrary: t) (auto simp: find_drop)

lemma indexed_drop_all: "indexed t \<Longrightarrow> indexed (fold drop_row ks t)"
  by (induction ks arbitrary: t) (auto simp: indexed_drop)

lemma put_twice: "find_row k (put_row k r' (put_row k r t)) = find_row k (put_row k r' t)"
  by (simp add: find_put)

end

lemma map_of_filter_keys:
  "map_of (filter (\<lambda>(k, _). P k) rows) k = (if P k then map_of rows k else None)"
  by (induction rows) auto

lemma distinct_filter_keys: "distinct (map fst rows) \<Longrightarrow> distinct (map fst (filter P rows))"
  by (induction rows) auto

interpretation tab: keyed_table "\<lambda>k rows. map_of rows k" assign_key drop_key "\<lambda>rows. distinct (map fst rows)"
proof
  show "map_of (drop_key k' t) k = (if k = k' then None else map_of t k)" for k k' and t :: "('a \<times> 'b) list"
    using map_of_filter_keys [of "\<lambda>k. k \<noteq> k'" t k] by (simp add: drop_key_def)
qed (auto simp: distinct_assign_key drop_key_def distinct_filter_keys)

section \<open>Every operation keeps the indices\<close>

text \<open>\<open>db_ok\<close>: no two rows of a table share a key, and every licence row counts at least one licence.\<close>

definition db_ok :: "job_db \<Rightarrow> bool" where
  "db_ok s \<longleftrightarrow> distinct (map fst (db_jobs s)) \<and> distinct (map fst (db_finished s)) \<and> distinct (map fst (db_hosts s)) \<and>
     distinct (map fst (db_licenses s)) \<and> distinct (map fst (db_errors s)) \<and> (\<forall>r \<in> set (db_licenses s). 0 < snd r)"

lemma db_okI [intro?]:
  "distinct (map fst (db_jobs s)) \<Longrightarrow> distinct (map fst (db_finished s)) \<Longrightarrow> distinct (map fst (db_hosts s)) \<Longrightarrow>
   distinct (map fst (db_licenses s)) \<Longrightarrow> distinct (map fst (db_errors s)) \<Longrightarrow> (\<forall>r \<in> set (db_licenses s). 0 < snd r) \<Longrightarrow> db_ok s"
  by (simp add: db_ok_def)

lemmas db_okD = db_ok_def [THEN iffD1]

lemma preserves_transaction [preserves_intros]: "preserves P m \<Longrightarrow> preserves P (transaction m)"
  by (auto simp: preserves_def transaction_def split: prod.splits sum.splits)

lemma assign_key_cases: "x \<in> set (assign_key k v rows) \<Longrightarrow> x = (k, v) \<or> x \<in> set rows"
  by (induction k v rows rule: assign_key.induct) (auto split: if_splits)

lemma jobs_add_ok [preserves_intros]: "preserves db_ok (jobs_add env job)"
  unfolding jobs_add_def by (intro preserves_intros) (auto simp: db_ok_def distinct_assign_key)

lemma add_one_license_ask_ok [preserves_intros]: "preserves db_ok (add_one_license_ask job ask)"
  unfolding add_one_license_ask_def
  by (auto intro!: preserves_intros simp: db_ok_def distinct_assign_key dest!: assign_key_cases)

lemma jobs_delete_ok [preserves_intros]: "preserves db_ok (jobs_delete jid)"
  unfolding jobs_delete_def by (intro preserves_intros) (auto simp: db_ok_def drop_key_def distinct_filter_keys)

text \<open>The operations that change the cache, as steps of its state.\<close>

inductive db_step :: "db_env \<Rightarrow> job_db \<Rightarrow> job_db \<Rightarrow> bool" for env where
  sync: "db_step env s (snd (jobs_sync env jobs s))"
| finished: "db_step env s (snd (add_finished_job env job s))"
| delete: "db_step env s (snd (delete_jobs ids s))"
| licenses: "db_step env s (snd (add_active_licenses jobs s))"
| set_error: "db_step env s (snd (set_job_provisioning_error jid c m s))"
| clear_error: "db_step env s (snd (clear_job_provisioning_error jid s))"
| log_host: "db_step env s (snd (log_job_execution env jid h inst s))"
| delete_hosts: "db_step env s (snd (delete_job_execution_hosts jid s))"

lemma db_step_ok: "db_step env s s' \<Longrightarrow> db_ok s \<Longrightarrow> db_ok s'"
proof (induction rule: db_step.induct)
  case (sync s jobs)
  have "preserves db_ok (jobs_sync env jobs)" unfolding jobs_sync_def by (intro preserves_intros)
  with sync show ?case by (simp add: preserves_def)
next
  case (finished s job)
  have "preserves db_ok (add_finished_job env job)"
    unfolding add_finished_job_def by (intro preserves_intros) (auto simp: db_ok_def distinct_assign_key)
  with finished show ?case by (simp add: preserves_def)
next
  case (delete s ids)
  have "preserves db_ok (delete_jobs ids)" unfolding delete_jobs_def by (intro preserves_intros)
  with delete show ?case by (simp add: preserves_def)
next
  case (licenses s jobs)
  have "preserves db_ok (add_active_licenses jobs)"
    unfolding add_active_licenses_def by (auto intro!: preserves_intros split: option.splits)
  with licenses show ?case by (simp add: preserves_def)
next
  case (set_error s jid c m)
  then show ?case by (simp add: set_job_provisioning_error_def transaction_def db_ok_def distinct_assign_key)
next
  case (clear_error s jid)
  then show ?case
    by (simp add: clear_job_provisioning_error_def transaction_def db_ok_def drop_key_def distinct_filter_keys)
next
  case (log_host s jid h inst)
  have "preserves db_ok (add_execution_host env jid h')" for h'
    unfolding add_execution_host_def by (intro preserves_intros) (auto simp: db_ok_def distinct_assign_key)
  with log_host show ?case by (simp add: log_job_execution_def preserves_def Let_def)
next
  case (delete_hosts s jid)
  then show ?case by (simp add: delete_job_execution_hosts_def transaction_def db_ok_def distinct_filter_keys)
qed

text \<open>C27: Whatever sequence of operations the cache goes through, no table ever holds two rows with the same key, and no licence
  is recorded with a count of zero or less.\<close>

lemma cache_indices_hold:
  assumes "(db_step env)\<^sup>*\<^sup>* empty_job_db s"
  shows "db_ok s"
  using assms by (induction rule: rtranclp_induct) (simp_all add: db_ok_def empty_job_db_def db_step_ok [unfolded db_ok_def])

section \<open>What the cache remembers\<close>

text \<open>The text of the job is one that reads back as the job.\<close>

definition round_trips :: "db_env \<Rightarrow> soca_job \<Rightarrow> bool" where
  "round_trips env job = (case je_to_json env job of
     Inl _ \<Rightarrow> True
   | Inr data \<Rightarrow> data \<noteq> [] \<and> strip data = data \<and> data \<noteq> ''NULL'' \<and> je_from_json env data = Inr job)"

lemma transaction_Inr: "transaction m s = (Inr x, s') \<longleftrightarrow> m s = (Inr x, s')"
  by (auto simp: transaction_def split: prod.splits sum.splits)

text \<open>A transaction that raises has changed nothing.\<close>

lemma transaction_Inl: "fst (transaction m s) = Inl e \<Longrightarrow> snd (transaction m s) = s"
  by (auto simp: transaction_def split: prod.splits sum.splits)

definition row_of :: "db_env \<Rightarrow> soca_job \<Rightarrow> job_row" where
  "row_of env job = (case job_columns env job \<lparr>r_provisioned = is_provisioned job\<rparr> of Inr r \<Rightarrow> r | Inl _ \<Rightarrow> undefined)"

lemma jobs_add_Inr:
  "jobs_add env job s = (Inr (), s') \<longleftrightarrow> (\<exists>r. job_columns env job \<lparr>r_provisioned = is_provisioned job\<rparr> = Inr r) \<and>
     s' = s\<lparr>db_jobs := assign_key (job_id job) (row_of env job) (db_jobs s)\<rparr>"
  by (auto simp: jobs_add_def transaction_Inr row_of_def bindS_reads split: sum.splits)

lemma row_converts:
  assumes "job_columns env job m = Inr r" "round_trips env job"
  shows "convert_db_entry_to_job env (Some r) = Inr (Some job)"
  using assms by (auto simp: job_columns_def bindE_Inr_iff round_trips_def convert_db_entry_to_job_def Let_def)

lemma sync_rows:
  assumes "forS (jobs_add env) jobs s = (Inr (), s')"
  shows "s' = s\<lparr>db_jobs := fold (\<lambda>(k, r). assign_key k r) (map (\<lambda>j. (job_id j, row_of env j)) jobs) (db_jobs s)\<rparr> \<and>
    (\<forall>job \<in> set jobs. \<exists>r. job_columns env job \<lparr>r_provisioned = is_provisioned job\<rparr> = Inr r)"
  using assms
proof (induction jobs arbitrary: s)
  case (Cons job jobs)
  from Cons.prems obtain s1 where s1: "jobs_add env job s = (Inr (), s1)" "forS (jobs_add env) jobs s1 = (Inr (), s')"
    by (auto simp: thenS_apply split: prod.splits sum.splits)
  from Cons.IH [OF s1(2)] s1(1) show ?case by (auto simp: jobs_add_Inr)
qed simp

lemma map_of_rev_map:
  "map_of (rev (map (\<lambda>j. (f j, g j)) jobs)) k = map_option g (List.find (\<lambda>j. f j = k) (rev jobs))"
proof -
  have "map_of (map (\<lambda>j. (f j, g j)) xs) k = map_option g (List.find (\<lambda>j. f j = k) xs)" for xs
    by (induction xs) auto
  then show ?thesis by (simp add: rev_map)
qed

lemma with_error_frame [simp]: "with_error env (s\<lparr>db_jobs := rows\<rparr>) = with_error env s"
  by (simp add: with_error_def fun_eq_iff)

text \<open>C26: A synchronisation is a bulk write: when it returns, a job it listed is read back as the last of its kind in the list, with
  the provisioning error recorded for it, and every other job is read as before; when it raises, the cache is as it was.\<close>

lemma sync_is_bulk_write:
  assumes "jobs_sync env jobs s = (r, s')" "\<And>job. job \<in> set jobs \<Longrightarrow> round_trips env job"
  shows "if r = Inr ()
    then fst (jobs_get env jid s') =
      (case List.find (\<lambda>j. job_id j = jid) (rev jobs) of
         Some job \<Rightarrow> Inr (Some (with_error env s job)) | None \<Rightarrow> fst (jobs_get env jid s))
    else s' = s"
proof (cases r)
  case (Inl e)
  with assms(1) transaction_Inl [of "forS (jobs_add env) jobs" s e] show ?thesis by (simp add: jobs_sync_def)
next
  case (Inr u)
  with assms(1) have "forS (jobs_add env) jobs s = (Inr (), s')" by (simp add: jobs_sync_def transaction_Inr)
  note sync = sync_rows [OF this]
  let ?found = "List.find (\<lambda>j. job_id j = jid) (rev jobs)"
  from sync have row: "map_of (db_jobs s') jid = (case map_option (row_of env) ?found of None \<Rightarrow> map_of (db_jobs s) jid | Some r \<Rightarrow> Some r)"
    by (simp add: tab.find_put_all map_of_rev_map)
  from sync have same: "with_error env s' = with_error env s" "\<And>x. cached_job env s' x = cached_job env s x"
    by (simp_all add: cached_job_def)
  have "cached_job env s (Some (row_of env job)) = Inr (Some (with_error env s job))" if "?found = Some job" for job
  proof -
    from that have mem: "job \<in> set jobs" by (auto simp: find_Some_iff dest: nth_mem) (metis length_rev nth_mem set_rev)
    with sync obtain r where "job_columns env job \<lparr>r_provisioned = is_provisioned job\<rparr> = Inr r" by blast
    with row_converts [OF this assms(2) [OF mem]] show ?thesis by (simp add: cached_job_def row_of_def)
  qed
  with row same Inr show ?thesis by (auto simp: jobs_get_def split: option.splits)
qed

lemma jobs_delete_apply: "jobs_delete jid s = (Inr (), s\<lparr>db_jobs := drop_key jid (db_jobs s),
    db_licenses := filter (\<lambda>((j, _), _). j \<noteq> jid) (db_licenses s), db_errors := drop_key jid (db_errors s)\<rparr>)"
  by (simp add: jobs_delete_def transaction_def)

lemma delete_rows:
  "forS jobs_delete ids s = (Inr (), s\<lparr>db_jobs := fold drop_key ids (db_jobs s),
     db_licenses := filter (\<lambda>((j, _), _). j \<notin> set ids) (db_licenses s), db_errors := fold drop_key ids (db_errors s)\<rparr>)"
proof (induction ids arbitrary: s)
  case (Cons i ids)
  have "filter (\<lambda>((j, _), _). j \<notin> set ids) (filter (\<lambda>((j, _), _). j \<noteq> i) xs) =
      filter (\<lambda>((j, _), _). j \<notin> set (i # ids)) xs" for xs :: "((string option \<times> string option) \<times> int) list"
    by (induction xs) auto
  from this [of "db_licenses s"] show ?case by (simp add: Cons.IH thenS_apply jobs_delete_apply [of i s])
qed (simp add: ret_def case_prod_unfold)

lemma sum_list_split:
  fixes f :: "'a \<Rightarrow> int"
  shows "sum_list (map f (filter Q xs)) = sum_list (map f (filter Q (filter P xs))) + sum_list (map f (filter Q (filter (\<lambda>x. \<not> P x) xs)))"
  by (induction xs) auto

text \<open>A deleted job is forgotten: it is not found, its provisioning error does not come back when it is cached again, and
  exactly the licences it was counted with are given back.\<close>

lemma deleted_jobs_forgotten:
  assumes "delete_jobs ids s = (r, s')"
  shows "r = Inr () \<and> map_of (db_jobs s') jid = (if jid \<in> set ids then None else map_of (db_jobs s) jid) \<and>
    map_of (db_errors s') jid = (if jid \<in> set ids then None else map_of (db_errors s) jid) \<and>
    get_active_license_count name s' = get_active_license_count name s -
      sum_list (map snd (filter (\<lambda>((j, n), _). j \<in> set ids \<and> n = Some name) (db_licenses s)))"
proof -
  from assms have r: "r = Inr ()" and s': "s' = s\<lparr>db_jobs := fold drop_key ids (db_jobs s),
     db_licenses := filter (\<lambda>((j, _), _). j \<notin> set ids) (db_licenses s), db_errors := fold drop_key ids (db_errors s)\<rparr>"
    by (auto simp: delete_jobs_def transaction_def delete_rows)
  have "filter (\<lambda>((_, n), _). n = Some name) (filter (\<lambda>x. \<not> (\<lambda>((j, _), _). j \<notin> set ids) x) (db_licenses s)) =
      filter (\<lambda>((j, n), _). j \<in> set ids \<and> n = Some name) (db_licenses s)"
    by (auto simp: case_prod_unfold intro!: filter_cong)
  with sum_list_split [of snd "\<lambda>((_, n), _). n = Some name" "db_licenses s" "\<lambda>((j, _), _). j \<notin> set ids"]
  show ?thesis using r s' by (simp add: get_active_license_count_def tab.find_drop_all)
qed

section \<open>A cache of two jobs\<close>

definition sample_queued :: "string \<Rightarrow> int \<Rightarrow> soca_job" where
  "sample_queued jid cpus = empty_job\<lparr>job_id := Some jid, job_group := Some ''g'', queue_type := Some ''compute'', queue := Some ''normal'',
     owner := Some ''alice'', state := Some JS_QUEUED, provisioned := Some False,
     params := Some (empty_job_params\<lparr>p_nodes := Some 1, p_cpus := Some cpus,
       p_licenses := Some [\<lparr>license_name = Some ''lic'', license_count = Some 2\<rparr>]\<rparr>)\<rparr>"

definition sample_db_env :: db_env where
  "sample_db_env = \<lparr>je_to_json = (\<lambda>job. case job_id job of Some jid \<Rightarrow> Inr jid | None \<Rightarrow> Inl TypeError),
     je_from_json = (\<lambda>data. Inr (sample_queued data 2)), je_host_to_json = (\<lambda>h. Inr (eh_host h)),
     je_host_from_json = (\<lambda>data. Inl TypeError), je_instances = new_instance_cache, je_fmt = (\<lambda>v. [])\<rparr>"

definition sample_cached :: job_db where
  "sample_cached = snd (jobs_sync sample_db_env [sample_queued ''7'' 2, sample_queued ''8'' 2] empty_job_db)"

lemma sample_round_trips: "round_trips sample_db_env (sample_queued ''7'' 2)" "round_trips sample_db_env (sample_queued ''8'' 2)"
  by code_simp+

lemma sync_is_bulk_write_witness:
  "jobs_sync sample_db_env [sample_queued ''7'' 2, sample_queued ''8'' 2] empty_job_db = (Inr (), sample_cached) \<and>
   fst (jobs_get sample_db_env (Some ''7'') sample_cached) = Inr (Some (with_error sample_db_env empty_job_db (sample_queued ''7'' 2)))"
proof
  show s: "jobs_sync sample_db_env [sample_queued ''7'' 2, sample_queued ''8'' 2] empty_job_db = (Inr (), sample_cached)"
  proof -
    have "fst (jobs_sync sample_db_env [sample_queued ''7'' 2, sample_queued ''8'' 2] empty_job_db) = Inr ()" by code_simp
    then show ?thesis by (simp add: sample_cached_def prod_eq_iff)
  qed
  have "List.find (\<lambda>j. job_id j = Some ''7'') (rev [sample_queued ''7'' 2, sample_queued ''8'' 2]) = Some (sample_queued ''7'' 2)"
    by (simp add: sample_queued_def)
  with sync_is_bulk_write [OF s, of "Some ''7''"] sample_round_trips
  show "fst (jobs_get sample_db_env (Some ''7'') sample_cached) = Inr (Some (with_error sample_db_env empty_job_db (sample_queued ''7'' 2)))"
    by fastforce
qed

lemma sample_cached_reachable: "(db_step sample_db_env)\<^sup>*\<^sup>* empty_job_db sample_cached"
  unfolding sample_cached_def by (intro r_into_rtranclp db_step.sync)

lemma cache_indices_hold_witness: "db_ok sample_cached \<and> length (db_jobs sample_cached) = 2"
proof
  show "db_ok sample_cached" using cache_indices_hold [OF sample_cached_reachable] .
  show "length (db_jobs sample_cached) = 2" by code_simp
qed

definition sample_licensed :: job_db where
  "sample_licensed = snd (add_active_licenses [sample_queued ''7'' 2, sample_queued ''8'' 2] sample_cached)"

lemma deleted_jobs_forgotten_witness:
  "map_of (db_jobs (snd (delete_jobs [Some ''7''] sample_licensed))) (Some ''7'') = None \<and>
   get_active_license_count ''lic'' sample_licensed = 4 \<and>
   get_active_license_count ''lic'' (snd (delete_jobs [Some ''7''] sample_licensed)) = 2"
proof -
  note d = deleted_jobs_forgotten [OF surjective_pairing [of "delete_jobs [Some ''7''] sample_licensed"], of "Some ''7''" "''lic''"]
  have l: "db_licenses sample_licensed = [((Some ''7'', Some ''lic''), 2), ((Some ''8'', Some ''lic''), 2)]" by code_simp
  then have "get_active_license_count ''lic'' sample_licensed = 4" by (simp add: get_active_license_count_def)
  with d l show ?thesis by simp
qed

end
