(* ===== verification/Job_Updates.thy ===== *)
theory Job_Updates
  imports Job_Model
begin

text \<open>
  \<open>JobMonitorState\<close> of \<open>ideascheduler/app/provisioning/job_monitor/job_monitor.py\<close>: the updates the hooks leave for the monitor
  thread, and the event that wakes it. A Python set of updates, compared by all their fields, is a list without duplicates; its
  order is that of no Python set and nothing below depends on it. Each lock is held for one section of an operation, so the
  sections are the atomic steps of \<open>monitor_step\<close>, where hooks and the monitor thread interleave.
\<close>

section \<open>The state\<close>

record monitor_state =
  ms_queued :: "job_update list"
  ms_modified :: "job_update list"
  ms_running :: "job_update list"
  ms_available :: bool
  ms_last_periodic_run :: "int option"

record job_updates =
  ju_queued :: "job_update list"
  ju_modified :: "job_update list"
  ju_running :: "job_update list"

definition new_monitor_state :: monitor_state where
  "new_monitor_state = \<lparr>ms_queued = [], ms_modified = [], ms_running = [], ms_available = False, ms_last_periodic_run = None\<rparr>"

definition queued_update :: "int \<Rightarrow> soca_job \<Rightarrow> job_update" where
  "queued_update now job = \<lparr>ju_queue = queue job, ju_owner = owner job, ju_job_id = None, ju_timestamp = now\<rparr>"

definition changed_update :: "int \<Rightarrow> soca_job \<Rightarrow> job_update" where
  "changed_update now job = \<lparr>ju_queue = queue job, ju_owner = None, ju_job_id = job_id job, ju_timestamp = now\<rparr>"

definition state_job_queued :: "int \<Rightarrow> soca_job \<Rightarrow> monitor_state \<Rightarrow> monitor_state" where
  "state_job_queued now job s = s\<lparr>ms_queued := List.insert (queued_update now job) (ms_queued s), ms_available := True\<rparr>"

definition state_job_modified :: "int \<Rightarrow> soca_job \<Rightarrow> monitor_state \<Rightarrow> monitor_state" where
  "state_job_modified now job s = s\<lparr>ms_modified := List.insert (changed_update now job) (ms_modified s), ms_available := True\<rparr>"

definition state_job_running :: "int \<Rightarrow> soca_job \<Rightarrow> monitor_state \<Rightarrow> monitor_state" where
  "state_job_running now job s = s\<lparr>ms_running := List.insert (changed_update now job) (ms_running s), ms_available := True\<rparr>"

text \<open>Of the queued jobs all updates are taken, of the others those that are a second old.\<close>

definition take_queued :: "monitor_state \<Rightarrow> job_update list \<times> nat \<times> monitor_state" where
  "take_queued s =
     (let taken = ms_queued s; rest = filter (\<lambda>u. u \<notin> set taken) (ms_queued s)
      in (taken, length rest, s\<lparr>ms_queued := rest\<rparr>))"

definition take_modified :: "int \<Rightarrow> monitor_state \<Rightarrow> job_update list \<times> nat \<times> monitor_state" where
  "take_modified now s =
     (let taken = filter (\<lambda>u. is_applicable u now 1) (ms_modified s); rest = filter (\<lambda>u. u \<notin> set taken) (ms_modified s)
      in (taken, length rest, s\<lparr>ms_modified := rest\<rparr>))"

definition take_running :: "int \<Rightarrow> monitor_state \<Rightarrow> job_update list \<times> nat \<times> monitor_state" where
  "take_running now s =
     (let taken = filter (\<lambda>u. is_applicable u now 1) (ms_running s); rest = filter (\<lambda>u. u \<notin> set taken) (ms_running s)
      in (taken, length rest, s\<lparr>ms_running := rest\<rparr>))"

definition clear_if_idle :: "nat \<Rightarrow> monitor_state \<Rightarrow> monitor_state" where
  "clear_if_idle total_pending s = (if total_pending = 0 then s\<lparr>ms_available := False\<rparr> else s)"

definition get_updates :: "int \<Rightarrow> monitor_state \<Rightarrow> job_updates \<times> monitor_state" where
  "get_updates now s =
     (case take_queued s of (qs, pending_queued, s1) \<Rightarrow>
      case take_modified now s1 of (ms, pending_modified, s2) \<Rightarrow>
      case take_running now s2 of (rs, pending_running, s3) \<Rightarrow>
        (\<lparr>ju_queued = qs, ju_modified = ms, ju_running = rs\<rparr>,
         clear_if_idle (pending_queued + pending_modified + pending_running) s3))"

definition clear_all :: "monitor_state \<Rightarrow> monitor_state" where
  "clear_all s = s\<lparr>ms_queued := [], ms_modified := [], ms_running := [], ms_available := False\<rparr>"

section \<open>One caller at a time\<close>

definition pending :: "monitor_state \<Rightarrow> job_update set" where
  "pending s = set (ms_queued s) \<union> set (ms_modified s) \<union> set (ms_running s)"

definition delivered :: "job_updates \<Rightarrow> job_update set" where
  "delivered u = set (ju_queued u) \<union> set (ju_modified u) \<union> set (ju_running u)"

lemma filter_taken: "filter (\<lambda>u. u \<notin> set (filter P xs)) xs = filter (\<lambda>u. \<not> P u) xs"
  by (rule filter_cong) auto

lemma take_simps:
  "take_queued s = (ms_queued s, 0, s\<lparr>ms_queued := []\<rparr>)"
  "take_modified now s = (filter (\<lambda>u. is_applicable u now 1) (ms_modified s),
     length (filter (\<lambda>u. \<not> is_applicable u now 1) (ms_modified s)),
     s\<lparr>ms_modified := filter (\<lambda>u. \<not> is_applicable u now 1) (ms_modified s)\<rparr>)"
  "take_running now s = (filter (\<lambda>u. is_applicable u now 1) (ms_running s),
     length (filter (\<lambda>u. \<not> is_applicable u now 1) (ms_running s)),
     s\<lparr>ms_running := filter (\<lambda>u. \<not> is_applicable u now 1) (ms_running s)\<rparr>)"
proof -
  have "filter (\<lambda>u. u \<notin> set (ms_queued s)) (ms_queued s) = []" by (simp add: filter_empty_conv)
  then show "take_queued s = (ms_queued s, 0, s\<lparr>ms_queued := []\<rparr>)" by (simp add: take_queued_def)
qed (simp_all only: take_modified_def take_running_def Let_def filter_taken)

text \<open>Taking the updates splits what was pending: the event stays set exactly as long as something is pending.\<close>

lemma get_updates_splits:
  assumes "get_updates now s = (u, s')"
  shows "pending s = delivered u \<union> pending s'" "ms_queued s' = []"
    "\<And>x. x \<in> set (ms_modified s') \<union> set (ms_running s') \<Longrightarrow> \<not> is_applicable x now 1"
    "ms_available s' \<longleftrightarrow> ms_available s \<and> pending s' \<noteq> {}"
  using assms by (auto simp: get_updates_def take_simps clear_if_idle_def pending_def delivered_def filter_empty_conv split: if_splits)

inductive lone_step :: "monitor_state \<Rightarrow> monitor_state \<Rightarrow> bool" where
  queued: "lone_step s (state_job_queued now job s)"
| modified: "lone_step s (state_job_modified now job s)"
| running: "lone_step s (state_job_running now job s)"
| updates: "lone_step s (snd (get_updates now s))"
| clear: "lone_step s (clear_all s)"

text \<open>C24: As long as no hook runs while the monitor takes the updates, the monitor is woken: whenever an update is pending the
  event is set.\<close>

lemma pending_wakes_monitor:
  assumes "lone_step\<^sup>*\<^sup>* new_monitor_state s" "pending s \<noteq> {}"
  shows "ms_available s"
proof -
  have "pending s \<noteq> {} \<longrightarrow> ms_available s" using assms(1)
  proof (induction rule: rtranclp_induct)
    case (step s s')
    from step.hyps(2) step.IH show ?case
    proof (induction rule: lone_step.induct)
      case (updates s now)
      with get_updates_splits [of now s] show ?case by (metis UnCI all_not_in_conv prod.collapse)
    qed (auto simp: state_job_queued_def state_job_modified_def state_job_running_def clear_all_def pending_def)
  qed (simp add: new_monitor_state_def pending_def)
  with assms(2) show ?thesis by simp
qed

section \<open>Hooks and the monitor thread\<close>

text \<open>Between two sections of \<open>get_updates\<close> a hook may run; the counts of what is pending are those of the sections.\<close>

datatype monitor_phase =
    Waiting
  | TookQueued int "job_update list" nat
  | TookModified int "job_update list" "job_update list" nat
  | TookRunning "job_update list" "job_update list" "job_update list" nat

record monitor_world =
  mw_state :: monitor_state
  mw_phase :: monitor_phase
  mw_told :: "job_update set"
  mw_delivered :: "job_update set"

definition monitor_start :: monitor_world where
  "monitor_start = \<lparr>mw_state = new_monitor_state, mw_phase = Waiting, mw_told = {}, mw_delivered = {}\<rparr>"

fun in_flight :: "monitor_phase \<Rightarrow> job_update set" where
  "in_flight Waiting = {}"
| "in_flight (TookQueued now qs n) = set qs"
| "in_flight (TookModified now qs ms n) = set qs \<union> set ms"
| "in_flight (TookRunning qs ms rs n) = set qs \<union> set ms \<union> set rs"

inductive monitor_step :: "monitor_world \<Rightarrow> monitor_world \<Rightarrow> bool" where
  queued: "monitor_step w (w\<lparr>mw_state := state_job_queued now job (mw_state w), mw_told := insert (queued_update now job) (mw_told w)\<rparr>)"
| modified: "monitor_step w (w\<lparr>mw_state := state_job_modified now job (mw_state w), mw_told := insert (changed_update now job) (mw_told w)\<rparr>)"
| running: "monitor_step w (w\<lparr>mw_state := state_job_running now job (mw_state w), mw_told := insert (changed_update now job) (mw_told w)\<rparr>)"
| first: "mw_phase w = Waiting \<Longrightarrow> ms_available (mw_state w) \<Longrightarrow> take_queued (mw_state w) = (qs, n, s) \<Longrightarrow>
    monitor_step w (w\<lparr>mw_state := s, mw_phase := TookQueued now qs n\<rparr>)"
| second: "mw_phase w = TookQueued now qs n \<Longrightarrow> take_modified now (mw_state w) = (ms, m, s) \<Longrightarrow>
    monitor_step w (w\<lparr>mw_state := s, mw_phase := TookModified now qs ms (n + m)\<rparr>)"
| third: "mw_phase w = TookModified now qs ms n \<Longrightarrow> take_running now (mw_state w) = (rs, m, s) \<Longrightarrow>
    monitor_step w (w\<lparr>mw_state := s, mw_phase := TookRunning qs ms rs (n + m)\<rparr>)"
| last: "mw_phase w = TookRunning qs ms rs n \<Longrightarrow>
    monitor_step w (w\<lparr>mw_state := clear_if_idle n (mw_state w), mw_phase := Waiting,
      mw_delivered := mw_delivered w \<union> set qs \<union> set ms \<union> set rs\<rparr>)"

inductive_cases monitor_stepE: "monitor_step w w'"

text \<open>Undisturbed, the four sections are \<open>get_updates\<close>.\<close>

lemma sections_are_get_updates:
  assumes "mw_phase w = Waiting" "ms_available (mw_state w)" "get_updates now (mw_state w) = (u, s)"
  shows "monitor_step\<^sup>*\<^sup>* w (w\<lparr>mw_state := s, mw_delivered := mw_delivered w \<union> delivered u\<rparr>)"
proof -
  obtain qs n s1 where q: "take_queued (mw_state w) = (qs, n, s1)" by (cases "take_queued (mw_state w)") blast
  obtain ms m s2 where m: "take_modified now s1 = (ms, m, s2)" by (cases "take_modified now s1") blast
  obtain rs k s3 where r: "take_running now s2 = (rs, k, s3)" by (cases "take_running now s2") blast
  let ?w1 = "w\<lparr>mw_state := s1, mw_phase := TookQueued now qs n\<rparr>"
  let ?w2 = "?w1\<lparr>mw_state := s2, mw_phase := TookModified now qs ms (n + m)\<rparr>"
  let ?w3 = "?w2\<lparr>mw_state := s3, mw_phase := TookRunning qs ms rs (n + m + k)\<rparr>"
  have "monitor_step w ?w1" by (rule monitor_step.first [OF assms(1,2) q])
  moreover have "monitor_step ?w1 ?w2" using m by (intro monitor_step.second) simp_all
  moreover have "monitor_step ?w2 ?w3" using r by (intro monitor_step.third) simp_all
  moreover have "monitor_step ?w3 (?w3\<lparr>mw_state := clear_if_idle (n + m + k) (mw_state ?w3), mw_phase := Waiting,
      mw_delivered := mw_delivered ?w3 \<union> set qs \<union> set ms \<union> set rs\<rparr>)"
    by (rule monitor_step.last) simp
  moreover have "?w3\<lparr>mw_state := clear_if_idle (n + m + k) (mw_state ?w3), mw_phase := Waiting,
      mw_delivered := mw_delivered ?w3 \<union> set qs \<union> set ms \<union> set rs\<rparr> =
      w\<lparr>mw_state := s, mw_delivered := mw_delivered w \<union> delivered u\<rparr>"
    using assms q m r by (auto simp: get_updates_def delivered_def Un_assoc)
  ultimately show ?thesis by (metis (no_types, lifting) rtranclp.rtrancl_into_rtrancl rtranclp.rtrancl_refl)
qed

text \<open>C23: Under every interleaving of the hooks with the monitor no update is dropped: what the hooks told is delivered, being
  taken, or still pending.\<close>

lemma updates_never_dropped:
  assumes "monitor_step\<^sup>*\<^sup>* monitor_start w"
  shows "mw_told w = mw_delivered w \<union> in_flight (mw_phase w) \<union> pending (mw_state w)"
  using assms
proof (induction rule: rtranclp_induct)
  case (step w w')
  from step.hyps(2) step.IH show ?case
  proof (induction rule: monitor_step.induct)
    case (second w now qs n ms m s)
    then have "ms = filter (\<lambda>u. is_applicable u now 1) (ms_modified (mw_state w))"
      "s = (mw_state w)\<lparr>ms_modified := filter (\<lambda>u. \<not> is_applicable u now 1) (ms_modified (mw_state w))\<rparr>"
      by (simp_all add: take_simps)
    with second.hyps(1) second.prems show ?case by (auto simp: pending_def)
  next
    case (third w now qs ms n rs m s)
    then have "rs = filter (\<lambda>u. is_applicable u now 1) (ms_running (mw_state w))"
      "s = (mw_state w)\<lparr>ms_running := filter (\<lambda>u. \<not> is_applicable u now 1) (ms_running (mw_state w))\<rparr>"
      by (simp_all add: take_simps)
    with third.hyps(1) third.prems show ?case by (auto simp: pending_def)
  next
    case (first w qs n s now)
    then have "qs = ms_queued (mw_state w)" "s = (mw_state w)\<lparr>ms_queued := []\<rparr>" by (simp_all add: take_simps)
    with first.hyps(1) first.prems show ?case by (auto simp: pending_def)
  next
    case (last w qs ms rs n)
    then show ?case by (simp add: clear_if_idle_def pending_def Un_ac)
  qed (simp_all add: state_job_queued_def state_job_modified_def state_job_running_def pending_def Un_ac)
qed (simp add: monitor_start_def new_monitor_state_def pending_def)

text \<open>The docstring of \<open>get_updates\<close> calls it one atomic operation, but the event is cleared outside the locks: a job that a
  hook tells after its section has been left stays pending while the event is not set, and the monitor waits.\<close>

lemma wakeup_can_be_lost:
  "\<exists>w. monitor_step\<^sup>*\<^sup>* monitor_start w \<and> mw_phase w = Waiting \<and> \<not> ms_available (mw_state w) \<and>
     queued_update 2 job \<in> pending (mw_state w) \<and> queued_update 2 job \<notin> mw_delivered w"
proof -
  let ?j = "empty_job"
  let ?u1 = "queued_update 1 ?j" and ?u2 = "queued_update 2 job"
  let ?s1 = "state_job_queued 1 ?j new_monitor_state"
  let ?w1 = "monitor_start\<lparr>mw_state := ?s1, mw_told := insert ?u1 (mw_told monitor_start)\<rparr>"
  let ?w2 = "?w1\<lparr>mw_state := ?s1\<lparr>ms_queued := []\<rparr>, mw_phase := TookQueued 3 [?u1] 0\<rparr>"
  let ?w3 = "?w2\<lparr>mw_state := state_job_queued 2 job (mw_state ?w2), mw_told := insert ?u2 (mw_told ?w2)\<rparr>"
  let ?w4 = "?w3\<lparr>mw_state := mw_state ?w3, mw_phase := TookModified 3 [?u1] [] (0 + 0)\<rparr>"
  let ?w5 = "?w4\<lparr>mw_state := mw_state ?w4, mw_phase := TookRunning [?u1] [] [] (0 + 0 + 0)\<rparr>"
  let ?w6 = "?w5\<lparr>mw_state := clear_if_idle (0 + 0 + 0) (mw_state ?w5), mw_phase := Waiting,
      mw_delivered := mw_delivered ?w5 \<union> set [?u1] \<union> set [] \<union> set []\<rparr>"
  have s: "ms_modified ?s1 = []" "ms_running ?s1 = []" "ms_queued ?s1 = [?u1]" "ms_available ?s1"
    by (simp_all add: state_job_queued_def new_monitor_state_def)
  have "monitor_step monitor_start ?w1" by (metis monitor_step.queued monitor_start_def monitor_world.select_convs(1))
  moreover have "monitor_step ?w1 ?w2"
    using s by (intro monitor_step.first) (simp_all add: take_simps monitor_start_def)
  moreover have "monitor_step ?w2 ?w3" by (rule monitor_step.queued)
  moreover have "monitor_step ?w3 ?w4"
    using s by (intro monitor_step.second) (simp_all add: take_simps state_job_queued_def)
  moreover have "monitor_step ?w4 ?w5"
    using s by (intro monitor_step.third) (simp_all add: take_simps state_job_queued_def)
  moreover have "monitor_step ?w5 ?w6" by (rule monitor_step.last) simp
  ultimately have "monitor_step\<^sup>*\<^sup>* monitor_start ?w6" by (metis (no_types, lifting) rtranclp.rtrancl_into_rtrancl rtranclp.rtrancl_refl)
  moreover have "?u2 \<noteq> ?u1" by (simp add: queued_update_def)
  ultimately show ?thesis
    by (intro exI [of _ ?w6]) (simp add: clear_if_idle_def state_job_queued_def pending_def monitor_start_def)
qed

section \<open>Witnesses\<close>

lemma pending_wakes_monitor_witness: "ms_available (snd (get_updates 2 (state_job_modified 1 empty_job new_monitor_state)))"
proof (rule pending_wakes_monitor)
  have "lone_step\<^sup>*\<^sup>* new_monitor_state (state_job_modified 1 empty_job new_monitor_state)"
    by (rule r_into_rtranclp, rule lone_step.modified)
  then show "lone_step\<^sup>*\<^sup>* new_monitor_state (snd (get_updates 2 (state_job_modified 1 empty_job new_monitor_state)))"
    by (rule rtranclp.rtrancl_into_rtrancl) (rule lone_step.updates)
  show "pending (snd (get_updates 2 (state_job_modified 1 empty_job new_monitor_state))) \<noteq> {}"
    by (simp add: get_updates_def take_simps state_job_modified_def new_monitor_state_def changed_update_def is_applicable_def
        timedelta_seconds_def clear_if_idle_def pending_def)
qed

lemma updates_never_dropped_witness:
  "\<exists>w :: monitor_world. mw_told w = {queued_update 1 empty_job} \<and> mw_told w = mw_delivered w \<union> in_flight (mw_phase w) \<union> pending (mw_state w)"
proof -
  let ?w = "monitor_start\<lparr>mw_state := state_job_queued 1 empty_job (mw_state monitor_start),
    mw_told := insert (queued_update 1 empty_job) (mw_told monitor_start)\<rparr>"
  have "monitor_step\<^sup>*\<^sup>* monitor_start ?w" by (rule r_into_rtranclp, rule monitor_step.queued)
  with updates_never_dropped [OF this] show ?thesis by (intro exI [of _ ?w]) (simp add: monitor_start_def)
qed

end
