(* ===== verification/Job_Monitor.thy ===== *)
theory Job_Monitor
  imports Job_Cache Job_Updates Provisioning_Queue
begin

text \<open>
  \<open>JobMonitor\<close> of \<open>ideascheduler/app/provisioning/job_monitor/job_monitor.py\<close> on the models of the parts it ties together: the
  updates of the hooks (\<open>Job_Updates\<close>), the commands of the OpenPBS server (\<open>PBS_Query\<close>), the job cache (\<open>Job_Cache\<close>) and the
  provisioning queues (\<open>Provisioning_Queue\<close>), each with its own part of the state. Parameters: the queue profiles, the clock, when
  the exit event is seen, the reading of an event by pydantic. A loop that has not ended after its fuel is None, and \<open>Blocks\<close> for
  its callers, which no handler catches.
\<close>

section \<open>The state and its parts\<close>

datatype monitor_report = JobsRunningMetric "string option" | JobStarted soca_job

record jm_world =
  jm_state :: monitor_state
  jm_hist :: "command list"
  jm_db :: job_db
  jm_queues :: "string option \<Rightarrow> (queue_profile \<times> provisioning_queue) option"
  jm_reports :: "monitor_report list"

record jm_env =
  jme_server :: pbs_server
  jme_db :: db_env
  jme_queue_env :: "jm_world \<Rightarrow> queue_env"
  jme_profile :: "string \<Rightarrow> queue_profile res"
  jme_profiles :: "queue_profile list res"
  jme_exit :: "jm_world \<Rightarrow> bool"
  jme_read_event :: "string option \<Rightarrow> openpbs_event res"

definition on_shell :: "(command list, 'a) act \<Rightarrow> (jm_world, 'a) act" where
  "on_shell m w = (case m (jm_hist w) of (r, h) \<Rightarrow> (r, w\<lparr>jm_hist := h\<rparr>))"

definition on_db :: "(job_db, 'a) act \<Rightarrow> (jm_world, 'a) act" where
  "on_db m w = (case m (jm_db w) of (r, s) \<Rightarrow> (r, w\<lparr>jm_db := s\<rparr>))"

definition on_prov :: "string option \<Rightarrow> (queue_profile \<Rightarrow> (provisioning_queue, unit) act) \<Rightarrow> (jm_world, unit) act" where
  "on_prov k m w =
     (case jm_queues w k of
        None \<Rightarrow> (Inr (), w)
      | Some (qp, q) \<Rightarrow> (case m qp q of (r, q') \<Rightarrow> (r, w\<lparr>jm_queues := (jm_queues w)(k \<mapsto> (qp, q'))\<rparr>)))"

text \<open>\<open>except Exception\<close> and \<open>except SocaException\<close>, with a handler that only logs.\<close>

definition logging_all :: "('s, unit) act \<Rightarrow> ('s, unit) act" where
  "logging_all m = catchS m (\<lambda>e. if e = Blocks then throw e else ret ())"

definition logging_soca :: "('s, unit) act \<Rightarrow> ('s, unit) act" where
  "logging_soca m = catchS m (\<lambda>e. case e of SocaException _ \<Rightarrow> ret () | _ \<Rightarrow> throw e)"

section \<open>Submitting jobs to the provisioning queues\<close>

definition find_provisioning_queue :: "jm_env \<Rightarrow> string option \<Rightarrow> (jm_world, string option option) act" where
  "find_provisioning_queue env profile_name =
     (if is_empty_opt_str profile_name then ret None
      else bindS (reads (\<lambda>_. jme_profile env (opt_or profile_name []))) (\<lambda>qp.
           gets (\<lambda>w. map_option (\<lambda>_. qp_queue_profile_id qp) (jm_queues w (qp_queue_profile_id qp)))))"

definition put_in :: "jm_env \<Rightarrow> string option \<Rightarrow> soca_job \<Rightarrow> (jm_world, unit) act" where
  "put_in env k job = bindS (gets (jme_queue_env env)) (\<lambda>qenv. on_prov k (\<lambda>qp. put qenv qp job))"

definition submit_job :: "jm_env \<Rightarrow> soca_job \<Rightarrow> (jm_world, unit) act" where
  "submit_job env job =
     bindS (find_provisioning_queue env (queue_type job)) (\<lambda>found.
       case found of
         None \<Rightarrow> ret ()
       | Some k \<Rightarrow>
           if state job = Some JS_RUNNING
           then on_prov k (\<lambda>_. case job_id job of None \<Rightarrow> ret () | Some jid \<Rightarrow> delete jid)
           else if is_provisioned job
           then (if is_ephemeral_capacity job then put_in env k job else ret ())
           else put_in env k job)"

fun submit_to_provisioning_queue :: "jm_env \<Rightarrow> soca_job list \<Rightarrow> (jm_world, unit) act" where
  "submit_to_provisioning_queue env [] = ret ()"
| "submit_to_provisioning_queue env (job # jobs) =
     bindS (gets (jme_exit env)) (\<lambda>exit_set.
       if exit_set then ret ()
       else thenS (submit_job env job) (submit_to_provisioning_queue env jobs))"

definition list_jobs_of :: "jm_env \<Rightarrow> string option \<Rightarrow> string list option \<Rightarrow> (jm_world, soca_job list) act" where
  "list_jobs_of env qn ids = on_shell (list_jobs_query (jme_server env) ((job_query_of ids None)\<lparr>jq_queue := qn\<rparr>))"

definition resubmit :: "jm_env \<Rightarrow> string option \<Rightarrow> soca_job \<Rightarrow> (jm_world, unit) act" where
  "resubmit env k job =
     (if is_provisioned job then (if is_ephemeral_capacity job then put_in env k job else ret ()) else put_in env k job)"

definition sync_all_of_queue :: "jm_env \<Rightarrow> queue_profile \<Rightarrow> string \<Rightarrow> (jm_world, unit) act" where
  "sync_all_of_queue env qp qn =
     bindS (find_provisioning_queue env (Some (qp_name qp))) (\<lambda>found.
       case found of
         None \<Rightarrow> ret ()
       | Some k \<Rightarrow>
           bindS (list_jobs_of env (Some qn) None) (\<lambda>jobs.
           thenS (on_db (jobs_sync (jme_db env) jobs))
             (forS (resubmit env k) jobs)))"

definition sync_all_jobs :: "jm_env \<Rightarrow> (jm_world, unit) act" where
  "sync_all_jobs env = logging_all
     (bindS (reads (\<lambda>_. jme_profiles env)) (\<lambda>profiles.
      forS (\<lambda>qp. if qp_enabled qp \<noteq> Some True then ret ()
                  else bindS (reads (\<lambda>_. required TypeError (qp_queues qp))) (forS (sync_all_of_queue env qp))) profiles))"

section \<open>Queued jobs\<close>

definition queued_query :: "string option \<Rightarrow> job_query" where
  "queued_query qn = (job_query_of None (Some (States [JS_QUEUED, JS_HELD])))\<lparr>jq_queue := qn, jq_stack_id := Some ''tbd''\<rparr>"

definition queued_ids :: "jm_env \<Rightarrow> string option \<Rightarrow> (jm_world, string list) act" where
  "queued_ids env qn = on_shell (qselect (jme_server env) (queued_query qn))"

text \<open>The jobs among the listed that have not been looked at, sorted into those the cache holds and those to fetch.\<close>

fun scan_ids ::
  "db_env \<Rightarrow> string list \<Rightarrow> string list \<Rightarrow> (job_db, string list \<times> soca_job list \<times> string list) act" where
  "scan_ids denv processed [] = ret (processed, [], [])"
| "scan_ids denv processed (i # ids) =
     (if i \<in> set processed then scan_ids denv processed ids
      else bindS (jobs_get denv (Some i)) (\<lambda>job.
           bindS (scan_ids denv (processed @ [i]) ids) (\<lambda>(processed', existing, fetch).
             ret (case job of Some j \<Rightarrow> (processed', j # existing, fetch) | None \<Rightarrow> (processed', existing, i # fetch)))))"

text \<open>The \<open>while\<close> loop; when nothing is left to fetch it ends without submitting the jobs it found in the cache.\<close>

fun sync_queued ::
  "nat \<Rightarrow> jm_env \<Rightarrow> string option \<Rightarrow> string list \<Rightarrow> string list \<Rightarrow> jm_world \<Rightarrow> (unit res \<times> jm_world) option" where
  "sync_queued 0 env qn processed ids w = None"
| "sync_queued (Suc n) env qn processed ids w =
     (case on_db (scan_ids (jme_db env) processed ids) w of
        (Inl e, w1) \<Rightarrow> Some (Inl e, w1)
      | (Inr (processed', existing, fetch), w1) \<Rightarrow>
          if fetch = [] then Some (Inr (), w1)
          else
            (case bindS (list_jobs_of env None (Some fetch)) (\<lambda>jobs.
                  thenS (on_db (jobs_sync (jme_db env) jobs))
                  (thenS (submit_to_provisioning_queue env (jobs @ existing)) (queued_ids env qn))) w1 of
               (Inl e, w2) \<Rightarrow> Some (Inl e, w2)
             | (Inr ids', w2) \<Rightarrow>
                 if length processed' < length ids' then sync_queued n env qn processed' ids' w2 else Some (Inr (), w2)))"

declare sync_queued.simps [simp del]

definition sync_queue_queued :: "nat \<Rightarrow> jm_env \<Rightarrow> string option \<Rightarrow> (jm_world, unit) act" where
  "sync_queue_queued fuel env qn =
     bindS (queued_ids env qn) (\<lambda>ids.
       if ids = [] then ret ()
       else (\<lambda>w. case sync_queued fuel env qn [] ids w of None \<Rightarrow> (Inl Blocks, w) | Some r \<Rightarrow> r))"

section \<open>Changed jobs\<close>

datatype update_type = QueuedJobs | ModifiedJobs | RunningJobs

definition update_target :: "job_update \<Rightarrow> string option" where
  "update_target u = (case ju_owner u of Some x \<Rightarrow> if x \<noteq> [] then Some x else ju_job_id u | None \<Rightarrow> ju_job_id u)"

definition group_updates :: "job_update list \<Rightarrow> (string option \<times> string option list) list" where
  "group_updates us = fold (\<lambda>u q. assign_key (ju_queue u)
     (List.insert (update_target u) (opt_or (map_of q (ju_queue u)) [])) q) us []"

definition sync_queue_changed :: "jm_env \<Rightarrow> update_type \<Rightarrow> string option \<Rightarrow> string option list \<Rightarrow> (jm_world, unit) act" where
  "sync_queue_changed env job_type qn targets =
     bindS (reads (\<lambda>_. traverseE (required TypeError) targets)) (\<lambda>ids.
     bindS (list_jobs_of env qn (Some ids)) (\<lambda>jobs.
       if jobs = [] then ret ()
       else thenS (on_db (jobs_sync (jme_db env) jobs))
            (if job_type = ModifiedJobs then submit_to_provisioning_queue env jobs else ret ())))"

fun sync_groups ::
  "nat \<Rightarrow> jm_env \<Rightarrow> update_type \<Rightarrow> (string option \<times> string option list) list \<Rightarrow> (jm_world, unit) act" where
  "sync_groups fuel env job_type [] = ret ()"
| "sync_groups fuel env job_type ((qn, targets) # groups) =
     bindS (gets (jme_exit env)) (\<lambda>exit_set.
       if exit_set then ret ()
       else thenS (logging_soca (if job_type = QueuedJobs then sync_queue_queued fuel env qn
                                 else sync_queue_changed env job_type qn targets))
            (sync_groups fuel env job_type groups))"

definition sync_jobs :: "nat \<Rightarrow> jm_env \<Rightarrow> update_type \<Rightarrow> job_update list \<Rightarrow> (jm_world, unit) act" where
  "sync_jobs fuel env job_type us =
     logging_all (if us = [] then ret () else sync_groups fuel env job_type (group_updates us))"

section \<open>The reconciler\<close>

definition reconcile_queue :: "jm_env \<Rightarrow> string \<Rightarrow> (jm_world, unit) act" where
  "reconcile_queue env qn =
     bindS (queued_ids env (Some qn)) (\<lambda>ids.
       if ids = [] then ret ()
       else bindS (list_jobs_of env None (Some ids)) (\<lambda>jobs.
            thenS (on_db (jobs_sync (jme_db env) jobs)) (submit_to_provisioning_queue env jobs)))"

fun reconcile_queues :: "jm_env \<Rightarrow> string list \<Rightarrow> (jm_world, unit) act" where
  "reconcile_queues env [] = ret ()"
| "reconcile_queues env (qn # qns) =
     bindS (gets (jme_exit env)) (\<lambda>exit_set.
       if exit_set then ret () else thenS (reconcile_queue env qn) (reconcile_queues env qns))"

definition job_reconciler :: "jm_env \<Rightarrow> (jm_world, unit) act" where
  "job_reconciler env = logging_all
     (bindS (reads (\<lambda>_. jme_profiles env)) (\<lambda>profiles.
      forS (\<lambda>qp. if qp_enabled qp \<noteq> Some True then ret ()
                  else bindS (reads (\<lambda>_. required TypeError (qp_queues qp))) (reconcile_queues env)) profiles))"

text \<open>One turn of the thread that monitors submissions; \<open>now1\<close> and \<open>now2\<close> are the times it reads, in microseconds.\<close>

definition monitor_iteration :: "nat \<Rightarrow> jm_env \<Rightarrow> int \<Rightarrow> int \<Rightarrow> int \<Rightarrow> (jm_world, unit) act" where
  "monitor_iteration fuel env now1 now2 reconciler_interval = logging_all
     (thenS
       (bindS (gets (\<lambda>w. ms_available (jm_state w))) (\<lambda>available.
          if \<not> available then ret ()
          else bindS (gets (\<lambda>w. fst (get_updates now1 (jm_state w)))) (\<lambda>us.
               thenS (modify (\<lambda>w. w\<lparr>jm_state := snd (get_updates now1 (jm_state w))\<rparr>))
               (thenS (sync_jobs fuel env QueuedJobs (ju_queued us))
               (thenS (sync_jobs fuel env ModifiedJobs (ju_modified us))
                      (sync_jobs fuel env RunningJobs (ju_running us)))))))
       (bindS (gets (\<lambda>w. ms_last_periodic_run (jm_state w))) (\<lambda>last_run.
          if (case last_run of None \<Rightarrow> True | Some t \<Rightarrow> now2 - t \<ge> reconciler_interval * 1000000)
          then thenS (job_reconciler env)
                 (modify (\<lambda>w. w\<lparr>jm_state := (jm_state w)\<lparr>ms_last_periodic_run := Some now2\<rparr>\<rparr>))
          else ret ())))"

section \<open>What the hooks and the compute nodes tell\<close>

definition jm_job_queued :: "int \<Rightarrow> soca_job \<Rightarrow> (jm_world, unit) act" where
  "jm_job_queued now job = modify (\<lambda>w. w\<lparr>jm_state := state_job_queued now job (jm_state w)\<rparr>)"

definition jm_job_modified :: "int \<Rightarrow> soca_job \<Rightarrow> (jm_world, unit) act" where
  "jm_job_modified now job = modify (\<lambda>w. w\<lparr>jm_state := state_job_modified now job (jm_state w)\<rparr>)"

definition jm_job_running :: "jm_env \<Rightarrow> int \<Rightarrow> soca_job \<Rightarrow> (jm_world, unit) act" where
  "jm_job_running env now job =
     thenS (modify (\<lambda>w. w\<lparr>jm_state := state_job_running now job (jm_state w)\<rparr>))
     (bindS (on_db (jobs_get (jme_db env) (job_id job))) (\<lambda>cached.
        let j = (opt_or cached job)\<lparr>state := Some JS_RUNNING\<rparr>
        in modify (\<lambda>w. w\<lparr>jm_reports := jm_reports w @ [JobsRunningMetric (queue_type j), JobStarted j]\<rparr>)))"

definition job_status_update :: "jm_env \<Rightarrow> soca_job \<Rightarrow> (jm_world, unit) act" where
  "job_status_update env job =
     (case execution_hosts job of
        Some (h # hs) \<Rightarrow> on_db (log_job_execution (jme_db env) (job_id job) h None)
      | _ \<Rightarrow> ret ())"

record sqs_message =
  sq_message_id :: "string option"
  sq_receipt_handle :: "string option"
  sq_body :: "string option"

definition process_message :: "jm_env \<Rightarrow> sqs_message \<Rightarrow> (jm_world, unit) act" where
  "process_message env m =
     bindS (reads (\<lambda>_. jme_read_event env (sq_body m))) (\<lambda>e.
     bindS (reads (\<lambda>_. event_job e)) (\<lambda>j.
     bindS (reads (\<lambda>_. sv_profile (jme_server env) (ob_queue j))) (\<lambda>profile.
       case profile of
         None \<Rightarrow> ret ()
       | Some qp \<Rightarrow>
           bindS (reads (\<lambda>_. event_as_soca_job_new (sv_pbs (jme_server env)) (Some qp) (sv_build (jme_server env))
                    (sv_uuid (jme_server env)) e)) (job_status_update env))))"

text \<open>A batch from the queue of job status events; the result is what is deleted from that queue.\<close>

fun process_messages :: "jm_env \<Rightarrow> sqs_message list \<Rightarrow> (jm_world, (string option \<times> string option) list) act" where
  "process_messages env [] = ret []"
| "process_messages env (m # ms) =
     thenS (logging_all (process_message env m))
       (bindS (process_messages env ms) (\<lambda>rest. ret ((sq_message_id m, sq_receipt_handle m) # rest)))"

section \<open>The queues and the cache stay in order\<close>

definition monitor_ok :: "jm_world \<Rightarrow> bool" where
  "monitor_ok w \<longleftrightarrow> db_ok (jm_db w) \<and> (\<forall>k qp q. jm_queues w k = Some (qp, q) \<longrightarrow> pq_ok {#} q)"

named_theorems monitor_rules \<open>the operations of the monitor preserve its invariant\<close>

lemma monitor_ok_frame [simp]:
  "monitor_ok (w\<lparr>jm_hist := h\<rparr>) = monitor_ok w" "monitor_ok (w\<lparr>jm_state := s\<rparr>) = monitor_ok w"
  "monitor_ok (w\<lparr>jm_reports := r\<rparr>) = monitor_ok w"
  by (simp_all add: monitor_ok_def)

lemma on_shell_ok [monitor_rules]: "preserves monitor_ok (on_shell m)"
  by (simp add: preserves_def on_shell_def split: prod.split)

lemma on_db_ok: "preserves db_ok m \<Longrightarrow> preserves monitor_ok (on_db m)"
  by (auto simp: preserves_def on_db_def monitor_ok_def split: prod.splits)

lemma on_prov_ok: "(\<And>qp. preserves (pq_ok {#}) (m qp)) \<Longrightarrow> preserves monitor_ok (on_prov k m)"
  by (auto simp: preserves_def on_prov_def monitor_ok_def split: option.split prod.splits) (metis snd_conv)+

lemma jobs_sync_ok [monitor_rules]: "preserves monitor_ok (on_db (jobs_sync env jobs))"
  by (rule on_db_ok) (unfold jobs_sync_def, intro preserves_intros)

lemma db_reads_ok [monitor_rules]:
  "preserves monitor_ok (on_db (jobs_get env jid))" "preserves monitor_ok (on_db (scan_ids denv processed ids))"
proof -
  show "preserves monitor_ok (on_db (jobs_get env jid))"
    by (rule on_db_ok) (simp add: jobs_get_def preserves_prim)
  have "preserves db_ok (scan_ids denv processed ids)"
  proof (induction ids arbitrary: processed)
    case (Cons i ids)
    have "preserves db_ok (case x of (processed', existing, fetch) \<Rightarrow>
        ret (case job of Some j \<Rightarrow> (processed', j # existing, fetch) | None \<Rightarrow> (processed', existing, i # fetch)))" for x job
      by (cases x) (simp add: preserves_prim)
    with Cons show ?case unfolding scan_ids.simps jobs_get_def by (intro preserves_intros) blast+
  qed (unfold scan_ids.simps, rule preserves_prim)
  then show "preserves monitor_ok (on_db (scan_ids denv processed ids))" by (rule on_db_ok)
qed

lemma put_in_ok [monitor_rules]: "preserves monitor_ok (put_in env k job)"
  unfolding put_in_def by (intro preserves_intros on_prov_ok put_ok)

lemma logging_ok [monitor_rules]:
  "preserves P m \<Longrightarrow> preserves P (logging_all m)" "preserves P m \<Longrightarrow> preserves P (logging_soca m)"
  unfolding logging_all_def logging_soca_def by (auto intro!: preserves_intros split: exc.split)

lemma find_provisioning_queue_ok [monitor_rules]: "preserves monitor_ok (find_provisioning_queue env n)"
  unfolding find_provisioning_queue_def by (auto intro!: preserves_intros)

lemma submit_job_ok [monitor_rules]: "preserves monitor_ok (submit_job env job)"
  unfolding submit_job_def
  by (auto intro!: preserves_intros monitor_rules on_prov_ok delete_ok split: option.split)

lemma submit_ok [monitor_rules]: "preserves monitor_ok (submit_to_provisioning_queue env jobs)"
  by (induction jobs) (unfold submit_to_provisioning_queue.simps, (intro preserves_intros monitor_rules; assumption)+)

lemma list_jobs_of_ok [monitor_rules]: "preserves monitor_ok (list_jobs_of env qn ids)" "preserves monitor_ok (queued_ids env qn)"
  unfolding list_jobs_of_def queued_ids_def by (rule on_shell_ok)+

lemma sync_queued_ok: "monitor_ok w \<Longrightarrow> sync_queued n env qn processed ids w = Some (r, w') \<Longrightarrow> monitor_ok w'"
proof (induction n arbitrary: processed ids w)
  case (Suc n)
  obtain r1 w1 where s: "on_db (scan_ids (jme_db env) processed ids) w = (r1, w1)" by fastforce
  have w1: "monitor_ok w1" using preservesD [OF db_reads_ok(2) Suc.prems(1) s] .
  show ?case
  proof (cases r1)
    case (Inr x)
    obtain processed' existing fetch where x: "x = (processed', existing, fetch)" by (cases x) blast
    let ?m = "bindS (list_jobs_of env None (Some fetch)) (\<lambda>jobs. thenS (on_db (jobs_sync (jme_db env) jobs))
        (thenS (submit_to_provisioning_queue env (jobs @ existing)) (queued_ids env qn)))"
    obtain r2 w2 where m: "?m w1 = (r2, w2)" by fastforce
    have "preserves monitor_ok ?m" by (intro preserves_intros monitor_rules)
    from preservesD [OF this w1 m] have w2: "monitor_ok w2" .
    from Suc.prems(2) s Inr x m w1 w2 Suc.IH [OF w2] show ?thesis
      by (auto simp: sync_queued.simps split: if_splits sum.splits)
  qed (use Suc.prems s w1 in \<open>simp add: sync_queued.simps\<close>)
qed (simp add: sync_queued.simps)

lemma sync_queue_queued_ok [monitor_rules]: "preserves monitor_ok (sync_queue_queued fuel env qn)"
proof -
  have "preserves monitor_ok (\<lambda>w. case sync_queued fuel env qn [] ids w of None \<Rightarrow> (Inl Blocks, w) | Some r \<Rightarrow> r)" for ids
    using sync_queued_ok by (auto simp: preserves_def split: option.split prod.split)
  then show ?thesis unfolding sync_queue_queued_def by (auto intro!: preserves_intros monitor_rules)
qed

lemma sync_jobs_ok [monitor_rules]: "preserves monitor_ok (sync_jobs fuel env ty us)"
proof -
  have "preserves monitor_ok (sync_queue_changed env ty qn ts)" for qn ts
    unfolding sync_queue_changed_def by (auto intro!: preserves_intros monitor_rules)
  then have "preserves monitor_ok (sync_groups fuel env ty gs)" for gs
    by (induction gs) (auto intro!: preserves_intros monitor_rules)
  then show ?thesis unfolding sync_jobs_def by (auto intro!: preserves_intros monitor_rules)
qed

lemma job_reconciler_ok [monitor_rules]: "preserves monitor_ok (job_reconciler env)"
proof -
  have "preserves monitor_ok (reconcile_queues env qns)" for qns
    by (induction qns) (unfold reconcile_queues.simps reconcile_queue_def, (intro preserves_intros monitor_rules; assumption)+)
  then show ?thesis unfolding job_reconciler_def by (auto intro!: preserves_intros monitor_rules)
qed

lemma sync_all_jobs_ok: "preserves monitor_ok (sync_all_jobs env)"
  unfolding sync_all_jobs_def sync_all_of_queue_def resubmit_def
  by (auto intro!: preserves_intros monitor_rules split: option.split)


section \<open>The loop over queued jobs\<close>

lemma bindS_Inr_iff: "bindS m f s = (Inr y, s') \<longleftrightarrow> (\<exists>x s1. m s = (Inr x, s1) \<and> f x s1 = (Inr y, s'))"
  by (cases "m s") (auto simp: bindS_def split: sum.splits)

lemma on_db_Inr_iff: "on_db m w = (Inr x, w') \<longleftrightarrow> (\<exists>s'. m (jm_db w) = (Inr x, s') \<and> w' = w\<lparr>jm_db := s'\<rparr>)"
  by (auto simp: on_db_def split: prod.splits)

lemma on_shell_Inr_iff: "on_shell m w = (Inr x, w') \<longleftrightarrow> (\<exists>h'. m (jm_hist w) = (Inr x, h') \<and> w' = w\<lparr>jm_hist := h'\<rparr>)"
  by (auto simp: on_shell_def split: prod.splits)

lemma scan_ids_state: "snd (scan_ids denv processed ids s) = s"
proof (induction ids arbitrary: processed)
  case (Cons i ids)
  show ?case by (auto simp: bindS_def jobs_get_def Cons split: sum.splits prod.splits option.splits)
    (metis Cons snd_conv)+
qed simp

lemma scan_ids_spec:
  assumes "scan_ids denv processed ids s = (Inr (processed', existing, fetch), s')" "distinct processed"
  shows "distinct processed' \<and> set processed' = set processed \<union> set ids \<and> distinct fetch \<and>
    set fetch = {i \<in> set ids - set processed. fst (jobs_get denv (Some i) s) = Inr None}"
  using assms
proof (induction ids arbitrary: processed processed' existing fetch s')
  case (Cons i ids)
  show ?case
  proof (cases "i \<in> set processed")
    case True
    with Cons.prems(1) have "scan_ids denv processed ids s = (Inr (processed', existing, fetch), s')" by simp
    from Cons.IH [OF this Cons.prems(2)] True show ?thesis by auto
  next
    case False
    have js: "jobs_get denv (Some i) s = (fst (jobs_get denv (Some i) s), s)" by (simp add: jobs_get_def)
    from Cons.prems(1) False obtain job e f where
      job: "fst (jobs_get denv (Some i) s) = Inr job" and
      rest: "scan_ids denv (processed @ [i]) ids s = (Inr (processed', e, f), s')" and
      fetch: "fetch = (case job of None \<Rightarrow> i # f | Some j \<Rightarrow> f)"
      using js by (auto simp: bindS_Inr_iff split: option.splits)
    from Cons.IH [OF rest] False Cons.prems(2) job fetch show ?thesis by (auto split: option.splits)
  qed
qed simp

text \<open>C25: The loop over queued jobs ends: when all the jobs the server ever lists in the queue lie in a finite set, it returns after at
  most one turn more than the set has jobs, however the listings change from turn to turn.\<close>

lemma sync_queued_returns:
  assumes "finite S" "\<And>hist ids. fst (qselect (jme_server env) (queued_query qn) hist) = Inr ids \<Longrightarrow> set ids \<subseteq> S"
    and "set processed \<subseteq> S" "distinct processed" "set ids \<subseteq> S" "card S - length processed < n"
  shows "\<exists>r w'. sync_queued n env qn processed ids w = Some (r, w')"
  using assms(3-)
proof (induction n arbitrary: processed ids w)
  case (Suc n)
  obtain r1 w1 where s: "on_db (scan_ids (jme_db env) processed ids) w = (r1, w1)" by fastforce
  show ?case
  proof (cases r1)
    case (Inr x)
    obtain processed' existing fetch where x: "x = (processed', existing, fetch)" by (cases x) blast
    let ?m = "bindS (list_jobs_of env None (Some fetch)) (\<lambda>jobs. thenS (on_db (jobs_sync (jme_db env) jobs))
        (thenS (submit_to_provisioning_queue env (jobs @ existing)) (queued_ids env qn)))"
    from s Inr x obtain s' where "scan_ids (jme_db env) processed ids (jm_db w) = (Inr (processed', existing, fetch), s')"
      by (auto simp: on_db_Inr_iff)
    note spec = scan_ids_spec [OF this Suc.prems(2)]
    show ?thesis
    proof (cases "fetch = []")
      case False
      obtain r2 w2 where m: "?m w1 = (r2, w2)" by fastforce
      show ?thesis
      proof (cases r2)
        case r2: (Inr ids')
        with m obtain h where "fst (qselect (jme_server env) (queued_query qn) h) = Inr ids'"
          by (auto simp: bindS_Inr_iff thenS_def queued_ids_def on_shell_Inr_iff) (metis fst_conv)
        with assms(2) have ids': "set ids' \<subseteq> S" by blast
        from False spec obtain i where "i \<in> set ids" "i \<notin> set processed" by (cases fetch) auto
        then have "length processed < length processed'" using spec Suc.prems(2)
          by (metis Un_iff distinct_card finite_set psubsetI psubset_card_mono sup_ge1)
        moreover have "length processed' \<le> card S" using spec Suc.prems assms(1) by (metis Un_least card_mono distinct_card)
        ultimately have "card S - length processed' < n" using Suc.prems(4) by simp
        with Suc.IH [of processed' ids' w2] spec Suc.prems ids' have
          "\<exists>r w'. sync_queued n env qn processed' ids' w2 = Some (r, w')" by auto
        with s Inr x m r2 False show ?thesis by (simp add: sync_queued.simps)
      qed (use s Inr x m False in \<open>simp add: sync_queued.simps\<close>)
    qed (use s Inr x in \<open>simp add: sync_queued.simps\<close>)
  qed (use s in \<open>simp add: sync_queued.simps\<close>)
qed simp

text \<open>Jobs that are queued in OpenPBS and already cached are not submitted again: when a listing holds no other job, the loop ends
  with the listing, and the provisioning queues and the cache are as they were.\<close>

lemma cached_jobs_not_submitted:
  assumes "queued_ids env qn w = (Inr ids, w1)" "0 < fuel"
    and "\<And>i. i \<in> set ids \<Longrightarrow> \<exists>job. fst (jobs_get (jme_db env) (Some i) (jm_db w)) = Inr (Some job)"
  shows "sync_queue_queued fuel env qn w = (Inr (), w1) \<and> jm_queues w1 = jm_queues w \<and> jm_db w1 = jm_db w"
proof -
  from assms(1) have same: "jm_queues w1 = jm_queues w" "jm_db w1 = jm_db w"
    by (auto simp: queued_ids_def on_shell_Inr_iff)
  have scan: "\<exists>p e. scan_ids (jme_db env) processed ids (jm_db w) = (Inr (p, e, []), jm_db w)" for processed
    using assms(3)
  proof (induction ids arbitrary: processed)
    case (Cons i ids)
    show ?case
    proof (cases "i \<in> set processed")
      case False
      from Cons.prems obtain job where "fst (jobs_get (jme_db env) (Some i) (jm_db w)) = Inr (Some job)" by auto
      then have "jobs_get (jme_db env) (Some i) (jm_db w) = (Inr (Some job), jm_db w)" by (simp add: jobs_get_def)
      moreover from Cons.IH [of "processed @ [i]"] Cons.prems obtain p e where
        "scan_ids (jme_db env) (processed @ [i]) ids (jm_db w) = (Inr (p, e, []), jm_db w)" by auto
      ultimately show ?thesis using False by (simp add: bindS_def)
    qed (use Cons in auto)
  qed simp
  obtain n where n: "fuel = Suc n" using assms(2) by (cases fuel) auto
  from scan [of "[]"] obtain p e where "on_db (scan_ids (jme_db env) [] ids) w1 = (Inr (p, e, []), w1)"
    by (auto simp: on_db_def same)
  then have "sync_queued fuel env qn [] ids w1 = Some (Inr (), w1)" by (simp add: n sync_queued.simps)
  with assms(1) same show ?thesis by (simp add: sync_queue_queued_def bindS_def)
qed

section \<open>Events of the compute nodes\<close>

text \<open>Every event received is deleted from the queue of job status events, in the order received, whether or not it could be
  processed: an event whose processing fails is lost.\<close>

lemma events_always_deleted:
  "\<exists>r w'. process_messages env ms w = (r, w') \<and>
     (r = Inl Blocks \<or> r = Inr (map (\<lambda>m. (sq_message_id m, sq_receipt_handle m)) ms))"
proof (induction ms arbitrary: w)
  case (Cons m ms)
  obtain r w1 where p: "logging_all (process_message env m) w = (r, w1)" by fastforce
  then have "r = Inl Blocks \<or> r = Inr ()" by (auto simp: logging_all_def catchS_def split: prod.splits sum.splits if_splits)
  moreover from Cons.IH [of w1] obtain r2 w2 where "process_messages env ms w1 = (r2, w2)"
    "r2 = Inl Blocks \<or> r2 = Inr (map (\<lambda>m. (sq_message_id m, sq_receipt_handle m)) ms)" by blast
  ultimately show ?case using p by (auto simp: thenS_apply bindS_def)
qed simp

end
