(* ===== verification/Finished_Jobs.thy ===== *)
theory Finished_Jobs
  imports Job_Cache Provisioning_Checks Pricing
begin

text \<open>
  What becomes of finished jobs, \<open>ideascheduler/app/provisioning/job_monitor/finished_job_processor.py\<close>: a cycle of the poll
  compares the cached jobs with those OpenPBS still lists, removes the others from the cache, and prices, reports and stores those
  that ran. The job under way is the job with its budget usage (\<open>finished_job\<close>). The metrics, the export log, the e-mails and the
  document store are effects that may raise (\<open>fe_effect\<close>); the exit event is a parameter; the wait between cycles, log texts
  and the thread are left out.
\<close>

section \<open>One finished job\<close>

record finished_job =
  fj_job :: soca_job
  fj_budget_usage :: "budget_usage option"

datatype fj_report =
    FinishedMetric "string option"
  | ProvisioningDuration "string option" int
  | RunningDuration "string option" int
  | TotalDuration "string option" int
  | JobExported finished_job
  | CompletionEmail finished_job
  | JobsStored "finished_job list"

record fj_world =
  fw_db :: job_db
  fw_hist :: "command list"
  fw_reports :: "fj_report list"

record fj_env =
  fe_db :: db_env
  fe_to_json :: "finished_job \<Rightarrow> string res"
  fe_server :: pbs_server
  fe_price :: "int \<Rightarrow> price_env"
  fe_budget :: prov_env
  fe_effect :: "fj_report \<Rightarrow> unit res"
  fe_exit :: "fj_world \<Rightarrow> bool"

definition on_fdb :: "(job_db, 'a) act \<Rightarrow> (fj_world, 'a) act" where
  "on_fdb m w = (case m (fw_db w) of (r, s) \<Rightarrow> (r, w\<lparr>fw_db := s\<rparr>))"

definition on_fshell :: "(command list, 'a) act \<Rightarrow> (fj_world, 'a) act" where
  "on_fshell m w = (case m (fw_hist w) of (r, h) \<Rightarrow> (r, w\<lparr>fw_hist := h\<rparr>))"

definition report :: "fj_env \<Rightarrow> fj_report \<Rightarrow> (fj_world, unit) act" where
  "report env x = thenS (reads (\<lambda>_. fe_effect env x)) (modify (\<lambda>w. w\<lparr>fw_reports := fw_reports w @ [x]\<rparr>))"

definition run_secs :: "soca_job \<Rightarrow> int option" where
  "run_secs job = (case (end_time job, start_time job) of
     (Some e, Some s) \<Rightarrow> Some (timedelta_seconds (e - s)) | _ \<Rightarrow> total_time_secs job)"

definition apply_job_execution_context :: "fj_env \<Rightarrow> finished_job \<Rightarrow> (fj_world, finished_job) act" where
  "apply_job_execution_context env fj =
     catchS
       (bindS (on_fdb (get_job_execution_hosts (fe_db env) (job_id (fj_job fj)))) (\<lambda>hs.
        thenS (on_fdb (delete_job_execution_hosts (job_id (fj_job fj))))
          (ret (fj\<lparr>fj_job := (fj_job fj)\<lparr>execution_hosts := Some hs, total_time_secs := run_secs (fj_job fj)\<rparr>\<rparr>))))
       (\<lambda>_. ret fj)"

definition billed_secs :: "int option \<Rightarrow> int" where
  "billed_secs t = (case t of None \<Rightarrow> 60 | Some s \<Rightarrow> if s < 60 then 60 else s)"

definition compute_and_apply_estimated_costs :: "fj_env \<Rightarrow> finished_job \<Rightarrow> finished_job" where
  "compute_and_apply_estimated_costs env fj =
     (case bindE (get_total_time_seconds (fj_job fj)) (\<lambda>t.
             compute_estimated_bom_cost (fe_price env (billed_secs t)) (fj_job fj)) of
        Inl _ \<Rightarrow> fj
      | Inr cost \<Rightarrow> fj\<lparr>fj_job := (fj_job fj)\<lparr>estimated_bom_cost := Some cost\<rparr>\<rparr>)"

definition compute_and_apply_budget_usage :: "fj_env \<Rightarrow> finished_job \<Rightarrow> finished_job" where
  "compute_and_apply_budget_usage env fj =
     (if estimated_bom_cost (fj_job fj) = None then fj
      else case bindE (helper_project (fe_budget env) (fj_job fj)) (\<lambda>p.
                  compute_budget_usage (fe_budget env) (fj_job fj) p None) of
             Inl _ \<Rightarrow> fj
           | Inr u \<Rightarrow> fj\<lparr>fj_budget_usage := u\<rparr>)"

definition both_times :: "int option \<Rightarrow> int option \<Rightarrow> (int \<Rightarrow> fj_report) \<Rightarrow> fj_env \<Rightarrow> (fj_world, unit) act" where
  "both_times a b f env =
     (case (a, b) of (Some x, Some y) \<Rightarrow> report env (f (timedelta_seconds (x - y))) | _ \<Rightarrow> ret ())"

text \<open>The time a job waited for its capacity is the time of provisioning minus the time of the start.\<close>

definition publish_job_metrics :: "fj_env \<Rightarrow> soca_job \<Rightarrow> (fj_world, unit) act" where
  "publish_job_metrics env job =
     catchS
       (thenS (report env (FinishedMetric (queue_type job)))
       (thenS (both_times (provisioning_time job) (start_time job) (ProvisioningDuration (queue_type job)) env)
       (thenS (both_times (end_time job) (start_time job) (RunningDuration (queue_type job)) env)
              (both_times (end_time job) (queue_time job) (TotalDuration (queue_type job)) env))))
       (\<lambda>_. ret ())"

definition try_report :: "fj_env \<Rightarrow> fj_report \<Rightarrow> (fj_world, unit) act" where
  "try_report env x = catchS (report env x) (\<lambda>_. ret ())"

definition publish_to_job_export_log :: "fj_env \<Rightarrow> finished_job \<Rightarrow> (fj_world, unit) act" where
  "publish_to_job_export_log env fj =
     catchS (thenS (reads (\<lambda>_. fe_to_json env fj)) (report env (JobExported fj))) (\<lambda>_. ret ())"

definition publish_to_finished_jobs_db :: "fj_env \<Rightarrow> finished_job \<Rightarrow> (fj_world, unit) act" where
  "publish_to_finished_jobs_db env fj =
     catchS (on_fdb (add_finished_job ((fe_db env)\<lparr>je_to_json := \<lambda>_. fe_to_json env fj\<rparr>) (fj_job fj))) (\<lambda>_. ret ())"

definition process_finished_job :: "fj_env \<Rightarrow> soca_job \<Rightarrow> (fj_world, finished_job) act" where
  "process_finished_job env job =
     bindS (apply_job_execution_context env \<lparr>fj_job = job, fj_budget_usage = None\<rparr>) (\<lambda>fj0.
       let fj = compute_and_apply_budget_usage env (compute_and_apply_estimated_costs env fj0) in
       thenS (publish_job_metrics env (fj_job fj))
       (thenS (publish_to_job_export_log env fj)
       (thenS (try_report env (CompletionEmail fj))
       (thenS (publish_to_finished_jobs_db env fj)
         (ret fj)))))"

section \<open>A cycle of the poll\<close>

fun process_each :: "fj_env \<Rightarrow> soca_job list \<Rightarrow> (fj_world, finished_job list) act" where
  "process_each env [] = ret []"
| "process_each env (job # jobs) =
     bindS (process_finished_job env job) (\<lambda>fj. bindS (process_each env jobs) (\<lambda>fjs. ret (fj # fjs)))"

definition process_finished_jobs :: "fj_env \<Rightarrow> soca_job list \<Rightarrow> (fj_world, unit) act" where
  "process_finished_jobs env jobs =
     (if jobs = [] then ret ()
      else bindS (reads (\<lambda>_. traverseE (\<lambda>j. required TypeError (job_id j)) jobs)) (\<lambda>ids.
           bindS (on_fshell (list_jobs_query (fe_server env) (job_query_of (Some ids) (Some (OneState JS_FINISHED))))) (\<lambda>found.
           bindS (process_each env found) (\<lambda>fjs. try_report env (JobsStored fjs)))))"

text \<open>A row: it is left, its job is forgotten, or its job is processed as well.\<close>

definition row_outcome :: "fj_env \<Rightarrow> string list \<Rightarrow> string option \<times> job_row \<Rightarrow> (string option \<times> soca_job option) option" where
  "row_outcome env active = (\<lambda>(k, r).
     let jid = (case k of None \<Rightarrow> None | Some s \<Rightarrow> get_as_string (je_fmt (fe_db env)) (PStr s) None) in
     if jid \<in> Some ` set active then None
     else (case convert_db_entry_to_job (fe_db env) (Some r) of
             Inr (Some job) \<Rightarrow>
               Some (job_id job, if is_provisioned job then Some (job\<lparr>state := Some JS_FINISHED\<rparr>) else None)
           | _ \<Rightarrow> None))"

fun scan_rows :: "fj_env \<Rightarrow> string list \<Rightarrow> (string option \<times> job_row) list \<Rightarrow>
    (fj_world, (string option \<times> soca_job option) list) act" where
  "scan_rows env active [] = ret []"
| "scan_rows env active (row # rows) =
     bindS (gets (fe_exit env)) (\<lambda>exit_set.
       if exit_set then ret []
       else bindS (scan_rows env active rows) (\<lambda>rest.
            ret (case row_outcome env active row of None \<Rightarrow> rest | Some x \<Rightarrow> x # rest)))"

definition all_jobs_query :: job_query where
  "all_jobs_query = job_query_of None None"

definition poll_cycle :: "fj_env \<Rightarrow> (fj_world, unit) act" where
  "poll_cycle env =
     catchS
       (bindS (catchS (bindS (on_fshell (qselect (fe_server env) all_jobs_query)) (\<lambda>ids. ret (Some ids))) (\<lambda>_. ret None)) (\<lambda>active.
        case active of
          None \<Rightarrow> ret ()
        | Some ids \<Rightarrow>
            bindS (gets (\<lambda>w. db_jobs (fw_db w))) (\<lambda>rows.
            bindS (scan_rows env ids rows) (\<lambda>outcomes.
            thenS (catchS (if outcomes = [] then ret () else on_fdb (delete_jobs (map fst outcomes))) (\<lambda>_. ret ()))
              (process_finished_jobs env (List.map_filter snd outcomes))))))
       (\<lambda>_. ret ())"

section \<open>What a cycle does to the cache\<close>

named_theorems fj_rules \<open>the steps of a finished job do not touch the table of jobs\<close>

definition same_jobs :: "(string option \<times> job_row) list \<Rightarrow> fj_world \<Rightarrow> bool" where
  "same_jobs rows w \<longleftrightarrow> db_jobs (fw_db w) = rows"

lemma same_jobs_report [fj_rules]: "preserves (same_jobs rows) (report env x)"
  unfolding report_def by (intro preserves_intros) (simp add: same_jobs_def)

lemma same_jobs_shell [fj_rules]: "preserves (same_jobs rows) (on_fshell m)"
  by (simp add: preserves_def on_fshell_def same_jobs_def split: prod.split)

lemma same_jobs_db: "(\<And>s. db_jobs (snd (m s)) = db_jobs s) \<Longrightarrow> preserves (same_jobs rows) (on_fdb m)"
  by (auto simp: preserves_def on_fdb_def same_jobs_def split: prod.split) (metis snd_conv)

lemma same_jobs_steps [fj_rules]:
  "preserves (same_jobs rows) (on_fdb (get_job_execution_hosts env jid))"
  "preserves (same_jobs rows) (on_fdb (delete_job_execution_hosts jid))"
  "preserves (same_jobs rows) (on_fdb (add_finished_job env job))"
  by (rule same_jobs_db, simp add: get_job_execution_hosts_def delete_job_execution_hosts_def add_finished_job_def transaction_def
      bindS_def split: prod.split sum.split)+

lemma process_finished_job_same [fj_rules]: "preserves (same_jobs rows) (process_finished_job env job)"
  unfolding process_finished_job_def apply_job_execution_context_def publish_job_metrics_def both_times_def
    publish_to_job_export_log_def publish_to_finished_jobs_db_def try_report_def Let_def
  by (auto intro!: preserves_intros fj_rules split: option.split prod.split)

lemma process_each_same [fj_rules]: "preserves (same_jobs rows) (process_each env jobs)"
  by (induction jobs) (unfold process_each.simps, (intro preserves_intros fj_rules; assumption)+)

lemma process_finished_jobs_same: "preserves (same_jobs rows) (process_finished_jobs env jobs)"
  unfolding process_finished_jobs_def try_report_def by (intro preserves_intros fj_rules)

text \<open>When the exit event is not set, every row has its outcome.\<close>

lemma scan_rows_total:
  assumes "\<And>v. \<not> fe_exit env v"
  shows "scan_rows env active rows w = (Inr (List.map_filter (row_outcome env active) rows), w)"
  using assms by (induction rows) (simp_all add: bindS_def List.map_filter_simps split: option.split)

lemma poll_cycle_deletes:
  assumes "qselect (fe_server env) all_jobs_query (fw_hist w) = (Inr ids, h)" "\<And>v. \<not> fe_exit env v"
    and "outcomes = List.map_filter (row_outcome env ids) (db_jobs (fw_db w))"
  shows "poll_cycle env w = catchS (process_finished_jobs env (List.map_filter snd outcomes)) (\<lambda>_. ret ())
    (w\<lparr>fw_hist := h, fw_db := snd (delete_jobs (map fst outcomes) (fw_db w))\<rparr>)"
proof -
  obtain s' where d: "delete_jobs (map fst outcomes) (fw_db w) = (Inr (), s')"
    by (simp add: delete_jobs_def transaction_def delete_rows)
  have "s' = fw_db w" if "outcomes = []" using d that by (simp add: delete_jobs_def transaction_def)
  with assms d show ?thesis
    by (simp add: poll_cycle_def catchS_def bindS_def thenS_def on_fshell_def scan_rows_total on_fdb_def)
qed

definition rows_name_themselves :: "db_env \<Rightarrow> job_db \<Rightarrow> bool" where
  "rows_name_themselves env s \<longleftrightarrow> (\<forall>(k, r) \<in> set (db_jobs s). \<exists>job jid. k = Some jid \<and> strip jid = jid \<and> jid \<noteq> [] \<and>
     convert_db_entry_to_job env (Some r) = Inr (Some job) \<and> job_id job = k)"

lemma poll_outcomes:
  assumes "rows_name_themselves (fe_db env) s"
  shows "fst ` set (List.map_filter (row_outcome env ids) (db_jobs s)) = fst ` set (db_jobs s) - Some ` set ids"
proof -
  have row: "\<exists>x. row_outcome env ids (k, r) = (if k \<in> Some ` set ids then None else Some (k, x))" if "(k, r) \<in> set (db_jobs s)" for k r
  proof -
    from assms that obtain job jid where "k = Some jid" "strip jid = jid" "jid \<noteq> []"
      "convert_db_entry_to_job (fe_db env) (Some r) = Inr (Some job)" "job_id job = k"
      by (auto simp: rows_name_themselves_def)
    then show ?thesis by (auto simp: row_outcome_def Let_def)
  qed
  show ?thesis
  proof (intro set_eqI iffI)
    fix k assume "k \<in> fst ` set (List.map_filter (row_outcome env ids) (db_jobs s))"
    then obtain k' r y where "(k', r) \<in> set (db_jobs s)" "row_outcome env ids (k', r) = Some (k, y)"
      by (auto simp: List.map_filter_def split: if_splits)
    with row [of k' r] show "k \<in> fst ` set (db_jobs s) - Some ` set ids" by (auto split: if_splits intro: rev_image_eqI)
  next
    fix k assume "k \<in> fst ` set (db_jobs s) - Some ` set ids"
    then obtain r where r: "(k, r) \<in> set (db_jobs s)" "k \<notin> Some ` set ids" by auto
    with row [of k r] obtain x where "row_outcome env ids (k, r) = Some (k, x)" by auto
    with r have "(k, x) \<in> set (List.map_filter (row_outcome env ids) (db_jobs s))"
      by (auto simp: List.map_filter_def intro!: image_eqI [of _ _ "(k, r)"])
    then show "k \<in> fst ` set (List.map_filter (row_outcome env ids) (db_jobs s))" by force
  qed
qed


text \<open>The finished jobs are removed from the cache before the server is asked about them: when that query fails, no job
  that has left the server is in the cache any more, none has been added to the finished jobs, and nothing is reported.\<close>

lemma failed_query_loses_finished_jobs:
  assumes "qselect (fe_server env) all_jobs_query (fw_hist w) = (Inr ids, h)" "\<And>v. \<not> fe_exit env v"
    and "rows_name_themselves (fe_db env) (fw_db w)"
    and "\<And>js. js \<noteq> [] \<Longrightarrow> \<exists>e. fst (list_jobs_query (fe_server env) (job_query_of (Some js) (Some (OneState JS_FINISHED))) h) = Inl e"
    and "k \<notin> Some ` set ids"
  shows "map_of (db_jobs (fw_db (snd (poll_cycle env w)))) k = None \<and>
    db_finished (fw_db (snd (poll_cycle env w))) = db_finished (fw_db w) \<and> fw_reports (snd (poll_cycle env w)) = fw_reports w"
proof -
  let ?out = "List.map_filter (row_outcome env ids) (db_jobs (fw_db w))"
  let ?w = "w\<lparr>fw_hist := h, fw_db := snd (delete_jobs (map fst ?out) (fw_db w))\<rparr>"
  have gone: "\<exists>r h'. catchS (process_finished_jobs env jobs) (\<lambda>_. ret ()) ?w = (r, ?w\<lparr>fw_hist := h'\<rparr>)" for jobs
  proof -
    show ?thesis
    proof (cases "jobs = []")
      case False
      show ?thesis
      proof (cases "traverseE (\<lambda>j. required TypeError (job_id j)) jobs")
        case (Inr js)
        with False have "js \<noteq> []" using traverseE_Inr_length [OF Inr] by auto
        then obtain e h' where "list_jobs_query (fe_server env) (job_query_of (Some js) (Some (OneState JS_FINISHED))) h = (Inl e, h')"
          using assms(4) by (metis prod.collapse)
        with False Inr show ?thesis
          by (auto simp: process_finished_jobs_def catchS_def bindS_def on_fshell_def)
      qed (use False in \<open>auto simp: process_finished_jobs_def catchS_def bindS_def intro: exI [of _ h]\<close>)
    qed (auto simp: process_finished_jobs_def catchS_def intro: exI [of _ h])
  qed
  from gone [of "List.map_filter snd ?out"] obtain r h' where c: "poll_cycle env w = (r, ?w\<lparr>fw_hist := h'\<rparr>)"
    by (auto simp: poll_cycle_deletes [OF assms(1,2) refl])
  have "map_of (db_jobs (fw_db ?w)) k = (if k \<in> fst ` set ?out then None else map_of (db_jobs (fw_db w)) k)"
    by (simp add: delete_jobs_def transaction_def delete_rows tab.find_drop_all)
  moreover have "map_of (db_jobs (fw_db w)) k = None" if "k \<notin> fst ` set (db_jobs (fw_db w))" using that by (simp add: map_of_eq_None_iff)
  ultimately have "map_of (db_jobs (fw_db ?w)) k = None" using poll_outcomes [OF assms(3), of ids] assms(5) by auto
  then show ?thesis by (simp add: c) (simp add: delete_jobs_def transaction_def delete_rows)
qed

section \<open>What a long job costs\<close>

lemma timedelta_seconds_days: "timedelta_seconds (d * 86400000000 + t) = timedelta_seconds t"
proof -
  have "(d * 86400000000 + t) div 1000000 = t div 1000000 + d * 86400"
    using div_mult_self1 [of "1000000 :: int" t "d * 86400"] by (simp add: algebra_simps)
  then show ?thesis by (simp add: timedelta_seconds_def)
qed

text \<open>C29: The running time of a finished job is taken from \<open>timedelta.seconds\<close>, which drops whole days: a job that ran for days is
  priced as one that ran for the rest of its last day, and never as running longer than a day.\<close>

lemma long_jobs_priced_short:
  assumes "start_time job = Some s" "end_time job = Some (s + (d * 86400000000 + t))"
    and "get_job_execution_hosts (fe_db env) (job_id job) (fw_db w) = (Inr hs, fw_db w)"
  shows "\<exists>fj w'. apply_job_execution_context env \<lparr>fj_job = job, fj_budget_usage = None\<rparr> w = (Inr fj, w') \<and>
    get_total_time_seconds (fj_job fj) = Inr (Some (timedelta_seconds t)) \<and>
    compute_and_apply_estimated_costs env fj =
      (case compute_estimated_bom_cost (fe_price env (billed_secs (Some (timedelta_seconds t)))) (fj_job fj) of
         Inl _ \<Rightarrow> fj | Inr cost \<Rightarrow> fj\<lparr>fj_job := (fj_job fj)\<lparr>estimated_bom_cost := Some cost\<rparr>\<rparr>) \<and>
    60 \<le> billed_secs (Some (timedelta_seconds t)) \<and> billed_secs (Some (timedelta_seconds t)) < 86400"
proof -
  have "run_secs job = Some (timedelta_seconds t)"
    using assms(1,2) by (simp add: run_secs_def timedelta_seconds_days)
  moreover obtain s' where "delete_job_execution_hosts (job_id job) (fw_db w) = (Inr (), s')"
    by (simp add: delete_job_execution_hosts_def transaction_def)
  ultimately show ?thesis using assms(3) timedelta_seconds_bounds(2) [of t]
    by (simp add: apply_job_execution_context_def catchS_def bindS_def thenS_def on_fdb_def
        compute_and_apply_estimated_costs_def get_total_time_seconds_def billed_secs_def)
qed

end
