(* ===== verification/Monitor_View.thy ===== *)
theory Monitor_View
  imports Job_Monitor Finished_Jobs PBS_View
begin

text \<open>
  A monitor on a server that always lists the job 7: the premises of the properties of \<open>Job_Monitor\<close> and \<open>Finished_Jobs\<close> hold on
  concrete inputs.
\<close>

definition listing_server :: pbs_server where
  "listing_server = (sample_server 0 [])\<lparr>sv_run := (\<lambda>_ _. \<lparr>cp_returncode = 0, cp_stdout = ''7.ip-10-0-0-1'', cp_stderr = []\<rparr>)\<rparr>"

definition sample_jm_env :: jm_env where
  "sample_jm_env = \<lparr>jme_server = listing_server, jme_db = sample_db_env, jme_queue_env = (\<lambda>_. sample_env 0),
     jme_profile = (\<lambda>_. Inr sample_profile), jme_profiles = Inr [sample_profile], jme_exit = (\<lambda>_. False),
     jme_read_event = (\<lambda>_. Inl ValidationError)\<rparr>"

definition sample_jm_world :: "job_db \<Rightarrow> jm_world" where
  "sample_jm_world db = \<lparr>jm_state = new_monitor_state, jm_hist = [], jm_db = db,
     jm_queues = [None \<mapsto> (sample_profile, pq_init)], jm_reports = []\<rparr>"

lemma listing_qselect: "\<exists>h. qselect listing_server (queued_query qn) hist = (Inr [''7''], h)"
proof -
  have "map (\<lambda>l. hd (split_char (CHR ''.'') l)) (split_lines (strip ''7.ip-10-0-0-1'')) = [''7'']" by code_simp
  then show ?thesis
    by (simp add: qselect_def bindS_def qselect_command_def state_arguments_def get_queue_select_state_filter_def queued_query_def
        job_query_of_def is_job_state_query_def listing_server_def Let_def)
qed

lemma sync_queued_returns_witness: "\<exists>r w'. sync_queued 2 sample_jm_env (Some ''normal'') [] [''7''] (sample_jm_world empty_job_db) = Some (r, w')"
proof (rule sync_queued_returns)
  fix hist ids
  assume "fst (qselect (jme_server sample_jm_env) (queued_query (Some ''normal'')) hist) = Inr ids"
  with listing_qselect [of "Some ''normal''" hist] show "set ids \<subseteq> {''7''}" by (auto simp: sample_jm_env_def)
qed simp_all

lemma cached_jobs_not_submitted_witness:
  "fst (sync_queue_queued 1 sample_jm_env (Some ''normal'') (sample_jm_world sample_cached)) = Inr () \<and>
   jm_queues (snd (sync_queue_queued 1 sample_jm_env (Some ''normal'') (sample_jm_world sample_cached))) None = Some (sample_profile, pq_init)"
proof -
  let ?w = "sample_jm_world sample_cached"
  from listing_qselect [of "Some ''normal''" "[]"] obtain w1 where w1: "queued_ids sample_jm_env (Some ''normal'') ?w = (Inr [''7''], w1)"
    by (auto simp: queued_ids_def on_shell_def sample_jm_env_def sample_jm_world_def)
  have "case fst (jobs_get sample_db_env (Some ''7'') sample_cached) of Inr (Some j) \<Rightarrow> True | _ \<Rightarrow> False" by code_simp
  then have "\<exists>job. fst (jobs_get sample_db_env (Some ''7'') sample_cached) = Inr (Some job)"
    by (auto split: sum.splits option.splits)
  then have "\<exists>job. fst (jobs_get (jme_db sample_jm_env) (Some i) (jm_db ?w)) = Inr (Some job)" if "i \<in> set [''7'']" for i
    using that by (simp add: sample_jm_env_def sample_jm_world_def)
  from cached_jobs_not_submitted [OF w1 zero_less_one this] show ?thesis by (simp add: sample_jm_world_def)
qed


section \<open>A cycle of the poll\<close>

definition sample_fj_env :: fj_env where
  "sample_fj_env = \<lparr>fe_db = sample_db_env, fe_to_json = (\<lambda>_. Inr ''{}''),
     fe_server = listing_server\<lparr>sv_json := (\<lambda>_. Inl ValueError)\<rparr>, fe_price = (\<lambda>_. sample_price_env),
     fe_budget = sample_prov_env None, fe_effect = (\<lambda>_. Inr ()), fe_exit = (\<lambda>_. False)\<rparr>"

definition sample_fj_world :: fj_world where
  "sample_fj_world = \<lparr>fw_db = sample_cached, fw_hist = [], fw_reports = []\<rparr>"

lemma poll_qselect: "\<exists>h. qselect (fe_server sample_fj_env) all_jobs_query hist = (Inr [''7''], h)"
proof -
  have "map (\<lambda>l. hd (split_char (CHR ''.'') l)) (split_lines (strip ''7.ip-10-0-0-1'')) = [''7'']" by code_simp
  then show ?thesis
    by (simp add: qselect_def bindS_def qselect_command_def state_arguments_def all_jobs_query_def sample_fj_env_def
        job_query_of_def is_job_state_query_def listing_server_def Let_def)
qed

lemma sample_rows_name_themselves: "rows_name_themselves (fe_db sample_fj_env) (fw_db sample_fj_world)"
proof -
  have "map fst (db_jobs sample_cached) = [Some ''7'', Some ''8'']" by code_simp
  then obtain r s where rows: "db_jobs sample_cached = [(Some ''7'', r), (Some ''8'', s)]" by (auto simp: map_eq_Cons_conv)
  have "map (r_job_data \<circ> snd) (db_jobs sample_cached) = [''7'', ''8'']" by code_simp
  with rows have data: "r_job_data r = ''7''" "r_job_data s = ''8''" by simp_all
  have str: "strip ''7'' = ''7''" "strip ''8'' = ''8''" by code_simp+
  show ?thesis using rows data str
    by (simp add: rows_name_themselves_def sample_fj_env_def sample_fj_world_def convert_db_entry_to_job_def sample_db_env_def
        sample_queued_def Let_def)
qed


lemma bindS_fails: "fst (m s) = Inl e \<Longrightarrow> fst (bindS m f s) = Inl e"
  by (cases "m s") (simp add: bindS_def)

lemma failed_query_loses_finished_jobs_witness:
  "map_of (db_jobs (fw_db (snd (poll_cycle sample_fj_env sample_fj_world)))) (Some ''8'') = None \<and>
   db_finished (fw_db (snd (poll_cycle sample_fj_env sample_fj_world))) = []"
proof -
  from poll_qselect obtain h where q: "qselect (fe_server sample_fj_env) all_jobs_query (fw_hist sample_fj_world) = (Inr [''7''], h)" by blast
  have x: "\<not> fe_exit sample_fj_env v" for v by (simp add: sample_fj_env_def)
  have stripped: "strip ''7.ip-10-0-0-1'' = ''7.ip-10-0-0-1''" by code_simp
  have fails: "\<exists>e. fst (list_jobs_query (fe_server sample_fj_env) (job_query_of (Some js) (Some (OneState JS_FINISHED))) h) = Inl e"
    if "js \<noteq> []" for js
  proof -
    have "fst (job_pages (fe_server sample_fj_env) cmd js 0 (length js) None [] h) = Inl ValueError" for cmd
      using that stripped by (subst job_pages.simps)
        (simp add: sample_fj_env_def listing_server_def bindS_def handle_qstat_result_def is_empty_str_def)
    with that show ?thesis
      by (cases js) (auto simp: list_jobs_query_def job_query_of_def bindS_fails)
  qed
  have "db_finished sample_cached = []" by code_simp
  with failed_query_loses_finished_jobs [OF q x sample_rows_name_themselves fails, of "Some ''8''"]
  show ?thesis by (simp add: sample_fj_world_def)
qed

lemma long_jobs_priced_short_witness:
  "\<exists>fj w'. apply_job_execution_context sample_fj_env
      \<lparr>fj_job = (sample_queued ''7'' 2)\<lparr>start_time := Some 0, end_time := Some (2 * 86400000000 + 120000000)\<rparr>, fj_budget_usage = None\<rparr>
      sample_fj_world = (Inr fj, w') \<and> get_total_time_seconds (fj_job fj) = Inr (Some 120)"
proof -
  let ?job = "(sample_queued ''7'' 2)\<lparr>start_time := Some 0, end_time := Some (2 * 86400000000 + 120000000)\<rparr>"
  have "db_hosts sample_cached = []" by code_simp
  then have "get_job_execution_hosts (fe_db sample_fj_env) (job_id ?job) (fw_db sample_fj_world) = (Inr [], fw_db sample_fj_world)"
    by (simp add: get_job_execution_hosts_def sample_fj_world_def)
  from long_jobs_priced_short [OF _ _ this, of 0 2 120000000] show ?thesis by (force simp: timedelta_seconds_def)
qed

end
