(* ===== verification/Profile_Store.thy ===== *)
theory Profile_Store
  imports Queue_Types Py_Dict
begin

text \<open>
  How queue profiles are kept, \<open>HpcQueueProfilesDAO\<close> of
  \<open>ideascheduler/app/provisioning/job_provisioning_queue/hpc_queue_profiles_dao.py\<close>: the conversion of a profile to the item of a
  DynamoDB table and back, and the operations on the table. An item is a dict; a decimal number of the table is read like the
  float it was made of. The table is the association list of its items under their id, in the order a scan answers them; the
  creation of the table is left out. What \<open>str\<close> prints for a value of no expected type is the parameter \<open>fmt\<close>.
\<close>

section \<open>The profile\<close>

record hpc_profile =
  hp_id :: "string option"
  hp_title :: "string option"
  hp_description :: "string option"
  hp_name :: "string option"
  hp_projects :: "string option list option"
  hp_scaling_mode :: "SocaScalingMode option"
  hp_queue_mode :: "SocaQueueMode option"
  hp_enabled :: "bool option"
  hp_queues :: "string list option"
  hp_keep_forever :: "bool option"
  hp_terminate_when_idle :: "int option"
  hp_stack_uuid :: "string option"
  hp_params :: "queue_params option"
  hp_job_params :: "job_params option"

definition empty_queue_params :: queue_params where
  "empty_queue_params = \<lparr>max_running_jobs = None, max_provisioned_instances = None, max_provisioned_capacity = None,
     wait_on_any_job_with_license = None, allowed_instance_types = None, excluded_instance_types = None,
     restricted_parameters = None, allowed_security_groups = None, allowed_instance_profiles = None\<rparr>"

fun mem_unit_str :: "mem_unit \<Rightarrow> string" where
  "mem_unit_str BYTES = ''bytes''"
| "mem_unit_str KiB = ''kib''"
| "mem_unit_str MiB = ''mib''"
| "mem_unit_str GiB = ''gib''"
| "mem_unit_str TiB = ''tib''"
| "mem_unit_str KB = ''kb''"
| "mem_unit_str MB = ''mb''"
| "mem_unit_str GB = ''gb''"
| "mem_unit_str TB = ''tb''"

definition all_mem_units :: "mem_unit list" where
  "all_mem_units = [BYTES, KiB, MiB, GiB, TiB, KB, MB, GB, TB]"

text \<open>The enumerations called with a text: exactly the text of one of the members.\<close>

definition mem_unit_of_str :: "string \<Rightarrow> mem_unit res" where
  "mem_unit_of_str s = (case List.find (\<lambda>u. mem_unit_str u = s) all_mem_units of Some u \<Rightarrow> Inr u | None \<Rightarrow> Inl ValueError)"

definition strategy_of_str :: "string \<Rightarrow> SocaSpotAllocationStrategy res" where
  "strategy_of_str s = (case List.find (\<lambda>u. strategy_str u = s) [CAPACITY_OPTIMIZED, LOWEST_PRICE, DIVERSIFIED] of
     Some u \<Rightarrow> Inr u | None \<Rightarrow> Inl ValueError)"

section \<open>Writing\<close>

text \<open>A column holds a value or is not written.\<close>

definition to_item :: "(string \<times> pyval option) list \<Rightarrow> pydict" where
  "to_item cols = List.map_filter (\<lambda>(k, v). map_option (Pair k) v) cols"

abbreviation ints :: "int option \<Rightarrow> pyval option" where "ints \<equiv> map_option PInt"
abbreviation bools :: "bool option \<Rightarrow> pyval option" where "bools \<equiv> map_option PBool"
abbreviation strs :: "string option \<Rightarrow> pyval option" where "strs \<equiv> map_option PStr"
abbreviation lists :: "string list option \<Rightarrow> pyval option" where "lists \<equiv> map_option (\<lambda>xs. PList (map PStr xs))"
abbreviation mem_values :: "soca_memory option \<Rightarrow> pyval option" where "mem_values \<equiv> map_option (\<lambda>m. PFloat (mem_value m))"
abbreviation mem_units :: "soca_memory option \<Rightarrow> pyval option" where "mem_units \<equiv> map_option (\<lambda>m. PStr (mem_unit_str (mem_unit m)))"

definition project_ids_column :: "string option list option \<Rightarrow> pyval option" where
  "project_ids_column ps =
     (case ps of None \<Rightarrow> None
      | Some xs \<Rightarrow>
          let ids = map (\<lambda>x. PStr (opt_or x [])) (filter (\<lambda>x. \<not> is_empty_opt_str x) xs)
          in if ids = [] then None else Some (PList ids))"

definition profile_columns :: "hpc_profile \<Rightarrow> (string \<times> pyval option) list" where
  "profile_columns p =
     [(''queue_profile_id'', strs (hp_id p)), (''title'', strs (hp_title p)), (''description'', strs (hp_description p)),
      (''name'', strs (hp_name p)), (''project_ids'', project_ids_column (hp_projects p)),
      (''scaling_mode'', map_option (\<lambda>m. PStr (scaling_mode_str m)) (hp_scaling_mode p)),
      (''queue_mode'', map_option (\<lambda>m. PStr (queue_mode_str m)) (hp_queue_mode p)), (''enabled'', bools (hp_enabled p)),
      (''queues'', lists (hp_queues p)), (''keep_forever'', bools (hp_keep_forever p)),
      (''terminate_when_idle'', ints (hp_terminate_when_idle p)), (''stack_uuid'', strs (hp_stack_uuid p))]"

definition queue_params_columns :: "queue_params \<Rightarrow> (string \<times> pyval option) list" where
  "queue_params_columns q =
     [(''max_running_jobs'', ints (max_running_jobs q)), (''max_provisioned_instances'', ints (max_provisioned_instances q)),
      (''max_provisioned_capacity'', ints (max_provisioned_capacity q)),
      (''wait_on_any_job_with_license'', bools (wait_on_any_job_with_license q)),
      (''allowed_instance_types'', lists (allowed_instance_types q)), (''excluded_instance_types'', lists (excluded_instance_types q)),
      (''restricted_parameters'', lists (restricted_parameters q)), (''allowed_security_groups'', lists (allowed_security_groups q)),
      (''allowed_instance_profiles'', lists (allowed_instance_profiles q))]"

definition job_params_columns :: "job_params \<Rightarrow> (string \<times> pyval option) list" where
  "job_params_columns j =
     [(''param_nodes'', ints (p_nodes j)), (''param_cpus'', ints (p_cpus j)), (''param_memory'', mem_values (p_memory j)),
      (''param_memory_unit'', mem_units (p_memory j)), (''param_gpus'', ints (p_gpus j)), (''param_mpiprocs'', ints (p_mpiprocs j)),
      (''param_walltime'', strs (p_walltime j)), (''param_base_os'', strs (p_base_os j)),
      (''param_instance_ami'', strs (p_instance_ami j)), (''param_instance_types'', lists (p_instance_types j)),
      (''param_force_reserved_instances'', bools (p_force_reserved_instances j)), (''param_spot'', bools (p_spot j)),
      (''param_spot_price'', map_option PFloat (p_spot_price j)), (''param_spot_allocation_count'', ints (p_spot_allocation_count j)),
      (''param_spot_allocation_strategy'', map_option (\<lambda>s. PStr (strategy_str s)) (p_spot_allocation_strategy j)),
      (''param_subnet_ids'', lists (p_subnet_ids j)), (''param_security_groups'', lists (p_security_groups j)),
      (''param_instance_profile'', strs (p_instance_profile j)), (''param_keep_ebs_volumes'', bools (p_keep_ebs_volumes j)),
      (''param_root_storage_size'', mem_values (p_root_storage_size j)),
      (''param_root_storage_size_unit'', mem_units (p_root_storage_size j)),
      (''param_enable_scratch'', bools (p_enable_scratch j)), (''param_scratch_provider'', strs (p_scratch_provider j)),
      (''param_scratch_storage_size'', mem_values (p_scratch_storage_size j)),
      (''param_scratch_storage_size_unit'', mem_units (p_scratch_storage_size j)),
      (''param_scratch_storage_iops'', ints (p_scratch_storage_iops j)),
      (''param_enable_instance_store'', bools (p_enable_instance_store j)),
      (''param_enable_efa_support'', bools (p_enable_efa_support j)), (''param_enable_ht_support'', bools (p_enable_ht_support j)),
      (''param_enable_placement_group'', bools (p_enable_placement_group j)),
      (''param_enable_system_metrics'', bools (p_enable_system_metrics j)),
      (''param_enable_anonymous_metrics'', bools (p_enable_anonymous_metrics j)),
      (''param_compute_stack'', strs (p_compute_stack j)), (''param_stack_id'', strs (p_stack_id j)),
      (''param_job_group'', strs (p_job_group j))]"

definition fsx_columns :: "fsx_config \<Rightarrow> (string \<times> pyval option) list" where
  "fsx_columns c =
     [(''param_fsx_lustre_enabled'', bools (fsx_enabled c)), (''param_fsx_lustre_existing_fsx'', strs (existing_fsx c)),
      (''param_fsx_lustre_s3_backend'', strs (s3_backend c)), (''param_fsx_lustre_import_path'', strs (import_path c)),
      (''param_fsx_lustre_export_path'', strs (export_path c)), (''param_fsx_lustre_deployment_type'', strs (deployment_type c)),
      (''param_fsx_lustre_per_unit_throughput'', ints (per_unit_throughput c)),
      (''param_fsx_lustre_size'', mem_values (fsx_size c)), (''param_fsx_lustre_size_unit'', mem_units (fsx_size c))]"

definition all_columns :: "hpc_profile \<Rightarrow> (string \<times> pyval option) list" where
  "all_columns p =
     profile_columns p @
     (case hp_params p of None \<Rightarrow> [] | Some q \<Rightarrow> queue_params_columns q) @
     (case hp_job_params p of None \<Rightarrow> []
      | Some j \<Rightarrow> job_params_columns j @ (case p_fsx_lustre j of None \<Rightarrow> [] | Some c \<Rightarrow> fsx_columns c))"

definition convert_to_db :: "hpc_profile \<Rightarrow> pydict" where
  "convert_to_db p = to_item (all_columns p)"

section \<open>Reading\<close>

definition strings_at :: "(pyval \<Rightarrow> string) \<Rightarrow> string \<Rightarrow> pydict \<Rightarrow> string list option" where
  "strings_at fmt key d = map_option (map (\<lambda>v. case v of PStr s \<Rightarrow> s | _ \<Rightarrow> fmt v)) (get_value_as_list key d None)"

definition memory_at :: "(pyval \<Rightarrow> string) \<Rightarrow> string \<Rightarrow> pydict \<Rightarrow> soca_memory option res" where
  "memory_at fmt key d =
     bindE (get_value_as_float key d None) (\<lambda>v.
       (case (v, get_value_as_string fmt (key @ ''_unit'') d None) of
          (Some x, Some u) \<Rightarrow> bindE (mem_unit_of_str u) (\<lambda>m. Inr (Some (SocaMemory x m)))
        | _ \<Rightarrow> Inr None))"

definition read_queue_params :: "(pyval \<Rightarrow> string) \<Rightarrow> pydict \<Rightarrow> queue_params res" where
  "read_queue_params fmt d =
     bindE (get_value_as_int ''max_running_jobs'' d None) (\<lambda>jobs.
     bindE (get_value_as_int ''max_provisioned_instances'' d None) (\<lambda>instances.
     bindE (get_value_as_int ''max_provisioned_capacity'' d None) (\<lambda>capacity.
       Inr \<lparr>max_running_jobs = jobs, max_provisioned_instances = instances, max_provisioned_capacity = capacity,
         wait_on_any_job_with_license = get_value_as_bool ''wait_on_any_job_with_license'' d None,
         allowed_instance_types = strings_at fmt ''allowed_instance_types'' d,
         excluded_instance_types = strings_at fmt ''excluded_instance_types'' d,
         restricted_parameters = strings_at fmt ''restricted_parameters'' d,
         allowed_security_groups = strings_at fmt ''allowed_security_groups'' d,
         allowed_instance_profiles = strings_at fmt ''allowed_instance_profiles'' d\<rparr>)))"

definition read_fsx :: "(pyval \<Rightarrow> string) \<Rightarrow> pydict \<Rightarrow> fsx_config option res" where
  "read_fsx fmt d =
     (if map_of d ''param_fsx_lustre_enabled'' = None then Inr None
      else bindE (get_value_as_int ''param_fsx_lustre_per_unit_throughput'' d None) (\<lambda>throughput.
           bindE (memory_at fmt ''param_fsx_lustre_size'' d) (\<lambda>sz.
             Inr (Some \<lparr>fsx_enabled = get_value_as_bool ''param_fsx_lustre_enabled'' d None,
               existing_fsx = get_value_as_string fmt ''param_fsx_lustre_existing_fsx'' d None,
               s3_backend = get_value_as_string fmt ''param_fsx_lustre_s3_backend'' d None,
               import_path = get_value_as_string fmt ''param_fsx_lustre_import_path'' d None,
               export_path = get_value_as_string fmt ''param_fsx_lustre_export_path'' d None,
               deployment_type = None, per_unit_throughput = throughput, fsx_size = sz\<rparr>))))"

definition read_job_params :: "(pyval \<Rightarrow> string) \<Rightarrow> pydict \<Rightarrow> job_params res" where
  "read_job_params fmt d =
     (let str = (\<lambda>k. get_value_as_string fmt k d None); flag = (\<lambda>k. get_value_as_bool k d None); num = (\<lambda>k. get_value_as_int k d None) in
     bindE (num ''param_nodes'') (\<lambda>nodes.
     bindE (num ''param_cpus'') (\<lambda>cpus.
     bindE (memory_at fmt ''param_memory'' d) (\<lambda>memory.
     bindE (num ''param_gpus'') (\<lambda>gpus.
     bindE (num ''param_mpiprocs'') (\<lambda>mpiprocs.
     bindE (get_value_as_float ''param_spot_price'' d None) (\<lambda>spot_price.
     bindE (num ''param_spot_allocation_count'') (\<lambda>spot_count.
     bindE (case str ''param_spot_allocation_strategy'' of None \<Rightarrow> Inr None
            | Some s \<Rightarrow> bindE (strategy_of_str s) (\<lambda>x. Inr (Some x))) (\<lambda>strategy.
     bindE (memory_at fmt ''param_root_storage_size'' d) (\<lambda>root_size.
     bindE (memory_at fmt ''param_scratch_storage_size'' d) (\<lambda>scratch_size.
     bindE (num ''param_scratch_storage_iops'') (\<lambda>iops.
     bindE (read_fsx fmt d) (\<lambda>fsx.
       Inr (empty_job_params\<lparr>p_nodes := nodes, p_cpus := cpus, p_memory := memory, p_gpus := gpus, p_mpiprocs := mpiprocs,
         p_base_os := str ''param_base_os'', p_instance_ami := str ''param_instance_ami'',
         p_instance_types := strings_at fmt ''param_instance_types'' d,
         p_force_reserved_instances := flag ''param_force_reserved_instances'', p_spot := flag ''param_spot'',
         p_spot_price := spot_price, p_spot_allocation_count := spot_count, p_spot_allocation_strategy := strategy,
         p_subnet_ids := strings_at fmt ''param_subnet_ids'' d, p_security_groups := strings_at fmt ''param_security_groups'' d,
         p_instance_profile := str ''param_instance_profile'', p_root_storage_size := root_size,
         p_enable_scratch := flag ''param_enable_scratch'', p_scratch_provider := str ''param_scratch_provider'',
         p_scratch_storage_size := scratch_size, p_scratch_storage_iops := iops, p_fsx_lustre := fsx,
         p_enable_instance_store := flag ''param_enable_instance_store'', p_enable_efa_support := flag ''param_enable_efa_support'',
         p_enable_ht_support := flag ''param_enable_ht_support'', p_enable_placement_group := flag ''param_enable_placement_group'',
         p_enable_system_metrics := flag ''param_enable_system_metrics'',
         p_enable_anonymous_metrics := flag ''param_enable_anonymous_metrics'',
         p_compute_stack := str ''param_compute_stack'', p_stack_id := str ''param_stack_id'',
         p_job_group := str ''param_job_group''\<rparr>))))))))))))))"

definition convert_from_db :: "(pyval \<Rightarrow> string) \<Rightarrow> pydict \<Rightarrow> hpc_profile res" where
  "convert_from_db fmt d =
     (let str = (\<lambda>k. get_value_as_string fmt k d None) in
     bindE (get_value_as_int ''terminate_when_idle'' d None) (\<lambda>idle.
     bindE (read_queue_params fmt d) (\<lambda>qp.
     bindE (read_job_params fmt d) (\<lambda>jp.
       Inr \<lparr>hp_id = str ''queue_profile_id'', hp_title = str ''title'', hp_description = str ''description'', hp_name = str ''name'',
         hp_projects = map_option (map Some) (strings_at fmt ''project_ids'' d),
         hp_scaling_mode = (if is_empty_opt_str (str ''scaling_mode'') then None else resolve_scaling_mode (str ''scaling_mode'') None),
         hp_queue_mode = (if is_empty_opt_str (str ''queue_mode'') then None else resolve_queue_mode (str ''queue_mode'') None),
         hp_enabled = get_value_as_bool ''enabled'' d None, hp_queues = strings_at fmt ''queues'' d,
         hp_keep_forever = get_value_as_bool ''keep_forever'' d None, hp_terminate_when_idle = idle,
         hp_stack_uuid = str ''stack_uuid'', hp_params = Some qp, hp_job_params = Some jp\<rparr>))))"

section \<open>The table\<close>

type_synonym profile_table = "(string \<times> pydict) list"

definition store_item :: "string \<Rightarrow> pydict \<Rightarrow> profile_table \<Rightarrow> profile_table" where
  "store_item i d t = assign_key i d t"

text \<open>The id is fresh; the keys of the item come before the ones that are always written.\<close>

definition dao_create :: "string \<Rightarrow> int \<Rightarrow> pydict \<Rightarrow> (profile_table, pydict) act" where
  "dao_create fresh now d =
     (let item = fold (\<lambda>(k, v). assign_key k v)
            [(''queue_profile_id'', PStr fresh), (''created_on'', PInt now), (''updated_on'', PInt now)] d
      in thenS (modify (store_item fresh item)) (ret item))"

definition dao_get_by_id :: "string option \<Rightarrow> (profile_table, pydict option) act" where
  "dao_get_by_id i =
     (if is_empty_opt_str i then throw (SocaException ''INVALID_PARAMS'')
      else gets (\<lambda>t. case map_of t (opt_or i []) of None \<Rightarrow> None | Some d \<Rightarrow> if d = [] then None else Some d))"

definition dao_get_by_name :: "string option \<Rightarrow> (profile_table, pydict option) act" where
  "dao_get_by_name n =
     (if is_empty_opt_str n then throw (SocaException ''INVALID_PARAMS'')
      else gets (\<lambda>t. List.find (\<lambda>d. map_of d ''name'' = Some (PStr (opt_or n []))) (map snd t)))"

definition dao_get_by_queue :: "string option \<Rightarrow> (profile_table, pydict option) act" where
  "dao_get_by_queue q =
     (if is_empty_opt_str q then throw (SocaException ''INVALID_PARAMS'')
      else gets (\<lambda>t. List.find (\<lambda>d. PStr (opt_or q []) \<in> set (opt_or (get_value_as_list ''queues'' d None) [])) (map snd t)))"

definition conditional_check_failed :: exc where
  "conditional_check_failed = ClientError ''ConditionalCheckFailedException''"

text \<open>Only the attributes of the update are written, so what it leaves out keeps its value.\<close>

definition dao_update :: "int \<Rightarrow> pydict \<Rightarrow> (profile_table, pydict) act" where
  "dao_update now d =
     bindS (reads (\<lambda>_. required KeyError (map_of d ''queue_profile_id''))) (\<lambda>v.
     (case v of
        PStr i \<Rightarrow>
          (if is_empty_str i then throw (SocaException ''INVALID_PARAMS'')
           else bindS (gets (\<lambda>t. map_of t i)) (\<lambda>old.
             case old of
               None \<Rightarrow> throw conditional_check_failed
             | Some item \<Rightarrow>
                 let changes = filter (\<lambda>(k, _). k \<notin> {''queue_profile_id'', ''created_on''}) (assign_key ''updated_on'' (PInt now) d);
                     item' = assign_key ''queue_profile_id'' (PStr i) (fold (\<lambda>(k, v). assign_key k v) changes item)
                 in thenS (modify (store_item i item')) (ret item')))
      | _ \<Rightarrow> throw (SocaException ''INVALID_PARAMS'')))"

definition dao_delete :: "string option \<Rightarrow> (profile_table, unit) act" where
  "dao_delete i =
     (if is_empty_opt_str i then throw (SocaException ''INVALID_PARAMS'')
      else modify (filter (\<lambda>(k, _). k \<noteq> opt_or i [])))"

definition dao_list :: "profile_table \<Rightarrow> pydict list" where
  "dao_list t = map snd t"

section \<open>Reading what was written\<close>

lemma map_of_to_item:
  "distinct (map fst cols) \<Longrightarrow> map_of (to_item cols) k = (case map_of cols k of None \<Rightarrow> None | Some v \<Rightarrow> v)"
proof (induction cols arbitrary: k)
  case (Cons c cols)
  obtain k' v where c: "c = (k', v)" by (cases c)
  from Cons.prems c have "map_of cols k' = None" by (simp add: map_of_eq_None_iff)
  with Cons.IH [of k'] Cons.prems c have "map_of (to_item cols) k' = None" by simp
  with Cons.IH [of k] Cons.prems c show ?case by (auto simp: to_item_def List.map_filter_simps split: option.splits)
qed (simp add: to_item_def List.map_filter_simps)

text \<open>A column of each type reads back as what it was made of.\<close>

lemma read_column:
  "map_of d k = ints i \<Longrightarrow> get_value_as_int k d None = Inr i"
  "map_of d k = bools b \<Longrightarrow> get_value_as_bool k d None = b"
  "map_of d k = map_option PFloat x \<Longrightarrow> get_value_as_float k d None = Inr x"
  by (cases i; cases b; cases x; simp add: get_value_as_int_def get_value_as_bool_def get_value_as_float_def get_any_value_def value_exists_def)+

definition clean :: "string option \<Rightarrow> bool" where
  "clean s = (case s of None \<Rightarrow> True | Some t \<Rightarrow> strip t = t \<and> t \<noteq> [])"

lemma read_str: "map_of d k = strs s \<Longrightarrow> clean s \<Longrightarrow> get_value_as_string fmt k d None = s"
  by (cases s) (auto simp: clean_def get_value_as_string_def get_any_value_def value_exists_def is_empty_str_def Let_def)

lemma read_list: "map_of d k = lists xs \<Longrightarrow> xs \<noteq> Some [] \<Longrightarrow> strings_at fmt k d = xs"
  by (cases xs) (auto simp: strings_at_def get_value_as_list_def get_any_value_def value_exists_def o_def)

lemma mem_unit_round_trip: "mem_unit_of_str (mem_unit_str u) = Inr u"
  by (cases u) (simp_all add: mem_unit_of_str_def all_mem_units_def)

lemma strategy_round_trip: "strategy_of_str (strategy_str s) = Inr s"
  by (cases s) (simp_all add: strategy_of_str_def)

lemma clean_names: "clean (Some (mem_unit_str u))" "clean (Some (strategy_str s))" "clean (Some (scaling_mode_str m))" "clean (Some (queue_mode_str q))"
proof -
  show "clean (Some (mem_unit_str u))" by (cases u; simp; code_simp)
  show "clean (Some (strategy_str s))" by (cases s; simp; code_simp)
  show "clean (Some (scaling_mode_str m))" by (cases m; simp; code_simp)
  show "clean (Some (queue_mode_str q))" by (cases q; simp; code_simp)
qed

lemma read_memory:
  assumes "map_of d k = mem_values m" "map_of d (k @ ''_unit'') = mem_units m"
  shows "memory_at fmt k d = Inr m"
proof (cases m)
  case (Some x)
  from assms Some have "get_value_as_float k d None = Inr (Some (mem_value x))" by (intro read_column(3)) simp
  moreover have "get_value_as_string fmt (k @ ''_unit'') d None = Some (mem_unit_str (mem_unit x))"
    using assms Some clean_names(1) by (intro read_str) simp_all
  ultimately show ?thesis using Some by (simp add: memory_at_def mem_unit_round_trip SocaMemory_def)
next
  case None
  with assms(1) read_column(3) [of d k None] show ?thesis by (simp add: memory_at_def)
qed

section \<open>The columns of a profile\<close>

text \<open>A part that is missing writes what an empty part writes: nothing.\<close>

definition part :: "'a option \<Rightarrow> 'a \<Rightarrow> 'a" where
  "part v e = (case v of None \<Rightarrow> e | Some x \<Rightarrow> x)"

definition full_columns :: "hpc_profile \<Rightarrow> (string \<times> pyval option) list" where
  "full_columns p = profile_columns p @ queue_params_columns (part (hp_params p) empty_queue_params) @
     job_params_columns (part (hp_job_params p) empty_job_params) @
     fsx_columns (part (p_fsx_lustre (part (hp_job_params p) empty_job_params)) empty_fsx_config)"

lemma to_item_append: "to_item (a @ b) = to_item a @ to_item b"
  by (simp add: to_item_def List.map_filter_def)

lemma convert_to_db_full: "convert_to_db p = to_item (full_columns p)"
proof -
  have "to_item (queue_params_columns empty_queue_params) = []" "to_item (job_params_columns empty_job_params) = []"
    "to_item (fsx_columns empty_fsx_config) = []"
    by (simp_all add: to_item_def List.map_filter_def queue_params_columns_def empty_queue_params_def job_params_columns_def
        empty_job_params_def fsx_columns_def empty_fsx_config_def)
  moreover have "p_fsx_lustre empty_job_params = None" by (simp add: empty_job_params_def)
  ultimately show ?thesis
    by (simp add: convert_to_db_def all_columns_def full_columns_def part_def to_item_append to_item_def [of "[]"] List.map_filter_simps split: option.split)
qed

definition column_names :: "string list" where
  "column_names = map fst (full_columns \<lparr>hp_id = None, hp_title = None, hp_description = None, hp_name = None, hp_projects = None,
     hp_scaling_mode = None, hp_queue_mode = None, hp_enabled = None, hp_queues = None, hp_keep_forever = None,
     hp_terminate_when_idle = None, hp_stack_uuid = None, hp_params = None, hp_job_params = None\<rparr>)"

lemma full_columns_distinct: "distinct (map fst (full_columns p))"
proof -
  have "map fst (full_columns p) = column_names"
    by (simp add: column_names_def full_columns_def profile_columns_def queue_params_columns_def job_params_columns_def fsx_columns_def)
  moreover have "distinct column_names" by code_simp
  ultimately show ?thesis by simp
qed

lemma column_of_profile: "(k, v) \<in> set (full_columns p) \<Longrightarrow> map_of (convert_to_db p) k = v"
  using full_columns_distinct [of p] by (simp add: convert_to_db_full map_of_to_item)

section \<open>The round trip\<close>

text \<open>What the form of a profile gives: texts without surrounding blanks, lists that are not empty.\<close>

definition proper_list :: "string list option \<Rightarrow> bool" where
  "proper_list xs \<longleftrightarrow> xs \<noteq> Some []"

definition proper_queue_params :: "queue_params \<Rightarrow> bool" where
  "proper_queue_params q \<longleftrightarrow> proper_list (allowed_instance_types q) \<and> proper_list (excluded_instance_types q) \<and>
     proper_list (restricted_parameters q) \<and> proper_list (allowed_security_groups q) \<and> proper_list (allowed_instance_profiles q)"

definition proper_job_params :: "job_params \<Rightarrow> bool" where
  "proper_job_params j \<longleftrightarrow> clean (p_base_os j) \<and> clean (p_instance_ami j) \<and> clean (p_instance_profile j) \<and> clean (p_scratch_provider j) \<and> clean (p_compute_stack j) \<and> clean (p_stack_id j) \<and> clean (p_job_group j) \<and> proper_list (p_instance_types j) \<and> proper_list (p_subnet_ids j) \<and> proper_list (p_security_groups j)"

definition proper_fsx :: "fsx_config \<Rightarrow> bool" where
  "proper_fsx c \<longleftrightarrow> clean (existing_fsx c) \<and> clean (s3_backend c) \<and> clean (import_path c) \<and> clean (export_path c)"

definition proper_projects :: "string option list option \<Rightarrow> bool" where
  "proper_projects ps = (case ps of None \<Rightarrow> True | Some xs \<Rightarrow> xs \<noteq> [] \<and> list_all (\<lambda>x. \<not> is_empty_opt_str x) xs)"

definition proper_profile :: "hpc_profile \<Rightarrow> bool" where
  "proper_profile p \<longleftrightarrow> clean (hp_id p) \<and> clean (hp_title p) \<and> clean (hp_description p) \<and> clean (hp_name p) \<and>
     clean (hp_stack_uuid p) \<and> proper_projects (hp_projects p) \<and> proper_list (hp_queues p) \<and>
     proper_queue_params (part (hp_params p) empty_queue_params) \<and> proper_job_params (part (hp_job_params p) empty_job_params) \<and>
     proper_fsx (part (p_fsx_lustre (part (hp_job_params p) empty_job_params)) empty_fsx_config)"

text \<open>What is read back: the wall time, the keeping of volumes and the deployment type of FSx for Lustre are written and not read; licences,
  templates and custom parameters are not written; an FSx for Lustre configuration that does not say whether it is enabled is not read.\<close>

definition kept_fsx :: "fsx_config option \<Rightarrow> fsx_config option" where
  "kept_fsx c = (case c of None \<Rightarrow> None | Some x \<Rightarrow> if fsx_enabled x = None then None else Some (x\<lparr>deployment_type := None\<rparr>))"

definition kept_params :: "job_params \<Rightarrow> job_params" where
  "kept_params j = j\<lparr>p_walltime := None, p_keep_ebs_volumes := None, p_licenses := None, p_job_started_email_template := None,
     p_job_completed_email_template := None, p_custom_params := None, p_fsx_lustre := kept_fsx (p_fsx_lustre j)\<rparr>"

definition kept_profile :: "hpc_profile \<Rightarrow> hpc_profile" where
  "kept_profile p = p\<lparr>hp_params := Some (part (hp_params p) empty_queue_params),
     hp_job_params := Some (kept_params (part (hp_job_params p) empty_job_params))\<rparr>"

text \<open>An item that holds the columns of a profile, among others.\<close>

definition holds_columns :: "pydict \<Rightarrow> hpc_profile \<Rightarrow> bool" where
  "holds_columns d p \<longleftrightarrow> (\<forall>k v. (k, v) \<in> set (full_columns p) \<longrightarrow> map_of d k = v)"

lemma holds_convert_to_db: "holds_columns (convert_to_db p) p"
  using column_of_profile [of _ _ p] by (auto simp: holds_columns_def)

lemma column_of_part:
  assumes "holds_columns d p"
  shows "(k, v) \<in> set (queue_params_columns (part (hp_params p) empty_queue_params)) \<Longrightarrow> map_of d k = v"
    "(k, v) \<in> set (job_params_columns (part (hp_job_params p) empty_job_params)) \<Longrightarrow> map_of d k = v"
    "(k, v) \<in> set (fsx_columns (part (p_fsx_lustre (part (hp_job_params p) empty_job_params)) empty_fsx_config)) \<Longrightarrow> map_of d k = v"
    "(k, v) \<in> set (profile_columns p) \<Longrightarrow> map_of d k = v"
  using assms by (auto simp: holds_columns_def full_columns_def)

lemma queue_params_read_back:
  assumes "holds_columns d p" "proper_queue_params (part (hp_params p) empty_queue_params)"
  shows "read_queue_params fmt d = Inr (part (hp_params p) empty_queue_params)"
proof -
  let ?q = "part (hp_params p) empty_queue_params"
  note col = column_of_part(1) [OF assms(1), unfolded queue_params_columns_def]
  have num: "get_value_as_int ''max_running_jobs'' d None = Inr (max_running_jobs ?q)"
    "get_value_as_int ''max_provisioned_instances'' d None = Inr (max_provisioned_instances ?q)"
    "get_value_as_int ''max_provisioned_capacity'' d None = Inr (max_provisioned_capacity ?q)"
    by (rule read_column(1), rule col, simp)+
  have flag: "get_value_as_bool ''wait_on_any_job_with_license'' d None = wait_on_any_job_with_license ?q"
    by (rule read_column(2), rule col, simp)
  have "strings_at fmt ''allowed_instance_types'' d = allowed_instance_types ?q"
    "strings_at fmt ''excluded_instance_types'' d = excluded_instance_types ?q"
    "strings_at fmt ''restricted_parameters'' d = restricted_parameters ?q"
    "strings_at fmt ''allowed_security_groups'' d = allowed_security_groups ?q"
    "strings_at fmt ''allowed_instance_profiles'' d = allowed_instance_profiles ?q"
    by (rule read_list, rule col, simp, use assms(2) in \<open>simp add: proper_queue_params_def proper_list_def\<close>)+
  with num flag show ?thesis by (simp add: read_queue_params_def)
qed

lemma fsx_read_back:
  assumes "holds_columns d p" "proper_fsx (part (p_fsx_lustre (part (hp_job_params p) empty_job_params)) empty_fsx_config)"
  shows "read_fsx fmt d = Inr (kept_fsx (p_fsx_lustre (part (hp_job_params p) empty_job_params)))"
proof -
  let ?f = "p_fsx_lustre (part (hp_job_params p) empty_job_params)"
  let ?c = "part ?f empty_fsx_config"
  note col = column_of_part(3) [OF assms(1), unfolded fsx_columns_def]
  have enabled: "map_of d ''param_fsx_lustre_enabled'' = bools (fsx_enabled ?c)" by (rule col, simp)
  show ?thesis
  proof (cases "fsx_enabled ?c")
    case None
    then have "kept_fsx ?f = None" by (cases ?f) (simp_all add: kept_fsx_def part_def)
    with None enabled show ?thesis by (simp add: read_fsx_def)
  next
    case (Some b)
    then obtain c where c: "?f = Some c" "?c = c" by (cases ?f) (simp_all add: part_def empty_fsx_config_def)
    have flag: "get_value_as_bool ''param_fsx_lustre_enabled'' d None = fsx_enabled ?c" by (rule read_column(2)) (rule enabled)
    have num: "get_value_as_int ''param_fsx_lustre_per_unit_throughput'' d None = Inr (per_unit_throughput ?c)"
      by (rule read_column(1), rule col, simp)
    have "memory_at fmt ''param_fsx_lustre_size'' d = Inr (fsx_size ?c)" by (rule read_memory; rule col; simp)
    moreover have "get_value_as_string fmt ''param_fsx_lustre_existing_fsx'' d None = existing_fsx ?c"
      "get_value_as_string fmt ''param_fsx_lustre_s3_backend'' d None = s3_backend ?c"
      "get_value_as_string fmt ''param_fsx_lustre_import_path'' d None = import_path ?c"
      "get_value_as_string fmt ''param_fsx_lustre_export_path'' d None = export_path ?c"
      by (rule read_str, rule col, simp, use assms(2) in \<open>simp add: proper_fsx_def\<close>)+
    ultimately show ?thesis using enabled flag num Some c
      by (simp add: read_fsx_def kept_fsx_def)
  qed
qed

lemma job_params_read_back:
  assumes "holds_columns d p" "proper_job_params (part (hp_job_params p) empty_job_params)"
    and "proper_fsx (part (p_fsx_lustre (part (hp_job_params p) empty_job_params)) empty_fsx_config)"
  shows "read_job_params fmt d = Inr (kept_params (part (hp_job_params p) empty_job_params))"
proof -
  let ?j = "part (hp_job_params p) empty_job_params"
  note col = column_of_part(2) [OF assms(1), unfolded job_params_columns_def]
  have num: "get_value_as_int ''param_nodes'' d None = Inr (p_nodes ?j)"
    "get_value_as_int ''param_cpus'' d None = Inr (p_cpus ?j)"
    "get_value_as_int ''param_gpus'' d None = Inr (p_gpus ?j)"
    "get_value_as_int ''param_mpiprocs'' d None = Inr (p_mpiprocs ?j)"
    "get_value_as_int ''param_spot_allocation_count'' d None = Inr (p_spot_allocation_count ?j)"
    "get_value_as_int ''param_scratch_storage_iops'' d None = Inr (p_scratch_storage_iops ?j)"
    by (rule read_column(1), rule col, simp)+
  have flag: "get_value_as_bool ''param_force_reserved_instances'' d None = p_force_reserved_instances ?j"
    "get_value_as_bool ''param_spot'' d None = p_spot ?j"
    "get_value_as_bool ''param_enable_scratch'' d None = p_enable_scratch ?j"
    "get_value_as_bool ''param_enable_instance_store'' d None = p_enable_instance_store ?j"
    "get_value_as_bool ''param_enable_efa_support'' d None = p_enable_efa_support ?j"
    "get_value_as_bool ''param_enable_ht_support'' d None = p_enable_ht_support ?j"
    "get_value_as_bool ''param_enable_placement_group'' d None = p_enable_placement_group ?j"
    "get_value_as_bool ''param_enable_system_metrics'' d None = p_enable_system_metrics ?j"
    "get_value_as_bool ''param_enable_anonymous_metrics'' d None = p_enable_anonymous_metrics ?j"
    by (rule read_column(2), rule col, simp)+
  have price: "get_value_as_float ''param_spot_price'' d None = Inr (p_spot_price ?j)" by (rule read_column(3), rule col, simp)
  have str: "get_value_as_string fmt ''param_base_os'' d None = p_base_os ?j"
    "get_value_as_string fmt ''param_instance_ami'' d None = p_instance_ami ?j"
    "get_value_as_string fmt ''param_instance_profile'' d None = p_instance_profile ?j"
    "get_value_as_string fmt ''param_scratch_provider'' d None = p_scratch_provider ?j"
    "get_value_as_string fmt ''param_compute_stack'' d None = p_compute_stack ?j"
    "get_value_as_string fmt ''param_stack_id'' d None = p_stack_id ?j"
    "get_value_as_string fmt ''param_job_group'' d None = p_job_group ?j"
    by (rule read_str, rule col, simp, use assms(2) in \<open>simp add: proper_job_params_def\<close>)+
  have lst: "strings_at fmt ''param_instance_types'' d = p_instance_types ?j"
    "strings_at fmt ''param_subnet_ids'' d = p_subnet_ids ?j"
    "strings_at fmt ''param_security_groups'' d = p_security_groups ?j"
    by (rule read_list, rule col, simp, use assms(2) in \<open>simp add: proper_job_params_def proper_list_def\<close>)+
  have mem: "memory_at fmt ''param_memory'' d = Inr (p_memory ?j)"
    "memory_at fmt ''param_root_storage_size'' d = Inr (p_root_storage_size ?j)"
    "memory_at fmt ''param_scratch_storage_size'' d = Inr (p_scratch_storage_size ?j)"
    by (rule read_memory; rule col; simp)+
  have "get_value_as_string fmt ''param_spot_allocation_strategy'' d None = map_option strategy_str (p_spot_allocation_strategy ?j)"
    by (rule read_str, rule col, simp add: o_def option.map_comp)
      (cases "p_spot_allocation_strategy ?j"; simp add: clean_names clean_def [of None])
  then have strategy: "(case get_value_as_string fmt ''param_spot_allocation_strategy'' d None of None \<Rightarrow> Inr None
      | Some s \<Rightarrow> bindE (strategy_of_str s) (\<lambda>x. Inr (Some x))) = Inr (p_spot_allocation_strategy ?j)"
    by (cases "p_spot_allocation_strategy ?j") (simp_all add: strategy_round_trip)
  show ?thesis
    using fsx_read_back [OF assms(1,3), of fmt]
    by (simp add: read_job_params_def num flag price str lst mem strategy) (rule job_params.equality; simp add: kept_params_def empty_job_params_def)
qed

lemma read_profile_back:
  assumes "holds_columns d p" "proper_profile p"
  shows "convert_from_db fmt d = Inr (kept_profile p)"
proof -
  note col = column_of_part(4) [OF assms(1), unfolded profile_columns_def]
  have num: "get_value_as_int ''terminate_when_idle'' d None = Inr (hp_terminate_when_idle p)" by (rule read_column(1), rule col, simp)
  have flag: "get_value_as_bool ''enabled'' d None = hp_enabled p" "get_value_as_bool ''keep_forever'' d None = hp_keep_forever p"
    by (rule read_column(2), rule col, simp)+
  have str: "get_value_as_string fmt ''queue_profile_id'' d None = hp_id p" "get_value_as_string fmt ''title'' d None = hp_title p"
    "get_value_as_string fmt ''description'' d None = hp_description p" "get_value_as_string fmt ''name'' d None = hp_name p"
    "get_value_as_string fmt ''stack_uuid'' d None = hp_stack_uuid p"
    by (rule read_str, rule col, simp, use assms(2) in \<open>simp add: proper_profile_def\<close>)+
  have queues: "strings_at fmt ''queues'' d = hp_queues p"
    by (rule read_list, rule col, simp, use assms(2) in \<open>simp add: proper_profile_def proper_list_def\<close>)
  have modes: "get_value_as_string fmt ''scaling_mode'' d None = map_option scaling_mode_str (hp_scaling_mode p)"
    "get_value_as_string fmt ''queue_mode'' d None = map_option queue_mode_str (hp_queue_mode p)"
    by (rule read_str, rule col, simp add: o_def option.map_comp, cases "hp_scaling_mode p", simp_all add: clean_names clean_def [of None])
      (rule read_str, rule col, simp add: o_def option.map_comp, cases "hp_queue_mode p", simp_all add: clean_names clean_def [of None])
  have scaling: "resolve_scaling_mode (Some (scaling_mode_str m)) None = Some m" "\<not> is_empty_opt_str (Some (scaling_mode_str m))" for m
    by (cases m; simp; code_simp)+
  have queueing: "resolve_queue_mode (Some (queue_mode_str m)) None = Some m" "\<not> is_empty_opt_str (Some (queue_mode_str m))" for m
    by (cases m; simp; code_simp)+
  have projects: "map_option (map Some) (strings_at fmt ''project_ids'' d) = hp_projects p"
  proof (cases "hp_projects p")
    case None
    have "strings_at fmt ''project_ids'' d = None"
      by (rule read_list, rule col) (use None in \<open>simp_all add: project_ids_column_def\<close>)
    with None show ?thesis by simp
  next
    case (Some xs)
    with assms(2) have xs: "xs \<noteq> []" "\<forall>x \<in> set xs. \<not> is_empty_opt_str x" by (simp_all add: proper_profile_def proper_projects_def list_all_iff)
    then have f: "filter (\<lambda>x. \<not> is_empty_opt_str x) xs = xs" by simp
    have "strings_at fmt ''project_ids'' d = Some (map (\<lambda>x. opt_or x []) xs)"
      by (rule read_list, rule col) (use Some xs(1) f in \<open>simp_all add: project_ids_column_def o_def Let_def\<close>)
    moreover have "map (Some \<circ> (\<lambda>x. opt_or x [])) xs = xs"
      using xs(2) by (intro map_idI) (auto simp: is_empty_opt_str_def opt_or_def split: option.splits)
    ultimately show ?thesis using Some by simp
  qed
  show ?thesis
    using assms(2) queue_params_read_back [OF assms(1), of fmt] job_params_read_back [OF assms(1), of fmt]
    by (simp add: convert_from_db_def proper_profile_def num flag str queues modes projects kept_profile_def)
      (cases "hp_scaling_mode p"; cases "hp_queue_mode p"; simp add: scaling queueing is_empty_opt_str_def [of None]; rule hpc_profile.equality; simp)
qed

text \<open>C30: A proper queue profile that is written and read back is the profile itself but for what \<open>kept_profile\<close> drops: the defaults for the
  wall time, for keeping volumes and for the deployment type of FSx for Lustre are lost.\<close>

lemma profile_round_trip:
  assumes "proper_profile p"
  shows "convert_from_db fmt (convert_to_db p) = Inr (kept_profile p)"
  by (rule read_profile_back [OF holds_convert_to_db assms])

section \<open>Updates\<close>

lemma map_of_assign_all:
  "distinct (map fst kvs) \<Longrightarrow> map_of (fold (\<lambda>(k, v). assign_key k v) kvs d) k = (case map_of kvs k of None \<Rightarrow> map_of d k | Some v \<Rightarrow> Some v)"
proof (induction kvs arbitrary: d)
  case (Cons kv kvs)
  obtain k' v where kv: "kv = (k', v)" by (cases kv)
  with Cons.prems have "map_of kvs k' = None" by (simp add: map_of_eq_None_iff)
  with Cons.IH [of "assign_key k' v d"] Cons.prems kv show ?case by (auto split: option.splits)
qed simp

lemma distinct_to_item: "distinct (map fst cols) \<Longrightarrow> distinct (map fst (to_item cols))"
proof (induction cols)
  case (Cons c cols)
  have sub: "fst ` set (to_item cols) \<subseteq> fst ` set cols" by (force simp: to_item_def List.map_filter_def)
  obtain k v where "c = (k, v)" by (cases c)
  with Cons sub show ?case by (auto simp: to_item_def List.map_filter_simps split: option.splits)
qed (simp add: to_item_def List.map_filter_simps)

lemma dao_update_Inr:
  assumes "dao_update now d t = (Inr item, t')" "distinct (map fst d)"
  shows "\<exists>i old. map_of d ''queue_profile_id'' = Some (PStr i) \<and> map_of t i = Some old \<and> t' = assign_key i item t \<and>
    (\<forall>k. map_of item k = (if k = ''queue_profile_id'' then Some (PStr i) else if k = ''updated_on'' then Some (PInt now)
       else if k = ''created_on'' \<or> map_of d k = None then map_of old k else map_of d k))"
proof -
  from assms(1) obtain i old where i: "map_of d ''queue_profile_id'' = Some (PStr i)" and old: "map_of t i = Some old"
    and item: "item = assign_key ''queue_profile_id'' (PStr i) (fold (\<lambda>(k, v). assign_key k v)
        (filter (\<lambda>(k, _). k \<notin> {''queue_profile_id'', ''created_on''}) (assign_key ''updated_on'' (PInt now) d)) old)"
    and t': "t' = assign_key i item t"
    by (auto simp: dao_update_def bindS_reads thenS_apply store_item_def Let_def split: sum.splits option.splits pyval.splits if_splits)
  let ?ch = "filter (\<lambda>(k, _). k \<notin> {''queue_profile_id'', ''created_on''}) (assign_key ''updated_on'' (PInt now) d)"
  have dist: "distinct (map fst ?ch)"
    using distinct_assign_key [OF assms(2)] by (rule distinct_map_filter)
  have ch: "map_of ?ch k = (if k \<in> {''queue_profile_id'', ''created_on''} then None else if k = ''updated_on'' then Some (PInt now) else map_of d k)" for k
  proof -
    have "map_of (filter (\<lambda>(k, _). P k) kvs) k = (if P k then map_of kvs k else None)" for P :: "string \<Rightarrow> bool" and kvs :: pydict
      by (induction kvs) auto
    then show ?thesis by simp
  qed
  have "map_of item k = (if k = ''queue_profile_id'' then Some (PStr i) else if k = ''updated_on'' then Some (PInt now)
       else if k = ''created_on'' \<or> map_of d k = None then map_of old k else map_of d k)" for k
  proof -
    have "map_of item k = (if k = ''queue_profile_id'' then Some (PStr i) else map_of (fold (\<lambda>(k, v). assign_key k v) ?ch old) k)"
      by (simp only: item map_of_assign_key fun_upd_apply)
    also have "map_of (fold (\<lambda>(k, v). assign_key k v) ?ch old) k = (case map_of ?ch k of None \<Rightarrow> map_of old k | Some v \<Rightarrow> Some v)"
      by (rule map_of_assign_all [OF dist])
    also note ch
    finally show ?thesis by (cases "map_of d k") simp_all
  qed
  with i old t' show ?thesis by blast
qed

text \<open>C31: A default or a limit that is removed from a profile survives the update: the attributes of the item that the new profile does not
  have keep the values of the old one.\<close>

lemma removed_settings_survive:
  assumes "dao_update now (convert_to_db p) t = (Inr item, t')" "hp_id p = Some i" "map_of t i = Some old"
    and "(k, None) \<in> set (full_columns p)"
  shows "map_of item k = map_of old k \<and> map_of t' i = Some item"
proof -
  have dist: "distinct (map fst (convert_to_db p))"
    by (simp add: convert_to_db_full distinct_to_item full_columns_distinct)
  from dao_update_Inr [OF assms(1) dist] obtain j old' where u: "map_of (convert_to_db p) ''queue_profile_id'' = Some (PStr j)"
    "map_of t j = Some old'" "t' = assign_key j item t"
    "\<And>k. map_of item k = (if k = ''queue_profile_id'' then Some (PStr j) else if k = ''updated_on'' then Some (PInt now)
       else if k = ''created_on'' \<or> map_of (convert_to_db p) k = None then map_of old' k else map_of (convert_to_db p) k)" by blast
  have "map_of (convert_to_db p) ''queue_profile_id'' = Some (PStr i)"
    by (rule column_of_part(4) [OF holds_convert_to_db]) (simp add: profile_columns_def assms(2))
  with u(1) have j: "j = i" by simp
  have k: "map_of (convert_to_db p) k = None" using assms(4) by (rule column_of_profile)
  have names: "set (map fst (full_columns p)) = set column_names"
    by (simp add: column_names_def full_columns_def profile_columns_def queue_params_columns_def job_params_columns_def fsx_columns_def)
  have "''updated_on'' \<notin> set column_names" by code_simp
  with names assms(4) have "k \<noteq> ''updated_on''" by force
  moreover from k u(1) have "k \<noteq> ''queue_profile_id''" by auto
  ultimately show ?thesis using u(2,3) u(4) [of k] j k assms(3) by simp
qed

section \<open>A profile\<close>

definition sample_hpc_profile :: "int option \<Rightarrow> hpc_profile" where
  "sample_hpc_profile nodes = \<lparr>hp_id = Some ''p1'', hp_title = Some ''Compute'', hp_description = None, hp_name = Some ''compute'',
     hp_projects = Some [Some ''default''], hp_scaling_mode = Some SINGLE_JOB, hp_queue_mode = Some FIFO, hp_enabled = Some True,
     hp_queues = Some [''normal'', ''high''], hp_keep_forever = Some False, hp_terminate_when_idle = Some 0, hp_stack_uuid = None,
     hp_params = None,
     hp_job_params = Some (empty_job_params\<lparr>p_nodes := nodes, p_walltime := Some ''01:00:00'', p_instance_types := Some [''c5.large'']\<rparr>)\<rparr>"

lemma sample_proper: "proper_profile (sample_hpc_profile n)"
proof -
  have "clean (Some ''p1'')" "clean (Some ''Compute'')" "clean (Some ''compute'')" "\<not> is_empty_opt_str (Some ''default'')" by code_simp+
  then show ?thesis
    by (simp add: sample_hpc_profile_def proper_profile_def part_def proper_queue_params_def empty_queue_params_def proper_job_params_def
        empty_job_params_def proper_fsx_def empty_fsx_config_def proper_list_def proper_projects_def clean_def [of None])
qed

lemma profile_round_trip_witness:
  "\<exists>p. convert_from_db (\<lambda>_. []) (convert_to_db (sample_hpc_profile (Some 2))) = Inr p \<and> hp_queues p = Some [''normal'', ''high''] \<and>
     (\<exists>j. hp_job_params p = Some j \<and> p_nodes j = Some 2 \<and> p_walltime j = None)"
  using profile_round_trip [OF sample_proper, of "\<lambda>_. []" "Some 2"]
  by (simp add: kept_profile_def kept_params_def sample_hpc_profile_def part_def empty_job_params_def)

lemma removed_settings_survive_witness:
  "\<exists>item t'. dao_update 5 (convert_to_db (sample_hpc_profile None)) [(''p1'', convert_to_db (sample_hpc_profile (Some 2)))] = (Inr item, t') \<and>
     map_of item ''param_nodes'' = Some (PInt 2)"
proof -
  let ?t = "[(''p1'', convert_to_db (sample_hpc_profile (Some 2)))]"
  have "map_of (convert_to_db (sample_hpc_profile None)) ''queue_profile_id'' = Some (PStr ''p1'')"
    by (rule column_of_part(4) [OF holds_convert_to_db]) (simp add: profile_columns_def sample_hpc_profile_def)
  moreover have "\<not> is_empty_str ''p1''" by code_simp
  ultimately obtain item t' where u: "dao_update 5 (convert_to_db (sample_hpc_profile None)) ?t = (Inr item, t')"
    by (simp add: dao_update_def bindS_reads thenS_apply Let_def)
  have "(''param_nodes'', None) \<in> set (full_columns (sample_hpc_profile None))"
    by (simp add: full_columns_def profile_columns_def queue_params_columns_def job_params_columns_def sample_hpc_profile_def part_def)
  from removed_settings_survive [OF u _ _ this, of "''p1''"] have "map_of item ''param_nodes'' = map_of (convert_to_db (sample_hpc_profile (Some 2))) ''param_nodes''"
    by (simp add: sample_hpc_profile_def)
  also have "\<dots> = Some (PInt 2)"
    by (rule column_of_part(2) [OF holds_convert_to_db]) (simp add: job_params_columns_def sample_hpc_profile_def part_def)
  finally show ?thesis using u by blast
qed

end
