(* ===== verification/Queue_Profiles.thy ===== *)
theory Queue_Profiles
  imports Profile_Store PBS_Server Job_Builder "HOL-Library.List_Lexorder"
begin

text \<open>
  \<open>HpcQueueProfilesService\<close> of
  \<open>ideascheduler/app/provisioning/job_provisioning_queue/hpc_queue_profiles_service.py\<close>: queue profiles are created, changed, enabled and
  deleted in the table of \<open>Profile_Store\<close>, in a cache, as queues of the OpenPBS server (\<open>PBS_Server\<close>) and as running provisioners. Profiles
  are shared: the cache, a provisioning queue and a caller may hold the same object, so objects live in a store (\<open>qw_objects\<close>) and a
  reference is an index. The short term cache is a map, whose entries do not expire during an operation. The order of the elements of a
  Python set is that of the list it is made of. Locks and log messages are left out.
\<close>

section \<open>State\<close>

datatype provisioner_event = ProvisionerStarted "string option" | ProvisionerStopped "string option"

record qp_world =
  qw_table :: profile_table
  qw_objects :: "hpc_profile list"
  qw_cache :: "(string \<times> nat) list"
  qw_queues :: "(string option \<times> nat) list"
  qw_provisioners :: "(string option \<times> nat) list"
  qw_hist :: "command list"
  qw_events :: "provisioner_event list"
  qw_running :: bool

text \<open>\<open>qe_to_dict\<close> is the dict of the default job parameters, \<open>qe_build\<close> what the validation of job parameters asks the rest for.\<close>

record qp_env =
  qe_server :: pbs_server
  qe_build :: build_env
  qe_to_dict :: "job_params \<Rightarrow> pydict"
  qe_fmt :: "pyval \<Rightarrow> string"
  qe_uuid :: string
  qe_now :: int

definition on_table :: "(profile_table, 'a) act \<Rightarrow> (qp_world, 'a) act" where
  "on_table m w = (case m (qw_table w) of (r, t) \<Rightarrow> (r, w\<lparr>qw_table := t\<rparr>))"

definition on_pbs :: "(command list, 'a) act \<Rightarrow> (qp_world, 'a) act" where
  "on_pbs m w = (case m (qw_hist w) of (r, h) \<Rightarrow> (r, w\<lparr>qw_hist := h\<rparr>))"

definition invalid_params :: exc where
  "invalid_params = SocaException ''INVALID_PARAMS''"

definition new_object :: "hpc_profile \<Rightarrow> (qp_world, nat) act" where
  "new_object p = bindS (gets (\<lambda>w. length (qw_objects w))) (\<lambda>r.
     thenS (modify (\<lambda>w. w\<lparr>qw_objects := qw_objects w @ [p]\<rparr>)) (ret r))"

definition object_at :: "nat \<Rightarrow> (qp_world, hpc_profile) act" where
  "object_at r = gets (\<lambda>w. qw_objects w ! r)"

section \<open>The cache\<close>

definition id_key :: "string option \<Rightarrow> string" where "id_key i = ''queue-profile.id.'' @ pystr i"
definition name_key :: "string option \<Rightarrow> string" where "name_key n = ''queue-profile.name.'' @ pystr n"
definition queue_key :: "string \<Rightarrow> string" where "queue_key q = ''queue-profile.queue.'' @ q"

definition cache_get :: "string option \<Rightarrow> string option \<Rightarrow> string option \<Rightarrow> (qp_world, nat option) act" where
  "cache_get i n q = gets (\<lambda>w.
     if \<not> is_empty_opt_str i then map_of (qw_cache w) (id_key i)
     else if \<not> is_empty_opt_str n then map_of (qw_cache w) (name_key n)
     else if \<not> is_empty_opt_str q then map_of (qw_cache w) (queue_key (opt_or q []))
     else None)"

definition cache_put :: "string \<Rightarrow> nat \<Rightarrow> (qp_world, unit) act" where
  "cache_put k r = modify (\<lambda>w. w\<lparr>qw_cache := assign_key k r (qw_cache w)\<rparr>)"

definition cache_set :: "nat \<Rightarrow> (qp_world, unit) act" where
  "cache_set r = bindS (object_at r) (\<lambda>p.
     thenS (cache_put (id_key (hp_id p)) r)
     (thenS (cache_put (name_key (hp_name p)) r)
     (bindS (reads (\<lambda>_. required TypeError (hp_queues p))) (forS (\<lambda>q. cache_put (queue_key q) r)))))"

definition cache_drop :: "string \<Rightarrow> (qp_world, unit) act" where
  "cache_drop k = modify (\<lambda>w. w\<lparr>qw_cache := filter (\<lambda>(k', _). k' \<noteq> k) (qw_cache w)\<rparr>)"

definition cache_clear :: "nat \<Rightarrow> (qp_world, unit) act" where
  "cache_clear r = bindS (object_at r) (\<lambda>p.
     thenS (cache_drop (id_key (hp_id p)))
     (thenS (cache_drop (name_key (hp_name p)))
     (bindS (reads (\<lambda>_. required TypeError (hp_queues p))) (forS (\<lambda>q. cache_drop (queue_key q))))))"

section \<open>Provisioners\<close>

definition stop_job_provisioner :: "nat \<Rightarrow> (qp_world, unit) act" where
  "stop_job_provisioner r = bindS (object_at r) (\<lambda>p.
     thenS (modify (\<lambda>w. case map_of (qw_provisioners w) (hp_id p) of
              None \<Rightarrow> w
            | Some _ \<Rightarrow> w\<lparr>qw_provisioners := filter (\<lambda>(i, _). i \<noteq> hp_id p) (qw_provisioners w),
                          qw_events := qw_events w @ [ProvisionerStopped (hp_id p)]\<rparr>))
       (modify (\<lambda>w. w\<lparr>qw_queues := filter (\<lambda>(i, _). i \<noteq> hp_id p) (qw_queues w)\<rparr>)))"

text \<open>A disabled profile is left alone: its provisioner, if any, keeps running.\<close>

definition initialize_job_provisioner :: "nat \<Rightarrow> (qp_world, unit) act" where
  "initialize_job_provisioner r = bindS (object_at r) (\<lambda>p.
     if hp_enabled p = Some False then ret ()
     else thenS (stop_job_provisioner r)
       (modify (\<lambda>w. w\<lparr>qw_queues := assign_key (hp_id p) r (qw_queues w),
          qw_provisioners := assign_key (hp_id p) r (qw_provisioners w),
          qw_events := qw_events w @ [ProvisionerStarted (hp_id p)]\<rparr>)))"

section \<open>Looking a profile up\<close>

definition profile_not_found :: exc where
  "profile_not_found = SocaException ''SCHEDULER_QUEUE_PROFILE_NOT_FOUND''"

definition load_profile :: "qp_env \<Rightarrow> pydict \<Rightarrow> (qp_world, nat) act" where
  "load_profile env d = bindS (reads (\<lambda>_. convert_from_db (qe_fmt env) d)) new_object"

text \<open>Without any argument the conversion of None raises.\<close>

definition get_queue_profile ::
  "qp_env \<Rightarrow> string option \<Rightarrow> string option \<Rightarrow> string option \<Rightarrow> (qp_world, nat) act" where
  "get_queue_profile env i n q =
     bindS (cache_get i n q) (\<lambda>cached.
       case cached of
         Some r \<Rightarrow> ret r
       | None \<Rightarrow>
           bindS (if \<not> is_empty_opt_str i then on_table (dao_get_by_id i)
                  else if \<not> is_empty_opt_str n then on_table (dao_get_by_name n)
                  else if \<not> is_empty_opt_str q then on_table (dao_get_by_queue q)
                  else ret None) (\<lambda>found.
             case found of
               None \<Rightarrow> throw (if is_empty_opt_str i \<and> is_empty_opt_str n \<and> is_empty_opt_str q then TypeError else profile_not_found)
             | Some d \<Rightarrow> bindS (load_profile env d) (\<lambda>r. thenS (cache_set r) (ret r))))"

text \<open>\<open>list.sort\<close> by name; names that are None cannot be compared.\<close>

definition list_queue_profiles :: "qp_env \<Rightarrow> (qp_world, nat list) act" where
  "list_queue_profiles env =
     bindS (reads (\<lambda>w. traverseE (convert_from_db (qe_fmt env)) (dao_list (qw_table w)))) (\<lambda>ps.
       if length ps > 1 \<and> (\<exists>p \<in> set ps. hp_name p = None) then throw TypeError
       else (\<lambda>w. let sorted_ps = sort_key (\<lambda>p. map (\<lambda>c. of_char c :: nat) (opt_or (hp_name p) [])) ps
                 in (Inr [length (qw_objects w) ..< length (qw_objects w) + length ps], w\<lparr>qw_objects := qw_objects w @ sorted_ps\<rparr>)))"

definition get_provisioning_queue :: "qp_env \<Rightarrow> string option \<Rightarrow> (qp_world, nat option) act" where
  "get_provisioning_queue env n =
     (if is_empty_opt_str n then ret None
      else bindS (get_queue_profile env None n None) (\<lambda>r.
           bindS (object_at r) (\<lambda>p. gets (\<lambda>w. map_of (qw_queues w) (hp_id p)))))"

section \<open>Validation\<close>

definition check_that :: "exc \<Rightarrow> bool \<Rightarrow> unit res" where
  "check_that e b = (if b then Inr () else Inl e)"

definition check_idle_time :: "hpc_profile \<Rightarrow> unit res" where
  "check_idle_time p =
     (case hp_scaling_mode p of
        Some BATCH \<Rightarrow> check_that invalid_params (case hp_terminate_when_idle p of None \<Rightarrow> False | Some t \<Rightarrow> 0 < t)
      | Some SINGLE_JOB \<Rightarrow> check_that invalid_params (case hp_terminate_when_idle p of None \<Rightarrow> True | Some t \<Rightarrow> t \<le> 0)
      | None \<Rightarrow> Inr ())"

definition check_profile :: "hpc_profile \<Rightarrow> unit res" where
  "check_profile p =
     bindE (check_that invalid_params (\<not> is_empty_opt_str (hp_name p))) (\<lambda>_.
     bindE (check_that invalid_params (\<not> is_empty_opt_list (hp_queues p))) (\<lambda>_.
     bindE (check_that invalid_params (hp_scaling_mode p \<noteq> None \<or> hp_keep_forever p = Some True)) (\<lambda>_.
     bindE (check_that invalid_params (hp_queue_mode p \<noteq> None)) (\<lambda>_.
     bindE (check_that invalid_params (\<not> is_empty_opt_list (hp_projects p))) (\<lambda>_.
     bindE (check_that invalid_params (list_all (\<lambda>x. \<not> is_empty_opt_str x) (opt_or (hp_projects p) []))) (\<lambda>_.
       check_idle_time p))))))"

definition params_dict :: "qp_env \<Rightarrow> hpc_profile \<Rightarrow> pydict" where
  "params_dict env p = (case hp_job_params p of None \<Rightarrow> [] | Some j \<Rightarrow> qe_to_dict env j)"

definition validate_and_sanitize_queue_profile :: "qp_env \<Rightarrow> hpc_profile \<Rightarrow> hpc_profile res" where
  "validate_and_sanitize_queue_profile env p =
     bindE (check_profile p) (\<lambda>_.
       let p' = (if hp_keep_forever p = Some True \<and> hp_stack_uuid p = None then p\<lparr>hp_stack_uuid := Some (qe_uuid env)\<rparr> else p) in
       bindE (fst (validate_job ((qe_build env)\<lparr>be_params := params_dict env p', be_queue := None\<rparr>) (new_context None None (qe_uuid env)))) (\<lambda>results.
       bindE (check_that (SocaException ''VALIDATION_FAILED'') (is_valid results)) (\<lambda>_. Inr p')))"

section \<open>Queues of the server\<close>

definition create_one_queue :: "qp_env \<Rightarrow> string \<Rightarrow> (qp_world, unit) act" where
  "create_one_queue env q =
     catchS (on_pbs (create_queue (qe_server env) q)) (\<lambda>e. if e = SocaException ''SCHEDULER_QUEUE_ALREADY_EXISTS'' then ret () else throw e)"

definition create_scheduler_queues :: "qp_env \<Rightarrow> string list \<Rightarrow> (qp_world, nat) act" where
  "create_scheduler_queues env qs = thenS (forS (create_one_queue env) qs) (ret (length qs))"

fun delete_scheduler_queues :: "qp_env \<Rightarrow> string list \<Rightarrow> (qp_world, nat) act" where
  "delete_scheduler_queues env [] = ret 0"
| "delete_scheduler_queues env (q # qs) =
     bindS (catchS (thenS (on_pbs (delete_queue (qe_server env) q)) (ret 1))
              (\<lambda>e. case e of SocaException _ \<Rightarrow> ret 0 | _ \<Rightarrow> throw e)) (\<lambda>n.
     bindS (delete_scheduler_queues env qs) (\<lambda>m. ret (n + m)))"

section \<open>Operations\<close>

definition create_queue_profile :: "qp_env \<Rightarrow> hpc_profile \<Rightarrow> (qp_world, nat) act" where
  "create_queue_profile env p =
     bindS (reads (\<lambda>_. validate_and_sanitize_queue_profile env p)) (\<lambda>p'.
     bindS (on_table (dao_get_by_name (hp_name p'))) (\<lambda>existing.
       if existing \<noteq> None then throw invalid_params
       else bindS (on_table (dao_create (qe_uuid env) (qe_now env) (convert_to_db (p'\<lparr>hp_enabled := Some False\<rparr>)))) (\<lambda>d.
            bindS (load_profile env d) (\<lambda>r.
            bindS (object_at r) (\<lambda>created.
            thenS (bindS (reads (\<lambda>_. required TypeError (hp_queues created))) (create_scheduler_queues env))
            (thenS (cache_set r) (ret r)))))))"

definition set_enabled :: "qp_env \<Rightarrow> string option \<Rightarrow> bool \<Rightarrow> (qp_world, nat) act" where
  "set_enabled env i b =
     bindS (on_table (dao_update (qe_now env)
              [(''queue_profile_id'', case i of None \<Rightarrow> PNone | Some s \<Rightarrow> PStr s), (''enabled'', PBool b)])) (\<lambda>d.
     bindS (load_profile env d) (\<lambda>r. thenS (cache_set r) (ret r)))"

definition enable_queue_profile :: "qp_env \<Rightarrow> string option \<Rightarrow> string option \<Rightarrow> (qp_world, unit) act" where
  "enable_queue_profile env i n =
     bindS (get_queue_profile env i n None) (\<lambda>r. bindS (object_at r) (\<lambda>p.
       if hp_enabled p = Some True then ret ()
       else bindS (set_enabled env (hp_id p) True) initialize_job_provisioner))"

definition disable_queue_profile :: "qp_env \<Rightarrow> string option \<Rightarrow> string option \<Rightarrow> (qp_world, unit) act" where
  "disable_queue_profile env i n =
     bindS (get_queue_profile env i n None) (\<lambda>r. bindS (object_at r) (\<lambda>p.
       if hp_enabled p = Some False then ret ()
       else bindS (set_enabled env (hp_id p) False) stop_job_provisioner))"

definition list_difference :: "string list \<Rightarrow> string list \<Rightarrow> string list" where
  "list_difference xs ys = filter (\<lambda>x. x \<notin> set ys) (remdups xs)"

definition unless_empty :: "string list \<Rightarrow> (qp_world, nat) act \<Rightarrow> (qp_world, unit) act" where
  "unless_empty qs m = (if qs = [] then ret () else thenS m (ret ()))"

definition update_queue_profile :: "qp_env \<Rightarrow> hpc_profile \<Rightarrow> (qp_world, nat) act" where
  "update_queue_profile env p =
     bindS (reads (\<lambda>_. validate_and_sanitize_queue_profile env p)) (\<lambda>p'.
     bindS (get_queue_profile env (hp_id p') (hp_name p') None) (\<lambda>r0.
     bindS (object_at r0) (\<lambda>existing.
     bindS (on_table (dao_update (qe_now env)
              (assign_key ''queue_profile_id'' (case hp_id existing of None \<Rightarrow> PNone | Some s \<Rightarrow> PStr s) (convert_to_db p')))) (\<lambda>d.
     bindS (load_profile env d) (\<lambda>r.
     bindS (object_at r) (\<lambda>updated.
       let old_queues = opt_or (hp_queues existing) []; new_queues = opt_or (hp_queues updated) [];
           doomed = list_difference old_queues new_queues; born = list_difference new_queues old_queues in
       thenS (unless_empty doomed (delete_scheduler_queues env doomed))
       (thenS (unless_empty born (create_scheduler_queues env born))
       (thenS (cache_set r)
       (thenS (initialize_job_provisioner r) (ret r))))))))))"

definition delete_queue_profile :: "qp_env \<Rightarrow> string option \<Rightarrow> string option \<Rightarrow> bool \<Rightarrow> (qp_world, unit) act" where
  "delete_queue_profile env i n with_queues =
     bindS (get_queue_profile env i n None) (\<lambda>r.
     thenS (stop_job_provisioner r)
     (bindS (object_at r) (\<lambda>p.
      thenS (if with_queues \<and> \<not> is_empty_opt_list (hp_queues p)
             then unless_empty (opt_or (hp_queues p) []) (delete_scheduler_queues env (opt_or (hp_queues p) [])) else ret ())
      (thenS (cache_clear r) (on_table (dao_delete (hp_id p)))))))"

definition check_unclaimed :: "qp_env \<Rightarrow> hpc_profile \<Rightarrow> string \<Rightarrow> (qp_world, unit) act" where
  "check_unclaimed env p q =
     bindS (on_table (dao_get_by_queue (Some q))) (\<lambda>found.
       case found of
         None \<Rightarrow> ret ()
       | Some d \<Rightarrow> bindS (reads (\<lambda>_. required KeyError (map_of d ''queue_profile_id''))) (\<lambda>v.
           if Some v \<noteq> map_option PStr (hp_id p) then throw invalid_params else ret ()))"

definition write_queues :: "qp_env \<Rightarrow> string option \<Rightarrow> string list \<Rightarrow> (qp_world, nat) act" where
  "write_queues env i qs =
     bindS (on_table (dao_update (qe_now env)
              [(''queue_profile_id'', case i of None \<Rightarrow> PNone | Some s \<Rightarrow> PStr s), (''queues'', PList (map PStr qs))])) (\<lambda>d.
     bindS (load_profile env d) (\<lambda>r. thenS (cache_set r) (ret r)))"

definition create_queues ::
  "qp_env \<Rightarrow> string list \<Rightarrow> string option \<Rightarrow> string option \<Rightarrow> bool \<Rightarrow> bool \<Rightarrow> (qp_world, unit) act" where
  "create_queues env qs i n update_db check_existing_profile =
     (if qs = [] then throw invalid_params
      else bindS (get_queue_profile env i n None) (\<lambda>r.
           bindS (object_at r) (\<lambda>p.
           thenS (if check_existing_profile then forS (check_unclaimed env p) qs else ret ())
           (bindS (create_scheduler_queues env qs) (\<lambda>created_count.
            bindS (if created_count > 0 then ret True
                   else bindS (reads (\<lambda>_. required TypeError (hp_queues p))) (\<lambda>existing. ret (list_difference qs existing \<noteq> []))) (\<lambda>reinitialize.
              if \<not> reinitialize then ret ()
              else bindS (if update_db then write_queues env i qs else ret r) initialize_job_provisioner))))))"

text \<open>The list of the profile's queues is shortened in place, and may stay so when a later name is refused.\<close>

fun remove_queue_names :: "nat \<Rightarrow> string list \<Rightarrow> (qp_world, unit) act" where
  "remove_queue_names r [] = ret ()"
| "remove_queue_names r (q # qs) =
     bindS (object_at r) (\<lambda>p.
     bindS (reads (\<lambda>_. required TypeError (hp_queues p))) (\<lambda>queues.
       if q \<notin> set queues then throw invalid_params
       else thenS (modify (\<lambda>w. w\<lparr>qw_objects := (qw_objects w)[r := p\<lparr>hp_queues := Some (remove1 q queues)\<rparr>]\<rparr>))
              (remove_queue_names r qs)))"

definition delete_queues ::
  "qp_env \<Rightarrow> string list \<Rightarrow> string option \<Rightarrow> string option \<Rightarrow> bool \<Rightarrow> bool \<Rightarrow> (qp_world, unit) act" where
  "delete_queues env qs i n update_db restart =
     (if qs = [] then throw invalid_params
      else bindS (get_queue_profile env i n None) (\<lambda>r.
           thenS (remove_queue_names r qs)
           (thenS (delete_scheduler_queues env qs)
           (bindS (if update_db then write_queues env i qs else ret r) (\<lambda>r'.
              if restart then initialize_job_provisioner r' else ret ())))))"

definition start_profiles :: "qp_env \<Rightarrow> (qp_world, unit) act" where
  "start_profiles env =
     bindS (gets qw_running) (\<lambda>running.
       if running then ret ()
       else thenS (modify (\<lambda>w. w\<lparr>qw_running := True\<rparr>))
         (bindS (gets (\<lambda>w. dao_list (qw_table w))) (\<lambda>items.
          bindS (gets (\<lambda>w. length (qw_objects w))) (\<lambda>base.
          thenS (forS (\<lambda>d. bindS (load_profile env d) (\<lambda>r. bindS (object_at r) (\<lambda>p.
                   bindS (reads (\<lambda>_. required TypeError (hp_queues p))) (\<lambda>qs. thenS (create_scheduler_queues env qs) (ret ()))))) items)
            (forS initialize_job_provisioner [base ..< base + length items])))))"

definition stop_profiles :: "qp_env \<Rightarrow> (qp_world, unit) act" where
  "stop_profiles env =
     bindS (gets qw_running) (\<lambda>running.
       if \<not> running then ret ()
       else bindS (list_queue_profiles env) (\<lambda>rs.
            thenS (forS stop_job_provisioner rs) (modify (\<lambda>w. w\<lparr>qw_running := False\<rparr>))))"

section \<open>One provisioner per profile\<close>

text \<open>\<open>qp_ok\<close>: a profile has a provisioning queue exactly when it has a provisioner, one of each and both for the same object, and its
  provisioner has been started exactly once more than it was stopped.\<close>

definition qp_ok :: "qp_world \<Rightarrow> bool" where
  "qp_ok w \<longleftrightarrow> distinct (map fst (qw_provisioners w)) \<and> qw_queues w = qw_provisioners w \<and>
     (\<forall>i. count_list (qw_events w) (ProvisionerStarted i) =
        count_list (qw_events w) (ProvisionerStopped i) + (if i \<in> fst ` set (qw_provisioners w) then 1 else 0))"

named_theorems qp_rules \<open>the operations on queue profiles keep the invariant\<close>

text \<open>What an operation may touch without touching provisioners.\<close>

definition same_provisioners :: "qp_world \<Rightarrow> qp_world \<Rightarrow> bool" where
  "same_provisioners v w \<longleftrightarrow> qw_provisioners w = qw_provisioners v \<and> qw_queues w = qw_queues v \<and> qw_events w = qw_events v"

lemma same_provisioners_refl [simp]: "same_provisioners w w"
  by (simp add: same_provisioners_def)

named_theorems quiet_rules \<open>operations that leave the provisioners alone\<close>

lemma quiet_modify [quiet_rules]:
  "preserves (same_provisioners v) (on_table m1)" "preserves (same_provisioners v) (on_pbs m2)"
  "preserves (same_provisioners v) (new_object p)" "preserves (same_provisioners v) (object_at r)"
  "preserves (same_provisioners v) (cache_put k r)" "preserves (same_provisioners v) (cache_drop k)"
  by (auto simp: preserves_def on_table_def on_pbs_def new_object_def object_at_def cache_put_def cache_drop_def same_provisioners_def
      thenS_apply split: prod.split)

lemma quiet_cache [quiet_rules]:
  "preserves (same_provisioners v) (cache_set r)" "preserves (same_provisioners v) (cache_clear r)"
  "preserves (same_provisioners v) (cache_get i n q)"
  unfolding cache_set_def cache_clear_def cache_get_def by (intro preserves_intros quiet_rules)+

lemma quiet_load [quiet_rules]: "preserves (same_provisioners v) (load_profile env d)"
  unfolding load_profile_def by (intro preserves_intros quiet_rules)

lemma quiet_get [quiet_rules]: "preserves (same_provisioners v) (get_queue_profile env i n q)"
  unfolding get_queue_profile_def by (intro preserves_intros quiet_rules)

lemma quiet_create [quiet_rules]: "preserves (same_provisioners v) (create_scheduler_queues env qs)"
  unfolding create_scheduler_queues_def create_one_queue_def by (intro preserves_intros quiet_rules)

lemma quiet_delete [quiet_rules]: "preserves (same_provisioners v) (delete_scheduler_queues env qs)"
proof (induction qs)
  case (Cons q qs)
  have "preserves (same_provisioners v) (case e of SocaException _ \<Rightarrow> ret 0 | _ \<Rightarrow> throw e)" for e :: exc and v
    by (cases e) (simp_all add: preserves_prim)
  then show ?case unfolding delete_scheduler_queues.simps by (intro preserves_intros quiet_rules Cons)
qed (unfold delete_scheduler_queues.simps, rule preserves_prim)

lemma quiet_objects [quiet_rules]: "preserves (same_provisioners v) (modify (\<lambda>w. w\<lparr>qw_objects := f w\<rparr>))"
  by (simp add: preserves_def same_provisioners_def)

lemma quiet_remove [quiet_rules]: "preserves (same_provisioners v) (remove_queue_names r qs)"
proof (induction qs)
  case (Cons q qs)
  then show ?case unfolding remove_queue_names.simps by (intro preserves_intros quiet_rules)
qed (unfold remove_queue_names.simps, rule preserves_prim)

lemma quiet_write [quiet_rules]:
  "preserves (same_provisioners v) (write_queues env i qs)" "preserves (same_provisioners v) (set_enabled env i b)"
  unfolding write_queues_def set_enabled_def by (intro preserves_intros quiet_rules)+

lemma quiet_unclaimed [quiet_rules]: "preserves (same_provisioners v) (check_unclaimed env p q')"
  unfolding check_unclaimed_def by (intro preserves_intros quiet_rules)

lemma quiet_unless_empty [quiet_rules]:
  "preserves (same_provisioners v) m \<Longrightarrow> preserves (same_provisioners v) (unless_empty qs m)"
  unfolding unless_empty_def by (intro preserves_intros)

lemma quiet_ok: "same_provisioners v w \<Longrightarrow> qp_ok v \<Longrightarrow> qp_ok w"
  by (simp add: same_provisioners_def qp_ok_def)

lemma quiet_preserves:
  assumes "\<And>v. preserves (same_provisioners v) m"
  shows "preserves qp_ok m"
proof -
  have "qp_ok (snd (m w))" if "qp_ok w" for w
    using assms [of w] that by (auto intro: quiet_ok [of w] simp: preserves_def)
  then show ?thesis by (simp add: preserves_def)
qed

definition without :: "'k \<Rightarrow> ('k \<times> 'v) list \<Rightarrow> ('k \<times> 'v) list" where
  "without x kvs = filter (\<lambda>(i, _). i \<noteq> x) kvs"

lemma keys_without [simp]: "fst ` set (without x kvs) = fst ` set kvs - {x}"
  by (auto simp: without_def)

lemma distinct_without [simp]: "distinct (map fst kvs) \<Longrightarrow> distinct (map fst (without x kvs))"
  unfolding without_def by (induction kvs) auto

lemma without_id: "x \<notin> fst ` set kvs \<Longrightarrow> without x kvs = kvs"
  unfolding without_def by (induction kvs) auto

text \<open>Stopping a provisioner: afterwards the profile has none.\<close>

lemma stop_apply:
  "stop_job_provisioner r w = (Inr (), let i = hp_id (qw_objects w ! r) in w
     \<lparr>qw_provisioners := without i (qw_provisioners w),
      qw_events := qw_events w @ (if i \<in> fst ` set (qw_provisioners w) then [ProvisionerStopped i] else []),
      qw_queues := without i (qw_queues w)\<rparr>)"
proof (cases "map_of (qw_provisioners w) (hp_id (qw_objects w ! r))")
  case None
  then have "hp_id (qw_objects w ! r) \<notin> fst ` set (qw_provisioners w)" by (simp add: map_of_eq_None_iff)
  with None show ?thesis by (simp add: stop_job_provisioner_def object_at_def thenS_apply Let_def without_id) (simp add: without_def)
next
  case (Some n)
  then have "hp_id (qw_objects w ! r) \<in> fst ` set (qw_provisioners w)" by (force dest: map_of_SomeD)
  with Some show ?thesis by (simp add: stop_job_provisioner_def object_at_def thenS_apply Let_def without_def)
qed

lemma stop_qp_ok: "qp_ok w \<Longrightarrow> qp_ok (snd (stop_job_provisioner r w))"
  unfolding stop_apply qp_ok_def Let_def by (simp only: snd_conv qp_world.simps keys_without) (simp split: if_splits, blast)

lemma stop_ok [qp_rules]: "preserves qp_ok (stop_job_provisioner r)"
  by (simp add: preserves_def stop_qp_ok)

lemma initialize_ok [qp_rules]: "preserves qp_ok (initialize_job_provisioner r)"
proof -
  have "qp_ok (snd (initialize_job_provisioner r w))" if "qp_ok w" for w
  proof -
    let ?i = "hp_id (qw_objects w ! r)" and ?v = "snd (stop_job_provisioner r w)"
    have v: "qp_ok ?v" "?i \<notin> fst ` set (qw_provisioners ?v)"
      using stop_qp_ok [OF that] by (simp_all add: stop_apply Let_def)
    have "qp_ok (?v\<lparr>qw_queues := assign_key ?i r (qw_queues ?v), qw_provisioners := assign_key ?i r (qw_provisioners ?v),
        qw_events := qw_events ?v @ [ProvisionerStarted ?i]\<rparr>)"
      using v unfolding qp_ok_def by (simp add: distinct_assign_key keys_assign_key)
    then show ?thesis using that by (simp add: initialize_job_provisioner_def object_at_def thenS_apply stop_apply Let_def)
  qed
  then show ?thesis by (simp add: preserves_def)
qed

lemma load_qp_ok [qp_rules]:
  "preserves qp_ok (load_profile env d)" "preserves qp_ok (cache_set r)" "preserves qp_ok (cache_clear r)"
  "preserves qp_ok (on_table m1)" "preserves qp_ok (object_at r)" "preserves qp_ok (get_queue_profile env i n q)"
  "preserves qp_ok (create_scheduler_queues env qs)" "preserves qp_ok (delete_scheduler_queues env qs)"
  "preserves qp_ok (remove_queue_names r qs)" "preserves qp_ok (write_queues env i qs)" "preserves qp_ok (set_enabled env i b)"
  "preserves qp_ok (check_unclaimed env p q')"
  by (intro quiet_preserves quiet_rules)+

lemma unless_empty_qp_ok [qp_rules]: "preserves qp_ok m \<Longrightarrow> preserves qp_ok (unless_empty qs m)"
  unfolding unless_empty_def by (intro preserves_intros)

inductive qp_step :: "qp_env \<Rightarrow> qp_world \<Rightarrow> qp_world \<Rightarrow> bool" for env where
  create: "qp_step env w (snd (create_queue_profile env p w))"
| look_up: "qp_step env w (snd (get_queue_profile env i n q w))"
| enable: "qp_step env w (snd (enable_queue_profile env i n w))"
| disable: "qp_step env w (snd (disable_queue_profile env i n w))"
| update: "qp_step env w (snd (update_queue_profile env p w))"
| delete_profile: "qp_step env w (snd (delete_queue_profile env i n b w))"
| create_queues: "qp_step env w (snd (create_queues env qs i n a b w))"
| delete_queues: "qp_step env w (snd (delete_queues env qs i n a b w))"
| start: "qp_step env w (snd (start_profiles env w))"
| stop: "qp_step env w (snd (stop_profiles env w))"

lemma running_qp_ok [qp_rules]: "preserves qp_ok (modify (\<lambda>w. w\<lparr>qw_running := b\<rparr>))"
  by (simp add: preserves_def qp_ok_def)

lemma qp_operations:
  "preserves qp_ok (create_queue_profile env p)" "preserves qp_ok (enable_queue_profile env i n)"
  "preserves qp_ok (disable_queue_profile env i n)" "preserves qp_ok (update_queue_profile env p)"
  "preserves qp_ok (delete_queue_profile env i n b)" "preserves qp_ok (create_queues env qs i n a b)"
  "preserves qp_ok (delete_queues env qs i n a b)" "preserves qp_ok (start_profiles env)"
  unfolding create_queue_profile_def enable_queue_profile_def disable_queue_profile_def update_queue_profile_def delete_queue_profile_def
    create_queues_def delete_queues_def start_profiles_def Let_def
  by (intro qp_rules preserves_intros; assumption?)+

lemma list_qp_ok [qp_rules]: "preserves qp_ok (list_queue_profiles env)"
  unfolding list_queue_profiles_def
  by (intro preserves_intros) (simp add: preserves_def qp_ok_def Let_def)

lemma stop_profiles_qp_ok: "preserves qp_ok (stop_profiles env)"
  unfolding stop_profiles_def by (intro qp_rules preserves_intros)

lemma qp_step_ok: "qp_step env w w' \<Longrightarrow> qp_ok w \<Longrightarrow> qp_ok w'"
  by (induction rule: qp_step.induct)
    (simp_all add: qp_operations [unfolded preserves_def] stop_profiles_qp_ok [unfolded preserves_def]
      quiet_preserves [OF quiet_get, unfolded preserves_def])

definition qp_start :: "profile_table \<Rightarrow> command list \<Rightarrow> qp_world" where
  "qp_start t h = \<lparr>qw_table = t, qw_objects = [], qw_cache = [], qw_queues = [], qw_provisioners = [], qw_hist = h, qw_events = [],
     qw_running = False\<rparr>"


section \<open>Updates of a disabled profile\<close>

lemma bindS_snd:
  "P (snd (m s)) \<Longrightarrow> (\<And>x s'. m s = (Inr x, s') \<Longrightarrow> P s' \<Longrightarrow> P (snd (f x s'))) \<Longrightarrow> P (snd (bindS m f s))"
  by (cases "m s"; cases "fst (m s)") (auto simp: bindS_def)

lemma preserves_snd: "preserves P m \<Longrightarrow> P s \<Longrightarrow> P (snd (m s))"
  by (simp add: preserves_def)

lemma bindS_InrE:
  assumes "bindS m f s = (Inr y, s'')"
  obtains x s' where "m s = (Inr x, s')" "f x s' = (Inr y, s'')"
  using assms by (auto simp: bindS_def split: prod.splits sum.splits)

lemma thenS_InrE:
  assumes "thenS m k s = (Inr y, s'')"
  obtains x s' where "m s = (Inr x, s')" "k s' = (Inr y, s'')"
  using assms unfolding thenS_def by (rule bindS_InrE)

lemma validate_keeps:
  assumes "validate_and_sanitize_queue_profile env p = Inr p'"
  obtains u where "p' = p\<lparr>hp_stack_uuid := u\<rparr>" "u = hp_stack_uuid p \<or> u = Some (qe_uuid env)"
  using assms
  by (cases p) (auto simp: validate_and_sanitize_queue_profile_def Let_def bindE_Inr_iff split: if_splits)

lemma load_profile_bind:
  "convert_from_db (qe_fmt env) d = Inr p \<Longrightarrow> bindS (load_profile env d) f w = f (length (qw_objects w)) (w\<lparr>qw_objects := qw_objects w @ [p]\<rparr>)"
  "convert_from_db (qe_fmt env) d = Inl e \<Longrightarrow> bindS (load_profile env d) f w = (Inl e, w)"
  by (simp_all add: load_profile_def new_object_def bindS_def thenS_apply)

definition same_objects :: "qp_world \<Rightarrow> qp_world \<Rightarrow> bool" where
  "same_objects v w \<longleftrightarrow> qw_objects w = qw_objects v \<and> qw_table w = qw_table v"

named_theorems steady_rules \<open>operations that leave the objects and the table alone\<close>

lemma steady_modify [steady_rules]:
  "preserves (same_objects v) (on_pbs m)" "preserves (same_objects v) (object_at r)" "preserves (same_objects v) (cache_put k r)"
  "preserves (same_objects v) (stop_job_provisioner r)" "preserves (same_objects v) (initialize_job_provisioner r)"
  by (auto simp: preserves_def on_pbs_def object_at_def cache_put_def same_objects_def initialize_job_provisioner_def stop_apply
      thenS_apply Let_def split: prod.split)

lemma steady_queues [steady_rules]:
  "preserves (same_objects v) (cache_set r)" "preserves (same_objects v) (create_scheduler_queues env qs)"
  unfolding cache_set_def create_scheduler_queues_def create_one_queue_def by (intro preserves_intros steady_rules)+

lemma steady_delete [steady_rules]: "preserves (same_objects v) (delete_scheduler_queues env qs)"
proof (induction qs)
  case (Cons q qs)
  have "preserves (same_objects v) (case e of SocaException _ \<Rightarrow> ret 0 | _ \<Rightarrow> throw e)" for e :: exc and v
    by (cases e) (simp_all add: preserves_prim)
  then show ?case unfolding delete_scheduler_queues.simps by (intro preserves_intros steady_rules Cons)
qed (unfold delete_scheduler_queues.simps, rule preserves_prim)

lemma steady_unless_empty [steady_rules]: "preserves (same_objects v) m \<Longrightarrow> preserves (same_objects v) (unless_empty qs m)"
  unfolding unless_empty_def by (intro preserves_intros)

lemma initialize_disabled: "hp_enabled (qw_objects w ! r) = Some False \<Longrightarrow> initialize_job_provisioner r w = (Inr (), w)"
  by (simp add: initialize_job_provisioner_def object_at_def)

text \<open>The item that an update of a disabled profile writes says that the profile is disabled.\<close>

lemma update_writes_enabled:
  assumes "dao_update now (assign_key ''queue_profile_id'' v (convert_to_db p)) t = (Inr d, t')" "hp_enabled p = Some b"
  shows "get_value_as_bool ''enabled'' d None = Some b"
proof -
  have "distinct (map fst (assign_key ''queue_profile_id'' v (convert_to_db p)))"
    by (intro distinct_assign_key) (simp add: convert_to_db_full distinct_to_item full_columns_distinct)
  moreover have "map_of (convert_to_db p) ''enabled'' = Some (PBool b)"
    by (rule column_of_part(4) [OF holds_convert_to_db]) (simp add: profile_columns_def assms(2))
  ultimately have "map_of d ''enabled'' = bools (Some b)" using dao_update_Inr [OF assms(1)] by auto
  then show ?thesis by (rule read_column(2))
qed

lemma convert_from_db_enabled: "convert_from_db fmt d = Inr p \<Longrightarrow> hp_enabled p = get_value_as_bool ''enabled'' d None"
  by (auto simp: convert_from_db_def Let_def bindE_Inr_iff)

definition disabled_at :: "qp_world \<Rightarrow> nat \<Rightarrow> qp_world \<Rightarrow> bool" where
  "disabled_at v r w \<longleftrightarrow> same_provisioners v w \<and> hp_enabled (qw_objects w ! r) = Some False"

lemma disabled_at_steady:
  assumes "\<And>v. preserves (same_provisioners v) m" "\<And>v. preserves (same_objects v) m"
  shows "preserves (disabled_at v r) m"
proof -
  have "disabled_at v r (snd (m w))" if "disabled_at v r w" for w
    using assms(1) [of v] assms(2) [of w] that by (auto simp: preserves_def disabled_at_def same_objects_def)
  then show ?thesis by (simp add: preserves_def)
qed

lemma disabled_at_initialize: "preserves (disabled_at v r) (initialize_job_provisioner r)"
  by (simp add: preserves_def disabled_at_def initialize_disabled)

lemma update_tail_quiet:
  assumes "disabled_at v r w"
  shows "same_provisioners v (snd ((thenS (unless_empty doomed (delete_scheduler_queues env doomed))
       (thenS (unless_empty born (create_scheduler_queues env born))
       (thenS (cache_set r)
       (thenS (initialize_job_provisioner r) (ret r))))) w))"
proof -
  have "preserves (disabled_at v r) (thenS (unless_empty doomed (delete_scheduler_queues env doomed))
       (thenS (unless_empty born (create_scheduler_queues env born))
       (thenS (cache_set r)
       (thenS (initialize_job_provisioner r) (ret r)))))"
    by (intro preserves_intros disabled_at_initialize disabled_at_steady quiet_rules steady_rules)
  with assms show ?thesis unfolding preserves_def disabled_at_def by blast
qed

text \<open>An update that disables a profile does not stop its provisioner, whatever its outcome: the provisioners, their queues and the starts and
  stops so far are as before.\<close>

theorem disabling_update_stops_nothing:
  assumes "hp_enabled p = Some False"
  shows "(let w' = snd (update_queue_profile env p w) in
      qw_provisioners w' = qw_provisioners w \<and> qw_queues w' = qw_queues w \<and> qw_events w' = qw_events w)"
proof -
  have "same_provisioners w (snd (update_queue_profile env p w))"
    unfolding update_queue_profile_def
  proof (rule bindS_snd, simp, rule bindS_snd, goal_cases)
    case (1 p' w1)
    with quiet_get [of w] show ?case by (simp add: preserves_def)
  next
    case (2 p' w1 r0 w2)
    then have p': "hp_enabled p' = Some False" using assms by (auto elim: validate_keeps)
    show ?case unfolding object_at_def bindS_prim
    proof (rule bindS_snd, goal_cases)
      case 1
      from quiet_modify(1) 2(4) show ?case by (rule preserves_snd)
    next
      case (2 d w3)
      then have d: "get_value_as_bool ''enabled'' d None = Some False"
        using update_writes_enabled [OF _ p'] by (auto simp: on_table_def split: prod.splits)
      show ?case
      proof (cases "convert_from_db (qe_fmt env) d")
        case (Inr q)
        let ?w = "w3\<lparr>qw_objects := qw_objects w3 @ [q]\<rparr>"
        from convert_from_db_enabled [OF Inr] d have "disabled_at w (length (qw_objects w3)) ?w"
          using 2 by (simp add: disabled_at_def same_provisioners_def)
        from update_tail_quiet [OF this] show ?thesis by (simp add: load_profile_bind(1) [OF Inr] Let_def)
      qed (use 2 in \<open>simp add: load_profile_bind(2)\<close>)
    qed
  qed
  then show ?thesis by (simp add: same_provisioners_def Let_def)
qed

section \<open>Deleted queues\<close>

lemma table_kept: "preserves (\<lambda>w. qw_table w = t) m" if "\<And>v. preserves (same_objects v) m"
proof -
  have "qw_table (snd (m w)) = qw_table w" for w
    using that [of w] by (simp add: preserves_def same_objects_def)
  then show ?thesis by (simp add: preserves_def)
qed

lemma write_queues_table:
  assumes "write_queues env (Some i) qs w = (Inr r, w')"
  shows "\<exists>item. map_of (qw_table w') i = Some item \<and> map_of item ''queues'' = Some (PList (map PStr qs))"
proof -
  from assms obtain d w1 where d: "on_table (dao_update (qe_now env) [(''queue_profile_id'', PStr i), (''queues'', PList (map PStr qs))]) w = (Inr d, w1)"
    and rest: "bindS (load_profile env d) (\<lambda>r. thenS (cache_set r) (ret r)) w1 = (Inr r, w')"
    by (auto simp: write_queues_def elim: bindS_InrE)
  from d have "dao_update (qe_now env) [(''queue_profile_id'', PStr i), (''queues'', PList (map PStr qs))] (qw_table w) = (Inr d, qw_table w1)"
    by (auto simp: on_table_def split: prod.splits)
  from dao_update_Inr [OF this] have item: "map_of (qw_table w1) i = Some d" "map_of d ''queues'' = Some (PList (map PStr qs))" by auto
  have "preserves (\<lambda>w. qw_table w = t) (bindS (load_profile env d) (\<lambda>r. thenS (cache_set r) (ret r)))" for t
    unfolding load_profile_def new_object_def by (intro preserves_intros table_kept steady_rules) simp
  from preservesD [OF this _ rest] item show ?thesis by simp
qed

text \<open>After a successful deletion of queues of a profile, the item of the profile in the table lists exactly the queues that were deleted:
  the names given are written back instead of the names that are left.\<close>

theorem deleted_queues_written_back:
  assumes "delete_queues env qs (Some i) n True restart w = (Inr (), w')"
  shows "\<exists>item. map_of (qw_table w') i = Some item \<and> map_of item ''queues'' = Some (PList (map PStr qs))"
proof -
  let ?finish = "\<lambda>r'. if restart then initialize_job_provisioner r' else ret ()"
  from assms have "bindS (get_queue_profile env (Some i) n None) (\<lambda>r. thenS (remove_queue_names r qs)
      (thenS (delete_scheduler_queues env qs) (bindS (write_queues env (Some i) qs) ?finish))) w = (Inr (), w')"
    by (simp add: delete_queues_def split: if_splits)
  then obtain r' v v' where v: "write_queues env (Some i) qs v = (Inr r', v')" and finish: "?finish r' v' = (Inr (), w')"
    by (elim bindS_InrE thenS_InrE)
  have "preserves (\<lambda>w. qw_table w = t) (?finish r')" for t by (intro preserves_intros table_kept steady_rules)
  from preservesD [OF this _ finish] have "qw_table w' = qw_table v'" by simp
  with write_queues_table [OF v] show ?thesis by simp
qed

section \<open>Created profiles\<close>

lemma stored_columns:
  "holds_columns (fold (\<lambda>(k, v). assign_key k v) [(''queue_profile_id'', PStr fresh), (''created_on'', PInt now), (''updated_on'', PInt now)]
     (convert_to_db q)) (q\<lparr>hp_id := Some fresh\<rparr>)"
proof -
  have names: "fst ` set (full_columns x) = set column_names" for x
    by (simp add: column_names_def full_columns_def profile_columns_def queue_params_columns_def job_params_columns_def fsx_columns_def)
  have fresh: "''created_on'' \<notin> set column_names" "''updated_on'' \<notin> set column_names" by code_simp+
  have cols: "profile_columns (q\<lparr>hp_id := Some fresh\<rparr>) = (''queue_profile_id'', Some (PStr fresh)) # tl (profile_columns q)"
    by (simp add: profile_columns_def)
  have "(''queue_profile_id'', Some (PStr fresh)) \<in> set (full_columns (q\<lparr>hp_id := Some fresh\<rparr>))" by (simp add: full_columns_def cols)
  from eq_key_imp_eq_value [OF full_columns_distinct this]
  have id: "(''queue_profile_id'', v) \<in> set (full_columns (q\<lparr>hp_id := Some fresh\<rparr>)) \<Longrightarrow> v = Some (PStr fresh)" for v by simp
  have "profile_columns q \<noteq> []" by (simp add: profile_columns_def)
  then have other: "(k, v) \<in> set (full_columns q)" if "(k, v) \<in> set (full_columns (q\<lparr>hp_id := Some fresh\<rparr>))" "k \<noteq> ''queue_profile_id''" for k v
    using that by (auto simp: full_columns_def cols dest: list.set_sel(2))
  show ?thesis unfolding holds_columns_def
  proof (intro allI impI)
    fix k v assume kv: "(k, v) \<in> set (full_columns (q\<lparr>hp_id := Some fresh\<rparr>))"
    then have "k \<in> set column_names" using names [of "q\<lparr>hp_id := Some fresh\<rparr>"] by force
    with fresh have k: "k \<noteq> ''created_on''" "k \<noteq> ''updated_on''" by auto
    show "map_of (fold (\<lambda>(k, v). assign_key k v) [(''queue_profile_id'', PStr fresh), (''created_on'', PInt now), (''updated_on'', PInt now)]
        (convert_to_db q)) k = v"
    proof (cases "k = ''queue_profile_id''")
      case True
      with k id kv show ?thesis by (simp add: map_of_assign_key)
    next
      case False
      with column_of_profile [OF other [OF kv False]] k show ?thesis by (simp add: map_of_assign_key)
    qed
  qed
qed

text \<open>A profile that is created, whatever its \<open>enabled\<close> flag was, is stored under the fresh id and returned disabled, with what the table keeps
  of its settings, and no provisioner starts for it.\<close>

theorem created_profile_is_disabled:
  assumes "create_queue_profile env p w = (Inr r, w')" "proper_profile p" "clean (Some (qe_uuid env))"
  shows "(\<exists>u. qw_objects w' ! r = kept_profile (p\<lparr>hp_id := Some (qe_uuid env), hp_enabled := Some False, hp_stack_uuid := u\<rparr>)) \<and>
    (\<exists>item. map_of (qw_table w') (qe_uuid env) = Some item \<and> convert_from_db (qe_fmt env) item = Inr (qw_objects w' ! r)) \<and>
    qw_provisioners w' = qw_provisioners w \<and> qw_events w' = qw_events w"
proof -
  let ?f = "qe_uuid env"
  from assms(1) obtain p' where valid: "validate_and_sanitize_queue_profile env p = Inr p'"
    by (auto simp: create_queue_profile_def bindS_reads split: sum.splits)
  then obtain u where p': "p' = p\<lparr>hp_stack_uuid := u\<rparr>" and u: "u = hp_stack_uuid p \<or> u = Some ?f" by (rule validate_keeps)
  let ?q = "p'\<lparr>hp_enabled := Some False\<rparr>"
  let ?stored = "?q\<lparr>hp_id := Some ?f\<rparr>"
  let ?item = "fold (\<lambda>(k, v). assign_key k v) [(''queue_profile_id'', PStr ?f), (''created_on'', PInt (qe_now env)), (''updated_on'', PInt (qe_now env))]
      (convert_to_db ?q)"
  have "proper_profile ?stored" using assms(2,3) u p' by (auto simp: proper_profile_def)
  with stored_columns have item: "convert_from_db (qe_fmt env) ?item = Inr (kept_profile ?stored)" by (rule read_profile_back)
  let ?tail = "\<lambda>r. bindS (object_at r) (\<lambda>created. thenS (bindS (reads (\<lambda>_. required TypeError (hp_queues created))) (create_scheduler_queues env))
      (thenS (cache_set r) (ret r)))"
  let ?w = "w\<lparr>qw_table := assign_key ?f ?item (qw_table w), qw_objects := qw_objects w @ [kept_profile ?stored]\<rparr>"
  have run: "?tail (length (qw_objects w)) ?w = (Inr r, w')"
  proof -
    have "on_table (dao_get_by_name n) w = (fst (on_table (dao_get_by_name n) w), w)" for n
      by (simp add: on_table_def dao_get_by_name_def)
    then obtain x where "on_table (dao_get_by_name (hp_name p')) w = (x, w)" by blast
    moreover have "on_table (dao_create ?f (qe_now env) (convert_to_db ?q)) w = (Inr ?item, w\<lparr>qw_table := assign_key ?f ?item (qw_table w)\<rparr>)"
      by (simp add: on_table_def dao_create_def Let_def thenS_apply store_item_def)
    ultimately show ?thesis using assms(1) valid
      by (auto simp: create_queue_profile_def bindS_def [of "on_table _"] load_profile_bind(1) [OF item] simp del: fold.simps split: sum.splits if_splits)
  qed
  then have r: "r = length (qw_objects w)" by (auto elim!: bindS_InrE thenS_InrE)
  have "preserves (same_objects ?w) (?tail k)" for k by (intro preserves_intros steady_rules)
  from preservesD [OF this _ run] have "same_objects ?w w'" by (simp add: same_objects_def)
  moreover have "preserves (same_provisioners ?w) (?tail k)" for k by (intro preserves_intros quiet_rules)
  from preservesD [OF this _ run] have "same_provisioners ?w w'" by simp
  moreover have "?stored = p\<lparr>hp_id := Some ?f, hp_enabled := Some False, hp_stack_uuid := u\<rparr>" by (simp add: p')
  ultimately have "qw_objects w' ! r = kept_profile (p\<lparr>hp_id := Some ?f, hp_enabled := Some False, hp_stack_uuid := u\<rparr>)"
    "qw_objects w' ! r = kept_profile ?stored" "map_of (qw_table w') ?f = Some ?item"
    "qw_provisioners w' = qw_provisioners w" "qw_events w' = qw_events w"
    by (simp_all only: r same_objects_def same_provisioners_def) (simp_all add: nth_append map_of_assign_key)
  with item show ?thesis by auto
qed

end
