(* ===== verification/Profile_View.thy ===== *)
theory Profile_View
  imports Queue_Profiles Monitor_View
begin

text \<open>
  One queue profile with the queues normal and high, on a server that accepts every command: the profile is enabled, then updated, has a queue
  deleted, and is created anew. These runs show that the theorems of \<open>Queue_Profiles\<close> apply.
\<close>

definition sample_qp_env :: qp_env where
  "sample_qp_env = \<lparr>qe_server = sample_server 0 [(''Queue'', PDict [(''workq'', PDict [(''enabled'', PStr ''True''), (''state_count'', PStr ''Queued:0'')])])], qe_build = sample_valid, qe_to_dict = (\<lambda>_. be_params sample_valid), qe_fmt = (\<lambda>_. []),
     qe_uuid = ''u1'', qe_now = 5\<rparr>"

definition sample_table :: profile_table where
  "sample_table = [(''p1'', convert_to_db ((sample_hpc_profile (Some 2))\<lparr>hp_enabled := Some False\<rparr>))]"

definition enabled_world :: qp_world where
  "enabled_world = snd (enable_queue_profile sample_qp_env (Some ''p1'') None (qp_start sample_table []))"

lemma enabled_run:
  "qw_provisioners enabled_world = [(Some ''p1'', 1)]" "qw_events enabled_world = [ProvisionerStarted (Some ''p1'')]"
  by code_simp+

lemma update_run:
  "case update_queue_profile sample_qp_env ((sample_hpc_profile (Some 2))\<lparr>hp_enabled := Some False\<rparr>) enabled_world of
     (Inr r, w) \<Rightarrow> hp_enabled (qw_objects w ! r) = Some False | _ \<Rightarrow> False"
  by code_simp

lemma delete_run:
  "case delete_queues sample_qp_env [''high''] (Some ''p1'') None True True enabled_world of (Inr (), w) \<Rightarrow> True | _ \<Rightarrow> False"
  by code_simp

lemma create_run:
  "case create_queue_profile sample_qp_env (sample_hpc_profile (Some 2)) (qp_start [] []) of (Inr r, w) \<Rightarrow> True | _ \<Rightarrow> False"
  by code_simp


lemma disabling_update_stops_nothing_witness:
  "\<exists>r w. update_queue_profile sample_qp_env ((sample_hpc_profile (Some 2))\<lparr>hp_enabled := Some False\<rparr>) enabled_world = (Inr r, w) \<and>
     hp_enabled (qw_objects w ! r) = Some False \<and> qw_provisioners w = [(Some ''p1'', 1)]"
proof -
  let ?p = "(sample_hpc_profile (Some 2))\<lparr>hp_enabled := Some False\<rparr>"
  obtain r w where run: "update_queue_profile sample_qp_env ?p enabled_world = (Inr r, w)" "hp_enabled (qw_objects w ! r) = Some False"
    using update_run by (auto split: prod.splits sum.splits)
  moreover have "qw_provisioners w = [(Some ''p1'', 1)]"
    using disabling_update_stops_nothing [of ?p sample_qp_env enabled_world] run(1) by (simp add: Let_def enabled_run)
  ultimately show ?thesis by blast
qed

lemma deleted_queues_written_back_witness:
  "\<exists>w item. delete_queues sample_qp_env [''high''] (Some ''p1'') None True True enabled_world = (Inr (), w) \<and>
     map_of (qw_table w) ''p1'' = Some item \<and> map_of item ''queues'' = Some (PList [PStr ''high''])"
proof -
  obtain w where run: "delete_queues sample_qp_env [''high''] (Some ''p1'') None True True enabled_world = (Inr (), w)"
    using delete_run by (auto split: prod.splits sum.splits)
  from deleted_queues_written_back [OF this] run show ?thesis by auto
qed

lemma created_profile_is_disabled_witness:
  "\<exists>r w item. create_queue_profile sample_qp_env (sample_hpc_profile (Some 2)) (qp_start [] []) = (Inr r, w) \<and>
     map_of (qw_table w) ''u1'' = Some item \<and> hp_enabled (qw_objects w ! r) = Some False \<and> qw_provisioners w = []"
proof -
  obtain r w where run: "create_queue_profile sample_qp_env (sample_hpc_profile (Some 2)) (qp_start [] []) = (Inr r, w)"
    using create_run by (auto split: prod.splits sum.splits)
  have "clean (Some (qe_uuid sample_qp_env))" by code_simp
  from created_profile_is_disabled [OF run sample_proper this] run show ?thesis
    by (auto simp: sample_qp_env_def kept_profile_def qp_start_def)
qed

end
