(* ===== verification/Desktop_Model.thy ===== *)
theory Desktop_Model
  imports Py_Dict
begin

text \<open>
  Virtual desktops: the data of \<open>ideadatamodel/virtual_desktop/virtual_desktop_model.py\<close> and how sessions, servers, schedules and counters are kept
  in DynamoDB (\<open>ideavirtualdesktopcontroller/app\<close>: \<open>virtual_desktop_session_db.py\<close>, \<open>virtual_desktop_server_db.py\<close>,
  \<open>virtual_desktop_schedule_db.py\<close>, \<open>virtual_desktop_session_counters_db.py\<close>). A table is the association list of its items under their keys.
  Of a session the record keeps the fields on which the controller acts; its project, type, operating system and texts are copied along and left
  out, and a software stack is its item. Times are microseconds. The notifications of changes to the tables, which feed the search index, are left out.
\<close>

section \<open>Enumerations\<close>

datatype session_state = VS_PROVISIONING | VS_CREATING | VS_INITIALIZING | VS_READY | VS_RESUMING | VS_STOPPING | VS_STOPPED | VS_ERROR
  | VS_DELETING | VS_DELETED

datatype day_of_week = MONDAY | TUESDAY | WEDNESDAY | THURSDAY | FRIDAY | SATURDAY | SUNDAY

datatype schedule_type = WORKING_HOURS | STOP_ON_IDLE | START_ALL_DAY | CUSTOM_SCHEDULE | NO_SCHEDULE

fun state_str :: "session_state \<Rightarrow> string" where
  "state_str VS_PROVISIONING = ''PROVISIONING''"
| "state_str VS_CREATING = ''CREATING''"
| "state_str VS_INITIALIZING = ''INITIALIZING''"
| "state_str VS_READY = ''READY''"
| "state_str VS_RESUMING = ''RESUMING''"
| "state_str VS_STOPPING = ''STOPPING''"
| "state_str VS_STOPPED = ''STOPPED''"
| "state_str VS_ERROR = ''ERROR''"
| "state_str VS_DELETING = ''DELETING''"
| "state_str VS_DELETED = ''DELETED''"

fun day_str :: "day_of_week \<Rightarrow> string" where
  "day_str MONDAY = ''monday''"
| "day_str TUESDAY = ''tuesday''"
| "day_str WEDNESDAY = ''wednesday''"
| "day_str THURSDAY = ''thursday''"
| "day_str FRIDAY = ''friday''"
| "day_str SATURDAY = ''saturday''"
| "day_str SUNDAY = ''sunday''"

fun schedule_type_str :: "schedule_type \<Rightarrow> string" where
  "schedule_type_str WORKING_HOURS = ''WORKING_HOURS''"
| "schedule_type_str STOP_ON_IDLE = ''STOP_ON_IDLE''"
| "schedule_type_str START_ALL_DAY = ''START_ALL_DAY''"
| "schedule_type_str CUSTOM_SCHEDULE = ''CUSTOM_SCHEDULE''"
| "schedule_type_str NO_SCHEDULE = ''NO_SCHEDULE''"

definition all_states :: "session_state list" where
  "all_states = [VS_PROVISIONING, VS_CREATING, VS_INITIALIZING, VS_READY, VS_RESUMING, VS_STOPPING, VS_STOPPED, VS_ERROR, VS_DELETING, VS_DELETED]"

definition week_days :: "day_of_week list" where
  "week_days = [MONDAY, TUESDAY, WEDNESDAY, THURSDAY, FRIDAY, SATURDAY, SUNDAY]"

definition all_schedule_types :: "schedule_type list" where
  "all_schedule_types = [WORKING_HOURS, STOP_ON_IDLE, START_ALL_DAY, CUSTOM_SCHEDULE, NO_SCHEDULE]"

text \<open>An enumeration read by a text: by the name of the member, or by its value; None is neither.\<close>

definition member_named :: "exc \<Rightarrow> ('a \<Rightarrow> string) \<Rightarrow> 'a list \<Rightarrow> string option \<Rightarrow> 'a res" where
  "member_named e name members s =
     (case List.find (\<lambda>x. Some (name x) = s) members of Some x \<Rightarrow> Inr x | None \<Rightarrow> Inl e)"

definition state_of_name :: "string option \<Rightarrow> session_state res" where
  "state_of_name = member_named KeyError state_str all_states"

definition schedule_type_of :: "string option \<Rightarrow> schedule_type res" where
  "schedule_type_of = member_named ValueError schedule_type_str all_schedule_types"

definition day_of :: "string option \<Rightarrow> day_of_week option res" where
  "day_of s = (case s of None \<Rightarrow> Inr None
     | Some t \<Rightarrow> bindE (member_named ValidationError day_str week_days (Some t)) (\<lambda>d. Inr (Some d)))"

section \<open>Objects\<close>

record vd_schedule =
  vh_id :: "string option"
  vh_session_id :: "string option"
  vh_owner :: "string option"
  vh_day :: "day_of_week option"
  vh_start :: "string option"
  vh_stop :: "string option"
  vh_type :: "schedule_type option"

text \<open>A week is what each day has: the record \<open>VirtualDesktopWeekSchedule\<close> with its fields named by the days.\<close>

type_synonym week_schedule = "day_of_week \<Rightarrow> vd_schedule option"

record vd_server =
  vr_instance_id :: "string option"
  vr_instance_type :: "string option"
  vr_session_id :: "string option"
  vr_owner :: "string option"
  vr_state :: "string option"
  vr_locked :: "bool option"

record vd_session =
  vs_id :: "string option"
  vs_owner :: "string option"
  vs_name :: "string option"
  vs_dcv_id :: "string option"
  vs_state :: "session_state option"
  vs_server :: "vd_server option"
  vs_stack :: "pydict option"
  vs_schedule :: "week_schedule option"
  vs_created :: "int option"
  vs_updated :: "int option"
  vs_hibernation :: "bool option"
  vs_locked :: "bool option"
  vs_force :: "bool option"
  vs_connections :: "int option"
  vs_failure :: "string option"

definition new_session :: "string option \<Rightarrow> string option \<Rightarrow> bool option \<Rightarrow> vd_session" where
  "new_session i ow force = \<lparr>vs_id = i, vs_owner = ow, vs_name = None, vs_dcv_id = None, vs_state = None, vs_server = None, vs_stack = None,
     vs_schedule = None, vs_created = None, vs_updated = None, vs_hibernation = None, vs_locked = None, vs_force = force, vs_connections = None,
     vs_failure = None\<rparr>"

section \<open>Times\<close>

text \<open>A time of the table is read in whole seconds.\<close>

definition to_milliseconds :: "int option \<Rightarrow> int" where
  "to_milliseconds t = (case t of None \<Rightarrow> 0 | Some us \<Rightarrow> us div 1000)"

definition to_datetime :: "int option \<Rightarrow> int option" where
  "to_datetime ms = map_option (\<lambda>m. m div 1000 * 1000000) ms"

section \<open>Items\<close>

definition str_val :: "string option \<Rightarrow> pyval" where
  "str_val v = (case v of None \<Rightarrow> PNone | Some s \<Rightarrow> PStr s)"

definition bool_val :: "bool option \<Rightarrow> pyval" where
  "bool_val v = (case v of None \<Rightarrow> PNone | Some b \<Rightarrow> PBool b)"

text \<open>Conversions raise only where an attribute of None is read or an enumeration does not know a name. The columns of the two times of a
  schedule are named crosswise.\<close>

definition get_empty_schedule :: "day_of_week option \<Rightarrow> vd_schedule" where
  "get_empty_schedule d = \<lparr>vh_id = Some [], vh_session_id = None, vh_owner = None, vh_day = d, vh_start = None, vh_stop = None,
     vh_type = Some NO_SCHEDULE\<rparr>"

definition schedule_to_item :: "vd_schedule option \<Rightarrow> pydict res" where
  "schedule_to_item v = bindE (required AttributeError v) (\<lambda>h. Inr (
     [(''day_of_week'', str_val (map_option day_str (vh_day h))), (''schedule_id'', str_val (vh_id h)),
      (''idea_session_id'', str_val (vh_session_id h)), (''idea_session_owner'', str_val (vh_owner h)),
      (''schedule_type'', str_val (map_option schedule_type_str (vh_type h)))] @
     (if vh_type h = Some CUSTOM_SCHEDULE
      then [(''shut_down_time'', str_val (vh_start h)), (''start_up_time'', str_val (vh_stop h))] else [])))"

text \<open>The times of the working hours are settings.\<close>

definition item_to_schedule :: "(string \<times> string) res \<Rightarrow> (pyval \<Rightarrow> string) \<Rightarrow> pydict option \<Rightarrow> vd_schedule res" where
  "item_to_schedule hours fmt v =
     (case v of None \<Rightarrow> Inr (get_empty_schedule None) | Some d \<Rightarrow>
     (let str = (\<lambda>k. get_value_as_string fmt k d None) in
      if d = [] \<or> is_empty_opt_str (str ''schedule_id'') then Inr (get_empty_schedule None)
      else bindE (schedule_type_of (str ''schedule_type'')) (\<lambda>ty.
           bindE (case ty of
               WORKING_HOURS \<Rightarrow> bindE hours (\<lambda>(start, stop). Inr (Some start, Some stop))
             | STOP_ON_IDLE \<Rightarrow> Inr (Some ''23:59'', Some ''00:00'')
             | START_ALL_DAY \<Rightarrow> Inr (Some ''00:00'', Some ''23:59'')
             | _ \<Rightarrow> Inr (str ''shut_down_time'', str ''start_up_time'')) (\<lambda>(start, stop).
           bindE (day_of (str ''day_of_week'')) (\<lambda>day.
             Inr \<lparr>vh_id = str ''schedule_id'', vh_session_id = str ''idea_session_id'', vh_owner = str ''idea_session_owner'', vh_day = day,
               vh_start = start, vh_stop = stop, vh_type = Some ty\<rparr>)))))"

definition server_to_item :: "vd_server option \<Rightarrow> pydict" where
  "server_to_item v = (case v of None \<Rightarrow> [] | Some r \<Rightarrow>
     [(''instance_id'', str_val (vr_instance_id r)), (''instance_type'', str_val (vr_instance_type r)),
      (''idea_session_id'', str_val (vr_session_id r)), (''idea_session_owner'', str_val (vr_owner r)),
      (''state'', str_val (vr_state r)), (''locked'', PBool (opt_or (vr_locked r) False))])"

text \<open>The state of a server is written and never read.\<close>

definition item_to_server :: "(pyval \<Rightarrow> string) \<Rightarrow> pydict option \<Rightarrow> vd_server option" where
  "item_to_server fmt v =
     (case v of None \<Rightarrow> None | Some d \<Rightarrow> if d = [] then None else
      (let str = (\<lambda>k. get_value_as_string fmt k d None) in
       Some \<lparr>vr_instance_id = str ''instance_id'', vr_instance_type = str ''instance_type'', vr_session_id = str ''idea_session_id'',
         vr_owner = str ''idea_session_owner'', vr_state = None, vr_locked = get_value_as_bool ''locked'' d (Some False)\<rparr>))"

definition schedule_column :: "day_of_week \<Rightarrow> string" where
  "schedule_column d = day_str d @ ''_schedule''"

definition no_week :: week_schedule where
  "no_week = (\<lambda>_. None)"

text \<open>Of a session the force flag, the number of connections and the reason of a failure are not written. A week is written day by day, so a day
  without a schedule raises.\<close>

definition session_to_item :: "vd_session \<Rightarrow> pydict res" where
  "session_to_item s =
     bindE (required AttributeError (vs_stack s)) (\<lambda>stack.
     bindE (traverseE (\<lambda>d. bindE (schedule_to_item (opt_or (vs_schedule s) no_week d)) (\<lambda>i. Inr (schedule_column d, PDict i))) week_days) (\<lambda>days.
       Inr ([(''owner'', str_val (vs_owner s)), (''idea_session_id'', str_val (vs_id s)), (''created_on'', PInt (to_milliseconds (vs_created s))),
         (''updated_on'', PInt (to_milliseconds (vs_updated s))), (''server'', PDict (server_to_item (vs_server s))),
         (''software_stack'', PDict stack), (''name'', str_val (vs_name s)),
         (''dcv_session_id'', str_val (vs_dcv_id s)), (''state'', str_val (map_option state_str (vs_state s))),
         (''locked'', PBool (opt_or (vs_locked s) False)), (''hibernation_enabled'', bool_val (vs_hibernation s))] @ days)))"

definition item_to_session :: "(string \<times> string) res \<Rightarrow> (pyval \<Rightarrow> string) \<Rightarrow> pydict option \<Rightarrow> vd_session option res" where
  "item_to_session hours fmt v =
     (case v of None \<Rightarrow> Inr None | Some d \<Rightarrow> if d = [] then Inr None else
      (let str = (\<lambda>k. get_value_as_string fmt k d None) in
       bindE (get_value_as_int ''created_on'' d None) (\<lambda>created.
       bindE (get_value_as_int ''updated_on'' d None) (\<lambda>updated.
       bindE (state_of_name (str ''state'')) (\<lambda>state.
       bindE (traverseE (\<lambda>day. item_to_schedule hours fmt (get_value_as_dict (schedule_column day) d None)) week_days) (\<lambda>schedules.
         Inr (Some \<lparr>vs_id = str ''idea_session_id'', vs_owner = str ''owner'', vs_name = str ''name'',
           vs_dcv_id = get_value_as_string fmt ''dcv_session_id'' d (Some []), vs_state = Some state,
           vs_server = item_to_server fmt (get_value_as_dict ''server'' d None),
           vs_stack = get_value_as_dict ''software_stack'' d None,
           vs_schedule = Some (map_of (zip week_days schedules)), vs_created = to_datetime created, vs_updated = to_datetime updated,
           vs_hibernation = get_value_as_bool ''hibernation_enabled'' d None, vs_locked = get_value_as_bool ''locked'' d (Some False),
           vs_force = None, vs_connections = None, vs_failure = None\<rparr>)))))))"

end
