(* ===== verification/Desktop_Tables.thy ===== *)
theory Desktop_Tables
  imports Desktop_Model
begin

text \<open>
  The tables of the virtual desktop controller and the operations on them. What AWS, the DCV broker and the settings answer is \<open>desktop_env\<close>; a
  call that succeeds is an effect, appended to the world. The clock stands still during an operation. The agents that DynamoDB raises errors for
  (missing key attributes) raise \<open>ClientError\<close>.
\<close>

datatype session_counter = CREATION_REQUEST_ACCEPTED | SESSION_RESUMED | VALIDATE_CREATED

datatype command_type = RESUME_SESSION | CPU_UTILIZATION_CHECK_STOP_SCHEDULED_SESSION | WINDOWS_ENABLE_USERDATA_EXECUTION
  | WINDOWS_DISABLE_USERDATA_EXECUTION

text \<open>What is published: the event with the session's id and its owner; the progress of a command also has the command, the host and the status.\<close>

datatype desktop_event =
    ScheduledStop "string option" "string option"
  | ScheduledResume "string option" "string option"
  | ValidateCreation "string option" "string option"
  | ValidateDeletion "string option" "string option"
  | RebootComplete "string option" "string option" "string option"
  | HostState "string option" "string option" "string option" "string option"
  | CommandProgress command_type "string option" "string option" string "string option" "string option"
  | UserDisabled string
  | TerminateSession "string option" "string option" bool

datatype desktop_effect =
    Published desktop_event
  | StoppedHosts "string option list" bool
  | StartedHosts "string option list"
  | RebootedHosts "string option list"
  | TerminatedHosts "string option list"
  | DeletedDcvSessions "(string option \<times> string option) list"
  | CreatedDcvSession "string option"
  | ResumeCommand "string option"
  | UtilizationCommand "string option"
  | TaggedHost "string option"
  | NamedHost "string option" "string option"
  | ChangedType "string option" "string option"

record desktop_world =
  dw_sessions :: "((string \<times> string) \<times> pydict) list"
  dw_servers :: "(string \<times> pydict) list"
  dw_schedules :: "((string \<times> string) \<times> pydict) list"
  dw_counters :: "((string \<times> session_counter) \<times> int) list"
  dw_permissions :: "(string \<times> string) list"
  dw_commands :: "(string \<times> command_type \<times> pydict) list"
  dw_uuids :: nat
  dw_effects :: "desktop_effect list"

record desktop_env =
  de_fmt :: "pyval \<Rightarrow> string"
  de_now :: int
  de_uuid :: "nat \<Rightarrow> string"
  de_hours :: "(string \<times> string) res"
  de_schedule_type :: "day_of_week \<Rightarrow> string res"
  de_custom_hours :: "day_of_week \<Rightarrow> (string \<times> string) res"
  de_stop :: "string option list \<Rightarrow> bool \<Rightarrow> pydict res"
  de_start :: "string option list \<Rightarrow> pydict res"
  de_reboot :: "string option list \<Rightarrow> pydict res"
  de_terminate :: "string option list \<Rightarrow> pydict res"
  de_instance_state :: "string option \<Rightarrow> string option res"
  de_delete_api :: "(string option \<times> string option) list \<Rightarrow> pydict res"
  de_describe_api :: "string option list option \<Rightarrow> pydict res"
  de_create_api :: "vd_session \<Rightarrow> vd_session res"
  de_resume :: "vd_session \<Rightarrow> string res"
  de_provision :: "vd_session \<Rightarrow> pydict res"
  de_tag :: "string option \<Rightarrow> unit res"
  de_utilization :: "vd_session \<Rightarrow> string res"
  de_command_output :: "string option \<Rightarrow> string option \<Rightarrow> pydict res"
  de_parse_time :: "string \<Rightarrow> int res"
  de_local_offset :: int
  de_cpu_threshold :: "pyfloat res"
  de_idle_delay :: "int res"
  de_change_type :: "string option \<Rightarrow> string option \<Rightarrow> string option"
  de_connect :: "string option \<Rightarrow> string option \<Rightarrow> string option"
  de_controller_role :: string
  de_validation_timeout :: int

type_synonym 'a desk = "(desktop_world, 'a) act"

definition effect :: "desktop_effect \<Rightarrow> unit desk" where
  "effect e = modify (\<lambda>w. w\<lparr>dw_effects := dw_effects w @ [e]\<rparr>)"

definition publish :: "desktop_event \<Rightarrow> unit desk" where
  "publish e = effect (Published e)"

text \<open>A call of an interface: its answer, and the effect when it succeeds.\<close>

definition calls :: "'a res \<Rightarrow> desktop_effect \<Rightarrow> 'a desk" where
  "calls answer e = bindS (reads (\<lambda>_. answer)) (\<lambda>x. thenS (effect e) (ret x))"

definition now_ms :: "desktop_env \<Rightarrow> int" where
  "now_ms env = de_now env div 1000"

definition no_key :: exc where "no_key = ClientError ''ValidationException''"

definition remove_key :: "'k \<Rightarrow> ('k \<times> 'v) list \<Rightarrow> ('k \<times> 'v) list" where
  "remove_key k kvs = filter (\<lambda>(k', _). k' \<noteq> k) kvs"

text \<open>\<open>update_item\<close> with SET: the attributes but for \<open>keep\<close> are written; a missing item is made, with its key.\<close>

definition set_attributes :: "string list \<Rightarrow> pydict \<Rightarrow> pydict \<Rightarrow> pydict option \<Rightarrow> pydict" where
  "set_attributes keep item key_columns old =
     fold (\<lambda>(k, v). assign_key k v) (filter (\<lambda>(k, _). k \<notin> set keep) item) (case old of None \<Rightarrow> key_columns | Some d \<Rightarrow> d)"

section \<open>Sessions\<close>

definition read_session :: "desktop_env \<Rightarrow> pydict option \<Rightarrow> vd_session option res" where
  "read_session env = item_to_session (de_hours env) (de_fmt env)"

definition session_get :: "desktop_env \<Rightarrow> string option \<Rightarrow> string option \<Rightarrow> vd_session option desk" where
  "session_get env ow i =
     (if is_empty_opt_str ow \<or> is_empty_opt_str i then reads (\<lambda>_. read_session env None)
      else reads (\<lambda>w. read_session env (map_of (dw_sessions w) (opt_or ow [], opt_or i []))))"

definition session_key :: "vd_session \<Rightarrow> (string \<times> string) res" where
  "session_key s = (case (vs_owner s, vs_id s) of (Some ow, Some i) \<Rightarrow> Inr (ow, i) | _ \<Rightarrow> Inl no_key)"

definition session_create :: "desktop_env \<Rightarrow> vd_session \<Rightarrow> vd_session desk" where
  "session_create env s =
     bindS (reads (\<lambda>_. session_to_item s)) (\<lambda>item.
     let item' = assign_key ''updated_on'' (PInt (now_ms env)) (assign_key ''created_on'' (PInt (now_ms env)) item) in
     bindS (reads (\<lambda>_. session_key s)) (\<lambda>k.
     thenS (modify (\<lambda>w. w\<lparr>dw_sessions := assign_key k item' (dw_sessions w)\<rparr>))
       (reads (\<lambda>_. bindE (read_session env (Some item')) (required AttributeError)))))"

definition session_update :: "desktop_env \<Rightarrow> vd_session \<Rightarrow> vd_session desk" where
  "session_update env s =
     bindS (reads (\<lambda>_. session_to_item s)) (\<lambda>item.
     let item' = assign_key ''updated_on'' (PInt (now_ms env)) item in
     bindS (reads (\<lambda>_. session_key s)) (\<lambda>k.
     bindS (gets (\<lambda>w. map_of (dw_sessions w) k)) (\<lambda>old.
     thenS (modify (\<lambda>w. w\<lparr>dw_sessions := assign_key k
              (set_attributes [''owner'', ''idea_session_id'', ''created_on''] item'
                [(''owner'', PStr (fst k)), (''idea_session_id'', PStr (snd k))] old) (dw_sessions w)\<rparr>))
     (thenS (reads (\<lambda>_. bindE (required KeyError old) (\<lambda>_. Inr ())))
       (reads (\<lambda>_. bindE (read_session env (Some item')) (required AttributeError)))))))"

definition session_delete :: "desktop_env \<Rightarrow> vd_session \<Rightarrow> unit desk" where
  "session_delete env s =
     (if is_empty_opt_str (vs_id s) \<or> is_empty_opt_str (vs_owner s) then throw (SocaException ''INVALID_PARAMS'')
      else bindS (reads (\<lambda>_. session_key s)) (\<lambda>k.
           bindS (gets (\<lambda>w. map_of (dw_sessions w) k)) (\<lambda>old.
           thenS (modify (\<lambda>w. w\<lparr>dw_sessions := remove_key k (dw_sessions w)\<rparr>))
             (reads (\<lambda>_. bindE (required KeyError old) (\<lambda>_. Inr ()))))))"

section \<open>Servers\<close>

definition server_key :: "vd_server \<Rightarrow> string res" where
  "server_key r = required no_key (vr_instance_id r)"

definition server_get :: "desktop_env \<Rightarrow> string option \<Rightarrow> vd_server option desk" where
  "server_get env i =
     (if is_empty_opt_str i then throw (SocaException ''INVALID_PARAMS'')
      else gets (\<lambda>w. item_to_server (de_fmt env) (map_of (dw_servers w) (opt_or i []))))"

definition server_create :: "desktop_env \<Rightarrow> vd_server \<Rightarrow> string option \<Rightarrow> string option \<Rightarrow> vd_server option desk" where
  "server_create env r i ow =
     (let item = fold (\<lambda>(k, v). assign_key k v)
            [(''idea_session_id'', str_val i), (''idea_session_owner'', str_val ow), (''created_on'', PInt (now_ms env)),
             (''updated_on'', PInt (now_ms env)), (''state'', PStr ''CREATED'')] (server_to_item (Some r)) in
      bindS (reads (\<lambda>_. server_key r)) (\<lambda>k.
      thenS (modify (\<lambda>w. w\<lparr>dw_servers := assign_key k item (dw_servers w)\<rparr>)) (ret (item_to_server (de_fmt env) (Some item)))))"

definition server_update :: "desktop_env \<Rightarrow> vd_server \<Rightarrow> unit desk" where
  "server_update env r =
     (let item = assign_key ''updated_on'' (PInt (now_ms env)) (server_to_item (Some r)) in
      bindS (reads (\<lambda>_. server_key r)) (\<lambda>k.
      modify (\<lambda>w. w\<lparr>dw_servers := assign_key k
        (set_attributes [''instance_id'', ''created_on''] item [(''instance_id'', PStr k)] (map_of (dw_servers w) k)) (dw_servers w)\<rparr>)))"

text \<open>The entry of a server that is not there has no key to tell of.\<close>

definition server_delete :: "string option \<Rightarrow> unit desk" where
  "server_delete i =
     (if is_empty_opt_str i then throw (SocaException ''INVALID_PARAMS'')
      else bindS (gets (\<lambda>w. map_of (dw_servers w) (opt_or i []))) (\<lambda>old.
           thenS (modify (\<lambda>w. w\<lparr>dw_servers := remove_key (opt_or i []) (dw_servers w)\<rparr>))
             (reads (\<lambda>_. bindE (required KeyError old) (\<lambda>_. Inr ())))))"

section \<open>Schedules\<close>

definition schedule_create :: "desktop_env \<Rightarrow> vd_schedule \<Rightarrow> vd_schedule desk" where
  "schedule_create env h =
     bindS (reads (\<lambda>_. schedule_to_item (Some h))) (\<lambda>item.
     bindS (gets (\<lambda>w. de_uuid env (dw_uuids w))) (\<lambda>u.
     thenS (modify (\<lambda>w. w\<lparr>dw_uuids := dw_uuids w + 1\<rparr>))
     (let item' = assign_key ''schedule_id'' (PStr u) item in
      bindS (reads (\<lambda>_. required no_key (vh_day h))) (\<lambda>day.
      thenS (modify (\<lambda>w. w\<lparr>dw_schedules := assign_key (day_str day, u) item' (dw_schedules w)\<rparr>))
        (reads (\<lambda>_. item_to_schedule (de_hours env) (de_fmt env) (Some item')))))))"

text \<open>Deleting what is not there changes nothing and only logs; a day that is None is the text None.\<close>

definition schedule_delete :: "vd_schedule option \<Rightarrow> unit desk" where
  "schedule_delete v =
     (case v of None \<Rightarrow> ret () | Some h \<Rightarrow>
      bindS (reads (\<lambda>_. required no_key (vh_id h))) (\<lambda>i.
        modify (\<lambda>w. w\<lparr>dw_schedules := remove_key (case vh_day h of None \<Rightarrow> ''None'' | Some d \<Rightarrow> day_str d, i) (dw_schedules w)\<rparr>)))"

definition get_schedules_for_day_of_week :: "desktop_env \<Rightarrow> day_of_week \<Rightarrow> vd_schedule list desk" where
  "get_schedules_for_day_of_week env day =
     reads (\<lambda>w. traverseE (\<lambda>(_, d). item_to_schedule (de_hours env) (de_fmt env) (Some d))
       (filter (\<lambda>((d, _), _). d = day_str day) (dw_schedules w)))"

section \<open>Commands\<close>

text \<open>A command that SSM takes has an id, under which it is kept until its success is told.\<close>

definition command_create :: "string \<Rightarrow> command_type \<Rightarrow> pydict \<Rightarrow> unit desk" where
  "command_create cid ty payload =
     (if cid = [] then throw no_key else modify (\<lambda>w. w\<lparr>dw_commands := assign_key cid (ty, payload) (dw_commands w)\<rparr>))"

definition command_delete :: "string option \<Rightarrow> unit desk" where
  "command_delete cid =
     (case cid of None \<Rightarrow> throw no_key | Some c \<Rightarrow>
        if c = [] then throw no_key else modify (\<lambda>w. w\<lparr>dw_commands := remove_key c (dw_commands w)\<rparr>))"

definition submit_command :: "vd_session \<Rightarrow> string res \<Rightarrow> desktop_effect \<Rightarrow> command_type \<Rightarrow> unit desk" where
  "submit_command s answer e ty =
     bindS (reads (\<lambda>_. required AttributeError (vs_server s))) (\<lambda>r.
     bindS (calls answer e) (\<lambda>cid.
       command_create cid ty [(''idea_session_id'', str_val (vs_id s)), (''idea_session_owner'', str_val (vs_owner s)),
         (''instance_id'', str_val (vr_instance_id r))]))"

section \<open>Counters and permissions\<close>

definition counter_get :: "string option \<Rightarrow> session_counter \<Rightarrow> int desk" where
  "counter_get i c =
     (if is_empty_opt_str i then throw (SocaException ''INVALID_PARAMS'')
      else gets (\<lambda>w. opt_or (map_of (dw_counters w) (opt_or i [], c)) 0))"

definition counter_put :: "string option \<Rightarrow> session_counter \<Rightarrow> int \<Rightarrow> unit desk" where
  "counter_put i c n = modify (\<lambda>w. w\<lparr>dw_counters := assign_key (opt_or i [], c) n (dw_counters w)\<rparr>)"

definition counter_delete :: "string option \<Rightarrow> session_counter \<Rightarrow> unit desk" where
  "counter_delete i c = modify (\<lambda>w. w\<lparr>dw_counters := remove_key (opt_or i [], c) (dw_counters w)\<rparr>)"

definition delete_permissions_for_session :: "vd_session \<Rightarrow> unit desk" where
  "delete_permissions_for_session s =
     (if is_empty_opt_str (vs_id s) then ret ()
      else modify (\<lambda>w. w\<lparr>dw_permissions := filter (\<lambda>(i, _). Some i \<noteq> vs_id s) (dw_permissions w)\<rparr>))"

end
