(* ===== verification/Desktop_Schedules.thy ===== *)
theory Desktop_Schedules
  imports Desktop_Tables
begin

text \<open>
  The schedules of virtual desktops, \<open>ideavirtualdesktopcontroller/app/schedules/virtual_desktop_schedule_utils.py\<close>: each day of the week of a session
  has a schedule, which is an item of the table under its day and id, or none; at a scheduled event the schedules of the day publish that their
  sessions be stopped or resumed.
\<close>

section \<open>Updates\<close>

definition default_schedule :: "desktop_env \<Rightarrow> day_of_week \<Rightarrow> vd_schedule res" where
  "default_schedule env day =
     bindE (bindE (de_schedule_type env day) (\<lambda>s. schedule_type_of (Some s))) (\<lambda>ty.
     bindE (case ty of
         WORKING_HOURS \<Rightarrow> de_hours env
       | STOP_ON_IDLE \<Rightarrow> Inr (''23:59'', ''00:00'')
       | START_ALL_DAY \<Rightarrow> Inr (''00:00'', ''23:59'')
       | CUSTOM_SCHEDULE \<Rightarrow> de_custom_hours env day
       | NO_SCHEDULE \<Rightarrow> Inr ([], [])) (\<lambda>(start, stop).
       Inr \<lparr>vh_id = None, vh_session_id = None, vh_owner = None, vh_day = Some day, vh_start = Some start, vh_stop = Some stop, vh_type = Some ty\<rparr>))"

definition get_default_schedules :: "desktop_env \<Rightarrow> week_schedule res" where
  "get_default_schedules env = bindE (traverseE (default_schedule env) week_days) (\<lambda>hs. Inr (map_of (zip week_days hs)))"

definition is_same_schedule :: "vd_schedule option \<Rightarrow> vd_schedule option \<Rightarrow> bool" where
  "is_same_schedule a b =
     (case (a, b) of
        (None, None) \<Rightarrow> True
      | (Some x, Some y) \<Rightarrow>
          vh_type x = vh_type y \<and> vh_type x \<in> {Some STOP_ON_IDLE, Some START_ALL_DAY, Some NO_SCHEDULE, Some WORKING_HOURS}
      | _ \<Rightarrow> False)"

definition delete_schedule :: "vd_schedule option \<Rightarrow> unit desk" where
  "delete_schedule v =
     (case v of None \<Rightarrow> ret () | Some h \<Rightarrow>
        if vh_type h = Some NO_SCHEDULE \<or> is_empty_opt_str (vh_id h) \<or> vh_day h = None then ret () else schedule_delete v)"

definition create_schedule_for_day :: "desktop_env \<Rightarrow> day_of_week \<Rightarrow> vd_schedule \<Rightarrow> vd_session \<Rightarrow> vd_schedule desk" where
  "create_schedule_for_day env day h s =
     (if vh_type h = Some NO_SCHEDULE then ret (get_empty_schedule (Some day))
      else schedule_create env \<lparr>vh_id = None, vh_session_id = vs_id s, vh_owner = vs_owner s, vh_day = Some day, vh_start = vh_start h,
             vh_stop = vh_stop h, vh_type = vh_type h\<rparr>)"

text \<open>A custom schedule that is given for a custom schedule is neither the same nor of another type.\<close>

definition update_schedule_for_day ::
  "desktop_env \<Rightarrow> vd_session \<Rightarrow> day_of_week \<Rightarrow> vd_schedule option \<Rightarrow> vd_schedule option \<Rightarrow> vd_schedule desk" where
  "update_schedule_for_day env s day current given =
     (let cur = (case current of None \<Rightarrow> get_empty_schedule (Some day) | Some h \<Rightarrow> h) in
      case given of
        None \<Rightarrow> ret cur
      | Some h \<Rightarrow>
          if is_same_schedule (Some h) (Some cur) then ret cur
          else let create_new = (vh_type h \<noteq> Some NO_SCHEDULE \<and> vh_type cur \<noteq> vh_type h);
                   new = (if vh_type h = Some NO_SCHEDULE then get_empty_schedule (Some day) else h) in
               thenS (if vh_type cur \<noteq> Some NO_SCHEDULE \<or> \<not> is_empty_opt_str (vh_id cur) then delete_schedule (Some cur) else ret ())
                 (if create_new then create_schedule_for_day env day new s else ret new))"

fun update_days :: "desktop_env \<Rightarrow> vd_session \<Rightarrow> week_schedule \<Rightarrow> week_schedule \<Rightarrow> day_of_week list \<Rightarrow> week_schedule desk" where
  "update_days env s new week [] = ret week"
| "update_days env s new week (d # ds) =
     bindS (update_schedule_for_day env s d (week d) (new d)) (\<lambda>h. update_days env s new (week(d \<mapsto> h)) ds)"

definition update_schedule_for_session :: "desktop_env \<Rightarrow> week_schedule \<Rightarrow> vd_session \<Rightarrow> vd_session desk" where
  "update_schedule_for_session env new s =
     bindS (update_days env s new (opt_or (vs_schedule s) no_week) week_days) (\<lambda>week. ret (s\<lparr>vs_schedule := Some week\<rparr>))"

definition delete_schedules_for_session :: "vd_session \<Rightarrow> unit desk" where
  "delete_schedules_for_session s =
     (case vs_schedule s of None \<Rightarrow> ret () | Some week \<Rightarrow> forS (\<lambda>d. delete_schedule (week d)) week_days)"

section \<open>Events\<close>

text \<open>\<open>datetime.time\<close> of the hours and minutes of a text; a time is its minute of the day.\<close>

definition time_of :: "string \<Rightarrow> int res" where
  "time_of s =
     (let parts = split_char (CHR '':'') s in
      bindE (int_of_str (hd parts)) (\<lambda>h.
      bindE (if length parts < 2 then Inl IndexError else int_of_str (parts ! 1)) (\<lambda>m.
        if 0 \<le> h \<and> h < 24 \<and> 0 \<le> m \<and> m < 60 then Inr (60 * h + m) else Inl ValueError)))"

definition trigger_schedule :: "desktop_env \<Rightarrow> int \<Rightarrow> vd_schedule \<Rightarrow> unit desk" where
  "trigger_schedule env event_time h =
     bindS (reads (\<lambda>_. de_hours env)) (\<lambda>(working_start, working_stop).
     bindS (reads (\<lambda>_. required KeyError (vh_type h))) (\<lambda>ty.
     bindS (case ty of
         STOP_ON_IDLE \<Rightarrow> ret (False, True)
       | START_ALL_DAY \<Rightarrow> ret (True, False)
       | _ \<Rightarrow>
           bindS (reads (\<lambda>_. if ty = WORKING_HOURS then Inr (working_start, working_stop)
                            else bindE (required AttributeError (vh_start h)) (\<lambda>a. bindE (required AttributeError (vh_stop h)) (\<lambda>b. Inr (a, b)))))
             (\<lambda>(a, b).
           bindS (reads (\<lambda>_. time_of a)) (\<lambda>start.
           bindS (reads (\<lambda>_. time_of b)) (\<lambda>stop.
             ret (if event_time < start then (False, False)
                  else if start \<le> event_time \<and> event_time < stop then (True, False) else (False, True))))))
       (\<lambda>(should_resume, should_stop).
     if should_stop then publish (ScheduledStop (vh_session_id h) (vh_owner h))
     else if should_resume then publish (ScheduledResume (vh_session_id h) (vh_owner h))
     else ret ())))"

definition trigger_schedules_of_day :: "desktop_env \<Rightarrow> day_of_week \<Rightarrow> int \<Rightarrow> unit desk" where
  "trigger_schedules_of_day env day event_time =
     bindS (get_schedules_for_day_of_week env day) (forS (trigger_schedule env event_time))"

end
