(* ===== verification/Desktop_Sessions.thy ===== *)
theory Desktop_Sessions
  imports Desktop_Schedules
begin

text \<open>
  Starting, stopping, resuming, rebooting and terminating virtual desktop sessions: \<open>virtual_desktop_session_utils.py\<close>, with what it calls of
  \<open>virtual_desktop_server_utils.py\<close> and of \<open>clients/dcv_broker_client\<close>. The answers of EC2 and of the broker are dicts. The cleanup of computer
  objects in Active Directory, whose exceptions are all caught, is left out.
\<close>

section \<open>Hosts\<close>

definition instance_ids :: "vd_server option list \<Rightarrow> string option list res" where
  "instance_ids rs = traverseE (\<lambda>r. bindE (required AttributeError r) (\<lambda>x. Inr (vr_instance_id x))) rs"

definition dicts_at :: "string \<Rightarrow> pydict \<Rightarrow> pydict list" where
  "dicts_at key d = map (\<lambda>v. case v of PDict e \<Rightarrow> e | _ \<Rightarrow> []) (opt_or (get_value_as_list key d (Some [])) [])"

definition stop_hosts :: "desktop_env \<Rightarrow> vd_server option list \<Rightarrow> bool \<Rightarrow> pydict desk" where
  "stop_hosts env rs hibernate =
     (if rs = [] then ret []
      else bindS (reads (\<lambda>_. instance_ids rs)) (\<lambda>ids. calls (de_stop env ids hibernate) (StoppedHosts ids hibernate)))"

definition note_stopped :: "desktop_env \<Rightarrow> string \<Rightarrow> pydict \<Rightarrow> unit desk" where
  "note_stopped env state instance =
     bindS (server_get env (get_value_as_string (de_fmt env) ''InstanceId'' instance None)) (\<lambda>found.
     bindS (reads (\<lambda>_. required AttributeError found)) (\<lambda>r. server_update env (r\<lparr>vr_state := Some state\<rparr>)))"

definition stop_or_hibernate_servers :: "desktop_env \<Rightarrow> vd_server option list \<Rightarrow> vd_server option list \<Rightarrow> unit desk" where
  "stop_or_hibernate_servers env to_stop to_hibernate =
     thenS (if to_stop = [] then ret ()
            else bindS (stop_hosts env to_stop False) (\<lambda>a. forS (note_stopped env ''STOPPING'') (dicts_at ''StoppingInstances'' a)))
       (if to_hibernate = [] then ret ()
        else bindS (stop_hosts env to_hibernate True) (\<lambda>a. forS (note_stopped env ''HIBERNATED'') (dicts_at ''StoppingInstances'' a)))"

text \<open>An error of the client is an answer with the key ERROR.\<close>

definition error_answer :: "pydict" where
  "error_answer = [(''ERROR'', PStr ''error'')]"

definition client_answer :: "pydict res \<Rightarrow> desktop_effect \<Rightarrow> pydict desk" where
  "client_answer answer e = catchS (calls answer e) (\<lambda>x. case x of ClientError _ \<Rightarrow> ret error_answer | _ \<Rightarrow> throw x)"

definition start_dcv_hosts :: "desktop_env \<Rightarrow> vd_server option list \<Rightarrow> pydict desk" where
  "start_dcv_hosts env rs = bindS (reads (\<lambda>_. instance_ids rs)) (\<lambda>ids. client_answer (de_start env ids) (StartedHosts ids))"

definition reboot_dcv_hosts :: "desktop_env \<Rightarrow> vd_server option list \<Rightarrow> unit desk" where
  "reboot_dcv_hosts env rs =
     (if rs = [] then ret ()
      else bindS (reads (\<lambda>_. instance_ids rs)) (\<lambda>ids. thenS (calls (de_reboot env ids) (RebootedHosts ids)) (ret ())))"

definition terminate_dcv_hosts :: "desktop_env \<Rightarrow> vd_server option list \<Rightarrow> pydict desk" where
  "terminate_dcv_hosts env rs =
     (if rs = [] then ret []
      else bindS (reads (\<lambda>_. instance_ids rs)) (\<lambda>ids.
           bindS (client_answer (de_terminate env ids) (TerminatedHosts ids)) (\<lambda>answer.
           thenS (forS (\<lambda>i. let iid = get_value_as_string (de_fmt env) ''InstanceId'' i None in
                         thenS (server_get env iid) (server_delete iid)) (dicts_at ''TerminatingInstances'' answer))
             (ret answer))))"

definition provision_host_for_session :: "desktop_env \<Rightarrow> vd_session \<Rightarrow> vd_server option desk" where
  "provision_host_for_session env s =
     bindS (reads (\<lambda>_. de_provision env s)) (\<lambda>answer.
       case dicts_at ''Instances'' answer of
         [] \<Rightarrow> ret None
       | i # _ \<Rightarrow> bindS (reads (\<lambda>_. required AttributeError (vs_server s))) (\<lambda>r.
           case get_value_as_string (de_fmt env) ''InstanceId'' i None of
             None \<Rightarrow> ret None
           | Some iid \<Rightarrow> server_create env (r\<lparr>vr_instance_id := Some iid\<rparr>) (vs_id s) (vs_owner s)))"

section \<open>The DCV broker\<close>

definition describe_sessions :: "desktop_env \<Rightarrow> vd_session list \<Rightarrow> (string \<times> pydict) list desk" where
  "describe_sessions env ss =
     bindS (reads (\<lambda>_. de_describe_api env (if ss = [] then None else Some (map vs_dcv_id ss)))) (\<lambda>answer.
     reads (\<lambda>_. foldE (\<lambda>d acc. bindE (required KeyError (map_of d ''id'')) (\<lambda>v.
         case v of PStr i \<Rightarrow> Inr (assign_key i d acc) | _ \<Rightarrow> Inl TypeError)) (dicts_at ''sessions'' answer) []))"

definition broker_state :: "desktop_env \<Rightarrow> vd_session \<Rightarrow> string option desk" where
  "broker_state env s =
     bindS (describe_sessions env [s]) (\<lambda>answer.
       ret (get_value_as_string (de_fmt env) ''state'' (case vs_dcv_id s of None \<Rightarrow> [] | Some i \<Rightarrow> opt_or (map_of answer i) []) None))"

text \<open>The sessions are found by their DCV id, so of two sessions in the list with one id only the last gets the count.\<close>

fun count_connections :: "(string option \<times> int option) list \<Rightarrow> vd_session list \<Rightarrow> vd_session list" where
  "count_connections counts [] = []"
| "count_connections counts (s # ss) =
     s\<lparr>vs_connections := (if vs_dcv_id s \<in> vs_dcv_id ` set ss then Some 0
        else case map_of counts (vs_dcv_id s) of None \<Rightarrow> Some 0 | Some n \<Rightarrow> n)\<rparr> # count_connections counts ss"

definition get_active_counts_for_sessions :: "desktop_env \<Rightarrow> vd_session list \<Rightarrow> vd_session list desk" where
  "get_active_counts_for_sessions env ss =
     (if ss = [] then ret []
      else bindS (describe_sessions env ss) (\<lambda>answer.
           bindS (reads (\<lambda>_. traverseE (\<lambda>(i, d).
               if Some i \<notin> vs_dcv_id ` set ss then Inl KeyError
               else bindE (get_value_as_int ''num_of_connections'' d (Some 0)) (\<lambda>n. Inr (Some i, n))) answer)) (\<lambda>counts.
           ret (count_connections counts ss))))"

definition is_forced :: "vd_session \<Rightarrow> bool" where
  "is_forced s \<longleftrightarrow> vs_force s = Some True"

text \<open>The sessions told apart by connections, then what the broker answers: the ids that are deleted, and the ids with the reason of a failure.\<close>

definition no_such_dcv_session :: string where
  "no_such_dcv_session = ''The requested dcvSession does not exist''"

definition active_connections :: string where
  "active_connections = ''There exist active connections''"

definition delete_dcv_sessions ::
  "desktop_env \<Rightarrow> vd_session list \<Rightarrow> (string option list \<times> (string option \<times> string option) list) desk" where
  "delete_dcv_sessions env ss =
     (if ss = [] then ret ([], [])
      else bindS (get_active_counts_for_sessions env (filter (\<lambda>s. \<not> is_forced s) ss)) (\<lambda>counted.
           bindS (reads (\<lambda>_. if None \<in> vs_connections ` set counted then Inl TypeError else Inr ())) (\<lambda>_.
           let busy = filter (\<lambda>s. 0 < opt_or (vs_connections s) 0) counted;
               doomed = filter is_forced ss @ filter (\<lambda>s. \<not> 0 < opt_or (vs_connections s) 0) counted;
               request = map (\<lambda>s. (vs_dcv_id s, vs_owner s)) doomed in
           bindS (if doomed = [] then ret [] else calls (de_delete_api env request) (DeletedDcvSessions request)) (\<lambda>answer.
           let str = get_value_as_string (de_fmt env);
               refused = map (\<lambda>e. (str ''session_id'' e None, str ''failure_reason'' e None)) (dicts_at ''unsuccessful_list'' answer) in
           ret (map (\<lambda>e. str ''session_id'' e None) (dicts_at ''successful_list'' answer) @
                  map fst (filter (\<lambda>(_, why). why = Some no_such_dcv_session) refused),
                map (\<lambda>s. (vs_dcv_id s, Some active_connections)) busy @ filter (\<lambda>(_, why). why \<noteq> Some no_such_dcv_session) refused)))))"

definition resume_session :: "desktop_env \<Rightarrow> vd_session \<Rightarrow> vd_session desk" where
  "resume_session env s =
     catchS (bindS (reads (\<lambda>_. required AttributeError (vs_stack s))) (\<lambda>_.
         thenS (submit_command s (de_resume env s) (ResumeCommand (vs_id s)) RESUME_SESSION) (ret (s\<lparr>vs_state := Some VS_RESUMING\<rparr>))))
       (\<lambda>e. case e of ClientError _ \<Rightarrow> ret (s\<lparr>vs_failure := Some ''not ready''\<rparr>) | _ \<Rightarrow> throw e)"

section \<open>Operations\<close>

type_synonym batch = "vd_session list \<times> vd_session list"

definition create_session :: "desktop_env \<Rightarrow> vd_session \<Rightarrow> vd_session desk" where
  "create_session env s =
     bindS (catchS (bindS (provision_host_for_session env s) (\<lambda>r. ret (Inr r))) (\<lambda>_. ret (Inl ()))) (\<lambda>provisioned.
       case provisioned of
         Inl _ \<Rightarrow> ret (s\<lparr>vs_failure := Some ''failed''\<rparr>)
       | Inr None \<Rightarrow> ret (s\<lparr>vs_server := None, vs_failure := Some ''no host''\<rparr>)
       | Inr (Some r) \<Rightarrow>
           bindS (reads (\<lambda>_. get_default_schedules env)) (\<lambda>week.
           bindS (update_schedule_for_session env week (s\<lparr>vs_server := Some r\<rparr>)) (\<lambda>s'.
             session_create env (s'\<lparr>vs_state := Some VS_PROVISIONING\<rparr>))))"

text \<open>A session that is not in the table is None, of which the message of the failure asks the id: the operation raises.\<close>

definition fetch :: "desktop_env \<Rightarrow> vd_session \<Rightarrow> vd_session desk" where
  "fetch env s = bindS (session_get env (vs_owner s) (vs_id s)) (\<lambda>found. reads (\<lambda>_. required AttributeError found))"

definition fail_session :: "vd_session \<Rightarrow> vd_session" where
  "fail_session s = s\<lparr>vs_failure := Some ''wrong state''\<rparr>"

text \<open>What a request becomes: refused, without a DCV session, or to be deleted at the broker.\<close>

datatype stop_plan = Refused vd_session | WithoutDcv vd_session | AtBroker vd_session

definition plan_stop :: "vd_session \<Rightarrow> vd_session \<Rightarrow> stop_plan" where
  "plan_stop req s =
     (if \<not> is_forced req \<and> vs_state s \<notin> {Some VS_READY, Some VS_RESUMING} then Refused (fail_session s)
      else if is_empty_opt_str (vs_dcv_id s) then WithoutDcv s
      else AtBroker (s\<lparr>vs_force := vs_force req\<rparr>))"

definition plan_terminate :: "vd_session \<Rightarrow> vd_session \<Rightarrow> stop_plan" where
  "plan_terminate req s =
     (if is_empty_opt_str (vs_dcv_id s) \<or> vs_state s = Some VS_STOPPED then WithoutDcv (s\<lparr>vs_force := vs_force req\<rparr>)
      else AtBroker (s\<lparr>vs_force := vs_force req\<rparr>))"

fun plan_all :: "desktop_env \<Rightarrow> (vd_session \<Rightarrow> vd_session \<Rightarrow> stop_plan) \<Rightarrow> vd_session list \<Rightarrow> stop_plan list desk" where
  "plan_all env plan [] = ret []"
| "plan_all env plan (req # reqs) =
     bindS (fetch env req) (\<lambda>s. bindS (plan_all env plan reqs) (\<lambda>ps. ret (plan req s # ps)))"

definition refused :: "stop_plan list \<Rightarrow> vd_session list" where
  "refused ps = List.map_filter (\<lambda>p. case p of Refused s \<Rightarrow> Some s | _ \<Rightarrow> None) ps"

definition without_dcv :: "stop_plan list \<Rightarrow> vd_session list" where
  "without_dcv ps = List.map_filter (\<lambda>p. case p of WithoutDcv s \<Rightarrow> Some s | _ \<Rightarrow> None) ps"

definition at_broker :: "stop_plan list \<Rightarrow> vd_session list" where
  "at_broker ps = List.map_filter (\<lambda>p. case p of AtBroker s \<Rightarrow> Some s | _ \<Rightarrow> None) ps"

text \<open>The dict of the sessions by their DCV ids: the last one of an id stays.\<close>

definition session_map :: "vd_session list \<Rightarrow> (string option \<times> vd_session) list" where
  "session_map ss = fold (\<lambda>s m. assign_key (vs_dcv_id s) s m) ss []"

fun mapS :: "('a \<Rightarrow> 'b desk) \<Rightarrow> 'a list \<Rightarrow> 'b list desk" where
  "mapS f [] = ret []"
| "mapS f (x # xs) = bindS (f x) (\<lambda>y. bindS (mapS f xs) (\<lambda>ys. ret (y # ys)))"

definition note_deleted ::
  "desktop_env \<Rightarrow> session_state \<Rightarrow> (string option \<times> vd_session) list \<Rightarrow> string option \<Rightarrow> vd_session desk" where
  "note_deleted env state m i =
     bindS (reads (\<lambda>_. required KeyError (map_of m i))) (\<lambda>s.
     bindS (session_update env (s\<lparr>vs_state := Some state\<rparr>)) (\<lambda>s'.
     thenS (publish (ValidateDeletion (vs_id s') (vs_owner s'))) (ret s')))"

definition failed_deletions ::
  "(string option \<times> vd_session) list \<Rightarrow> (string option \<times> string option) list \<Rightarrow> vd_session list res" where
  "failed_deletions m errors =
     traverseE (\<lambda>(i, why). bindE (required KeyError (map_of m i)) (\<lambda>s. Inr (s\<lparr>vs_failure := why\<rparr>))) errors"

definition stop_sessions :: "desktop_env \<Rightarrow> vd_session list \<Rightarrow> batch desk" where
  "stop_sessions env reqs =
     bindS (plan_all env plan_stop reqs) (\<lambda>ps.
     let m = session_map (at_broker ps) in
     bindS (delete_dcv_sessions env (at_broker ps)) (\<lambda>(deleted, errors).
     bindS (mapS (note_deleted env VS_STOPPING m) deleted) (\<lambda>stopping.
     bindS (mapS (\<lambda>s. session_update env (s\<lparr>vs_state := Some VS_STOPPING\<rparr>)) (without_dcv ps)) (\<lambda>hostless.
     bindS (reads (\<lambda>_. failed_deletions m errors)) (\<lambda>failed.
     thenS (stop_or_hibernate_servers env (map vs_server (filter (\<lambda>s. vs_hibernation s \<noteq> Some True) (without_dcv ps)))
              (map vs_server (filter (\<lambda>s. vs_hibernation s = Some True) (without_dcv ps))))
       (ret (stopping @ hostless, refused ps @ failed)))))))"

definition resume_plan :: "desktop_env \<Rightarrow> vd_session list \<Rightarrow> vd_session list desk" where
  "resume_plan env reqs = mapS (fetch env) reqs"

text \<open>The sessions are found by the instance of their host; \<open>ERROR\<close> in the answer is an error for all.\<close>

definition note_resumed :: "desktop_env \<Rightarrow> (string option \<times> vd_session) list \<Rightarrow> vd_server \<Rightarrow> vd_session desk" where
  "note_resumed env m r =
     bindS (reads (\<lambda>_. required KeyError (map_of m (vr_instance_id r)))) (\<lambda>s. session_update env (s\<lparr>vs_state := Some VS_RESUMING\<rparr>))"

definition resume_sessions :: "desktop_env \<Rightarrow> vd_session list \<Rightarrow> batch desk" where
  "resume_sessions env reqs =
     bindS (resume_plan env reqs) (\<lambda>ss.
     let stopped = filter (\<lambda>s. vs_state s = Some VS_STOPPED) ss; others = filter (\<lambda>s. vs_state s \<noteq> Some VS_STOPPED) ss in
     bindS (reads (\<lambda>_. traverseE (\<lambda>s. required AttributeError (vs_server s)) stopped)) (\<lambda>rs.
     let m = fold (\<lambda>(r, s). assign_key (vr_instance_id r) s) (zip rs stopped) [] in
     bindS (start_dcv_hosts env (map Some rs)) (\<lambda>answer.
       if ''ERROR'' \<in> fst ` set answer
       then bindS (reads (\<lambda>_. traverseE (\<lambda>r. required KeyError (map_of m (vr_instance_id r))) rs)) (\<lambda>fs.
              ret ([], map fail_session others @
                map (\<lambda>s. s\<lparr>vs_failure := get_value_as_string (de_fmt env) ''ERROR'' answer (Some ''error'')\<rparr>) fs))
       else bindS (mapS (note_resumed env m) rs) (\<lambda>resumed. ret (resumed, map fail_session others)))))"

definition reboot_sessions :: "desktop_env \<Rightarrow> vd_session list \<Rightarrow> batch desk" where
  "reboot_sessions env reqs =
     bindS (mapS (\<lambda>req. bindS (fetch env req) (\<lambda>s. ret (req, s))) reqs) (\<lambda>pairs.
     let fit = filter (\<lambda>(_, s). vs_state s \<in> {Some VS_READY, Some VS_ERROR}) pairs;
         unfit = filter (\<lambda>(_, s). vs_state s \<notin> {Some VS_READY, Some VS_ERROR}) pairs;
         ss = map (\<lambda>(req, s). s\<lparr>vs_force := vs_force req\<rparr>) fit in
     bindS (get_active_counts_for_sessions env (filter (\<lambda>s. \<not> is_forced s) ss)) (\<lambda>counted.
     bindS (reads (\<lambda>_. if None \<in> vs_connections ` set counted then Inl TypeError else Inr ())) (\<lambda>_.
     let busy = filter (\<lambda>s. 0 < opt_or (vs_connections s) 0) counted;
         go = filter is_forced ss @ filter (\<lambda>s. \<not> 0 < opt_or (vs_connections s) 0) counted in
     bindS (mapS (\<lambda>s. session_update env (s\<lparr>vs_state := Some VS_RESUMING\<rparr>)) go) (\<lambda>rebooted.
     thenS (reboot_dcv_hosts env (map vs_server rebooted))
       (ret (rebooted, map (fail_session \<circ> snd) unfit @ map fail_session busy))))))"

text \<open>A session that is stopped or was never created at the broker is deleted at once. Whether its host is terminated is not looked at.\<close>

definition forget_session :: "desktop_env \<Rightarrow> vd_session \<Rightarrow> vd_session desk" where
  "forget_session env s =
     thenS (delete_schedules_for_session s)
     (thenS (delete_permissions_for_session s)
     (thenS (session_delete env s) (ret (s\<lparr>vs_state := Some VS_DELETED, vs_updated := Some (de_now env)\<rparr>))))"

definition terminate_sessions :: "desktop_env \<Rightarrow> vd_session list \<Rightarrow> batch desk" where
  "terminate_sessions env reqs =
     bindS (plan_all env plan_terminate reqs) (\<lambda>ps.
     let m = session_map (at_broker ps) in
     bindS (delete_dcv_sessions env (at_broker ps)) (\<lambda>(deleted, errors).
     bindS (mapS (note_deleted env VS_DELETING m) deleted) (\<lambda>deleting.
     thenS (terminate_dcv_hosts env (filter (\<lambda>r. r \<noteq> None) (map vs_server (without_dcv ps))))
     (bindS (mapS (forget_session env) (without_dcv ps)) (\<lambda>forgotten.
      bindS (reads (\<lambda>_. failed_deletions m errors)) (\<lambda>failed. ret (deleting @ forgotten, failed)))))))"

end
