(* ===== verification/Desktop_Events.thy ===== *)
theory Desktop_Events
  imports Desktop_Sessions
begin

text \<open>
  The handlers of the events of virtual desktops, \<open>ideavirtualdesktopcontroller/app/events/handlers\<close>: the state of a host, a host that is ready or
  has rebooted, the validation of created and deleted DCV sessions, and the scheduled stop, resume and termination. A handler that raises
  \<open>do_not_delete\<close> gets the same message again.
\<close>

definition do_not_delete :: exc where "do_not_delete = SocaException ''DO_NOT_DELETE_MESSAGE''"
definition bad_source :: exc where "bad_source = SocaException ''MESSAGE_SOURCE_VALIDATION_FAILED''"

section \<open>Senders\<close>

definition role_of_sender :: "string \<Rightarrow> string" where
  "role_of_sender sender = hd (split_char (CHR '':'') sender)"

definition instance_of_sender :: "string \<Rightarrow> string option" where
  "instance_of_sender sender = (let parts = split_char (CHR '':'') sender in if length parts < 2 then None else Some (parts ! 1))"

definition is_sender_controller_role :: "desktop_env \<Rightarrow> string \<Rightarrow> bool" where
  "is_sender_controller_role env sender = (\<not> is_empty_str (role_of_sender sender) \<and> de_controller_role env = role_of_sender sender)"

definition from_controller :: "desktop_env \<Rightarrow> string \<Rightarrow> unit desk \<Rightarrow> unit desk" where
  "from_controller env sender m = (if \<not> is_sender_controller_role env sender then throw bad_source else m)"

definition detail_str :: "desktop_env \<Rightarrow> string \<Rightarrow> pydict \<Rightarrow> string option" where
  "detail_str env k detail = get_value_as_string (de_fmt env) k detail None"

text \<open>The session an event names, when there is one.\<close>

definition with_session :: "desktop_env \<Rightarrow> pydict \<Rightarrow> (vd_session \<Rightarrow> unit desk) \<Rightarrow> unit desk" where
  "with_session env detail f =
     bindS (session_get env (detail_str env ''idea_session_owner'' detail) (detail_str env ''idea_session_id'' detail)) (\<lambda>found.
       case found of None \<Rightarrow> ret () | Some s \<Rightarrow> f s)"

section \<open>Hosts\<close>

definition handle_stopping_event :: "desktop_env \<Rightarrow> pydict \<Rightarrow> unit desk" where
  "handle_stopping_event env detail = with_session env detail (\<lambda>s.
     if vs_state s \<in> {Some VS_STOPPED, Some VS_DELETING, Some VS_DELETED, Some VS_ERROR} then ret ()
     else if vs_state s \<in> {Some VS_PROVISIONING, Some VS_CREATING, Some VS_INITIALIZING, Some VS_RESUMING}
     then thenS (session_update env (s\<lparr>vs_state := Some VS_ERROR\<rparr>)) (ret ())
     else bindS (server_get env (detail_str env ''instance_id'' detail)) (\<lambda>found.
          bindS (reads (\<lambda>_. required AttributeError found)) (\<lambda>r.
          if detail_str env ''state'' detail = Some ''stopping''
          then thenS (session_update env (s\<lparr>vs_state := Some VS_STOPPING\<rparr>)) (ret ())
          else thenS (server_update env (r\<lparr>vr_state := Some ''STOPPED''\<rparr>))
                 (thenS (session_update env (s\<lparr>vs_state := Some VS_STOPPED\<rparr>)) (ret ())))))"

definition handle_running_event :: "desktop_env \<Rightarrow> pydict \<Rightarrow> unit desk" where
  "handle_running_event env detail = with_session env detail (\<lambda>s.
     thenS (if vs_hibernation s = Some True \<and> vs_state s = Some VS_RESUMING
            then publish (RebootComplete (detail_str env ''instance_id'' detail) (detail_str env ''idea_session_id'' detail)
                   (detail_str env ''idea_session_owner'' detail))
            else ret ())
     (bindS (server_get env (detail_str env ''instance_id'' detail)) (\<lambda>found.
      bindS (reads (\<lambda>_. required AttributeError found)) (\<lambda>r. server_update env (r\<lparr>vr_state := Some ''CREATED''\<rparr>)))))"

definition handle_host_state :: "desktop_env \<Rightarrow> string \<Rightarrow> pydict \<Rightarrow> unit desk" where
  "handle_host_state env sender detail = from_controller env sender
     (if is_empty_opt_str (detail_str env ''instance_id'' detail) then ret ()
      else if detail_str env ''state'' detail \<in> {Some ''stopping'', Some ''stopped''} then handle_stopping_event env detail
      else if detail_str env ''state'' detail = Some ''running'' then handle_running_event env detail
      else ret ())"

definition SESSION_CREATION_THRESHOLD_COUNT :: int where "SESSION_CREATION_THRESHOLD_COUNT = 30"

definition create_at_broker :: "desktop_env \<Rightarrow> vd_session \<Rightarrow> vd_session desk" where
  "create_at_broker env s =
     bindS (calls (de_create_api env s) (CreatedDcvSession (vs_id s))) (\<lambda>answer.
     bindS (counter_get (vs_id s) CREATION_REQUEST_ACCEPTED) (\<lambda>n.
       if is_empty_opt_str (vs_failure answer)
       then bindS (session_update env (s\<lparr>vs_state := Some VS_INITIALIZING, vs_dcv_id := vs_dcv_id answer\<rparr>)) (\<lambda>s'.
            bindS (reads (\<lambda>_. required AttributeError (vs_server s'))) (\<lambda>r.
            thenS (calls (de_tag env (vr_instance_id r)) (TaggedHost (vr_instance_id r)))
            (thenS (publish (ValidateCreation (vs_id s') (vs_owner s')))
            (thenS (if n = 0 then ret () else counter_delete (vs_id s) CREATION_REQUEST_ACCEPTED) (ret s')))))
       else if n < SESSION_CREATION_THRESHOLD_COUNT
       then thenS (counter_put (vs_id s) CREATION_REQUEST_ACCEPTED (n + 1))
              (if vs_state s \<noteq> Some VS_CREATING then session_update env (s\<lparr>vs_state := Some VS_CREATING\<rparr>) else ret s)
       else thenS (counter_put (vs_id s) CREATION_REQUEST_ACCEPTED n)
              (session_update env (s\<lparr>vs_state := Some VS_ERROR, vs_dcv_id := Some []\<rparr>))))"

text \<open>Both of the session's names have to be there.\<close>

definition with_named_session :: "desktop_env \<Rightarrow> pydict \<Rightarrow> (vd_session \<Rightarrow> unit desk) \<Rightarrow> unit desk" where
  "with_named_session env detail f =
     (if is_empty_opt_str (detail_str env ''idea_session_id'' detail) \<or> is_empty_opt_str (detail_str env ''idea_session_owner'' detail) then ret ()
      else with_session env detail f)"

definition handle_host_ready :: "desktop_env \<Rightarrow> string \<Rightarrow> pydict \<Rightarrow> unit desk" where
  "handle_host_ready env sender detail =
     (if is_empty_opt_str (instance_of_sender sender) then throw bad_source
      else with_named_session env detail (\<lambda>s.
        bindS (reads (\<lambda>_. required AttributeError (vs_server s))) (\<lambda>r.
        if vr_instance_id r \<noteq> instance_of_sender sender then throw bad_source
        else if vs_state s \<notin> {Some VS_PROVISIONING, Some VS_CREATING, Some VS_RESUMING} then ret ()
        else bindS (if vs_state s = Some VS_RESUMING then session_update env (s\<lparr>vs_state := Some VS_CREATING\<rparr>) else ret s) (\<lambda>s1.
             bindS (create_at_broker env s1) (\<lambda>s2.
               if vs_state s2 = Some VS_CREATING then throw do_not_delete else ret ())))))"

definition RESUME_REQUEST_COUNT_THRESHOLD :: int where "RESUME_REQUEST_COUNT_THRESHOLD = 6"

definition resume_after_reboot :: "desktop_env \<Rightarrow> vd_session \<Rightarrow> unit desk" where
  "resume_after_reboot env s =
     bindS (resume_session env s) (\<lambda>s1.
       if \<not> is_empty_opt_str (vs_failure s1) then throw do_not_delete
       else bindS (if vs_state s1 \<noteq> Some VS_RESUMING then session_update env (s1\<lparr>vs_state := Some VS_RESUMING\<rparr>) else ret s1) (\<lambda>s2.
            bindS (reads (\<lambda>_. required AttributeError (vs_server s2))) (\<lambda>r0.
            bindS (server_get env (vr_instance_id r0)) (\<lambda>found.
            bindS (reads (\<lambda>_. required AttributeError found)) (\<lambda>r.
              if vr_state r \<noteq> Some ''CREATED'' then server_update env (r\<lparr>vr_state := Some ''CREATED''\<rparr>) else ret ())))))"

definition handle_reboot_complete :: "desktop_env \<Rightarrow> string \<Rightarrow> pydict \<Rightarrow> unit desk" where
  "handle_reboot_complete env sender detail =
     (if is_empty_opt_str (instance_of_sender sender) then throw bad_source
      else with_named_session env detail (\<lambda>s.
        if vs_state s \<notin> {Some VS_RESUMING, Some VS_READY, Some VS_ERROR, Some VS_STOPPED} then ret ()
        else bindS (counter_get (vs_id s) VALIDATE_CREATED) (\<lambda>_.
             thenS (counter_put (vs_id s) VALIDATE_CREATED 0)
             (bindS (counter_get (vs_id s) CREATION_REQUEST_ACCEPTED) (\<lambda>_.
              thenS (counter_put (vs_id s) CREATION_REQUEST_ACCEPTED 0)
              (bindS (if vs_state s = Some VS_ERROR then session_update env (s\<lparr>vs_state := Some VS_RESUMING\<rparr>) else ret s) (\<lambda>s1.
                if vs_state s1 \<noteq> Some VS_READY then resume_after_reboot env s1
                else bindS (broker_state env s1) (\<lambda>state.
                  if state = Some ''CREATING'' then ret ()
                  else if state = Some ''READY''
                  then bindS (counter_get (vs_id s) SESSION_RESUMED) (\<lambda>n.
                         if n < RESUME_REQUEST_COUNT_THRESHOLD
                         then thenS (counter_put (vs_id s) SESSION_RESUMED (n + 1)) (throw do_not_delete)
                         else counter_delete (vs_id s) SESSION_RESUMED)
                  else resume_after_reboot env s1))))))))"

section \<open>Validation\<close>

definition VALIDATION_REQUEST_THRESHOLD :: int where "VALIDATION_REQUEST_THRESHOLD = 30"
definition SESSION_DELETED_THRESHOLD :: int where "SESSION_DELETED_THRESHOLD = 4"

definition move_session :: "desktop_env \<Rightarrow> vd_session \<Rightarrow> session_state \<Rightarrow> unit desk" where
  "move_session env s state = thenS (session_update env (s\<lparr>vs_state := Some state\<rparr>)) (ret ())"

definition handle_validate_creation :: "desktop_env \<Rightarrow> string \<Rightarrow> pydict \<Rightarrow> unit desk" where
  "handle_validate_creation env sender detail = from_controller env sender (with_named_session env detail (\<lambda>s.
     bindS (counter_get (vs_id s) VALIDATE_CREATED) (\<lambda>n.
       if vs_state s \<in> {Some VS_DELETING, Some VS_DELETED} then counter_delete (vs_id s) VALIDATE_CREATED
       else bindS (broker_state env s) (\<lambda>state.
         if state = Some ''READY'' then thenS (move_session env s VS_READY) (counter_delete (vs_id s) VALIDATE_CREATED)
         else if SESSION_DELETED_THRESHOLD < n \<and> state = Some ''DELETED'' then move_session env s VS_ERROR
         else if VALIDATION_REQUEST_THRESHOLD < n then move_session env s VS_ERROR
         else if vs_state s = Some VS_STOPPING then ret ()
         else thenS (if vs_state s \<noteq> Some VS_INITIALIZING then move_session env s VS_INITIALIZING else ret ())
              (thenS (counter_put (vs_id s) VALIDATE_CREATED (n + 1)) (throw do_not_delete))))))"

text \<open>After a stop the host is asked for its state, and every exception there counts as no answer.\<close>

definition state_after_stop :: "desktop_env \<Rightarrow> vd_session \<Rightarrow> session_state desk" where
  "state_after_stop env s = catchS
     (bindS (reads (\<lambda>_. bindE (required AttributeError (vs_server s)) (\<lambda>r.
        bindE (de_instance_state env (vr_instance_id r)) (\<lambda>state. Inr (vr_instance_id r, state))))) (\<lambda>(iid, state).
      if state = Some ''stopped''
      then bindS (server_get env iid) (\<lambda>found.
           thenS (case found of None \<Rightarrow> ret () | Some r \<Rightarrow> server_update env (r\<lparr>vr_state := Some ''STOPPED''\<rparr>)) (ret VS_STOPPED))
      else ret VS_STOPPING))
     (\<lambda>_. ret VS_STOPPING)"

definition continue_stop_session :: "desktop_env \<Rightarrow> vd_session \<Rightarrow> unit desk" where
  "continue_stop_session env s =
     bindS (if vs_hibernation s = Some True
            then thenS (stop_or_hibernate_servers env [] [vs_server s]) (ret VS_STOPPED)
            else thenS (stop_or_hibernate_servers env [vs_server s] []) (state_after_stop env s)) (\<lambda>state.
       move_session env (s\<lparr>vs_updated := Some (de_now env)\<rparr>) state)"

text \<open>The entry of the session is deleted before the host is terminated; every exception is only logged.\<close>

definition continue_delete_session :: "desktop_env \<Rightarrow> vd_session \<Rightarrow> unit desk" where
  "continue_delete_session env s = catchS
     (thenS (delete_schedules_for_session s)
     (thenS (delete_permissions_for_session s)
     (thenS (session_delete env s)
     (case vs_server s of None \<Rightarrow> ret () | Some r \<Rightarrow> thenS (terminate_dcv_hosts env [Some r]) (ret ())))))
     (\<lambda>_. ret ())"

definition has_exceeded_validation_timeout :: "desktop_env \<Rightarrow> vd_session \<Rightarrow> bool" where
  "has_exceeded_validation_timeout env s =
     (case vs_updated s of None \<Rightarrow> True | Some t \<Rightarrow> de_validation_timeout env * 60 * 1000000 < de_now env - t)"

definition continue_session :: "desktop_env \<Rightarrow> vd_session \<Rightarrow> unit desk" where
  "continue_session env s =
     (if vs_state s = Some VS_DELETING then continue_delete_session env s
      else if vs_state s = Some VS_STOPPING then continue_stop_session env s
      else ret ())"

definition handle_validate_deletion :: "desktop_env \<Rightarrow> string \<Rightarrow> pydict \<Rightarrow> unit desk" where
  "handle_validate_deletion env sender detail = from_controller env sender (with_named_session env detail (\<lambda>s.
     if vs_state s \<notin> {Some VS_STOPPING, Some VS_DELETING} then ret ()
     else bindS (broker_state env s) (\<lambda>state.
       if is_empty_opt_str state \<or> state = Some ''DELETED'' then continue_session env s
       else if has_exceeded_validation_timeout env s then continue_session env s
       else throw do_not_delete)))"

section \<open>Schedules and termination\<close>

definition retry_on_failure :: "batch desk \<Rightarrow> unit desk" where
  "retry_on_failure m = bindS m (\<lambda>(_, failed). if failed = [] then ret () else throw do_not_delete)"

definition handle_scheduled_resume :: "desktop_env \<Rightarrow> string \<Rightarrow> pydict \<Rightarrow> unit desk" where
  "handle_scheduled_resume env sender detail = from_controller env sender (with_session env detail (\<lambda>s.
     if vs_state s \<in> {Some VS_STOPPING, Some VS_PROVISIONING, Some VS_CREATING, Some VS_RESUMING, Some VS_READY, Some VS_INITIALIZING,
          Some VS_DELETED, Some VS_DELETING}
     then ret ()
     else retry_on_failure (resume_sessions env [s])))"

definition detail_force :: "pydict \<Rightarrow> bool" where
  "detail_force detail = opt_or (get_value_as_bool ''force'' detail (Some False)) False"

definition handle_scheduled_stop :: "desktop_env \<Rightarrow> string \<Rightarrow> pydict \<Rightarrow> unit desk" where
  "handle_scheduled_stop env sender detail = from_controller env sender (with_session env detail (\<lambda>s.
     if vs_state s \<notin> {Some VS_READY, Some VS_RESUMING} then ret ()
     else if \<not> detail_force detail
     then submit_command s (de_utilization env s) (UtilizationCommand (vs_id s)) CPU_UTILIZATION_CHECK_STOP_SCHEDULED_SESSION
     else retry_on_failure (stop_sessions env [s\<lparr>vs_force := Some True\<rparr>])))"

definition handle_terminate :: "desktop_env \<Rightarrow> string \<Rightarrow> pydict \<Rightarrow> unit desk" where
  "handle_terminate env sender detail = from_controller env sender
     (retry_on_failure (terminate_sessions env [new_session (detail_str env ''idea_session_id'' detail)
        (detail_str env ''idea_session_owner'' detail) (Some (detail_force detail))]))"

end
