(* ===== verification/Desktop_Lifecycle.thy ===== *)
theory Desktop_Lifecycle
  imports Desktop_Events
begin

text \<open>
  The life of a virtual desktop session: how its state in the table may change, whatever is asked for, told by hosts, or answered by EC2 and the
  broker. Every operation and every handler of an event is one step.
\<close>

section \<open>States in the table\<close>

definition plain :: "string \<Rightarrow> bool" where
  "plain s \<longleftrightarrow> strip s = s \<and> s \<noteq> []"

lemma plain_not_empty: "plain s \<Longrightarrow> \<not> is_empty_opt_str (Some s)"
  by (simp add: plain_def is_empty_opt_str_def is_empty_str_def)

lemma read_plain: "map_of d k = Some (PStr s) \<Longrightarrow> plain s \<Longrightarrow> get_value_as_string fmt k d e = Some s"
  by (auto simp: plain_def get_value_as_string_def get_any_value_def value_exists_def is_empty_str_def Let_def)

lemma plain_state_str: "plain (state_str st)"
  by (cases st; simp; code_simp)

lemma state_of_name_state_str: "state_of_name (Some (state_str st)) = Inr st"
  by (cases st; simp; code_simp)

definition row_ok :: "(string \<times> string) \<times> pydict \<Rightarrow> bool" where
  "row_ok r \<longleftrightarrow> plain (fst (fst r)) \<and> plain (snd (fst r)) \<and> map_of (snd r) ''owner'' = Some (PStr (fst (fst r))) \<and>
     map_of (snd r) ''idea_session_id'' = Some (PStr (snd (fst r))) \<and> (\<exists>st. map_of (snd r) ''state'' = Some (PStr (state_str st)))"

lemma row_okI:
  "plain (fst k) \<Longrightarrow> plain (snd k) \<Longrightarrow> map_of d ''owner'' = Some (PStr (fst k)) \<Longrightarrow>
   map_of d ''idea_session_id'' = Some (PStr (snd k)) \<Longrightarrow> map_of d ''state'' = Some (PStr (state_str st)) \<Longrightarrow> row_ok (k, d)"
  by (auto simp: row_ok_def)

definition sessions_ok :: "((string \<times> string) \<times> pydict) list \<Rightarrow> bool" where
  "sessions_ok rows \<longleftrightarrow> (\<forall>k d. map_of rows k = Some d \<longrightarrow> row_ok (k, d))"

definition row_state :: "pydict \<Rightarrow> session_state option" where
  "row_state d = (case map_of d ''state'' of Some (PStr t) \<Rightarrow> (case state_of_name (Some t) of Inr st \<Rightarrow> Some st | Inl _ \<Rightarrow> None) | _ \<Rightarrow> None)"

definition state_at :: "desktop_world \<Rightarrow> string \<times> string \<Rightarrow> session_state option" where
  "state_at w k = (case map_of (dw_sessions w) k of None \<Rightarrow> None | Some d \<Rightarrow> row_state d)"

definition key_of :: "vd_session \<Rightarrow> string \<times> string" where
  "key_of s = (opt_or (vs_owner s) [], opt_or (vs_id s) [])"

text \<open>A session as it was read: named, with the state it has in the table.\<close>

definition named :: "vd_session \<Rightarrow> bool" where
  "named s \<longleftrightarrow> vs_owner s = Some (fst (key_of s)) \<and> vs_id s = Some (snd (key_of s)) \<and> plain (fst (key_of s)) \<and> plain (snd (key_of s))"

definition read_from :: "desktop_world \<Rightarrow> vd_session \<Rightarrow> bool" where
  "read_from w s \<longleftrightarrow> named s \<and> state_at w (key_of s) = vs_state s \<and> vs_state s \<noteq> None"

lemma key_of_update [simp]:
  "key_of (s\<lparr>vs_state := a\<rparr>) = key_of s" "key_of (s\<lparr>vs_server := b\<rparr>) = key_of s" "key_of (s\<lparr>vs_force := c\<rparr>) = key_of s"
  "key_of (s\<lparr>vs_dcv_id := d\<rparr>) = key_of s" "key_of (s\<lparr>vs_updated := e\<rparr>) = key_of s" "key_of (s\<lparr>vs_failure := d\<rparr>) = key_of s"
  "key_of (s\<lparr>vs_connections := e\<rparr>) = key_of s" "key_of (s\<lparr>vs_schedule := f\<rparr>) = key_of s" "key_of (s\<lparr>vs_locked := c\<rparr>) = key_of s"
  "key_of (s\<lparr>vs_stack := g\<rparr>) = key_of s" "key_of (s\<lparr>vs_name := d\<rparr>) = key_of s"
  by (simp_all add: key_of_def)

lemma named_update [simp]:
  "named (s\<lparr>vs_state := a\<rparr>) = named s" "named (s\<lparr>vs_server := b\<rparr>) = named s" "named (s\<lparr>vs_force := c\<rparr>) = named s"
  "named (s\<lparr>vs_dcv_id := d\<rparr>) = named s" "named (s\<lparr>vs_updated := e\<rparr>) = named s" "named (s\<lparr>vs_failure := d\<rparr>) = named s"
  "named (s\<lparr>vs_connections := e\<rparr>) = named s" "named (s\<lparr>vs_schedule := f\<rparr>) = named s" "named (s\<lparr>vs_locked := c\<rparr>) = named s"
  "named (s\<lparr>vs_stack := g\<rparr>) = named s" "named (s\<lparr>vs_name := d\<rparr>) = named s"
  by (simp_all add: named_def)

lemma item_to_session_fields:
  assumes "item_to_session hours fmt (Some d) = Inr (Some s)"
  shows "vs_owner s = get_value_as_string fmt ''owner'' d None \<and> vs_id s = get_value_as_string fmt ''idea_session_id'' d None \<and>
    (\<exists>st. vs_state s = Some st \<and> state_of_name (get_value_as_string fmt ''state'' d None) = Inr st)"
proof -
  have d: "d \<noteq> []"
  proof
    assume "d = []"
    with assms show False by (simp add: item_to_session_def)
  qed
  then have "(d = []) = False" by simp
  from assms [unfolded item_to_session_def Let_def option.case this if_False bindE_Inr_iff]
  have "\<exists>st c u hs. state_of_name (get_value_as_string fmt ''state'' d None) = Inr st \<and> s = \<lparr>vs_id = get_value_as_string fmt ''idea_session_id'' d None,
      vs_owner = get_value_as_string fmt ''owner'' d None, vs_name = get_value_as_string fmt ''name'' d None,
      vs_dcv_id = get_value_as_string fmt ''dcv_session_id'' d (Some []), vs_state = Some st,
      vs_server = item_to_server fmt (get_value_as_dict ''server'' d None), vs_stack = get_value_as_dict ''software_stack'' d None,
      vs_schedule = Some (map_of (zip week_days hs)), vs_created = to_datetime c, vs_updated = to_datetime u,
      vs_hibernation = get_value_as_bool ''hibernation_enabled'' d None, vs_locked = get_value_as_bool ''locked'' d (Some False),
      vs_force = None, vs_connections = None, vs_failure = None\<rparr>"
    by - (elim exE conjE, intro exI conjI, assumption, drule sum.inject(2) [THEN iffD1], drule option.inject [THEN iffD1], erule sym)
  then obtain st where st: "state_of_name (get_value_as_string fmt ''state'' d None) = Inr st" and s: "vs_owner s = get_value_as_string fmt ''owner'' d None"
      "vs_id s = get_value_as_string fmt ''idea_session_id'' d None" "vs_state s = Some st" by (elim exE conjE) simp
  from st s show ?thesis by simp
qed

lemma item_to_session_SomeD:
  assumes "item_to_session hours fmt (Some d) = Inr (Some s)" "row_ok (k, d)"
  shows "vs_owner s = Some (fst k) \<and> vs_id s = Some (snd k) \<and> vs_state s = row_state d \<and> vs_state s \<noteq> None"
proof -
  obtain st where row: "plain (fst k)" "plain (snd k)" "map_of d ''owner'' = Some (PStr (fst k))" "map_of d ''idea_session_id'' = Some (PStr (snd k))"
    "map_of d ''state'' = Some (PStr (state_str st))"
    using assms(2) by (auto simp: row_ok_def)
  have "row_state d = Some st" using row(5) by (simp add: row_state_def state_of_name_state_str)
  moreover have "get_value_as_string fmt ''owner'' d None = Some (fst k)" "get_value_as_string fmt ''idea_session_id'' d None = Some (snd k)"
    "get_value_as_string fmt ''state'' d None = Some (state_str st)"
    using row by (auto intro: read_plain plain_state_str)
  ultimately show ?thesis using item_to_session_fields [OF assms(1)] by (simp only: state_of_name_state_str) force
qed

lemma read_session_None: "read_session env None = Inr None"
  by (simp add: read_session_def item_to_session_def)

lemma session_get_cases:
  "session_get env ow i w = (Inr (Some s), w') \<Longrightarrow>
     w' = w \<and> (\<exists>d. map_of (dw_sessions w) (opt_or ow [], opt_or i []) = Some d \<and> read_session env (Some d) = Inr (Some s))"
  by (cases "map_of (dw_sessions w) (opt_or ow [], opt_or i [])") (simp_all add: session_get_def read_session_None split: if_splits)

lemma session_get_read:
  assumes "sessions_ok (dw_sessions w)" "session_get env ow i w = (Inr (Some s), w')"
  shows "w' = w \<and> read_from w s \<and> key_of s = (opt_or ow [], opt_or i [])"
proof -
  from assms(2) obtain d where d: "map_of (dw_sessions w) (opt_or ow [], opt_or i []) = Some d" "read_session env (Some d) = Inr (Some s)" and w': "w' = w"
    using session_get_cases by blast
  with assms(1) have row: "row_ok ((opt_or ow [], opt_or i []), d)" by (simp add: sessions_ok_def)
  then have plains: "plain (opt_or ow [])" "plain (opt_or i [])" by (simp_all add: row_ok_def)
  note s = item_to_session_SomeD [OF d(2) [unfolded read_session_def] row, unfolded fst_conv snd_conv]
  from s have at: "state_at w (key_of s) = vs_state s" by (simp only: key_of_def opt_or_simps state_at_def d(1) option.case)
  from s plains have named: "named s" by (simp only: key_of_def opt_or_simps named_def fst_conv snd_conv)
  from s have "vs_state s \<noteq> None" by blast
  moreover from s have "key_of s = (opt_or ow [], opt_or i [])" by (simp only: key_of_def opt_or_simps)
  ultimately show ?thesis using at named w' unfolding read_from_def by blast
qed

section \<open>How the states change\<close>

text \<open>The transitions of a session, when no answer is late, and when one may be; None is a session that is not in the table.\<close>

fun becomes :: "bool \<Rightarrow> session_state option \<Rightarrow> session_state option \<Rightarrow> bool" where
  "becomes late None b \<longleftrightarrow> b = Some VS_PROVISIONING"
| "becomes late (Some a) None \<longleftrightarrow> True"
| "becomes late (Some a) (Some VS_PROVISIONING) \<longleftrightarrow> False"
| "becomes late (Some a) (Some VS_CREATING) \<longleftrightarrow> a \<in> {VS_PROVISIONING, VS_CREATING, VS_RESUMING}"
| "becomes late (Some a) (Some VS_INITIALIZING) \<longleftrightarrow> late \<or> a \<notin> {VS_STOPPING, VS_DELETING, VS_DELETED}"
| "becomes late (Some a) (Some VS_READY) \<longleftrightarrow> a \<notin> {VS_DELETING, VS_DELETED}"
| "becomes late (Some a) (Some VS_ERROR) \<longleftrightarrow> late \<or> a \<notin> {VS_DELETING, VS_DELETED}"
| "becomes late (Some a) (Some VS_RESUMING) \<longleftrightarrow> a \<in> {VS_READY, VS_STOPPED, VS_ERROR}"
| "becomes late (Some a) (Some VS_STOPPING) \<longleftrightarrow> late \<or> a \<in> {VS_READY, VS_RESUMING, VS_STOPPING}"
| "becomes late (Some a) (Some VS_STOPPED) \<longleftrightarrow> a \<in> {VS_READY, VS_STOPPING}"
| "becomes late (Some a) (Some VS_DELETING) \<longleftrightarrow> a \<noteq> VS_STOPPED"
| "becomes late (Some a) (Some VS_DELETED) \<longleftrightarrow> False"

text \<open>How the table may have changed since \<open>v\<close>: only at the keys of \<open>K\<close>, and there by a transition.\<close>

definition tracks :: "bool \<Rightarrow> (string \<times> string) set \<Rightarrow> desktop_world \<Rightarrow> desktop_world \<Rightarrow> bool" where
  "tracks late K v w \<longleftrightarrow> sessions_ok (dw_sessions w) \<and>
     (\<forall>k. state_at w k = state_at v k \<or> becomes late (state_at v k) (state_at w k)) \<and>
     (\<forall>k. k \<notin> K \<longrightarrow> map_of (dw_sessions w) k = map_of (dw_sessions v) k)"

lemma tracks_refl: "sessions_ok (dw_sessions w) \<Longrightarrow> tracks late K w w"
  by (simp add: tracks_def)

text \<open>\<open>achieves P m Q\<close>: the operation keeps \<open>P\<close>, and what it returns is \<open>Q\<close>.\<close>

definition achieves :: "('s \<Rightarrow> bool) \<Rightarrow> ('s, 'a) act \<Rightarrow> ('a \<Rightarrow> bool) \<Rightarrow> bool" where
  "achieves P m Q \<longleftrightarrow> (\<forall>s. P s \<longrightarrow> P (snd (m s)) \<and> (\<forall>x. fst (m s) = Inr x \<longrightarrow> Q x))"

lemma preserves_achieves: "preserves P m \<longleftrightarrow> achieves P m (\<lambda>_. True)"
  by (simp add: preserves_def achieves_def)

lemma achieves_bindS:
  assumes "achieves P m Q" "\<And>x. Q x \<Longrightarrow> achieves P (f x) R"
  shows "achieves P (bindS m f) R"
  unfolding achieves_def
proof (intro allI impI)
  fix s assume s: "P s"
  show "P (snd (bindS m f s)) \<and> (\<forall>x. fst (bindS m f s) = Inr x \<longrightarrow> R x)"
  proof (cases "m s")
    case (Pair r s')
    show ?thesis
    proof (cases r)
      case (Inr x)
      with assms(1) s Pair have "P s'" "Q x" by (auto simp: achieves_def)
      with assms(2) [of x] Pair Inr show ?thesis by (simp add: achieves_def bindS_def)
    qed (use assms(1) s Pair in \<open>auto simp: achieves_def bindS_def\<close>)
  qed
qed

lemma achieves_weaken: "achieves P m Q \<Longrightarrow> (\<And>x. Q x \<Longrightarrow> R x) \<Longrightarrow> achieves P m R"
  by (auto simp: achieves_def)

lemma achieves_thenS: "preserves P m \<Longrightarrow> achieves P k R \<Longrightarrow> achieves P (thenS m k) R"
  unfolding thenS_def preserves_achieves by (rule achieves_bindS)

lemma achieves_ret: "Q x \<Longrightarrow> achieves P (ret x) Q"
  by (simp add: achieves_def)

lemma achieves_mapS:
  assumes "\<And>x. x \<in> set xs \<Longrightarrow> achieves P (f x) Q"
  shows "achieves P (mapS f xs) (\<lambda>ys. \<forall>y \<in> set ys. Q y)"
  using assms
proof (induction xs)
  case Nil
  then show ?case by (simp add: achieves_def)
next
  case (Cons x xs)
  show ?case unfolding mapS.simps
  proof (rule achieves_bindS)
    show "achieves P (f x) Q" using Cons.prems by simp
    fix y assume y: "Q y"
    have "achieves P (mapS f xs) (\<lambda>ys. \<forall>y \<in> set ys. Q y)" using Cons by simp
    then show "achieves P (bindS (mapS f xs) (\<lambda>ys. ret (y # ys))) (\<lambda>ys. \<forall>y \<in> set ys. Q y)"
      by (rule achieves_bindS) (rule achieves_ret, simp add: y)
  qed
qed

text \<open>From what is done at the start, when nothing has changed, on to what follows.\<close>

lemma start_bindS:
  assumes "achieves (\<lambda>w. w = w0) m Q" "\<And>x. Q x \<Longrightarrow> preserves P (f x)" "P w0"
  shows "P (snd (bindS m f w0))"
proof (cases "m w0")
  case (Pair r w)
  with assms(1) have w: "w = w0" "\<And>x. r = Inr x \<Longrightarrow> Q x" by (auto simp: achieves_def)
  show ?thesis
  proof (cases r)
    case (Inr x)
    with w Pair assms(2) [of x] assms(3) show ?thesis by (simp add: bindS_def preserves_def)
  qed (use w Pair assms(3) in \<open>simp add: bindS_def\<close>)
qed

section \<open>Updates\<close>

lemma map_of_set_attributes:
  "distinct (map fst item) \<Longrightarrow> map_of (set_attributes keep item ks old) k =
     (if k \<notin> set keep \<and> map_of item k \<noteq> None then map_of item k else map_of (case old of None \<Rightarrow> ks | Some d \<Rightarrow> d) k)"
proof -
  assume d: "distinct (map fst item)"
  have fm: "map_of (filter (\<lambda>(k, _). P k) kvs) k = (if P k then map_of kvs k else None)" for P :: "string \<Rightarrow> bool" and kvs :: pydict
    by (induction kvs) auto
  have df: "distinct (map fst (filter (\<lambda>(k, _). k \<notin> set keep) item))" using d by (induction item) auto
  have fold: "map_of (fold (\<lambda>(k, v). assign_key k v) kvs e) k = (case map_of kvs k of None \<Rightarrow> map_of e k | Some v \<Rightarrow> Some v)"
    if "distinct (map fst kvs)" for kvs e :: pydict
    using that
  proof (induction kvs arbitrary: e)
    case (Cons kv kvs)
    obtain k' v where kv: "kv = (k', v)" by (cases kv)
    with Cons.prems have "map_of kvs k' = None" by (simp add: map_of_eq_None_iff)
    with Cons.IH [of "assign_key k' v e"] Cons.prems kv show ?case by (auto split: option.splits)
  qed simp
  show ?thesis unfolding set_attributes_def fold [OF df] fm by (auto split: option.splits)
qed

lemma session_item:
  assumes "session_to_item s = Inr item"
  shows "distinct (map fst item) \<and> map_of item ''owner'' = Some (str_val (vs_owner s)) \<and>
    map_of item ''idea_session_id'' = Some (str_val (vs_id s)) \<and> map_of item ''state'' = Some (str_val (map_option state_str (vs_state s)))"
proof -
  from assms obtain stack days where days:
    "traverseE (\<lambda>d. bindE (schedule_to_item (opt_or (vs_schedule s) no_week d)) (\<lambda>i. Inr (schedule_column d, PDict i))) week_days = Inr days"
    and item: "item = [(''owner'', str_val (vs_owner s)), (''idea_session_id'', str_val (vs_id s)), (''created_on'', PInt (to_milliseconds (vs_created s))),
         (''updated_on'', PInt (to_milliseconds (vs_updated s))), (''server'', PDict (server_to_item (vs_server s))),
         (''software_stack'', PDict stack), (''name'', str_val (vs_name s)),
         (''dcv_session_id'', str_val (vs_dcv_id s)), (''state'', str_val (map_option state_str (vs_state s))),
         (''locked'', PBool (opt_or (vs_locked s) False)), (''hibernation_enabled'', bool_val (vs_hibernation s))] @ days"
    by (auto simp: session_to_item_def bindE_Inr_iff)
  have "map fst days = map schedule_column ds" if "traverseE (\<lambda>d. bindE (g d) (\<lambda>i. Inr (schedule_column d, PDict i))) ds = Inr days"
    for g :: "day_of_week \<Rightarrow> pydict res" and ds days
    using that by (induction ds arbitrary: days) (auto simp: bindE_Inr_iff)
  from this [OF days] have "map fst days = map schedule_column week_days" .
  then have "map fst days = [''monday_schedule'', ''tuesday_schedule'', ''wednesday_schedule'', ''thursday_schedule'', ''friday_schedule'',
      ''saturday_schedule'', ''sunday_schedule'']"
    by (simp add: week_days_def schedule_column_def)
  with item show ?thesis by simp
qed

lemma row_state_of [simp]: "map_of d ''state'' = Some (PStr (state_str st)) \<Longrightarrow> row_state d = Some st"
  by (simp add: row_state_def state_of_name_state_str)

lemma tracks_put:
  assumes "tracks late K v w" "row_ok (k, d)" "k \<in> K" "row_state d = state_at v k \<or> becomes late (state_at v k) (row_state d)"
  shows "tracks late K v (w\<lparr>dw_sessions := assign_key k d (dw_sessions w)\<rparr>)"
  using assms by (auto simp: tracks_def sessions_ok_def state_at_def)

lemma read_back:
  assumes "session_to_item s = Inr item" "named s" "vs_state s = Some st"
    "read_session env (Some (assign_key ''updated_on'' x item)) = Inr (Some s')"
  shows "named s' \<and> key_of s' = key_of s \<and> vs_state s' = Some st"
proof -
  note item = session_item [OF assms(1)]
  let ?d = "assign_key ''updated_on'' x item"
  have "row_ok (key_of s, ?d)" using assms(2,3) item by (intro row_okI [where st = st]) (simp_all add: named_def str_val_def)
  from item_to_session_SomeD [OF assms(4) [unfolded read_session_def] this]
  have "vs_owner s' = Some (fst (key_of s))" "vs_id s' = Some (snd (key_of s))" "vs_state s' = row_state ?d" by simp_all
  moreover have "row_state ?d = Some st" using item assms(3) by (simp add: str_val_def)
  ultimately show ?thesis using assms(2) by (simp add: named_def key_of_def)
qed

text \<open>What is known of a session that an operation is about to write: its names, and that its state follows from that of the start.\<close>

definition follows :: "bool \<Rightarrow> (string \<times> string) set \<Rightarrow> desktop_world \<Rightarrow> vd_session \<Rightarrow> bool" where
  "follows late K v s \<longleftrightarrow> named s \<and> key_of s \<in> K \<and> vs_state s \<noteq> None \<and>
     (vs_state s = state_at v (key_of s) \<or> becomes late (state_at v (key_of s)) (vs_state s))"

definition same_as :: "vd_session \<Rightarrow> vd_session \<Rightarrow> bool" where
  "same_as s s' \<longleftrightarrow> named s' \<and> key_of s' = key_of s \<and> vs_state s' = vs_state s"

lemma follows_same: "follows late K v s \<Longrightarrow> same_as s s' \<Longrightarrow> follows late K v s'"
  by (simp add: follows_def same_as_def)

lemma session_update_tracks:
  assumes "follows late K v s"
  shows "achieves (tracks late K v) (session_update env s) (same_as s)"
  unfolding achieves_def
proof (intro allI impI)
  fix w assume w: "tracks late K v w"
  from assms obtain st where s: "named s" "vs_state s = Some st" by (auto simp: follows_def)
  then have key: "session_key s = Inr (key_of s)" by (cases "key_of s") (simp add: session_key_def named_def)
  show "tracks late K v (snd (session_update env s w)) \<and> (\<forall>s'. fst (session_update env s w) = Inr s' \<longrightarrow> same_as s s')"
  proof (cases "session_to_item s")
    case (Inl e)
    then show ?thesis using w by (simp add: session_update_def bindS_def)
  next
    case (Inr item)
    let ?item = "assign_key ''updated_on'' (PInt (now_ms env)) item"
    let ?old = "map_of (dw_sessions w) (key_of s)"
    let ?d = "set_attributes [''owner'', ''idea_session_id'', ''created_on''] ?item
      [(''owner'', PStr (fst (key_of s))), (''idea_session_id'', PStr (snd (key_of s)))] ?old"
    note item = session_item [OF Inr]
    have d: "distinct (map fst ?item)" using item by (simp add: distinct_assign_key)
    have state: "map_of ?d ''state'' = Some (PStr (state_str st))"
      using item s by (simp add: map_of_set_attributes [OF d] str_val_def)
    have "row_ok (key_of s, ?d)"
    proof (cases ?old)
      case None
      then show ?thesis using s by (intro row_okI [OF _ _ _ _ state]) (simp_all add: named_def map_of_set_attributes [OF d])
    next
      case (Some old)
      with w have "row_ok (key_of s, old)" unfolding tracks_def sessions_ok_def by blast
      with Some show ?thesis by (intro row_okI [OF _ _ _ _ state]) (auto simp: row_ok_def map_of_set_attributes [OF d])
    qed
    with w assms s state have t: "tracks late K v (w\<lparr>dw_sessions := assign_key (key_of s) ?d (dw_sessions w)\<rparr>)"
      by (intro tracks_put) (auto simp: follows_def)
    have reread: "required AttributeError f = Inr s' \<Longrightarrow> read_session env (Some ?item) = Inr f \<Longrightarrow> same_as s s'" for f s'
      using read_back [OF Inr s] s by (cases f) (auto simp: same_as_def)
    show ?thesis
      using t reread by (cases ?old) (auto simp: session_update_def thenS_def bindS_def Inr key Let_def bindE_Inr_iff)
  qed
qed

end
