(* ===== verification/Desktop_Commands.thy ===== *)
theory Desktop_Commands
  imports Desktop_Events
begin

text \<open>
  What is told of commands that run on hosts and of the hosts themselves (\<open>events/service/controller_queue_monitor_service.py\<close> and the handlers of
  \<open>ssm_commands_progress_event_handlers\<close>), and the requests of \<open>api/virtual_desktop_api.py\<close> that update a session or connect to it. Images that are
  made from sessions are left out.
\<close>

section \<open>The queue of the controller\<close>

definition handle_ssm_commands :: "desktop_env \<Rightarrow> pydict \<Rightarrow> unit desk" where
  "handle_ssm_commands env message =
     (let cid = detail_str env ''commandId'' message in
      if is_empty_opt_str cid then ret ()
      else bindS (gets (\<lambda>w. map_of (dw_commands w) (opt_or cid []))) (\<lambda>found.
           case found of None \<Rightarrow> ret () | Some (ty, payload) \<Rightarrow>
             let str = (\<lambda>k. get_value_as_string (de_fmt env) k payload (Some [])) in
             publish (CommandProgress ty (str ''idea_session_id'') (str ''idea_session_owner'') (opt_or cid []) (str ''instance_id'')
               (detail_str env ''status'' message))))"

definition handle_ec2_state_change :: "desktop_env \<Rightarrow> pydict \<Rightarrow> unit desk" where
  "handle_ec2_state_change env payload =
     bindS (server_get env (detail_str env ''instance-id'' payload)) (\<lambda>found.
       case found of None \<Rightarrow> ret () | Some r \<Rightarrow>
         publish (HostState (detail_str env ''instance-id'' payload) (vr_session_id r) (vr_owner r) (detail_str env ''state'' payload)))"

definition handle_user_disabled :: "desktop_env \<Rightarrow> pydict \<Rightarrow> unit desk" where
  "handle_user_disabled env payload =
     (let user = detail_str env ''username'' payload in
      if is_empty_opt_str user then ret () else publish (UserDisabled (opt_or user [])))"

text \<open>A message by where it is from, its text read; None is a text that cannot be read. The messages are deleted together, when all are handled.\<close>

datatype controller_source = FromSsm | FromEc2 | UserDisabledNotice | OtherSource

fun process_controller_queue :: "desktop_env \<Rightarrow> (string \<times> (controller_source \<times> pydict) option) list \<Rightarrow> string list desk" where
  "process_controller_queue env [] = ret []"
| "process_controller_queue env ((i, m) # ms) =
     thenS (case m of
         None \<Rightarrow> throw ValueError
       | Some (FromSsm, d) \<Rightarrow> handle_ssm_commands env d
       | Some (FromEc2, d) \<Rightarrow> handle_ec2_state_change env d
       | Some (UserDisabledNotice, d) \<Rightarrow> handle_user_disabled env d
       | Some (OtherSource, d) \<Rightarrow> ret ())
     (bindS (process_controller_queue env ms) (\<lambda>ids. ret (i # ids)))"

section \<open>The progress of commands\<close>

definition command_ended :: "desktop_env \<Rightarrow> string \<Rightarrow> pydict \<Rightarrow> (bool \<Rightarrow> vd_session option \<Rightarrow> unit desk) \<Rightarrow> unit desk" where
  "command_ended env sender detail f = from_controller env sender
     (let status = get_value_as_string (de_fmt env) ''status'' detail (Some []) in
      if status \<in> {Some ''Success'', Some ''Failed''}
      then bindS (session_get env (detail_str env ''idea_session_owner'' detail) (detail_str env ''idea_session_id'' detail))
             (f (status = Some ''Success''))
      else ret ())"

definition handle_resume_progress :: "desktop_env \<Rightarrow> string \<Rightarrow> pydict \<Rightarrow> unit desk" where
  "handle_resume_progress env sender detail = command_ended env sender detail (\<lambda>success found.
     bindS (reads (\<lambda>_. required AttributeError found)) (\<lambda>s.
       if success
       then thenS (publish (ValidateCreation (vs_id s) (vs_owner s)))
              (thenS (command_delete (detail_str env ''command_id'' detail)) (move_session env s VS_INITIALIZING))
       else move_session env s VS_ERROR))"

definition handle_disable_userdata_progress :: "desktop_env \<Rightarrow> string \<Rightarrow> pydict \<Rightarrow> unit desk" where
  "handle_disable_userdata_progress env sender detail = command_ended env sender detail (\<lambda>success found.
     bindS (reads (\<lambda>_. required AttributeError found)) (\<lambda>s.
     bindS (if success
            then bindS (reads (\<lambda>_. required AttributeError (vs_server s))) (\<lambda>r.
                 thenS (command_delete (detail_str env ''command_id'' detail))
                   (ret (s\<lparr>vs_locked := Some False, vs_server := Some (r\<lparr>vr_locked := Some False\<rparr>)\<rparr>)))
            else ret (s\<lparr>vs_state := Some VS_ERROR\<rparr>)) (\<lambda>s1.
     bindS (reads (\<lambda>_. required KeyError (vs_server s1))) (\<lambda>r.
     thenS (server_update env r) (thenS (session_update env s1) (ret ()))))))"

text \<open>Idle: the processor is, nobody is connected, and the last disconnection is longer ago than the delay, by the local time taken for UTC.\<close>

definition text_field :: "pydict \<Rightarrow> string \<Rightarrow> string res" where
  "text_field d k = bindE (required KeyError (map_of d k)) (\<lambda>v. case v of PStr s \<Rightarrow> Inr s | _ \<Rightarrow> Inl TypeError)"

definition is_host_idle :: "desktop_env \<Rightarrow> pydict \<Rightarrow> bool res" where
  "is_host_idle env output =
     bindE (bindE (required KeyError (map_of output ''DCV'')) (\<lambda>v. case v of PDict d \<Rightarrow> Inr d | _ \<Rightarrow> Inl TypeError)) (\<lambda>dcv.
     bindE (required KeyError (map_of dcv ''num-of-connections'')) (\<lambda>connections.
     bindE (text_field dcv ''last-disconnection-time'') (\<lambda>last.
     bindE (bindE (if last = [] then text_field dcv ''creation-time'' else Inr last) (de_parse_time env)) (\<lambda>since.
     bindE (get_value_as_float ''CPUAveragePerformanceLast10Secs'' output (Some (Fin 0))) (\<lambda>cpu.
     bindE (de_cpu_threshold env) (\<lambda>threshold.
     bindE (de_idle_delay env) (\<lambda>delay.
       Inr (fless (opt_or cpu (Fin 0)) threshold \<and> connections \<in> {PInt 0, PBool False, PFloat (Fin 0)} \<and>
         since + delay < (de_now env + de_local_offset env) div 1000000 * 1000000))))))))"

definition handle_cpu_utilization :: "desktop_env \<Rightarrow> string \<Rightarrow> pydict \<Rightarrow> unit desk" where
  "handle_cpu_utilization env sender detail = command_ended env sender detail (\<lambda>success found.
     if \<not> success then ret ()
     else bindS (reads (\<lambda>_. bindE (de_command_output env (detail_str env ''command_id'' detail) (detail_str env ''instance_id'' detail))
              (is_host_idle env))) (\<lambda>idle.
          if \<not> idle then ret ()
          else bindS (reads (\<lambda>_. required AttributeError found)) (\<lambda>s. retry_on_failure (stop_sessions env [s]))))"

section \<open>Software stacks\<close>

definition handle_stack_update :: "desktop_env \<Rightarrow> string \<Rightarrow> pydict \<Rightarrow> unit desk" where
  "handle_stack_update env sender detail = from_controller env sender
     (let stack = opt_or (get_value_as_dict ''new_software_stack'' detail (Some [])) [] in
      if stack = [] then ret ()
      else with_named_session env detail (\<lambda>s.
        bindS (reads (\<lambda>_. required AttributeError (vs_stack s))) (\<lambda>current.
        if detail_str env ''stack_id'' current \<noteq> detail_str env ''stack_id'' stack then ret ()
        else thenS (session_update env (s\<lparr>vs_stack := Some stack\<rparr>)) (ret ()))))"

section \<open>Requests\<close>

text \<open>The host whose type is changed is the one that the request names. Of a change of the description only whether there is one is kept.\<close>

definition change_type :: "desktop_env \<Rightarrow> vd_session \<Rightarrow> vd_session \<Rightarrow> (string + vd_session \<times> bool) desk" where
  "change_type env req old =
     (case vs_server req of
        None \<Rightarrow> ret (Inr (old, False))
      | Some r \<Rightarrow>
          if is_empty_opt_str (vr_instance_type r) then ret (Inr (old, False))
          else bindS (server_get env (vr_instance_id r)) (\<lambda>found.
            case found of
              None \<Rightarrow> ret (Inr (old, False))
            | Some current \<Rightarrow>
                if vr_instance_type current = vr_instance_type r then ret (Inr (old, False))
                else if vs_hibernation old = Some True then ret (Inl ''hibernation is enabled'')
                else case de_change_type env (vr_instance_id r) (vr_instance_type r) of
                       Some e \<Rightarrow> ret (Inl e)
                     | None \<Rightarrow>
                         thenS (effect (ChangedType (vr_instance_id r) (vr_instance_type r)))
                         (bindS (reads (\<lambda>_. required AttributeError (vs_server old))) (\<lambda>own.
                            ret (Inr (old\<lparr>vs_server := Some (own\<lparr>vr_instance_type := vr_instance_type r\<rparr>)\<rparr>, True))))))"

definition save_update :: "desktop_env \<Rightarrow> vd_session \<Rightarrow> vd_session desk" where
  "save_update env s =
     bindS (session_update env s) (\<lambda>s'.
     bindS (reads (\<lambda>_. required AttributeError (vs_server s'))) (\<lambda>r.
     thenS (calls (de_tag env (vr_instance_id r)) (NamedHost (vr_instance_id r) (vs_name s'))) (ret s')))"

definition update_session :: "desktop_env \<Rightarrow> bool \<Rightarrow> vd_session \<Rightarrow> vd_session desk" where
  "update_session env described req =
     bindS (session_get env (vs_owner req) (vs_id req)) (\<lambda>found.
       case found of
         None \<Rightarrow> ret (req\<lparr>vs_failure := Some ''invalid session''\<rparr>)
       | Some old \<Rightarrow>
           let renamed = (\<not> is_empty_opt_str (vs_name req) \<and> vs_name req \<noteq> vs_name old) in
           bindS (change_type env req (if renamed then old\<lparr>vs_name := vs_name req\<rparr> else old)) (\<lambda>changed.
             case changed of
               Inl e \<Rightarrow> ret (req\<lparr>vs_failure := Some e\<rparr>)
             | Inr (s1, retyped) \<Rightarrow>
                 bindS (case vs_schedule req of None \<Rightarrow> ret s1 | Some week \<Rightarrow> update_schedule_for_session env week s1) (\<lambda>s2.
                 thenS (if retyped then bindS (reads (\<lambda>_. required KeyError (vs_server s2))) (server_update env) else ret ())
                 (if renamed \<or> described \<or> retyped \<or> \<not> Option.is_none (vs_schedule req) then save_update env s2 else ret req))))"

text \<open>The answer is the reason for which there is no connection. The session may be named without being asked for.\<close>

definition get_session_connection_info ::
  "desktop_env \<Rightarrow> string option \<Rightarrow> string option \<Rightarrow> string option \<Rightarrow> string option \<Rightarrow> string option desk" where
  "get_session_connection_info env dcv i ow user =
     bindS (if is_empty_opt_str dcv
            then bindS (session_get env ow i) (\<lambda>found.
              case found of
                None \<Rightarrow> ret (Inl ''invalid session'')
              | Some s \<Rightarrow> if vs_state s \<noteq> Some VS_READY then ret (Inl ''not ready'') else ret (Inr (vs_dcv_id s, Some s)))
            else ret (Inr (dcv, None))) (\<lambda>target.
       case target of
         Inl why \<Rightarrow> ret (Some why)
       | Inr (dcv_id, known) \<Rightarrow>
           (case de_connect env dcv_id user of
              None \<Rightarrow> ret None
            | Some why \<Rightarrow>
                bindS (if Option.is_none known \<and> \<not> is_empty_opt_str i then session_get env ow i else ret known) (\<lambda>found.
                  case found of
                    None \<Rightarrow> ret (Some why)
                  | Some s \<Rightarrow> thenS (move_session env s VS_ERROR) (ret (Some why)))))"

end
