(* ===== verification/Desktop_Api.thy ===== *)
theory Desktop_Api
  imports Desktop_Commands
begin

text \<open>
  What a user may ask of his sessions, \<open>api/virtual_desktop_user_api.py\<close> with the checks of \<open>api/virtual_desktop_api.py\<close>: each request is checked
  and completed with the name of the user, and those that pass are handed on as one batch. The user has a name.
\<close>

text \<open>The checks of stops and reboots build the exception for a session without an id but do not raise it.\<close>

definition validate_owner :: "string \<Rightarrow> vd_session \<Rightarrow> bool" where
  "validate_owner user s = (is_empty_opt_str (vs_owner s) \<or> vs_owner s = Some user)"

definition validate_with_id :: "string \<Rightarrow> vd_session \<Rightarrow> bool" where
  "validate_with_id user s = (\<not> is_empty_opt_str (vs_id s) \<and> validate_owner user s)"

definition complete_owner :: "string \<Rightarrow> vd_session \<Rightarrow> vd_session" where
  "complete_owner user s = (if is_empty_opt_str (vs_owner s) then s\<lparr>vs_owner := Some user\<rparr> else s)"

definition invalid_request :: "vd_session \<Rightarrow> vd_session" where
  "invalid_request s = s\<lparr>vs_failure := Some ''invalid request''\<rparr>"

definition batch_request ::
  "(string \<Rightarrow> vd_session \<Rightarrow> bool) \<Rightarrow> (vd_session list \<Rightarrow> batch desk) \<Rightarrow> string \<Rightarrow> vd_session list \<Rightarrow> batch desk" where
  "batch_request valid operation user reqs =
     (let passed = map (complete_owner user) (filter (valid user) reqs); rejected = map invalid_request (filter (\<lambda>r. \<not> valid user r) reqs) in
      bindS (operation passed) (\<lambda>(successes, failures). ret (successes, failures @ rejected)))"

definition unless_none :: "(vd_session list \<Rightarrow> batch desk) \<Rightarrow> vd_session list \<Rightarrow> batch desk" where
  "unless_none operation reqs = (if reqs = [] then ret ([], []) else operation reqs)"

definition user_stop_sessions :: "desktop_env \<Rightarrow> string \<Rightarrow> vd_session list \<Rightarrow> batch desk" where
  "user_stop_sessions env = batch_request validate_owner (unless_none (stop_sessions env))"

definition user_reboot_sessions :: "desktop_env \<Rightarrow> string \<Rightarrow> vd_session list \<Rightarrow> batch desk" where
  "user_reboot_sessions env = batch_request validate_owner (unless_none (reboot_sessions env))"

definition user_resume_sessions :: "desktop_env \<Rightarrow> string \<Rightarrow> vd_session list \<Rightarrow> batch desk" where
  "user_resume_sessions env = batch_request validate_with_id (unless_none (resume_sessions env))"

definition user_delete_sessions :: "desktop_env \<Rightarrow> string \<Rightarrow> vd_session list \<Rightarrow> batch desk" where
  "user_delete_sessions env = batch_request validate_with_id (terminate_sessions env)"

definition user_update_session :: "desktop_env \<Rightarrow> bool \<Rightarrow> string \<Rightarrow> vd_session \<Rightarrow> vd_session desk" where
  "user_update_session env described user req =
     (if \<not> validate_owner user req then ret (invalid_request req) else update_session env described (complete_owner user req))"

text \<open>Of a request to connect the user is checked, but not whose session it names.\<close>

definition user_connect ::
  "desktop_env \<Rightarrow> string \<Rightarrow> string option \<Rightarrow> string option \<Rightarrow> string option \<Rightarrow> string option \<Rightarrow> string option desk" where
  "user_connect env user dcv i ow requested =
     (if is_empty_opt_str dcv \<and> (is_empty_opt_str ow \<or> is_empty_opt_str i) then ret (Some ''missing parameters'')
      else if \<not> is_empty_opt_str requested \<and> requested \<noteq> Some user then ret (Some ''invalid owner'')
      else get_session_connection_info env dcv i ow (Some user))"

end
