(* ===== verification/Desktop_Steps.thy ===== *)
theory Desktop_Steps
  imports Desktop_Lifecycle Desktop_Api
begin

text \<open>
  Every operation on sessions, step by step: what does not touch the table of the sessions, what is read at the start, and how each operation and each
  handler follows the transitions. The reachable worlds are those that steps lead to from empty tables.
\<close>

section \<open>What leaves the sessions alone\<close>

definition rows_are :: "((string \<times> string) \<times> pydict) list \<Rightarrow> desktop_world \<Rightarrow> bool" where
  "rows_are rows w \<longleftrightarrow> dw_sessions w = rows"

definition still :: "'a desk \<Rightarrow> bool" where
  "still m \<longleftrightarrow> (\<forall>w. dw_sessions (snd (m w)) = dw_sessions w)"

lemma still_iff: "still m \<longleftrightarrow> (\<forall>rows. preserves (rows_are rows) m)"
  by (auto simp: still_def preserves_def rows_are_def)

lemma still_tracks: "still m \<Longrightarrow> preserves (tracks late K v) m"
  by (simp add: still_def preserves_def tracks_def state_at_def)

named_theorems still_rules

lemma still_prim [still_rules]:
  "still (ret x)" "still (throw e)" "still (gets f)" "still (reads g)"
  by (simp_all add: still_def)

lemma still_modify [still_rules]: "(\<And>w. dw_sessions (f w) = dw_sessions w) \<Longrightarrow> still (modify f)"
  by (simp add: still_def)

lemma still_bindS [still_rules]: "still m \<Longrightarrow> (\<And>x. still (f x)) \<Longrightarrow> still (bindS m f)"
  unfolding still_iff by (intro allI preserves_bindS) auto

lemma still_thenS [still_rules]: "still m \<Longrightarrow> still k \<Longrightarrow> still (thenS m k)"
  unfolding thenS_def by (rule still_bindS)

lemma still_catchS [still_rules]: "still m \<Longrightarrow> (\<And>e. still (h e)) \<Longrightarrow> still (catchS m h)"
  unfolding still_iff by (intro allI preserves_catchS) auto

lemma still_if [still_rules]: "(b \<Longrightarrow> still m) \<Longrightarrow> (\<not> b \<Longrightarrow> still k) \<Longrightarrow> still (if b then m else k)"
  by simp

lemma still_option [still_rules]: "still m \<Longrightarrow> (\<And>x. still (f x)) \<Longrightarrow> still (case v of None \<Rightarrow> m | Some x \<Rightarrow> f x)"
  by (cases v) simp_all

lemma still_prod [still_rules]: "(\<And>a b. still (g a b)) \<Longrightarrow> still (case p of (a, b) \<Rightarrow> g a b)"
  by (cases p) simp

lemma still_list [still_rules]: "still m \<Longrightarrow> (\<And>y ys. still (h y ys)) \<Longrightarrow> still (case l of [] \<Rightarrow> m | y # ys \<Rightarrow> h y ys)"
  by (cases l) simp_all

lemma still_sum [still_rules]:
  "(\<And>x. still (i x)) \<Longrightarrow> (\<And>y. still (j y)) \<Longrightarrow> still (case z of Inl x \<Rightarrow> i x | Inr y \<Rightarrow> j y)"
  by (cases z) simp_all

lemma still_exc [still_rules]:
  "(\<And>s. still (f s)) \<Longrightarrow> still m \<Longrightarrow> still (case e of ClientError s \<Rightarrow> f s | _ \<Rightarrow> m)"
  by (cases e) simp_all

lemma still_forS [still_rules]: "(\<And>x. still (f x)) \<Longrightarrow> still (forS f xs)"
  unfolding still_iff by (intro allI preserves_forS) auto

lemma still_mapS [still_rules]: "(\<And>x. still (f x)) \<Longrightarrow> still (mapS f xs)"
  by (induction xs) (simp_all add: still_rules)

lemma still_tables [still_rules]:
  "still (effect e)" "still (publish ev)" "still (calls a e)" "still (session_get env ow i)" "still (server_get env i)"
  "still (server_create env r i ow)" "still (server_update env r)" "still (server_delete i)" "still (counter_get i c)"
  "still (counter_put i c n)" "still (counter_delete i c)" "still (command_create cid ty payload)" "still (command_delete o')"
  "still (submit_command s answer e ty)" "still (delete_permissions_for_session s)" "still (schedule_delete h)"
  "still (schedule_create env g)"
  unfolding effect_def publish_def calls_def session_get_def server_get_def server_create_def server_update_def server_delete_def counter_get_def
    counter_put_def counter_delete_def command_create_def command_delete_def submit_command_def delete_permissions_for_session_def
    schedule_delete_def schedule_create_def Let_def
  by (intro still_rules; simp)+

lemma still_schedules [still_rules]:
  "still (delete_schedule h)" "still (create_schedule_for_day env d g s)" "still (update_schedule_for_day env s d h h')"
  "still (delete_schedules_for_session s)"
  unfolding delete_schedules_for_session_def update_schedule_for_day_def create_schedule_for_day_def delete_schedule_def Let_def
  by (intro still_rules)+

lemma still_update_days [still_rules]: "still (update_days env s new week ds)"
  by (induction ds arbitrary: week) (simp_all add: still_rules)

lemma still_update_schedule [still_rules]: "still (update_schedule_for_session env new s)"
  unfolding update_schedule_for_session_def by (intro still_rules)

lemma still_hosts [still_rules]:
  "still (stop_or_hibernate_servers env a b)" "still (start_dcv_hosts env rs)" "still (reboot_dcv_hosts env rs)"
  "still (terminate_dcv_hosts env rs)" "still (provision_host_for_session env s)"
  unfolding stop_or_hibernate_servers_def stop_hosts_def note_stopped_def start_dcv_hosts_def reboot_dcv_hosts_def terminate_dcv_hosts_def
    provision_host_for_session_def client_answer_def Let_def
  by (intro still_rules)+

lemma still_broker [still_rules]:
  "still (describe_sessions env ss)" "still (broker_state env s)" "still (get_active_counts_for_sessions env ss)"
  "still (delete_dcv_sessions env ss)" "still (resume_session env s)" "still (state_after_stop env s)"
  unfolding describe_sessions_def broker_state_def get_active_counts_for_sessions_def delete_dcv_sessions_def resume_session_def
    state_after_stop_def Let_def
  by (intro still_rules)+

section \<open>What is read at the start\<close>

definition fresh :: "(string \<times> string) set \<Rightarrow> desktop_world \<Rightarrow> vd_session \<Rightarrow> bool" where
  "fresh K v s \<longleftrightarrow> read_from v s \<and> key_of s \<in> K"

definition names :: "(string \<times> string) set \<Rightarrow> vd_session \<Rightarrow> bool" where
  "names K req \<longleftrightarrow> key_of req \<in> K"

lemma follows_fresh:
  "fresh K v s \<Longrightarrow> vs_state s = Some st \<or> becomes late (vs_state s) (Some st) \<Longrightarrow> follows late K v (s\<lparr>vs_state := Some st\<rparr>)"
  by (auto simp: fresh_def read_from_def follows_def)

lemma follows_unchanged: "fresh K v s \<Longrightarrow> follows late K v s"
  by (simp add: fresh_def read_from_def follows_def)

lemma follows_update [simp]:
  "follows late K v (s\<lparr>vs_server := b\<rparr>) = follows late K v s" "follows late K v (s\<lparr>vs_force := c\<rparr>) = follows late K v s"
  "follows late K v (s\<lparr>vs_dcv_id := d\<rparr>) = follows late K v s" "follows late K v (s\<lparr>vs_updated := e\<rparr>) = follows late K v s"
  "follows late K v (s\<lparr>vs_connections := e\<rparr>) = follows late K v s" "follows late K v (s\<lparr>vs_schedule := f\<rparr>) = follows late K v s"
  "follows late K v (s\<lparr>vs_locked := c\<rparr>) = follows late K v s" "follows late K v (s\<lparr>vs_stack := g\<rparr>) = follows late K v s"
  "follows late K v (s\<lparr>vs_name := d\<rparr>) = follows late K v s"
  by (simp_all add: follows_def)

lemma fresh_update [simp]:
  "fresh K v (s\<lparr>vs_server := b\<rparr>) = fresh K v s" "fresh K v (s\<lparr>vs_force := c\<rparr>) = fresh K v s"
  "fresh K v (s\<lparr>vs_dcv_id := d\<rparr>) = fresh K v s" "fresh K v (s\<lparr>vs_updated := e\<rparr>) = fresh K v s"
  "fresh K v (s\<lparr>vs_connections := e\<rparr>) = fresh K v s" "fresh K v (s\<lparr>vs_schedule := f\<rparr>) = fresh K v s"
  "fresh K v (s\<lparr>vs_name := d\<rparr>) = fresh K v s" "fresh K v (s\<lparr>vs_locked := c\<rparr>) = fresh K v s" "fresh K v (s\<lparr>vs_stack := g\<rparr>) = fresh K v s"
  by (simp_all add: fresh_def read_from_def)

lemma fetch_fresh:
  assumes "sessions_ok (dw_sessions v)" "names K req"
  shows "achieves (\<lambda>w. w = v) (fetch env req) (\<lambda>s. fresh K v s \<and> key_of s = key_of req)"
  unfolding achieves_def
proof (intro allI impI)
  fix w assume w: "w = v"
  obtain r w' where get: "session_get env (vs_owner req) (vs_id req) w = (r, w')" by (cases "session_get env (vs_owner req) (vs_id req) w")
  have w': "w' = v" using get w by (auto simp: session_get_def split: if_splits)
  have read: "fresh K v s \<and> key_of s = key_of req" if "r = Inr (Some s)" for s
  proof -
    have "read_from v s" "key_of s = key_of req"
      using session_get_read [OF assms(1) get [unfolded w that]] by (simp_all only: key_of_def [of req] simp_thms)
    with assms(2) show ?thesis by (simp add: fresh_def names_def)
  qed
  show "snd (fetch env req w) = v \<and> (\<forall>x. fst (fetch env req w) = Inr x \<longrightarrow> fresh K v x \<and> key_of x = key_of req)"
  proof (cases r)
    case (Inr found)
    show ?thesis
    proof (cases found)
      case (Some s)
      with Inr have "fetch env req w = (Inr s, v)" using get w' by (simp add: fetch_def bindS_def)
      with read [OF Inr [unfolded Some]] show ?thesis by simp
    qed (use get w' Inr in \<open>simp add: fetch_def bindS_def\<close>)
  qed (use get w' in \<open>simp add: fetch_def bindS_def\<close>)
qed

lemma with_session_tracks:
  assumes "sessions_ok (dw_sessions v)" "\<And>s. fresh UNIV v s \<Longrightarrow> tracks late K v (snd (f s v))" "tracks late K v v"
  shows "tracks late K v (snd (with_session env detail f v))"
proof -
  let ?get = "session_get env (detail_str env ''idea_session_owner'' detail) (detail_str env ''idea_session_id'' detail)"
  obtain r w where get: "?get v = (r, w)" by (cases "?get v")
  have w: "w = v" using get by (auto simp: session_get_def split: if_splits)
  show ?thesis
  proof (cases r)
    case (Inr found)
    show ?thesis
    proof (cases found)
      case (Some s)
      with session_get_read [OF assms(1)] get Inr have "fresh UNIV v s" by (simp add: fresh_def)
      from assms(2) [OF this] show ?thesis using get w Inr Some by (simp add: with_session_def bindS_def)
    qed (use get w Inr assms(3) in \<open>simp add: with_session_def bindS_def\<close>)
  qed (use get w assms(3) in \<open>simp add: with_session_def bindS_def\<close>)
qed

lemma plan_all_fresh:
  assumes "sessions_ok (dw_sessions v)" "\<And>req. req \<in> set reqs \<Longrightarrow> names K req"
  shows "achieves (\<lambda>w. w = v) (plan_all env plan reqs) (\<lambda>ps. \<forall>p \<in> set ps. \<exists>req \<in> set reqs. \<exists>s. fresh K v s \<and> key_of s = key_of req \<and> p = plan req s)"
  using assms(2)
proof (induction reqs)
  case (Cons req reqs)
  show ?case unfolding plan_all.simps
  proof (rule achieves_bindS)
    show "achieves (\<lambda>w. w = v) (fetch env req) (\<lambda>s. fresh K v s \<and> key_of s = key_of req)" using fetch_fresh [OF assms(1)] Cons.prems by simp
    fix s assume s: "fresh K v s \<and> key_of s = key_of req"
    have "achieves (\<lambda>w. w = v) (plan_all env plan reqs) (\<lambda>ps. \<forall>p \<in> set ps. \<exists>req \<in> set reqs. \<exists>s. fresh K v s \<and> key_of s = key_of req \<and> p = plan req s)"
      using Cons by simp
    then show "achieves (\<lambda>w. w = v) (bindS (plan_all env plan reqs) (\<lambda>ps. ret (plan req s # ps)))
        (\<lambda>ps. \<forall>p \<in> set ps. \<exists>req \<in> set (req # reqs). \<exists>s. fresh K v s \<and> key_of s = key_of req \<and> p = plan req s)"
      by (rule achieves_bindS) (rule achieves_ret, use s in auto)
  qed
qed (simp add: achieves_def)

section \<open>What is written\<close>

lemma update_tracks: "follows late K v s \<Longrightarrow> preserves (tracks late K v) (session_update env s)"
  unfolding preserves_achieves by (rule achieves_weaken [OF session_update_tracks]) simp_all

lemma update_unit_tracks: "follows late K v s \<Longrightarrow> preserves (tracks late K v) (thenS (session_update env s) (ret ()))"
  by (intro preserves_thenS update_tracks preserves_prim)

lemma move_tracks: "follows late K v (s\<lparr>vs_state := Some st\<rparr>) \<Longrightarrow> preserves (tracks late K v) (move_session env s st)"
  unfolding move_session_def by (rule update_unit_tracks)

lemma preserves_mapS: "(\<And>x. x \<in> set xs \<Longrightarrow> preserves P (f x)) \<Longrightarrow> preserves P (mapS f xs)"
  by (induction xs) (auto intro!: preserves_bindS preserves_prim)

lemma delete_tracks:
  assumes "named s" "key_of s \<in> K"
  shows "preserves (tracks late K v) (session_delete env s)"
proof -
  have key: "session_key s = Inr (key_of s)" using assms(1) by (cases "key_of s") (simp add: session_key_def named_def)
  have gone: "map_of (remove_key k rows) k' = (if k' = k then None else map_of rows k')" for k k' :: "string \<times> string" and rows :: "((string \<times> string) \<times> pydict) list"
    by (induction rows) (auto simp: remove_key_def)
  have "tracks late K v (w\<lparr>dw_sessions := remove_key (key_of s) (dw_sessions w)\<rparr>)" (is "tracks _ _ _ ?w") if w: "tracks late K v w" for w
    unfolding tracks_def
  proof (intro conjI allI impI)
    show "sessions_ok (dw_sessions ?w)" using w by (auto simp: tracks_def sessions_ok_def gone)
    fix k
    show "map_of (dw_sessions ?w) k = map_of (dw_sessions v) k" if "k \<notin> K"
    proof -
      from that assms(2) have "k \<noteq> key_of s" by blast
      then have "map_of (dw_sessions ?w) k = map_of (dw_sessions w) k" by (simp add: gone)
      with that w show ?thesis unfolding tracks_def by metis
    qed
    have "state_at ?w k = (if k = key_of s then None else state_at w k)" by (simp add: state_at_def gone)
    moreover have "None = state_at v k \<or> becomes late (state_at v k) None" by (cases "state_at v k") simp_all
    ultimately show "state_at ?w k = state_at v k \<or> becomes late (state_at v k) (state_at ?w k)"
      using w unfolding tracks_def by (cases "k = key_of s") metis+
  qed
  then have "preserves (tracks late K v) (modify (\<lambda>w. w\<lparr>dw_sessions := remove_key (key_of s) (dw_sessions w)\<rparr>))"
    by (intro preserves_modify)
  then show ?thesis unfolding session_delete_def key
    by (auto simp: preserves_def bindS_def thenS_def split: sum.splits)
qed

lemma session_map_mem: "map_of (session_map ss) i = Some s \<Longrightarrow> s \<in> set ss"
proof -
  have "map_of (fold (\<lambda>s m. assign_key (vs_dcv_id s) s m) ss m) i = Some s \<Longrightarrow> s \<in> set ss \<or> map_of m i = Some s" for m
  proof (induction ss arbitrary: m)
    case (Cons a ss)
    from Cons.IH [of "assign_key (vs_dcv_id a) a m"] Cons.prems show ?case by (auto split: if_splits)
  qed simp
  then show "map_of (session_map ss) i = Some s \<Longrightarrow> s \<in> set ss" by (fastforce simp: session_map_def)
qed

lemma note_deleted_tracks:
  assumes "\<And>s. s \<in> set ss \<Longrightarrow> follows late K v (s\<lparr>vs_state := Some st\<rparr>)"
  shows "preserves (tracks late K v) (note_deleted env st (session_map ss) i)"
  unfolding note_deleted_def
proof (rule preserves_reads)
  fix s w assume "required KeyError (map_of (session_map ss) i) = Inr s"
  then have "s \<in> set ss" by (simp add: session_map_mem)
  with assms show "preserves (tracks late K v) (bindS (session_update env (s\<lparr>vs_state := Some st\<rparr>))
      (\<lambda>s'. thenS (publish (ValidateDeletion (vs_id s') (vs_owner s'))) (ret s')))"
    by (intro preserves_bindS update_tracks still_tracks still_rules)
qed

lemma counted_mem: "s \<in> set (count_connections counts ss) \<Longrightarrow> \<exists>s' \<in> set ss. \<exists>n. s = s'\<lparr>vs_connections := n\<rparr>"
  by (induction ss) (auto simp del: if_split_asm)

lemma counts_return:
  "achieves (tracks late K v) (get_active_counts_for_sessions env ss) (\<lambda>counted. \<forall>s \<in> set counted. \<exists>s' \<in> set ss. \<exists>n. s = s'\<lparr>vs_connections := n\<rparr>)"
proof (cases "ss = []")
  case False
  let ?Q = "\<lambda>counted. \<forall>s \<in> set counted. \<exists>s' \<in> set ss. \<exists>n. s = s'\<lparr>vs_connections := n\<rparr>"
  have "achieves (tracks late K v) (bindS (describe_sessions env ss) (\<lambda>answer. bindS (reads (\<lambda>_. f answer)) (\<lambda>counts. ret (count_connections counts ss)))) ?Q"
    for f
    by (intro achieves_bindS [where Q = "\<lambda>_. True"] achieves_ret still_tracks [unfolded preserves_achieves] still_rules ballI counted_mem)
  with False show ?thesis by (simp add: get_active_counts_for_sessions_def)
qed (simp add: get_active_counts_for_sessions_def achieves_def)

section \<open>Operations\<close>

text \<open>From the start, when the table is as it was, to what is written.\<close>

lemma start_tracks:
  assumes "achieves (\<lambda>w. w = v) m Q" "\<And>x. Q x \<Longrightarrow> preserves (tracks late K v) (f x)" "sessions_ok (dw_sessions v)"
  shows "tracks late K v (snd (bindS m f v))"
  using assms(1,2) tracks_refl [OF assms(3)] by (rule start_bindS)

lemma planned_stop:
  assumes "\<forall>p \<in> set ps. \<exists>req \<in> set reqs. \<exists>s. fresh K v s \<and> key_of s = key_of req \<and> p = plan_stop req s" "\<forall>req \<in> set reqs. late \<or> \<not> is_forced req \<or> state_at v (key_of req) \<in> {Some VS_READY, Some VS_RESUMING}"
    "s \<in> set (at_broker ps) \<or> s \<in> set (without_dcv ps)"
  shows "follows late K v (s\<lparr>vs_state := Some VS_STOPPING\<rparr>)"
proof -
  from assms(3) have "AtBroker s \<in> set ps \<or> WithoutDcv s \<in> set ps"
    by (auto simp: at_broker_def without_dcv_def map_filter_def split: stop_plan.splits)
  with assms(1) obtain req s0 where "req \<in> set reqs" "fresh K v s0" "key_of s0 = key_of req"
    "plan_stop req s0 = AtBroker s \<or> plan_stop req s0 = WithoutDcv s" by metis
  moreover from this(2) have "state_at v (key_of s0) = vs_state s0" by (simp add: fresh_def read_from_def)
  ultimately have "fresh K v s" "late \<or> vs_state s \<in> {Some VS_READY, Some VS_RESUMING}"
    using assms(2) by (auto simp: plan_stop_def split: if_splits)
  moreover from this(1) obtain a where "vs_state s = Some a" by (auto simp: fresh_def read_from_def)
  ultimately show ?thesis by (intro follows_fresh) auto
qed

theorem stop_sessions_tracks:
  assumes "sessions_ok (dw_sessions v)" "\<And>req. req \<in> set reqs \<Longrightarrow> names K req" "\<forall>req \<in> set reqs. late \<or> \<not> is_forced req \<or> state_at v (key_of req) \<in> {Some VS_READY, Some VS_RESUMING}"
  shows "tracks late K v (snd (stop_sessions env reqs v))"
  unfolding stop_sessions_def Let_def
proof (rule start_tracks [OF plan_all_fresh [OF assms(1,2)] _ assms(1)])
  fix ps assume ps: "\<forall>p \<in> set ps. \<exists>req \<in> set reqs. \<exists>s. fresh K v s \<and> key_of s = key_of req \<and> p = plan_stop req s"
  note stopping = planned_stop [OF ps assms(3)]
  show "preserves (tracks late K v) (bindS (delete_dcv_sessions env (at_broker ps)) (\<lambda>(deleted, errors).
     bindS (mapS (note_deleted env VS_STOPPING (session_map (at_broker ps))) deleted) (\<lambda>stopping.
     bindS (mapS (\<lambda>s. session_update env (s\<lparr>vs_state := Some VS_STOPPING\<rparr>)) (without_dcv ps)) (\<lambda>hostless.
     bindS (reads (\<lambda>_. failed_deletions (session_map (at_broker ps)) errors)) (\<lambda>failed.
     thenS (stop_or_hibernate_servers env (map vs_server (filter (\<lambda>s. vs_hibernation s \<noteq> Some True) (without_dcv ps)))
              (map vs_server (filter (\<lambda>s. vs_hibernation s = Some True) (without_dcv ps))))
       (ret (stopping @ hostless, refused ps @ failed)))))))"
    by (intro preserves_bindS preserves_case_prod preserves_mapS note_deleted_tracks update_tracks stopping disjI1 disjI2
        still_tracks still_rules) assumption+
qed auto

lemma planned_terminate:
  assumes "\<forall>p \<in> set ps. \<exists>req \<in> set reqs. \<exists>s. fresh K v s \<and> key_of s = key_of req \<and> p = plan_terminate req s"
  shows "s \<in> set (at_broker ps) \<Longrightarrow> follows late K v (s\<lparr>vs_state := Some VS_DELETING\<rparr>)"
    "s \<in> set (without_dcv ps) \<Longrightarrow> named s \<and> key_of s \<in> K"
proof -
  assume "s \<in> set (at_broker ps)"
  then have "AtBroker s \<in> set ps" by (auto simp: at_broker_def map_filter_def split: stop_plan.splits)
  with assms obtain req s0 where s0: "fresh K v s0" "plan_terminate req s0 = AtBroker s" by metis
  then have "fresh K v s" "vs_state s \<noteq> Some VS_STOPPED" by (auto simp: plan_terminate_def split: if_splits)
  moreover from this(1) obtain a where "vs_state s = Some a" by (auto simp: fresh_def read_from_def)
  ultimately show "follows late K v (s\<lparr>vs_state := Some VS_DELETING\<rparr>)" by (intro follows_fresh) auto
next
  assume "s \<in> set (without_dcv ps)"
  then have "WithoutDcv s \<in> set ps" by (auto simp: without_dcv_def map_filter_def split: stop_plan.splits)
  with assms obtain req s0 where "fresh K v s0" "plan_terminate req s0 = WithoutDcv s" by metis
  then show "named s \<and> key_of s \<in> K" by (auto simp: plan_terminate_def fresh_def read_from_def split: if_splits)
qed

lemma forget_tracks: "named s \<Longrightarrow> key_of s \<in> K \<Longrightarrow> preserves (tracks late K v) (forget_session env s)"
  unfolding forget_session_def by (intro preserves_thenS delete_tracks still_tracks still_rules)

theorem terminate_sessions_tracks:
  assumes "sessions_ok (dw_sessions v)" "\<And>req. req \<in> set reqs \<Longrightarrow> names K req"
  shows "tracks late K v (snd (terminate_sessions env reqs v))"
  unfolding terminate_sessions_def Let_def
proof (rule start_tracks [OF plan_all_fresh [OF assms(1,2)] _ assms(1)])
  fix ps assume "\<forall>p \<in> set ps. \<exists>req \<in> set reqs. \<exists>s. fresh K v s \<and> key_of s = key_of req \<and> p = plan_terminate req s"
  note planned = planned_terminate [OF this]
  show "preserves (tracks late K v) (bindS (delete_dcv_sessions env (at_broker ps)) (\<lambda>(deleted, errors).
     bindS (mapS (note_deleted env VS_DELETING (session_map (at_broker ps))) deleted) (\<lambda>deleting.
     thenS (terminate_dcv_hosts env (filter (\<lambda>r. r \<noteq> None) (map vs_server (without_dcv ps))))
     (bindS (mapS (forget_session env) (without_dcv ps)) (\<lambda>forgotten.
      bindS (reads (\<lambda>_. failed_deletions (session_map (at_broker ps)) errors)) (\<lambda>failed. ret (deleting @ forgotten, failed)))))))"
    by (intro preserves_bindS preserves_thenS preserves_case_prod preserves_mapS note_deleted_tracks forget_tracks planned(1)
        planned(2) [THEN conjunct1] planned(2) [THEN conjunct2] still_tracks still_rules) assumption+
qed auto

lemma zip_map_mem: "map_of (fold (\<lambda>(r, s). assign_key (vr_instance_id r) s) (zip rs ss) []) i = Some s \<Longrightarrow> s \<in> set ss"
proof -
  have "map_of (fold (\<lambda>(r, s). assign_key (vr_instance_id r) s) kvs m) i = Some s \<Longrightarrow> s \<in> snd ` set kvs \<or> map_of m i = Some s" for kvs m
  proof (induction kvs arbitrary: m)
    case (Cons kv kvs)
    from Cons.IH [of "assign_key (vr_instance_id (fst kv)) (snd kv) m"] Cons.prems show ?case by (auto split: if_splits prod.splits)
  qed simp
  from this [of "zip rs ss" "[]"] show "map_of (fold (\<lambda>(r, s). assign_key (vr_instance_id r) s) (zip rs ss) []) i = Some s \<Longrightarrow> s \<in> set ss"
    by (auto dest: set_zip_rightD)
qed

lemma note_resumed_tracks:
  assumes "\<And>i s. map_of m i = Some s \<Longrightarrow> follows late K v (s\<lparr>vs_state := Some VS_RESUMING\<rparr>)"
  shows "preserves (tracks late K v) (note_resumed env m r)"
  unfolding note_resumed_def by (rule preserves_reads) (simp add: update_tracks assms)

theorem resume_sessions_tracks:
  assumes "sessions_ok (dw_sessions v)" "\<And>req. req \<in> set reqs \<Longrightarrow> names K req"
  shows "tracks late K v (snd (resume_sessions env reqs v))"
  unfolding resume_sessions_def Let_def resume_plan_def
proof (rule start_tracks [OF achieves_mapS _ assms(1)])
  show "achieves (\<lambda>w. w = v) (fetch env req) (fresh K v)" if "req \<in> set reqs" for req
    by (rule achieves_weaken [OF fetch_fresh [OF assms(1) assms(2) [OF that]]]) simp
  fix ss assume ss: "\<forall>s \<in> set ss. fresh K v s"
  let ?stopped = "filter (\<lambda>s. vs_state s = Some VS_STOPPED) ss"
  have resumed: "follows late K v (s\<lparr>vs_state := Some VS_RESUMING\<rparr>)"
    if "map_of (fold (\<lambda>(r, s). assign_key (vr_instance_id r) s) (zip rs ?stopped) []) i = Some s" for rs i s
    using zip_map_mem [OF that] ss by (auto intro: follows_fresh)
  show "preserves (tracks late K v) (bindS (reads (\<lambda>_. traverseE (\<lambda>s. required AttributeError (vs_server s)) ?stopped)) (\<lambda>rs.
     bindS (start_dcv_hosts env (map Some rs)) (\<lambda>answer.
       if ''ERROR'' \<in> fst ` set answer
       then bindS (reads (\<lambda>_. traverseE (\<lambda>r. required KeyError
              (map_of (fold (\<lambda>(r, s). assign_key (vr_instance_id r) s) (zip rs ?stopped) []) (vr_instance_id r))) rs)) (\<lambda>fs.
              ret ([], map fail_session (filter (\<lambda>s. vs_state s \<noteq> Some VS_STOPPED) ss) @
                map (\<lambda>s. s\<lparr>vs_failure := get_value_as_string (de_fmt env) ''ERROR'' answer (Some ''error'')\<rparr>) fs))
       else bindS (mapS (note_resumed env (fold (\<lambda>(r, s). assign_key (vr_instance_id r) s) (zip rs ?stopped) [])) rs)
              (\<lambda>resumed. ret (resumed, map fail_session (filter (\<lambda>s. vs_state s \<noteq> Some VS_STOPPED) ss))))))"
    by (intro preserves_bindS preserves_if preserves_mapS note_resumed_tracks still_tracks still_rules) (rule resumed)
qed

theorem reboot_sessions_tracks:
  assumes "sessions_ok (dw_sessions v)" "\<And>req. req \<in> set reqs \<Longrightarrow> names K req"
  shows "tracks late K v (snd (reboot_sessions env reqs v))"
  unfolding reboot_sessions_def Let_def
proof (rule start_tracks [OF achieves_mapS _ assms(1)])
  show "achieves (\<lambda>w. w = v) (bindS (fetch env req) (\<lambda>s. ret (req, s))) (\<lambda>(_, s). fresh K v s)" if "req \<in> set reqs" for req
    by (rule achieves_bindS [OF fetch_fresh [OF assms(1) assms(2) [OF that]]]) (simp add: achieves_ret)
  fix pairs :: "(vd_session \<times> vd_session) list" assume pairs: "\<forall>y \<in> set pairs. case y of (_, s) \<Rightarrow> fresh K v s"
  let ?ss = "map (\<lambda>(req, s). s\<lparr>vs_force := vs_force req\<rparr>) (filter (\<lambda>(_, s). vs_state s \<in> {Some VS_READY, Some VS_ERROR}) pairs)"
  have fit: "follows late K v (s\<lparr>vs_state := Some VS_RESUMING\<rparr>)" if "s \<in> set ?ss" for s
  proof -
    from that obtain req s0 where "(req, s0) \<in> set pairs" "vs_state s0 \<in> {Some VS_READY, Some VS_ERROR}" "s = s0\<lparr>vs_force := vs_force req\<rparr>" by auto
    with pairs show ?thesis by (intro follows_fresh) auto
  qed
  let ?go = "\<lambda>counted. filter is_forced ?ss @ filter (\<lambda>s. \<not> 0 < opt_or (vs_connections s) 0) counted"
  have "preserves (tracks late K v) (bindS (reads (\<lambda>_. if None \<in> vs_connections ` set counted then Inl TypeError else Inr ())) (\<lambda>_.
     bindS (mapS (\<lambda>s. session_update env (s\<lparr>vs_state := Some VS_RESUMING\<rparr>)) (?go counted)) (\<lambda>rebooted.
     thenS (reboot_dcv_hosts env (map vs_server rebooted)) (ret (rebooted, f counted)))))"
    if counted: "\<forall>s \<in> set counted. \<exists>s' \<in> set (filter (\<lambda>s. \<not> is_forced s) ?ss). \<exists>n. s = s'\<lparr>vs_connections := n\<rparr>" for counted and f :: "_ \<Rightarrow> vd_session list"
  proof -
    have "follows late K v (s\<lparr>vs_state := Some VS_RESUMING\<rparr>)" if "s \<in> set (?go counted)" for s
    proof (cases "s \<in> set counted")
      case True
      with counted obtain s' n where "s' \<in> set ?ss" "s = s'\<lparr>vs_connections := n\<rparr>" by fastforce
      with fit [of s'] show ?thesis by (simp add: follows_def)
    next
      case False
      with that have "s \<in> set ?ss" by simp
      then show ?thesis by (rule fit)
    qed
    then show ?thesis by (intro preserves_bindS preserves_thenS preserves_mapS update_tracks still_tracks still_rules) blast
  qed
  note rest = this
  show "preserves (tracks late K v) (bindS (get_active_counts_for_sessions env (filter (\<lambda>s. \<not> is_forced s) ?ss)) (\<lambda>counted.
     bindS (reads (\<lambda>_. if None \<in> vs_connections ` set counted then Inl TypeError else Inr ())) (\<lambda>_.
     bindS (mapS (\<lambda>s. session_update env (s\<lparr>vs_state := Some VS_RESUMING\<rparr>)) (?go counted)) (\<lambda>rebooted.
     thenS (reboot_dcv_hosts env (map vs_server rebooted))
       (ret (rebooted, map (fail_session \<circ> snd) (filter (\<lambda>(_, s). vs_state s \<notin> {Some VS_READY, Some VS_ERROR}) pairs) @
          map fail_session (filter (\<lambda>s. 0 < opt_or (vs_connections s) 0) counted)))))))"
    unfolding preserves_achieves
    by (rule achieves_bindS [OF counts_return]) (rule rest [unfolded preserves_achieves])
qed

text \<open>A session is created under a name that is new.\<close>

theorem session_create_tracks:
  assumes "tracks late K v w" "named s" "key_of s \<in> K" "state_at v (key_of s) = None" "vs_state s = Some VS_PROVISIONING"
  shows "tracks late K v (snd (session_create env s w))"
proof (cases "session_to_item s")
  case (Inr item)
  let ?d = "assign_key ''updated_on'' (PInt (now_ms env)) (assign_key ''created_on'' (PInt (now_ms env)) item)"
  have key: "session_key s = Inr (key_of s)" using assms(2) by (cases "key_of s") (simp add: session_key_def named_def)
  note item = session_item [OF Inr]
  have state: "map_of ?d ''state'' = Some (PStr (state_str VS_PROVISIONING))" using item assms(5) by (simp add: str_val_def)
  have "row_ok (key_of s, ?d)" using assms(2) item by (intro row_okI [OF _ _ _ _ state]) (simp_all add: named_def str_val_def)
  with assms state have "tracks late K v (w\<lparr>dw_sessions := assign_key (key_of s) ?d (dw_sessions w)\<rparr>)"
    by (intro tracks_put) (simp_all del: map_of_assign_key)
  then show ?thesis by (simp add: session_create_def bindS_def thenS_def Inr key Let_def)
qed (simp add: session_create_def bindS_def assms(1))

theorem create_session_tracks:
  assumes "sessions_ok (dw_sessions v)" "named s" "key_of s \<in> K" "state_at v (key_of s) = None"
  shows "tracks late K v (snd (create_session env s v))"
proof -
  let ?P = "tracks late K v"
  have update: "achieves ?P (update_schedule_for_session env week (s\<lparr>vs_server := r\<rparr>)) (\<lambda>s'. named s' \<and> key_of s' = key_of s)" for week r
    unfolding update_schedule_for_session_def
    by (rule achieves_bindS [where Q = "\<lambda>_. True"]) (auto intro: achieves_ret still_tracks [unfolded preserves_achieves] still_rules simp: assms(2))
  have new: "achieves ?P (bindS (update_schedule_for_session env week (s\<lparr>vs_server := r\<rparr>)) (\<lambda>s'. session_create env (s'\<lparr>vs_state := Some VS_PROVISIONING\<rparr>))) (\<lambda>_. True)" for week r
    by (rule achieves_bindS [OF update]) (use session_create_tracks assms(3,4) in \<open>auto simp: achieves_def\<close>)
  have "preserves ?P (create_session env s)"
    unfolding create_session_def
    by (intro preserves_bindS preserves_catchS preserves_prim still_tracks [OF still_hosts(5)])
      (auto split: sum.split option.split intro!: preserves_bindS preserves_prim new [unfolded preserves_achieves [symmetric]])
  then show ?thesis using tracks_refl [OF assms(1)] by (simp add: preserves_def)
qed

end
