(* ===== verification/Desktop_Reach.thy ===== *)
theory Desktop_Reach
  imports Desktop_Steps
begin

text \<open>
  The handlers of events and the requests follow the transitions, and with them every step from the empty tables on.
\<close>

section \<open>Handlers\<close>

lemma run_preserves: "preserves (tracks late K v) m \<Longrightarrow> sessions_ok (dw_sessions v) \<Longrightarrow> tracks late K v (snd (m v))"
  using tracks_refl by (auto simp: preserves_def)

lemma from_controller_tracks:
  "sessions_ok (dw_sessions v) \<Longrightarrow> tracks late K v (snd (m v)) \<Longrightarrow> tracks late K v (snd (from_controller env sender m v))"
  by (simp add: from_controller_def tracks_refl)

lemma with_named_tracks:
  assumes "sessions_ok (dw_sessions v)" "\<And>s. fresh UNIV v s \<Longrightarrow> tracks late K v (snd (f s v))"
  shows "tracks late K v (snd (with_named_session env detail f v))"
  using with_session_tracks [of v late K f env detail] assms tracks_refl [OF assms(1)] by (simp add: with_named_session_def)

lemma with_named_preserves:
  assumes "sessions_ok (dw_sessions v)" "\<And>s. fresh UNIV v s \<Longrightarrow> preserves (tracks late K v) (f s)"
  shows "tracks late K v (snd (with_named_session env detail f v))"
  using assms by (intro with_named_tracks run_preserves)

lemma unless_throws:
  "sessions_ok (dw_sessions v) \<Longrightarrow> tracks late K v (snd (m v)) \<Longrightarrow> tracks late K v (snd ((if b then throw e else m) v))"
  by (simp add: tracks_refl)

lemma retry_tracks: "tracks late K v (snd (m v)) \<Longrightarrow> tracks late K v (snd (retry_on_failure m v))"
  by (cases "m v"; cases "fst (m v)") (auto simp: retry_on_failure_def bindS_def)

lemma fresh_state: "fresh K v s \<Longrightarrow> (\<And>a. vs_state s = Some a \<Longrightarrow> thesis) \<Longrightarrow> thesis"
  by (auto simp: fresh_def read_from_def)

lemma follows_state: "fresh K v s \<Longrightarrow> vs_state s = Some a \<Longrightarrow> a = st \<or> becomes late (Some a) (Some st) \<Longrightarrow> follows late K v (s\<lparr>vs_state := Some st\<rparr>)"
  by (auto intro: follows_fresh)

lemma late_goes: "fresh K v s \<Longrightarrow> st = VS_INITIALIZING \<or> st = VS_ERROR \<Longrightarrow> follows True K v (s\<lparr>vs_state := Some st\<rparr>)"
proof -
  assume s: "fresh K v s" "st = VS_INITIALIZING \<or> st = VS_ERROR"
  from s(1) obtain a where "vs_state s = Some a" by (rule fresh_state)
  with s show ?thesis by (intro follows_fresh) auto
qed

lemma preserves_after: "achieves P m Q \<Longrightarrow> (\<And>x. Q x \<Longrightarrow> preserves P (f x)) \<Longrightarrow> preserves P (bindS m f)"
  unfolding preserves_achieves by (rule achieves_bindS)

lemma handle_stopping_tracks:
  assumes "sessions_ok (dw_sessions v)"
  shows "tracks late UNIV v (snd (handle_stopping_event env detail v))"
  unfolding handle_stopping_event_def
proof (rule with_session_tracks [OF assms run_preserves [OF _ assms] tracks_refl [OF assms]])
  fix s assume s: "fresh UNIV v s"
  then obtain a where a: "vs_state s = Some a" by (rule fresh_state)
  note goes = follows_state [OF s a]
  show "preserves (tracks late UNIV v)
     (if vs_state s \<in> {Some VS_STOPPED, Some VS_DELETING, Some VS_DELETED, Some VS_ERROR} then ret ()
     else if vs_state s \<in> {Some VS_PROVISIONING, Some VS_CREATING, Some VS_INITIALIZING, Some VS_RESUMING}
     then thenS (session_update env (s\<lparr>vs_state := Some VS_ERROR\<rparr>)) (ret ())
     else bindS (server_get env (detail_str env ''instance_id'' detail)) (\<lambda>found.
          bindS (reads (\<lambda>_. required AttributeError found)) (\<lambda>r.
          if detail_str env ''state'' detail = Some ''stopping''
          then thenS (session_update env (s\<lparr>vs_state := Some VS_STOPPING\<rparr>)) (ret ())
          else thenS (server_update env (r\<lparr>vr_state := Some ''STOPPED''\<rparr>))
                 (thenS (session_update env (s\<lparr>vs_state := Some VS_STOPPED\<rparr>)) (ret ())))))"
    by (intro preserves_if preserves_bindS preserves_thenS update_tracks goes preserves_prim still_tracks [OF still_tables(5)]
        still_tracks [OF still_tables(7)]) (cases a; use a in simp)+
qed

lemma handle_host_state_tracks:
  assumes "sessions_ok (dw_sessions v)"
  shows "tracks late UNIV v (snd (handle_host_state env sender detail v))"
proof -
  have "still (handle_running_event env detail)"
    unfolding handle_running_event_def with_session_def by (intro still_rules)
  then have "preserves (tracks late UNIV v) (handle_running_event env detail)" by (rule still_tracks)
  then show ?thesis unfolding handle_host_state_def
    by (intro from_controller_tracks assms)
      (use handle_stopping_tracks [OF assms] tracks_refl [OF assms] in \<open>auto simp: preserves_def\<close>)
qed

lemma create_at_broker_tracks:
  assumes "follows late K v (s\<lparr>vs_state := Some VS_CREATING\<rparr>)" "follows late K v (s\<lparr>vs_state := Some VS_INITIALIZING\<rparr>)"
    "follows late K v (s\<lparr>vs_state := Some VS_ERROR\<rparr>)"
  shows "preserves (tracks late K v) (create_at_broker env s)"
proof -
  have "follows late K v (s\<lparr>vs_state := Some st, vs_dcv_id := d\<rparr>)" if "follows late K v (s\<lparr>vs_state := Some st\<rparr>)" for st d
    using that by simp
  with assms show ?thesis unfolding create_at_broker_def
    by (intro preserves_bindS preserves_if preserves_thenS update_tracks) (auto intro: still_tracks still_rules)
qed

lemma handle_host_ready_tracks:
  assumes "sessions_ok (dw_sessions v)"
  shows "tracks late UNIV v (snd (handle_host_ready env sender detail v))"
proof -
  let ?P = "tracks late UNIV v"
  have "preserves ?P (bindS (reads (\<lambda>_. required AttributeError (vs_server s))) (\<lambda>r.
        if vr_instance_id r \<noteq> instance_of_sender sender then throw bad_source
        else if vs_state s \<notin> {Some VS_PROVISIONING, Some VS_CREATING, Some VS_RESUMING} then ret ()
        else bindS (if vs_state s = Some VS_RESUMING then session_update env (s\<lparr>vs_state := Some VS_CREATING\<rparr>) else ret s) (\<lambda>s1.
             bindS (create_at_broker env s1) (\<lambda>s2.
               if vs_state s2 = Some VS_CREATING then throw do_not_delete else ret ()))))" if s: "fresh UNIV v s" for s
  proof -
    from s obtain a where a: "vs_state s = Some a" by (rule fresh_state)
    have "achieves ?P (bindS (if vs_state s = Some VS_RESUMING then session_update env (s\<lparr>vs_state := Some VS_CREATING\<rparr>) else ret s) (\<lambda>s1.
             bindS (create_at_broker env s1) (\<lambda>s2. if vs_state s2 = Some VS_CREATING then throw do_not_delete else ret ()))) (\<lambda>_. True)"
      if "vs_state s \<in> {Some VS_PROVISIONING, Some VS_CREATING, Some VS_RESUMING}"
    proof (rule achieves_bindS [where Q = "\<lambda>s1. named s1 \<and> key_of s1 = key_of s"])
      show "achieves ?P (if vs_state s = Some VS_RESUMING then session_update env (s\<lparr>vs_state := Some VS_CREATING\<rparr>) else ret s)
          (\<lambda>s1. named s1 \<and> key_of s1 = key_of s)"
        using s follows_fresh [OF s, of VS_CREATING] achieves_weaken [OF session_update_tracks [of late UNIV v "s\<lparr>vs_state := Some VS_CREATING\<rparr>" env]]
        by (auto simp: same_as_def fresh_def read_from_def intro: achieves_ret)
      fix s1 assume "named s1 \<and> key_of s1 = key_of s"
      then have "follows late UNIV v (s1\<lparr>vs_state := Some st\<rparr>)" if "st \<in> {VS_CREATING, VS_INITIALIZING, VS_ERROR}" for st
        using s that \<open>vs_state s \<in> _\<close> by (auto simp: follows_def fresh_def read_from_def)
      then show "achieves ?P (bindS (create_at_broker env s1) (\<lambda>s2. if vs_state s2 = Some VS_CREATING then throw do_not_delete else ret ())) (\<lambda>_. True)"
        unfolding preserves_achieves [symmetric]
        by (intro preserves_bindS preserves_if preserves_prim create_at_broker_tracks) simp_all
    qed
    note go = this [unfolded preserves_achieves [symmetric]]
    show ?thesis by (rule preserves_reads, intro preserves_if preserves_prim go) simp
  qed
  then show ?thesis unfolding handle_host_ready_def
    by (intro unless_throws with_named_preserves assms)
qed

lemma resume_session_returns:
  "achieves (rows_are rows) (resume_session env s) (\<lambda>s1. vs_state s1 = Some VS_RESUMING \<or> vs_failure s1 = Some ''not ready'')"
proof -
  have "vs_state s1 = Some VS_RESUMING \<or> vs_failure s1 = Some ''not ready''" if "fst (resume_session env s w) = Inr s1" for w s1
  proof -
    have "\<exists>w'. resume_session env s w = (Inr s1, w')" using that by (cases "resume_session env s w") simp
    then show ?thesis
      by (auto simp: resume_session_def catchS_def bindS_def thenS_def split: prod.splits sum.splits exc.splits)
  qed
  with still_broker(5) [of env s] show ?thesis by (auto simp: achieves_def still_iff preserves_def)
qed

text \<open>The handler of a reboot never writes the session: what it resumed says already that it is resuming.\<close>

lemma resume_after_reboot_still [still_rules]: "still (resume_after_reboot env s)"
  unfolding still_iff preserves_achieves resume_after_reboot_def
proof (intro allI, rule achieves_bindS [OF resume_session_returns])
  fix rows
  fix s1 :: vd_session assume s1: "vs_state s1 = Some VS_RESUMING \<or> vs_failure s1 = Some ''not ready''"
  have n: "\<not> is_empty_opt_str (Some ''not ready'')" by code_simp
  let ?rest = "\<lambda>s2. bindS (reads (\<lambda>_. required AttributeError (vs_server s2))) (\<lambda>r0.
            bindS (server_get env (vr_instance_id r0)) (\<lambda>found.
            bindS (reads (\<lambda>_. required AttributeError found)) (\<lambda>r.
              if vr_state r \<noteq> Some ''CREATED'' then server_update env (r\<lparr>vr_state := Some ''CREATED''\<rparr>) else ret ())))"
  have rest: "preserves (rows_are rows) (?rest s1)" by (rule still_iff [THEN iffD1, rule_format]) (intro still_rules)
  have "preserves (rows_are rows) (if \<not> is_empty_opt_str (vs_failure s1) then throw do_not_delete
       else bindS (if vs_state s1 \<noteq> Some VS_RESUMING then session_update env (s1\<lparr>vs_state := Some VS_RESUMING\<rparr>) else ret s1) ?rest)"
  proof (cases "is_empty_opt_str (vs_failure s1)")
    case True
    with s1 n have "vs_state s1 = Some VS_RESUMING" by auto
    moreover have "bindS (ret s1) ?rest = ?rest s1" by (simp add: fun_eq_iff bindS_def)
    ultimately show ?thesis using True rest by (simp only: simp_thms if_False)
  qed (simp add: preserves_prim)
  then show "achieves (rows_are rows) (if \<not> is_empty_opt_str (vs_failure s1) then throw do_not_delete
       else bindS (if vs_state s1 \<noteq> Some VS_RESUMING then session_update env (s1\<lparr>vs_state := Some VS_RESUMING\<rparr>) else ret s1) ?rest) (\<lambda>_. True)"
    by (simp only: preserves_achieves)
qed

lemma handle_reboot_complete_tracks:
  assumes "sessions_ok (dw_sessions v)"
  shows "tracks late UNIV v (snd (handle_reboot_complete env sender detail v))"
  unfolding handle_reboot_complete_def
  by (rule unless_throws [OF assms], rule with_named_preserves [OF assms],
      intro preserves_bindS preserves_thenS preserves_if still_tracks [OF resume_after_reboot_still] update_tracks preserves_prim
        still_tracks [OF still_tables(9)] still_tracks [OF still_tables(10)] still_tracks [OF still_tables(11)] still_tracks [OF still_broker(2)],
      rule follows_fresh, assumption, simp)

lemma validate_creation_tracks:
  assumes "sessions_ok (dw_sessions v)"
  shows "tracks late UNIV v (snd (handle_validate_creation env sender detail v))"
  unfolding handle_validate_creation_def
proof (rule from_controller_tracks [OF assms], rule with_named_preserves [OF assms])
  fix s assume s: "fresh UNIV v s"
  then obtain a where a: "vs_state s = Some a" by (rule fresh_state)
  note goes = follows_state [OF s a]
  show "preserves (tracks late UNIV v) (bindS (counter_get (vs_id s) VALIDATE_CREATED) (\<lambda>n.
       if vs_state s \<in> {Some VS_DELETING, Some VS_DELETED} then counter_delete (vs_id s) VALIDATE_CREATED
       else bindS (broker_state env s) (\<lambda>state.
         if state = Some ''READY'' then thenS (move_session env s VS_READY) (counter_delete (vs_id s) VALIDATE_CREATED)
         else if SESSION_DELETED_THRESHOLD < n \<and> state = Some ''DELETED'' then move_session env s VS_ERROR
         else if VALIDATION_REQUEST_THRESHOLD < n then move_session env s VS_ERROR
         else if vs_state s = Some VS_STOPPING then ret ()
         else thenS (if vs_state s \<noteq> Some VS_INITIALIZING then move_session env s VS_INITIALIZING else ret ())
              (thenS (counter_put (vs_id s) VALIDATE_CREATED (n + 1)) (throw do_not_delete)))))"
    by (intro preserves_bindS preserves_thenS preserves_if move_tracks goes preserves_prim still_tracks [OF still_tables(9)]
        still_tracks [OF still_tables(10)] still_tracks [OF still_tables(11)] still_tracks [OF still_broker(2)]) (cases a; use a in simp)+
qed

lemma if_cases: "achieves P m Q \<Longrightarrow> achieves P k Q \<Longrightarrow> achieves P (if b then m else k) Q"
  by simp

lemma continue_stop_tracks:
  assumes "fresh K v s" "vs_state s = Some VS_STOPPING"
  shows "preserves (tracks late K v) (continue_stop_session env s)"
proof -
  let ?stopped = "\<lambda>st. st = VS_STOPPED \<or> st = VS_STOPPING"
  have after: "achieves (tracks late K v) (state_after_stop env s) ?stopped"
  proof -
    have "?stopped st" if "fst (state_after_stop env s w) = Inr st" for w st
      using that by (auto simp: state_after_stop_def catchS_def bindS_def thenS_def split: prod.splits sum.splits if_splits option.splits)
    with still_tracks [OF still_broker(6)] show ?thesis by (auto simp: achieves_def preserves_def)
  qed
  have hibernated: "achieves (tracks late K v) (thenS (stop_or_hibernate_servers env [] [vs_server s]) (ret VS_STOPPED)) ?stopped"
    by (rule achieves_thenS [OF still_tracks [OF still_hosts(1)]]) (simp add: achieves_ret)
  have "achieves (tracks late K v) (thenS (stop_or_hibernate_servers env [vs_server s] []) (state_after_stop env s)) ?stopped"
    by (rule achieves_thenS [OF still_tracks [OF still_hosts(1)] after])
  with hibernated have "achieves (tracks late K v) (if vs_hibernation s = Some True
            then thenS (stop_or_hibernate_servers env [] [vs_server s]) (ret VS_STOPPED)
            else thenS (stop_or_hibernate_servers env [vs_server s] []) (state_after_stop env s)) ?stopped"
    by (rule if_cases)
  then have "achieves (tracks late K v) (continue_stop_session env s) (\<lambda>_. True)"
    unfolding continue_stop_session_def
  proof (rule achieves_bindS)
    fix st assume "?stopped st"
    with assms have "follows late K v (s\<lparr>vs_updated := Some (de_now env), vs_state := Some st\<rparr>)"
      by (intro follows_fresh) auto
    then show "achieves (tracks late K v) (move_session env (s\<lparr>vs_updated := Some (de_now env)\<rparr>) st) (\<lambda>_. True)"
      unfolding preserves_achieves [symmetric] by (rule move_tracks)
  qed
  then show ?thesis by (simp add: preserves_achieves)
qed

lemma continue_delete_tracks: "fresh K v s \<Longrightarrow> preserves (tracks late K v) (continue_delete_session env s)"
  unfolding continue_delete_session_def
  by (intro preserves_catchS preserves_thenS preserves_option preserves_prim delete_tracks still_tracks still_rules)
    (simp_all add: fresh_def read_from_def)

lemma validate_deletion_tracks:
  assumes "sessions_ok (dw_sessions v)"
  shows "tracks late UNIV v (snd (handle_validate_deletion env sender detail v))"
  unfolding handle_validate_deletion_def continue_session_def
  by (rule from_controller_tracks [OF assms], rule with_named_preserves [OF assms],
      intro preserves_bindS preserves_if preserves_prim continue_stop_tracks continue_delete_tracks still_tracks [OF still_broker(2)]) assumption+

lemma names_fresh: "fresh K v s \<Longrightarrow> names UNIV s"
  by (simp add: names_def)

lemma scheduled_resume_tracks:
  assumes "sessions_ok (dw_sessions v)"
  shows "tracks late UNIV v (snd (handle_scheduled_resume env sender detail v))"
  unfolding handle_scheduled_resume_def
  by (rule from_controller_tracks [OF assms], rule with_session_tracks [OF assms _ tracks_refl [OF assms]])
    (use assms in \<open>auto simp: names_def tracks_refl intro!: retry_tracks resume_sessions_tracks\<close>)

lemma stop_read_tracks:
  assumes "sessions_ok (dw_sessions v)" "fresh UNIV v s" "is_forced s \<Longrightarrow> vs_state s \<in> {Some VS_READY, Some VS_RESUMING}"
  shows "tracks late UNIV v (snd (retry_on_failure (stop_sessions env [s]) v))"
  using assms by (intro retry_tracks stop_sessions_tracks) (auto simp: names_def fresh_def read_from_def)

lemma scheduled_stop_tracks:
  assumes "sessions_ok (dw_sessions v)"
  shows "tracks late UNIV v (snd (handle_scheduled_stop env sender detail v))"
proof -
  have "tracks late UNIV v (snd (submit_command s answer e ty v))" for s answer e ty
    by (intro run_preserves assms still_tracks still_rules)
  moreover have "tracks late UNIV v (snd (retry_on_failure (stop_sessions env [s\<lparr>vs_force := Some True\<rparr>]) v))"
    if "fresh UNIV v s" "vs_state s \<in> {Some VS_READY, Some VS_RESUMING}" for s
    using that by (intro stop_read_tracks assms) simp_all
  ultimately show ?thesis unfolding handle_scheduled_stop_def
    by (intro from_controller_tracks with_session_tracks assms tracks_refl) (auto simp: tracks_refl assms)
qed

lemma handle_terminate_tracks:
  assumes "sessions_ok (dw_sessions v)"
  shows "tracks late UNIV v (snd (handle_terminate env sender detail v))"
  unfolding handle_terminate_def
  by (intro from_controller_tracks retry_tracks terminate_sessions_tracks assms) (simp add: names_def)

lemma stack_update_tracks:
  assumes "sessions_ok (dw_sessions v)"
  shows "tracks late UNIV v (snd (handle_stack_update env sender detail v))"
proof -
  have "tracks late UNIV v (snd (with_named_session env detail (\<lambda>s.
        bindS (reads (\<lambda>_. required AttributeError (vs_stack s))) (\<lambda>current.
        if detail_str env ''stack_id'' current \<noteq> detail_str env ''stack_id'' stack then ret ()
        else thenS (session_update env (s\<lparr>vs_stack := Some stack\<rparr>)) (ret ()))) v))" for stack
    by (rule with_named_preserves [OF assms])
      (intro preserves_bindS preserves_if update_unit_tracks preserves_prim, simp add: follows_unchanged)
  then show ?thesis unfolding handle_stack_update_def Let_def
    by (intro from_controller_tracks assms) (simp add: tracks_refl assms)
qed

section \<open>The progress of commands\<close>

text \<open>Force is not kept in the table.\<close>

lemma read_not_forced:
  assumes "item_to_session hours fmt (Some d) = Inr (Some s)"
  shows "vs_force s = None"
  using assms by (auto simp: item_to_session_def Let_def bindE_Inr_iff split: if_splits)

lemma session_get_at:
  assumes "sessions_ok (dw_sessions v)" "tracks late K v v" "(opt_or ow [], opt_or i []) \<in> L"
    "\<And>found. (\<And>s. found = Some s \<Longrightarrow> fresh L v s \<and> vs_force s = None) \<Longrightarrow> tracks late K v (snd (f found v))"
  shows "tracks late K v (snd (bindS (session_get env ow i) f v))"
proof -
  obtain r w where get: "session_get env ow i v = (r, w)" by (cases "session_get env ow i v")
  have w: "w = v" using get by (auto simp: session_get_def split: if_splits)
  show ?thesis
  proof (cases r)
    case (Inr found)
    have "fresh L v s \<and> vs_force s = None" if "found = Some s" for s
      using session_get_read [OF assms(1)] session_get_cases [of env ow i v s w] get Inr that read_not_forced assms(3)
      by (fastforce simp: fresh_def read_session_def)
    from assms(4) [OF this] show ?thesis using get w Inr by (simp add: bindS_def)
  qed (use get w assms(2) in \<open>simp add: bindS_def\<close>)
qed

lemma command_ended_at:
  assumes "sessions_ok (dw_sessions v)"
    "\<And>success found. (\<And>s. found = Some s \<Longrightarrow> fresh UNIV v s \<and> vs_force s = None) \<Longrightarrow> tracks late K v (snd (f success found v))"
  shows "tracks late K v (snd (command_ended env sender detail f v))"
  unfolding command_ended_def Let_def
  by (intro from_controller_tracks assms(1)) (simp add: tracks_refl assms session_get_at [where L = UNIV])

lemma command_ended_tracks:
  assumes "sessions_ok (dw_sessions v)" "\<And>success found. (\<And>s. found = Some s \<Longrightarrow> fresh UNIV v s) \<Longrightarrow> preserves (tracks late K v) (f success found)"
  shows "tracks late K v (snd (command_ended env sender detail f v))"
  using assms by (intro command_ended_at run_preserves) simp_all

lemma resume_progress_tracks:
  assumes "sessions_ok (dw_sessions v)"
  shows "tracks True UNIV v (snd (handle_resume_progress env sender detail v))"
  unfolding handle_resume_progress_def
proof (rule command_ended_tracks [OF assms])
  fix success found assume found: "\<And>s. found = Some s \<Longrightarrow> fresh UNIV v s"
  show "preserves (tracks True UNIV v) (bindS (reads (\<lambda>_. required AttributeError found)) (\<lambda>s.
       if success
       then thenS (publish (ValidateCreation (vs_id s) (vs_owner s)))
              (thenS (command_delete (detail_str env ''command_id'' detail)) (move_session env s VS_INITIALIZING))
       else move_session env s VS_ERROR))"
    by (rule preserves_reads)
      (auto intro!: preserves_if preserves_thenS move_tracks late_goes found still_tracks [OF still_tables(2)] still_tracks [OF still_tables(13)])
qed

lemma disable_userdata_tracks:
  assumes "sessions_ok (dw_sessions v)"
  shows "tracks True UNIV v (snd (handle_disable_userdata_progress env sender detail v))"
  unfolding handle_disable_userdata_progress_def
proof (rule command_ended_tracks [OF assms])
  fix success found assume found: "\<And>s. found = Some s \<Longrightarrow> fresh UNIV v s"
  let ?P = "tracks True UNIV v"
  have "achieves ?P (if success
            then bindS (reads (\<lambda>_. required AttributeError (vs_server s))) (\<lambda>r.
                 thenS (command_delete (detail_str env ''command_id'' detail))
                   (ret (s\<lparr>vs_locked := Some False, vs_server := Some (r\<lparr>vr_locked := Some False\<rparr>)\<rparr>)))
            else ret (s\<lparr>vs_state := Some VS_ERROR\<rparr>)) (follows True UNIV v)" if "found = Some s" for s
  proof (rule if_cases)
    have s: "fresh UNIV v s" using found [OF that] .
    then have "follows True UNIV v s" by (rule follows_unchanged)
    then show "achieves ?P (bindS (reads (\<lambda>_. required AttributeError (vs_server s))) (\<lambda>r.
                 thenS (command_delete (detail_str env ''command_id'' detail))
                   (ret (s\<lparr>vs_locked := Some False, vs_server := Some (r\<lparr>vr_locked := Some False\<rparr>)\<rparr>)))) (follows True UNIV v)"
      by (intro achieves_bindS [where Q = "\<lambda>_. True"] achieves_thenS achieves_ret still_tracks still_rules
          still_tracks [unfolded preserves_achieves]) simp_all
    from s show "achieves ?P (ret (s\<lparr>vs_state := Some VS_ERROR\<rparr>)) (follows True UNIV v)"
      by (intro achieves_ret late_goes) simp_all
  qed
  note outcome = this
  show "preserves ?P (bindS (reads (\<lambda>_. required AttributeError found)) (\<lambda>s.
     bindS (if success
            then bindS (reads (\<lambda>_. required AttributeError (vs_server s))) (\<lambda>r.
                 thenS (command_delete (detail_str env ''command_id'' detail))
                   (ret (s\<lparr>vs_locked := Some False, vs_server := Some (r\<lparr>vr_locked := Some False\<rparr>)\<rparr>)))
            else ret (s\<lparr>vs_state := Some VS_ERROR\<rparr>)) (\<lambda>s1.
     bindS (reads (\<lambda>_. required KeyError (vs_server s1))) (\<lambda>r.
     thenS (server_update env r) (thenS (session_update env s1) (ret ()))))))"
    by (rule preserves_reads, rule preserves_after, rule outcome, simp,
        intro preserves_bindS preserves_thenS update_unit_tracks still_tracks [OF still_tables(7)] preserves_prim)
qed

lemma cpu_utilization_tracks:
  assumes "sessions_ok (dw_sessions v)"
  shows "tracks late UNIV v (snd (handle_cpu_utilization env sender detail v))"
  unfolding handle_cpu_utilization_def
proof (rule command_ended_at [OF assms])
  fix success found assume found: "\<And>s. found = Some s \<Longrightarrow> fresh UNIV v s \<and> vs_force s = None"
  have at: "tracks late K v (snd (bindS (reads (\<lambda>_. x)) f v))" if "\<And>y. x = Inr y \<Longrightarrow> tracks late K v (snd (f y v))" for x f and K
    using that tracks_refl [OF assms] by (cases x) (simp_all add: bindS_def)
  have "tracks late UNIV v (snd (retry_on_failure (stop_sessions env [s]) v))" if "found = Some s" for s
    using found [OF that] by (intro stop_read_tracks assms) (simp_all add: is_forced_def)
  then show "tracks late UNIV v (snd ((if \<not> success then ret ()
     else bindS (reads (\<lambda>_. bindE (de_command_output env (detail_str env ''command_id'' detail) (detail_str env ''instance_id'' detail))
              (is_host_idle env))) (\<lambda>idle.
          if \<not> idle then ret ()
          else bindS (reads (\<lambda>_. required AttributeError found)) (\<lambda>s. retry_on_failure (stop_sessions env [s])))) v))"
    by (simp add: tracks_refl assms) (intro impI at, simp add: tracks_refl assms, intro impI at, simp)
qed

section \<open>Requests\<close>

lemma change_type_returns:
  assumes "fresh K v s"
  shows "achieves (tracks late K v) (change_type env req s) (\<lambda>r. \<forall>s1 b. r = Inr (s1, b) \<longrightarrow> fresh K v s1)"
proof -
  have "fresh K v s1" if "fst (change_type env req s w) = Inr (Inr (s1, b))" for w s1 b
    using that assms
    by (auto simp: change_type_def bindS_def thenS_def server_get_def effect_def split: option.splits if_splits prod.splits sum.splits)
  moreover have "still (change_type env req s)" unfolding change_type_def by (intro still_rules)
  ultimately show ?thesis using still_tracks unfolding achieves_def preserves_def by blast
qed

lemma update_schedule_returns:
  "fresh K v s \<Longrightarrow> achieves (tracks late K v) (update_schedule_for_session env week s) (fresh K v)"
  unfolding update_schedule_for_session_def
  by (rule achieves_bindS [where Q = "\<lambda>_. True"]) (auto intro: achieves_ret still_tracks [unfolded preserves_achieves] still_rules)

lemma save_update_tracks: "fresh K v s \<Longrightarrow> preserves (tracks late K v) (save_update env s)"
  unfolding save_update_def
  by (intro preserves_bindS preserves_thenS update_tracks follows_unchanged still_tracks [OF still_tables(3)] preserves_prim)

theorem update_session_tracks:
  assumes "sessions_ok (dw_sessions v)" "names K req"
  shows "tracks late K v (snd (update_session env described req v))"
  unfolding update_session_def
proof (rule session_get_at [OF assms(1) tracks_refl [OF assms(1)]])
  show "(opt_or (vs_owner req) [], opt_or (vs_id req) []) \<in> K" using assms(2) by (simp add: names_def key_of_def)
  fix found assume found: "\<And>s. found = Some s \<Longrightarrow> fresh K v s \<and> vs_force s = None"
  have server: "preserves (tracks late K v) (if retyped then bindS (reads (\<lambda>_. required KeyError r)) (server_update env) else ret ())" for retyped r
    by (intro still_tracks still_rules)
  have rest: "preserves (tracks late K v) (case changed of
               Inl e \<Rightarrow> ret (req\<lparr>vs_failure := Some e\<rparr>)
             | Inr (s1, retyped) \<Rightarrow>
                 bindS (case vs_schedule req of None \<Rightarrow> ret s1 | Some week \<Rightarrow> update_schedule_for_session env week s1) (\<lambda>s2.
                 thenS (if retyped then bindS (reads (\<lambda>_. required KeyError (vs_server s2))) (server_update env) else ret ())
                 (if renamed \<or> described \<or> retyped \<or> \<not> Option.is_none (vs_schedule req) then save_update env s2 else ret req)))"
    if "\<forall>s1 b. changed = Inr (s1, b) \<longrightarrow> fresh K v s1" for changed renamed
  proof (cases changed)
    case (Inr p)
    obtain s1 b where p: "p = (s1, b)" by (cases p)
    with that Inr have s1: "fresh K v s1" by simp
    have "achieves (tracks late K v) (case vs_schedule req of None \<Rightarrow> ret s1 | Some week \<Rightarrow> update_schedule_for_session env week s1) (fresh K v)"
      using s1 update_schedule_returns by (cases "vs_schedule req") (simp_all add: achieves_ret)
    then show ?thesis unfolding Inr p sum.case prod.case
      by (rule preserves_after) (intro preserves_thenS preserves_if save_update_tracks server preserves_prim)
  qed (simp add: preserves_prim)
  show "tracks late K v (snd ((case found of
         None \<Rightarrow> ret (req\<lparr>vs_failure := Some ''invalid session''\<rparr>)
       | Some old \<Rightarrow>
           let renamed = (\<not> is_empty_opt_str (vs_name req) \<and> vs_name req \<noteq> vs_name old) in
           bindS (change_type env req (if renamed then old\<lparr>vs_name := vs_name req\<rparr> else old)) (\<lambda>changed.
             case changed of
               Inl e \<Rightarrow> ret (req\<lparr>vs_failure := Some e\<rparr>)
             | Inr (s1, retyped) \<Rightarrow>
                 bindS (case vs_schedule req of None \<Rightarrow> ret s1 | Some week \<Rightarrow> update_schedule_for_session env week s1) (\<lambda>s2.
                 thenS (if retyped then bindS (reads (\<lambda>_. required KeyError (vs_server s2))) (server_update env) else ret ())
                 (if renamed \<or> described \<or> retyped \<or> \<not> Option.is_none (vs_schedule req) then save_update env s2 else ret req)))) v))"
  proof (cases found)
    case (Some old)
    have "fresh K v (if b then old\<lparr>vs_name := vs_name req\<rparr> else old)" for b using found [OF Some] by simp
    then show ?thesis unfolding Some option.case Let_def
      by (intro run_preserves assms(1) preserves_after [OF change_type_returns] rest)
  qed (simp add: tracks_refl assms(1))
qed

lemma start_at:
  assumes "achieves (\<lambda>w. w = v) m Q" "\<And>x. Q x \<Longrightarrow> tracks late K v (snd (f x v))" "tracks late K v v"
  shows "tracks late K v (snd (bindS m f v))"
  using assms by (cases "m v"; cases "fst (m v)") (auto simp: achieves_def bindS_def)

lemma session_get_returns:
  assumes "sessions_ok (dw_sessions v)"
  shows "achieves (\<lambda>w. w = v) (session_get env ow i) (\<lambda>found. \<forall>s. found = Some s \<longrightarrow> fresh {(opt_or ow [], opt_or i [])} v s)"
proof -
  obtain r w where get: "session_get env ow i v = (r, w)" by (cases "session_get env ow i v")
  have w: "w = v" using get by (auto simp: session_get_def split: if_splits)
  have "fresh {(opt_or ow [], opt_or i [])} v s" if "r = Inr (Some s)" for s
    using session_get_read [OF assms get [unfolded that]] by (simp add: fresh_def)
  with get w show ?thesis by (auto simp: achieves_def)
qed

theorem connect_tracks:
  assumes "sessions_ok (dw_sessions v)"
  shows "tracks True {(opt_or ow [], opt_or i [])} v (snd (get_session_connection_info env dcv i ow user v))"
  unfolding get_session_connection_info_def
proof (rule start_at [OF _ _ tracks_refl [OF assms]])
  let ?K = "{(opt_or ow [], opt_or i [])}"
  let ?Q = "\<lambda>target. \<forall>d s. target = Inr (d, Some s) \<longrightarrow> fresh ?K v s"
  show "achieves (\<lambda>w. w = v) (if is_empty_opt_str dcv
            then bindS (session_get env ow i) (\<lambda>found.
              case found of
                None \<Rightarrow> ret (Inl ''invalid session'')
              | Some s \<Rightarrow> if vs_state s \<noteq> Some VS_READY then ret (Inl ''not ready'') else ret (Inr (vs_dcv_id s, Some s)))
            else ret (Inr (dcv, None))) ?Q"
    by (intro if_cases achieves_bindS [OF session_get_returns [OF assms]]) (auto intro!: achieves_ret split: option.split)
  fix target :: "string + string option \<times> vd_session option" assume target: "?Q target"
  show "tracks True ?K v (snd ((case target of
         Inl why \<Rightarrow> ret (Some why)
       | Inr (dcv_id, known) \<Rightarrow>
           (case de_connect env dcv_id user of
              None \<Rightarrow> ret None
            | Some why \<Rightarrow>
                bindS (if Option.is_none known \<and> \<not> is_empty_opt_str i then session_get env ow i else ret known) (\<lambda>found.
                  case found of
                    None \<Rightarrow> ret (Some why)
                  | Some s \<Rightarrow> thenS (move_session env s VS_ERROR) (ret (Some why))))) v))"
  proof (cases target)
    case (Inr p)
    obtain d known where p: "p = (d, known)" by (cases p)
    show ?thesis
    proof (cases "de_connect env d user")
      case (Some why)
      have "achieves (\<lambda>w. w = v) (if Option.is_none known \<and> \<not> is_empty_opt_str i then session_get env ow i else ret known)
          (\<lambda>found. \<forall>s. found = Some s \<longrightarrow> fresh ?K v s)"
        using target Inr p by (intro if_cases session_get_returns assms achieves_ret) simp
      moreover have "preserves (tracks True ?K v) (case found of None \<Rightarrow> ret (Some why) | Some s \<Rightarrow> thenS (move_session env s VS_ERROR) (ret (Some why)))"
        if "\<forall>s. found = Some s \<longrightarrow> fresh ?K v s" for found
        using that by (cases found) (auto intro!: preserves_thenS preserves_prim move_tracks late_goes)
      ultimately have "tracks True ?K v (snd (bindS (if Option.is_none known \<and> \<not> is_empty_opt_str i then session_get env ow i else ret known)
          (\<lambda>found. case found of None \<Rightarrow> ret (Some why) | Some s \<Rightarrow> thenS (move_session env s VS_ERROR) (ret (Some why))) v))"
        by (intro start_tracks [OF _ _ assms])
      with Inr p Some show ?thesis by simp
    qed (simp add: Inr p tracks_refl assms)
  qed (simp add: tracks_refl assms)
qed

section \<open>Steps\<close>

text \<open>One step of the controller. Late are the answers to commands and to requests to connect, and a stop that is forced, since these do not look
  at the state. A session is created under a new name.\<close>

inductive desk_step :: "bool \<Rightarrow> desktop_world \<Rightarrow> desktop_world \<Rightarrow> bool" where
  Create: "named s \<Longrightarrow> map_of (dw_sessions w) (key_of s) = None \<Longrightarrow> desk_step late w (snd (create_session env s w))"
| Stop: "\<forall>req \<in> set reqs. late \<or> \<not> is_forced req \<Longrightarrow> desk_step late w (snd (stop_sessions env reqs w))"
| Resume: "desk_step late w (snd (resume_sessions env reqs w))"
| Reboot: "desk_step late w (snd (reboot_sessions env reqs w))"
| Terminate: "desk_step late w (snd (terminate_sessions env reqs w))"
| Update: "desk_step late w (snd (update_session env described req w))"
| Connect: "late \<Longrightarrow> desk_step late w (snd (get_session_connection_info env dcv i ow user w))"
| HostState: "desk_step late w (snd (handle_host_state env sender detail w))"
| HostReady: "desk_step late w (snd (handle_host_ready env sender detail w))"
| RebootComplete: "desk_step late w (snd (handle_reboot_complete env sender detail w))"
| ValidateCreation: "desk_step late w (snd (handle_validate_creation env sender detail w))"
| ValidateDeletion: "desk_step late w (snd (handle_validate_deletion env sender detail w))"
| ScheduledResume: "desk_step late w (snd (handle_scheduled_resume env sender detail w))"
| ScheduledStop: "desk_step late w (snd (handle_scheduled_stop env sender detail w))"
| TerminateEvent: "desk_step late w (snd (handle_terminate env sender detail w))"
| StackUpdate: "desk_step late w (snd (handle_stack_update env sender detail w))"
| CpuUtilization: "desk_step late w (snd (handle_cpu_utilization env sender detail w))"
| ResumeProgress: "late \<Longrightarrow> desk_step late w (snd (handle_resume_progress env sender detail w))"
| DisableUserdata: "late \<Longrightarrow> desk_step late w (snd (handle_disable_userdata_progress env sender detail w))"
| Elsewhere: "still (m :: unit desk) \<Longrightarrow> desk_step late w (snd (m w))"

text \<open>The worlds that are reached from empty tables.\<close>

definition empty_world :: desktop_world where
  "empty_world = \<lparr>dw_sessions = [], dw_servers = [], dw_schedules = [], dw_counters = [], dw_permissions = [], dw_commands = [], dw_uuids = 0,
     dw_effects = []\<rparr>"

inductive desk_reachable :: "desktop_world \<Rightarrow> bool" where
  start: "desk_reachable empty_world"
| step: "desk_reachable w \<Longrightarrow> desk_step late w w' \<Longrightarrow> desk_reachable w'"

lemma tracks_mono: "tracks late K v w \<Longrightarrow> K \<subseteq> L \<Longrightarrow> tracks late L v w"
  unfolding tracks_def by blast

lemma step_tracks:
  assumes "desk_step late w w'" "sessions_ok (dw_sessions w)"
  shows "tracks late UNIV w w'"
  using assms
proof (cases rule: desk_step.cases)
  case (Create s env)
  then show ?thesis using create_session_tracks [OF assms(2), of s UNIV] by (simp add: state_at_def)
next
  case (Stop reqs env)
  then show ?thesis using stop_sessions_tracks [OF assms(2), of reqs UNIV] by (auto simp: names_def)
next
  case Connect
  then show ?thesis using tracks_mono [OF connect_tracks [OF assms(2)] subset_UNIV] by simp
next
  case (Elsewhere m)
  then show ?thesis using run_preserves [OF still_tracks assms(2)] by simp
qed (use assms(2) in \<open>auto simp: names_def intro: resume_sessions_tracks reboot_sessions_tracks terminate_sessions_tracks update_session_tracks
    handle_host_state_tracks handle_host_ready_tracks handle_reboot_complete_tracks validate_creation_tracks validate_deletion_tracks
    scheduled_resume_tracks scheduled_stop_tracks handle_terminate_tracks stack_update_tracks cpu_utilization_tracks resume_progress_tracks
    disable_userdata_tracks\<close>)

lemma reachable_ok: "desk_reachable w \<Longrightarrow> sessions_ok (dw_sessions w)"
proof (induction rule: desk_reachable.induct)
  case start
  then show ?case by (simp add: empty_world_def sessions_ok_def)
next
  case (step w late w')
  from step_tracks [OF step.hyps(2) step.IH] show ?case by (simp add: tracks_def)
qed

lemma never_deleted: "becomes late a b \<Longrightarrow> b \<noteq> Some VS_DELETED"
  by (cases a; cases b) auto

lemma reachable_state: "desk_reachable w \<Longrightarrow> state_at w k \<noteq> Some VS_DELETED"
proof (induction rule: desk_reachable.induct)
  case start
  then show ?case by (simp add: empty_world_def state_at_def)
next
  case (step w late w')
  from step_tracks [OF step.hyps(2) reachable_ok [OF step.hyps(1)]] step.IH never_deleted show ?case
    unfolding tracks_def by metis
qed

end
