(* ===== verification/Desktop_Queue.thy ===== *)
theory Desktop_Queue
  imports Desktop_Commands
begin

text \<open>
  The queue of events, \<open>events/service/events_handler_thread.py\<close>: a batch of messages is handled one after the other; a message whose handler
  fails stays in the queue, and the later ones of its group wait with it. The messages that are done with are deleted together.
\<close>

type_synonym event_handler = "string \<Rightarrow> pydict \<Rightarrow> unit desk"

text \<open>A message: whether its checksum fits, and what its text says, the type of the event and its details, or None when it cannot be read.\<close>

record queue_message =
  qm_id :: string
  qm_group :: string
  qm_sender :: string
  qm_intact :: bool
  qm_event :: "(string option \<times> pydict) option"

definition event_handlers :: "desktop_env \<Rightarrow> (string \<times> event_handler) list" where
  "event_handlers env =
     [(''VALIDATE_DCV_SESSION_DELETION_EVENT'', handle_validate_deletion env),
      (''VALIDATE_DCV_SESSION_CREATION_EVENT'', handle_validate_creation env),
      (''IDEA_SESSION_SCHEDULED_RESUME_EVENT'', handle_scheduled_resume env),
      (''IDEA_SESSION_SCHEDULED_STOP_EVENT'', handle_scheduled_stop env),
      (''IDEA_SESSION_TERMINATE_EVENT'', handle_terminate env),
      (''IDEA_SESSION_SOFTWARE_STACK_UPDATED_EVENT'', handle_stack_update env),
      (''EC2_INSTANCE_STATE_CHANGED_EVENT'', handle_host_state env),
      (''DCV_HOST_READY_EVENT'', handle_host_ready env),
      (''DCV_HOST_REBOOT_COMPLETE_EVENT'', handle_reboot_complete env),
      (''IDEA_SESSION_RESUME_SESSION_COMMAND_PROGRESS_EVENT'', handle_resume_progress env),
      (''DISABLE_USERDATA_WINDOWS_COMMAND_PROGRESS_EVENT'', handle_disable_userdata_progress env),
      (''IDEA_SESSION_CPU_UTILIZATION_COMMAND_PROGRESS_EVENT'', handle_cpu_utilization env)]"

text \<open>Whether the message is done with: its handler returned, or refused the sender.\<close>

definition run_handler :: "event_handler \<Rightarrow> string \<Rightarrow> pydict \<Rightarrow> bool desk" where
  "run_handler h sender detail = catchS (thenS (h sender detail) (ret True)) (\<lambda>e. ret (e = bad_source))"

definition handle_message :: "(string \<times> event_handler) list \<Rightarrow> string list \<Rightarrow> queue_message \<Rightarrow> bool desk" where
  "handle_message handlers stuck m =
     (if \<not> qm_intact m then ret True
      else bindS (reads (\<lambda>_. required ValidationError (qm_event m))) (\<lambda>(ty, detail).
        if is_empty_opt_str ty then ret True
        else case map_of handlers (opt_or ty []) of
          None \<Rightarrow> ret True
        | Some h \<Rightarrow> if qm_group m \<in> set stuck then ret False else run_handler h (qm_sender m) detail))"

text \<open>The ids that are to be deleted.\<close>

fun process_events :: "(string \<times> event_handler) list \<Rightarrow> string list \<Rightarrow> queue_message list \<Rightarrow> string list desk" where
  "process_events handlers stuck [] = ret []"
| "process_events handlers stuck (m # ms) =
     bindS (handle_message handlers stuck m) (\<lambda>done.
       if done then bindS (process_events handlers stuck ms) (\<lambda>ids. ret (qm_id m # ids))
       else process_events handlers (qm_group m # stuck) ms)"

definition poll_and_process_queue :: "(string \<times> event_handler) list \<Rightarrow> queue_message list \<Rightarrow> string list desk" where
  "poll_and_process_queue handlers ms = process_events handlers [] ms"

section \<open>Order within a group\<close>

definition for_handler :: "(string \<times> event_handler) list \<Rightarrow> queue_message \<Rightarrow> bool" where
  "for_handler handlers m \<longleftrightarrow> qm_intact m \<and>
     (\<exists>ty detail. qm_event m = Some (ty, detail) \<and> \<not> is_empty_opt_str ty \<and> map_of handlers (opt_or ty []) \<noteq> None)"

lemma stuck_not_done:
  "for_handler handlers m \<Longrightarrow> qm_group m \<in> set stuck \<Longrightarrow> handle_message handlers stuck m = ret False"
  by (auto simp: for_handler_def handle_message_def fun_eq_iff bindS_def)

lemma process_messages_Cons:
  "process_events handlers stuck (m # ms) w = (Inr ids, w') \<longleftrightarrow>
     (\<exists>v. handle_message handlers stuck m w = (Inr True, v) \<and> (\<exists>is. process_events handlers stuck ms v = (Inr is, w') \<and> ids = qm_id m # is) \<or>
          handle_message handlers stuck m w = (Inr False, v) \<and> process_events handlers (qm_group m # stuck) ms v = (Inr ids, w'))"
proof (cases "handle_message handlers stuck m w")
  case (Pair r v)
  then show ?thesis
    by (cases r; cases "process_events handlers stuck ms v"; cases "fst (process_events handlers stuck ms v)") (auto simp: bindS_def)
qed

lemma deleted_are_received: "process_events handlers stuck ms w = (Inr ids, w') \<Longrightarrow> set ids \<subseteq> qm_id ` set ms"
  by (induction ms arbitrary: stuck w ids) (simp, unfold process_messages_Cons, fastforce)

lemma stuck_not_deleted:
  assumes "process_events handlers stuck ms w = (Inr ids, w')" "b \<in> set ms" "for_handler handlers b" "qm_group b \<in> set stuck"
    "distinct (map qm_id ms)"
  shows "qm_id b \<notin> set ids"
  using assms
proof (induction ms arbitrary: stuck w ids)
  case (Cons m ms)
  from Cons.prems(1) [unfolded process_messages_Cons] show ?case
  proof (elim exE disjE conjE)
    fix v "is" assume step: "handle_message handlers stuck m w = (Inr True, v)" "process_events handlers stuck ms v = (Inr is, w')"
      "ids = qm_id m # is"
    from step(1) stuck_not_done [of handlers b stuck] Cons.prems(3,4) have "m \<noteq> b" by auto
    with Cons step show ?thesis by (auto simp: image_iff)
  next
    fix v assume step: "handle_message handlers stuck m w = (Inr False, v)" "process_events handlers (qm_group m # stuck) ms v = (Inr ids, w')"
    show ?thesis
    proof (cases "m = b")
      case True
      with deleted_are_received [OF step(2)] Cons.prems(5) show ?thesis by auto
    next
      case False
      with Cons.IH [OF step(2)] Cons.prems show ?thesis by auto
    qed
  qed
qed simp

lemma deleted_in_order:
  assumes "process_events handlers stuck (xs @ a # ys) w = (Inr ids, w')" "b \<in> set ys" "qm_group a = qm_group b"
    "for_handler handlers b" "distinct (map qm_id (xs @ a # ys))" "qm_id b \<in> set ids"
  shows "qm_id a \<in> set ids"
  using assms
proof (induction xs arbitrary: stuck w ids)
  case Nil
  from Nil.prems(1) [unfolded append_Nil process_messages_Cons] show ?case
  proof (elim exE disjE conjE)
    fix v assume step: "process_events handlers (qm_group a # stuck) ys v = (Inr ids, w')"
    from stuck_not_deleted [OF this Nil.prems(2,4)] Nil.prems show ?thesis by simp
  qed simp
next
  case (Cons m xs)
  from Cons.prems(1) [unfolded append_Cons process_messages_Cons] show ?case
  proof (elim exE disjE conjE)
    fix v "is" assume step: "process_events handlers stuck (xs @ a # ys) v = (Inr is, w')" "ids = qm_id m # is"
    from Cons.prems(2) have "qm_id b \<in> qm_id ` set ys" by simp
    with Cons.prems(5,6) step(2) have "qm_id b \<in> set is" by auto
    with Cons.IH [OF step(1) Cons.prems(2,3,4)] Cons.prems(5) step(2) show ?thesis by simp
  next
    fix v assume step: "process_events handlers (qm_group m # stuck) (xs @ a # ys) v = (Inr ids, w')"
    from Cons.IH [OF this Cons.prems(2,3,4)] Cons.prems(5,6) show ?thesis by simp
  qed
qed

section \<open>Unreadable messages\<close>

definition unreadable :: "queue_message \<Rightarrow> bool" where
  "unreadable m \<longleftrightarrow> qm_intact m \<and> qm_event m = None"

lemma run_handler_returns: "\<exists>b v. run_handler h sender detail w = (Inr b, v)"
  by (cases "h sender detail w") (auto simp: run_handler_def catchS_def thenS_def bindS_def split: sum.splits)

lemma handle_message_raises: "(\<exists>e v. handle_message handlers stuck m w = (Inl e, v)) \<longleftrightarrow> unreadable m"
proof (cases "unreadable m")
  case False
  then obtain b v where "handle_message handlers stuck m w = (Inr b, v)"
  proof (cases "\<not> qm_intact m")
    case True
    then show ?thesis using that by (simp add: handle_message_def)
  next
    case intact: False
    with False obtain ty detail where event: "qm_event m = Some (ty, detail)" by (cases "qm_event m") (auto simp: unreadable_def)
    have "\<exists>b v. (case map_of handlers (opt_or ty []) of None \<Rightarrow> ret True
        | Some h \<Rightarrow> if qm_group m \<in> set stuck then ret False else run_handler h (qm_sender m) detail) w = (Inr b, v)"
    proof (cases "map_of handlers (opt_or ty [])")
      case (Some h)
      with run_handler_returns [of h "qm_sender m" detail w] show ?thesis by (cases "qm_group m \<in> set stuck") auto
    qed auto
    then obtain b v where bv: "(case map_of handlers (opt_or ty []) of None \<Rightarrow> ret True
        | Some h \<Rightarrow> if qm_group m \<in> set stuck then ret False else run_handler h (qm_sender m) detail) w = (Inr b, v)" by blast
    show ?thesis
    proof (cases "is_empty_opt_str ty")
      case True
      with event intact show ?thesis using that by (simp add: handle_message_def bindS_def)
    next
      case False
      with event intact bv show ?thesis using that by (simp add: handle_message_def bindS_def)
    qed
  qed
  with False show ?thesis by simp
qed (auto simp: handle_message_def unreadable_def bindS_def)

lemma process_raises: "(\<exists>e v. process_events handlers stuck ms w = (Inl e, v)) \<longleftrightarrow> (\<exists>m \<in> set ms. unreadable m)"
proof (induction ms arbitrary: stuck w)
  case (Cons m ms)
  show ?case
  proof (cases "handle_message handlers stuck m w")
    case (Pair r v)
    have m: "unreadable m \<longleftrightarrow> (\<exists>e. r = Inl e)" using handle_message_raises [of handlers stuck m w] Pair by auto
    show ?thesis
    proof (cases r)
      case (Inr d)
      have "(\<exists>e u. process_events handlers stuck (m # ms) w = (Inl e, u)) \<longleftrightarrow>
          (\<exists>e u. process_events handlers (if d then stuck else qm_group m # stuck) ms v = (Inl e, u))"
        using Pair Inr by (auto simp: bindS_def split: prod.splits sum.splits)
      with Cons.IH m Inr show ?thesis by simp
    qed (use Pair m in \<open>auto simp: bindS_def\<close>)
  qed
qed simp

section \<open>Properties\<close>



end
