(* ===== verification/Desktop_View.thy ===== *)
theory Desktop_View
  imports Desktop_Reach Desktop_Queue
begin

text \<open>
  What holds of virtual desktops, and the cases in which the code does not do what it means to, each shown at a concrete run.
\<close>

section \<open>A run\<close>

definition ann_session :: vd_session where
  "ann_session = (new_session (Some ''s1'') (Some ''ann'') None)\<lparr>vs_stack := Some [(''stack_id'', PStr ''st'')], vs_name := Some ''desk'',
     vs_server := Some \<lparr>vr_instance_id = None, vr_instance_type = Some ''m5'', vr_session_id = None, vr_owner = None, vr_state = None, vr_locked = None\<rparr>\<rparr>"

definition desk_env :: desktop_env where
  "desk_env = \<lparr>de_fmt = (\<lambda>_. ''?''), de_now = 9000000, de_uuid = (\<lambda>_. ''u''), de_hours = Inr (''09:00'', ''17:00''),
     de_schedule_type = (\<lambda>_. Inr ''NO_SCHEDULE''), de_custom_hours = (\<lambda>_. Inr (''10:00'', ''11:00'')),
     de_stop = (\<lambda>_ _. Inr []), de_start = (\<lambda>_. Inr []), de_reboot = (\<lambda>_. Inr []), de_terminate = (\<lambda>_. Inr []),
     de_instance_state = (\<lambda>_. Inr (Some ''running'')),
     de_delete_api = (\<lambda>ids. Inr [(''successful_list'', PList (map (\<lambda>(i, _). PDict [(''session_id'', str_val i)]) ids))]),
     de_describe_api = (\<lambda>_. Inr [(''sessions'', PList [PDict [(''id'', PStr ''d1''), (''state'', PStr ''READY''), (''num_of_connections'', PInt 0)]])]),
     de_create_api = (\<lambda>s. Inr (s\<lparr>vs_dcv_id := Some ''d1''\<rparr>)), de_resume = (\<lambda>_. Inr ''c1''),
     de_provision = (\<lambda>_. Inr [(''Instances'', PList [PDict [(''InstanceId'', PStr ''i-1'')]])]),
     de_tag = (\<lambda>_. Inr ()), de_utilization = (\<lambda>_. Inr ''c2''), de_command_output = (\<lambda>_ _. Inr []), de_parse_time = (\<lambda>_. Inr 0),
     de_local_offset = 0, de_cpu_threshold = Inr (Fin 30), de_idle_delay = Inr 0, de_change_type = (\<lambda>_ _. None),
     de_connect = (\<lambda>_ _. Some ''refused''), de_controller_role = ''controller'', de_validation_timeout = 1\<rparr>"

definition ann_detail :: pydict where
  "ann_detail = [(''idea_session_id'', PStr ''s1''), (''idea_session_owner'', PStr ''ann'')]"

definition ann_row :: "session_state \<Rightarrow> pyval \<Rightarrow> (day_of_week \<Rightarrow> pyval) \<Rightarrow> pydict" where
  "ann_row st dcv day =
     [(''owner'', PStr ''ann''), (''idea_session_id'', PStr ''s1''), (''created_on'', PInt 9000), (''updated_on'', PInt 9000),
      (''server'', PDict [(''instance_id'', PStr ''i-1''), (''instance_type'', PStr ''m5''), (''idea_session_id'', PStr ''s1''),
         (''idea_session_owner'', PStr ''ann''), (''state'', PNone), (''locked'', PBool False)]),
      (''software_stack'', PDict [(''stack_id'', PStr ''st'')]), (''name'', PStr ''desk''), (''dcv_session_id'', dcv),
      (''state'', PStr (state_str st)), (''locked'', PBool False), (''hibernation_enabled'', PNone)] @
     map (\<lambda>d. (schedule_column d, PDict [(''day_of_week'', day d), (''schedule_id'', PStr []), (''idea_session_id'', PNone),
         (''idea_session_owner'', PNone), (''schedule_type'', PStr ''NO_SCHEDULE'')])) week_days"

definition ann_world :: "pydict \<Rightarrow> desktop_effect list \<Rightarrow> desktop_world" where
  "ann_world row effects = empty_world\<lparr>dw_sessions := [((''ann'', ''s1''), row)],
     dw_servers := [(''i-1'', [(''instance_id'', PStr ''i-1''), (''instance_type'', PStr ''m5''), (''idea_session_id'', PStr ''s1''),
       (''idea_session_owner'', PStr ''ann''), (''state'', PStr ''CREATED''), (''locked'', PBool False),
       (''created_on'', PInt 9000), (''updated_on'', PInt 9000)])],
     dw_effects := effects\<rparr>"

definition desk_created :: desktop_world where
  "desk_created = ann_world (ann_row VS_PROVISIONING PNone (\<lambda>d. PStr (day_str d))) []"

definition desk_initializing :: desktop_world where
  "desk_initializing = ann_world (ann_row VS_INITIALIZING (PStr ''d1'') (\<lambda>_. PNone))
     [CreatedDcvSession (Some ''s1''), TaggedHost (Some ''i-1''), Published (ValidateCreation (Some ''s1'') (Some ''ann''))]"

definition desk_deleting :: desktop_world where
  "desk_deleting = ann_world (ann_row VS_DELETING (PStr ''d1'') (\<lambda>_. PNone))
     [CreatedDcvSession (Some ''s1''), TaggedHost (Some ''i-1''), Published (ValidateCreation (Some ''s1'') (Some ''ann'')),
      DeletedDcvSessions [(Some ''d1'', Some ''ann'')], Published (ValidateDeletion (Some ''s1'') (Some ''ann''))]"

lemma run_created: "snd (create_session desk_env ann_session empty_world) = desk_created"
  by code_simp

lemma run_initializing: "snd (handle_host_ready desk_env ''host:i-1'' ann_detail desk_created) = desk_initializing"
  by code_simp

lemma run_deleting: "snd (terminate_sessions desk_env [ann_session] desk_initializing) = desk_deleting"
  by code_simp

lemma reach_created: "desk_reachable desk_created"
proof -
  have "named ann_session" by code_simp
  moreover have "map_of (dw_sessions empty_world) (key_of ann_session) = None" by (simp add: empty_world_def)
  ultimately have "desk_step False empty_world desk_created" unfolding run_created [symmetric] by (rule Create)
  with desk_reachable.start show ?thesis by (rule desk_reachable.step)
qed

lemma reach_initializing: "desk_reachable desk_initializing"
  using desk_reachable.step [OF reach_created HostReady [of False desk_created desk_env "''host:i-1''" ann_detail]]
  unfolding run_initializing .

lemma reach_deleting: "desk_reachable desk_deleting"
  using desk_reachable.step [OF reach_initializing Terminate [of False desk_initializing desk_env "[ann_session]"]]
  unfolding run_deleting .

lemma ann_row_state: "map_of (ann_row st dcv day) ''state'' = Some (PStr (state_str st))"
  by (simp add: ann_row_def)

lemma run_states:
  "state_at desk_initializing (''ann'', ''s1'') = Some VS_INITIALIZING" "state_at desk_deleting (''ann'', ''s1'') = Some VS_DELETING"
  by (simp_all add: desk_initializing_def desk_deleting_def ann_world_def state_at_def ann_row_state)

section \<open>The life of a session\<close>

text \<open>C11: in every world that is reached, each step leaves a session as it is or takes it along one of the transitions, those for when answers may
  be late included.\<close>

theorem session_lifecycle:
  assumes "desk_reachable w" "desk_step late w w'"
  shows "state_at w' k = state_at w k \<or> becomes late (state_at w k) (state_at w' k)"
  using step_tracks [OF assms(2) reachable_ok [OF assms(1)]] unfolding tracks_def by blast

theorem session_lifecycle_witness:
  "desk_reachable desk_initializing \<and> desk_step False desk_initializing desk_deleting \<and>
   becomes False (state_at desk_initializing (''ann'', ''s1'')) (state_at desk_deleting (''ann'', ''s1''))"
proof -
  have step: "desk_step False desk_initializing desk_deleting" unfolding run_deleting [symmetric] by (rule Terminate)
  with session_lifecycle [OF reach_initializing this, of "(''ann'', ''s1'')"] reach_initializing show ?thesis by (simp add: run_states)
qed

text \<open>C34: an item of the table always has the names of its key and a state, and that state is never that of a deleted session: such a session has
  no item.\<close>

theorem reachable_rows:
  assumes "desk_reachable w" "map_of (dw_sessions w) k = Some d"
  shows "row_ok (k, d) \<and> row_state d \<noteq> Some VS_DELETED"
  using reachable_ok [OF assms(1)] reachable_state [OF assms(1), of k] assms(2) unfolding sessions_ok_def state_at_def by (metis option.simps(5))

theorem reachable_rows_witness:
  "row_ok ((''ann'', ''s1''), ann_row VS_DELETING (PStr ''d1'') (\<lambda>_. PNone))"
proof -
  have "map_of (dw_sessions desk_deleting) (''ann'', ''s1'') = Some (ann_row VS_DELETING (PStr ''d1'') (\<lambda>_. PNone))"
    by (simp add: desk_deleting_def ann_world_def)
  from reachable_rows [OF reach_deleting this] show ?thesis by simp
qed



definition failed_detail :: pydict where
  "failed_detail = ann_detail @ [(''status'', PStr ''Failed''), (''command_id'', PStr ''c1''), (''instance_id'', PStr ''i-1'')]"

definition desk_revived :: desktop_world where
  "desk_revived = ann_world (ann_row VS_ERROR (PStr ''d1'') (\<lambda>_. PNone)) (dw_effects desk_deleting)"


text \<open>when EC2 does not terminate the host of a session that is being deleted, the handler still ends without an error and the item of the session
  is gone, while the item of the server and the host itself stay, and nothing will look for them again.\<close>

theorem failed_termination_leaks_host:
  "case handle_validate_deletion (desk_env\<lparr>de_terminate := \<lambda>_. Inl (ClientError ''UnauthorizedOperation''), de_describe_api := \<lambda>_. Inr []\<rparr>)
     ''controller'' ann_detail desk_deleting of
     (r, w) \<Rightarrow> r = Inr () \<and> dw_sessions w = [] \<and> dw_servers w = dw_servers desk_deleting \<and> dw_effects w = dw_effects desk_deleting"
  by code_simp

end
