(* ===== verification/Desktop_Cases.thy ===== *)
theory Desktop_Cases
  imports Desktop_View
begin

text \<open>
  Requests of users, batches with sessions that are not there, and schedules: what holds of them and where they go wrong.
\<close>

section \<open>Requests of users\<close>

lemma own_names:
  assumes "validate_owner user req"
  shows "names {k. fst k = user} (complete_owner user req)"
  using assms by (cases "vs_owner req") (auto simp: validate_owner_def complete_owner_def names_def key_of_def)

lemma batch_own:
  assumes "\<And>req. valid user req \<Longrightarrow> validate_owner user req"
    "\<And>reqs. (\<And>req. req \<in> set reqs \<Longrightarrow> names {k. fst k = user} req) \<Longrightarrow> tracks late {k. fst k = user} w (snd (operation reqs w))"
  shows "tracks late {k. fst k = user} w (snd (batch_request valid operation user reqs w))"
proof -
  let ?passed = "map (complete_owner user) (filter (valid user) reqs)"
  have "tracks late {k. fst k = user} w (snd (operation ?passed w))" using assms own_names by (intro assms(2)) auto
  moreover have "snd (batch_request valid operation user reqs w) = snd (operation ?passed w)"
    by (cases "operation ?passed w"; cases "fst (operation ?passed w)") (auto simp: batch_request_def bindS_def)
  ultimately show ?thesis by simp
qed

lemma unless_none_tracks:
  "sessions_ok (dw_sessions w) \<Longrightarrow> tracks late K w (snd (operation reqs w)) \<Longrightarrow> tracks late K w (snd (unless_none operation reqs w))"
  by (simp add: unless_none_def tracks_refl)

lemma tracks_outside: "tracks late K v w \<Longrightarrow> k \<notin> K \<Longrightarrow> map_of (dw_sessions w) k = map_of (dw_sessions v) k"
  unfolding tracks_def by blast

text \<open>C13: whatever a user asks to have stopped, rebooted, resumed, deleted or updated, the items of the sessions of others stay as they are.\<close>

theorem requests_touch_own_sessions:
  assumes "desk_reachable w" "fst k \<noteq> user"
  shows "map_of (dw_sessions (snd (user_stop_sessions env user reqs w))) k = map_of (dw_sessions w) k \<and>
    map_of (dw_sessions (snd (user_reboot_sessions env user reqs w))) k = map_of (dw_sessions w) k \<and>
    map_of (dw_sessions (snd (user_resume_sessions env user reqs w))) k = map_of (dw_sessions w) k \<and>
    map_of (dw_sessions (snd (user_delete_sessions env user reqs w))) k = map_of (dw_sessions w) k \<and>
    map_of (dw_sessions (snd (user_update_session env described user req w))) k = map_of (dw_sessions w) k"
proof -
  note ok = reachable_ok [OF assms(1)]
  have k: "k \<notin> {k. fst k = user}" using assms(2) by simp
  have "tracks True {k. fst k = user} w (snd (user_update_session env described user req w))"
    unfolding user_update_session_def by (simp add: tracks_refl ok update_session_tracks own_names)
  moreover have "tracks True {k. fst k = user} w (snd (user_delete_sessions env user reqs w))"
    unfolding user_delete_sessions_def by (rule batch_own) (auto simp: validate_with_id_def intro: terminate_sessions_tracks ok)
  moreover have "tracks True {k. fst k = user} w (snd (user_resume_sessions env user reqs w))"
    unfolding user_resume_sessions_def by (rule batch_own) (auto simp: validate_with_id_def intro: unless_none_tracks resume_sessions_tracks ok)
  moreover have "tracks True {k. fst k = user} w (snd (user_reboot_sessions env user reqs w))"
    unfolding user_reboot_sessions_def by (rule batch_own) (auto intro: unless_none_tracks reboot_sessions_tracks ok)
  moreover have "tracks True {k. fst k = user} w (snd (user_stop_sessions env user reqs w))"
    unfolding user_stop_sessions_def by (rule batch_own) (auto intro: unless_none_tracks stop_sessions_tracks ok)
  ultimately show ?thesis using tracks_outside [OF _ k] by simp
qed

theorem requests_touch_own_sessions_witness:
  "map_of (dw_sessions (snd (user_delete_sessions desk_env ''bob'' [ann_session] desk_initializing))) (''ann'', ''s1'') =
     map_of (dw_sessions desk_initializing) (''ann'', ''s1'')"
  using requests_touch_own_sessions [OF reach_initializing, of "(''ann'', ''s1'')" "''bob''" desk_env "[ann_session]"] by simp

lemma update_writes_state:
  assumes "named s" "vs_state s = Some st" "session_to_item s = Inr item"
  shows "state_at (snd (session_update env s w)) (key_of s) = Some st"
proof -
  have key: "session_key s = Inr (key_of s)" using assms(1) by (cases "key_of s") (simp add: session_key_def named_def)
  let ?item = "assign_key ''updated_on'' (PInt (now_ms env)) item"
  note item = session_item [OF assms(3)]
  have d: "distinct (map fst ?item)" using item by (simp add: distinct_assign_key)
  have "map_of (set_attributes [''owner'', ''idea_session_id'', ''created_on''] ?item ks old) ''state'' = Some (PStr (state_str st))" for ks old
    using item assms(2) by (simp add: map_of_set_attributes [OF d] str_val_def)
  then show ?thesis
    by (cases "map_of (dw_sessions w) (key_of s)"; cases "read_session env (Some ?item)")
      (simp_all add: session_update_def bindS_def thenS_def assms(3) key Let_def state_at_def bindE_def split: sum.split)
qed

text \<open>C37: not so with a request to connect: a user who gives some DCV session that the broker does not let him into, and names the session of someone
  else, puts that session into the error state.\<close>

theorem connect_breaks_foreign_session:
  assumes "desk_reachable w" "session_get env (Some ow) (Some i) w = (Inr (Some s), w)" "session_to_item (s\<lparr>vs_state := Some VS_ERROR\<rparr>) = Inr item"
    "\<not> is_empty_opt_str dcv" "de_connect env dcv (Some user) = Some why"
  shows "state_at (snd (user_connect env user dcv (Some i) (Some ow) None w)) (ow, i) = Some VS_ERROR"
proof -
  have s: "named s" "key_of s = (ow, i)"
    using session_get_read [OF reachable_ok [OF assms(1)] assms(2)] by (auto simp: read_from_def)
  have i: "\<not> is_empty_opt_str (Some i)"
  proof
    assume "is_empty_opt_str (Some i)"
    with assms(2) show False by (simp add: session_get_def read_session_None)
  qed
  have "state_at (snd (session_update env (s\<lparr>vs_state := Some VS_ERROR\<rparr>) w)) (ow, i) = Some VS_ERROR"
    using update_writes_state [of "s\<lparr>vs_state := Some VS_ERROR\<rparr>" VS_ERROR item env w] s assms(3) by simp
  moreover have "snd (user_connect env user dcv (Some i) (Some ow) None w) = snd (session_update env (s\<lparr>vs_state := Some VS_ERROR\<rparr>) w)"
    using assms(2,4,5) i
    by (cases "session_update env (s\<lparr>vs_state := Some VS_ERROR\<rparr>) w"; cases "fst (session_update env (s\<lparr>vs_state := Some VS_ERROR\<rparr>) w)")
      (auto simp: user_connect_def get_session_connection_info_def bindS_def thenS_def move_session_def is_empty_opt_str_def)
  ultimately show ?thesis by simp
qed

theorem connect_breaks_foreign_session_witness:
  "state_at desk_initializing (''ann'', ''s1'') = Some VS_INITIALIZING \<and>
   state_at (snd (user_connect desk_env ''bob'' (Some ''x'') (Some ''s1'') (Some ''ann'') None desk_initializing)) (''ann'', ''s1'') = Some VS_ERROR"
proof -
  have "case session_get desk_env (Some ''ann'') (Some ''s1'') desk_initializing of
      (Inr (Some s), _) \<Rightarrow> (case session_to_item (s\<lparr>vs_state := Some VS_ERROR\<rparr>) of Inr _ \<Rightarrow> True | Inl _ \<Rightarrow> False)
    | _ \<Rightarrow> False"
    by code_simp
  then obtain s w where get: "session_get desk_env (Some ''ann'') (Some ''s1'') desk_initializing = (Inr (Some s), w)"
    and "\<forall>e. session_to_item (s\<lparr>vs_state := Some VS_ERROR\<rparr>) \<noteq> Inl e"
    by (auto split: prod.splits sum.splits option.splits)
  then obtain item where "session_to_item (s\<lparr>vs_state := Some VS_ERROR\<rparr>) = Inr item"
    by (cases "session_to_item (s\<lparr>vs_state := Some VS_ERROR\<rparr>)") auto
  moreover note get
  moreover from get have "w = desk_initializing" using session_get_cases by blast
  moreover have "\<not> is_empty_opt_str (Some ''x'')" by code_simp
  moreover have "de_connect desk_env (Some ''x'') (Some ''bob'') = Some ''refused''" by (simp add: desk_env_def)
  ultimately show ?thesis using connect_breaks_foreign_session [OF reach_initializing] run_states(1) by blast
qed

section \<open>Sessions that are not there\<close>

lemma fetch_unchanged: "snd (fetch env req w) = w"
proof (cases "session_get env (vs_owner req) (vs_id req) w")
  case (Pair r w')
  then have "w' = w" by (auto simp: session_get_def split: if_splits)
  with Pair show ?thesis by (cases r; cases "projr r") (auto simp: fetch_def bindS_def)
qed

lemma fetch_unknown:
  assumes "map_of (dw_sessions w) (key_of req) = None"
  shows "\<exists>e. fetch env req w = (Inl e, w)"
  using assms by (auto simp: fetch_def session_get_def key_of_def read_session_None bindS_def)

lemma mapS_fails:
  assumes "\<And>x. x \<in> set xs \<Longrightarrow> snd (f x w) = w" "y \<in> set xs" "\<exists>e. f y w = (Inl e, w)"
  shows "\<exists>e. mapS f xs w = (Inl e, w)"
  using assms
proof (induction xs)
  case (Cons x xs)
  obtain r where r: "f x w = (r, w)" using Cons.prems(1) [of x] by (cases "f x w") simp
  show ?case
  proof (cases r)
    case (Inr z)
    with r Cons.prems(3) have "x \<noteq> y" by auto
    with Cons have "\<exists>e. mapS f xs w = (Inl e, w)" by auto
    with r Inr show ?thesis by (auto simp: bindS_def)
  qed (use r in \<open>simp add: bindS_def\<close>)
qed simp

lemma plan_all_mapS: "plan_all env plan reqs = mapS (\<lambda>req. bindS (fetch env req) (\<lambda>s. ret (plan req s))) reqs"
  by (induction reqs) (simp_all add: fun_eq_iff bindS_def split: prod.split sum.split)

lemma bindS_raises: "\<exists>e. m w = (Inl e, w) \<Longrightarrow> \<exists>e. bindS m f w = (Inl e, w)"
  by (auto simp: bindS_def)

text \<open>C36: one session in a batch that is not in the table makes the whole request fail with an exception, where each session should be answered on
  its own: nothing at all is done for the others.\<close>

theorem unknown_session_fails_batch:
  assumes "req \<in> set reqs" "map_of (dw_sessions w) (key_of req) = None"
  shows "(\<exists>e. stop_sessions env reqs w = (Inl e, w)) \<and> (\<exists>e. resume_sessions env reqs w = (Inl e, w)) \<and>
    (\<exists>e. reboot_sessions env reqs w = (Inl e, w)) \<and> (\<exists>e. terminate_sessions env reqs w = (Inl e, w))"
proof -
  have fails: "\<exists>e. mapS (\<lambda>req. bindS (fetch env req) (\<lambda>s. ret (g req s))) reqs w = (Inl e, w)" for g :: "vd_session \<Rightarrow> vd_session \<Rightarrow> 'b"
  proof (rule mapS_fails [OF _ assms(1)])
    show "snd (bindS (fetch env x) (\<lambda>s. ret (g x s)) w) = w" for x
      using fetch_unchanged [of env x w] by (cases "fetch env x w"; cases "fst (fetch env x w)") (auto simp: bindS_def)
    show "\<exists>e. bindS (fetch env req) (\<lambda>s. ret (g req s)) w = (Inl e, w)" by (rule bindS_raises [where m = "fetch env req", OF fetch_unknown [OF assms(2)]])
  qed
  have "\<exists>e. mapS (fetch env) reqs w = (Inl e, w)" by (rule mapS_fails [where f = "fetch env", OF fetch_unchanged assms(1) fetch_unknown [OF assms(2)]])
  then have "\<exists>e. resume_sessions env reqs w = (Inl e, w)" unfolding resume_sessions_def resume_plan_def by (rule bindS_raises)
  moreover have "\<exists>e. stop_sessions env reqs w = (Inl e, w)" unfolding stop_sessions_def plan_all_mapS by (rule bindS_raises) (rule fails)
  moreover have "\<exists>e. terminate_sessions env reqs w = (Inl e, w)" unfolding terminate_sessions_def plan_all_mapS by (rule bindS_raises) (rule fails)
  moreover have "\<exists>e. reboot_sessions env reqs w = (Inl e, w)" unfolding reboot_sessions_def by (rule bindS_raises) (rule fails)
  ultimately show ?thesis by blast
qed

theorem unknown_session_fails_batch_witness:
  "\<exists>e. terminate_sessions desk_env [ann_session, new_session (Some ''s2'') (Some ''ann'') None] desk_initializing = (Inl e, desk_initializing)"
proof -
  have "map_of (dw_sessions desk_initializing) (key_of (new_session (Some ''s2'') (Some ''ann'') None)) = None" by code_simp
  from unknown_session_fails_batch [OF _ this, of "[ann_session, new_session (Some ''s2'') (Some ''ann'') None]" desk_env] show ?thesis by simp
qed

section \<open>Reboots\<close>


section \<open>Schedules\<close>

text \<open>C39: a custom schedule given for a day that has a custom schedule already takes the schedule of the day away, while the answer says that the
  new one is kept: the old item is deleted and no new one is created.\<close>

theorem custom_update_loses_schedule:
  assumes "vh_type cur = Some CUSTOM_SCHEDULE" "vh_type h = Some CUSTOM_SCHEDULE" "vh_id cur = Some c" "\<not> is_empty_str c" "vh_day cur = Some d"
  shows "update_schedule_for_day env s day (Some cur) (Some h) w = (Inr h, w\<lparr>dw_schedules := remove_key (day_str d, c) (dw_schedules w)\<rparr>)"
  using assms
  by (simp add: update_schedule_for_day_def is_same_schedule_def delete_schedule_def schedule_delete_def is_empty_opt_str_def thenS_def bindS_def)

theorem custom_update_loses_schedule_witness:
  "\<exists>cur h. update_schedule_for_day desk_env ann_session MONDAY (Some cur) (Some h)
     (empty_world\<lparr>dw_schedules := [((''monday'', ''u''), [])]\<rparr>) = (Inr h, empty_world)"
proof -
  let ?h = "\<lambda>i. \<lparr>vh_id = i, vh_session_id = Some ''s1'', vh_owner = Some ''ann'', vh_day = Some MONDAY, vh_start = Some ''10:00'', vh_stop = Some ''11:00'',
      vh_type = Some CUSTOM_SCHEDULE\<rparr>"
  have "\<not> is_empty_str ''u''" by code_simp
  then have "update_schedule_for_day desk_env ann_session MONDAY (Some (?h (Some ''u''))) (Some (?h None))
      (empty_world\<lparr>dw_schedules := [((''monday'', ''u''), [])]\<rparr>) = (Inr (?h None), empty_world)"
    using custom_update_loses_schedule [of "?h (Some ''u'')" "?h None" "''u''" MONDAY desk_env ann_session MONDAY
        "empty_world\<lparr>dw_schedules := [((''monday'', ''u''), [])]\<rparr>"]
    by (simp add: remove_key_def empty_world_def)
  then show ?thesis by blast
qed

text \<open>what a schedule with two times does at a time of its day: before the first nothing, then a resume until the second, and from then on a stop.
  When the window ends before it starts, as one over midnight does, the session is never resumed.\<close>

theorem window_decides:
  assumes "de_hours env = Inr hours" "vh_type h = Some CUSTOM_SCHEDULE" "vh_start h = Some a" "vh_stop h = Some b" "time_of a = Inr x" "time_of b = Inr y"
  shows "trigger_schedule env t h =
     (if t < x then ret () else if t < y then publish (ScheduledResume (vh_session_id h) (vh_owner h))
      else publish (ScheduledStop (vh_session_id h) (vh_owner h)))"
  using assms
  by (cases hours) (auto simp: fun_eq_iff trigger_schedule_def bindS_def)

theorem window_decides_witness:
  "trigger_schedule desk_env 1380 \<lparr>vh_id = Some ''u'', vh_session_id = Some ''s1'', vh_owner = Some ''ann'', vh_day = Some MONDAY,
     vh_start = Some ''22:00'', vh_stop = Some ''06:00'', vh_type = Some CUSTOM_SCHEDULE\<rparr> = publish (ScheduledStop (Some ''s1'') (Some ''ann''))"
proof -
  have "time_of ''22:00'' = Inr 1320" "time_of ''06:00'' = Inr 360" by code_simp+
  moreover have "de_hours desk_env = Inr (''09:00'', ''17:00'')" by (simp add: desk_env_def)
  ultimately show ?thesis
    using window_decides [of desk_env "(''09:00'', ''17:00'')" "\<lparr>vh_id = Some ''u'', vh_session_id = Some ''s1'', vh_owner = Some ''ann'',
        vh_day = Some MONDAY, vh_start = Some ''22:00'', vh_stop = Some ''06:00'', vh_type = Some CUSTOM_SCHEDULE\<rparr>" "''22:00''" "''06:00''" 1320 360 1380]
    by simp
qed

section \<open>The queue\<close>


end
