(* ===== verification/Spec2Isabelle.thy ===== *)
theory Spec2Isabelle
  imports Job_Provisioner Provisioning_Queue Job_Build Pricing EC2_View Instance_Cache Housekeeping_Safety Auth_Properties
    PBS_Hook PBS_Ncpus PBS_Api_View Monitor_View Profile_View Desktop_Cases
begin

text \<open>
  The scheduler of the Integrated Digital Engineering on AWS solution (\<open>source/idea/idea-scheduler\<close>) and the sessions of its virtual desktop
  controller (\<open>idea-virtual-desktop-controller\<close>), with the parts of the data model (\<open>idea-data-model\<close>) and of the library (\<open>idea-sdk\<close>) they rest on. Names of files below are short for paths under \<open>src/source/idea\<close>.

  \<^bold>\<open>The program.\<close> A user submits a job to the OpenPBS server. The hook of OpenPBS (\<open>openpbs_hook_handler.py\<close>, and \<open>calculate_ncpus_hook.py\<close> for the
  number of CPUs) reads the attributes of the job and asks the scheduler over a socket; the scheduler validates the job against the queue profile
  and the projects and answers whether it is accepted. A hook that fires when a job is queued, modified or run leaves an update for the job monitor.
  The monitor wakes up, reads the job from OpenPBS, stores it in the job cache and puts it into the provisioning queue of its queue profile. One
  provisioner per queue profile takes jobs or batches of jobs from that queue, checks limits, licences, budgets, reserved instances and quotas,
  builds or resizes a CloudFormation stack and hands the job back to OpenPBS with the stack in its select statement. The node housekeeper compares
  the instances of AWS with the nodes of OpenPBS, adds and deletes nodes and terminates idle capacity. Finished jobs leave the cache, are priced and
  reported. A user may also ask for a virtual desktop: the controller starts a host for the session, creates the session at the DCV broker once the
  host is ready, and stops, resumes or deletes it by requests, by schedules and by what the hosts and the broker report on its queue of events.

  \<^bold>\<open>The foundations.\<close> \<open>Idea_Prelude\<close> has the exceptions, the two shapes of an operation that may raise, \<open>'a res\<close> (only reads) and \<open>('s, 'a) act\<close> (also
  changes an object \<open>'s\<close>; an exception does not undo what was assigned before), and the rules \<open>preserves_intros\<close> by which an invariant is carried along
  an operation. \<open>Py_Float\<close> is binary64 with rounding, \<open>Py_Text\<close> the methods of \<open>str\<close> and the parsing of numbers, \<open>Model_Utils\<close>
  (\<open>ideadatamodel/model_utils.py\<close>) untyped values with their coercions, \<open>Py_Dict\<close> dicts in the order of insertion, \<open>Heapq\<close> the heap of the
  standard library, under a locale for the comparison. Integers of Python are \<open>int\<close>; times are microseconds or milliseconds as the code has them.

  \<^bold>\<open>The data model.\<close> \<open>Soca_Memory\<close>, \<open>Scheduler_Types\<close>, \<open>Queue_Types\<close>, \<open>Job_Cost\<close>, \<open>Job_Model\<close> and \<open>Node_Model\<close> are the records and enumerations of
  \<open>scheduler_model.py\<close> and \<open>common_model.py\<close> with their methods. \<open>EC2_Data\<close> and \<open>Fleet_Data\<close> are the wrappers of \<open>ideadatamodel/aws\<close> over what AWS
  answers, \<open>EC2_View\<close> relates them to the records the scheduler reads (\<open>tags_agree\<close>: two look-ups of a tag, written apart, agree).

  \<^bold>\<open>Jobs.\<close> \<open>Param_Context\<close>, \<open>Param_Get\<close>, \<open>Param_Validate\<close>, \<open>Param_Apply\<close> and \<open>Job_Builder\<close> are \<open>job_param_builder.py\<close>: 38 builders, one per parameter, each
  with a \<open>get\<close>, \<open>default\<close>, \<open>validate\<close> and \<open>apply\<close>. \<open>Job_Validation\<close> shows what a validation without entries guarantees (restricted parameters are
  reported, a number of CPUs fits every instance type); \<open>Job_Build\<close> shows what is built, field by field, and consequences for instance options and
  subnets. \<open>Pricing\<close> is \<open>pricing_helper.py\<close>: the totals of an estimate are always the sum of its items.

  \<^bold>\<open>Provisioning.\<close> \<open>RoundRobin_Queue\<close> and \<open>Provisioning_Queue\<close> are \<open>job_provisioning_queue.py\<close>. The locale \<open>work_queue\<close> is what the second
  relies on, interpreted on the first; a job is queued once, a job that is handed out fits the limits, \<open>get\<close> returns (one turn more than there
  are queued jobs is fuel enough, as every turn takes a job out), and a job over the limit of instances is lost. \<open>Batch_Capacity\<close>, \<open>Service_Quota\<close>,
  \<open>Provisioning_Checks\<close> and \<open>Job_Provisioner\<close> are the provisioner with the checks before it: what a run does is a list of events, and no stack is
  built unless all checks passed. \<open>Instance_Cache\<close> shows that a round of synchronisation leaves the snapshot it was given.
  \<open>Node_Housekeeping\<close> with \<open>Housekeeping_Safety\<close> is \<open>node_house_keeper.py\<close>: what is terminated was idle, was looked up again and was offline.

  \<^bold>\<open>OpenPBS.\<close> \<open>PBS_Hook_Job\<close>, \<open>PBS_Hook\<close> and \<open>PBS_Ncpus\<close> are the two hooks; \<open>PBS_Model\<close> and \<open>PBS_Convert\<close> translate jobs, nodes and queues;
  \<open>PBS_Query\<close> and \<open>PBS_Server\<close> are the commands of the scheduler, an operation being the list of commands it ran; \<open>PBS_Api\<close> answers the hooks.
  A job passes the hook only if the scheduler accepted it, an accepted job passed every check, a select statement reads back, a reset undoes what
  provisioning wrote, and the pages of a job list cover all jobs when every query is answered (the rounds are bounded by the number of ids). A loop over the
  pages of the quota service is bounded by \<open>qe_fuel\<close>, an argument, and \<open>Blocks\<close> is the outcome of a loop that runs out of fuel.
  \<open>Api_Auth\<close> and \<open>Auth_Properties\<close> are the authorization of API calls (\<open>token_service.py\<close>, \<open>api_invocation_context.py\<close>).

  \<^bold>\<open>Monitoring.\<close> \<open>Job_Updates\<close> is \<open>JobMonitorState\<close> as a step relation over the critical sections of the hooks and of the monitor: no update is lost
  and what is pending wakes the monitor, but for the one interleaving \<open>wakeup_can_be_lost\<close> shows. \<open>Job_Cache\<close> is \<open>job_cache.py\<close>: five tables under
  the locale \<open>keyed_table\<close>, interpreted on association lists; the unique indices hold whatever is called and fails, a synchronisation is a bulk write
  of the jobs given, and deleted jobs are forgotten by every query. \<open>Job_Monitor\<close> joins both with \<open>PBS_Query\<close> and the provisioning queues (the fuel of
  \<open>sync_queued\<close> is an argument, and \<open>sync_queued_returns\<close> shows that one turn more than there are jobs is enough). \<open>Finished_Jobs\<close> is
  \<open>finished_job_processor.py\<close>.

  \<^bold>\<open>Queue profiles.\<close> \<open>Profile_Store\<close> is \<open>hpc_queue_profiles_dao.py\<close>: a profile read back is the profile written, but for the settings listed there.
  \<open>Queue_Profiles\<close> is \<open>hpc_queue_profiles_service.py\<close>: profiles as shared objects in a store, the cache, the queues of OpenPBS and the provisioners; every
  sequence of operations keeps one provisioner and one queue per profile.

  \<^bold>\<open>Virtual desktops.\<close> Files are those of \<open>idea-virtual-desktop-controller/src/ideavirtualdesktopcontroller/app\<close>. \<open>Desktop_Model\<close> and \<open>Desktop_Tables\<close>
  are the data with the tables of sessions, servers, schedules, counters and commands; an operation works on a \<open>desktop_world\<close>, those tables with the
  list of the effects on EC2, the broker and the queue. \<open>Desktop_Schedules\<close> is \<open>virtual_desktop_schedule_utils.py\<close>, \<open>Desktop_Sessions\<close> is
  \<open>virtual_desktop_session_utils.py\<close> with the servers and the client of the broker, \<open>Desktop_Events\<close> holds the handlers of \<open>events/handlers\<close>,
  \<open>Desktop_Commands\<close> the queue of the controller, the progress of commands, updates and connections, \<open>Desktop_Api\<close> the requests of users
  (\<open>virtual_desktop_user_api.py\<close>) and \<open>Desktop_Queue\<close> a batch of the events queue (\<open>events_handler_thread.py\<close>). In \<open>Desktop_Lifecycle\<close> the relation
  \<open>becomes\<close> lists how the state of a session may change and \<open>tracks\<close> says that an operation does not leave it; \<open>Desktop_Steps\<close> and \<open>Desktop_Reach\<close> show
  it of every operation and every handler, and join them in the step relation \<open>desk_step\<close>, whose flag \<open>late\<close> allows answers that come after the
  session has moved on and stops that are forced. \<open>Desktop_View\<close> and \<open>Desktop_Cases\<close> hold the properties: a session follows its life cycle, a deletion is final
  unless an answer is late, a user's requests touch his own sessions but for a request to connect, and the cases in which a batch, a schedule or a
  deletion goes wrong.

  \<open>PBS_View\<close>, \<open>PBS_Api_View\<close>, \<open>Monitor_View\<close> and \<open>Profile_View\<close> are concrete inputs at which the hypotheses of the properties hold.

  \<^bold>\<open>Assumptions.\<close> What is not in the repository is an argument of the definitions that use it, a field of one of the environments (\<open>prov_env\<close>,
  \<open>build_env\<close>, \<open>hk_env\<close>, \<open>pbs_server\<close>, \<open>hook_env\<close>, \<open>qp_env\<close>, \<open>desktop_env\<close> and others): the answers of AWS, of the commands of OpenPBS, the JSON, JWT, date and
  pydantic libraries, the clock, uuids and hashes, and what printing a value yields. SQL and DynamoDB tables are association lists under their
  unique keys, an in-memory cache below its bounds is a map. Operations that run under a lock are one step; the interleavings that are modelled are
  those of \<open>Job_Updates\<close>. Messages of errors and logs are left out.

  \<^bold>\<open>Not modelled.\<close> The CloudFormation template of a stack (\<open>cloudformation_stack_builder.py\<close>) is built by the \<open>troposphere\<close> library and is a
  parameter; the threads around the polls, the SQL schema, the export log, e-mails and the document store only perform I/O, as do the command line
  tools (\<open>cli\<close>), the web server, the file system helper, the AWS clients and the user input framework of \<open>idea-sdk\<close>. Of the virtual desktop
  controller, images made from sessions and the validation of requests to create one, software stacks, permission profiles, permissions but for their
  deletion, the API of administrators, the search index and its handlers, the notifications, and the cleanup in Active Directory are left out. The
  cluster manager (accounts, groups and projects) and the administrator with its CDK stacks, installer and integration tests meet the modelled
  applications only through API calls and tables, whose answers are parameters here.
\<close>

end
